(* ===== verification/Prelude.thy ===== *)
theory Prelude imports Main "HOL-Library.AList" begin

text \<open>
  Shared vocabulary of the development: the error monad on sums, the state-and-error monad of
  the stateful operations, loops that stop at the first exception, in-place update of the first or
  the last list element with a given key, and dictionaries built from lists.
  The collection \<open>monad\<close> holds the inversion rules of both monads, the collection
  \<open>run\<close> the rules that evaluate a stateful program forwards.
\<close>

named_theorems monad \<open>inversion rules for the error and the state monad\<close>
named_theorems keeps_rules \<open>operations that keep an invariant\<close>
named_theorems run \<open>forward evaluation of the state monad\<close>

section \<open>Exceptions as sums\<close>

definition bindE :: "'e + 'a \<Rightarrow> ('a \<Rightarrow> 'e + 'b) \<Rightarrow> 'e + 'b" where
  "bindE m f = (case m of Inl e \<Rightarrow> Inl e | Inr x \<Rightarrow> f x)"

definition guardE :: "bool \<Rightarrow> 'e \<Rightarrow> 'e + unit" where
  "guardE ok e = (if ok then Inr () else Inl e)"

lemma bindE_simps [simp]:
  "bindE (Inl e) f = Inl e" "bindE (Inr x) f = f x"
  by (simp_all add: bindE_def)

lemma guardE_simps [simp]: "guardE True e = Inr ()" "guardE False e = Inl e"
  by (simp_all add: guardE_def)

lemma bindE_Inr_iff [monad]: "bindE m f = Inr y \<longleftrightarrow> (\<exists>x. m = Inr x \<and> f x = Inr y)"
  by (cases m) auto

lemma bindE_Inl_iff [monad]:
  "bindE m f = Inl e \<longleftrightarrow> m = Inl e \<or> (\<exists>x. m = Inr x \<and> f x = Inl e)"
  by (cases m) auto

lemma guardE_Inr_iff [monad]: "guardE b e = Inr u \<longleftrightarrow> b"
  by (cases b) auto

lemma guardE_Inl_iff [monad]: "guardE b e = Inl e' \<longleftrightarrow> \<not> b \<and> e = e'"
  by (cases b) auto

lemma bindE_guard: "bindE (guardE b e) f = (if b then f () else Inl e)"
  by simp

text \<open>A \<open>for\<close> loop whose body only checks.\<close>

fun forE :: "('a \<Rightarrow> 'e + unit) \<Rightarrow> 'a list \<Rightarrow> 'e + unit" where
  "forE f [] = Inr ()"
| "forE f (x # xs) = bindE (f x) (\<lambda>_. forE f xs)"

lemma forE_Inr_iff [monad]: "forE f xs = Inr u \<longleftrightarrow> (\<forall>x \<in> set xs. f x = Inr ())"
  by (induction xs) (auto simp: monad)

lemma forE_Inl: "forE f xs = Inl e \<Longrightarrow> \<exists>x \<in> set xs. f x = Inl e"
  by (induction xs) (auto simp: monad)

text \<open>A \<open>for\<close> loop that updates local variables.\<close>

fun foldE :: "('a \<Rightarrow> 's \<Rightarrow> 'e + 's) \<Rightarrow> 'a list \<Rightarrow> 's \<Rightarrow> 'e + 's" where
  "foldE f [] s = Inr s"
| "foldE f (x # xs) s = bindE (f x s) (foldE f xs)"

lemma foldE_append: "foldE f (xs @ ys) s = bindE (foldE f xs s) (foldE f ys)"
  by (induction xs arbitrary: s) (auto simp: bindE_def split: sum.splits)

lemma foldE_invariant:
  assumes "foldE f xs s = Inr t" and "I s"
    and "\<And>x s t. x \<in> set xs \<Longrightarrow> I s \<Longrightarrow> f x s = Inr t \<Longrightarrow> I t"
  shows "I t"
  using assms
proof (induction xs arbitrary: s)
  case (Cons x xs)
  from Cons.prems(1) obtain u where u: "f x s = Inr u" "foldE f xs u = Inr t"
    by (auto simp: monad)
  have "I u" using Cons.prems(2,3) u(1) by auto
  with u(2) Cons.prems(3) show ?case by (intro Cons.IH [of u]) auto
qed simp

text \<open>A list comprehension whose element expression may raise.\<close>

fun mapE :: "('a \<Rightarrow> 'e + 'b) \<Rightarrow> 'a list \<Rightarrow> 'e + 'b list" where
  "mapE f [] = Inr []"
| "mapE f (x # xs) = bindE (f x) (\<lambda>y. bindE (mapE f xs) (\<lambda>ys. Inr (y # ys)))"

lemma mapE_Inr_iff [monad]:
  "mapE f xs = Inr ys \<longleftrightarrow> list_all2 (\<lambda>x y. f x = Inr y) xs ys"
proof (induction xs arbitrary: ys)
  case (Cons x xs)
  show ?case by (cases ys) (auto simp: monad Cons.IH)
qed auto

lemma mapE_total: "(\<And>x. x \<in> set xs \<Longrightarrow> f x = Inr (g x)) \<Longrightarrow> mapE f xs = Inr (map g xs)"
  by (induction xs) auto

lemma mapE_set: "mapE f xs = Inr ys \<Longrightarrow> set ys = {y. \<exists>x \<in> set xs. f x = Inr y}"
  by (induction xs arbitrary: ys) (auto simp: bindE_Inr_iff)

lemma mapE_found: "mapE f xs = Inr ys \<Longrightarrow> x \<in> set xs \<Longrightarrow> \<exists>y \<in> set ys. f x = Inr y"
  by (induction xs arbitrary: ys) (auto simp: bindE_Inr_iff)

lemma mapE_succeeds: "(\<And>x. x \<in> set xs \<Longrightarrow> \<exists>y. f x = Inr y) \<Longrightarrow> \<exists>ys. mapE f xs = Inr ys"
proof (induction xs)
  case (Cons x xs)
  obtain y where "f x = Inr y" using Cons.prems [of x] by auto
  moreover obtain ys where "mapE f xs = Inr ys" using Cons by auto
  ultimately show ?case by simp
qed simp

section \<open>State and exceptions\<close>

text \<open>An operation returns a value or an exception, and the state it left behind either way.\<close>

type_synonym ('s, 'e, 'a) op = "'s \<Rightarrow> ('e + 'a) \<times> 's"

definition returnS :: "'a \<Rightarrow> ('s, 'e, 'a) op" where
  "returnS x s = (Inr x, s)"

definition throwS :: "'e \<Rightarrow> ('s, 'e, 'a) op" where
  "throwS e s = (Inl e, s)"

definition bindS :: "('s, 'e, 'a) op \<Rightarrow> ('a \<Rightarrow> ('s, 'e, 'b) op) \<Rightarrow> ('s, 'e, 'b) op" where
  "bindS m f s = (case m s of (Inl e, t) \<Rightarrow> (Inl e, t) | (Inr x, t) \<Rightarrow> f x t)"

definition liftE :: "'e + 'a \<Rightarrow> ('s, 'e, 'a) op" where
  "liftE r s = (r, s)"

text \<open>A read that may raise, and a write.\<close>

definition readS :: "('s \<Rightarrow> 'e + 'a) \<Rightarrow> ('s, 'e, 'a) op" where
  "readS f s = (f s, s)"

definition modifyS :: "('s \<Rightarrow> 's) \<Rightarrow> ('s, 'e, unit) op" where
  "modifyS f s = (Inr (), f s)"

definition whenS :: "bool \<Rightarrow> ('s, 'e, unit) op \<Rightarrow> ('s, 'e, unit) op" where
  "whenS b m = (if b then m else returnS ())"

fun forS :: "('a \<Rightarrow> ('s, 'e, unit) op) \<Rightarrow> 'a list \<Rightarrow> ('s, 'e, unit) op" where
  "forS f [] = returnS ()"
| "forS f (x # xs) = bindS (f x) (\<lambda>_. forS f xs)"

lemma bindS_run:
  "m s = (Inr x, t) \<Longrightarrow> bindS m f s = f x t"
  "m s = (Inl e, t) \<Longrightarrow> bindS m f s = (Inl e, t)"
  by (simp_all add: bindS_def)

lemma bindS_Inr_iff [monad]:
  "bindS m f s = (Inr y, s') \<longleftrightarrow> (\<exists>x t. m s = (Inr x, t) \<and> f x t = (Inr y, s'))"
  by (auto simp: bindS_def split: prod.splits sum.splits)

lemma bindS_Inl_iff [monad]:
  "bindS m f s = (Inl e, s') \<longleftrightarrow>
     m s = (Inl e, s') \<or> (\<exists>x t. m s = (Inr x, t) \<and> f x t = (Inl e, s'))"
  by (auto simp: bindS_def split: prod.splits sum.splits)

lemma bindS_return [run]: "bindS (returnS x) f s = f x s"
  by (simp add: bindS_def returnS_def)

lemma bindS_throw [run]: "bindS (throwS e) f s = (Inl e, s)"
  by (simp add: bindS_def throwS_def)

lemma bindS_lift [run]: "bindS (liftE r) f s = (case r of Inl e \<Rightarrow> (Inl e, s) | Inr x \<Rightarrow> f x s)"
  by (auto simp: bindS_def liftE_def split: sum.splits)

lemma bindS_read [run]: "bindS (readS g) f s = (case g s of Inl e \<Rightarrow> (Inl e, s) | Inr x \<Rightarrow> f x s)"
  by (auto simp: bindS_def readS_def split: sum.splits)

lemma bindS_modify [run]: "bindS (modifyS h) f s = f () (h s)"
  by (simp add: bindS_def modifyS_def)

lemma bindS_assoc [run]: "bindS (bindS m k) f s = bindS m (\<lambda>x. bindS (k x) f) s"
  by (auto simp: bindS_def split: prod.splits sum.splits)

lemma bindS_cases:
  assumes "bindS m f s = (r, s')"
  obtains (raised) x where "m s = (Inl x, s')" "r = Inl x"
  | (returned) x t where "m s = (Inr x, t)" "f x t = (r, s')"
  using assms by (auto simp: bindS_def split: prod.splits sum.splits)

lemma returnS_iff [monad]: "returnS x s = (r, t) \<longleftrightarrow> r = Inr x \<and> t = s"
  by (auto simp: returnS_def)

lemma throwS_iff [monad]: "throwS e s = (r, t) \<longleftrightarrow> r = Inl e \<and> t = s"
  by (auto simp: throwS_def)

lemma liftE_iff [monad]: "liftE v s = (r, t) \<longleftrightarrow> v = r \<and> t = s"
  by (auto simp: liftE_def)

lemma readS_iff [monad]: "readS f s = (r, t) \<longleftrightarrow> f s = r \<and> t = s"
  by (auto simp: readS_def)

lemma modifyS_iff [monad]: "modifyS f s = (r, t) \<longleftrightarrow> r = Inr () \<and> t = f s"
  by (auto simp: modifyS_def)

lemma forS_Cons_Inr [monad]:
  "forS f (x # xs) s = (Inr u, s') \<longleftrightarrow> (\<exists>t. f x s = (Inr (), t) \<and> forS f xs t = (Inr u, s'))"
  by (auto simp: monad)

lemma forS_append: "forS f (xs @ ys) s = bindS (forS f xs) (\<lambda>_. forS f ys) s"
  by (induction xs arbitrary: s)
     (auto simp: bindS_def returnS_def split: prod.splits sum.splits)

lemma forS_invariant:
  assumes "forS f xs s = (r, t)" and "I s"
    and "\<And>x s r t. x \<in> set xs \<Longrightarrow> I s \<Longrightarrow> f x s = (r, t) \<Longrightarrow> I t"
  shows "I t"
  using assms
proof (induction xs arbitrary: s)
  case Nil
  then show ?case by (simp add: returnS_def)
next
  case (Cons x xs)
  obtain v u where v: "f x s = (v, u)" by (cases "f x s")
  have "I u" using Cons.prems(2,3) v by auto
  have step: "\<And>y a b c. y \<in> set xs \<Longrightarrow> I a \<Longrightarrow> f y a = (b, c) \<Longrightarrow> I c"
    using Cons.prems(3) by (meson list.set_intros(2))
  show ?case
  proof (cases v)
    case (Inl e)
    with Cons.prems(1) v \<open>I u\<close> show ?thesis by (simp add: bindS_def)
  next
    case (Inr w)
    with Cons.prems(1) v have "forS f xs u = (r, t)" by (simp add: bindS_def)
    then show ?thesis using \<open>I u\<close> step by (rule Cons.IH)
  qed
qed

text \<open>A loop whose every pass returns, keeps \<open>I\<close>, and establishes \<open>Q x\<close> without undoing it for the
  other elements, returns and has established \<open>Q\<close> for all of them.\<close>

lemma forS_establishes:
  assumes "\<And>x s. x \<in> set xs \<Longrightarrow> I s \<Longrightarrow>
      \<exists>t. f x s = (Inr (), t) \<and> I t \<and> Q x t \<and> (\<forall>y. y \<in> set xs \<and> Q y s \<longrightarrow> Q y t)"
    and "I s"
  shows "\<exists>t. forS f xs s = (Inr (), t) \<and> I t \<and> (\<forall>x \<in> set xs. Q x t)"
proof -
  have "\<exists>t. forS f ys s = (Inr (), t) \<and> I t \<and> (\<forall>x \<in> set ys. Q x t) \<and>
      (\<forall>y. y \<in> set xs \<and> Q y s \<longrightarrow> Q y t)" if "set ys \<subseteq> set xs" "I s" for ys s
    using that
  proof (induction ys arbitrary: s)
    case (Cons y ys)
    obtain u where u: "f y s = (Inr (), u)" "I u" "Q y u" "\<forall>z. z \<in> set xs \<and> Q z s \<longrightarrow> Q z u"
      using assms(1) [of y s] Cons.prems by auto
    obtain t where "forS f ys u = (Inr (), t)" "I t" "\<forall>x \<in> set ys. Q x t"
      "\<forall>z. z \<in> set xs \<and> Q z u \<longrightarrow> Q z t"
      using Cons.IH [of u] Cons.prems u(2) by auto
    then show ?case using u Cons.prems(1) by (auto simp: bindS_run)
  qed (simp add: returnS_def)
  then show ?thesis using assms(2) by blast
qed

section \<open>Operations that keep an invariant\<close>

text \<open>An operation keeps \<open>I\<close> when the state it leaves satisfies \<open>I\<close>, whether it returns or raises.\<close>

definition keeps :: "('s \<Rightarrow> bool) \<Rightarrow> ('s, 'e, 'a) op \<Rightarrow> bool" where
  "keeps I m \<longleftrightarrow> (\<forall>s r s'. I s \<longrightarrow> m s = (r, s') \<longrightarrow> I s')"

lemma keepsI: "(\<And>s r s'. I s \<Longrightarrow> m s = (r, s') \<Longrightarrow> I s') \<Longrightarrow> keeps I m"
  by (simp add: keeps_def)

lemma keepsD: "keeps I m \<Longrightarrow> I s \<Longrightarrow> m s = (r, s') \<Longrightarrow> I s'"
  by (simp add: keeps_def)

lemma keeps_snd: "keeps I m \<Longrightarrow> I s \<Longrightarrow> I (snd (m s))"
  by (metis keepsD surj_pair snd_conv)

lemma keeps_pure [keeps_rules]:
  "keeps I (returnS x)" "keeps I (throwS e)" "keeps I (liftE r)" "keeps I (readS f)"
  by (auto simp: keeps_def monad)

lemma keeps_bind_strong:
  assumes "keeps I m" and "\<And>x s t. I s \<Longrightarrow> I t \<Longrightarrow> m s = (Inr x, t) \<Longrightarrow> keeps I (f x)"
  shows "keeps I (bindS m f)"
proof (rule keepsI)
  fix s r s'
  assume I: "I s" and run: "bindS m f s = (r, s')"
  from run show "I s'"
  proof (cases rule: bindS_cases)
    case (raised x)
    then show ?thesis using keepsD [OF assms(1) I] by blast
  next
    case (returned x t)
    then show ?thesis using keepsD [OF assms(1) I] assms(2) [OF I] keepsD by metis
  qed
qed

lemma keeps_bind [keeps_rules]:
  "keeps I m \<Longrightarrow> (\<And>x. keeps I (f x)) \<Longrightarrow> keeps I (bindS m f)"
  by (rule keeps_bind_strong)

text \<open>After a check, and after a read of the state.\<close>

lemma keeps_check: "(\<And>x. r = Inr x \<Longrightarrow> keeps I (f x)) \<Longrightarrow> keeps I (bindS (liftE r) f)"
  by (rule keeps_bind_strong) (auto simp: keeps_pure monad)

lemma keeps_readS: "(\<And>x s. I s \<Longrightarrow> g s = Inr x \<Longrightarrow> keeps I (f x)) \<Longrightarrow> keeps I (bindS (readS g) f)"
  by (rule keeps_bind_strong) (auto simp: keeps_pure monad)

lemma keeps_modify [keeps_rules]: "(\<And>s. I s \<Longrightarrow> I (h s)) \<Longrightarrow> keeps I (modifyS h)"
  by (auto simp: keeps_def monad)

lemma keeps_forS [keeps_rules]:
  "(\<And>x. x \<in> set xs \<Longrightarrow> keeps I (f x)) \<Longrightarrow> keeps I (forS f xs)"
proof (induction xs)
  case (Cons x xs)
  then show ?case by (auto intro: keeps_bind)
qed (simp add: keeps_pure)

lemma keeps_if: "(b \<Longrightarrow> keeps I m) \<Longrightarrow> (\<not> b \<Longrightarrow> keeps I n) \<Longrightarrow> keeps I (if b then m else n)"
  by simp

lemma keeps_option:
  "(x = None \<Longrightarrow> keeps I m) \<Longrightarrow> (\<And>y. x = Some y \<Longrightarrow> keeps I (f y)) \<Longrightarrow>
   keeps I (case x of None \<Rightarrow> m | Some y \<Rightarrow> f y)"
  by (cases x) auto

section \<open>Lists as sequences of mutable objects\<close>

fun update_first :: "('a \<Rightarrow> bool) \<Rightarrow> ('a \<Rightarrow> 'a) \<Rightarrow> 'a list \<Rightarrow> 'a list" where
  "update_first p f [] = []"
| "update_first p f (x # xs) = (if p x then f x # xs else x # update_first p f xs)"

definition update_last :: "('a \<Rightarrow> bool) \<Rightarrow> ('a \<Rightarrow> 'a) \<Rightarrow> 'a list \<Rightarrow> 'a list" where
  "update_last p f xs = rev (update_first p f (rev xs))"

text \<open>The dictionary \<open>{key(x): x for x in xs}\<close>: a later element replaces an earlier one.\<close>

definition dict_by :: "('a \<Rightarrow> 'k) \<Rightarrow> 'a list \<Rightarrow> 'k \<Rightarrow> 'a option" where
  "dict_by key xs = map_of (rev (map (\<lambda>x. (key x, x)) xs))"

lemma update_first_map:
  "distinct (map key xs) \<Longrightarrow>
   update_first (\<lambda>x. key x = k) f xs = map (\<lambda>x. if key x = k then f x else x) xs"
proof (induction xs)
  case (Cons x xs)
  show ?case
  proof (cases "key x = k")
    case True
    with Cons.prems have "k \<notin> key ` set xs" by auto
    then have "map (\<lambda>y. if key y = k then f y else y) xs = xs"
      by (intro map_idI) (auto simp: image_iff)
    with True show ?thesis by simp
  qed (use Cons in simp)
qed simp

lemma distinct_map_rev: "distinct (map key (rev xs)) = distinct (map key xs)"
  by (simp add: rev_map [symmetric])

lemma update_last_map:
  assumes "distinct (map key xs)"
  shows "update_last (\<lambda>x. key x = k) f xs = map (\<lambda>x. if key x = k then f x else x) xs"
proof -
  have "distinct (map key (rev xs))" using assms by (simp add: distinct_map_rev)
  from update_first_map [OF this] show ?thesis
    by (simp add: update_last_def rev_map)
qed

lemma length_update_first [simp]: "length (update_first p f xs) = length xs"
  by (induction xs) auto

lemma length_update_last [simp]: "length (update_last p f xs) = length xs"
  by (simp add: update_last_def)

lemma map_update_first:
  "(\<And>x. g (f x) = g x) \<Longrightarrow> map g (update_first p f xs) = map g xs"
  by (induction xs) auto

lemma map_update_last:
  "(\<And>x. g (f x) = g x) \<Longrightarrow> map g (update_last p f xs) = map g xs"
  by (simp add: update_last_def rev_map [symmetric] map_update_first)

lemma set_update_first: "set (update_first p f xs) \<subseteq> set xs \<union> f ` {x \<in> set xs. p x}"
  by (induction xs) auto

lemma set_update_last: "set (update_last p f xs) \<subseteq> set xs \<union> f ` {x \<in> set xs. p x}"
  using set_update_first [of p f "rev xs"] by (simp add: update_last_def)

lemma update_first_in:
  "find p xs = Some x \<Longrightarrow> f x \<in> set (update_first p f xs)"
  by (induction xs) (auto split: if_splits)

lemma dict_by_Some: "dict_by key xs k = Some x \<Longrightarrow> x \<in> set xs \<and> key x = k"
  by (auto simp: dict_by_def dest!: map_of_SomeD)

lemma dict_by_None_iff: "dict_by key xs k = None \<longleftrightarrow> k \<notin> key ` set xs"
  by (auto simp: dict_by_def map_of_eq_None_iff image_iff)

lemma dict_by_distinct:
  assumes "distinct (map key xs)" and "x \<in> set xs"
  shows "dict_by key xs (key x) = Some x"
proof -
  have "distinct (map fst (rev (map (\<lambda>x. (key x, x)) xs)))"
    using assms(1) by (simp add: rev_map [symmetric] o_def)
  then show ?thesis
    using assms(2) unfolding dict_by_def by (intro map_of_is_SomeI) auto
qed

lemma find_distinct:
  "distinct (map key xs) \<Longrightarrow> x \<in> set xs \<Longrightarrow> find (\<lambda>y. key y = key x) xs = Some x"
  by (induction xs) auto

lemma find_SomeD: "find p xs = Some x \<Longrightarrow> x \<in> set xs \<and> p x"
  by (induction xs) (auto split: if_splits)

lemma find_NoneD: "find p xs = None \<Longrightarrow> x \<in> set xs \<Longrightarrow> \<not> p x"
  by (induction xs) (auto split: if_splits)

section \<open>Association lists as directories of files\<close>

lemma map_of_update [simp]: "map_of (AList.update k v al) = (map_of al)(k \<mapsto> v)"
  by (rule AList.update_conv')

lemma map_of_delete [simp]: "map_of (AList.delete k al) = (map_of al)(k := None)"
  by (rule AList.delete_conv')

section \<open>Decimal notation\<close>

fun show_nat :: "nat \<Rightarrow> string" where
  "show_nat n = (if n < 10 then [char_of (48 + n)]
                 else show_nat (n div 10) @ [char_of (48 + n mod 10)])"

declare show_nat.simps [simp del]

definition show_int :: "int \<Rightarrow> string" where
  "show_int i = (if i < 0 then CHR ''-'' # show_nat (nat (- i)) else show_nat (nat i))"

definition digits_value :: "string \<Rightarrow> nat" where
  "digits_value = foldl (\<lambda>n c. 10 * n + (of_char c - 48)) 0"

lemma digits_value_snoc: "digits_value (s @ [c]) = 10 * digits_value s + (of_char c - 48)"
  by (simp add: digits_value_def)

lemma digits_value_show: "digits_value (show_nat n) = n"
proof (induction n rule: show_nat.induct)
  case (1 n)
  have digit: "of_char (char_of (48 + k)) - (48::nat) = k" if "k < 10" for k :: nat using that by simp
  show ?case
  proof (cases "n < 10")
    case True
    then show ?thesis using digit [of n] by (simp add: show_nat.simps [of n] digits_value_def)
  next
    case False
    then have "digits_value (show_nat n) = 10 * (n div 10) + n mod 10"
      using 1 digit [of "n mod 10"]
      by (simp add: show_nat.simps [of n] digits_value_snoc del: of_char_of)
    then show ?thesis by simp
  qed
qed

lemma digits_value_padding: "digits_value (replicate k CHR ''0'' @ s) = digits_value s"
proof (induction k)
  case (Suc k)
  then show ?case by (simp add: digits_value_def)
qed simp

end
