(* ===== verification/Errors.thy ===== *)
theory Errors imports Prelude begin

text \<open>
  The exceptions of the control plane (\<^verbatim>\<open>backend/harness/core/errors.py\<close> and the builtin
  exceptions the modelled code raises), the error catalog lookup, and the identifier check of
  \<^verbatim>\<open>backend/harness/storage/layout.py\<close> that guards every path component.
\<close>

datatype error_code =
    VALIDATION_ERROR
  | SCHEMA_VERSION_UNSUPPORTED
  | TASK_NOT_FOUND
  | INSTANCE_NOT_FOUND
  | REVISION_CONFLICT
  | IDEMPOTENCY_CONFLICT
  | INVALID_STATE_TRANSITION
  | TASK_ARCHIVED
  | STALE_AGENT_OBSERVATION
  | BUDGET_GATE_DENIED
  | PROCESS_START_FAILED
  | CONFIG_INTEGRITY_FAILED
  | FIELD_NOT_EDITABLE
  | INSTANCE_CONFIG_LOCKED
  | SETTINGS_REVISION_CONFLICT
  | SYNC_SCOPE_CHANGED
  | PATH_OUTSIDE_TASK_ROOT
  | ASSET_CORRUPTED
  | ASSET_VALIDATION_FAILED
  | USAGE_COLLECTION_FAILED
  | MODEL_NOT_APPROVED
  | MODEL_PROVIDER_NOT_AUTHORIZED
  | SAFE_CHECKPOINT_UNAVAILABLE
  | ARCHIVE_DRAIN_TIMEOUT
  | ARCHIVE_DRAIN_UNKNOWN
  | ADAPTER_UNAVAILABLE
  | UI_LINK_REJECTED
  | IMAGE_RUNTIME_ATTESTATION_FAILED
  | CONTROL_PLANE_NOT_READY
  | MASTER_RUN_FAILED
  | MASTER_OUTPUT_INVALID
  | MASTER_ASSET_CATALOG_FAILED
  | MASTER_ASSET_TOOL_FAILED
  | INTERNAL_ERROR

text \<open>The values that error details carry.\<close>

datatype detail = DStr string | DInt int | DNull | DList "string list"

datatype exn =
    HarnessError error_code string "(string \<times> detail) list"
  | RuntimeError string
  | ValueError string
  | KeyError string
  | IndexError string
  | StopIteration
  | TypeError string
  | SimulatedCrash string

type_synonym 'a res = "exn + 'a"

fun error_code_of :: "exn \<Rightarrow> error_code option" where
  "error_code_of (HarnessError c m d) = Some c"
| "error_code_of _ = None"

section \<open>Error catalog\<close>

record error_definition =
  ed_code :: string
  ed_http_status :: int
  ed_retryable :: bool

text \<open>
  \<open>ErrorCatalog.__init__\<close> builds a dictionary from the catalog's entries (a later entry
  replaces an earlier one); \<open>get\<close> falls back to the \<open>INTERNAL_ERROR\<close> entry, whose absence
  is a \<open>KeyError\<close>: the fallback is evaluated on every call.
\<close>

definition catalog_get :: "error_definition list \<Rightarrow> string \<Rightarrow> error_definition res" where
  "catalog_get raw code =
     (let definitions = dict_by ed_code raw in
      case definitions ''INTERNAL_ERROR'' of
        None \<Rightarrow> Inl (KeyError ''INTERNAL_ERROR'')
      | Some fallback \<Rightarrow>
          Inr (case definitions code of Some d \<Rightarrow> d | None \<Rightarrow> fallback))"

section \<open>Identifiers\<close>

definition is_letter :: "char \<Rightarrow> bool" where
  "is_letter c = (let n = (of_char c :: nat) in (65 \<le> n \<and> n \<le> 90) \<or> (97 \<le> n \<and> n \<le> 122))"

definition is_digit :: "char \<Rightarrow> bool" where
  "is_digit c = (let n = (of_char c :: nat) in 48 \<le> n \<and> n \<le> 57)"

definition is_ident_char :: "char \<Rightarrow> bool" where
  "is_ident_char c = (is_letter c \<or> is_digit c \<or> c = CHR ''_'' \<or> c = CHR ''-'')"

text \<open>The regular expression \<^verbatim>\<open>^[A-Za-z][A-Za-z0-9_-]{0,127}$\<close>, matched in full.\<close>

fun is_identifier :: "string \<Rightarrow> bool" where
  "is_identifier [] = False"
| "is_identifier (c # cs) = (is_letter c \<and> list_all is_ident_char cs \<and> length cs \<le> 127)"

definition validate_identifier :: "string \<Rightarrow> string \<Rightarrow> string res" where
  "validate_identifier value label =
     (if is_identifier value then Inr value
      else Inl (HarnessError VALIDATION_ERROR (''Invalid '' @ label @ ''.'')
                  [(''field'', DStr label)]))"

lemma validate_identifier_Inr [monad]:
  "validate_identifier v l = Inr w \<longleftrightarrow> is_identifier v \<and> w = v"
  by (auto simp: validate_identifier_def)

lemma validate_identifier_ok [simp]: "is_identifier v \<Longrightarrow> validate_identifier v l = Inr v"
  by (simp add: validate_identifier_def)

text \<open>An identifier never contains a path separator or a dot.\<close>

lemma is_identifier_chars:
  assumes "is_identifier v" and "c \<in> set v"
  shows "is_ident_char c"
proof (cases v)
  case (Cons d ds)
  with assms show ?thesis by (auto simp: is_ident_char_def list_all_iff)
qed (use assms in simp)

lemma identifier_no_separator:
  assumes "is_identifier v"
  shows "CHR ''/'' \<notin> set v" "CHR ''.'' \<notin> set v" "v \<noteq> []"
proof -
  have "\<not> is_ident_char CHR ''/''" "\<not> is_ident_char CHR ''.''"
    by (simp_all add: is_ident_char_def is_letter_def is_digit_def)
  then show "CHR ''/'' \<notin> set v" "CHR ''.'' \<notin> set v"
    using is_identifier_chars [OF assms] by auto
  show "v \<noteq> []" using assms by auto
qed

section \<open>Decimal texts\<close>

lemma show_nat_digits: "list_all is_digit (show_nat n)"
proof (induction n rule: show_nat.induct)
  case (1 n)
  have "is_digit (char_of (48 + k))" if "k < 10" for k :: nat
    using that by (simp add: is_digit_def)
  then show ?case using 1 by (simp add: show_nat.simps [of n])
qed

lemma show_nat_not_Nil [simp]: "show_nat n \<noteq> []"
  by (simp add: show_nat.simps [of n])

end
