(* ===== verification/Contracts.thy ===== *)
theory Contracts imports Errors begin

text \<open>
  The contract objects the control plane stores, as records with the fields of
  \<^verbatim>\<open>contracts/v1/schemas\<close> (all closed by \<open>additionalProperties: false\<close>): tasks, stages,
  agent instances, task cards and plans, and the command envelope of
  \<^verbatim>\<open>backend/harness/domain/commands.py\<close>. An optional or nullable field is an option;
  the constant \<open>schema_version\<close> of tasks, stages and instances is left out. Time stamps are
  strings, as in the code.
\<close>

section \<open>Enumerations\<close>

datatype task_status =
    T_DRAFT | T_PLANNED | T_AWAITING_START_CONFIRMATION | T_RUNNING | T_WAITING_APPROVAL
  | T_BLOCKED_UNAVAILABLE | T_FAILED | T_SUCCEEDED | T_PARTIAL | T_CANCELLED | T_ARCHIVED

datatype stage_status =
    S_PENDING | S_READY | S_RUNNING | S_WAITING_APPROVAL | S_SUCCEEDED | S_FAILED
  | S_UNAVAILABLE | S_SKIPPED | S_CANCELLED

datatype instance_status =
    I_CREATED | I_READY | I_UNAVAILABLE | I_STARTING | I_RUNNING | I_WAITING_APPROVAL
  | I_FAILED_TO_START | I_SUCCEEDED | I_FAILED | I_CRASHED | I_CANCELLED | I_SUPERSEDED
  | I_STOPPED | I_ARCHIVED

datatype agent_type = General | Image | Ppt | OtherAgent string

datatype actor_type = Human | Master | System | Adapter

datatype start_policy = Manual | Auto

fun agent_type_name :: "agent_type \<Rightarrow> string" where
  "agent_type_name General = ''general''"
| "agent_type_name Image = ''image''"
| "agent_type_name Ppt = ''ppt''"
| "agent_type_name (OtherAgent s) = s"

fun actor_type_name :: "actor_type \<Rightarrow> string" where
  "actor_type_name Human = ''human''"
| "actor_type_name Master = ''master''"
| "actor_type_name System = ''system''"
| "actor_type_name Adapter = ''adapter''"

section \<open>Command envelope\<close>

record command_envelope =
  ce_idempotency_key :: string
  ce_actor_type :: actor_type
  ce_actor_id :: string
  ce_expected_revision :: int

text \<open>The field constraints of the model: a key of 1 to 128 characters, an identifier, a revision
  that is not negative.\<close>

definition envelope_valid :: "command_envelope \<Rightarrow> bool" where
  "envelope_valid e =
     (1 \<le> length (ce_idempotency_key e) \<and> length (ce_idempotency_key e) \<le> 128 \<and>
      is_identifier (ce_actor_id e) \<and> 0 \<le> ce_expected_revision e)"

record actor =
  ac_type :: actor_type
  ac_id :: string

section \<open>Tasks, stages, instances, cards, plans\<close>

record main_task =
  tk_task_id :: string
  tk_title :: string
  tk_goal :: string
  tk_master_owner :: string
  tk_start_policy :: start_policy
  tk_input_manifest :: string
  tk_status :: task_status
  tk_created_at :: string
  tk_updated_at :: string
  tk_plan_revision :: int

record downgrade =
  dg_authorization_id :: string
  dg_authorized_at :: string
  dg_authorized_by_type :: actor_type
  dg_authorized_by_id :: string
  dg_plan_revision :: int
  dg_reason :: string

record lifecycle =
  lc_original_required :: bool
  lc_first_activated_at :: "string option"
  lc_authorized_downgrade :: "downgrade option"

record stage =
  sg_stage_id :: string
  sg_task_id :: string
  sg_type :: agent_type
  sg_position :: int
  sg_depends_on :: "string list"
  sg_required :: bool
  sg_lifecycle :: lifecycle
  sg_status :: stage_status
  sg_instance_ids :: "string list"

record process_info =
  pr_pid :: int
  pr_port :: int
  pr_launch_id :: string
  pr_state :: string
  pr_started_at :: string

record delivery_rejection =
  dr_code :: string
  dr_message :: string
  dr_details :: string
  dr_rejected_at :: "string option"
  dr_retryable :: "bool option"

record start_failure =
  sf_code :: string
  sf_message :: string
  sf_details :: string
  sf_phase :: string
  sf_operation_id :: string
  sf_attempt :: int
  sf_retryable :: bool
  sf_failed_at :: string

record agent_instance =
  in_instance_id :: string
  in_task_id :: string
  in_stage_id :: string
  in_agent_type :: agent_type
  in_required :: bool
  in_lifecycle :: lifecycle
  in_status :: instance_status
  in_approval_mode :: string
  in_manual_finished :: "bool option"
  in_manual_business_status :: "string option"
  in_config_revision :: int
  in_credential_pair_ref :: "string option"
  in_credential_pair_revision :: "int option"
  in_workspace_relpath :: string
  in_task_card_relpath :: string
  in_ui_url :: "string option"
  in_process :: "process_info option"
  in_restart_required :: "bool option"
  in_delivery_rejection :: "delivery_rejection option"
  in_start_failure :: "start_failure option"
  in_created_at :: string

record expected_delivery =
  xd_kind :: string
  xd_role :: string
  xd_required :: bool
  xd_accepted_mime_types :: "string list"

text \<open>An input asset is its identifier and the relative path of its manifest.\<close>

record task_card =
  cd_schema_version :: "string option"
  cd_card_id :: string
  cd_revision :: int
  cd_task_id :: string
  cd_stage_id :: string
  cd_instance_id :: string
  cd_agent_type :: agent_type
  cd_objective :: string
  cd_instructions :: "string list"
  cd_input_assets :: "(string \<times> string) list"
  cd_expected_deliveries :: "expected_delivery list"
  cd_parameters :: string
  cd_retry_group_id :: "string option"
  cd_created_at :: "string option"

record task_plan =
  pl_task :: main_task
  pl_stages :: "stage list"
  pl_instances :: "agent_instance list"
  pl_task_cards :: "task_card list"

abbreviation cd_input_asset_ids :: "task_card \<Rightarrow> string list" where
  "cd_input_asset_ids c \<equiv> map fst (cd_input_assets c)"

type_synonym stage_dict = "string \<Rightarrow> stage option"
type_synonym instance_dict = "string \<Rightarrow> agent_instance option"

abbreviation stages_by_id :: "stage list \<Rightarrow> stage_dict" where
  "stages_by_id \<equiv> dict_by sg_stage_id"

abbreviation instances_by_id :: "agent_instance list \<Rightarrow> instance_dict" where
  "instances_by_id \<equiv> dict_by in_instance_id"

text \<open>A subscript of a dictionary: a missing key is a \<open>KeyError\<close>.\<close>

definition subscript :: "(string \<Rightarrow> 'a option) \<Rightarrow> string \<Rightarrow> 'a res" where
  "subscript d k = (case d k of None \<Rightarrow> Inl (KeyError k) | Some v \<Rightarrow> Inr v)"

lemma subscript_Inr_iff [monad]: "subscript d k = Inr v \<longleftrightarrow> d k = Some v"
  by (auto simp: subscript_def split: option.splits)

lemma subscript_Some [simp]: "d k = Some v \<Longrightarrow> subscript d k = Inr v"
  by (simp add: subscript_def)

section \<open>Finite status types\<close>

text \<open>
  The status types are instances of \<open>enum\<close>, so that a statement quantified over statuses is
  decided by evaluation.
\<close>

lemma UNIV_task_status: "(UNIV :: task_status set) = set [T_DRAFT, T_PLANNED, T_AWAITING_START_CONFIRMATION, T_RUNNING, T_WAITING_APPROVAL, T_BLOCKED_UNAVAILABLE, T_FAILED, T_SUCCEEDED, T_PARTIAL, T_CANCELLED, T_ARCHIVED]"
proof -
  have "x \<in> set [T_DRAFT, T_PLANNED, T_AWAITING_START_CONFIRMATION, T_RUNNING, T_WAITING_APPROVAL, T_BLOCKED_UNAVAILABLE, T_FAILED, T_SUCCEEDED, T_PARTIAL, T_CANCELLED, T_ARCHIVED]" for x
    by (cases x) simp_all
  then show ?thesis by blast
qed

instantiation task_status :: enum
begin

definition enum_task_status :: "task_status list" where
  "enum_task_status = [T_DRAFT, T_PLANNED, T_AWAITING_START_CONFIRMATION, T_RUNNING, T_WAITING_APPROVAL, T_BLOCKED_UNAVAILABLE, T_FAILED, T_SUCCEEDED, T_PARTIAL, T_CANCELLED, T_ARCHIVED]"

definition enum_all_task_status :: "(task_status \<Rightarrow> bool) \<Rightarrow> bool" where
  "enum_all_task_status P = list_all P [T_DRAFT, T_PLANNED, T_AWAITING_START_CONFIRMATION, T_RUNNING, T_WAITING_APPROVAL, T_BLOCKED_UNAVAILABLE, T_FAILED, T_SUCCEEDED, T_PARTIAL, T_CANCELLED, T_ARCHIVED]"

definition enum_ex_task_status :: "(task_status \<Rightarrow> bool) \<Rightarrow> bool" where
  "enum_ex_task_status P = list_ex P [T_DRAFT, T_PLANNED, T_AWAITING_START_CONFIRMATION, T_RUNNING, T_WAITING_APPROVAL, T_BLOCKED_UNAVAILABLE, T_FAILED, T_SUCCEEDED, T_PARTIAL, T_CANCELLED, T_ARCHIVED]"

instance
  by standard
     (simp_all only: enum_task_status_def enum_all_task_status_def enum_ex_task_status_def UNIV_task_status
        list_all_iff list_ex_iff, simp_all)

end

lemma UNIV_stage_status: "(UNIV :: stage_status set) = set [S_PENDING, S_READY, S_RUNNING, S_WAITING_APPROVAL, S_SUCCEEDED, S_FAILED, S_UNAVAILABLE, S_SKIPPED, S_CANCELLED]"
proof -
  have "x \<in> set [S_PENDING, S_READY, S_RUNNING, S_WAITING_APPROVAL, S_SUCCEEDED, S_FAILED, S_UNAVAILABLE, S_SKIPPED, S_CANCELLED]" for x
    by (cases x) simp_all
  then show ?thesis by blast
qed

instantiation stage_status :: enum
begin

definition enum_stage_status :: "stage_status list" where
  "enum_stage_status = [S_PENDING, S_READY, S_RUNNING, S_WAITING_APPROVAL, S_SUCCEEDED, S_FAILED, S_UNAVAILABLE, S_SKIPPED, S_CANCELLED]"

definition enum_all_stage_status :: "(stage_status \<Rightarrow> bool) \<Rightarrow> bool" where
  "enum_all_stage_status P = list_all P [S_PENDING, S_READY, S_RUNNING, S_WAITING_APPROVAL, S_SUCCEEDED, S_FAILED, S_UNAVAILABLE, S_SKIPPED, S_CANCELLED]"

definition enum_ex_stage_status :: "(stage_status \<Rightarrow> bool) \<Rightarrow> bool" where
  "enum_ex_stage_status P = list_ex P [S_PENDING, S_READY, S_RUNNING, S_WAITING_APPROVAL, S_SUCCEEDED, S_FAILED, S_UNAVAILABLE, S_SKIPPED, S_CANCELLED]"

instance
  by standard
     (simp_all only: enum_stage_status_def enum_all_stage_status_def enum_ex_stage_status_def UNIV_stage_status
        list_all_iff list_ex_iff, simp_all)

end

lemma UNIV_instance_status: "(UNIV :: instance_status set) = set [I_CREATED, I_READY, I_UNAVAILABLE, I_STARTING, I_RUNNING, I_WAITING_APPROVAL, I_FAILED_TO_START, I_SUCCEEDED, I_FAILED, I_CRASHED, I_CANCELLED, I_SUPERSEDED, I_STOPPED, I_ARCHIVED]"
proof -
  have "x \<in> set [I_CREATED, I_READY, I_UNAVAILABLE, I_STARTING, I_RUNNING, I_WAITING_APPROVAL, I_FAILED_TO_START, I_SUCCEEDED, I_FAILED, I_CRASHED, I_CANCELLED, I_SUPERSEDED, I_STOPPED, I_ARCHIVED]" for x
    by (cases x) simp_all
  then show ?thesis by blast
qed

instantiation instance_status :: enum
begin

definition enum_instance_status :: "instance_status list" where
  "enum_instance_status = [I_CREATED, I_READY, I_UNAVAILABLE, I_STARTING, I_RUNNING, I_WAITING_APPROVAL, I_FAILED_TO_START, I_SUCCEEDED, I_FAILED, I_CRASHED, I_CANCELLED, I_SUPERSEDED, I_STOPPED, I_ARCHIVED]"

definition enum_all_instance_status :: "(instance_status \<Rightarrow> bool) \<Rightarrow> bool" where
  "enum_all_instance_status P = list_all P [I_CREATED, I_READY, I_UNAVAILABLE, I_STARTING, I_RUNNING, I_WAITING_APPROVAL, I_FAILED_TO_START, I_SUCCEEDED, I_FAILED, I_CRASHED, I_CANCELLED, I_SUPERSEDED, I_STOPPED, I_ARCHIVED]"

definition enum_ex_instance_status :: "(instance_status \<Rightarrow> bool) \<Rightarrow> bool" where
  "enum_ex_instance_status P = list_ex P [I_CREATED, I_READY, I_UNAVAILABLE, I_STARTING, I_RUNNING, I_WAITING_APPROVAL, I_FAILED_TO_START, I_SUCCEEDED, I_FAILED, I_CRASHED, I_CANCELLED, I_SUPERSEDED, I_STOPPED, I_ARCHIVED]"

instance
  by standard
     (simp_all only: enum_instance_status_def enum_all_instance_status_def enum_ex_instance_status_def UNIV_instance_status
        list_all_iff list_ex_iff, simp_all)

end

end
