(* ===== verification/State_Machine.thy ===== *)
theory State_Machine imports Contracts begin

text \<open>
  The frozen transition catalog (\<^verbatim>\<open>contracts/v1/catalogs/status-codes.json\<close>) and
  \<^verbatim>\<open>backend/harness/domain/state_machine.py\<close>: the guarded transition and the aggregate state
  of a stage and of a task. Dictionaries keyed by id are passed as the list they are built from;
  a lookup is \<open>dict_by\<close>, and a missing key is a \<open>KeyError\<close>.
\<close>

section \<open>The catalog\<close>

fun task_status_name :: "task_status \<Rightarrow> string" where
  "task_status_name T_DRAFT = ''DRAFT''"
| "task_status_name T_PLANNED = ''PLANNED''"
| "task_status_name T_AWAITING_START_CONFIRMATION = ''AWAITING_START_CONFIRMATION''"
| "task_status_name T_RUNNING = ''RUNNING''"
| "task_status_name T_WAITING_APPROVAL = ''WAITING_APPROVAL''"
| "task_status_name T_BLOCKED_UNAVAILABLE = ''BLOCKED_UNAVAILABLE''"
| "task_status_name T_FAILED = ''FAILED''"
| "task_status_name T_SUCCEEDED = ''SUCCEEDED''"
| "task_status_name T_PARTIAL = ''PARTIAL''"
| "task_status_name T_CANCELLED = ''CANCELLED''"
| "task_status_name T_ARCHIVED = ''ARCHIVED''"

fun task_transitions :: "task_status \<Rightarrow> task_status list" where
  "task_transitions T_DRAFT = [T_PLANNED, T_CANCELLED, T_ARCHIVED]"
| "task_transitions T_PLANNED =
     [T_AWAITING_START_CONFIRMATION, T_RUNNING, T_BLOCKED_UNAVAILABLE, T_CANCELLED,
      T_ARCHIVED]"
| "task_transitions T_AWAITING_START_CONFIRMATION =
     [T_RUNNING, T_BLOCKED_UNAVAILABLE, T_CANCELLED, T_ARCHIVED]"
| "task_transitions T_RUNNING =
     [T_WAITING_APPROVAL, T_BLOCKED_UNAVAILABLE, T_FAILED, T_SUCCEEDED, T_PARTIAL,
      T_CANCELLED, T_ARCHIVED]"
| "task_transitions T_WAITING_APPROVAL =
     [T_RUNNING, T_BLOCKED_UNAVAILABLE, T_FAILED, T_SUCCEEDED, T_PARTIAL, T_CANCELLED,
      T_ARCHIVED]"
| "task_transitions T_BLOCKED_UNAVAILABLE =
     [T_PLANNED, T_RUNNING, T_PARTIAL, T_CANCELLED, T_ARCHIVED]"
| "task_transitions T_FAILED = [T_PLANNED, T_RUNNING, T_PARTIAL, T_CANCELLED, T_ARCHIVED]"
| "task_transitions T_SUCCEEDED = [T_ARCHIVED]"
| "task_transitions T_PARTIAL = [T_ARCHIVED]"
| "task_transitions T_CANCELLED = [T_ARCHIVED]"
| "task_transitions T_ARCHIVED =
     [T_DRAFT, T_PLANNED, T_AWAITING_START_CONFIRMATION, T_RUNNING, T_WAITING_APPROVAL,
      T_BLOCKED_UNAVAILABLE, T_FAILED, T_SUCCEEDED, T_PARTIAL, T_CANCELLED]"

fun stage_status_name :: "stage_status \<Rightarrow> string" where
  "stage_status_name S_PENDING = ''PENDING''"
| "stage_status_name S_READY = ''READY''"
| "stage_status_name S_RUNNING = ''RUNNING''"
| "stage_status_name S_WAITING_APPROVAL = ''WAITING_APPROVAL''"
| "stage_status_name S_SUCCEEDED = ''SUCCEEDED''"
| "stage_status_name S_FAILED = ''FAILED''"
| "stage_status_name S_UNAVAILABLE = ''UNAVAILABLE''"
| "stage_status_name S_SKIPPED = ''SKIPPED''"
| "stage_status_name S_CANCELLED = ''CANCELLED''"

fun stage_transitions :: "stage_status \<Rightarrow> stage_status list" where
  "stage_transitions S_PENDING = [S_READY, S_UNAVAILABLE, S_SKIPPED, S_CANCELLED]"
| "stage_transitions S_READY = [S_RUNNING, S_FAILED, S_UNAVAILABLE, S_SKIPPED, S_CANCELLED]"
| "stage_transitions S_RUNNING = [S_WAITING_APPROVAL, S_SUCCEEDED, S_FAILED, S_CANCELLED]"
| "stage_transitions S_WAITING_APPROVAL = [S_RUNNING, S_SUCCEEDED, S_FAILED, S_CANCELLED]"
| "stage_transitions S_FAILED = [S_READY, S_RUNNING]"
| "stage_transitions S_UNAVAILABLE = [S_READY, S_SKIPPED]"
| "stage_transitions S_SUCCEEDED = []"
| "stage_transitions S_SKIPPED = []"
| "stage_transitions S_CANCELLED = []"

fun instance_status_name :: "instance_status \<Rightarrow> string" where
  "instance_status_name I_CREATED = ''CREATED''"
| "instance_status_name I_READY = ''READY''"
| "instance_status_name I_UNAVAILABLE = ''UNAVAILABLE''"
| "instance_status_name I_STARTING = ''STARTING''"
| "instance_status_name I_RUNNING = ''RUNNING''"
| "instance_status_name I_WAITING_APPROVAL = ''WAITING_APPROVAL''"
| "instance_status_name I_FAILED_TO_START = ''FAILED_TO_START''"
| "instance_status_name I_SUCCEEDED = ''SUCCEEDED''"
| "instance_status_name I_FAILED = ''FAILED''"
| "instance_status_name I_CRASHED = ''CRASHED''"
| "instance_status_name I_CANCELLED = ''CANCELLED''"
| "instance_status_name I_SUPERSEDED = ''SUPERSEDED''"
| "instance_status_name I_STOPPED = ''STOPPED''"
| "instance_status_name I_ARCHIVED = ''ARCHIVED''"

fun instance_transitions :: "instance_status \<Rightarrow> instance_status list" where
  "instance_transitions I_CREATED = [I_READY, I_UNAVAILABLE]"
| "instance_transitions I_UNAVAILABLE = [I_READY, I_CANCELLED, I_ARCHIVED]"
| "instance_transitions I_READY = [I_STARTING, I_FAILED_TO_START, I_CANCELLED]"
| "instance_transitions I_STARTING =
     [I_RUNNING, I_FAILED_TO_START, I_CRASHED, I_CANCELLED, I_STOPPED]"
| "instance_transitions I_RUNNING =
     [I_WAITING_APPROVAL, I_FAILED_TO_START, I_SUCCEEDED, I_FAILED, I_CRASHED, I_CANCELLED,
      I_STOPPED]"
| "instance_transitions I_WAITING_APPROVAL =
     [I_RUNNING, I_SUCCEEDED, I_FAILED, I_CANCELLED, I_STOPPED]"
| "instance_transitions I_FAILED_TO_START =
     [I_READY, I_STARTING, I_SUPERSEDED, I_CANCELLED, I_ARCHIVED]"
| "instance_transitions I_FAILED =
     [I_READY, I_STARTING, I_SUPERSEDED, I_CANCELLED, I_STOPPED, I_ARCHIVED]"
| "instance_transitions I_CRASHED = [I_READY, I_STARTING, I_SUPERSEDED, I_CANCELLED, I_ARCHIVED]"
| "instance_transitions I_SUCCEEDED = [I_STOPPED, I_ARCHIVED]"
| "instance_transitions I_CANCELLED = [I_ARCHIVED]"
| "instance_transitions I_SUPERSEDED = [I_ARCHIVED]"
| "instance_transitions I_STOPPED =
     [I_STARTING, I_RUNNING, I_WAITING_APPROVAL, I_FAILED, I_SUCCEEDED, I_CANCELLED,
      I_ARCHIVED]"
| "instance_transitions I_ARCHIVED = []"

section \<open>Guarded transition\<close>

definition transition ::
  "string \<Rightarrow> ('s \<Rightarrow> 's list) \<Rightarrow> ('s \<Rightarrow> string) \<Rightarrow> 's \<Rightarrow> 's \<Rightarrow> unit res" where
  "transition kind transitions name current target =
     guardE (target \<in> set (transitions current))
       (HarnessError INVALID_STATE_TRANSITION
          ''The requested state transition is not allowed.''
          [(''object_type'', DStr kind), (''current'', DStr (name current)),
           (''target'', DStr (name target))])"

definition task_transition :: "task_status \<Rightarrow> task_status \<Rightarrow> unit res" where
  "task_transition = transition ''main_task'' task_transitions task_status_name"

definition stage_transition :: "stage_status \<Rightarrow> stage_status \<Rightarrow> unit res" where
  "stage_transition = transition ''stage'' stage_transitions stage_status_name"

definition instance_transition :: "instance_status \<Rightarrow> instance_status \<Rightarrow> unit res" where
  "instance_transition = transition ''agent_instance'' instance_transitions instance_status_name"

lemma transition_Inr [monad]:
  "task_transition s t = Inr u \<longleftrightarrow> t \<in> set (task_transitions s)"
  "stage_transition a b = Inr u \<longleftrightarrow> b \<in> set (stage_transitions a)"
  "instance_transition i j = Inr u \<longleftrightarrow> j \<in> set (instance_transitions i)"
  by (simp_all add: task_transition_def stage_transition_def instance_transition_def
      transition_def monad)

section \<open>Dependencies of a stage\<close>

text \<open>The values of the dictionary built from a list.\<close>

definition dict_values :: "('a \<Rightarrow> 'k) \<Rightarrow> 'a list \<Rightarrow> 'a list" where
  "dict_values key xs = filter (\<lambda>x. dict_by key xs (key x) = Some x) xs"

text \<open>\<open>all(stage_by_id[item]["status"] == "SUCCEEDED" for item in depends_on)\<close>, which stops at
  the first stage that has not succeeded.\<close>

fun all_succeeded :: "stage_dict \<Rightarrow> string list \<Rightarrow> bool res" where
  "all_succeeded d [] = Inr True"
| "all_succeeded d (x # xs) =
     bindE (subscript d x)
       (\<lambda>s. if sg_status s = S_SUCCEEDED then all_succeeded d xs else Inr False)"

definition stage_dependencies_authorized ::
  "stage \<Rightarrow> stage list \<Rightarrow> agent_instance list \<Rightarrow> bool res" where
  "stage_dependencies_authorized stage stages instances =
     bindE (all_succeeded (stages_by_id stages) (sg_depends_on stage)) (\<lambda>ok.
       if ok then Inr True
       else if sg_type stage \<noteq> Ppt \<or> sg_depends_on stage = [] then Inr False
       else
         let image_instances =
               filter (\<lambda>i. in_agent_type i = Image) (dict_values in_instance_id instances)
         in Inr (image_instances \<noteq> [] \<and>
                 list_all (\<lambda>i. in_manual_finished i = Some True) image_instances))"

section \<open>Aggregate state of a stage\<close>

definition executing :: "instance_status list" where
  "executing = [I_STARTING, I_RUNNING]"

definition active :: "instance_status list" where
  "active = [I_READY, I_STARTING, I_RUNNING]"

definition failed :: "instance_status list" where
  "failed = [I_FAILED_TO_START, I_FAILED, I_CRASHED]"

definition task_terminal :: "task_status list" where
  "task_terminal = [T_SUCCEEDED, T_PARTIAL, T_CANCELLED]"

definition finished :: "instance_status \<Rightarrow> bool" where
  "finished s = (s = I_SUCCEEDED \<or> s = I_ARCHIVED)"

text \<open>The part of \<open>aggregate_stage\<close> after the dependency gate: the status that the stage's own
  instances give it.\<close>

definition status_of_instances :: "stage \<Rightarrow> agent_instance list \<Rightarrow> stage_status" where
  "status_of_instances stage instances =
     (let statuses = map in_status instances;
          required = filter in_required instances;
          required_statuses = map in_status required
      in if list_ex (\<lambda>s. s \<in> set executing) statuses then S_RUNNING
         else if I_READY \<in> set statuses \<or> I_CREATED \<in> set statuses then
           (if sg_status stage \<in> {S_RUNNING, S_WAITING_APPROVAL} then S_RUNNING else S_READY)
         else if I_WAITING_APPROVAL \<in> set required_statuses then S_WAITING_APPROVAL
         else if list_ex (\<lambda>s. s \<in> set failed) required_statuses then S_FAILED
         else if I_UNAVAILABLE \<in> set required_statuses then S_UNAVAILABLE
         else if required \<noteq> [] \<and> list_all (\<lambda>i. finished (in_status i)) required
           then S_SUCCEEDED
         else if required = [] \<and> \<not> sg_required stage then
           (if list_ex (\<lambda>i. finished (in_status i)) instances then S_SUCCEEDED else S_SKIPPED)
         else sg_status stage)"

definition aggregate_stage ::
  "stage \<Rightarrow> stage list \<Rightarrow> agent_instance list \<Rightarrow> stage_status res" where
  "aggregate_stage stage stages instances =
     (if sg_status stage \<in> {S_SKIPPED, S_CANCELLED} then Inr (sg_status stage)
      else bindE (stage_dependencies_authorized stage stages instances)
        (\<lambda>dependencies_authorized.
           let already_activated = lc_first_activated_at (sg_lifecycle stage) \<noteq> None in
           if \<not> dependencies_authorized \<and> \<not> already_activated then Inr S_PENDING
           else bindE (mapE (subscript (instances_by_id instances)) (sg_instance_ids stage))
             (\<lambda>own. Inr (status_of_instances stage own))))"

section \<open>Aggregate state of a task\<close>

definition is_activated_downgrade :: "lifecycle \<Rightarrow> bool \<Rightarrow> bool" where
  "is_activated_downgrade lc required =
     (lc_original_required lc \<and> \<not> required \<and> lc_first_activated_at lc \<noteq> None \<and>
      lc_authorized_downgrade lc \<noteq> None)"

definition aggregate_task ::
  "main_task \<Rightarrow> stage list \<Rightarrow> agent_instance list \<Rightarrow> bool \<Rightarrow> task_status" where
  "aggregate_task task stages instances preserve_start_confirmation =
     (if tk_status task \<in> set task_terminal then tk_status task
      else if tk_status task = T_ARCHIVED then tk_status task
      else if preserve_start_confirmation \<and> tk_status task = T_AWAITING_START_CONFIRMATION
        then tk_status task
      else if list_ex (\<lambda>i. in_required i \<and> in_status i = I_WAITING_APPROVAL) instances
        then T_WAITING_APPROVAL
      else if list_ex (\<lambda>i. in_status i \<in> set active) instances then T_RUNNING
      else if list_ex (\<lambda>i. in_required i \<and> in_status i \<in> set failed) instances then T_FAILED
      else if list_ex (\<lambda>s. sg_required s \<and> sg_status s = S_UNAVAILABLE) stages
        then T_BLOCKED_UNAVAILABLE
      else
        let required_stages = filter sg_required stages;
            complete = list_all (\<lambda>s. sg_status s = S_SUCCEEDED) required_stages
        in if \<not> complete then T_RUNNING
           else
             let downgraded =
                   list_ex (\<lambda>s. is_activated_downgrade (sg_lifecycle s) (sg_required s)) stages \<or>
                   list_ex (\<lambda>i. is_activated_downgrade (in_lifecycle i) (in_required i)) instances
             in if downgraded then T_PARTIAL else T_SUCCEEDED)"

end
