(* ===== verification/Store_Types.thy ===== *)
theory Store_Types imports Contracts begin

text \<open>
  The remaining stored objects (approval requests, inbox notifications, retry budgets), the
  requests and results of the idempotent commands, the payloads of the snapshot repositories, and
  the contract registry of \<^verbatim>\<open>backend/harness/contracts.py\<close>. The human-readable title
  and message of a notification are left out: no code reads them back.
\<close>

section \<open>Approvals and notifications\<close>

record approval_request =
  ap_approval_id :: string
  ap_task_id :: string
  ap_instance_id :: string
  ap_step_id :: string
  ap_kind :: string
  ap_owner :: string
  ap_status :: string
  ap_payload_ref :: string
  ap_created_at :: string
  ap_sequence :: int
  ap_revision :: int
  ap_resolved_at :: "string option"
  ap_resolved_by_type :: "string option"
  ap_resolved_by_id :: "string option"

record inbox_item =
  ib_inbox_id :: string
  ib_task_id :: string
  ib_instance_id :: "string option"
  ib_approval_id :: "string option"
  ib_kind :: string
  ib_owner :: string
  ib_status :: string
  ib_deep_link :: string
  ib_created_at :: string
  ib_sequence :: int
  ib_revision :: int
  ib_dedupe_key :: string
  ib_read_at :: "string option"
  ib_read_by_type :: "string option"
  ib_read_by_id :: "string option"
  ib_handled_at :: "string option"
  ib_handled_by_type :: "string option"
  ib_handled_by_id :: "string option"

section \<open>Retry budgets\<close>

text \<open>A one-shot limit as the request body carries it: an integer, or some other JSON value.\<close>

datatype limit_value = LimInt int | LimNull | LimBool bool | LimOther string

record retry_policy =
  rp_max_auto_retries :: int
  rp_max_tokens :: int
  rp_reservations :: "(string \<times> int) list"
  rp_max_cost :: "int option"
  rp_price_catalog :: "string option"

record ledger =
  lg_tokens_reserved :: int
  lg_tokens_settled :: int
  lg_cost_reserved :: int
  lg_cost_settled :: "int option"
  lg_unknown_cost :: int
  lg_frozen :: bool
  lg_frozen_reason :: "string option"

datatype gate =
    RetryCount (gt_used: int) (gt_requested: int) (gt_limit: int)
  | TokenBoundUnknown int int int
  | TokenLimit int int int int
  | CostUnknown "int option" int "int option" int "string option"
  | CostLimit int int int int "string option"
  | LedgerFrozen "string option"

fun gate_name :: "gate \<Rightarrow> string" where
  "gate_name (RetryCount u r l) = ''RETRY_COUNT''"
| "gate_name (TokenBoundUnknown u r l) = ''TOKEN_BOUND_UNKNOWN''"
| "gate_name (TokenLimit u r q l) = ''TOKEN_LIMIT''"
| "gate_name (CostUnknown u r q l c) = ''COST_UNKNOWN''"
| "gate_name (CostLimit u r q l c) = ''COST_LIMIT''"
| "gate_name (LedgerFrozen r) = ''LEDGER_FROZEN''"

datatype attempt_status =
  PENDING_APPROVAL | RESERVED | AUTHORIZED | SETTLED | EXCEEDED | ATTEMPT_CANCELLED

type_synonym limit_payload = "(string \<times> limit_value) list"

record pending_resolution =
  pd_approval_id :: string
  pd_decision :: string
  pd_action :: "string option"
  pd_payload :: limit_payload
  pd_idempotency_key :: string
  pd_request_sha256 :: string
  pd_envelope :: command_envelope
  pd_prepared_at :: string

text \<open>\<open>at_reserved_tokens\<close> and \<open>at_reserved_cost\<close> hold whatever an approved
  override puts there, so they are JSON values.\<close>

record attempt =
  at_attempt_id :: string
  at_retry_group_id :: string
  at_retry_of :: string
  at_root_attempt_id :: "string option"
  at_root_instance_id :: "string option"
  at_instance_id :: string
  at_agent_type :: agent_type
  at_automatic :: bool
  at_status :: attempt_status
  at_reserved_tokens :: limit_value
  at_reserved_cost :: limit_value
  at_price_catalog :: "string option"
  at_approval_id :: "string option"
  at_denied_gates :: "gate list"
  at_override_consumed_at :: "string option"
  at_actual_tokens :: "int option"
  at_actual_cost :: "int option"
  at_created_at :: string
  at_settled_at :: "string option"
  at_pending :: "pending_resolution option"
  at_resolved_at :: "string option"
  at_resolved_by :: "actor option"
  at_resolution :: "(string \<times> command_envelope) option"

record retry_budget =
  rb_task_id :: string
  rb_revision :: int
  rb_policy :: retry_policy
  rb_ledger :: ledger
  rb_attempts :: "attempt list"
  rb_created_at :: string
  rb_updated_at :: string

section \<open>Stored payloads\<close>

datatype object_type =
    O_task | O_plan | O_stage | O_instance | O_approval | O_inbox | O_retry_budget
  | O_task_intake | O_task_navigation | O_master_thread | O_master_message | O_plan_proposal

fun object_type_name :: "object_type \<Rightarrow> string" where
  "object_type_name O_task = ''task''"
| "object_type_name O_plan = ''plan''"
| "object_type_name O_stage = ''stage''"
| "object_type_name O_instance = ''instance''"
| "object_type_name O_approval = ''approval''"
| "object_type_name O_inbox = ''inbox''"
| "object_type_name O_retry_budget = ''retry_budget''"
| "object_type_name O_task_intake = ''task_intake''"
| "object_type_name O_task_navigation = ''task_navigation''"
| "object_type_name O_master_thread = ''master_thread''"
| "object_type_name O_master_message = ''master_message''"
| "object_type_name O_plan_proposal = ''plan_proposal''"

text \<open>The JSON text stands for the objects whose fields no modelled code looks at.\<close>

datatype payload =
    P_task main_task
  | P_plan task_plan
  | P_stage stage
  | P_instance agent_instance
  | P_approval approval_request
  | P_inbox inbox_item
  | P_retry_budget retry_budget
  | P_other string

text \<open>Reading a field that the stored object does not have is a \<open>KeyError\<close>.\<close>

fun as_task :: "payload \<Rightarrow> main_task res" where
  "as_task (P_task t) = Inr t"
| "as_task _ = Inl (KeyError ''status'')"

fun as_plan :: "payload \<Rightarrow> task_plan res" where
  "as_plan (P_plan p) = Inr p"
| "as_plan _ = Inl (KeyError ''task'')"

fun as_stage :: "payload \<Rightarrow> stage res" where
  "as_stage (P_stage s) = Inr s"
| "as_stage _ = Inl (KeyError ''stage_id'')"

fun as_instance :: "payload \<Rightarrow> agent_instance res" where
  "as_instance (P_instance i) = Inr i"
| "as_instance _ = Inl (KeyError ''instance_id'')"

fun as_approval :: "payload \<Rightarrow> approval_request res" where
  "as_approval (P_approval a) = Inr a"
| "as_approval _ = Inl (KeyError ''approval_id'')"

fun as_inbox :: "payload \<Rightarrow> inbox_item res" where
  "as_inbox (P_inbox i) = Inr i"
| "as_inbox _ = Inl (KeyError ''inbox_id'')"

fun as_retry_budget :: "payload \<Rightarrow> retry_budget res" where
  "as_retry_budget (P_retry_budget b) = Inr b"
| "as_retry_budget _ = Inl (KeyError ''attempts'')"

lemma as_payload_Inr [monad]:
  "as_task p = Inr t \<longleftrightarrow> p = P_task t"
  "as_plan p = Inr q \<longleftrightarrow> p = P_plan q"
  "as_stage p = Inr s \<longleftrightarrow> p = P_stage s"
  "as_instance p = Inr i \<longleftrightarrow> p = P_instance i"
  "as_approval p = Inr a \<longleftrightarrow> p = P_approval a"
  "as_inbox p = Inr x \<longleftrightarrow> p = P_inbox x"
  "as_retry_budget p = Inr b \<longleftrightarrow> p = P_retry_budget b"
  by (cases p; simp)+

section \<open>Requests and results of idempotent commands\<close>

datatype command_request =
    R_create_task string string string string start_policy string
  | R_register_input string string
  | R_rename_task string string
  | R_save_plan string string "stage list" "agent_instance list" "task_card list" "int option"
  | R_task string
  | R_manual_finished string string bool
  | R_business_status string string string
  | R_transition string string instance_status
  | R_reject string string delivery_rejection
  | R_approval_mode string string string
  | R_restore string "(string \<times> instance_status) list" task_status
  | R_downgrade string string string
  | R_configure_budget string retry_policy int
  | R_reserve_retry string string string string "int option" "int option" "string option"
  | R_resolve_budget string string "string option" limit_payload
  | R_consume_override string string
  | R_settle string string int "int option"
  | R_resolve_approval string string
  | R_update_inbox string string

datatype command_result =
    V_task main_task int
  | V_aggregate main_task task_plan int int
  | V_budget retry_budget
  | V_retry bool string string attempt "gate list" "string option" int ledger
  | V_prepared string string int
  | V_resolution approval_request int attempt int
  | V_attempt attempt
  | V_settlement attempt ledger "int option"
  | V_approval approval_request int
  | V_inbox inbox_item int

section \<open>Contract registry\<close>

text \<open>
  The JSON-Schema engine is third-party code: \<open>cr_first_error\<close> is its first validation error
  (path and validator keyword) for a payload against a named schema, and \<open>cr_names\<close> the names
  of the schema files it compiled.
\<close>

record contract_registry =
  cr_names :: "string list"
  cr_version :: "payload \<Rightarrow> string option"
  cr_first_error :: "string \<Rightarrow> payload \<Rightarrow> (string \<times> string) option"

definition ends_with :: "string \<Rightarrow> string \<Rightarrow> bool" where
  "ends_with suffix s =
     (length suffix \<le> length s \<and> drop (length s - length suffix) s = suffix)"

definition remove_suffix :: "string \<Rightarrow> string \<Rightarrow> string" where
  "remove_suffix suffix s =
     (if ends_with suffix s then take (length s - length suffix) s else s)"

definition schema_suffix :: string where
  "schema_suffix = ''.schema.json''"

definition validator_name ::
  "contract_registry \<Rightarrow> string \<Rightarrow> payload \<Rightarrow> string res" where
  "validator_name reg schema_name payload =
     (let normalized = (if ends_with schema_suffix schema_name then schema_name
                        else schema_name @ schema_suffix) in
      case cr_version reg payload of
        None \<Rightarrow> Inr normalized
      | Some version \<Rightarrow>
          if ends_with (''-v'' @ version @ schema_suffix) normalized \<and>
             normalized \<in> set (cr_names reg) then Inr normalized
          else
            let versioned = remove_suffix schema_suffix normalized @ ''-v'' @ version @
                            schema_suffix in
            if versioned \<in> set (cr_names reg) then Inr versioned
            else if version = ''1.0'' then Inr normalized
            else Inl (HarnessError SCHEMA_VERSION_UNSUPPORTED
                   ''The declared contract version is not supported.''
                   [(''schema_version'', DStr version)]))"

definition contracts_validate ::
  "contract_registry \<Rightarrow> string \<Rightarrow> payload \<Rightarrow> unit res" where
  "contracts_validate reg schema_name payload =
     bindE (validator_name reg schema_name payload) (\<lambda>normalized.
       if normalized \<notin> set (cr_names reg) then
         Inl (HarnessError VALIDATION_ERROR ''Unknown contract schema.''
                [(''schema'', DStr normalized)])
       else case cr_first_error reg normalized payload of
              None \<Rightarrow> Inr ()
            | Some (path, reason) \<Rightarrow>
                Inl (HarnessError VALIDATION_ERROR ''Payload failed contract validation.''
                  [(''schema'', DStr normalized), (''path'', DStr path),
                   (''reason'', DStr reason)]))"

section \<open>Environment\<close>

text \<open>
  What the code takes from outside: the successive readings of the clock, fresh random
  identifiers, the SHA-256 digests of canonical JSON, and the contract registry. They are
  parameters: every definition that uses one takes the record as its first argument.
\<close>

record environment =
  ev_clock :: "nat \<Rightarrow> string"
  ev_uuid :: "nat \<Rightarrow> string"
  ev_payload_digest :: "payload \<Rightarrow> string"
  ev_request_digest :: "string \<Rightarrow> command_request \<Rightarrow> string"
  ev_identity_digest :: "string list \<Rightarrow> string"
  ev_key_hash :: "string \<Rightarrow> string \<Rightarrow> string"
  ev_contracts :: contract_registry

end
