(* ===== verification/Plan_Rules.thy ===== *)
theory Plan_Rules imports Store_Types begin

text \<open>
  \<^verbatim>\<open>backend/harness/domain/plan.py\<close>: the cross-object validation that every plan passes
  before it is stored, and the declarative well-formedness it decides.
\<close>

definition invalid :: "string \<Rightarrow> exn" where
  "invalid message = HarnessError VALIDATION_ERROR message []"

definition contiguous_from_one :: "int list \<Rightarrow> bool" where
  "contiguous_from_one ps = (ps = map int [1..<Suc (length ps)])"

section \<open>The checks, in the order of the code\<close>

definition check_stage :: "string \<Rightarrow> string list \<Rightarrow> stage \<Rightarrow> unit res" where
  "check_stage task_id stage_ids s =
     bindE (guardE (sg_task_id s = task_id)
       (invalid ''Every stage must belong to the plan task.'')) (\<lambda>_.
     let earlier = take (nat (sg_position s - 1)) stage_ids in
     guardE (set (sg_depends_on s) \<subseteq> set earlier)
       (invalid ''A stage dependency must reference an earlier stage in the task.''))"

definition check_dependency_types :: "stage list \<Rightarrow> stage \<Rightarrow> unit res" where
  "check_dependency_types stages s =
     forE (\<lambda>dependency_id.
         bindE (subscript (stages_by_id stages) dependency_id) (\<lambda>dependency.
           guardE (\<not> (sg_type dependency \<noteq> Image \<or> sg_type s \<noteq> Ppt))
             (invalid ''Same-type stages must be parallel and only Image-to-PPT dependencies are supported.'')))
       (sg_depends_on s)"

text \<open>The loop over instances fills \<open>instance_by_id\<close>; here the instances seen so far are the
  loop variable.\<close>

definition check_instance ::
  "string \<Rightarrow> stage list \<Rightarrow> agent_instance \<Rightarrow> agent_instance list \<Rightarrow> agent_instance list res" where
  "check_instance task_id stages i seen =
     bindE (guardE (in_instance_id i \<notin> set (map in_instance_id seen))
       (invalid ''Instance ids must be unique within a plan.'')) (\<lambda>_.
     case stages_by_id stages (in_stage_id i) of
       None \<Rightarrow> Inl (invalid ''Every instance must belong to a stage in the plan task.'')
     | Some stage \<Rightarrow>
         bindE (guardE (in_task_id i = task_id)
           (invalid ''Every instance must belong to a stage in the plan task.'')) (\<lambda>_.
         bindE (guardE (in_agent_type i = sg_type stage)
           (invalid ''An instance agent type must match its stage type.'')) (\<lambda>_.
         Inr (seen @ [i]))))"

definition check_card ::
  "string \<Rightarrow> agent_instance list \<Rightarrow> task_card \<Rightarrow> string list \<Rightarrow> string list res" where
  "check_card task_id instances c seen =
     (case instances_by_id instances (cd_instance_id c) of
       None \<Rightarrow> Inl (invalid ''Every task card must reference an instance in the plan task.'')
     | Some instance \<Rightarrow>
         bindE (guardE (cd_task_id c = task_id)
           (invalid ''Every task card must reference an instance in the plan task.'')) (\<lambda>_.
         bindE (guardE (cd_stage_id c = in_stage_id instance \<and>
                        cd_agent_type c = in_agent_type instance)
           (invalid ''Task card stage and agent type must match its instance.'')) (\<lambda>_.
         bindE (guardE (cd_instance_id c \<notin> set seen)
           (invalid ''Every instance has exactly one active task card in a saved plan.'')) (\<lambda>_.
         Inr (cd_instance_id c # seen)))))"

definition validate_plan :: "contract_registry \<Rightarrow> task_plan \<Rightarrow> unit res" where
  "validate_plan contracts plan =
     bindE (contracts_validate contracts ''task-plan'' (P_plan plan)) (\<lambda>_.
     let task_id = tk_task_id (pl_task plan);
         stages = pl_stages plan;
         stage_ids = map sg_stage_id stages;
         positions = map sg_position stages
     in
     bindE (guardE (distinct stage_ids \<and> contiguous_from_one positions)
       (invalid ''Stage ids must be unique and positions must be contiguous from one.'')) (\<lambda>_.
     bindE (forE (check_stage task_id stage_ids) stages) (\<lambda>_.
     bindE (forE (check_dependency_types stages) stages) (\<lambda>_.
     bindE (foldE (check_instance task_id stages) (pl_instances plan) []) (\<lambda>instances.
     let referenced = concat (map sg_instance_ids stages) in
     bindE (guardE (distinct referenced \<and>
                    set referenced = set (map in_instance_id instances))
       (invalid ''Every instance must be referenced by exactly one stage.'')) (\<lambda>_.
     bindE (foldE (check_card task_id instances) (pl_task_cards plan) []) (\<lambda>card_instances.
     guardE (set card_instances = set (map in_instance_id instances))
       (invalid ''Every instance requires one task card.''))))))))"

section \<open>What a valid plan is\<close>

text \<open>
  Stages are numbered from one in list order with distinct ids; a dependency is an Image stage
  listed earlier, and the dependent is a Ppt stage; instances have distinct ids, belong to the stage
  whose type they have, and the stages' \<open>instance_ids\<close> partition them; the cards are in
  bijection with the instances.
\<close>

definition stage_ok :: "task_plan \<Rightarrow> nat \<Rightarrow> bool" where
  "stage_ok plan n =
     (let s = pl_stages plan ! n in
      sg_task_id s = tk_task_id (pl_task plan) \<and>
      sg_position s = int (Suc n) \<and>
      (\<forall>d \<in> set (sg_depends_on s).
         \<exists>m < n. sg_stage_id (pl_stages plan ! m) = d \<and>
                 sg_type (pl_stages plan ! m) = Image \<and> sg_type s = Ppt))"

definition instance_ok :: "task_plan \<Rightarrow> agent_instance \<Rightarrow> bool" where
  "instance_ok plan i =
     (in_task_id i = tk_task_id (pl_task plan) \<and>
      (\<exists>s \<in> set (pl_stages plan).
         sg_stage_id s = in_stage_id i \<and> sg_type s = in_agent_type i))"

definition card_ok :: "task_plan \<Rightarrow> task_card \<Rightarrow> bool" where
  "card_ok plan c =
     (cd_task_id c = tk_task_id (pl_task plan) \<and>
      (\<exists>i \<in> set (pl_instances plan).
         in_instance_id i = cd_instance_id c \<and> in_stage_id i = cd_stage_id c \<and>
         in_agent_type i = cd_agent_type c))"

definition well_formed_plan :: "task_plan \<Rightarrow> bool" where
  "well_formed_plan plan =
     (distinct (map sg_stage_id (pl_stages plan)) \<and>
      (\<forall>n < length (pl_stages plan). stage_ok plan n) \<and>
      distinct (map in_instance_id (pl_instances plan)) \<and>
      list_all (instance_ok plan) (pl_instances plan) \<and>
      distinct (concat (map sg_instance_ids (pl_stages plan))) \<and>
      set (concat (map sg_instance_ids (pl_stages plan))) =
        set (map in_instance_id (pl_instances plan)) \<and>
      distinct (map cd_instance_id (pl_task_cards plan)) \<and>
      list_all (card_ok plan) (pl_task_cards plan) \<and>
      set (map cd_instance_id (pl_task_cards plan)) =
        set (map in_instance_id (pl_instances plan)))"

section \<open>The checks decide well-formedness\<close>

lemma contiguous_nth:
  "contiguous_from_one (map f xs) \<longleftrightarrow> (\<forall>n < length xs. f (xs ! n) = int (Suc n))"
proof -
  have "contiguous_from_one (map f xs) \<longleftrightarrow>
      (\<forall>n < length xs. map f xs ! n = map int [1..<Suc (length xs)] ! n)"
    unfolding contiguous_from_one_def length_map
    by (subst list_eq_iff_nth_eq) (simp del: upt_Suc nth_map)
  also have "\<dots> \<longleftrightarrow> (\<forall>n < length xs. f (xs ! n) = int (Suc n))"
  proof -
    have "map int [1..<Suc (length xs)] ! n = int (Suc n)" if "n < length xs" for n
      using that by (simp del: upt_Suc add: nth_map)
    then show ?thesis by simp
  qed
  finally show ?thesis .
qed

lemma check_stage_Inr [monad]:
  "check_stage task_id ids s = Inr u \<longleftrightarrow>
     sg_task_id s = task_id \<and> set (sg_depends_on s) \<subseteq> set (take (nat (sg_position s - 1)) ids)"
  by (auto simp: check_stage_def monad)

lemma check_dependency_types_Inr [monad]:
  "check_dependency_types stages s = Inr u \<longleftrightarrow>
     (\<forall>d \<in> set (sg_depends_on s). \<exists>t. stages_by_id stages d = Some t \<and>
        sg_type t = Image \<and> sg_type s = Ppt)"
  unfolding check_dependency_types_def forE_Inr_iff bindE_Inr_iff subscript_Inr_iff guardE_Inr_iff
  by simp

lemma in_take_map:
  "d \<in> set (take n (map f xs)) \<longleftrightarrow> (\<exists>m < n. m < length xs \<and> f (xs ! m) = d)"
  unfolding in_set_conv_nth by auto

lemma stages_by_id_nth:
  assumes "distinct (map sg_stage_id stages)" and "m < length stages"
  shows "stages_by_id stages (sg_stage_id (stages ! m)) = Some (stages ! m)"
  using assms by (intro dict_by_distinct) auto

text \<open>The stage checks, on stages whose ids are distinct and whose positions are contiguous.\<close>

lemma stage_checks_iff:
  assumes dist: "distinct (map sg_stage_id (pl_stages plan))"
    and pos: "\<forall>n < length (pl_stages plan). sg_position (pl_stages plan ! n) = int (Suc n)"
  shows "(\<forall>s \<in> set (pl_stages plan).
      check_stage (tk_task_id (pl_task plan)) (map sg_stage_id (pl_stages plan)) s = Inr () \<and>
      check_dependency_types (pl_stages plan) s = Inr ())
    \<longleftrightarrow> (\<forall>n < length (pl_stages plan). stage_ok plan n)"
proof -
  let ?S = "pl_stages plan"
  have "check_stage (tk_task_id (pl_task plan)) (map sg_stage_id ?S) (?S ! n) = Inr () \<and>
      check_dependency_types ?S (?S ! n) = Inr () \<longleftrightarrow> stage_ok plan n"
    if n: "n < length ?S" for n
  proof -
    have earlier: "nat (sg_position (?S ! n) - 1) = n" using pos n by simp
    have dep: "d \<in> set (take n (map sg_stage_id ?S)) \<and>
        (\<exists>t. stages_by_id ?S d = Some t \<and> sg_type t = Image \<and> sg_type (?S ! n) = Ppt) \<longleftrightarrow>
        (\<exists>m < n. sg_stage_id (?S ! m) = d \<and> sg_type (?S ! m) = Image \<and>
           sg_type (?S ! n) = Ppt)" for d
    proof -
      have "stages_by_id ?S (sg_stage_id (?S ! m)) = Some (?S ! m)" if "m < n" for m
        using stages_by_id_nth [OF dist, of m] that n by simp
      then show ?thesis using n by (auto simp: in_take_map)
    qed
    have deps: "set ds \<subseteq> set (take n (map sg_stage_id ?S)) \<and>
        (\<forall>d \<in> set ds. \<exists>t. stages_by_id ?S d = Some t \<and> sg_type t = Image \<and>
           sg_type (?S ! n) = Ppt) \<longleftrightarrow>
        (\<forall>d \<in> set ds. \<exists>m < n. sg_stage_id (?S ! m) = d \<and> sg_type (?S ! m) = Image \<and>
           sg_type (?S ! n) = Ppt)" for ds
      unfolding subset_eq ball_conj_distrib [symmetric] dep ..
    show ?thesis
      unfolding check_stage_Inr check_dependency_types_Inr earlier stage_ok_def Let_def
        deps [symmetric]
      using pos n by simp
  qed
  then show ?thesis by (auto simp: all_set_conv_all_nth)
qed

lemma check_instances_iff:
  "foldE (check_instance task_id stages) xs seen = Inr r \<longleftrightarrow>
     r = seen @ xs \<and> distinct (map in_instance_id xs) \<and>
     set (map in_instance_id xs) \<inter> set (map in_instance_id seen) = {} \<and>
     (\<forall>i \<in> set xs. in_task_id i = task_id \<and>
        (\<exists>s. stages_by_id stages (in_stage_id i) = Some s \<and> in_agent_type i = sg_type s))"
proof (induction xs arbitrary: seen)
  case (Cons x xs)
  have "check_instance task_id stages x seen = Inr t \<longleftrightarrow>
      t = seen @ [x] \<and> in_instance_id x \<notin> in_instance_id ` set seen \<and> in_task_id x = task_id \<and>
      (\<exists>s. stages_by_id stages (in_stage_id x) = Some s \<and> in_agent_type x = sg_type s)" for t
    by (auto simp: check_instance_def monad split: option.splits)
  then show ?case by (auto simp: monad Cons.IH)
qed auto

lemma check_cards_iff:
  "foldE (check_card task_id instances) xs seen = Inr r \<longleftrightarrow>
     r = rev (map cd_instance_id xs) @ seen \<and> distinct (map cd_instance_id xs) \<and>
     set (map cd_instance_id xs) \<inter> set seen = {} \<and>
     (\<forall>c \<in> set xs. cd_task_id c = task_id \<and>
        (\<exists>i. instances_by_id instances (cd_instance_id c) = Some i \<and>
             cd_stage_id c = in_stage_id i \<and> cd_agent_type c = in_agent_type i))"
proof (induction xs arbitrary: seen)
  case (Cons x xs)
  have "check_card task_id instances x seen = Inr t \<longleftrightarrow>
      t = cd_instance_id x # seen \<and> cd_instance_id x \<notin> set seen \<and> cd_task_id x = task_id \<and>
      (\<exists>i. instances_by_id instances (cd_instance_id x) = Some i \<and>
           cd_stage_id x = in_stage_id i \<and> cd_agent_type x = in_agent_type i)" for t
    by (auto simp: check_card_def monad split: option.splits)
  then show ?case by (auto simp: monad Cons.IH)
qed auto

lemma dict_by_iff_distinct:
  assumes "distinct (map key xs)"
  shows "dict_by key xs k = Some x \<longleftrightarrow> x \<in> set xs \<and> key x = k"
  using dict_by_distinct [OF assms] by (auto dest: dict_by_Some)

lemma validate_plan_decides:
  "validate_plan contracts plan = Inr () \<longleftrightarrow>
     contracts_validate contracts ''task-plan'' (P_plan plan) = Inr () \<and> well_formed_plan plan"
proof (cases "distinct (map sg_stage_id (pl_stages plan)) \<and>
    (\<forall>n < length (pl_stages plan). sg_position (pl_stages plan ! n) = int (Suc n))")
  case True
  then have dist: "distinct (map sg_stage_id (pl_stages plan))"
    and pos: "\<forall>n < length (pl_stages plan). sg_position (pl_stages plan ! n) = int (Suc n)"
    by auto
  have insts: "list_all (instance_ok plan) xs \<longleftrightarrow>
      (\<forall>i \<in> set xs. in_task_id i = tk_task_id (pl_task plan) \<and>
        (\<exists>s. stages_by_id (pl_stages plan) (in_stage_id i) = Some s \<and>
             in_agent_type i = sg_type s))" for xs
    unfolding list_all_iff instance_ok_def dict_by_iff_distinct [OF dist] by fastforce
  have cards: "list_all (card_ok plan) cs \<longleftrightarrow>
      (\<forall>c \<in> set cs. cd_task_id c = tk_task_id (pl_task plan) \<and>
        (\<exists>i. instances_by_id (pl_instances plan) (cd_instance_id c) = Some i \<and>
             cd_stage_id c = in_stage_id i \<and> cd_agent_type c = in_agent_type i))"
    if "distinct (map in_instance_id (pl_instances plan))" for cs
    unfolding list_all_iff card_ok_def dict_by_iff_distinct [OF that] by fastforce
  show ?thesis
    unfolding validate_plan_def well_formed_plan_def Let_def
    using True
    by (simp add: monad contiguous_nth check_instances_iff check_cards_iff insts cards
        stage_checks_iff [OF dist pos, symmetric] ball_conj_distrib cong: conj_cong)
next
  case False
  have "validate_plan contracts plan \<noteq> Inr ()"
    using False by (auto simp: validate_plan_def Let_def bindE_Inr_iff guardE_Inr_iff contiguous_nth)
  moreover have "\<not> well_formed_plan plan"
    using False by (auto simp: well_formed_plan_def stage_ok_def Let_def)
  ultimately show ?thesis by simp
qed

text \<open>
  C5. \<open>validate_plan\<close> accepts a plan exactly when the plan passes its schema and is well
  formed: the thirteen checks of the code, in their order, decide the declarative statement.
\<close>

theorem validate_plan_iff:
  "validate_plan contracts plan = Inr () \<longleftrightarrow>
     contracts_validate contracts ''task-plan'' (P_plan plan) = Inr () \<and> well_formed_plan plan"
  by (rule validate_plan_decides)

end
