(* ===== verification/Plan_Edit.thy ===== *)
theory Plan_Edit imports State_Machine Plan_Rules begin

text \<open>
  The plan arithmetic of \<^verbatim>\<open>backend/harness/domain/service.py\<close>: the loops that refresh
  and activate the stages of a plan, and the three ways a saved plan is built from a request
  (replace, append, merge). A plan is the only argument and the only result; a loop that mutates
  the shared stage and instance objects passes the two lists along. The incoming stages, instances
  and cards are records whose fields that the code overwrites are ignored. The clock reading is the
  argument \<open>now\<close>.
\<close>

section \<open>Lifecycles\<close>

definition activate_lifecycle :: "string \<Rightarrow> lifecycle \<Rightarrow> lifecycle" where
  "activate_lifecycle now lc =
     (if lc_first_activated_at lc = None then lc\<lparr>lc_first_activated_at := Some now\<rparr> else lc)"

definition activate_stage :: "string \<Rightarrow> stage \<Rightarrow> stage" where
  "activate_stage now s = s\<lparr>sg_lifecycle := activate_lifecycle now (sg_lifecycle s)\<rparr>"

definition activate_instance :: "string \<Rightarrow> agent_instance \<Rightarrow> agent_instance" where
  "activate_instance now i = i\<lparr>in_lifecycle := activate_lifecycle now (in_lifecycle i)\<rparr>"

text \<open>\<open>for instance_id in stage["instance_ids"]: activate(instance_by_id[instance_id])\<close>: the
  dictionary refers to the last instance with the id.\<close>

definition activate_listed ::
  "string \<Rightarrow> string list \<Rightarrow> agent_instance list \<Rightarrow> agent_instance list res" where
  "activate_listed now ids instances =
     foldE (\<lambda>i is. bindE (subscript (instances_by_id is) i) (\<lambda>_.
              Inr (update_last (\<lambda>x. in_instance_id x = i) (activate_instance now) is)))
       ids instances"

section \<open>Refreshing the stages\<close>

definition validate_stage_reaggregation :: "stage_status \<Rightarrow> stage_status \<Rightarrow> unit res" where
  "validate_stage_reaggregation current target =
     (if current = S_PENDING \<and> target = S_RUNNING then
        bindE (stage_transition S_PENDING S_READY) (\<lambda>_. stage_transition S_READY S_RUNNING)
      else if current = S_FAILED \<and> target = S_SUCCEEDED then
        bindE (stage_transition S_FAILED S_RUNNING) (\<lambda>_. stage_transition S_RUNNING S_SUCCEEDED)
      else if current = S_FAILED \<and> target = S_SKIPPED then
        bindE (stage_transition S_FAILED S_READY) (\<lambda>_. stage_transition S_READY S_SKIPPED)
      else stage_transition current target)"

text \<open>The loop state: the stages and the instances of the plan, both mutated in place. The loop runs
  over the positions of the stage objects in the list, sorted by their \<open>position\<close> field.\<close>

type_synonym board = "stage list \<times> agent_instance list"

definition by_position :: "stage list \<Rightarrow> nat list" where
  "by_position stages = sort_key (\<lambda>n. sg_position (stages ! n)) [0..<length stages]"

text \<open>A PPT stage whose dependencies are met is activated with its instances.\<close>

definition activate_ready ::
  "string \<Rightarrow> bool \<Rightarrow> bool \<Rightarrow> stage \<Rightarrow> agent_instance list \<Rightarrow> (stage \<times> agent_instance list) res" where
  "activate_ready now activate_new dependencies_ready stage instances =
     (if activate_new \<and> dependencies_ready \<and> sg_type stage = Ppt then
        bindE (activate_listed now (sg_instance_ids stage) instances)
          (\<lambda>is. Inr (activate_stage now stage, is))
      else Inr (stage, instances))"

definition refresh_stage :: "string \<Rightarrow> bool \<Rightarrow> nat \<Rightarrow> board \<Rightarrow> board res" where
  "refresh_stage now activate_new n = (\<lambda>(stages, instances).
     let stage = stages ! n; before = sg_status stage in
     bindE (aggregate_stage stage stages instances) (\<lambda>target.
     bindE (stage_dependencies_authorized stage stages instances) (\<lambda>dependencies_ready.
     bindE (activate_ready now activate_new dependencies_ready stage instances)
       (\<lambda>(stage', instances').
     bindE (if target \<noteq> before \<and> before \<notin> {S_SKIPPED, S_CANCELLED}
            then validate_stage_reaggregation before target else Inr ()) (\<lambda>_.
     Inr (stages[n := stage'\<lparr>sg_status := target\<rparr>], instances'))))))"

definition with_board :: "task_plan \<Rightarrow> board \<Rightarrow> task_plan" where
  "with_board plan b = plan\<lparr>pl_stages := fst b, pl_instances := snd b\<rparr>"

definition refresh_stages :: "string \<Rightarrow> bool \<Rightarrow> task_plan \<Rightarrow> task_plan res" where
  "refresh_stages now activate_new plan =
     bindE (foldE (refresh_stage now activate_new) (by_position (pl_stages plan))
              (pl_stages plan, pl_instances plan))
       (\<lambda>b. Inr (with_board plan b))"

section \<open>Activating the stages whose dependencies are met\<close>

definition activate_current_stage :: "string \<Rightarrow> nat \<Rightarrow> board \<Rightarrow> board res" where
  "activate_current_stage now n = (\<lambda>(stages, instances).
     let stage = stages ! n in
     bindE (stage_dependencies_authorized stage stages instances) (\<lambda>authorized.
     if \<not> authorized then Inr (stages, instances)
     else
       let stage' = activate_stage now stage; stages' = stages[n := stage'] in
       bindE (activate_listed now (sg_instance_ids stage) instances) (\<lambda>instances'.
       bindE (aggregate_stage stage' stages' instances') (\<lambda>target.
       if target \<noteq> sg_status stage then
         bindE (stage_transition (sg_status stage) target) (\<lambda>_.
         Inr (stages[n := stage'\<lparr>sg_status := target\<rparr>], instances'))
       else Inr (stages', instances')))))"

definition activate_current_stages :: "string \<Rightarrow> task_plan \<Rightarrow> task_plan res" where
  "activate_current_stages now plan =
     bindE (foldE (activate_current_stage now) (by_position (pl_stages plan))
              (pl_stages plan, pl_instances plan))
       (\<lambda>b. Inr (with_board plan b))"

section \<open>The task's own status\<close>

definition plan_status :: "task_plan \<Rightarrow> task_status" where
  "plan_status plan = tk_status (pl_task plan)"

definition set_task_status :: "task_status \<Rightarrow> task_plan \<Rightarrow> task_plan" where
  "set_task_status s plan = plan\<lparr>pl_task := (pl_task plan)\<lparr>tk_status := s\<rparr>\<rparr>"

definition touch :: "string \<Rightarrow> task_plan \<Rightarrow> task_plan" where
  "touch now plan = plan\<lparr>pl_task := (pl_task plan)\<lparr>tk_updated_at := now\<rparr>\<rparr>"

definition aggregate_plan :: "task_plan \<Rightarrow> task_status" where
  "aggregate_plan plan = aggregate_task (pl_task plan) (pl_stages plan) (pl_instances plan) False"

definition validate_task_reaggregation :: "task_status \<Rightarrow> task_status \<Rightarrow> unit res" where
  "validate_task_reaggregation current target =
     (if current \<in> {T_PLANNED, T_AWAITING_START_CONFIRMATION} \<and> target = T_SUCCEEDED then
        bindE (task_transition current T_RUNNING) (\<lambda>_. task_transition T_RUNNING T_SUCCEEDED)
      else task_transition current target)"

text \<open>\<open>if target != task["status"]: transition; task["status"] = target\<close>.\<close>

definition settle_task_status :: "task_plan \<Rightarrow> task_plan res" where
  "settle_task_status plan =
     (let target = aggregate_plan plan in
      if target \<noteq> plan_status plan then
        bindE (task_transition (plan_status plan) target) (\<lambda>_. Inr (set_task_status target plan))
      else Inr plan)"

section \<open>Normalising the objects of a request\<close>

definition fresh_lifecycle :: "bool \<Rightarrow> lifecycle" where
  "fresh_lifecycle required =
     \<lparr>lc_original_required = required, lc_first_activated_at = None,
      lc_authorized_downgrade = None\<rparr>"

definition normalize_stage :: "string \<Rightarrow> stage \<Rightarrow> stage" where
  "normalize_stage task_id raw =
     raw\<lparr>sg_task_id := task_id, sg_lifecycle := fresh_lifecycle (sg_required raw),
         sg_status := S_PENDING\<rparr>"

definition normalize_instance :: "string \<Rightarrow> string \<Rightarrow> agent_instance \<Rightarrow> agent_instance" where
  "normalize_instance task_id now raw =
     raw\<lparr>in_task_id := task_id, in_lifecycle := fresh_lifecycle (in_required raw),
         in_status := (if in_agent_type raw \<in> {General, Image, Ppt} then I_READY
                       else I_UNAVAILABLE),
         in_manual_finished := Some False, in_process := None, in_ui_url := None,
         in_created_at := now\<rparr>"

definition default_version :: "string option \<Rightarrow> string" where
  "default_version v = (case v of None \<Rightarrow> ''1.0'' | Some s \<Rightarrow> s)"

definition normalize_card :: "string \<Rightarrow> string \<Rightarrow> task_card \<Rightarrow> task_card" where
  "normalize_card task_id now raw =
     raw\<lparr>cd_schema_version := Some (default_version (cd_schema_version raw)),
         cd_task_id := task_id, cd_created_at := Some now\<rparr>"

section \<open>Replace\<close>

definition normalize_plan ::
  "contract_registry \<Rightarrow> string \<Rightarrow> main_task \<Rightarrow> int \<Rightarrow> stage list \<Rightarrow> agent_instance list \<Rightarrow>
   task_card list \<Rightarrow> task_plan res" where
  "normalize_plan contracts now task plan_revision stages instances task_cards =
     (let task_id = tk_task_id task;
          plan = \<lparr>pl_task = task\<lparr>tk_status := T_PLANNED, tk_plan_revision := plan_revision,
                                tk_updated_at := now\<rparr>,
                  pl_stages = map (normalize_stage task_id) (sort_key sg_position stages),
                  pl_instances = map (normalize_instance task_id now) instances,
                  pl_task_cards = map (normalize_card task_id now) task_cards\<rparr> in
      bindE (refresh_stages now False plan) (\<lambda>plan.
      bindE (validate_plan contracts plan) (\<lambda>_. Inr plan)))"

section \<open>Append\<close>

definition landed_error :: "string \<Rightarrow> string \<Rightarrow> string \<Rightarrow> exn" where
  "landed_error message field value =
     HarnessError VALIDATION_ERROR message [(field, DStr value)]"

definition check_append ::
  "task_plan \<Rightarrow> stage list \<Rightarrow> agent_instance list \<Rightarrow> task_card list \<Rightarrow> unit res" where
  "check_append existing stages instances task_cards =
     bindE (forE (\<lambda>raw. guardE (sg_stage_id raw \<notin> set (map sg_stage_id (pl_stages existing)))
       (landed_error ''A plan append cannot reference or modify a landed stage.'' ''stage_id''
         (sg_stage_id raw))) stages) (\<lambda>_.
     bindE (forE (\<lambda>raw. guardE (in_instance_id raw \<notin> set (map in_instance_id (pl_instances existing)))
       (landed_error ''A plan append cannot reference or modify a landed instance.'' ''instance_id''
         (in_instance_id raw))) instances) (\<lambda>_.
     forE (\<lambda>raw. guardE (cd_card_id raw \<notin> set (map cd_card_id (pl_task_cards existing)))
       (landed_error ''A plan append cannot reference or modify a landed task card.'' ''card_id''
         (cd_card_id raw))) task_cards))"

definition build_append ::
  "contract_registry \<Rightarrow> string \<Rightarrow> main_task \<Rightarrow> task_plan \<Rightarrow> int \<Rightarrow> stage list \<Rightarrow>
   agent_instance list \<Rightarrow> task_card list \<Rightarrow> task_plan res" where
  "build_append contracts now task existing plan_revision stages instances task_cards =
     (let task_id = tk_task_id task;
          ordered_stages = sort_key sg_position stages;
          position_offset = int (length (pl_stages existing)) in
      bindE (guardE (contiguous_from_one (map sg_position ordered_stages))
        (invalid ''Appended stage positions must be contiguous from one within the new batch.'')) (\<lambda>_.
      let plan = \<lparr>pl_task = task\<lparr>tk_plan_revision := plan_revision, tk_updated_at := now\<rparr>,
                  pl_stages = pl_stages existing @
                    map (\<lambda>raw. (normalize_stage task_id raw)
                           \<lparr>sg_position := position_offset + sg_position raw\<rparr>) ordered_stages,
                  pl_instances = pl_instances existing @
                    map (normalize_instance task_id now) instances,
                  pl_task_cards = pl_task_cards existing @
                    map (normalize_card task_id now) task_cards\<rparr> in
      bindE (refresh_stages now False plan) (\<lambda>plan.
      bindE (validate_plan contracts plan) (\<lambda>_. Inr plan))))"

section \<open>Merge\<close>

text \<open>\<open>d.items()\<close> of the dictionary built from a list: the keys in the order of their first
  occurrence, each with the last element that has it.\<close>

definition dict_items :: "('a \<Rightarrow> 'k) \<Rightarrow> 'a list \<Rightarrow> ('k \<times> 'a) list" where
  "dict_items key xs =
     map (\<lambda>k. (k, the (dict_by key xs k))) (rev (remdups (rev (map key xs))))"

definition check_merge_sets ::
  "task_plan \<Rightarrow> stage list \<Rightarrow> agent_instance list \<Rightarrow> unit res" where
  "check_merge_sets existing stages instances =
     bindE (guardE (set (map sg_stage_id stages) = set (map sg_stage_id (pl_stages existing)))
       (invalid ''A plan merge cannot add or remove stages while instances are started.'')) (\<lambda>_.
     guardE (set (map in_instance_id instances) = set (map in_instance_id (pl_instances existing)))
       (invalid ''A plan merge cannot add or remove instances while instances are started.''))"

definition check_merge_instance :: "task_plan \<Rightarrow> string \<times> agent_instance \<Rightarrow> unit res" where
  "check_merge_instance existing = (\<lambda>(instance_id, raw).
     bindE (subscript (instances_by_id (pl_instances existing)) instance_id) (\<lambda>landed.
     guardE (in_stage_id raw = in_stage_id landed \<and> in_agent_type raw = in_agent_type landed)
       (landed_error ''A plan merge cannot rewire a landed instance.'' ''instance_id''
         instance_id)))"

definition check_merge_stage :: "task_plan \<Rightarrow> string \<times> stage \<Rightarrow> unit res" where
  "check_merge_stage existing = (\<lambda>(stage_id, raw).
     bindE (subscript (stages_by_id (pl_stages existing)) stage_id) (\<lambda>landed.
     guardE (sg_type raw = sg_type landed \<and>
             set (sg_instance_ids raw) = set (sg_instance_ids landed))
       (landed_error ''A plan merge cannot rewire a landed stage.'' ''stage_id'' stage_id)))"

definition check_merge ::
  "task_plan \<Rightarrow> stage list \<Rightarrow> agent_instance list \<Rightarrow> task_card list \<Rightarrow> unit res" where
  "check_merge existing stages instances task_cards =
     bindE (check_merge_sets existing stages instances) (\<lambda>_.
     bindE (forE (check_merge_instance existing) (dict_items in_instance_id instances)) (\<lambda>_.
     bindE (forE (check_merge_stage existing) (dict_items sg_stage_id stages)) (\<lambda>_.
     guardE (set (map cd_card_id task_cards) = set (map cd_card_id (pl_task_cards existing)))
       (invalid ''A plan merge cannot add or remove task cards while instances are started.''))))"

definition older_card_error :: "task_card \<Rightarrow> task_card \<Rightarrow> exn" where
  "older_card_error landed raw =
     HarnessError REVISION_CONFLICT ''A plan merge cannot restore an older TaskCard revision.''
       [(''card_id'', DStr (cd_card_id landed)),
        (''expected_revision'', DInt (cd_revision landed)),
        (''actual_revision'', DInt (cd_revision raw))]"

definition merge_card ::
  "string \<Rightarrow> string \<Rightarrow> task_plan \<Rightarrow> task_card list \<Rightarrow> task_card \<Rightarrow> task_card res" where
  "merge_card task_id now existing task_cards landed =
     bindE (subscript (dict_by cd_card_id task_cards) (cd_card_id landed)) (\<lambda>raw.
     bindE (guardE (cd_instance_id raw = cd_instance_id landed)
       (landed_error ''A plan merge cannot move a task card to another instance.'' ''card_id''
         (cd_card_id landed))) (\<lambda>_.
     bindE (subscript (instances_by_id (pl_instances existing)) (cd_instance_id landed)) (\<lambda>i.
     if in_status i \<in> {I_READY, I_UNAVAILABLE} then
       bindE (guardE (\<not> cd_revision raw < cd_revision landed) (older_card_error landed raw)) (\<lambda>_.
       if cd_revision raw = cd_revision landed then Inr landed
       else Inr (raw\<lparr>cd_schema_version := Some (default_version (cd_schema_version raw)),
                     cd_task_id := task_id,
                     cd_created_at := Some (case cd_created_at raw of None \<Rightarrow> now | Some c \<Rightarrow> c)\<rparr>))
     else Inr landed)))"

definition build_merge ::
  "contract_registry \<Rightarrow> string \<Rightarrow> main_task \<Rightarrow> task_plan \<Rightarrow> int \<Rightarrow> task_card list \<Rightarrow>
   task_plan res" where
  "build_merge contracts now task existing plan_revision task_cards =
     bindE (mapE (merge_card (tk_task_id task) now existing task_cards) (pl_task_cards existing))
       (\<lambda>merged_cards.
     let plan = \<lparr>pl_task = task\<lparr>tk_plan_revision := plan_revision, tk_updated_at := now\<rparr>,
                 pl_stages = pl_stages existing, pl_instances = pl_instances existing,
                 pl_task_cards = merged_cards\<rparr> in
     bindE (validate_plan contracts plan) (\<lambda>_. Inr plan))"

section \<open>What the stage loops change\<close>

text \<open>The loops set stage statuses and first activations, and nothing else.\<close>

definition lc_evolves :: "lifecycle \<Rightarrow> lifecycle \<Rightarrow> bool" where
  "lc_evolves a b \<longleftrightarrow>
     b = a \<or> lc_first_activated_at a = None \<and>
       (\<exists>now. b = a\<lparr>lc_first_activated_at := Some now\<rparr>)"

definition stage_evolves :: "stage \<Rightarrow> stage \<Rightarrow> bool" where
  "stage_evolves s s' \<longleftrightarrow>
     s' = s\<lparr>sg_status := sg_status s', sg_lifecycle := sg_lifecycle s'\<rparr> \<and>
     lc_evolves (sg_lifecycle s) (sg_lifecycle s')"

definition instance_evolves :: "agent_instance \<Rightarrow> agent_instance \<Rightarrow> bool" where
  "instance_evolves i i' \<longleftrightarrow>
     i' = i\<lparr>in_lifecycle := in_lifecycle i'\<rparr> \<and> lc_evolves (in_lifecycle i) (in_lifecycle i')"

definition board_evolves :: "board \<Rightarrow> board \<Rightarrow> bool" where
  "board_evolves a b \<longleftrightarrow>
     list_all2 stage_evolves (fst a) (fst b) \<and> list_all2 instance_evolves (snd a) (snd b)"

definition plan_board :: "task_plan \<Rightarrow> board" where
  "plan_board plan = (pl_stages plan, pl_instances plan)"

lemma lc_evolves_refl [simp]: "lc_evolves a a"
  by (simp add: lc_evolves_def)

lemma lc_evolves_trans: "lc_evolves a b \<Longrightarrow> lc_evolves b c \<Longrightarrow> lc_evolves a c"
  by (auto simp: lc_evolves_def)

lemma activate_lifecycle_evolves [simp]: "lc_evolves lc (activate_lifecycle now lc)"
  by (auto simp: lc_evolves_def activate_lifecycle_def)

lemma stage_evolves_refl [simp]: "stage_evolves s s"
  by (simp add: stage_evolves_def)

lemma stage_evolves_trans: "stage_evolves a b \<Longrightarrow> stage_evolves b c \<Longrightarrow> stage_evolves a c"
  unfolding stage_evolves_def by (cases a; cases b; cases c) (auto intro: lc_evolves_trans)

lemma stage_evolves_step [simp]:
  "stage_evolves s (s\<lparr>sg_status := x\<rparr>)" "stage_evolves s (activate_stage now s)"
  "stage_evolves s ((activate_stage now s)\<lparr>sg_status := x\<rparr>)"
  by (simp_all add: stage_evolves_def activate_stage_def)

lemma instance_evolves_refl [simp]: "instance_evolves i i"
  by (simp add: instance_evolves_def)

lemma instance_evolves_trans:
  "instance_evolves a b \<Longrightarrow> instance_evolves b c \<Longrightarrow> instance_evolves a c"
  unfolding instance_evolves_def by (cases a; cases b; cases c) (auto intro: lc_evolves_trans)

lemma instance_evolves_activate [simp]: "instance_evolves i (activate_instance now i)"
  by (simp add: instance_evolves_def activate_instance_def)

lemma board_evolves_refl [simp]: "board_evolves b b"
  by (simp add: board_evolves_def list_all2_refl)

lemma list_all2_transitive:
  assumes "transp R" and "list_all2 R xs ys" and "list_all2 R ys zs"
  shows "list_all2 R xs zs"
  using assms unfolding list_all2_conv_all_nth by (metis transpD)

lemma evolves_transp: "transp stage_evolves" "transp instance_evolves"
  using stage_evolves_trans instance_evolves_trans by (auto intro!: transpI)

lemma board_evolves_trans: "board_evolves a b \<Longrightarrow> board_evolves b c \<Longrightarrow> board_evolves a c"
  using evolves_transp by (auto simp: board_evolves_def intro: list_all2_transitive)

lemma list_all2_update_first:
  assumes "\<And>x. R x x" and "\<And>x. p x \<Longrightarrow> R x (f x)"
  shows "list_all2 R xs (update_first p f xs)"
  using assms by (induction xs) (auto simp: list_all2_refl)

lemma list_all2_update_last:
  assumes "\<And>x. R x x" and "\<And>x. p x \<Longrightarrow> R x (f x)"
  shows "list_all2 R xs (update_last p f xs)"
proof -
  have "list_all2 R (rev xs) (update_first p f (rev xs))"
    using assms by (rule list_all2_update_first)
  then show ?thesis by (metis list_all2_rev rev_rev_ident update_last_def)
qed

lemma list_all2_list_update:
  "(\<And>x. R x x) \<Longrightarrow> n < length xs \<Longrightarrow> R (xs ! n) y \<Longrightarrow> list_all2 R xs (xs[n := y])"
  by (auto simp: list_all2_conv_all_nth nth_list_update)

lemma activate_listed_evolves:
  assumes "activate_listed now ids is = Inr is'"
  shows "list_all2 instance_evolves is is'"
  using assms unfolding activate_listed_def
proof (rule foldE_invariant)
  fix x s t
  assume "list_all2 instance_evolves is s"
    and "bindE (subscript (instances_by_id s) x)
      (\<lambda>_. Inr (update_last (\<lambda>xa. in_instance_id xa = x) (activate_instance now) s)) = Inr t"
  moreover have "list_all2 instance_evolves s
      (update_last (\<lambda>xa. in_instance_id xa = x) (activate_instance now) s)"
    by (rule list_all2_update_last) auto
  ultimately show "list_all2 instance_evolves is t"
    using list_all2_transitive [OF evolves_transp(2)] by (auto simp: monad)
qed (simp add: list_all2_refl)

lemma activate_ready_cases:
  assumes "activate_ready now act ready s iss = Inr (s', iss')"
  shows "s' = s \<and> iss' = iss \<or>
    act \<and> ready \<and> sg_type s = Ppt \<and> s' = activate_stage now s \<and>
    activate_listed now (sg_instance_ids s) iss = Inr iss'"
  using assms by (auto simp: activate_ready_def monad split: if_splits)

lemma refresh_stage_Inr:
  "refresh_stage now act n (ss, iss) = Inr b \<longleftrightarrow>
     (\<exists>target ready s' iss'. aggregate_stage (ss ! n) ss iss = Inr target \<and>
        stage_dependencies_authorized (ss ! n) ss iss = Inr ready \<and>
        activate_ready now act ready (ss ! n) iss = Inr (s', iss') \<and>
        (target \<noteq> sg_status (ss ! n) \<longrightarrow> sg_status (ss ! n) \<notin> {S_SKIPPED, S_CANCELLED} \<longrightarrow>
           validate_stage_reaggregation (sg_status (ss ! n)) target = Inr ()) \<and>
        b = (ss[n := s'\<lparr>sg_status := target\<rparr>], iss'))"
  by (auto simp: refresh_stage_def Let_def bindE_Inr_iff split: if_splits)

lemma refresh_stage_evolves:
  assumes run: "refresh_stage now act n b = Inr b'" and n: "n < length (fst b)"
  shows "board_evolves b b'"
proof -
  obtain ss iss where b: "b = (ss, iss)" by (cases b)
  from run obtain target ready s' iss' where
    ready: "activate_ready now act ready (ss ! n) iss = Inr (s', iss')"
    and b': "b' = (ss[n := s'\<lparr>sg_status := target\<rparr>], iss')"
    unfolding b refresh_stage_Inr by blast
  from activate_ready_cases [OF ready]
  have "stage_evolves (ss ! n) (s'\<lparr>sg_status := target\<rparr>)" "list_all2 instance_evolves iss iss'"
    by (auto simp: list_all2_refl dest: activate_listed_evolves)
  then show ?thesis
    using b b' n by (simp add: board_evolves_def list_all2_list_update)
qed

lemma activate_current_stage_evolves:
  assumes run: "activate_current_stage now n b = Inr b'" and n: "n < length (fst b)"
  shows "board_evolves b b'"
proof -
  obtain ss iss where b: "b = (ss, iss)" by (cases b)
  from run show ?thesis
    unfolding b activate_current_stage_def
    using n b
    by (auto simp: monad Let_def board_evolves_def list_all2_refl
        intro!: list_all2_list_update dest: activate_listed_evolves split: if_splits)
qed

lemma board_loop_evolves:
  assumes "foldE f ns b = Inr b'" and "\<forall>n \<in> set ns. n < length (fst b)"
    and "\<And>n a c. f n a = Inr c \<Longrightarrow> n < length (fst a) \<Longrightarrow> board_evolves a c"
  shows "board_evolves b b'"
  using assms(1)
proof (rule foldE_invariant)
  fix n a c
  assume "n \<in> set ns" "board_evolves b a" "f n a = Inr c"
  moreover from this have "n < length (fst a)"
    using assms(2) by (auto simp: board_evolves_def dest: list_all2_lengthD)
  ultimately show "board_evolves b c" using assms(3) board_evolves_trans by blast
qed simp

lemma by_position_set [simp]: "set (by_position ss) = {0..<length ss}"
  by (simp add: by_position_def)

lemma refresh_stages_evolves:
  assumes "refresh_stages now act plan = Inr plan'"
  shows "board_evolves (plan_board plan) (plan_board plan')"
    and "pl_task plan' = pl_task plan" and "pl_task_cards plan' = pl_task_cards plan"
proof -
  obtain b where b: "foldE (refresh_stage now act) (by_position (pl_stages plan))
      (plan_board plan) = Inr b" "plan' = with_board plan b"
    using assms by (auto simp: refresh_stages_def plan_board_def monad)
  have "board_evolves (plan_board plan) b"
    using b(1) by (rule board_loop_evolves) (auto simp: plan_board_def refresh_stage_evolves)
  then show "board_evolves (plan_board plan) (plan_board plan')" "pl_task plan' = pl_task plan"
    "pl_task_cards plan' = pl_task_cards plan"
    using b(2) by (simp_all add: with_board_def plan_board_def)
qed

lemma activate_current_stages_evolves:
  assumes "activate_current_stages now plan = Inr plan'"
  shows "board_evolves (plan_board plan) (plan_board plan')"
    and "pl_task plan' = pl_task plan" and "pl_task_cards plan' = pl_task_cards plan"
proof -
  obtain b where b: "foldE (activate_current_stage now) (by_position (pl_stages plan))
      (plan_board plan) = Inr b" "plan' = with_board plan b"
    using assms by (auto simp: activate_current_stages_def plan_board_def monad)
  have "board_evolves (plan_board plan) b"
    using b(1) by (rule board_loop_evolves) (auto simp: plan_board_def activate_current_stage_evolves)
  then show "board_evolves (plan_board plan) (plan_board plan')" "pl_task plan' = pl_task plan"
    "pl_task_cards plan' = pl_task_cards plan"
    using b(2) by (simp_all add: with_board_def plan_board_def)
qed

end
