(* ===== verification/Repository.thy ===== *)
theory Repository
  imports Store_Types "HOL-Library.Char_ord" "HOL-Library.List_Lexorder"
    "HOL-Library.Product_Lexorder"
begin

text \<open>
  \<^verbatim>\<open>backend/harness/storage/repository.py\<close>: revisioned snapshots on top of an
  append-only event journal. The state is the file tree of the control root: the snapshot files of
  every task directory, the decoded event journals, the idempotency records, the indexes. A task
  directory exists when it has a journal entry. Locks serialise the callers and are not part of
  the state; byte-level journals are in \<open>Journal_Files\<close>.
\<close>

section \<open>The file tree\<close>

record wrapper =
  wr_object_type :: object_type
  wr_object_id :: string
  wr_revision :: int
  wr_payload :: payload
  wr_committed_at :: string

text \<open>A snapshot file parses, or it does not.\<close>

datatype content = Snapshot wrapper | Unreadable

datatype event_type = OBJECT_COMMITTED | OBJECT_REMOVED

record event =
  ee_event_id :: string
  ee_event_type :: event_type
  ee_object_type :: object_type
  ee_object_id :: string
  ee_revision :: int
  ee_payload_sha256 :: string
  ee_actor :: actor
  ee_command :: string
  ee_idempotency_key :: string
  ee_occurred_at :: string
  ee_snapshot :: "wrapper option"
  ee_command_result :: "command_result option"
  ee_request_sha256 :: "string option"

record idempotency_record =
  id_scope :: string
  id_key :: string
  id_command :: string
  id_request_sha256 :: string
  id_result :: command_result

record task_index_row =
  ti_task_id :: string
  ti_status :: task_status
  ti_title :: string
  ti_updated_at :: string
  ti_revision :: int

record inbox_index_row =
  ii_inbox_id :: string
  ii_task_id :: string
  ii_kind :: string
  ii_owner :: string
  ii_status :: string
  ii_created_at :: string
  ii_sequence :: int

text \<open>The request file of an approval, in the task's workspace.\<close>

record approval_payload =
  ay_approval_id :: string
  ay_task_id :: string
  ay_instance_id :: string
  ay_step_id :: string
  ay_attempt_id :: "string option"
  ay_available_actions :: "string list"
  ay_created_at :: string

text \<open>The record of a model call that the supervisor registered.\<close>

record model_call =
  mc_attempt_id :: string
  mc_request_id :: string
  mc_task_id :: string
  mc_instance_id :: string
  mc_launch_id :: string
  mc_status :: string
  mc_started_at :: string
  mc_completed_at :: "string option"

type_synonym file_path = "string \<times> string list"

record store =
  st_files :: "(file_path \<times> content) list"
  st_journals :: "(string \<times> event list) list"
  st_idempotency :: "(string \<times> idempotency_record) list"
  st_summaries :: "(string \<times> main_task) list"
  st_task_index :: "task_index_row list"
  st_inbox_index :: "inbox_index_row list"
  st_warnings :: "(string \<times> string) list"
  st_approval_payloads :: "(file_path \<times> approval_payload) list"
  st_model_calls :: "(file_path \<times> model_call) list"
  st_sequence :: int
  st_ticks :: nat
  st_uuids :: nat

type_synonym 'a sop = "(store, exn, 'a) op"

definition empty_store :: store where
  "empty_store = \<lparr>st_files = [], st_journals = [], st_idempotency = [], st_summaries = [],
     st_task_index = [], st_inbox_index = [], st_warnings = [], st_approval_payloads = [],
     st_model_calls = [], st_sequence = 0, st_ticks = 0, st_uuids = 0\<rparr>"

section \<open>Primitive effects\<close>

definition utc_now :: "environment \<Rightarrow> string sop" where
  "utc_now env st = (Inr (ev_clock env (st_ticks st)), st\<lparr>st_ticks := Suc (st_ticks st)\<rparr>)"

definition fresh_uuid :: "environment \<Rightarrow> string sop" where
  "fresh_uuid env st = (Inr (ev_uuid env (st_uuids st)), st\<lparr>st_uuids := Suc (st_uuids st)\<rparr>)"

text \<open>\<open>recover_records(.../events.ndjson)\<close> of a task: empty when there is no file.\<close>

definition journal :: "store \<Rightarrow> string \<Rightarrow> event list" where
  "journal st task_id = (case map_of (st_journals st) task_id of None \<Rightarrow> [] | Some es \<Rightarrow> es)"

definition append_event :: "string \<Rightarrow> event \<Rightarrow> unit sop" where
  "append_event task_id e =
     modifyS (\<lambda>st. st\<lparr>st_journals :=
       AList.update task_id (journal st task_id @ [e]) (st_journals st)\<rparr>)"

definition write_file :: "file_path \<Rightarrow> wrapper \<Rightarrow> unit sop" where
  "write_file path w = modifyS (\<lambda>st. st\<lparr>st_files := AList.update path (Snapshot w) (st_files st)\<rparr>)"

definition unlink_file :: "file_path \<Rightarrow> unit sop" where
  "unlink_file path = modifyS (\<lambda>st. st\<lparr>st_files := AList.delete path (st_files st)\<rparr>)"

definition file_at :: "store \<Rightarrow> file_path \<Rightarrow> content option" where
  "file_at st path = map_of (st_files st) path"

definition read_json :: "store \<Rightarrow> file_path \<Rightarrow> wrapper res" where
  "read_json st path =
     (case file_at st path of
        Some (Snapshot w) \<Rightarrow> Inr w
      | _ \<Rightarrow> Inl (ValueError ''invalid JSON''))"

text \<open>\<open>initialize_task\<close> creates the task's directories.\<close>

definition initialize_task :: "string \<Rightarrow> unit sop" where
  "initialize_task task_id =
     bindS (liftE (validate_identifier task_id ''task_id'')) (\<lambda>_.
     modifyS (\<lambda>st. st\<lparr>st_journals :=
       (if map_of (st_journals st) task_id = None
        then st_journals st @ [(task_id, [])] else st_journals st)\<rparr>))"

definition task_directories :: "store \<Rightarrow> string list" where
  "task_directories st = sort (map fst (st_journals st))"

section \<open>Snapshot repositories\<close>

record repository =
  rq_object_type :: object_type
  rq_relative_path :: "string \<Rightarrow> string list"
  rq_validator :: "payload \<Rightarrow> unit res"
  rq_after_commit :: "(string \<Rightarrow> unit sop) option"

definition repo_path :: "repository \<Rightarrow> string \<Rightarrow> string \<Rightarrow> file_path res" where
  "repo_path R task_id object_id =
     bindE (validate_identifier task_id ''task_id'') (\<lambda>_.
     bindE (validate_identifier object_id (object_type_name (rq_object_type R) @ ''_id'')) (\<lambda>_.
     Inr (task_id, rq_relative_path R object_id)))"

definition read_wrapper ::
  "repository \<Rightarrow> store \<Rightarrow> string \<Rightarrow> string \<Rightarrow> wrapper option res" where
  "read_wrapper R st task_id object_id =
     bindE (repo_path R task_id object_id) (\<lambda>path.
     case file_at st path of
       None \<Rightarrow> Inr None
     | Some Unreadable \<Rightarrow> Inl (ValueError ''invalid JSON'')
     | Some (Snapshot w) \<Rightarrow>
         if wr_object_type w \<noteq> rq_object_type R then
           Inl (RuntimeError
             (''invalid '' @ object_type_name (rq_object_type R) @ '' snapshot wrapper''))
         else Inr (Some w))"

definition repo_get ::
  "repository \<Rightarrow> store \<Rightarrow> string \<Rightarrow> string \<Rightarrow> payload option res" where
  "repo_get R st task_id object_id =
     bindE (read_wrapper R st task_id object_id) (\<lambda>w. Inr (map_option wr_payload w))"

definition repo_revision :: "repository \<Rightarrow> store \<Rightarrow> string \<Rightarrow> string \<Rightarrow> int res" where
  "repo_revision R st task_id object_id =
     bindE (read_wrapper R st task_id object_id) (\<lambda>w.
     Inr (case w of None \<Rightarrow> 0 | Some v \<Rightarrow> wr_revision v))"

text \<open>The files of one directory whose name ends in \<^verbatim>\<open>.json\<close>, in name order.\<close>

definition glob_json :: "store \<Rightarrow> string \<Rightarrow> string list \<Rightarrow> file_path list" where
  "glob_json st task_id directory =
     sort_key snd (filter
       (\<lambda>(t, p). t = task_id \<and> p \<noteq> [] \<and> butlast p = directory \<and> ends_with ''.json'' (last p))
       (map fst (st_files st)))"

definition repo_list :: "repository \<Rightarrow> store \<Rightarrow> string \<Rightarrow> payload list res" where
  "repo_list R st task_id =
     bindE (repo_path R task_id ''placeholder'') (\<lambda>path.
     bindE (mapE (read_json st) (glob_json st task_id (butlast (snd path)))) (\<lambda>ws.
     Inr (map wr_payload (filter (\<lambda>w. wr_object_type w = rq_object_type R) ws))))"

definition revision_conflict :: "object_type \<Rightarrow> string \<Rightarrow> int \<Rightarrow> int \<Rightarrow> exn" where
  "revision_conflict kind object_id expected actual =
     HarnessError REVISION_CONFLICT
       ''The object revision changed before this command committed.''
       [(''object_type'', DStr (object_type_name kind)), (''object_id'', DStr object_id),
        (''expected_revision'', DInt expected), (''actual_revision'', DInt actual)]"

definition is_commit_of :: "object_type \<Rightarrow> string \<Rightarrow> event \<Rightarrow> bool" where
  "is_commit_of kind object_id e =
     (ee_event_type e = OBJECT_COMMITTED \<and> ee_object_type e = kind \<and>
      ee_object_id e = object_id)"

text \<open>\<open>max((...), default=0)\<close> over the revisions committed for an object.\<close>

definition last_committed_revision :: "object_type \<Rightarrow> string \<Rightarrow> event list \<Rightarrow> int" where
  "last_committed_revision kind object_id es =
     (case map ee_revision (filter (is_commit_of kind object_id) es) of
        [] \<Rightarrow> 0
      | r # rs \<Rightarrow> fold max rs r)"

definition no_hook :: "string \<Rightarrow> unit res" where
  "no_hook checkpoint = Inr ()"

definition crash_at :: "string \<Rightarrow> string \<Rightarrow> unit res" where
  "crash_at cp checkpoint =
     (if checkpoint = cp then Inl (SimulatedCrash checkpoint) else Inr ())"

definition after_commit :: "repository \<Rightarrow> string \<Rightarrow> unit sop" where
  "after_commit R task_id =
     (case rq_after_commit R of None \<Rightarrow> returnS () | Some f \<Rightarrow> f task_id)"

text \<open>The commit protocol: the event first, then the snapshot, then the index, with the named
  checkpoints at which a test interrupts it.\<close>

definition repo_commit ::
  "repository \<Rightarrow> string \<Rightarrow> string \<Rightarrow> wrapper \<Rightarrow> event \<Rightarrow> (string \<Rightarrow> unit res) \<Rightarrow> wrapper sop" where
  "repo_commit R task_id object_id wrapper event crash_hook =
     bindS (append_event task_id event) (\<lambda>_.
     bindS (liftE (crash_hook ''after_event_append'')) (\<lambda>_.
     bindS (liftE (repo_path R task_id object_id)) (\<lambda>path.
     bindS (write_file path wrapper) (\<lambda>_.
     bindS (liftE (crash_hook ''after_snapshot_rename'')) (\<lambda>_.
     bindS (after_commit R task_id) (\<lambda>_.
     bindS (liftE (crash_hook ''after_index_update'')) (\<lambda>_.
     returnS wrapper)))))))"

definition repo_put ::
  "environment \<Rightarrow> repository \<Rightarrow> string \<Rightarrow> string \<Rightarrow> payload \<Rightarrow> int \<Rightarrow> actor \<Rightarrow>
   string \<Rightarrow> string \<Rightarrow> command_result option \<Rightarrow> string option \<Rightarrow>
   (string \<Rightarrow> unit res) \<Rightarrow> wrapper sop" where
  "repo_put env R task_id object_id payload expected_revision actor command idempotency_key
     command_result request_sha256 crash_hook =
     bindS (liftE (guardE ((command_result = None) = (request_sha256 = None))
       (ValueError ''command_result and request_sha256 must be committed together''))) (\<lambda>_.
     bindS (liftE (rq_validator R payload)) (\<lambda>_.
     bindS (initialize_task task_id) (\<lambda>_.
     bindS (readS (\<lambda>st. read_wrapper R st task_id object_id)) (\<lambda>current.
     let actual_revision = (case current of None \<Rightarrow> 0 | Some w \<Rightarrow> wr_revision w) in
     bindS (liftE (guardE (expected_revision = actual_revision)
       (revision_conflict (rq_object_type R) object_id expected_revision actual_revision))) (\<lambda>_.
     bindS (readS (\<lambda>st. Inr (
       if current = None
       then last_committed_revision (rq_object_type R) object_id (journal st task_id)
       else actual_revision))) (\<lambda>commit_base_revision.
     bindS (utc_now env) (\<lambda>now.
     let wrapper = \<lparr>wr_object_type = rq_object_type R, wr_object_id = object_id,
           wr_revision = commit_base_revision + 1, wr_payload = payload,
           wr_committed_at = now\<rparr> in
     bindS (fresh_uuid env) (\<lambda>uuid.
     let event = \<lparr>ee_event_id = ''evt_'' @ uuid, ee_event_type = OBJECT_COMMITTED,
           ee_object_type = rq_object_type R, ee_object_id = object_id,
           ee_revision = wr_revision wrapper,
           ee_payload_sha256 = ev_payload_digest env payload, ee_actor = actor,
           ee_command = command, ee_idempotency_key = idempotency_key,
           ee_occurred_at = wr_committed_at wrapper, ee_snapshot = Some wrapper,
           ee_command_result = command_result, ee_request_sha256 = request_sha256\<rparr> in
     repo_commit R task_id object_id wrapper event crash_hook))))))))"

definition removal_event ::
  "environment \<Rightarrow> object_type \<Rightarrow> string \<Rightarrow> wrapper \<Rightarrow> actor \<Rightarrow> string \<Rightarrow> string \<Rightarrow> string \<Rightarrow>
   string \<Rightarrow> event" where
  "removal_event env kind object_id w actor command key uuid now =
     \<lparr>ee_event_id = ''evt_'' @ uuid, ee_event_type = OBJECT_REMOVED, ee_object_type = kind,
      ee_object_id = object_id, ee_revision = wr_revision w,
      ee_payload_sha256 = ev_payload_digest env (wr_payload w), ee_actor = actor,
      ee_command = command, ee_idempotency_key = key, ee_occurred_at = now,
      ee_snapshot = None, ee_command_result = None, ee_request_sha256 = None\<rparr>"

definition repo_delete ::
  "environment \<Rightarrow> repository \<Rightarrow> string \<Rightarrow> string \<Rightarrow> int \<Rightarrow> actor \<Rightarrow>
   string \<Rightarrow> string \<Rightarrow> bool sop" where
  "repo_delete env R task_id object_id expected_revision actor command idempotency_key =
     bindS (initialize_task task_id) (\<lambda>_.
     bindS (readS (\<lambda>st. read_wrapper R st task_id object_id)) (\<lambda>current.
     case current of None \<Rightarrow> returnS False | Some w \<Rightarrow>
     bindS (liftE (guardE (expected_revision = wr_revision w)
       (revision_conflict (rq_object_type R) object_id expected_revision (wr_revision w)))) (\<lambda>_.
     bindS (fresh_uuid env) (\<lambda>uuid.
     bindS (utc_now env) (\<lambda>now.
     bindS (append_event task_id
       (removal_event env (rq_object_type R) object_id w actor command idempotency_key uuid now)) (\<lambda>_.
     bindS (liftE (repo_path R task_id object_id)) (\<lambda>path.
     bindS (unlink_file path) (\<lambda>_.
     bindS (after_commit R task_id) (\<lambda>_.
     returnS True)))))))))"

section \<open>What an operation leaves alone\<close>

text \<open>
  \<open>rest\<close> is the durable state besides the snapshot files and the journals. \<open>unchanged\<close> is the
  frame of a rejected operation: no snapshot, no journal and nothing else of the durable state
  moved (the indexes are derived data, the clock and the identifier supply are not state).
\<close>

definition rest where
  "rest st = (st_idempotency st, st_summaries st, st_warnings st, st_approval_payloads st,
              st_model_calls st, st_sequence st)"

definition unchanged :: "store \<Rightarrow> store \<Rightarrow> bool" where
  "unchanged st st' \<longleftrightarrow>
     file_at st' = file_at st \<and> journal st' = journal st \<and> rest st' = rest st"

definition journalled :: "string \<Rightarrow> event \<Rightarrow> store \<Rightarrow> store \<Rightarrow> bool" where
  "journalled task_id e st st' \<longleftrightarrow>
     file_at st' = file_at st \<and>
     journal st' = (journal st)(task_id := journal st task_id @ [e]) \<and>
     rest st' = rest st"

definition put_effect :: "file_path \<Rightarrow> wrapper \<Rightarrow> event \<Rightarrow> store \<Rightarrow> store \<Rightarrow> bool" where
  "put_effect path w e st st' \<longleftrightarrow>
     file_at st' = (file_at st)(path \<mapsto> Snapshot w) \<and>
     journal st' = (journal st)(fst path := journal st (fst path) @ [e]) \<and>
     rest st' = rest st"

lemma unchanged_refl [simp]: "unchanged st st"
  by (simp add: unchanged_def)

lemma unchanged_trans: "unchanged a b \<Longrightarrow> unchanged b c \<Longrightarrow> unchanged a c"
  by (simp add: unchanged_def)

lemma put_effect_unchanged: "put_effect p w e a b \<Longrightarrow> unchanged b c \<Longrightarrow> put_effect p w e a c"
  by (simp add: put_effect_def unchanged_def)

lemma unchanged_put_effect: "unchanged a b \<Longrightarrow> put_effect p w e b c \<Longrightarrow> put_effect p w e a c"
  by (simp add: put_effect_def unchanged_def)

lemma unchanged_journalled: "unchanged a b \<Longrightarrow> journalled t e b c \<Longrightarrow> journalled t e a c"
  by (simp add: journalled_def unchanged_def)

lemma rest_updates [simp]:
  "rest (st\<lparr>st_files := f\<rparr>) = rest st" "rest (st\<lparr>st_journals := j\<rparr>) = rest st"
  "rest (st\<lparr>st_ticks := n\<rparr>) = rest st" "rest (st\<lparr>st_uuids := n\<rparr>) = rest st"
  "rest (st\<lparr>st_task_index := ti\<rparr>) = rest st" "rest (st\<lparr>st_inbox_index := ii\<rparr>) = rest st"
  by (simp_all add: rest_def)

lemma observer_updates [simp]:
  "file_at (st\<lparr>st_journals := j\<rparr>) = file_at st"
  "file_at (st\<lparr>st_ticks := n\<rparr>) = file_at st"
  "file_at (st\<lparr>st_uuids := n\<rparr>) = file_at st"
  "file_at (st\<lparr>st_task_index := ti\<rparr>) = file_at st"
  "file_at (st\<lparr>st_inbox_index := ii\<rparr>) = file_at st"
  "file_at (st\<lparr>st_idempotency := im\<rparr>) = file_at st"
  "file_at (st\<lparr>st_summaries := sm\<rparr>) = file_at st"
  "file_at (st\<lparr>st_warnings := wn\<rparr>) = file_at st"
  "journal (st\<lparr>st_files := f\<rparr>) = journal st"
  "journal (st\<lparr>st_ticks := n\<rparr>) = journal st"
  "journal (st\<lparr>st_uuids := n\<rparr>) = journal st"
  "journal (st\<lparr>st_task_index := ti\<rparr>) = journal st"
  "journal (st\<lparr>st_inbox_index := ii\<rparr>) = journal st"
  "journal (st\<lparr>st_idempotency := im\<rparr>) = journal st"
  "journal (st\<lparr>st_summaries := sm\<rparr>) = journal st"
  "journal (st\<lparr>st_warnings := wn\<rparr>) = journal st"
  by (simp_all add: file_at_def journal_def fun_eq_iff)

lemma utc_now_iff [monad]:
  "utc_now env st = (r, st') \<longleftrightarrow>
     r = Inr (ev_clock env (st_ticks st)) \<and> st' = st\<lparr>st_ticks := Suc (st_ticks st)\<rparr>"
  by (auto simp: utc_now_def)

lemma fresh_uuid_iff [monad]:
  "fresh_uuid env st = (r, st') \<longleftrightarrow>
     r = Inr (ev_uuid env (st_uuids st)) \<and> st' = st\<lparr>st_uuids := Suc (st_uuids st)\<rparr>"
  by (auto simp: fresh_uuid_def)

lemma bindS_clock [run]:
  "bindS (utc_now env) f st = f (ev_clock env (st_ticks st)) (st\<lparr>st_ticks := Suc (st_ticks st)\<rparr>)"
  by (simp add: bindS_def utc_now_def)

lemma bindS_uuid [run]:
  "bindS (fresh_uuid env) f st = f (ev_uuid env (st_uuids st)) (st\<lparr>st_uuids := Suc (st_uuids st)\<rparr>)"
  by (simp add: bindS_def fresh_uuid_def)

lemma utc_now_unchanged: "utc_now env st = (r, st') \<Longrightarrow> unchanged st st'"
  by (auto simp: monad unchanged_def)

lemma fresh_uuid_unchanged: "fresh_uuid env st = (r, st') \<Longrightarrow> unchanged st st'"
  by (auto simp: monad unchanged_def)

lemma journal_init:
  "journal (st\<lparr>st_journals := (if map_of (st_journals st) t = None
      then st_journals st @ [(t, [])] else st_journals st)\<rparr>) = journal st"
  by (auto simp: journal_def fun_eq_iff map_add_def split: option.splits)

lemma initialize_task_unchanged: "initialize_task t st = (r, st') \<Longrightarrow> unchanged st st'"
  unfolding initialize_task_def
  by (erule bindS_cases) (auto simp: monad unchanged_def journal_init)

lemma initialize_task_Inr:
  "initialize_task t st = (Inr u, st') \<Longrightarrow> is_identifier t"
  by (auto simp: initialize_task_def monad)

lemma append_event_journalled:
  "append_event t e st = (r, st') \<Longrightarrow> r = Inr () \<and> journalled t e st st'"
  by (auto simp: append_event_def monad journalled_def journal_def fun_eq_iff)

lemma write_file_effect:
  "write_file p w st = (r, st') \<Longrightarrow>
     r = Inr () \<and> file_at st' = (file_at st)(p \<mapsto> Snapshot w) \<and>
     journal st' = journal st \<and> rest st' = rest st"
  by (auto simp: write_file_def monad file_at_def fun_eq_iff)

text \<open>Reads see only the observers.\<close>

lemma read_wrapper_cong: "file_at a = file_at b \<Longrightarrow> read_wrapper R a t i = read_wrapper R b t i"
  by (simp add: read_wrapper_def)

lemma read_wrapper_unchanged:
  "unchanged a b \<Longrightarrow> read_wrapper R b t i = read_wrapper R a t i"
  by (rule read_wrapper_cong) (simp add: unchanged_def)

lemma repo_get_unchanged: "unchanged a b \<Longrightarrow> repo_get R b t i = repo_get R a t i"
  by (simp add: repo_get_def read_wrapper_unchanged)

lemma repo_revision_unchanged:
  "unchanged a b \<Longrightarrow> repo_revision R b t i = repo_revision R a t i"
  by (simp add: repo_revision_def read_wrapper_unchanged)

lemma repo_path_Inr [monad]:
  "repo_path R t i = Inr path \<longleftrightarrow>
     is_identifier t \<and> is_identifier i \<and> path = (t, rq_relative_path R i)"
  by (auto simp: repo_path_def monad)

lemma read_wrapper_InrD:
  "read_wrapper R st t i = Inr c \<Longrightarrow> is_identifier t \<and> is_identifier i"
  by (auto simp: read_wrapper_def monad)

section \<open>The effect of a write\<close>

text \<open>The hook that runs after a commit rebuilds an index and touches no durable fact.\<close>

definition benign :: "repository \<Rightarrow> bool" where
  "benign R \<longleftrightarrow> (\<forall>t st. unchanged st (snd (after_commit R t st)))"

lemma benignD: "benign R \<Longrightarrow> after_commit R t st = (r, st') \<Longrightarrow> unchanged st st'"
  by (metis benign_def snd_conv)

text \<open>The wrapper and the event that a write commits.\<close>

definition commit_base ::
  "repository \<Rightarrow> store \<Rightarrow> string \<Rightarrow> string \<Rightarrow> wrapper option \<Rightarrow> int" where
  "commit_base R st task_id object_id current =
     (case current of
        None \<Rightarrow> last_committed_revision (rq_object_type R) object_id (journal st task_id)
      | Some w \<Rightarrow> wr_revision w)"

definition commit_of ::
  "repository \<Rightarrow> string \<Rightarrow> payload \<Rightarrow> int \<Rightarrow> actor \<Rightarrow> string \<Rightarrow> string \<Rightarrow>
   command_result option \<Rightarrow> string option \<Rightarrow> wrapper \<Rightarrow> event \<Rightarrow> bool" where
  "commit_of R object_id payload base actor command key command_result request_sha256 w e \<longleftrightarrow>
     wr_object_type w = rq_object_type R \<and> wr_object_id w = object_id \<and>
     wr_revision w = base + 1 \<and> wr_payload w = payload \<and>
     is_commit_of (rq_object_type R) object_id e \<and> ee_revision e = base + 1 \<and>
     ee_snapshot e = Some w \<and> ee_actor e = actor \<and> ee_command e = command \<and>
     ee_idempotency_key e = key \<and> ee_command_result e = command_result \<and>
     ee_request_sha256 e = request_sha256"

lemma repo_commit_cases:
  assumes run: "repo_commit R t i w e hook st = (r, st')"
    and R: "benign R" and ids: "is_identifier t" "is_identifier i"
  obtains (crashed) x where "r = Inl x" "hook ''after_event_append'' = Inl x" "journalled t e st st'"
  | (committed) "r = Inr w \<or> (\<exists>x. r = Inl x)" "put_effect (t, rq_relative_path R i) w e st st'"
      "hook ''after_event_append'' = Inr ()"
proof -
  obtain a where a: "append_event t e st = (Inr (), a)" "journalled t e st a"
    using append_event_journalled by (metis surj_pair)
  show thesis
  proof (cases "hook ''after_event_append''")
    case (Inl x)
    then have "r = Inl x \<and> st' = a"
      using run a(1) by (auto simp: repo_commit_def bindS_run liftE_def bindS_def)
    then show thesis using a(2) Inl crashed by blast
  next
    case (Inr u)
    let ?p = "(t, rq_relative_path R i)"
    obtain b where b: "write_file ?p w a = (Inr (), b)"
      "file_at b = (file_at a)(?p \<mapsto> Snapshot w)" "journal b = journal a" "rest b = rest a"
      using write_file_effect by (metis surj_pair)
    have eff: "put_effect ?p w e st b"
      using a(2) b by (simp add: put_effect_def journalled_def)
    have path: "repo_path R t i = Inr ?p" using ids by (simp add: monad)
    have "bindS (liftE (hook ''after_snapshot_rename'')) (\<lambda>_.
        bindS (after_commit R t) (\<lambda>_.
        bindS (liftE (hook ''after_index_update'')) (\<lambda>_. returnS w))) b = (r, st')"
      using run a(1) b(1) Inr path
      by (simp add: repo_commit_def bindS_run liftE_def)
    then have "(r = Inr w \<or> (\<exists>x. r = Inl x)) \<and> unchanged b st'"
      by (elim bindS_cases) (auto simp: monad dest: benignD [OF R])
    then show thesis using Inr eff committed put_effect_unchanged by (metis old.unit.exhaust)
  qed
qed

lemma repo_put_cases:
  assumes put: "repo_put env R t i payload expected actor cmd key res sha hook st = (r, st')"
    and R: "benign R"
  obtains
    (rejected) x where "r = Inl x" "unchanged st st'"
  | (crashed) x current w e where "r = Inl x" "hook ''after_event_append'' = Inl x"
      "is_identifier t" "is_identifier i" "rq_validator R payload = Inr ()"
      "read_wrapper R st t i = Inr current"
      "expected = (case current of None \<Rightarrow> 0 | Some v \<Rightarrow> wr_revision v)"
      "commit_of R i payload (commit_base R st t i current) actor cmd key res sha w e"
      "journalled t e st st'"
  | (committed) current w e where "r = Inr w \<or> (\<exists>x. r = Inl x)"
      "is_identifier t" "is_identifier i" "rq_validator R payload = Inr ()"
      "(res = None) = (sha = None)" "read_wrapper R st t i = Inr current"
      "expected = (case current of None \<Rightarrow> 0 | Some v \<Rightarrow> wr_revision v)"
      "commit_of R i payload (commit_base R st t i current) actor cmd key res sha w e"
      "put_effect (t, rq_relative_path R i) w e st st'"
      "hook ''after_event_append'' = Inr ()"
  using put unfolding repo_put_def Let_def
proof (elim bindS_cases, goal_cases)
  case (9 a1 s1 a2 s2 a3 s3 current s4 a5 s5 base s6 now s7 uuid s8)
  note steps = 9(3-)
  have s: "s2 = st" "unchanged st s3" "s4 = s3" "s6 = s5" "s5 = s4"
    using steps by (auto simp: monad dest: initialize_task_unchanged)
  have u: "unchanged st s8"
    using s steps utc_now_unchanged fresh_uuid_unchanged by (metis unchanged_trans)
  have cur: "read_wrapper R st t i = Inr current"
    using steps s read_wrapper_unchanged [OF s(2)] by (auto simp: monad)
  have ids: "is_identifier t" "is_identifier i" using read_wrapper_InrD [OF cur] by auto
  have base: "base = commit_base R st t i current"
    using steps s by (auto simp: monad commit_base_def unchanged_def split: option.splits)
  let ?w = "\<lparr>wr_object_type = rq_object_type R, wr_object_id = i, wr_revision = base + 1,
    wr_payload = payload, wr_committed_at = now\<rparr>"
  let ?e = "\<lparr>ee_event_id = ''evt_'' @ uuid, ee_event_type = OBJECT_COMMITTED,
    ee_object_type = rq_object_type R, ee_object_id = i, ee_revision = wr_revision ?w,
    ee_payload_sha256 = ev_payload_digest env payload, ee_actor = actor,
    ee_command = cmd, ee_idempotency_key = key, ee_occurred_at = wr_committed_at ?w,
    ee_snapshot = Some ?w, ee_command_result = res, ee_request_sha256 = sha\<rparr>"
  have commit: "repo_commit R t i ?w ?e hook s8 = (r, st')" using steps by simp
  have pre: "rq_validator R payload = Inr ()" "(res = None) = (sha = None)"
      "expected = (case current of None \<Rightarrow> 0 | Some v \<Rightarrow> wr_revision v)"
    using steps by (auto simp: monad split: option.splits)
  have shape: "commit_of R i payload (commit_base R st t i current) actor cmd key res sha ?w ?e"
    by (simp add: commit_of_def is_commit_of_def base)
  show ?case
    using commit R ids(1) ids(2)
  proof (rule repo_commit_cases)
    show thesis if "r = Inl x" "hook ''after_event_append'' = Inl x" "journalled t ?e s8 st'" for x
      using crashed [OF that(1,2) ids pre(1) cur pre(3) shape]
        unchanged_journalled [OF u that(3)] by blast
  next
    show thesis if "r = Inr ?w \<or> (\<exists>x. r = Inl x)"
      "put_effect (t, rq_relative_path R i) ?w ?e s8 st'" "hook ''after_event_append'' = Inr ()"
      using committed [OF that(1) ids pre(1,2) cur pre(3) shape]
        unchanged_put_effect [OF u that(2)] that(3) by blast
  qed
qed (auto simp: monad intro: rejected dest!: initialize_task_unchanged)

end
