(* ===== verification/Sample_Environment.thy ===== *)
theory Sample_Environment imports Store_Types begin

text \<open>
  One concrete environment, on which the witnesses evaluate the model: a clock and an identifier
  supply that count, digests that spell out what they digest, and a contract registry that knows
  the schemas of the stored objects and accepts every payload.
\<close>

fun sample_request_text :: "command_request \<Rightarrow> string" where
  "sample_request_text (R_task t) = ''task '' @ t"
| "sample_request_text (R_rename_task t n) = ''rename '' @ t @ '' '' @ n"
| "sample_request_text (R_transition t i s) = ''transition '' @ t @ '' '' @ i"
| "sample_request_text _ = ''other''"

definition sample_contracts :: contract_registry where
  "sample_contracts =
     \<lparr>cr_names = map (\<lambda>n. n @ schema_suffix)
        [''main-task'', ''task-plan'', ''stage'', ''agent-instance'', ''approval-request'',
         ''inbox-item'', ''task-intake'', ''task-navigation-metadata'', ''master-thread'',
         ''master-message'', ''plan-proposal''],
      cr_version = (\<lambda>_. None), cr_first_error = (\<lambda>_ _. None)\<rparr>"

definition sample_env :: environment where
  "sample_env =
     \<lparr>ev_clock = (\<lambda>n. ''t'' @ show_nat n), ev_uuid = (\<lambda>n. ''u'' @ show_nat n),
      ev_payload_digest = (\<lambda>_. ''digest''),
      ev_request_digest = (\<lambda>c r. c @ '':'' @ sample_request_text r),
      ev_identity_digest = (\<lambda>xs. filter is_ident_char (concat xs)),
      ev_key_hash = (\<lambda>scope key. scope @ '' '' @ key),
      ev_contracts = sample_contracts\<rparr>"

lemma sample_env_simps [simp]:
  "ev_clock sample_env n = ''t'' @ show_nat n" "ev_uuid sample_env n = ''u'' @ show_nat n"
  "ev_payload_digest sample_env p = ''digest''"
  "ev_request_digest sample_env c r = c @ '':'' @ sample_request_text r"
  "ev_identity_digest sample_env xs = filter is_ident_char (concat xs)"
  "ev_key_hash sample_env scope key = scope @ '' '' @ key"
  "ev_contracts sample_env = sample_contracts"
  by (simp_all add: sample_env_def)

lemma sample_contracts_accept [simp]:
  "contracts_validate sample_contracts ''main-task'' p = Inr ()"
  "contracts_validate sample_contracts ''task-plan'' p = Inr ()"
  "contracts_validate sample_contracts ''stage'' p = Inr ()"
  "contracts_validate sample_contracts ''agent-instance'' p = Inr ()"
  "contracts_validate sample_contracts ''approval-request'' p = Inr ()"
  "contracts_validate sample_contracts ''inbox-item'' p = Inr ()"
  by (code_simp; simp)+

end
