(* ===== verification/Idempotency.thy ===== *)
theory Idempotency imports Repository Sample_Environment begin

text \<open>
  \<^verbatim>\<open>backend/harness/storage/idempotency.py\<close>: the durable registry of command results, one file
  per scope and key, named by the hash \<open>ev_key_hash\<close> of both. The contract of a
  write-once registry is the locale \<open>write_once\<close>, interpreted on the model below.
\<close>

section \<open>Operations\<close>

definition idempotency_conflict :: "string \<Rightarrow> string \<Rightarrow> exn" where
  "idempotency_conflict scope command =
     HarnessError IDEMPOTENCY_CONFLICT
       ''The idempotency key was already used for a different request.''
       [(''scope'', DStr scope), (''command'', DStr command)]"

definition idempotency_path :: "environment \<Rightarrow> string \<Rightarrow> string \<Rightarrow> string" where
  "idempotency_path env scope key = ev_key_hash env scope key @ ''.json''"

definition idempotency_lookup ::
  "environment \<Rightarrow> store \<Rightarrow> string \<Rightarrow> string \<Rightarrow> string \<Rightarrow> command_request \<Rightarrow>
   command_result option res" where
  "idempotency_lookup env st scope key command payload =
     (case map_of (st_idempotency st) (idempotency_path env scope key) of
        None \<Rightarrow> Inr None
      | Some record \<Rightarrow>
          if id_request_sha256 record \<noteq> ev_request_digest env command payload
          then Inl (idempotency_conflict scope command)
          else Inr (Some (id_result record)))"

definition remember_digest ::
  "environment \<Rightarrow> string \<Rightarrow> string \<Rightarrow> string \<Rightarrow> string \<Rightarrow> command_result \<Rightarrow>
   command_result sop" where
  "remember_digest env scope key command request_sha256 result =
     (let path = idempotency_path env scope key in
      bindS (readS (\<lambda>st. Inr (map_of (st_idempotency st) path))) (\<lambda>existing.
      case existing of
        Some record \<Rightarrow>
          if id_request_sha256 record \<noteq> request_sha256
          then throwS (idempotency_conflict scope command)
          else returnS (id_result record)
      | None \<Rightarrow>
          bindS (modifyS (\<lambda>st. st\<lparr>st_idempotency :=
            AList.update path
              \<lparr>id_scope = scope, id_key = key, id_command = command,
               id_request_sha256 = request_sha256, id_result = result\<rparr>
              (st_idempotency st)\<rparr>)) (\<lambda>_.
          returnS result)))"

definition remember ::
  "environment \<Rightarrow> string \<Rightarrow> string \<Rightarrow> string \<Rightarrow> command_request \<Rightarrow> command_result \<Rightarrow>
   command_result sop" where
  "remember env scope key command payload result =
     remember_digest env scope key command (ev_request_digest env command payload) result"

section \<open>The contract of a write-once registry\<close>

text \<open>
  A registry answers a query with a digest and a value; \<open>put\<close> returns the value the registry holds
  afterwards, or fails when the key is taken by another digest, and never replaces an entry.
\<close>

locale write_once =
  fixes entry :: "'s \<Rightarrow> 'k \<Rightarrow> ('d \<times> 'v) option"
    and put :: "'k \<Rightarrow> 'd \<Rightarrow> 'v \<Rightarrow> 's \<Rightarrow> ('e + 'v) \<times> 's"
  assumes put_fresh:
    "entry s k = None \<Longrightarrow> put k d v s = (r, s') \<Longrightarrow>
       r = Inr v \<and> entry s' k = Some (d, v)"
    and put_other:
    "entry s k' = Some x \<Longrightarrow> put k d v s = (r, s') \<Longrightarrow> entry s' k' = Some x"
    and put_same:
    "entry s k = Some (d, w) \<Longrightarrow> put k d v s = (r, s') \<Longrightarrow> r = Inr w \<and> s' = s"
    and put_conflict:
    "entry s k = Some (d', w) \<Longrightarrow> d' \<noteq> d \<Longrightarrow> put k d v s = (r, s') \<Longrightarrow>
       (\<exists>e. r = Inl e) \<and> s' = s"
begin

lemma returned_is_stored:
  assumes "put k d v s = (Inr w, s')"
  shows "entry s' k = Some (d, w)"
proof (cases "entry s k")
  case None
  then show ?thesis using put_fresh [OF None assms] by auto
next
  case (Some y)
  obtain d' u where "y = (d', u)" by (cases y)
  then show ?thesis
    using Some put_same [of s k d u v "Inr w" s'] put_conflict [of s k d' u d v "Inr w" s'] assms
    by (metis Inl_Inr_False Inr_inject)
qed

text \<open>Whatever is put later, the entry stays.\<close>

lemma stays:
  assumes "put k d v s = (Inr w, s')"
    and "foldl (\<lambda>t (k', d', v'). snd (put k' d' v' t)) s' puts = t"
  shows "entry t k = Some (d, w)"
  using assms(2) returned_is_stored [OF assms(1)]
proof (induction puts arbitrary: s')
  case (Cons p ps)
  obtain k' d' x where p: "p = (k', d', x)" by (cases p)
  obtain r u where u: "put k' d' x s' = (r, u)" by (cases "put k' d' x s'")
  have "entry u k = Some (d, w)" using put_other [OF Cons.prems(2) u] .
  with Cons.prems(1) p u show ?case by (intro Cons.IH [of u]) auto
qed simp

end

section \<open>The model provides it\<close>

definition idempotency_entry :: "store \<Rightarrow> string \<Rightarrow> (string \<times> command_result) option" where
  "idempotency_entry st path =
     map_option (\<lambda>r. (id_request_sha256 r, id_result r)) (map_of (st_idempotency st) path)"

text \<open>A command addresses the registry by its scope, its key and its name.\<close>

fun slot_entry ::
  "environment \<Rightarrow> store \<Rightarrow> string \<times> string \<times> string \<Rightarrow> (string \<times> command_result) option" where
  "slot_entry env st (scope, key, command) = idempotency_entry st (idempotency_path env scope key)"

fun slot_put ::
  "environment \<Rightarrow> string \<times> string \<times> string \<Rightarrow> string \<Rightarrow> command_result \<Rightarrow> command_result sop" where
  "slot_put env (scope, key, command) digest result =
     remember_digest env scope key command digest result"

lemma remember_digest_cases:
  assumes "remember_digest env scope key command sha result st = (r, st')"
  obtains (fresh) "idempotency_entry st (idempotency_path env scope key) = None"
      "r = Inr result"
      "idempotency_entry st' =
         (idempotency_entry st)(idempotency_path env scope key \<mapsto> (sha, result))"
  | (replay) w where "idempotency_entry st (idempotency_path env scope key) = Some (sha, w)"
      "r = Inr w" "st' = st"
  | (conflict) sha' w where
      "idempotency_entry st (idempotency_path env scope key) = Some (sha', w)" "sha' \<noteq> sha"
      "r = Inl (idempotency_conflict scope command)" "st' = st"
proof (cases "map_of (st_idempotency st) (idempotency_path env scope key)")
  case None
  show thesis
    using assms None
    by (intro fresh)
      (auto simp: remember_digest_def Let_def run returnS_def idempotency_entry_def fun_eq_iff)
next
  case (Some x)
  then have old: "idempotency_entry st (idempotency_path env scope key) =
      Some (id_request_sha256 x, id_result x)"
    by (simp add: idempotency_entry_def)
  show thesis
  proof (cases "id_request_sha256 x = sha")
    case True
    show thesis
      using assms Some True old
      by (intro replay [of "id_result x"])
        (auto simp: remember_digest_def Let_def run returnS_def)
  next
    case False
    show thesis
      using assms Some False old
      by (intro conflict [of "id_request_sha256 x" "id_result x"])
        (auto simp: remember_digest_def Let_def run throwS_def)
  qed
qed

interpretation registry: write_once "slot_entry env" "slot_put env" for env
proof (unfold_locales, goal_cases)
  case (1 s k d v r s')
  obtain a b c where k: "k = (a, b, c)" by (cases k)
  from 1(2) show ?case unfolding k slot_put.simps
    by (cases rule: remember_digest_cases) (use 1(1) k in auto)
next
  case (2 s k' x k d v r s')
  obtain a b c a' b' c' where k: "k = (a, b, c)" "k' = (a', b', c')" by (cases k, cases k')
  from 2(2) show ?case unfolding k slot_put.simps
    by (cases rule: remember_digest_cases) (use 2(1) k in auto)
next
  case (3 s k d w v r s')
  obtain a b c where k: "k = (a, b, c)" by (cases k)
  from 3(2) show ?case unfolding k slot_put.simps
    by (cases rule: remember_digest_cases) (use 3(1) k in auto)
next
  case (4 s k d' w d v r s')
  obtain a b c where k: "k = (a, b, c)" by (cases k)
  from 4(3) show ?case unfolding k slot_put.simps
    by (cases rule: remember_digest_cases) (use 4(1,2) k in auto)
qed

lemma lookup_slot:
  "idempotency_lookup env st scope key command payload =
     (case slot_entry env st (scope, key, command) of
        None \<Rightarrow> Inr None
      | Some (sha, w) \<Rightarrow>
          if sha \<noteq> ev_request_digest env command payload
          then Inl (idempotency_conflict scope command) else Inr (Some w))"
  by (auto simp: idempotency_lookup_def idempotency_entry_def split: option.splits)

lemma remember_digest_observers:
  assumes "remember_digest env scope key command sha result st = (r, st')"
  shows "file_at st' = file_at st" "journal st' = journal st"
  using assms
  by (auto simp: remember_digest_def Let_def run returnS_def throwS_def split: option.splits if_splits)

section \<open>Exactly once\<close>

definition remember_all ::
  "environment \<Rightarrow> (string \<times> string \<times> string \<times> string \<times> command_result) list \<Rightarrow> store \<Rightarrow> store" where
  "remember_all env calls st =
     fold (\<lambda>(scope, key, command, sha, v) s. snd (remember_digest env scope key command sha v s))
       calls st"

lemma remember_all_foldl:
  "remember_all env calls st =
     foldl (\<lambda>t (k', d', v'). snd (slot_put env k' d' v' t)) st
       (map (\<lambda>(scope, key, command, sha, v). ((scope, key, command), sha, v)) calls)"
  unfolding remember_all_def foldl_conv_fold fold_map
  by (rule fold_cong) (auto simp: fun_eq_iff)

text \<open>
  A result remembered under a key is the answer to that key for ever: after any sequence of
  further registrations, whether for this key or another, looking the request up returns it and
  remembering the request again, with any result, returns it and leaves the registry as it is.
\<close>

theorem remembered_result_is_final:
  assumes "remember env scope key command request result st = (Inr w, st')"
  shows "idempotency_lookup env (remember_all env calls st') scope key command request =
      Inr (Some w) \<and>
    remember env scope key command request other (remember_all env calls st') =
      (Inr w, remember_all env calls st')"
proof
  let ?t = "remember_all env calls st'" and ?d = "ev_request_digest env command request"
  have put: "slot_put env (scope, key, command) ?d result st = (Inr w, st')"
    using assms by (simp add: remember_def)
  have entry: "slot_entry env ?t (scope, key, command) = Some (?d, w)"
    by (rule registry.stays [OF put]) (rule remember_all_foldl [symmetric])
  then show "idempotency_lookup env ?t scope key command request = Inr (Some w)"
    by (simp add: lookup_slot)
  have "slot_put env (scope, key, command) ?d other ?t = (Inr w, ?t)"
    using registry.put_same [OF entry] by (metis surj_pair)
  then show "remember env scope key command request other ?t = (Inr w, ?t)"
    by (simp add: remember_def)
qed

lemma remembered_result_is_final_witness:
  "idempotency_lookup sample_env
     (remember_all sample_env [(''t'', ''k'', ''rename'', ''d'', V_prepared ''x'' ''y'' 1)]
       (snd (remember sample_env ''t'' ''k'' ''rename'' (R_task ''t'') (V_prepared ''a'' ''b'' 1)
              empty_store)))
     ''t'' ''k'' ''rename'' (R_task ''t'') = Inr (Some (V_prepared ''a'' ''b'' 1))"
proof (rule remembered_result_is_final [THEN conjunct1])
  show "remember sample_env ''t'' ''k'' ''rename'' (R_task ''t'') (V_prepared ''a'' ''b'' 1)
      empty_store = (Inr (V_prepared ''a'' ''b'' 1),
        snd (remember sample_env ''t'' ''k'' ''rename'' (R_task ''t'') (V_prepared ''a'' ''b'' 1)
              empty_store))"
    by (simp add: remember_def remember_digest_def Let_def run returnS_def empty_store_def)
qed

end
