(* ===== verification/File_Store.thy ===== *)
theory File_Store imports Idempotency begin

text \<open>
  \<^verbatim>\<open>backend/harness/storage/store.py\<close>: the repositories of the stored object types, the
  derived indexes, startup recovery, and the reconciliation of the stage and instance
  projections with the plan that owns them. \<open>environment\<close> supplies the contract registry.
\<close>

section \<open>Indexes\<close>

text \<open>\<open>sorted(root.glob("*/task.json"))\<close> and \<open>sorted(root.glob("*/inbox/*.json"))\<close>.\<close>

definition task_snapshot_paths :: "store \<Rightarrow> file_path list" where
  "task_snapshot_paths st =
     sort (filter (\<lambda>(t, p). p = [''task.json'']) (map fst (st_files st)))"

definition inbox_snapshot_paths :: "store \<Rightarrow> file_path list" where
  "inbox_snapshot_paths st =
     sort (filter (\<lambda>(t, p). p \<noteq> [] \<and> butlast p = [''inbox''] \<and> ends_with ''.json'' (last p))
       (map fst (st_files st)))"

definition task_index_row_of :: "wrapper \<Rightarrow> task_index_row res" where
  "task_index_row_of w =
     bindE (as_task (wr_payload w)) (\<lambda>t.
     Inr \<lparr>ti_task_id = tk_task_id t, ti_status = tk_status t, ti_title = tk_title t,
          ti_updated_at = tk_updated_at t, ti_revision = wr_revision w\<rparr>)"

definition rebuild_task_index :: "environment \<Rightarrow> unit sop" where
  "rebuild_task_index env =
     bindS (readS (\<lambda>st. mapE (\<lambda>path. bindE (read_json st path) task_index_row_of)
       (task_snapshot_paths st))) (\<lambda>tasks.
     bindS (utc_now env) (\<lambda>_.
     modifyS (\<lambda>st. st\<lparr>st_task_index := tasks\<rparr>)))"

definition inbox_index_row_of :: "wrapper \<Rightarrow> inbox_index_row res" where
  "inbox_index_row_of w =
     bindE (as_inbox (wr_payload w)) (\<lambda>x.
     Inr \<lparr>ii_inbox_id = ib_inbox_id x, ii_task_id = ib_task_id x, ii_kind = ib_kind x,
          ii_owner = ib_owner x, ii_status = ib_status x, ii_created_at = ib_created_at x,
          ii_sequence = ib_sequence x\<rparr>)"

definition rebuild_inbox_index :: "environment \<Rightarrow> unit sop" where
  "rebuild_inbox_index env =
     bindS (readS (\<lambda>st. mapE (\<lambda>path. bindE (read_json st path) inbox_index_row_of)
       (inbox_snapshot_paths st))) (\<lambda>entries.
     bindS (utc_now env) (\<lambda>_.
     modifyS (\<lambda>st. st\<lparr>st_inbox_index :=
       sort_key (\<lambda>r. (ii_created_at r, ii_sequence r, ii_inbox_id r)) entries\<rparr>)))"

section \<open>The repositories\<close>

definition json_file :: "string \<Rightarrow> string" where
  "json_file object_id = object_id @ ''.json''"

fun relative_path :: "object_type \<Rightarrow> string \<Rightarrow> string list" where
  "relative_path O_task _ = [''task.json'']"
| "relative_path O_plan _ = [''plan.json'']"
| "relative_path O_stage i = [''stages'', json_file i]"
| "relative_path O_instance i = [''instances'', json_file i]"
| "relative_path O_approval i = [''approvals'', json_file i]"
| "relative_path O_inbox i = [''inbox'', json_file i]"
| "relative_path O_retry_budget _ = [''retry-budget.json'']"
| "relative_path O_task_intake _ = [''task-intake.json'']"
| "relative_path O_task_navigation _ = [''task-navigation.json'']"
| "relative_path O_master_thread _ = [''master'', ''thread.json'']"
| "relative_path O_master_message i = [''master'', ''messages'', json_file i]"
| "relative_path O_plan_proposal i = [''master'', ''plan-proposals'', json_file i]"

text \<open>The validator of a repository; the retry budget's only asks for an integer revision, which
  the model's budgets have by type.\<close>

fun snapshot_validator :: "environment \<Rightarrow> object_type \<Rightarrow> payload \<Rightarrow> unit res" where
  "snapshot_validator env O_task = contracts_validate (ev_contracts env) ''main-task''"
| "snapshot_validator env O_plan = contracts_validate (ev_contracts env) ''task-plan''"
| "snapshot_validator env O_stage = contracts_validate (ev_contracts env) ''stage''"
| "snapshot_validator env O_instance = contracts_validate (ev_contracts env) ''agent-instance''"
| "snapshot_validator env O_approval = contracts_validate (ev_contracts env) ''approval-request''"
| "snapshot_validator env O_inbox = contracts_validate (ev_contracts env) ''inbox-item''"
| "snapshot_validator env O_retry_budget =
     (\<lambda>p. bindE (as_retry_budget p) (\<lambda>_. Inr ()))"
| "snapshot_validator env O_task_intake = contracts_validate (ev_contracts env) ''task-intake''"
| "snapshot_validator env O_task_navigation =
     contracts_validate (ev_contracts env) ''task-navigation-metadata''"
| "snapshot_validator env O_master_thread = contracts_validate (ev_contracts env) ''master-thread''"
| "snapshot_validator env O_master_message = contracts_validate (ev_contracts env) ''master-message''"
| "snapshot_validator env O_plan_proposal = contracts_validate (ev_contracts env) ''plan-proposal''"

definition index_rebuild :: "environment \<Rightarrow> object_type \<Rightarrow> (string \<Rightarrow> unit sop) option" where
  "index_rebuild env kind =
     (if kind = O_task then Some (\<lambda>_. rebuild_task_index env)
      else if kind = O_inbox then Some (\<lambda>_. rebuild_inbox_index env) else None)"

definition repository_of :: "environment \<Rightarrow> object_type \<Rightarrow> repository" where
  "repository_of env kind =
     \<lparr>rq_object_type = kind, rq_relative_path = relative_path kind,
      rq_validator = snapshot_validator env kind, rq_after_commit = index_rebuild env kind\<rparr>"

lemma repository_of_simps [simp]:
  "rq_object_type (repository_of env kind) = kind"
  "rq_relative_path (repository_of env kind) = relative_path kind"
  "rq_validator (repository_of env kind) = snapshot_validator env kind"
  "rq_after_commit (repository_of env kind) = index_rebuild env kind"
  by (simp_all add: repository_of_def)

section \<open>Reconciliation of the plan's projections\<close>

definition recovery_actor :: actor where
  "recovery_actor = \<lparr>ac_type = System, ac_id = ''startup_recovery''\<rparr>"

definition plan_projections :: "string \<Rightarrow> task_plan \<Rightarrow> (object_type \<times> string \<times> payload) list" where
  "plan_projections task_id plan =
     (O_task, task_id, P_task (pl_task plan)) #
     map (\<lambda>s. (O_stage, sg_stage_id s, P_stage s)) (pl_stages plan) @
     map (\<lambda>i. (O_instance, in_instance_id i, P_instance i)) (pl_instances plan)"

definition reconcile_one ::
  "environment \<Rightarrow> string \<Rightarrow> int \<Rightarrow> object_type \<times> string \<times> payload \<Rightarrow> unit sop" where
  "reconcile_one env task_id plan_revision =
     (\<lambda>(kind, object_id, payload).
        bindS (readS (\<lambda>st. read_wrapper (repository_of env kind) st task_id object_id)) (\<lambda>current.
        if (case current of None \<Rightarrow> False | Some w \<Rightarrow> wr_payload w = payload) then returnS ()
        else
          bindS (repo_put env (repository_of env kind) task_id object_id payload
            (case current of None \<Rightarrow> 0 | Some w \<Rightarrow> wr_revision w) recovery_actor
            ''reconcile_plan_projection''
            (''recover-'' @ show_int plan_revision @ ''-'' @ object_type_name kind @ ''-'' @
             object_id)
            None None no_hook) (\<lambda>_. returnS ())))"

definition retire_one ::
  "environment \<Rightarrow> object_type \<Rightarrow> string \<Rightarrow> string list \<Rightarrow> (payload \<Rightarrow> string res) \<Rightarrow> payload \<Rightarrow>
   unit sop" where
  "retire_one env kind task_id active_ids identifier payload =
     bindS (liftE (identifier payload)) (\<lambda>object_id.
     if object_id \<in> set active_ids then returnS ()
     else bindS (liftE (repo_path (repository_of env kind) task_id object_id)) unlink_file)"

definition retire_projection_set ::
  "environment \<Rightarrow> object_type \<Rightarrow> string \<Rightarrow> string list \<Rightarrow> (payload \<Rightarrow> string res) \<Rightarrow> unit sop" where
  "retire_projection_set env kind task_id active_ids identifier =
     bindS (readS (\<lambda>st. repo_list (repository_of env kind) st task_id))
       (forS (retire_one env kind task_id active_ids identifier))"

definition payload_stage_id :: "payload \<Rightarrow> string res" where
  "payload_stage_id p = bindE (as_stage p) (\<lambda>s. Inr (sg_stage_id s))"

definition payload_instance_id :: "payload \<Rightarrow> string res" where
  "payload_instance_id p = bindE (as_instance p) (\<lambda>i. Inr (in_instance_id i))"

definition retire_plan_projections :: "environment \<Rightarrow> string \<Rightarrow> task_plan \<Rightarrow> unit sop" where
  "retire_plan_projections env task_id plan =
     bindS (retire_projection_set env O_stage task_id (map sg_stage_id (pl_stages plan))
       payload_stage_id) (\<lambda>_.
     retire_projection_set env O_instance task_id (map in_instance_id (pl_instances plan))
       payload_instance_id)"

definition write_task_summary :: "string \<Rightarrow> main_task \<Rightarrow> unit sop" where
  "write_task_summary task_id task =
     modifyS (\<lambda>st. st\<lparr>st_summaries := AList.update task_id task (st_summaries st)\<rparr>)"

definition reconcile_plan_projections :: "environment \<Rightarrow> string \<Rightarrow> unit sop" where
  "reconcile_plan_projections env task_id =
     bindS (readS (\<lambda>st. read_wrapper (repository_of env O_plan) st task_id task_id))
       (\<lambda>plan_wrapper. case plan_wrapper of None \<Rightarrow> returnS () | Some w \<Rightarrow>
     bindS (liftE (as_plan (wr_payload w))) (\<lambda>plan.
     bindS (forS (reconcile_one env task_id (wr_revision w)) (plan_projections task_id plan)) (\<lambda>_.
     bindS (retire_plan_projections env task_id plan) (\<lambda>_.
     write_task_summary task_id (pl_task plan)))))"

section \<open>Startup recovery\<close>

definition warn :: "environment \<Rightarrow> string \<Rightarrow> string \<Rightarrow> unit sop" where
  "warn env task_id file =
     bindS (utc_now env) (\<lambda>_.
     modifyS (\<lambda>st. st\<lparr>st_warnings := st_warnings st @ [(task_id, file)]\<rparr>))"

definition recover_idempotency_result :: "environment \<Rightarrow> string \<Rightarrow> event \<Rightarrow> unit sop" where
  "recover_idempotency_result env task_id e =
     (case (ee_command_result e, ee_request_sha256 e) of
        (Some result, Some sha) \<Rightarrow>
          bindS (remember_digest env task_id (ee_idempotency_key e) (ee_command e) sha result)
            (\<lambda>_. returnS ())
      | _ \<Rightarrow> returnS ())"

definition recover_idempotency_results :: "environment \<Rightarrow> string \<Rightarrow> event list \<Rightarrow> unit sop" where
  "recover_idempotency_results env task_id events =
     forS (recover_idempotency_result env task_id) events"

text \<open>The dictionary \<open>latest\<close>: for every object that has a commit, its first commit with the
  highest revision, in the order in which the objects first appear.\<close>

type_synonym object_key = "object_type \<times> string"

definition event_key :: "event \<Rightarrow> object_key" where
  "event_key e = (ee_object_type e, ee_object_id e)"

definition record_latest ::
  "event \<Rightarrow> (object_key \<times> event) list \<Rightarrow> (object_key \<times> event) list" where
  "record_latest e latest =
     (if ee_event_type e \<noteq> OBJECT_COMMITTED then latest
      else if (case map_of latest (event_key e) of
                 None \<Rightarrow> True | Some old \<Rightarrow> ee_revision e > ee_revision old)
        then AList.update (event_key e) e latest
      else latest)"

definition latest_commits :: "event list \<Rightarrow> (object_key \<times> event) list" where
  "latest_commits events = fold record_latest events []"

text \<open>A commit event carries its snapshot; the lookup of a missing one is a \<open>KeyError\<close>.\<close>

definition event_snapshot :: "event \<Rightarrow> wrapper res" where
  "event_snapshot e =
     (case ee_snapshot e of None \<Rightarrow> Inl (KeyError ''snapshot'') | Some w \<Rightarrow> Inr w)"

definition readable :: "content option \<Rightarrow> wrapper option" where
  "readable c = (case c of Some (Snapshot w) \<Rightarrow> Some w | _ \<Rightarrow> None)"

definition recover_snapshot ::
  "environment \<Rightarrow> string \<Rightarrow> object_key \<times> event \<Rightarrow> unit sop" where
  "recover_snapshot env task_id = (\<lambda>((kind, object_id), e).
     bindS (liftE (repo_path (repository_of env kind) task_id object_id)) (\<lambda>path.
     bindS (readS (\<lambda>st. Inr (readable (file_at st path)))) (\<lambda>current.
     case current of
       None \<Rightarrow> bindS (liftE (event_snapshot e)) (write_file path)
     | Some w \<Rightarrow>
         if wr_revision w < ee_revision e then bindS (liftE (event_snapshot e)) (write_file path)
         else if wr_revision w > ee_revision e then
           throwS (RuntimeError (''uncommitted '' @ object_type_name kind @
             '' snapshot revision for '' @ object_id))
         else bindS (liftE (event_snapshot e)) (\<lambda>snapshot.
           if w \<noteq> snapshot then
             bindS (write_file path snapshot) (\<lambda>_. warn env task_id (last (snd path)))
           else returnS ()))))"

definition recover_snapshots :: "environment \<Rightarrow> string \<Rightarrow> event list \<Rightarrow> unit sop" where
  "recover_snapshots env task_id events =
     forS (recover_snapshot env task_id) (latest_commits events)"

definition snapshot_paths :: "store \<Rightarrow> string \<Rightarrow> file_path list" where
  "snapshot_paths st task_id =
     map (Pair task_id)
       [[''task.json''], [''plan.json''], [''retry-budget.json''], [''task-intake.json''],
        [''task-navigation.json''], [''master'', ''thread.json'']] @
     concat (map (glob_json st task_id)
       [[''master'', ''messages''], [''master'', ''plan-proposals''], [''stages''],
        [''instances''], [''approvals''], [''inbox'']])"

definition check_snapshot ::
  "(object_key \<times> event) list \<Rightarrow> store \<Rightarrow> file_path \<Rightarrow> unit res" where
  "check_snapshot latest st path =
     (case file_at st path of None \<Rightarrow> Inr () | Some _ \<Rightarrow>
        bindE (read_json st path) (\<lambda>w.
        guardE (map_of latest (wr_object_type w, wr_object_id w) \<noteq> None)
          (RuntimeError (''snapshot without a commit event: '' @ last (snd path)))))"

definition recover_task :: "environment \<Rightarrow> string \<Rightarrow> unit sop" where
  "recover_task env task_id =
     bindS (readS (\<lambda>st. Inr (journal st task_id))) (\<lambda>events.
     bindS (recover_idempotency_results env task_id events) (\<lambda>_.
     bindS (recover_snapshots env task_id events) (\<lambda>_.
     bindS (readS (\<lambda>st. forE (check_snapshot (latest_commits events) st)
       (snapshot_paths st task_id))) (\<lambda>_.
     reconcile_plan_projections env task_id))))"

definition recover :: "environment \<Rightarrow> unit sop" where
  "recover env =
     bindS (readS (\<lambda>st. Inr (task_directories st))) (\<lambda>task_ids.
     bindS (forS (recover_task env) task_ids) (\<lambda>_.
     bindS (rebuild_task_index env) (\<lambda>_.
     rebuild_inbox_index env)))"

section \<open>Committed command results\<close>

fun committed_result ::
  "string \<Rightarrow> string \<Rightarrow> string \<Rightarrow> string \<Rightarrow> event list \<Rightarrow> command_result option \<Rightarrow>
   command_result option res" where
  "committed_result scope key command sha [] committed = Inr committed"
| "committed_result scope key command sha (e # es) committed =
     (if ee_command_result e = None \<or> ee_idempotency_key e \<noteq> key then
        committed_result scope key command sha es committed
      else if ee_command e \<noteq> command \<or> ee_request_sha256 e \<noteq> Some sha then
        Inl (idempotency_conflict scope command)
      else committed_result scope key command sha es (ee_command_result e))"

definition lookup_committed_command_result ::
  "store \<Rightarrow> string \<Rightarrow> string \<Rightarrow> string \<Rightarrow> string \<Rightarrow> command_result option res" where
  "lookup_committed_command_result st scope key command sha =
     committed_result scope key command sha (journal st scope) None"

section \<open>Mutable instance fields\<close>

datatype instance_change =
    Config_revision int
  | Process "process_info option"
  | Restart_required "bool option"
  | Start_failure "start_failure option"
  | Ui_url "string option"
  | Unsupported_field string

fun supported_change :: "instance_change \<Rightarrow> bool" where
  "supported_change (Unsupported_field f) = False"
| "supported_change _ = True"

fun change_holds :: "agent_instance \<Rightarrow> instance_change \<Rightarrow> bool" where
  "change_holds i (Config_revision n) = (in_config_revision i = n)"
| "change_holds i (Process p) = (in_process i = p)"
| "change_holds i (Restart_required r) = (in_restart_required i = r)"
| "change_holds i (Start_failure f) = (in_start_failure i = f)"
| "change_holds i (Ui_url u) = (in_ui_url i = u)"
| "change_holds i (Unsupported_field f) = False"

fun apply_change :: "instance_change \<Rightarrow> agent_instance \<Rightarrow> agent_instance" where
  "apply_change (Config_revision n) i = i\<lparr>in_config_revision := n\<rparr>"
| "apply_change (Process p) i = i\<lparr>in_process := p\<rparr>"
| "apply_change (Restart_required r) i = i\<lparr>in_restart_required := r\<rparr>"
| "apply_change (Start_failure f) i = i\<lparr>in_start_failure := f\<rparr>"
| "apply_change (Ui_url u) i = i\<lparr>in_ui_url := u\<rparr>"
| "apply_change (Unsupported_field f) i = i"

definition instance_not_found :: exn where
  "instance_not_found =
     HarnessError INSTANCE_NOT_FOUND ''The requested instance does not exist.'' []"

definition update_unplanned_instance ::
  "environment \<Rightarrow> string \<Rightarrow> string \<Rightarrow> instance_change list \<Rightarrow> actor \<Rightarrow> string \<Rightarrow> string \<Rightarrow>
   (string \<Rightarrow> unit res) \<Rightarrow> agent_instance sop" where
  "update_unplanned_instance env task_id instance_id changes actor command key hook =
     (let R = repository_of env O_instance in
      bindS (readS (\<lambda>st. repo_get R st task_id instance_id)) (\<lambda>current.
      case current of None \<Rightarrow> throwS instance_not_found | Some p \<Rightarrow>
      bindS (liftE (as_instance p)) (\<lambda>i.
      if list_all (change_holds i) changes then returnS i
      else
        let updated = fold apply_change changes i in
        bindS (readS (\<lambda>st. repo_revision R st task_id instance_id)) (\<lambda>revision.
        bindS (repo_put env R task_id instance_id (P_instance updated) revision actor command key
          None None hook) (\<lambda>_.
        returnS updated)))))"

definition update_instance_fields ::
  "environment \<Rightarrow> string \<Rightarrow> string \<Rightarrow> instance_change list \<Rightarrow> actor \<Rightarrow> string \<Rightarrow> string \<Rightarrow>
   (string \<Rightarrow> unit res) \<Rightarrow> agent_instance sop" where
  "update_instance_fields env task_id instance_id changes actor command key hook =
     (let R = repository_of env O_plan in
      bindS (liftE (guardE (changes \<noteq> [] \<and> list_all supported_change changes)
        (ValueError ''unsupported mutable instance fields''))) (\<lambda>_.
      bindS (readS (\<lambda>st. repo_get R st task_id task_id)) (\<lambda>plan.
      case plan of
        None \<Rightarrow> update_unplanned_instance env task_id instance_id changes actor command key hook
      | Some p \<Rightarrow>
          bindS (liftE (as_plan p)) (\<lambda>plan.
          case find (\<lambda>i. in_instance_id i = instance_id) (pl_instances plan) of
            None \<Rightarrow> update_unplanned_instance env task_id instance_id changes actor command key hook
          | Some i \<Rightarrow>
              if list_all (change_holds i) changes then returnS i
              else
                let updated = plan\<lparr>pl_instances :=
                      update_first (\<lambda>i. in_instance_id i = instance_id) (fold apply_change changes)
                        (pl_instances plan)\<rparr> in
                bindS (liftE (contracts_validate (ev_contracts env) ''task-plan''
                  (P_plan updated))) (\<lambda>_.
                bindS (readS (\<lambda>st. repo_revision R st task_id task_id)) (\<lambda>revision.
                bindS (repo_put env R task_id task_id (P_plan updated) revision actor command key
                  None None hook) (\<lambda>_.
                bindS (reconcile_plan_projections env task_id) (\<lambda>_.
                returnS (fold apply_change changes i)))))))))"

end
