(* ===== verification/Task_Commands.thy ===== *)
theory Task_Commands imports Plan_Edit File_Store begin

text \<open>
  The command handlers of \<open>TaskCommandService\<close> (\<^verbatim>\<open>backend/harness/domain/service.py\<close>):
  each reads the task and its plan, checks the request and the caller's revision, edits the plan, and
  commits the aggregate plan-first through \<open>persist_aggregate\<close>; \<open>idempotent\<close> wraps every handler.
  The command lock \<open>task_guard\<close> serialises the commands of a task, so a handler is one step.
\<close>

section \<open>Reading\<close>

definition task_repo :: "environment \<Rightarrow> repository" where
  "task_repo env = repository_of env O_task"

definition plan_repo :: "environment \<Rightarrow> repository" where
  "plan_repo env = repository_of env O_plan"

definition task_not_found :: exn where
  "task_not_found = HarnessError TASK_NOT_FOUND ''The requested task does not exist.'' []"

definition no_saved_plan :: exn where
  "no_saved_plan = HarnessError TASK_NOT_FOUND ''The task does not have a saved plan.'' []"

definition get_task :: "environment \<Rightarrow> string \<Rightarrow> main_task sop" where
  "get_task env task_id =
     bindS (readS (\<lambda>st. repo_get (task_repo env) st task_id task_id)) (\<lambda>p.
     case p of None \<Rightarrow> throwS task_not_found | Some p \<Rightarrow> liftE (as_task p))"

text \<open>\<open>store.plan.get\<close>, with its payload read as a plan.\<close>

definition find_plan :: "environment \<Rightarrow> string \<Rightarrow> task_plan option sop" where
  "find_plan env task_id =
     bindS (readS (\<lambda>st. repo_get (plan_repo env) st task_id task_id)) (\<lambda>p.
     case p of None \<Rightarrow> returnS None
     | Some p \<Rightarrow> bindS (liftE (as_plan p)) (\<lambda>plan. returnS (Some plan)))"

definition get_plan :: "environment \<Rightarrow> string \<Rightarrow> task_plan sop" where
  "get_plan env task_id =
     bindS (find_plan env task_id) (\<lambda>p.
     case p of None \<Rightarrow> throwS no_saved_plan | Some plan \<Rightarrow> returnS plan)"

definition require_plan_mutable :: "task_plan \<Rightarrow> unit res" where
  "require_plan_mutable plan =
     guardE (plan_status plan \<noteq> T_ARCHIVED)
       (HarnessError TASK_ARCHIVED
          ''The task is archived and read-only; resume it before issuing changes.''
          [(''task_id'', DStr (tk_task_id (pl_task plan)))])"

definition actor_of :: "command_envelope \<Rightarrow> actor" where
  "actor_of envelope = \<lparr>ac_type = ce_actor_type envelope, ac_id = ce_actor_id envelope\<rparr>"

definition task_revision :: "environment \<Rightarrow> string \<Rightarrow> int sop" where
  "task_revision env task_id = readS (\<lambda>st. repo_revision (task_repo env) st task_id task_id)"

text \<open>The revision check that the handlers share; it returns the current revision.\<close>

definition check_task_revision :: "environment \<Rightarrow> string \<Rightarrow> int \<Rightarrow> int sop" where
  "check_task_revision env task_id expected =
     bindS (task_revision env task_id) (\<lambda>actual.
     bindS (liftE (guardE (expected = actual) (revision_conflict O_task task_id expected actual)))
       (\<lambda>_. returnS actual))"

definition check_plan_revision :: "string \<Rightarrow> int option \<Rightarrow> int \<Rightarrow> unit res" where
  "check_plan_revision task_id expected actual =
     (case expected of None \<Rightarrow> Inr ()
      | Some e \<Rightarrow> guardE (e = actual) (revision_conflict O_plan task_id e actual))"

section \<open>Committing\<close>

definition put_task ::
  "environment \<Rightarrow> command_envelope \<Rightarrow> string \<Rightarrow> command_request \<Rightarrow> string \<Rightarrow> main_task \<Rightarrow> int \<Rightarrow>
   command_result \<Rightarrow> wrapper sop" where
  "put_task env envelope command request task_id task expected result =
     repo_put env (task_repo env) task_id task_id (P_task task) expected (actor_of envelope)
       command (ce_idempotency_key envelope) (Some result)
       (Some (ev_request_digest env command request)) no_hook"

text \<open>The projection of one stage or instance: skipped when \<open>skip\<close> is set and it is already there.\<close>

definition put_projection ::
  "environment \<Rightarrow> command_envelope \<Rightarrow> string \<Rightarrow> string \<Rightarrow> bool \<Rightarrow>
   object_type \<times> string \<times> payload \<Rightarrow> unit sop" where
  "put_projection env envelope command task_id skip = (\<lambda>(kind, object_id, payload).
     let R = repository_of env kind in
     bindS (if skip then readS (\<lambda>st. bindE (repo_get R st task_id object_id) (\<lambda>p.
              Inr (p = Some payload))) else returnS False) (\<lambda>unchanged.
     if unchanged then returnS ()
     else
       bindS (readS (\<lambda>st. repo_revision R st task_id object_id)) (\<lambda>revision.
       bindS (repo_put env R task_id object_id payload revision (actor_of envelope) command
         (ce_idempotency_key envelope) None None no_hook) (\<lambda>_. returnS ()))))"

definition persist_aggregate ::
  "environment \<Rightarrow> task_plan \<Rightarrow> command_envelope \<Rightarrow> string \<Rightarrow> command_request \<Rightarrow> int \<Rightarrow> bool \<Rightarrow>
   command_result sop" where
  "persist_aggregate env plan envelope command request expected_task_revision
     skip_unchanged_projections =
     bindS (liftE (validate_plan (ev_contracts env) plan)) (\<lambda>_.
     let task_id = tk_task_id (pl_task plan); key = ce_idempotency_key envelope in
     bindS (readS (\<lambda>st. repo_revision (plan_repo env) st task_id task_id)) (\<lambda>plan_revision.
     let next_plan_revision = plan_revision + 1;
         result = V_aggregate (pl_task plan) plan (expected_task_revision + 1) next_plan_revision in
     bindS (repo_put env (plan_repo env) task_id task_id (P_plan plan) (next_plan_revision - 1)
       (actor_of envelope) command key (Some result)
       (Some (ev_request_digest env command request)) no_hook) (\<lambda>_.
     bindS (retire_plan_projections env task_id plan) (\<lambda>_.
     bindS (repo_put env (task_repo env) task_id task_id (P_task (pl_task plan))
       expected_task_revision (actor_of envelope) command key None None no_hook) (\<lambda>task_wrapper.
     bindS (forS (put_projection env envelope command task_id skip_unchanged_projections)
       (map (\<lambda>s. (O_stage, sg_stage_id s, P_stage s)) (pl_stages plan))) (\<lambda>_.
     bindS (forS (put_projection env envelope command task_id skip_unchanged_projections)
       (map (\<lambda>i. (O_instance, in_instance_id i, P_instance i)) (pl_instances plan))) (\<lambda>_.
     bindS (write_task_summary task_id (pl_task plan)) (\<lambda>_.
     bindS (liftE (guardE (wr_revision task_wrapper = expected_task_revision + 1)
       (RuntimeError ''task projection revision diverged from the aggregate commit''))) (\<lambda>_.
     returnS result)))))))))"

section \<open>Idempotency\<close>

definition committed_lookup ::
  "environment \<Rightarrow> string \<Rightarrow> string \<Rightarrow> command_request \<Rightarrow> command_envelope \<Rightarrow>
   command_result option sop" where
  "committed_lookup env scope command request envelope =
     readS (\<lambda>st. lookup_committed_command_result st scope (ce_idempotency_key envelope) command
       (ev_request_digest env command request))"

definition idempotent ::
  "environment \<Rightarrow> string \<Rightarrow> string \<Rightarrow> command_request \<Rightarrow> command_envelope \<Rightarrow>
   command_result sop \<Rightarrow> command_result sop" where
  "idempotent env scope command request envelope operation =
     (let key = ce_idempotency_key envelope; sha = ev_request_digest env command request in
      bindS (liftE (validate_identifier scope ''task_id'')) (\<lambda>_.
      bindS (readS (\<lambda>st. idempotency_lookup env st scope key command request)) (\<lambda>existing.
      case existing of Some result \<Rightarrow> returnS result | None \<Rightarrow>
      bindS (committed_lookup env scope command request envelope) (\<lambda>committed.
      case committed of
        Some result \<Rightarrow> remember_digest env scope key command sha result
      | None \<Rightarrow>
          bindS operation (\<lambda>result.
          bindS (committed_lookup env scope command request envelope) (\<lambda>committed.
          if committed \<noteq> Some result then
            throwS (RuntimeError ''command returned without an authoritative result commit'')
          else remember_digest env scope key command sha result))))))"

section \<open>Creating and describing a task\<close>

record create_request =
  cr_task_id :: string
  cr_title :: string
  cr_goal :: string
  cr_master_owner :: string
  cr_start_policy :: start_policy
  cr_input_manifest :: string

definition create_command :: "create_request \<Rightarrow> command_request" where
  "create_command r =
     R_create_task (cr_task_id r) (cr_title r) (cr_goal r) (cr_master_owner r)
       (cr_start_policy r) (cr_input_manifest r)"

definition do_create_task ::
  "environment \<Rightarrow> create_request \<Rightarrow> command_envelope \<Rightarrow> command_result sop" where
  "do_create_task env r envelope =
     bindS (liftE (guardE (ce_expected_revision envelope = 0)
       (HarnessError REVISION_CONFLICT ''Task creation requires expected revision zero.''
          [(''expected_revision'', DInt (ce_expected_revision envelope)),
           (''actual_revision'', DInt 0)]))) (\<lambda>_.
     bindS (utc_now env) (\<lambda>now.
     let task = \<lparr>tk_task_id = cr_task_id r, tk_title = cr_title r, tk_goal = cr_goal r,
           tk_master_owner = cr_master_owner r, tk_start_policy = cr_start_policy r,
           tk_input_manifest = cr_input_manifest r, tk_status = T_DRAFT, tk_created_at = now,
           tk_updated_at = now, tk_plan_revision = 1\<rparr>;
         result = V_task task 1 in
     bindS (put_task env envelope ''create_task'' (create_command r) (cr_task_id r) task 0 result)
       (\<lambda>_.
     bindS (write_task_summary (cr_task_id r) task) (\<lambda>_.
     returnS result))))"

definition create_task ::
  "environment \<Rightarrow> create_request \<Rightarrow> command_envelope \<Rightarrow> command_result sop" where
  "create_task env r envelope =
     idempotent env (cr_task_id r) ''create_task'' (create_command r) envelope
       (do_create_task env r envelope)"

definition do_update_task_input ::
  "environment \<Rightarrow> string \<Rightarrow> string \<Rightarrow> command_envelope \<Rightarrow> command_result sop" where
  "do_update_task_input env task_id input_manifest envelope =
     bindS (get_task env task_id) (\<lambda>task.
     bindS (utc_now env) (\<lambda>now.
     let updated = task\<lparr>tk_input_manifest := input_manifest, tk_updated_at := now\<rparr>;
         result = V_task updated (ce_expected_revision envelope + 1) in
     bindS (put_task env envelope ''register_input_manifest'' (R_register_input task_id input_manifest)
       task_id updated (ce_expected_revision envelope) result) (\<lambda>_.
     returnS result)))"

definition register_input_manifest ::
  "environment \<Rightarrow> string \<Rightarrow> string \<Rightarrow> command_envelope \<Rightarrow> command_result sop" where
  "register_input_manifest env task_id input_manifest envelope =
     idempotent env task_id ''register_input_manifest'' (R_register_input task_id input_manifest)
       envelope (do_update_task_input env task_id input_manifest envelope)"

text \<open>\<open>str.strip()\<close> on characters below 256.\<close>

definition is_space :: "char \<Rightarrow> bool" where
  "is_space c =
     (let n = (of_char c :: nat) in
      9 \<le> n \<and> n \<le> 13 \<or> 28 \<le> n \<and> n \<le> 32 \<or> n = 133 \<or> n = 160)"

definition strip :: "string \<Rightarrow> string" where
  "strip s = rev (dropWhile is_space (rev (dropWhile is_space s)))"

definition do_rename_task ::
  "environment \<Rightarrow> string \<Rightarrow> string \<Rightarrow> command_envelope \<Rightarrow> command_result sop" where
  "do_rename_task env task_id title envelope =
     (let request = R_rename_task task_id title in
      bindS (get_task env task_id) (\<lambda>task.
      bindS (check_task_revision env task_id (ce_expected_revision envelope)) (\<lambda>actual.
      bindS (utc_now env) (\<lambda>now.
      let task = task\<lparr>tk_title := title, tk_updated_at := now\<rparr> in
      bindS (find_plan env task_id) (\<lambda>p.
      case p of
        Some plan \<Rightarrow>
          persist_aggregate env (plan\<lparr>pl_task := task\<rparr>) envelope ''rename_task'' request actual False
      | None \<Rightarrow>
          let result = V_task task (actual + 1) in
          bindS (put_task env envelope ''rename_task'' request task_id task actual result) (\<lambda>_.
          bindS (write_task_summary task_id task) (\<lambda>_.
          returnS result)))))))"

definition human_or_master :: "command_envelope \<Rightarrow> string \<Rightarrow> unit res" where
  "human_or_master envelope message =
     guardE (ce_actor_type envelope \<in> {Human, Master}) (invalid message)"

definition rename_task ::
  "environment \<Rightarrow> string \<Rightarrow> string \<Rightarrow> command_envelope \<Rightarrow> command_result sop" where
  "rename_task env task_id title envelope =
     (let normalized = strip title in
      bindS (liftE (guardE (normalized \<noteq> [] \<and> length normalized \<le> 256)
        (invalid ''The task title is invalid.''))) (\<lambda>_.
      bindS (liftE (human_or_master envelope ''Only a human or Master may rename a task.'')) (\<lambda>_.
      idempotent env task_id ''rename_task'' (R_rename_task task_id normalized) envelope
        (do_rename_task env task_id normalized envelope))))"

section \<open>Saving a plan\<close>

datatype save_mode = Replace | Append | Merge | UnknownMode string

fun mode_name :: "save_mode \<Rightarrow> string" where
  "mode_name Replace = ''replace''"
| "mode_name Append = ''append''"
| "mode_name Merge = ''merge''"
| "mode_name (UnknownMode s) = s"

record save_request =
  sv_task_id :: string
  sv_mode :: save_mode
  sv_stages :: "stage list"
  sv_instances :: "agent_instance list"
  sv_task_cards :: "task_card list"
  sv_expected_plan_revision :: "int option"

definition save_command :: "save_request \<Rightarrow> command_request" where
  "save_command r =
     R_save_plan (sv_task_id r) (mode_name (sv_mode r)) (sv_stages r) (sv_instances r)
       (sv_task_cards r) (sv_expected_plan_revision r)"

definition state_error :: "string \<Rightarrow> task_status \<Rightarrow> exn" where
  "state_error message s =
     HarnessError INVALID_STATE_TRANSITION message [(''current'', DStr (task_status_name s))]"

definition guard_plan_save_state :: "main_task \<Rightarrow> save_mode \<Rightarrow> unit res" where
  "guard_plan_save_state task mode =
     (case mode of
        Append \<Rightarrow> guardE (tk_status task \<in> {T_RUNNING, T_WAITING_APPROVAL})
          (state_error ''A plan can only be appended while this task is running or awaiting approval.''
            (tk_status task))
      | Merge \<Rightarrow> guardE (tk_status task \<in> {T_RUNNING, T_WAITING_APPROVAL, T_BLOCKED_UNAVAILABLE})
          (state_error ''A plan can only be merged while this task has active instances.''
            (tk_status task))
      | _ \<Rightarrow> guardE (tk_status task \<in> {T_DRAFT, T_PLANNED, T_BLOCKED_UNAVAILABLE, T_FAILED})
          (state_error ''A plan cannot be replaced while this task state is active or terminal.''
            (tk_status task)))"

definition normalize_append ::
  "environment \<Rightarrow> main_task \<Rightarrow> task_plan \<Rightarrow> int \<Rightarrow> save_request \<Rightarrow> task_plan sop" where
  "normalize_append env task existing plan_revision r =
     bindS (liftE (check_append existing (sv_stages r) (sv_instances r) (sv_task_cards r))) (\<lambda>_.
     bindS (utc_now env) (\<lambda>now.
     liftE (build_append (ev_contracts env) now task existing plan_revision (sv_stages r)
       (sv_instances r) (sv_task_cards r))))"

definition normalize_merge ::
  "environment \<Rightarrow> main_task \<Rightarrow> task_plan \<Rightarrow> int \<Rightarrow> save_request \<Rightarrow> task_plan sop" where
  "normalize_merge env task existing plan_revision r =
     bindS (liftE (check_merge existing (sv_stages r) (sv_instances r) (sv_task_cards r))) (\<lambda>_.
     bindS (utc_now env) (\<lambda>now.
     liftE (build_merge (ev_contracts env) now task existing plan_revision (sv_task_cards r))))"

definition normalize_replace ::
  "environment \<Rightarrow> main_task \<Rightarrow> int \<Rightarrow> save_request \<Rightarrow> task_plan sop" where
  "normalize_replace env task plan_revision r =
     bindS (utc_now env) (\<lambda>now.
     liftE (normalize_plan (ev_contracts env) now task plan_revision (sv_stages r)
       (sv_instances r) (sv_task_cards r)))"

definition save_append ::
  "environment \<Rightarrow> main_task \<Rightarrow> task_plan \<Rightarrow> int \<Rightarrow> int \<Rightarrow> save_request \<Rightarrow> command_envelope \<Rightarrow>
   command_result sop" where
  "save_append env task existing business_revision actual r envelope =
     bindS (normalize_append env task existing business_revision r) (\<lambda>plan.
     bindS (utc_now env) (\<lambda>now.
     bindS (liftE (activate_current_stages now plan)) (\<lambda>plan.
     bindS (liftE (settle_task_status plan)) (\<lambda>plan.
     bindS (utc_now env) (\<lambda>now.
     persist_aggregate env (touch now plan) envelope ''save_plan'' (save_command r) actual False)))))"

definition save_merge ::
  "environment \<Rightarrow> main_task \<Rightarrow> task_plan \<Rightarrow> int \<Rightarrow> int \<Rightarrow> save_request \<Rightarrow> command_envelope \<Rightarrow>
   command_result sop" where
  "save_merge env task existing business_revision actual r envelope =
     bindS (normalize_merge env task existing business_revision r) (\<lambda>plan.
     bindS (utc_now env) (\<lambda>now.
     persist_aggregate env (touch now plan) envelope ''save_plan'' (save_command r) actual True))"

definition save_replace ::
  "environment \<Rightarrow> main_task \<Rightarrow> int \<Rightarrow> int \<Rightarrow> save_request \<Rightarrow> command_envelope \<Rightarrow>
   command_result sop" where
  "save_replace env task business_revision actual r envelope =
     bindS (normalize_replace env task business_revision r) (\<lambda>plan.
     bindS (liftE (if tk_status task \<noteq> T_PLANNED then task_transition (tk_status task) T_PLANNED
                   else Inr ())) (\<lambda>_.
     let plan = set_task_status T_PLANNED plan in
     bindS (if tk_start_policy task = Manual then
              bindS (liftE (task_transition T_PLANNED T_AWAITING_START_CONFIRMATION)) (\<lambda>_.
              returnS (set_task_status T_AWAITING_START_CONFIRMATION plan))
            else
              bindS (utc_now env) (\<lambda>now.
              bindS (liftE (activate_current_stages now plan)) (\<lambda>plan.
              let target = aggregate_plan plan in
              bindS (liftE (validate_task_reaggregation T_PLANNED target)) (\<lambda>_.
              returnS (set_task_status target plan))))) (\<lambda>plan.
     bindS (utc_now env) (\<lambda>now.
     persist_aggregate env (touch now plan) envelope ''save_plan'' (save_command r) actual False))))"

definition do_save_plan ::
  "environment \<Rightarrow> save_request \<Rightarrow> command_envelope \<Rightarrow> command_result sop" where
  "do_save_plan env r envelope =
     (let task_id = sv_task_id r; mode = sv_mode r in
      bindS (get_task env task_id) (\<lambda>task.
      bindS (liftE (guard_plan_save_state task mode)) (\<lambda>_.
      bindS (check_task_revision env task_id (ce_expected_revision envelope)) (\<lambda>actual.
      bindS (liftE (check_plan_revision task_id (sv_expected_plan_revision r)
        (tk_plan_revision task))) (\<lambda>_.
      bindS (find_plan env task_id) (\<lambda>existing.
      let business_revision = tk_plan_revision task + (if existing = None then 0 else 1) in
      case (mode, existing) of
        (Append, None) \<Rightarrow> throwS no_saved_plan
      | (Append, Some old) \<Rightarrow> save_append env task old business_revision actual r envelope
      | (Merge, None) \<Rightarrow> throwS no_saved_plan
      | (Merge, Some old) \<Rightarrow> save_merge env task old business_revision actual r envelope
      | _ \<Rightarrow> save_replace env task business_revision actual r envelope))))))"

fun known_mode :: "save_mode \<Rightarrow> bool" where
  "known_mode (UnknownMode s) = False"
| "known_mode _ = True"

definition check_mode :: "save_mode \<Rightarrow> unit res" where
  "check_mode mode =
     guardE (known_mode mode)
       (HarnessError VALIDATION_ERROR ''The plan save mode is invalid.''
          [(''mode'', DStr (mode_name mode))])"

definition save_plan ::
  "environment \<Rightarrow> save_request \<Rightarrow> command_envelope \<Rightarrow> command_result sop" where
  "save_plan env r envelope =
     bindS (liftE (check_mode (sv_mode r))) (\<lambda>_.
     idempotent env (sv_task_id r) ''save_plan'' (save_command r) envelope
       (do_save_plan env r envelope))"

text \<open>The dry run: every check of a save, and no write.\<close>

definition validate_plan_request ::
  "environment \<Rightarrow> save_request \<Rightarrow> int \<Rightarrow> unit sop" where
  "validate_plan_request env r expected_revision =
     (let task_id = sv_task_id r; mode = sv_mode r in
      bindS (liftE (check_mode mode)) (\<lambda>_.
      bindS (get_task env task_id) (\<lambda>task.
      bindS (liftE (guard_plan_save_state task mode)) (\<lambda>_.
      bindS (check_task_revision env task_id expected_revision) (\<lambda>_.
      bindS (liftE (check_plan_revision task_id (sv_expected_plan_revision r)
        (tk_plan_revision task))) (\<lambda>_.
      bindS (find_plan env task_id) (\<lambda>existing.
      let plan_revision = tk_plan_revision task + (if existing = None then 0 else 1) in
      bindS (case (mode, existing) of
          (Append, None) \<Rightarrow> throwS no_saved_plan
        | (Append, Some old) \<Rightarrow> normalize_append env task old plan_revision r
        | (Merge, None) \<Rightarrow> throwS no_saved_plan
        | (Merge, Some old) \<Rightarrow> normalize_merge env task old plan_revision r
        | _ \<Rightarrow> normalize_replace env task plan_revision r) (\<lambda>_. returnS ()))))))))"

definition validate_task_revision :: "environment \<Rightarrow> string \<Rightarrow> int \<Rightarrow> unit sop" where
  "validate_task_revision env task_id expected_revision =
     bindS (liftE (validate_identifier task_id ''task_id'')) (\<lambda>_.
     bindS (get_task env task_id) (\<lambda>_.
     bindS (check_task_revision env task_id expected_revision) (\<lambda>_. returnS ())))"

section \<open>Starting\<close>

definition do_confirm_start ::
  "environment \<Rightarrow> string \<Rightarrow> command_envelope \<Rightarrow> command_result sop" where
  "do_confirm_start env task_id envelope =
     bindS (get_plan env task_id) (\<lambda>plan.
     bindS (check_task_revision env task_id (ce_expected_revision envelope)) (\<lambda>actual.
     bindS (liftE (guardE (plan_status plan = T_AWAITING_START_CONFIRMATION)
       (state_error ''Only a task awaiting manual start can be confirmed.'' (plan_status plan)))) (\<lambda>_.
     bindS (utc_now env) (\<lambda>now.
     bindS (liftE (activate_current_stages now plan)) (\<lambda>plan.
     let target = aggregate_plan plan in
     bindS (liftE (validate_task_reaggregation (plan_status plan) target)) (\<lambda>_.
     bindS (utc_now env) (\<lambda>now.
     persist_aggregate env (touch now (set_task_status target plan)) envelope ''confirm_start''
       (R_task task_id) actual False)))))))"

definition confirm_start ::
  "environment \<Rightarrow> string \<Rightarrow> command_envelope \<Rightarrow> command_result sop" where
  "confirm_start env task_id envelope =
     idempotent env task_id ''confirm_start'' (R_task task_id) envelope
       (do_confirm_start env task_id envelope)"

end
