(* ===== verification/Instance_Commands.thy ===== *)
theory Instance_Commands imports Task_Commands begin

text \<open>
  The handlers of \<open>TaskCommandService\<close> that change one instance of a saved plan (manual gates,
  approval mode, state transition, delivery rejection, downgrade) or the whole aggregate (archive,
  restore, cancel).
\<close>

section \<open>One instance of the plan\<close>

text \<open>\<open>next(item for item in plan["instances"] if item["instance_id"] == instance_id)\<close>.\<close>

definition find_instance :: "task_plan \<Rightarrow> string \<Rightarrow> agent_instance res" where
  "find_instance plan instance_id =
     (case find (\<lambda>i. in_instance_id i = instance_id) (pl_instances plan) of
        None \<Rightarrow> Inl instance_not_found
      | Some i \<Rightarrow> Inr i)"

definition edit_instance ::
  "string \<Rightarrow> (agent_instance \<Rightarrow> agent_instance) \<Rightarrow> task_plan \<Rightarrow> task_plan" where
  "edit_instance instance_id f plan =
     plan\<lparr>pl_instances := update_first (\<lambda>i. in_instance_id i = instance_id) f (pl_instances plan)\<rparr>"

text \<open>The handlers' common start: the plan, and the revision check after the archive gate.\<close>

definition mutable_plan ::
  "environment \<Rightarrow> string \<Rightarrow> command_envelope \<Rightarrow> (task_plan \<times> int) sop" where
  "mutable_plan env task_id envelope =
     bindS (get_plan env task_id) (\<lambda>plan.
     bindS (liftE (require_plan_mutable plan)) (\<lambda>_.
     bindS (check_task_revision env task_id (ce_expected_revision envelope)) (\<lambda>actual.
     returnS (plan, actual))))"

definition persist_touched ::
  "environment \<Rightarrow> task_plan \<Rightarrow> command_envelope \<Rightarrow> string \<Rightarrow> command_request \<Rightarrow> int \<Rightarrow>
   command_result sop" where
  "persist_touched env plan envelope command request actual =
     bindS (utc_now env) (\<lambda>now.
     persist_aggregate env (touch now plan) envelope command request actual False)"

section \<open>Manual gates and routing\<close>

definition do_set_manual_finished ::
  "environment \<Rightarrow> string \<Rightarrow> string \<Rightarrow> bool \<Rightarrow> command_envelope \<Rightarrow> command_result sop" where
  "do_set_manual_finished env task_id instance_id manual_finished envelope =
     bindS (liftE (guardE (ce_actor_type envelope = Human)
       (invalid ''Only a human may change the manual completion gate.''))) (\<lambda>_.
     bindS (mutable_plan env task_id envelope) (\<lambda>(plan, actual).
     bindS (liftE (find_instance plan instance_id)) (\<lambda>instance.
     bindS (liftE (guardE (in_agent_type instance = Image)
       (HarnessError VALIDATION_ERROR
          ''The manual completion gate only applies to Image instances.''
          [(''instance_id'', DStr instance_id)]))) (\<lambda>_.
     persist_touched env
       (edit_instance instance_id (\<lambda>i. i\<lparr>in_manual_finished := Some manual_finished,
          in_manual_business_status := (if manual_finished then Some ''COMPLETED'' else None)\<rparr>) plan)
       envelope ''set_manual_finished'' (R_manual_finished task_id instance_id manual_finished)
       actual))))"

definition set_manual_finished ::
  "environment \<Rightarrow> string \<Rightarrow> string \<Rightarrow> bool \<Rightarrow> command_envelope \<Rightarrow> command_result sop" where
  "set_manual_finished env task_id instance_id manual_finished envelope =
     idempotent env task_id ''set_manual_finished''
       (R_manual_finished task_id instance_id manual_finished) envelope
       (do_set_manual_finished env task_id instance_id manual_finished envelope)"

definition business_statuses :: "string list" where
  "business_statuses = [''TODO'', ''RUNNING'', ''WAITING_APPROVAL'', ''COMPLETED'']"

definition do_set_business_status ::
  "environment \<Rightarrow> string \<Rightarrow> string \<Rightarrow> string \<Rightarrow> command_envelope \<Rightarrow> command_result sop" where
  "do_set_business_status env task_id instance_id business_status envelope =
     bindS (liftE (guardE (business_status \<in> set business_statuses)
       (invalid ''The WorkItem business status is invalid.''))) (\<lambda>_.
     bindS (liftE (human_or_master envelope
       ''Only a human or Master may change the WorkItem business status.'')) (\<lambda>_.
     bindS (mutable_plan env task_id envelope) (\<lambda>(plan, actual).
     bindS (liftE (find_instance plan instance_id)) (\<lambda>_.
     persist_touched env
       (edit_instance instance_id (\<lambda>i. i\<lparr>in_manual_business_status := Some business_status,
          in_manual_finished := (if in_agent_type i = Image
                                 then Some (business_status = ''COMPLETED'')
                                 else in_manual_finished i)\<rparr>) plan)
       envelope ''set_manual_business_status'' (R_business_status task_id instance_id business_status)
       actual))))"

definition set_manual_business_status ::
  "environment \<Rightarrow> string \<Rightarrow> string \<Rightarrow> string \<Rightarrow> command_envelope \<Rightarrow> command_result sop" where
  "set_manual_business_status env task_id instance_id business_status envelope =
     idempotent env task_id ''set_manual_business_status''
       (R_business_status task_id instance_id business_status) envelope
       (do_set_business_status env task_id instance_id business_status envelope)"

definition do_set_approval_mode ::
  "environment \<Rightarrow> string \<Rightarrow> string \<Rightarrow> string \<Rightarrow> command_envelope \<Rightarrow> command_result sop" where
  "do_set_approval_mode env task_id instance_id approval_mode envelope =
     bindS (liftE (guardE (approval_mode \<in> {''human'', ''master''})
       (invalid ''The approval mode is invalid.''))) (\<lambda>_.
     bindS (liftE (human_or_master envelope
       ''Only a human or Master may change approval routing.'')) (\<lambda>_.
     bindS (mutable_plan env task_id envelope) (\<lambda>(plan, actual).
     bindS (liftE (find_instance plan instance_id)) (\<lambda>_.
     persist_touched env
       (edit_instance instance_id (\<lambda>i. i\<lparr>in_approval_mode := approval_mode\<rparr>) plan)
       envelope ''set_approval_mode'' (R_approval_mode task_id instance_id approval_mode) actual))))"

definition set_approval_mode ::
  "environment \<Rightarrow> string \<Rightarrow> string \<Rightarrow> string \<Rightarrow> command_envelope \<Rightarrow> command_result sop" where
  "set_approval_mode env task_id instance_id approval_mode envelope =
     idempotent env task_id ''set_approval_mode'' (R_approval_mode task_id instance_id approval_mode)
       envelope (do_set_approval_mode env task_id instance_id approval_mode envelope)"

section \<open>Transitions\<close>

text \<open>Popping the manual status of an instance; an Image instance that had one loses its gate.\<close>

definition clear_manual_status :: "agent_instance \<Rightarrow> agent_instance" where
  "clear_manual_status i =
     i\<lparr>in_manual_business_status := None,
       in_manual_finished := (if in_manual_business_status i \<noteq> None \<and> in_agent_type i = Image
                              then Some False else in_manual_finished i)\<rparr>"

definition rejection_cleared :: "instance_status list" where
  "rejection_cleared =
     [I_SUCCEEDED, I_FAILED_TO_START, I_FAILED, I_CRASHED, I_CANCELLED, I_SUPERSEDED, I_ARCHIVED]"

definition transitioned :: "instance_status \<Rightarrow> agent_instance \<Rightarrow> agent_instance" where
  "transitioned target i =
     (let i = i\<lparr>in_status := target\<rparr>;
          i = (if target \<noteq> I_STOPPED then clear_manual_status i else i)
      in if target \<in> set rejection_cleared then i\<lparr>in_delivery_rejection := None\<rparr> else i)"

text \<open>The tail that transition and rejection share: stages, task status, time stamp, commit.\<close>

definition reaggregate ::
  "environment \<Rightarrow> task_plan \<Rightarrow> command_envelope \<Rightarrow> string \<Rightarrow> command_request \<Rightarrow> int \<Rightarrow>
   command_result sop" where
  "reaggregate env plan envelope command request actual =
     bindS (utc_now env) (\<lambda>now.
     bindS (liftE (refresh_stages now True plan)) (\<lambda>plan.
     bindS (liftE (settle_task_status plan)) (\<lambda>plan.
     persist_touched env plan envelope command request actual)))"

definition do_transition_instance ::
  "environment \<Rightarrow> string \<Rightarrow> string \<Rightarrow> instance_status \<Rightarrow> command_envelope \<Rightarrow> command_result sop" where
  "do_transition_instance env task_id instance_id target envelope =
     bindS (get_plan env task_id) (\<lambda>plan.
     bindS (check_task_revision env task_id (ce_expected_revision envelope)) (\<lambda>actual.
     bindS (liftE (find_instance plan instance_id)) (\<lambda>instance.
     bindS (liftE (instance_transition (in_status instance) target)) (\<lambda>_.
     let plan = edit_instance instance_id (transitioned target) plan in
     bindS (if target \<in> {I_STARTING, I_RUNNING} then
              bindS (utc_now env) (\<lambda>now.
              returnS (edit_instance instance_id (activate_instance now) plan))
            else returnS plan) (\<lambda>plan.
     reaggregate env plan envelope ''transition_instance'' (R_transition task_id instance_id target)
       actual)))))"

definition transition_instance ::
  "environment \<Rightarrow> string \<Rightarrow> string \<Rightarrow> instance_status \<Rightarrow> command_envelope \<Rightarrow> command_result sop" where
  "transition_instance env task_id instance_id target envelope =
     idempotent env task_id ''transition_instance'' (R_transition task_id instance_id target) envelope
       (do_transition_instance env task_id instance_id target envelope)"

definition do_reject_delivery ::
  "environment \<Rightarrow> string \<Rightarrow> string \<Rightarrow> delivery_rejection \<Rightarrow> command_envelope \<Rightarrow>
   command_result sop" where
  "do_reject_delivery env task_id instance_id rejection envelope =
     bindS (get_plan env task_id) (\<lambda>plan.
     bindS (check_task_revision env task_id (ce_expected_revision envelope)) (\<lambda>actual.
     bindS (liftE (find_instance plan instance_id)) (\<lambda>instance.
     bindS (liftE (guardE (ce_actor_type envelope = Adapter \<and>
         ce_actor_id envelope = agent_type_name (in_agent_type instance) @ ''_adapter'')
       (invalid ''Only the owning Agent adapter may reject a collected delivery.''))) (\<lambda>_.
     bindS (liftE (instance_transition (in_status instance) I_FAILED)) (\<lambda>_.
     bindS (utc_now env) (\<lambda>now.
     let rejected = rejection\<lparr>dr_rejected_at := Some now, dr_retryable := Some True\<rparr>;
         plan = edit_instance instance_id
           (\<lambda>i. (clear_manual_status (i\<lparr>in_status := I_FAILED\<rparr>))\<lparr>in_delivery_rejection := Some rejected\<rparr>)
           plan in
     reaggregate env plan envelope ''reject_instance_delivery'' (R_reject task_id instance_id rejection)
       actual))))))"

definition reject_instance_delivery ::
  "environment \<Rightarrow> string \<Rightarrow> string \<Rightarrow> delivery_rejection \<Rightarrow> command_envelope \<Rightarrow>
   command_result sop" where
  "reject_instance_delivery env task_id instance_id rejection envelope =
     idempotent env task_id ''reject_instance_delivery'' (R_reject task_id instance_id rejection)
       envelope (do_reject_delivery env task_id instance_id rejection envelope)"

section \<open>Archive, restore, cancel\<close>

text \<open>A task without a plan is rewritten alone.\<close>

definition put_planless ::
  "environment \<Rightarrow> command_envelope \<Rightarrow> string \<Rightarrow> command_request \<Rightarrow> main_task \<Rightarrow> string \<Rightarrow>
   task_status \<Rightarrow> int \<Rightarrow> command_result sop" where
  "put_planless env envelope command request task task_id status actual =
     bindS (utc_now env) (\<lambda>now.
     let task = task\<lparr>tk_status := status, tk_updated_at := now\<rparr>;
         result = V_task task (actual + 1) in
     bindS (put_task env envelope command request task_id task actual result) (\<lambda>_.
     returnS result))"

definition do_archive_task ::
  "environment \<Rightarrow> string \<Rightarrow> command_envelope \<Rightarrow> command_result sop" where
  "do_archive_task env task_id envelope =
     bindS (get_task env task_id) (\<lambda>task.
     bindS (check_task_revision env task_id (ce_expected_revision envelope)) (\<lambda>actual.
     bindS (liftE (task_transition (tk_status task) T_ARCHIVED)) (\<lambda>_.
     bindS (find_plan env task_id) (\<lambda>p.
     case p of
       None \<Rightarrow> put_planless env envelope ''archive_task'' (R_task task_id) task task_id T_ARCHIVED actual
     | Some plan \<Rightarrow>
         persist_touched env (set_task_status T_ARCHIVED plan) envelope ''archive_task''
           (R_task task_id) actual))))"

definition archive_task ::
  "environment \<Rightarrow> string \<Rightarrow> command_envelope \<Rightarrow> command_result sop" where
  "archive_task env task_id envelope =
     idempotent env task_id ''archive_task'' (R_task task_id) envelope
       (do_archive_task env task_id envelope)"

text \<open>One entry of \<open>instance_restores\<close>; \<open>instance_by_id\<close> refers to the last instance with the id.\<close>

definition restore_one ::
  "string \<Rightarrow> string \<times> instance_status \<Rightarrow> agent_instance list \<Rightarrow> agent_instance list res" where
  "restore_one now = (\<lambda>(instance_id, target) instances.
     case instances_by_id instances instance_id of
       None \<Rightarrow> Inl instance_not_found
     | Some i \<Rightarrow>
         if in_status i \<noteq> I_STOPPED then Inr instances
         else
           bindE (instance_transition I_STOPPED target) (\<lambda>_.
           Inr (update_last (\<lambda>x. in_instance_id x = instance_id)
             (\<lambda>x. let x = x\<lparr>in_status := target\<rparr> in
                  if target \<in> {I_STARTING, I_RUNNING} then activate_instance now x else x)
             instances)))"

definition restore_plan ::
  "string \<Rightarrow> bool \<Rightarrow> (string \<times> instance_status) list \<Rightarrow> task_status \<Rightarrow> task_plan \<Rightarrow>
   task_plan res" where
  "restore_plan now was_archived restores target_status plan =
     bindE (foldE (restore_one now) restores (pl_instances plan)) (\<lambda>instances.
     bindE (refresh_stages now True (plan\<lparr>pl_instances := instances\<rparr>)) (\<lambda>plan.
     let plan = set_task_status target_status plan; restored_status = aggregate_plan plan in
     bindE (if was_archived then task_transition T_ARCHIVED restored_status
            else if restored_status \<noteq> target_status
              then task_transition target_status restored_status
            else Inr ()) (\<lambda>_.
     Inr (touch now (set_task_status restored_status plan)))))"

definition do_restore_archived ::
  "environment \<Rightarrow> string \<Rightarrow> (string \<times> instance_status) list \<Rightarrow> task_status \<Rightarrow> command_envelope \<Rightarrow>
   command_result sop" where
  "do_restore_archived env task_id restores target_status envelope =
     (let request = R_restore task_id restores target_status in
      bindS (get_task env task_id) (\<lambda>task.
      bindS (check_task_revision env task_id (ce_expected_revision envelope)) (\<lambda>actual.
      let was_archived = (tk_status task = T_ARCHIVED) in
      bindS (liftE (guardE (was_archived \<or> tk_status task = target_status)
        (HarnessError INVALID_STATE_TRANSITION
           ''The task is no longer archived and cannot be restored.''
           [(''current'', DStr (task_status_name (tk_status task))),
            (''target'', DStr (task_status_name target_status))]))) (\<lambda>_.
      bindS (find_plan env task_id) (\<lambda>p.
      case p of
        None \<Rightarrow>
          bindS (liftE (if was_archived then task_transition T_ARCHIVED target_status
                        else Inr ())) (\<lambda>_.
          bindS (liftE (guardE (restores = []) instance_not_found)) (\<lambda>_.
          put_planless env envelope ''restore_archived'' request task task_id target_status actual))
      | Some plan \<Rightarrow>
          bindS (utc_now env) (\<lambda>now.
          bindS (liftE (restore_plan now was_archived restores target_status plan)) (\<lambda>plan.
          persist_aggregate env plan envelope ''restore_archived'' request actual False)))))))"

definition restore_archived ::
  "environment \<Rightarrow> string \<Rightarrow> (string \<times> instance_status) list \<Rightarrow> task_status \<Rightarrow> command_envelope \<Rightarrow>
   command_result sop" where
  "restore_archived env task_id restores target_status envelope =
     idempotent env task_id ''restore_archived'' (R_restore task_id restores target_status) envelope
       (do_restore_archived env task_id restores target_status envelope)"

definition cancel_instance :: "agent_instance \<Rightarrow> agent_instance" where
  "cancel_instance i =
     (if I_CANCELLED \<in> set (instance_transitions (in_status i)) then
        i\<lparr>in_status := I_CANCELLED, in_manual_business_status := None,
          in_manual_finished := (if in_manual_business_status i \<noteq> None then Some False
                                 else in_manual_finished i)\<rparr>
      else i)"

definition cancel_stage :: "stage \<Rightarrow> stage" where
  "cancel_stage s =
     (if S_CANCELLED \<in> set (stage_transitions (sg_status s)) then s\<lparr>sg_status := S_CANCELLED\<rparr>
      else s)"

definition cancel_plan :: "task_plan \<Rightarrow> task_plan" where
  "cancel_plan plan =
     set_task_status T_CANCELLED
       (plan\<lparr>pl_stages := map cancel_stage (pl_stages plan),
             pl_instances := map cancel_instance (pl_instances plan)\<rparr>)"

definition do_cancel_task ::
  "environment \<Rightarrow> string \<Rightarrow> command_envelope \<Rightarrow> command_result sop" where
  "do_cancel_task env task_id envelope =
     bindS (get_task env task_id) (\<lambda>task.
     bindS (check_task_revision env task_id (ce_expected_revision envelope)) (\<lambda>actual.
     bindS (liftE (task_transition (tk_status task) T_CANCELLED)) (\<lambda>_.
     bindS (find_plan env task_id) (\<lambda>p.
     case p of
       None \<Rightarrow> put_planless env envelope ''cancel_task'' (R_task task_id) task task_id T_CANCELLED actual
     | Some plan \<Rightarrow>
         persist_touched env (cancel_plan plan) envelope ''cancel_task'' (R_task task_id) actual))))"

definition cancel_task ::
  "environment \<Rightarrow> string \<Rightarrow> command_envelope \<Rightarrow> command_result sop" where
  "cancel_task env task_id envelope =
     idempotent env task_id ''cancel_task'' (R_task task_id) envelope
       (do_cancel_task env task_id envelope)"

section \<open>Downgrade\<close>

definition downgradable :: "agent_instance \<Rightarrow> bool" where
  "downgradable i =
     (in_required i \<and> lc_original_required (in_lifecycle i) \<and>
      lc_first_activated_at (in_lifecycle i) \<noteq> None)"

definition authorize :: "downgrade \<Rightarrow> lifecycle \<Rightarrow> lifecycle" where
  "authorize d lc = lc\<lparr>lc_authorized_downgrade := Some d\<rparr>"

text \<open>The instance, and its stage when no required instance is left in it.\<close>

definition downgrade_plan :: "downgrade \<Rightarrow> string \<Rightarrow> agent_instance \<Rightarrow> task_plan \<Rightarrow> task_plan res" where
  "downgrade_plan d instance_id i plan =
     (let plan = edit_instance instance_id
            (\<lambda>x. x\<lparr>in_required := False, in_lifecycle := authorize d (in_lifecycle x)\<rparr>) plan in
      case find (\<lambda>s. sg_stage_id s = in_stage_id i) (pl_stages plan) of
        None \<Rightarrow> Inl StopIteration
      | Some s \<Rightarrow>
          let remaining_required =
                filter (\<lambda>x. in_stage_id x = sg_stage_id s \<and> in_required x) (pl_instances plan);
              first = lc_first_activated_at (in_lifecycle i);
              stages =
                (if remaining_required = [] then
                   update_first (\<lambda>s. sg_stage_id s = in_stage_id i)
                     (\<lambda>s. s\<lparr>sg_required := False,
                            sg_lifecycle := authorize d
                              (case first of None \<Rightarrow> sg_lifecycle s
                               | Some now \<Rightarrow> activate_lifecycle now (sg_lifecycle s))\<rparr>)
                     (pl_stages plan)
                 else pl_stages plan) in
          Inr (plan\<lparr>pl_stages := stages,
                    pl_task := (pl_task plan)\<lparr>tk_plan_revision := dg_plan_revision d\<rparr>\<rparr>))"

definition do_downgrade_instance ::
  "environment \<Rightarrow> string \<Rightarrow> string \<Rightarrow> string \<Rightarrow> command_envelope \<Rightarrow> command_result sop" where
  "do_downgrade_instance env task_id instance_id reason envelope =
     bindS (liftE (human_or_master envelope ''Only a human or Master may authorize a downgrade.'')) (\<lambda>_.
     bindS (mutable_plan env task_id envelope) (\<lambda>(plan, actual).
     bindS (liftE (find_instance plan instance_id)) (\<lambda>instance.
     bindS (liftE (guardE (downgradable instance)
       (HarnessError INVALID_STATE_TRANSITION
          ''Only an activated, originally required instance can be downgraded.'' []))) (\<lambda>_.
     let new_plan_revision = max 2 (tk_plan_revision (pl_task plan) + 1) in
     bindS (fresh_uuid env) (\<lambda>uuid.
     bindS (utc_now env) (\<lambda>now.
     let authorization = \<lparr>dg_authorization_id = ''auth_'' @ uuid, dg_authorized_at = now,
           dg_authorized_by_type = ce_actor_type envelope,
           dg_authorized_by_id = ce_actor_id envelope, dg_plan_revision = new_plan_revision,
           dg_reason = reason\<rparr> in
     bindS (liftE (downgrade_plan authorization instance_id instance plan)) (\<lambda>plan.
     reaggregate env plan envelope ''downgrade_instance'' (R_downgrade task_id instance_id reason)
       actual)))))))"

definition downgrade_instance ::
  "environment \<Rightarrow> string \<Rightarrow> string \<Rightarrow> string \<Rightarrow> command_envelope \<Rightarrow> command_result sop" where
  "downgrade_instance env task_id instance_id reason envelope =
     idempotent env task_id ''downgrade_instance'' (R_downgrade task_id instance_id reason) envelope
       (do_downgrade_instance env task_id instance_id reason envelope)"

end
