(* ===== verification/Store_Recovery.thy ===== *)
theory Store_Recovery imports File_Store begin

text \<open>
  What the commit protocol of \<open>Repository\<close> and the startup recovery of \<open>File_Store\<close> promise
  together: which file belongs to which object, what a journal of commits says an object is, and
  that recovery restores exactly that.
\<close>

declare split_paired_All [simp del] split_paired_Ex [simp del]

lemma in_fst_image: "k \<in> fst ` A \<longleftrightarrow> (\<exists>v. (k, v) \<in> A)"
  by force

section \<open>Paths\<close>

definition singleton_kind :: "object_type \<Rightarrow> bool" where
  "singleton_kind kind =
     (kind \<in> {O_task, O_plan, O_retry_budget, O_task_intake, O_task_navigation,
              O_master_thread})"

text \<open>One object per task of these kinds: its id is the task's.\<close>

definition proper_key :: "string \<Rightarrow> object_key \<Rightarrow> bool" where
  "proper_key task_id key =
     (is_identifier (snd key) \<and> (singleton_kind (fst key) \<longrightarrow> snd key = task_id))"

definition object_path :: "string \<Rightarrow> object_key \<Rightarrow> file_path" where
  "object_path task_id key = (task_id, relative_path (fst key) (snd key))"

lemma relative_path_inj:
  "relative_path k i = relative_path k' i' \<Longrightarrow> k = k' \<and> (singleton_kind k \<or> i = i')"
  by (cases k; cases k') (simp_all add: json_file_def singleton_kind_def)

lemma object_path_inj:
  assumes "proper_key t a" and "proper_key t b"
  shows "object_path t a = object_path t b \<longleftrightarrow> a = b"
proof -
  obtain k i k' i' where ab: "a = (k, i)" "b = (k', i')" by (cases a, cases b)
  show ?thesis
    using relative_path_inj [of k i k' i'] assms ab
    by (auto simp: object_path_def proper_key_def)
qed

section \<open>The latest commit of an object\<close>

definition commit_ok :: "string \<Rightarrow> event \<Rightarrow> bool" where
  "commit_ok task_id e =
     (ee_event_type e = OBJECT_COMMITTED \<longrightarrow>
        proper_key task_id (event_key e) \<and> 1 \<le> ee_revision e \<and>
        (case ee_snapshot e of
           None \<Rightarrow> False
         | Some w \<Rightarrow> wr_object_type w = ee_object_type e \<and> wr_object_id w = ee_object_id e \<and>
                     wr_revision w = ee_revision e))"

definition journal_ok :: "string \<Rightarrow> event list \<Rightarrow> bool" where
  "journal_ok task_id es = list_all (commit_ok task_id) es"

definition latest_commit :: "event list \<Rightarrow> object_key \<Rightarrow> event option" where
  "latest_commit es key = map_of (latest_commits es) key"

lemma latest_commits_snoc:
  "latest_commits (es @ [e]) = record_latest e (latest_commits es)"
  by (simp add: latest_commits_def)

lemma latest_commit_Nil [simp]: "latest_commit [] key = None"
  by (simp add: latest_commit_def latest_commits_def)

lemma latest_commit_snoc:
  "latest_commit (es @ [e]) =
     (if ee_event_type e = OBJECT_COMMITTED \<and>
         (case latest_commit es (event_key e) of
            None \<Rightarrow> True | Some old \<Rightarrow> ee_revision e > ee_revision old)
      then (latest_commit es)(event_key e \<mapsto> e) else latest_commit es)"
  by (auto simp: latest_commit_def latest_commits_snoc record_latest_def fun_eq_iff
      split: option.splits)

lemma distinct_latest_commits: "distinct (map fst (latest_commits es))"
proof (induction es rule: rev_induct)
  case (snoc e es)
  then show ?case
    by (simp add: latest_commits_snoc record_latest_def distinct_update)
qed (simp add: latest_commits_def)

lemma in_latest_commits:
  "(key, e) \<in> set (latest_commits es) \<longleftrightarrow> latest_commit es key = Some e"
  using distinct_latest_commits by (auto simp: latest_commit_def map_of_eq_Some_iff)

lemma latest_commit_event:
  "latest_commit es key = Some e \<Longrightarrow>
     e \<in> set es \<and> ee_event_type e = OBJECT_COMMITTED \<and> event_key e = key"
proof (induction es arbitrary: key e rule: rev_induct)
  case (snoc x xs)
  then show ?case by (auto simp: latest_commit_snoc split: if_splits)
qed simp

lemma fold_max_snoc: "fold max (xs @ [x]) a = max x (fold max xs a)"
  by simp

text \<open>\<open>last_committed_revision\<close>, which \<open>put\<close> takes as the base of a new file, is the revision of
  that commit.\<close>

lemma last_committed_revision_snoc:
  "last_committed_revision k i (es @ [e]) =
     (if is_commit_of k i e then
        (if \<exists>x \<in> set es. is_commit_of k i x
         then max (ee_revision e) (last_committed_revision k i es) else ee_revision e)
      else last_committed_revision k i es)"
  by (cases "filter (is_commit_of k i) es")
     (auto simp: last_committed_revision_def filter_empty_conv)

lemma latest_commit_revision:
  "(case latest_commit es (k, i) of
      None \<Rightarrow> last_committed_revision k i es = 0 \<and> (\<forall>x \<in> set es. \<not> is_commit_of k i x)
    | Some e \<Rightarrow> ee_revision e = last_committed_revision k i es \<and>
        (\<exists>x \<in> set es. is_commit_of k i x))"
proof (induction es rule: rev_induct)
  case (snoc x xs)
  have key: "is_commit_of k i x \<longleftrightarrow> ee_event_type x = OBJECT_COMMITTED \<and> event_key x = (k, i)"
    by (auto simp: is_commit_of_def event_key_def)
  show ?case
    using snoc.IH
    by (auto simp: latest_commit_snoc last_committed_revision_snoc key
        split: option.splits if_splits)
qed (simp add: last_committed_revision_def)

lemma journal_ok_commit:
  assumes "journal_ok t es" and "latest_commit es key = Some e"
  shows "proper_key t key" "1 \<le> ee_revision e"
    "\<exists>w. ee_snapshot e = Some w \<and> wr_object_type w = fst key \<and> wr_object_id w = snd key \<and>
         wr_revision w = ee_revision e"
proof -
  from latest_commit_event [OF assms(2)] have e: "e \<in> set es" "ee_event_type e = OBJECT_COMMITTED"
    "event_key e = key" by auto
  then have "commit_ok t e" using assms(1) by (simp add: journal_ok_def list_all_iff)
  then show "proper_key t key" "1 \<le> ee_revision e"
    "\<exists>w. ee_snapshot e = Some w \<and> wr_object_type w = fst key \<and> wr_object_id w = snd key \<and>
         wr_revision w = ee_revision e"
    using e by (auto simp: commit_ok_def event_key_def split: option.splits)
qed

section \<open>Recovery of the snapshots\<close>

text \<open>The task's files as the journal has them: what recovery makes of \<open>file_at st\<close>.\<close>

definition recovered_files ::
  "string \<Rightarrow> event list \<Rightarrow> (file_path \<Rightarrow> content option) \<Rightarrow> (file_path \<Rightarrow> content option) \<Rightarrow> bool" where
  "recovered_files t es old new \<longleftrightarrow>
     (\<forall>key e w. latest_commit es key = Some e \<longrightarrow> ee_snapshot e = Some w \<longrightarrow>
        new (object_path t key) = Some (Snapshot w)) \<and>
     (\<forall>p. (\<forall>key. latest_commit es key \<noteq> None \<longrightarrow> p \<noteq> object_path t key) \<longrightarrow> new p = old p)"

definition not_ahead :: "string \<Rightarrow> event list \<Rightarrow> store \<Rightarrow> bool" where
  "not_ahead t es st \<longleftrightarrow>
     (\<forall>key e w. latest_commit es key = Some e \<longrightarrow>
        file_at st (object_path t key) = Some (Snapshot w) \<longrightarrow> wr_revision w \<le> ee_revision e)"

lemma recover_snapshot_step:
  assumes "ee_snapshot e = Some w" and "proper_key t key" and "is_identifier t"
    and "\<And>v. file_at st (object_path t key) = Some (Snapshot v) \<Longrightarrow> wr_revision v \<le> ee_revision e"
  shows "\<exists>st'. recover_snapshot env t (key, e) st = (Inr (), st') \<and>
           file_at st' = (file_at st)(object_path t key \<mapsto> Snapshot w) \<and>
           st_journals st' = st_journals st \<and> st_idempotency st' = st_idempotency st"
proof -
  obtain k i where key: "key = (k, i)" by (cases key)
  let ?p = "(t, relative_path k i)"
  have path: "repo_path (repository_of env k) t i = Inr ?p"
    using assms(2,3) key by (simp add: repo_path_def proper_key_def)
  have written: "\<exists>st'. write_file ?p w st = (Inr (), st') \<and>
      file_at st' = (file_at st)(?p \<mapsto> Snapshot w) \<and> st_journals st' = st_journals st \<and>
      st_idempotency st' = st_idempotency st"
    by (auto simp: write_file_def modifyS_def file_at_def fun_eq_iff)
  show ?thesis
  proof (cases "readable (file_at st ?p)")
    case None
    then show ?thesis
      using written path assms(1)
      by (simp add: recover_snapshot_def key object_path_def run event_snapshot_def)
  next
    case (Some v)
    then have old: "file_at st ?p = Some (Snapshot v)"
      by (auto simp: readable_def split: option.splits content.splits)
    then have le: "wr_revision v \<le> ee_revision e"
      using assms(4) key by (simp add: object_path_def)
    have same: "(file_at st)(?p \<mapsto> Snapshot w) = file_at st" if "v = w"
      using old that by (simp add: fun_upd_idem)
    have warned: "\<exists>st'. bindS (write_file ?p w) (\<lambda>_. warn env t (last (snd ?p))) st = (Inr (), st') \<and>
        file_at st' = (file_at st)(?p \<mapsto> Snapshot w) \<and> st_journals st' = st_journals st \<and>
        st_idempotency st' = st_idempotency st"
      by (simp add: write_file_def warn_def run bindS_def utc_now_def modifyS_def)
        (auto simp: file_at_def fun_eq_iff)
    show ?thesis
      using written warned path assms(1) le old same
      by (auto simp: recover_snapshot_def key object_path_def run event_snapshot_def readable_def
          returnS_def)
  qed
qed

text \<open>A list of entries that can be restored, and the effect of restoring them in turn.\<close>

definition restorable :: "string \<Rightarrow> (object_key \<times> event) list \<Rightarrow> store \<Rightarrow> bool" where
  "restorable t L st \<longleftrightarrow>
     (\<forall>key e. (key, e) \<in> set L \<longrightarrow>
        proper_key t key \<and> ee_snapshot e \<noteq> None \<and>
        (\<forall>v. file_at st (object_path t key) = Some (Snapshot v) \<longrightarrow> wr_revision v \<le> ee_revision e))"

definition restored :: "string \<Rightarrow> (object_key \<times> event) list \<Rightarrow> store \<Rightarrow> store \<Rightarrow> bool" where
  "restored t L st st' \<longleftrightarrow>
     (\<forall>key e w. (key, e) \<in> set L \<longrightarrow> ee_snapshot e = Some w \<longrightarrow>
        file_at st' (object_path t key) = Some (Snapshot w)) \<and>
     (\<forall>p. (\<forall>key e. (key, e) \<in> set L \<longrightarrow> p \<noteq> object_path t key) \<longrightarrow> file_at st' p = file_at st p) \<and>
     st_journals st' = st_journals st \<and> st_idempotency st' = st_idempotency st"

lemma restorableD:
  assumes "restorable t L st" and "(key, e) \<in> set L"
  shows "proper_key t key" "ee_snapshot e \<noteq> None"
    "file_at st (object_path t key) = Some (Snapshot v) \<Longrightarrow> wr_revision v \<le> ee_revision e"
  using assms unfolding restorable_def by blast+

lemma recover_snapshot_list:
  assumes "is_identifier t" and "distinct (map fst L)" and "restorable t L st"
  shows "\<exists>st'. forS (recover_snapshot env t) L st = (Inr (), st') \<and> restored t L st st'"
  using assms(2,3)
proof (induction L arbitrary: st)
  case (Cons x L)
  obtain key e where x: "x = (key, e)" by (cases x)
  obtain w where w: "ee_snapshot e = Some w" and key: "proper_key t key"
    and le: "\<And>v. file_at st (object_path t key) = Some (Snapshot v) \<Longrightarrow> wr_revision v \<le> ee_revision e"
    using restorableD [OF Cons.prems(2), of key e] x by auto
  obtain u where u: "recover_snapshot env t (key, e) st = (Inr (), u)"
    "file_at u = (file_at st)(object_path t key \<mapsto> Snapshot w)"
    "st_journals u = st_journals st" "st_idempotency u = st_idempotency st"
    using recover_snapshot_step [OF w key assms(1) le] by blast
  have other: "object_path t k \<noteq> object_path t key" if "(k, f) \<in> set L" for k f
  proof -
    have "proper_key t k" using restorableD(1) [OF Cons.prems(2)] that by (meson list.set_intros(2))
    moreover have "k \<noteq> key" using Cons.prems(1) x that by force
    ultimately show ?thesis using object_path_inj [of t k key] key by blast
  qed
  have "restorable t L u"
    using restorableD [OF Cons.prems(2)] u(2) other
    unfolding restorable_def by (metis fun_upd_other list.set_intros(2))
  then obtain st' where st': "forS (recover_snapshot env t) L u = (Inr (), st')" "restored t L u st'"
    using Cons.IH [of u] Cons.prems(1) by auto
  have own: "file_at st' (object_path t key) = Some (Snapshot w)"
    using st'(2) other u(2) unfolding restored_def by (metis fun_upd_same)
  have "file_at st' (object_path t k) = Some (Snapshot v)"
    if "(k, f) \<in> set (x # L)" "ee_snapshot f = Some v" for k f v
  proof (cases "(k, f) = x")
    case True
    then show ?thesis using own w x that(2) by auto
  next
    case False
    then have "(k, f) \<in> set L" using that(1) by simp
    then show ?thesis using st'(2) that(2) unfolding restored_def by blast
  qed
  moreover have "file_at st' p = file_at st p"
    if out: "\<forall>k f. (k, f) \<in> set (x # L) \<longrightarrow> p \<noteq> object_path t k" for p
  proof -
    have "p \<noteq> object_path t key" using out x by (metis list.set_intros(1))
    moreover have "\<forall>k f. (k, f) \<in> set L \<longrightarrow> p \<noteq> object_path t k"
      using out by (simp del: split_paired_All)
    ultimately show ?thesis using st'(2) u(2) unfolding restored_def by (metis fun_upd_other)
  qed
  moreover have "st_journals st' = st_journals st" "st_idempotency st' = st_idempotency st"
    using st'(2) u(3,4) unfolding restored_def by simp_all
  ultimately have "restored t (x # L) st st'" unfolding restored_def by blast
  then show ?case using st'(1) u(1) x by (auto simp: bindS_run)
qed (simp add: returnS_def restored_def)

lemma recover_snapshots_ok:
  assumes t: "is_identifier t" and ok: "journal_ok t es" and ahead: "not_ahead t es st"
  shows "\<exists>st'. recover_snapshots env t es st = (Inr (), st') \<and>
     recovered_files t es (file_at st) (file_at st') \<and>
     st_journals st' = st_journals st \<and> st_idempotency st' = st_idempotency st"
proof -
  have "restorable t (latest_commits es) st"
    using journal_ok_commit [OF ok] ahead
    unfolding restorable_def not_ahead_def in_latest_commits by (metis option.discI)
  from recover_snapshot_list [OF t distinct_latest_commits this, of env]
  show ?thesis
    unfolding recover_snapshots_def restored_def recovered_files_def in_latest_commits
    by (simp add: option.discI)
qed

section \<open>Index rebuilding leaves the durable state alone\<close>

lemma rebuild_task_index_unchanged:
  "rebuild_task_index env st = (r, st') \<Longrightarrow> unchanged st st'"
  unfolding rebuild_task_index_def
  by (elim bindS_cases) (auto simp: monad unchanged_def)

lemma rebuild_inbox_index_unchanged:
  "rebuild_inbox_index env st = (r, st') \<Longrightarrow> unchanged st st'"
  unfolding rebuild_inbox_index_def
  by (elim bindS_cases) (auto simp: monad unchanged_def)

lemma benign_repository [simp]: "benign (repository_of env kind)"
  unfolding benign_def
proof (intro allI)
  fix t st
  obtain r st' where run: "after_commit (repository_of env kind) t st = (r, st')"
    by (cases "after_commit (repository_of env kind) t st")
  then have "unchanged st st'"
    by (auto simp: after_commit_def index_rebuild_def returnS_def split: if_splits
        dest: rebuild_task_index_unchanged rebuild_inbox_index_unchanged)
  then show "unchanged st (snd (after_commit (repository_of env kind) t st))" by (simp add: run)
qed

section \<open>A write extends the journal by the new latest commit\<close>

text \<open>In a synced task every file is the snapshot of its object's latest commit. An object that has a
  commit may have no file: it was removed, or retired with its plan.\<close>

definition synced :: "string \<Rightarrow> store \<Rightarrow> bool" where
  "synced t st \<longleftrightarrow>
     is_identifier t \<and> journal_ok t (journal st t) \<and>
     (\<forall>key. proper_key t key \<longrightarrow>
        (case file_at st (object_path t key) of
           None \<Rightarrow> True
         | Some Unreadable \<Rightarrow> False
         | Some (Snapshot w) \<Rightarrow>
             \<exists>e. latest_commit (journal st t) key = Some e \<and> ee_snapshot e = Some w))"

lemma synced_cong: "file_at a = file_at b \<Longrightarrow> journal a = journal b \<Longrightarrow> synced t a = synced t b"
  unfolding synced_def by (simp only:)

lemma synced_file:
  assumes "synced t st" and "proper_key t key" and "file_at st (object_path t key) = Some c"
  obtains w e where "c = Snapshot w" "latest_commit (journal st t) key = Some e"
    "ee_snapshot e = Some w" "wr_revision w = ee_revision e" "wr_object_type w = fst key"
proof -
  from assms obtain w e where c: "c = Snapshot w" "latest_commit (journal st t) key = Some e"
    "ee_snapshot e = Some w"
    unfolding synced_def by (cases c) fastforce+
  with assms(1) journal_ok_commit(3) [of t "journal st t" key e]
  show thesis using that by (auto simp: synced_def)
qed

lemma synced_not_ahead:
  assumes "synced t st"
  shows "not_ahead t (journal st t) st"
  unfolding not_ahead_def
proof (intro allI impI)
  fix key e w
  assume e: "latest_commit (journal st t) key = Some e"
    and w: "file_at st (object_path t key) = Some (Snapshot w)"
  have "proper_key t key" using journal_ok_commit(1) assms e unfolding synced_def by blast
  from synced_file [OF assms this w] e show "wr_revision w \<le> ee_revision e" by force
qed

lemma synced_read:
  assumes "synced t st" and "proper_key t (kind, i)"
  shows "read_wrapper (repository_of env kind) st t i =
           Inr (readable (file_at st (object_path t (kind, i))))"
proof -
  have path: "repo_path (repository_of env kind) t i = Inr (object_path t (kind, i))"
    using assms by (auto simp: repo_path_def synced_def proper_key_def object_path_def)
  show ?thesis
  proof (cases "file_at st (object_path t (kind, i))")
    case None
    then show ?thesis by (simp add: read_wrapper_def path readable_def)
  next
    case (Some c)
    from synced_file [OF assms Some] Some show ?thesis
      by (force simp: read_wrapper_def path readable_def)
  qed
qed

lemma synced_base:
  assumes syn: "synced t st" and key: "proper_key t (kind, i)"
    and cur: "read_wrapper (repository_of env kind) st t i = Inr current"
  shows "commit_base (repository_of env kind) st t i current =
           (case latest_commit (journal st t) (kind, i) of None \<Rightarrow> 0 | Some e \<Rightarrow> ee_revision e)"
proof (cases current)
  case None
  then show ?thesis
    using latest_commit_revision [of kind i "journal st t"]
    by (auto simp: commit_base_def split: option.splits)
next
  case (Some w)
  then have "file_at st (object_path t (kind, i)) = Some (Snapshot w)"
    using cur synced_read [OF syn key, of env]
    by (auto simp: readable_def split: option.splits content.splits)
  from synced_file [OF syn key this] Some show ?thesis by (force simp: commit_base_def)
qed

lemma commit_extends:
  assumes syn: "synced t st" and key: "proper_key t (kind, i)"
    and cur: "read_wrapper (repository_of env kind) st t i = Inr current"
    and new: "commit_of (repository_of env kind) i p
                (commit_base (repository_of env kind) st t i current) a c k res sha w e"
  shows "journal_ok t (journal st t @ [e])"
    and "latest_commit (journal st t @ [e]) = (latest_commit (journal st t))((kind, i) \<mapsto> e)"
proof -
  let ?b = "case latest_commit (journal st t) (kind, i) of None \<Rightarrow> 0 | Some e \<Rightarrow> ee_revision e"
  have e: "ee_revision e = ?b + 1" "event_key e = (kind, i)" "ee_event_type e = OBJECT_COMMITTED"
    "ee_snapshot e = Some w" "wr_object_type w = kind" "wr_object_id w = i"
    "wr_revision w = ?b + 1"
    using new unfolding commit_of_def synced_base [OF syn key cur] is_commit_of_def event_key_def
    by auto
  have ok: "journal_ok t (journal st t)" using syn by (simp add: synced_def)
  have "0 \<le> ?b" using journal_ok_commit(2) [OF ok, of "(kind, i)"] by (auto split: option.splits)
  then show "journal_ok t (journal st t @ [e])"
    using ok e key by (auto simp: journal_ok_def commit_ok_def event_key_def)
  show "latest_commit (journal st t @ [e]) = (latest_commit (journal st t))((kind, i) \<mapsto> e)"
    using e by (auto simp: latest_commit_snoc split: option.splits)
qed

section \<open>Crash atomicity\<close>

lemma recovered_files_at:
  assumes "recovered_files t es old new" and "journal_ok t es" and "latest_commit es key = Some e"
  shows "new (object_path t key) = map_option Snapshot (ee_snapshot e)"
  using assms journal_ok_commit(3) [OF assms(2,3)] unfolding recovered_files_def by fastforce

lemma recovered_files_other:
  assumes "recovered_files t es old new"
    and "\<And>key. latest_commit es key \<noteq> None \<Longrightarrow> p \<noteq> object_path t key"
  shows "new p = old p"
  using assms unfolding recovered_files_def by blast

lemma recovered_files_unique:
  assumes "recovered_files t es old a" and "recovered_files t es old b" and "journal_ok t es"
  shows "a = b"
proof
  fix p
  show "a p = b p"
  proof (cases "\<exists>key e. latest_commit es key = Some e \<and> p = object_path t key")
    case True
    then show ?thesis using recovered_files_at [OF _ assms(3)] assms(1,2) by metis
  next
    case False
    then have "\<And>key. latest_commit es key \<noteq> None \<Longrightarrow> p \<noteq> object_path t key" by blast
    then show ?thesis
      using recovered_files_other [OF assms(1), of p] recovered_files_other [OF assms(2), of p]
      by metis
  qed
qed

lemma recovered_files_extend:
  assumes a: "recovered_files t es old a" and b: "recovered_files t (es @ [e]) old' b"
    and ok: "journal_ok t es" "journal_ok t (es @ [e])" and key: "proper_key t key"
    and new: "latest_commit (es @ [e]) = (latest_commit es)(key \<mapsto> e)" "ee_snapshot e = Some w"
    and old': "\<And>p. p \<noteq> object_path t key \<Longrightarrow> old' p = old p"
  shows "b = a(object_path t key \<mapsto> Snapshot w)"
proof
  fix p
  show "b p = (a(object_path t key \<mapsto> Snapshot w)) p"
  proof (cases "p = object_path t key")
    case True
    then show ?thesis using recovered_files_at [OF b ok(2), of key e] new by simp
  next
    case p: False
    show ?thesis
    proof (cases "\<exists>k f. latest_commit es k = Some f \<and> p = object_path t k")
      case True
      then obtain k f where k: "latest_commit es k = Some f" "p = object_path t k" by blast
      then have "latest_commit (es @ [e]) k = Some f" using p new by auto
      then show ?thesis
        using p k recovered_files_at [OF a ok(1)] recovered_files_at [OF b ok(2)] by simp
    next
      case False
      then have out: "\<And>k. latest_commit es k \<noteq> None \<Longrightarrow> p \<noteq> object_path t k" by blast
      then have "a p = old p" using recovered_files_other [OF a] by metis
      moreover have "b p = old' p"
        using recovered_files_other [OF b, of p] out p new(1) by (metis fun_upd_other)
      ultimately show ?thesis using p old' by simp
    qed
  qed
qed

lemma recovered_synced:
  assumes "recovered_files t es old (file_at s)" and "journal s t = es" and "journal_ok t es"
    and "is_identifier t" and "\<And>key. proper_key t key \<Longrightarrow> latest_commit es key = None \<Longrightarrow>
      old (object_path t key) = None"
  shows "synced t s"
  unfolding synced_def
proof (intro conjI allI impI)
  fix key
  assume key: "proper_key t key"
  show "case file_at s (object_path t key) of None \<Rightarrow> True | Some Unreadable \<Rightarrow> False
    | Some (Snapshot w) \<Rightarrow> \<exists>e. latest_commit (journal s t) key = Some e \<and> ee_snapshot e = Some w"
  proof (cases "latest_commit es key")
    case None
    then have "object_path t key \<noteq> object_path t k" if "latest_commit es k \<noteq> None" for k
      using that None key journal_ok_commit(1) [OF assms(3)] object_path_inj
      by (metis option.exhaust)
    then have "file_at s (object_path t key) = None"
      using recovered_files_other [OF assms(1)] assms(5) [OF key None] by metis
    then show ?thesis by simp
  next
    case (Some e)
    then show ?thesis
      using recovered_files_at [OF assms(1,3) Some] journal_ok_commit(3) [OF assms(3) Some] assms(2)
      by auto
  qed
qed (use assms in auto)

lemma journal_eq: "st_journals a = st_journals b \<Longrightarrow> journal a = journal b"
  by (simp add: journal_def fun_eq_iff)

lemma synced_uncommitted:
  assumes "synced t st" and "proper_key t key" and "latest_commit (journal st t) key = None"
  shows "file_at st (object_path t key) = None"
proof (cases "file_at st (object_path t key)")
  case (Some c)
  show ?thesis using synced_file [OF assms(1,2) Some] assms(3) by auto
qed simp

text \<open>Recovery of a synced task, and of a task one event ahead of its files.\<close>

lemma recover_synced:
  assumes "synced t st"
  obtains s where "recover_snapshots env t (journal st t) st = (Inr (), s)"
    "recovered_files t (journal st t) (file_at st) (file_at s)" "journal s = journal st" "synced t s"
proof -
  from assms have t: "is_identifier t" "journal_ok t (journal st t)" by (auto simp: synced_def)
  obtain s where s: "recover_snapshots env t (journal st t) st = (Inr (), s)"
    "recovered_files t (journal st t) (file_at st) (file_at s)" "st_journals s = st_journals st"
    using recover_snapshots_ok [OF t synced_not_ahead [OF assms], of env] by auto
  then show thesis
    using that [OF s(1,2)] recovered_synced [OF s(2) _ t(2,1)] synced_uncommitted [OF assms]
      journal_eq [OF s(3)] by simp
qed

lemma not_ahead_extended:
  assumes syn: "synced t st" and key: "proper_key t k" and es: "journal_ok t (journal st t @ [e])"
    and new: "latest_commit (journal st t @ [e]) = (latest_commit (journal st t))(k \<mapsto> e)"
    and files: "\<And>q. q \<noteq> object_path t k \<Longrightarrow> file_at st' q = file_at st q"
    and own: "\<And>v. file_at st' (object_path t k) = Some (Snapshot v) \<Longrightarrow> wr_revision v \<le> ee_revision e"
  shows "not_ahead t (journal st t @ [e]) st'"
  unfolding not_ahead_def
proof (intro allI impI)
  fix k' f v
  assume f: "latest_commit (journal st t @ [e]) k' = Some f"
    "file_at st' (object_path t k') = Some (Snapshot v)"
  show "wr_revision v \<le> ee_revision f"
  proof (cases "k' = k")
    case False
    then have "latest_commit (journal st t) k' = Some f" using f(1) new by simp
    moreover have "file_at st (object_path t k') = Some (Snapshot v)"
      using f files False journal_ok_commit(1) [OF es f(1)] key object_path_inj by metis
    ultimately show ?thesis using synced_not_ahead [OF syn] unfolding not_ahead_def by blast
  qed (use own f new in simp)
qed

text \<open>After a write appended its event, with the snapshot written or not, recovery completes it.\<close>

lemma recover_extended:
  assumes syn: "synced t st" and key: "proper_key t (kind, i)"
    and s0: "recovered_files t (journal st t) (file_at st) (file_at s0)"
    and cur: "read_wrapper (repository_of env kind) st t i = Inr current"
    and new: "commit_of (repository_of env kind) i p
                (commit_base (repository_of env kind) st t i current) a c k res sha w e"
    and files: "\<And>q. q \<noteq> object_path t (kind, i) \<Longrightarrow> file_at st' q = file_at st q"
    and own: "file_at st' (object_path t (kind, i)) = file_at st (object_path t (kind, i)) \<or>
               file_at st' (object_path t (kind, i)) = Some (Snapshot w)"
    and jr: "journal st' t = journal st t @ [e]"
  shows "\<exists>s1. recover_snapshots env t (journal st' t) st' = (Inr (), s1) \<and> synced t s1 \<and>
     file_at s1 = (file_at s0)(object_path t (kind, i) \<mapsto> Snapshot w)"
proof -
  let ?es = "journal st t @ [e]"
  have t: "is_identifier t" and ok: "journal_ok t (journal st t)"
    using syn by (auto simp: synced_def)
  note ext = commit_extends [OF syn key cur new]
  have w: "ee_snapshot e = Some w" "wr_revision w = ee_revision e"
    "wr_revision w = commit_base (repository_of env kind) st t i current + 1"
    using new by (auto simp: commit_of_def)
  have "wr_revision v \<le> ee_revision e"
    if v: "file_at st' (object_path t (kind, i)) = Some (Snapshot v)" for v
  proof (cases "v = w")
    case False
    then have "file_at st (object_path t (kind, i)) = Some (Snapshot v)" using own v by auto
    then have "current = Some v" using cur synced_read [OF syn key, of env] by (simp add: readable_def)
    then show ?thesis using w by (simp add: commit_base_def)
  qed (use w in simp)
  from not_ahead_extended [OF syn key ext files this]
  obtain s1 where s1: "recover_snapshots env t ?es st' = (Inr (), s1)"
    "recovered_files t ?es (file_at st') (file_at s1)" "st_journals s1 = st_journals st'"
    using recover_snapshots_ok [OF t ext(1), of st' env] by auto
  have "synced t s1"
  proof (rule recovered_synced [OF s1(2) _ ext(1) t])
    show "journal s1 t = ?es" using journal_eq [OF s1(3)] jr by simp
    show "file_at st' (object_path t l) = None"
      if "proper_key t l" "latest_commit ?es l = None" for l
    proof -
      have "l \<noteq> (kind, i)" "latest_commit (journal st t) l = None"
        using that(2) ext(2) by (auto split: if_splits)
      then show ?thesis
        using synced_uncommitted [OF syn that(1)] files object_path_inj [OF that(1) key] by simp
    qed
  qed
  then show ?thesis
    using s1(1) jr recovered_files_extend [OF s0 s1(2) ok ext(1) key ext(2) w(1) files] by auto
qed

text \<open>
  C2. A write is atomic under crashes: whatever checkpoint interrupts it, the snapshot pass of the
  next start returns and leaves the files either as that pass would have left them without the
  write, which then had raised, or with the written object replaced by its new content, under a
  revision larger than the one the writer read.
\<close>

theorem put_atomic_under_crash:
  assumes syn: "synced t st" and key: "proper_key t (kind, i)"
    and put: "repo_put env (repository_of env kind) t i p n a c k res sha hook st = (r, st')"
  shows "\<exists>s0 s1. recover_snapshots env t (journal st t) st = (Inr (), s0) \<and>
     recover_snapshots env t (journal st' t) st' = (Inr (), s1) \<and> synced t s1 \<and>
     (file_at s1 = file_at s0 \<and> (\<exists>x. r = Inl x) \<or>
      (\<exists>w. wr_payload w = p \<and> n < wr_revision w \<and>
         file_at s1 = (file_at s0)(object_path t (kind, i) \<mapsto> Snapshot w)))"
proof -
  obtain s0 where s0: "recover_snapshots env t (journal st t) st = (Inr (), s0)"
    "recovered_files t (journal st t) (file_at st) (file_at s0)"
    using recover_synced [OF syn] by blast
  have ok: "journal_ok t (journal st t)" using syn by (simp add: synced_def)
  note ext = recover_extended [OF syn key s0(2)]
  have content: "wr_payload w = p \<and> n < wr_revision w"
    if "n = (case current of None \<Rightarrow> 0 | Some v \<Rightarrow> wr_revision v)"
      and "commit_of (repository_of env kind) i p
            (commit_base (repository_of env kind) st t i current) a c k res sha w e" for w e current
    using that latest_commit_revision [of kind i "journal st t"]
      journal_ok_commit(2) [OF ok, of "(kind, i)"]
    by (auto simp: commit_of_def commit_base_def split: option.splits)
  from put benign_repository show ?thesis
  proof (cases rule: repo_put_cases)
    case (rejected x)
    then have same: "file_at st' = file_at st" "journal st' = journal st"
      by (auto simp: unchanged_def)
    then have "synced t st'" using syn synced_cong by metis
    then obtain s1 where "recover_snapshots env t (journal st' t) st' = (Inr (), s1)" "synced t s1"
      "recovered_files t (journal st' t) (file_at st') (file_at s1)"
      using recover_synced by blast
    then show ?thesis using s0 same rejected(1) recovered_files_unique ok by metis
  next
    case (crashed x current w e)
    then show ?thesis
      using ext [OF crashed(6,8), of st'] content [OF crashed(7,8)] s0(1)
      by (auto simp: journalled_def)
  next
    case (committed current w e)
    then show ?thesis
      using ext [OF committed(6,8), of st'] content [OF committed(7,8)] s0(1)
      by (auto simp: put_effect_def object_path_def)
  qed
qed

section \<open>Revisions\<close>

text \<open>
  The contract every client of a snapshot repository relies on: a write names the revision it read,
  a write that returns has stored its content under a larger revision, and no write of any object
  lowers a revision. \<open>ok\<close> is the invariant of the provider.
\<close>

locale revisioned_store =
  fixes ok :: "'s \<Rightarrow> bool"
    and rev :: "'s \<Rightarrow> 'k \<Rightarrow> int"
    and stored :: "'s \<Rightarrow> 'k \<Rightarrow> 'v option"
    and content :: "'x \<Rightarrow> 'v"
    and put :: "'k \<Rightarrow> 'x \<Rightarrow> int \<Rightarrow> 's \<Rightarrow> ('e + 'r) \<times> 's"
  assumes put_ok: "ok s \<Longrightarrow> put k x n s = (r, s') \<Longrightarrow> ok s'"
    and put_expected: "put k x n s = (Inr w, s') \<Longrightarrow> n = rev s k"
    and put_stored: "ok s \<Longrightarrow> put k x n s = (Inr w, s') \<Longrightarrow>
           stored s' k = Some (content x) \<and> rev s k < rev s' k"
    and put_mono: "ok s \<Longrightarrow> put k x n s = (r, s') \<Longrightarrow> rev s k' \<le> rev s' k'"
begin

definition puts :: "('k \<times> 'x \<times> int) list \<Rightarrow> 's \<Rightarrow> 's" where
  "puts ws s = foldl (\<lambda>t (k, x, n). snd (put k x n t)) s ws"

lemma puts_mono:
  assumes "ok s"
  shows "ok (puts ws s) \<and> rev s k \<le> rev (puts ws s) k"
  using assms
proof (induction ws arbitrary: s)
  case (Cons w ws)
  obtain j x n where w: "w = (j, x, n)" by (cases w)
  obtain r u where u: "put j x n s = (r, u)" by (cases "put j x n s")
  have "ok u" "rev s k \<le> rev u k"
    using put_ok [OF Cons.prems u] put_mono [OF Cons.prems u] by auto
  with Cons.IH [of u] w u show ?case unfolding puts_def by auto
qed (simp add: puts_def)

text \<open>No update is lost: once a write based on revision \<open>n\<close> has returned, no later write based on
  \<open>n\<close> returns, whatever happened in between.\<close>

lemma update_not_lost:
  assumes "ok s" and "put k x n s = (Inr w, s')"
  shows "fst (put k y n (puts ws s')) \<noteq> Inr v"
proof
  assume "fst (put k y n (puts ws s')) = Inr v"
  then obtain t where "put k y n (puts ws s') = (Inr v, t)" by (metis prod.collapse)
  from put_expected [OF this] have "n = rev (puts ws s') k" .
  moreover have "n < rev s' k" using put_expected [OF assms(2)] put_stored [OF assms] by simp
  ultimately show False using puts_mono [OF put_ok [OF assms], of ws k] by simp
qed

end

text \<open>A write as its caller describes it.\<close>

record write_request =
  wq_payload :: payload
  wq_actor :: actor
  wq_command :: string
  wq_key :: string
  wq_result :: "command_result option"
  wq_sha :: "string option"
  wq_hook :: "string \<Rightarrow> unit res"

type_synonym object_ref = "object_type \<times> string \<times> string"

fun request_put ::
  "environment \<Rightarrow> object_ref \<Rightarrow> write_request \<Rightarrow> int \<Rightarrow> wrapper sop" where
  "request_put env (kind, t, i) x n =
     repo_put env (repository_of env kind) t i (wq_payload x) n (wq_actor x) (wq_command x)
       (wq_key x) (wq_result x) (wq_sha x) (wq_hook x)"

text \<open>The revision and the content of an object; those of an unreadable one are 0 and none.\<close>

fun object_revision :: "environment \<Rightarrow> store \<Rightarrow> object_ref \<Rightarrow> int" where
  "object_revision env st (kind, t, i) =
     (case repo_revision (repository_of env kind) st t i of Inr r \<Rightarrow> r | Inl _ \<Rightarrow> 0)"

fun object_content :: "environment \<Rightarrow> store \<Rightarrow> object_ref \<Rightarrow> payload option" where
  "object_content env st (kind, t, i) =
     (case repo_get (repository_of env kind) st t i of Inr r \<Rightarrow> r | Inl _ \<Rightarrow> None)"

definition positive_revisions :: "store \<Rightarrow> bool" where
  "positive_revisions st \<longleftrightarrow>
     (\<forall>p w. file_at st p = Some (Snapshot w) \<longrightarrow> 1 \<le> wr_revision w) \<and>
     (\<forall>t. \<forall>e \<in> set (journal st t). ee_event_type e = OBJECT_COMMITTED \<longrightarrow> 1 \<le> ee_revision e)"

lemma positive_base:
  assumes "positive_revisions st"
    and "read_wrapper (repository_of env kind) st t i = Inr current"
  shows "(case current of None \<Rightarrow> 0 | Some v \<Rightarrow> wr_revision v)
           \<le> commit_base (repository_of env kind) st t i current"
    and "0 \<le> commit_base (repository_of env kind) st t i current"
proof -
  have "0 \<le> last_committed_revision kind i (journal st t)"
  proof (cases "latest_commit (journal st t) (kind, i)")
    case None
    then show ?thesis using latest_commit_revision [of kind i "journal st t"] by simp
  next
    case (Some e)
    then have "1 \<le> ee_revision e"
      using latest_commit_event assms(1) unfolding positive_revisions_def by metis
    then show ?thesis using latest_commit_revision [of kind i "journal st t"] Some by simp
  qed
  moreover have "1 \<le> wr_revision w" if "current = Some w" for w
    using assms that unfolding positive_revisions_def
    by (auto simp: read_wrapper_def monad split: option.splits content.splits if_splits)
  ultimately show "(case current of None \<Rightarrow> 0 | Some v \<Rightarrow> wr_revision v)
      \<le> commit_base (repository_of env kind) st t i current"
    "0 \<le> commit_base (repository_of env kind) st t i current"
    by (fastforce simp: commit_base_def split: option.splits)+
qed

lemma put_effect_read:
  assumes cur: "read_wrapper (repository_of env kind) st t i = Inr current"
    and eff: "put_effect (t, relative_path kind i) w e st st'"
    and w: "wr_object_type w = kind"
  shows "read_wrapper (repository_of env k) st' u j =
     (if relative_path k j = relative_path kind i \<and> u = t \<and> is_identifier j then Inr (Some w)
      else read_wrapper (repository_of env k) st u j)"
proof (cases "is_identifier u \<and> is_identifier j")
  case True
  then have "repo_path (repository_of env k) u j = Inr (u, relative_path k j)"
    by (simp add: repo_path_def)
  then show ?thesis
    using True relative_path_inj [of k j kind i] eff w
    by (auto simp: read_wrapper_def put_effect_def)
next
  case False
  then show ?thesis
    using read_wrapper_InrD [OF cur]
    by (auto simp: read_wrapper_def repo_path_def validate_identifier_def)
qed

lemma object_revision_put:
  assumes "read_wrapper (repository_of env kind) st t i = Inr current"
    and "put_effect (t, relative_path kind i) w e st st'" and "wr_object_type w = kind"
  shows "object_revision env st' (k, u, j) =
     (if relative_path k j = relative_path kind i \<and> u = t \<and> is_identifier j then wr_revision w
      else object_revision env st (k, u, j))"
  by (simp add: repo_revision_def put_effect_read [OF assms])

lemma object_revision_read:
  "read_wrapper (repository_of env kind) st t i = Inr current \<Longrightarrow>
     object_revision env st (kind, t, i) = (case current of None \<Rightarrow> 0 | Some w \<Rightarrow> wr_revision w)"
  by (simp add: repo_revision_def)

lemma object_revision_cong: "file_at a = file_at b \<Longrightarrow> object_revision env a x = object_revision env b x"
  by (cases x) (simp add: repo_revision_def read_wrapper_cong [of a b])

text \<open>What a request does, with the frame of the failing cases.\<close>

lemma request_put_cases:
  assumes put: "request_put env (kind, t, i) x n st = (r, st')"
  obtains (kept) y where "r = Inl y" "file_at st' = file_at st"
      "journal st' = journal st \<or>
        (\<exists>e current. ee_revision e = commit_base (repository_of env kind) st t i current + 1 \<and>
           read_wrapper (repository_of env kind) st t i = Inr current \<and>
           journal st' = (journal st)(t := journal st t @ [e]))"
  | (stored) w e current where "r = Inr w \<or> (\<exists>y. r = Inl y)" "is_identifier i"
      "read_wrapper (repository_of env kind) st t i = Inr current"
      "n = (case current of None \<Rightarrow> 0 | Some v \<Rightarrow> wr_revision v)"
      "put_effect (t, relative_path kind i) w e st st'" "wr_object_type w = kind"
      "wr_payload w = wq_payload x" "ee_revision e = wr_revision w"
      "wr_revision w = commit_base (repository_of env kind) st t i current + 1"
  using put benign_repository unfolding request_put.simps
proof (cases rule: repo_put_cases)
  case (rejected y)
  then show thesis by (intro kept [of y]) (auto simp: unchanged_def)
next
  case (crashed y current w e)
  then show thesis by (intro kept [of y]) (auto simp: journalled_def commit_of_def)
next
  case (committed current w e)
  then show thesis by (intro stored [of w current e]) (auto simp: commit_of_def)
qed

interpretation snapshots: revisioned_store positive_revisions "object_revision env"
  "object_content env" wq_payload "request_put env" for env
proof (unfold_locales, goal_cases)
  case (1 s k x n r s')
  obtain kind t i where k: "k = (kind, t, i)" by (cases k)
  from 1(2) [unfolded k] show ?case
  proof (cases rule: request_put_cases)
    case (kept y)
    then show ?thesis
      using 1(1) positive_base(2) [OF 1(1), of env kind t i]
      unfolding positive_revisions_def by (auto split: if_splits)
  next
    case (stored w e current)
    then show ?thesis
      using 1(1) positive_base(2) [OF 1(1) stored(3)]
      unfolding positive_revisions_def put_effect_def by (auto split: if_splits)
  qed
next
  case (2 k x n s w s')
  obtain kind t i where k: "k = (kind, t, i)" by (cases k)
  from 2 [unfolded k] show ?case
    by (cases rule: request_put_cases) (auto simp: k object_revision_read simp del: object_revision.simps)
next
  case (3 s k x n w s')
  obtain kind t i where k: "k = (kind, t, i)" by (cases k)
  from 3(2) [unfolded k] show ?case
  proof (cases rule: request_put_cases)
    case (stored v e current)
    note read = put_effect_read [OF stored(3,5,6)]
    have "object_content env s' k = Some (wq_payload x)"
      using stored(2,7) by (simp add: k repo_get_def read)
    moreover have "object_revision env s k < object_revision env s' k"
      using object_revision_read [OF stored(3)] object_revision_put [OF stored(3,5,6), of kind t i]
        positive_base(1) [OF 3(1) stored(3)] stored(2,9) by (simp add: k)
    ultimately show ?thesis ..
  qed simp
next
  case (4 s k x n r s' k')
  obtain kind t i where k: "k = (kind, t, i)" by (cases k)
  obtain k2 u j where k': "k' = (k2, u, j)" by (cases k')
  from 4(2) [unfolded k] show ?case
  proof (cases rule: request_put_cases)
    case (kept y)
    then show ?thesis using object_revision_cong [of s' s] by simp
  next
    case (stored w e current)
    have "object_revision env s (k2, u, j) = object_revision env s (kind, t, i)"
      if "relative_path k2 j = relative_path kind i" "u = t" "is_identifier j"
      using that relative_path_inj [of k2 j kind i] read_wrapper_InrD [OF stored(3)]
      by (simp add: repo_revision_def read_wrapper_def repo_path_def)
    then show ?thesis
      using object_revision_put [OF stored(3,5,6), of k2 u j] object_revision_read [OF stored(3)]
        positive_base(1) [OF 4(1) stored(3)] stored(9)
      by (simp add: k' del: object_revision.simps)
  qed
qed

definition run_requests ::
  "environment \<Rightarrow> (object_ref \<times> write_request \<times> int) list \<Rightarrow> store \<Rightarrow> store" where
  "run_requests env ws st = foldl (\<lambda>s (k, x, n). snd (request_put env k x n s)) st ws"

section \<open>Properties of the repositories\<close>

text \<open>
  A write that returns has taken effect and nothing else has: the caller's expected revision was
  the current one, the object reads back as the written payload under the returned, larger
  revision, the task's journal has exactly one more event, the commit of that snapshot, and every
  other file and journal is as before.
\<close>

theorem put_commits:
  assumes "positive_revisions st"
    and "repo_put env (repository_of env kind) t i p n a c k res sha hook st = (Inr w, st')"
  shows "repo_revision (repository_of env kind) st t i = Inr n \<and>
     repo_get (repository_of env kind) st' t i = Inr (Some p) \<and>
     repo_revision (repository_of env kind) st' t i = Inr (wr_revision w) \<and> n < wr_revision w \<and>
     (\<forall>q. q \<noteq> (t, relative_path kind i) \<longrightarrow> file_at st' q = file_at st q) \<and>
     (\<exists>e. is_commit_of kind i e \<and> ee_snapshot e = Some w \<and> ee_command_result e = res \<and>
        journal st' = (journal st)(t := journal st t @ [e])) \<and>
     rest st' = rest st"
  using assms(2) benign_repository
proof (cases rule: repo_put_cases)
  case (committed current v e)
  then have v: "v = w" by simp
  have kind: "wr_object_type w = kind" and content: "wr_payload w = p"
    "wr_revision w = commit_base (repository_of env kind) st t i current + 1"
    using committed(8) v by (auto simp: commit_of_def)
  have eff: "put_effect (t, relative_path kind i) w e st st'" using committed(9) v by simp
  note read = put_effect_read [OF committed(6) eff kind, of kind t i]
  show ?thesis
    using committed(2,3,6-8) eff content v positive_base(1) [OF assms(1) committed(6)]
    by (auto simp: repo_revision_def repo_get_def read put_effect_def commit_of_def)
qed simp_all

text \<open>
  A write that names any other revision than the current one is rejected with
  \<open>REVISION_CONFLICT\<close>, which names both revisions, and leaves every file and journal alone.
\<close>

theorem stale_put_rejected:
  assumes "snapshot_validator env kind p = Inr ()" and "(res = None) = (sha = None)"
    and "repo_revision (repository_of env kind) st t i = Inr m" and "n \<noteq> m"
  shows "\<exists>st'. repo_put env (repository_of env kind) t i p n a c k res sha hook st =
           (Inl (revision_conflict kind i n m), st') \<and> unchanged st st'"
proof -
  obtain current where cur: "read_wrapper (repository_of env kind) st t i = Inr current"
    and m: "m = (case current of None \<Rightarrow> 0 | Some w \<Rightarrow> wr_revision w)"
    using assms(3) by (auto simp: repo_revision_def monad)
  then have t: "is_identifier t" using read_wrapper_InrD by blast
  obtain u where init: "initialize_task t st = (Inr (), u)"
    using t by (auto simp: initialize_task_def run modifyS_def)
  then have same: "unchanged st u" using initialize_task_unchanged by blast
  have "read_wrapper (repository_of env kind) u t i = Inr current"
    using read_wrapper_unchanged [OF same] cur by simp
  then have "repo_put env (repository_of env kind) t i p n a c k res sha hook st =
      (Inl (revision_conflict kind i n m), u)"
    using assms(1,2,4) m by (simp add: repo_put_def Let_def run bindS_run init)
  then show ?thesis using same by blast
qed

text \<open>
  C22. No update is lost to another write: after a write based on revision \<open>n\<close> of an object has returned, a later
  write based on the same revision never returns, when what lies between the two are writes alone, of whatever
  objects and whatever their outcome (successful, rejected or interrupted). Deleting or retiring the object in
  between begins its revisions anew at 0 and is excluded.
\<close>

theorem no_lost_update:
  assumes "positive_revisions st"
    and "repo_put env (repository_of env kind) t i p n a c k res sha hook st = (Inr w, st')"
  shows "fst (request_put env (kind, t, i) y n (run_requests env ws st')) \<noteq> Inr v"
proof -
  let ?x = "\<lparr>wq_payload = p, wq_actor = a, wq_command = c, wq_key = k, wq_result = res,
    wq_sha = sha, wq_hook = hook\<rparr>"
  have "request_put env (kind, t, i) ?x n st = (Inr w, st')" using assms(2) by simp
  from snapshots.update_not_lost [OF assms(1) this, of y ws v]
  show ?thesis by (simp add: snapshots.puts_def run_requests_def)
qed

lemma unlink_file_effect:
  "unlink_file p st = (r, st') \<Longrightarrow>
     r = Inr () \<and> file_at st' = (file_at st)(p := None) \<and> journal st' = journal st"
  by (auto simp: unlink_file_def monad file_at_def fun_eq_iff)

lemma repo_delete_True:
  assumes "repo_delete env (repository_of env kind) t i n a c k st = (Inr True, st')"
  obtains w e where "read_wrapper (repository_of env kind) st t i = Inr (Some w)"
    "ee_event_type e = OBJECT_REMOVED" "n = wr_revision w"
    "journal st' = (journal st)(t := journal st t @ [e])"
    "file_at st' = (file_at st)((t, relative_path kind i) := None)"
proof -
  from assms obtain s1 w s2 uuid s3 now s4 s5 v where steps:
    "initialize_task t st = (Inr (), s1)"
    "read_wrapper (repository_of env kind) s1 t i = Inr (Some w)" "n = wr_revision w"
    "fresh_uuid env s1 = (Inr uuid, s2)" "utc_now env s2 = (Inr now, s3)"
    "append_event t (removal_event env kind i w a c k uuid now) s3 = (Inr (), s4)"
    "unlink_file (t, relative_path kind i) s4 = (Inr (), s5)"
    "after_commit (repository_of env kind) t s5 = (Inr v, st')"
    unfolding repo_delete_def
    by (auto simp: bindS_Inr_iff liftE_iff readS_iff guardE_Inr_iff repo_path_Inr returnS_iff
        split: option.splits simp del: split_paired_Ex)
  have s3: "unchanged st s3"
    using initialize_task_unchanged [OF steps(1)] fresh_uuid_unchanged [OF steps(4)]
      utc_now_unchanged [OF steps(5)]
    by (blast intro: unchanged_trans)
  note effects = append_event_journalled [OF steps(6)] unlink_file_effect [OF steps(7)]
    benignD [OF benign_repository steps(8)]
  show thesis
    using that [of w "removal_event env kind i w a c k uuid now"] steps(2,3) s3 effects
      read_wrapper_unchanged [OF initialize_task_unchanged [OF steps(1)]]
    by (auto simp: unchanged_def journalled_def removal_event_def)
qed

text \<open>
  C40. A removed object comes back: \<open>delete\<close> journals the removal and unlinks the file, but startup
  recovery only looks at commits, so the snapshot pass of the next start restores the very object
  that was deleted.
\<close>

theorem deleted_object_returns:
  assumes syn: "synced t st" and key: "proper_key t (kind, i)"
    and del: "repo_delete env (repository_of env kind) t i n a c k st = (Inr True, st')"
  shows "repo_get (repository_of env kind) st' t i = Inr None \<and>
    (\<exists>s p. recover_snapshots env t (journal st' t) st' = (Inr (), s) \<and>
           repo_get (repository_of env kind) st t i = Inr (Some p) \<and>
           repo_get (repository_of env kind) s t i = Inr (Some p))"
proof -
  obtain w e where d: "read_wrapper (repository_of env kind) st t i = Inr (Some w)"
    "ee_event_type e = OBJECT_REMOVED" "journal st' = (journal st)(t := journal st t @ [e])"
    "file_at st' = (file_at st)((t, relative_path kind i) := None)"
    using repo_delete_True [OF del] by metis
  have t: "is_identifier t" "is_identifier i" using read_wrapper_InrD [OF d(1)] by auto
  then have none: "repo_get (repository_of env kind) st' t i = Inr None"
    using d(4) by (simp add: repo_get_def read_wrapper_def repo_path_def)
  let ?es = "journal st t @ [e]"
  have latest: "latest_commit ?es = latest_commit (journal st t)"
    using d(2) by (simp add: latest_commit_snoc)
  have ok: "journal_ok t ?es" using syn d(2) by (simp add: synced_def journal_ok_def commit_ok_def)
  have "not_ahead t ?es st'"
    using synced_not_ahead [OF syn] d(4) unfolding not_ahead_def latest by (metis fun_upd_apply option.distinct(1))
  from recover_snapshots_ok [OF t(1) ok this, of env]
  obtain s where s: "recover_snapshots env t ?es st' = (Inr (), s)"
    "recovered_files t ?es (file_at st') (file_at s)" by blast
  have own: "file_at st (object_path t (kind, i)) = Some (Snapshot w)"
    using d(1) synced_read [OF syn key, of env]
    by (auto simp: readable_def split: option.splits content.splits)
  from synced_file [OF syn key own]
  obtain f where f: "latest_commit (journal st t) (kind, i) = Some f" "ee_snapshot f = Some w"
    "wr_object_type w = kind" by (metis content.inject fst_conv)
  then have "file_at s (object_path t (kind, i)) = Some (Snapshot w)"
    using recovered_files_at [OF s(2) ok, of "(kind, i)" f] latest by simp
  then have "repo_get (repository_of env kind) s t i = Inr (Some (wr_payload w))"
    using t f(3) by (simp add: repo_get_def read_wrapper_def repo_path_def object_path_def)
  then show ?thesis using none s(1) d(1,3) by (auto simp: repo_get_def)
qed

end
