(* ===== verification/Payload_Invariants.thy ===== *)
theory Payload_Invariants imports Store_Recovery begin

text \<open>
  Invariants of what is stored: a predicate on payloads that every snapshot file and every journalled
  snapshot satisfies is kept by every store operation that writes only payloads satisfying it,
  startup recovery included. The operations of the command handlers are discharged with these rules.
\<close>

definition all_payloads :: "(payload \<Rightarrow> bool) \<Rightarrow> store \<Rightarrow> bool" where
  "all_payloads P st \<longleftrightarrow>
     (\<forall>q w. file_at st q = Some (Snapshot w) \<longrightarrow> P (wr_payload w)) \<and>
     (\<forall>t. \<forall>e \<in> set (journal st t). \<forall>w. ee_snapshot e = Some w \<longrightarrow> P (wr_payload w))"

lemma all_payloads_empty: "all_payloads P empty_store"
  by (simp add: all_payloads_def file_at_def journal_def empty_store_def)

lemma all_payloads_cong:
  "file_at b = file_at a \<Longrightarrow> journal b = journal a \<Longrightarrow> all_payloads P a \<Longrightarrow> all_payloads P b"
  unfolding all_payloads_def by (simp only:)

lemma keeps_observers:
  "(\<And>s r s'. m s = (r, s') \<Longrightarrow> file_at s' = file_at s \<and> journal s' = journal s) \<Longrightarrow>
   keeps (all_payloads P) m"
  by (rule keepsI) (metis all_payloads_cong)

lemma keeps_unchanged:
  "(\<And>s r s'. m s = (r, s') \<Longrightarrow> unchanged s s') \<Longrightarrow> keeps (all_payloads P) m"
  by (rule keeps_observers) (simp add: unchanged_def)

lemma keeps_primitives [keeps_rules]:
  "keeps (all_payloads P) (utc_now env)" "keeps (all_payloads P) (fresh_uuid env)"
  "keeps (all_payloads P) (initialize_task t)" "keeps (all_payloads P) (rebuild_task_index env)"
  "keeps (all_payloads P) (rebuild_inbox_index env)"
  "keeps (all_payloads P) (remember_digest env scope key command sha result)"
proof -
  show "keeps (all_payloads P) (utc_now env)"
    by (rule keeps_unchanged) (rule utc_now_unchanged)
  show "keeps (all_payloads P) (fresh_uuid env)"
    by (rule keeps_unchanged) (rule fresh_uuid_unchanged)
  show "keeps (all_payloads P) (initialize_task t)"
    by (rule keeps_unchanged) (rule initialize_task_unchanged)
  show "keeps (all_payloads P) (rebuild_task_index env)"
    by (rule keeps_unchanged) (rule rebuild_task_index_unchanged)
  show "keeps (all_payloads P) (rebuild_inbox_index env)"
    by (rule keeps_unchanged) (rule rebuild_inbox_index_unchanged)
  show "keeps (all_payloads P) (remember_digest env scope key command sha result)"
    by (rule keeps_observers) (intro conjI remember_digest_observers)
qed

lemma keeps_unlink [keeps_rules]: "keeps (all_payloads P) (unlink_file p)"
  by (rule keepsI) (auto simp: all_payloads_def dest!: unlink_file_effect split: if_splits)

lemma keeps_write_file: "P (wr_payload w) \<Longrightarrow> keeps (all_payloads P) (write_file p w)"
  by (rule keepsI) (auto simp: all_payloads_def dest!: write_file_effect split: if_splits)

lemma keeps_summary [keeps_rules]: "keeps (all_payloads P) (write_task_summary t task)"
  by (rule keeps_observers) (auto simp: write_task_summary_def monad)

lemma keeps_warn [keeps_rules]: "keeps (all_payloads P) (warn env t file)"
  unfolding warn_def by (intro keeps_rules) (auto elim!: all_payloads_cong [rotated 2])

lemma keeps_put [keeps_rules]:
  assumes "P p"
  shows "keeps (all_payloads P)
    (repo_put env (repository_of env kind) t i p n a c k res sha hook)"
proof (rule keepsI)
  fix s r s'
  assume I: "all_payloads P s"
    and "repo_put env (repository_of env kind) t i p n a c k res sha hook s = (r, s')"
  from this(2) benign_repository show "all_payloads P s'"
  proof (cases rule: repo_put_cases)
    case (rejected x)
    then show ?thesis using I all_payloads_cong by (auto simp: unchanged_def)
  next
    case (crashed x current w e)
    then show ?thesis
      using I assms by (auto simp: journalled_def commit_of_def all_payloads_def split: if_splits)
  next
    case (committed current w e)
    then show ?thesis
      using I assms by (auto simp: put_effect_def commit_of_def all_payloads_def split: if_splits)
  qed
qed

text \<open>A deletion is refused, or appends its event and removes the file.\<close>

lemma repo_delete_cases:
  assumes "repo_delete env (repository_of env kind) t i n a c k s = (r, s')"
  obtains (refused) "unchanged s s'"
  | (removed) w uuid now where "read_wrapper (repository_of env kind) s t i = Inr (Some w)"
      "n = wr_revision w" "file_at s' = (file_at s)((t, relative_path kind i) := None)"
      "journal s' = (journal s)(t := journal s t @ [removal_event env kind i w a c k uuid now])"
      "rest s' = rest s"
proof -
  have quiet: "unchanged u v" if "bindS (after_commit (repository_of env kind) t) (\<lambda>_. returnS x) u = (y, v)"
    for u v x y
    using that by (elim bindS_cases) (auto simp: monad dest: benignD [OF benign_repository])
  obtain x u where init: "initialize_task t s = (x, u)" "unchanged s u"
    using initialize_task_unchanged by (metis surj_pair)
  consider "unchanged s s'" | current where
      "read_wrapper (repository_of env kind) u t i = Inr current"
      "(case current of None \<Rightarrow> returnS False | Some w \<Rightarrow>
        bindS (liftE (guardE (n = wr_revision w) (revision_conflict kind i n (wr_revision w)))) (\<lambda>_.
        bindS (fresh_uuid env) (\<lambda>uuid. bindS (utc_now env) (\<lambda>now.
        bindS (append_event t (removal_event env kind i w a c k uuid now)) (\<lambda>_.
        bindS (liftE (repo_path (repository_of env kind) t i)) (\<lambda>path.
        bindS (unlink_file path) (\<lambda>_.
        bindS (after_commit (repository_of env kind) t) (\<lambda>_. returnS True)))))))) u = (r, s')"
    using assms init unfolding repo_delete_def
    by (cases x; cases "read_wrapper (repository_of env kind) u t i")
      (simp_all add: bindS_run run)
  then show thesis
  proof cases
    case 1
    then show thesis by (rule refused)
  next
    case (2 current)
    have read: "read_wrapper (repository_of env kind) s t i = Inr current"
      using 2(1) read_wrapper_unchanged [OF init(2)] by simp
    show thesis
    proof (cases "\<exists>w. current = Some w \<and> n = wr_revision w")
      case False
      then show thesis
        using 2 init(2) by (intro refused) (auto simp: run returnS_def split: option.splits)
    next
      case True
      then obtain w where w: "current = Some w" "n = wr_revision w" by blast
      have path: "repo_path (repository_of env kind) t i = Inr (t, relative_path kind i)"
        using read_wrapper_InrD [OF read] by (simp add: monad)
      let ?e = "removal_event env kind i w a c k (ev_uuid env (st_uuids u)) (ev_clock env (st_ticks u))"
      obtain v where v: "unchanged v s'" "file_at v = (file_at u)((t, relative_path kind i) := None)"
        "journal v = (journal u)(t := journal u t @ [?e])" "rest v = rest u"
        using 2(2) w path
        by (auto simp: run append_event_def unlink_file_def file_at_def journal_def fun_eq_iff
            dest!: quiet)
      then show thesis
        using removed [of w "ev_uuid env (st_uuids u)" "ev_clock env (st_ticks u)"] read w init(2)
        by (simp add: unchanged_def)
    qed
  qed
qed

lemma keeps_delete [keeps_rules]:
  "keeps (all_payloads P) (repo_delete env (repository_of env kind) t i n a c k)"
proof (rule keepsI)
  fix s r s'
  assume I: "all_payloads P s" and "repo_delete env (repository_of env kind) t i n a c k s = (r, s')"
  from this(2) show "all_payloads P s'"
  proof (cases rule: repo_delete_cases)
    case refused
    then show ?thesis using I all_payloads_cong by (auto simp: unchanged_def)
  next
    case (removed w uuid now)
    then show ?thesis
      using I by (auto simp: all_payloads_def removal_event_def split: if_splits)
  qed
qed

section \<open>What is read satisfies the predicate\<close>

lemma all_payloads_read:
  "all_payloads P st \<Longrightarrow> read_wrapper R st t i = Inr (Some w) \<Longrightarrow> P (wr_payload w)"
  by (auto simp: read_wrapper_def monad all_payloads_def
      split: option.splits content.splits if_splits)

lemma all_payloads_get:
  "all_payloads P st \<Longrightarrow> repo_get R st t i = Inr (Some p) \<Longrightarrow> P p"
  by (auto simp: repo_get_def monad dest: all_payloads_read)

section \<open>Reconciliation and recovery\<close>

definition good_projections :: "(payload \<Rightarrow> bool) \<Rightarrow> bool" where
  "good_projections P \<longleftrightarrow>
     (\<forall>t. P (P_task t)) \<and> (\<forall>s. P (P_stage s)) \<and> (\<forall>i. P (P_instance i))"

lemma keeps_retire [keeps_rules]: "keeps (all_payloads P) (retire_plan_projections env t plan)"
  unfolding retire_plan_projections_def retire_projection_set_def retire_one_def
  by (intro keeps_rules keeps_if)

lemma keeps_reconcile [keeps_rules]:
  assumes "good_projections P"
  shows "keeps (all_payloads P) (reconcile_plan_projections env t)"
proof -
  have one: "keeps (all_payloads P) (reconcile_one env t n x)"
    if "x \<in> set (plan_projections t plan)" for n x plan
    using that assms
    by (auto simp: reconcile_one_def plan_projections_def good_projections_def
        intro!: keeps_rules keeps_if)
  show ?thesis
    unfolding reconcile_plan_projections_def
    by (intro keeps_rules keeps_option one) auto
qed

lemma latest_commits_subset: "(key, e) \<in> set (latest_commits es) \<Longrightarrow> e \<in> set es"
  using latest_commit_event in_latest_commits by blast

lemma keeps_recover_snapshots:
  assumes "\<And>e w. e \<in> set es \<Longrightarrow> ee_snapshot e = Some w \<Longrightarrow> P (wr_payload w)"
  shows "keeps (all_payloads P) (recover_snapshots env t es)"
proof -
  have "keeps (all_payloads P) (recover_snapshot env t (key, e))"
    if "(key, e) \<in> set (latest_commits es)" for key e
  proof -
    obtain k i where key: "key = (k, i)" by (cases key)
    have snap: "P (wr_payload w)" if "event_snapshot e = Inr w" for w
      using that assms [of e w] latest_commits_subset [OF \<open>(key, e) \<in> _\<close>]
      by (auto simp: event_snapshot_def split: option.splits)
    show ?thesis
      unfolding recover_snapshot_def key prod.case
      by (intro keeps_check keeps_option keeps_if keeps_bind [OF keeps_pure(4)]
          keeps_bind [OF keeps_write_file] keeps_write_file keeps_pure keeps_warn snap)
  qed
  then show ?thesis
    unfolding recover_snapshots_def by (intro keeps_forS) (metis prod.collapse)
qed

lemma keeps_recover_idempotency [keeps_rules]:
  "keeps (all_payloads P) (recover_idempotency_results env t es)"
  unfolding recover_idempotency_results_def recover_idempotency_result_def
  by (auto intro!: keeps_rules split: option.splits)

lemma keeps_recover:
  assumes "good_projections P"
  shows "keeps (all_payloads P) (recover env)"
proof -
  have "keeps (all_payloads P) (recover_task env t)" for t
    unfolding recover_task_def
    by (intro keeps_readS keeps_bind [OF keeps_recover_snapshots]
        keeps_bind [OF keeps_recover_idempotency] keeps_bind [OF keeps_pure(4)]
        keeps_reconcile [OF assms])
      (auto simp: all_payloads_def)
  then show ?thesis
    unfolding recover_def by (intro keeps_rules)
qed

end
