(* ===== verification/Command_Invariants.thy ===== *)
theory Command_Invariants imports Instance_Commands Payload_Invariants begin

text \<open>
  The invariant of every plan that the commands store: it is well formed, no instance is in the
  initial catalog state \<open>CREATED\<close>, and a requirement is only ever dropped by an authorised
  downgrade of something that had been activated. Every handler keeps it, in every order, whatever
  each run returns or raises.
\<close>

section \<open>The invariant\<close>

definition requirement_kept :: "lifecycle \<Rightarrow> bool \<Rightarrow> bool" where
  "requirement_kept lc required =
     (if required then lc_original_required lc \<and> lc_authorized_downgrade lc = None
      else lc_original_required lc \<longrightarrow>
             lc_first_activated_at lc \<noteq> None \<and> lc_authorized_downgrade lc \<noteq> None)"

definition sound_stage :: "stage \<Rightarrow> bool" where
  "sound_stage s = requirement_kept (sg_lifecycle s) (sg_required s)"

definition sound_instance :: "agent_instance \<Rightarrow> bool" where
  "sound_instance i =
     (in_status i \<noteq> I_CREATED \<and> requirement_kept (in_lifecycle i) (in_required i))"

definition sound_plan :: "task_plan \<Rightarrow> bool" where
  "sound_plan plan =
     (list_all sound_stage (pl_stages plan) \<and> list_all sound_instance (pl_instances plan))"

fun good_payload :: "payload \<Rightarrow> bool" where
  "good_payload (P_plan plan) = (well_formed_plan plan \<and> sound_plan plan)"
| "good_payload _ = True"

abbreviation plans_good :: "store \<Rightarrow> bool" where
  "plans_good \<equiv> all_payloads good_payload"

section \<open>Plan edits keep it\<close>

lemma requirement_kept_evolves:
  "requirement_kept a r \<Longrightarrow> lc_evolves a b \<Longrightarrow> requirement_kept b r"
  by (auto simp: requirement_kept_def lc_evolves_def split: if_splits)

lemma stage_evolves_fields:
  assumes "stage_evolves s s'"
  shows "sg_stage_id s' = sg_stage_id s" "sg_required s' = sg_required s"
    "sg_type s' = sg_type s" "sg_instance_ids s' = sg_instance_ids s"
    "sg_depends_on s' = sg_depends_on s" "sg_position s' = sg_position s"
    "sg_task_id s' = sg_task_id s" "lc_evolves (sg_lifecycle s) (sg_lifecycle s')"
proof -
  from assms obtain x y where s': "s' = s\<lparr>sg_status := x, sg_lifecycle := y\<rparr>"
    and "lc_evolves (sg_lifecycle s) (sg_lifecycle s')" unfolding stage_evolves_def by blast
  then show "lc_evolves (sg_lifecycle s) (sg_lifecycle s')" by simp
  show "sg_stage_id s' = sg_stage_id s" "sg_required s' = sg_required s"
    "sg_type s' = sg_type s" "sg_instance_ids s' = sg_instance_ids s"
    "sg_depends_on s' = sg_depends_on s" "sg_position s' = sg_position s"
    "sg_task_id s' = sg_task_id s"
    unfolding s' by simp_all
qed

lemma instance_evolves_fields:
  assumes "instance_evolves i i'"
  shows "in_instance_id i' = in_instance_id i" "in_required i' = in_required i"
    "in_status i' = in_status i" "in_agent_type i' = in_agent_type i"
    "in_stage_id i' = in_stage_id i" "in_task_id i' = in_task_id i"
    "lc_evolves (in_lifecycle i) (in_lifecycle i')"
proof -
  from assms obtain y where i': "i' = i\<lparr>in_lifecycle := y\<rparr>"
    and "lc_evolves (in_lifecycle i) (in_lifecycle i')" unfolding instance_evolves_def by blast
  then show "lc_evolves (in_lifecycle i) (in_lifecycle i')" by simp
  show "in_instance_id i' = in_instance_id i" "in_required i' = in_required i"
    "in_status i' = in_status i" "in_agent_type i' = in_agent_type i"
    "in_stage_id i' = in_stage_id i" "in_task_id i' = in_task_id i"
    unfolding i' by simp_all
qed

lemma sound_stage_evolves:
  assumes "sound_stage s" and "stage_evolves s s'"
  shows "sound_stage s'"
  using assms(1) requirement_kept_evolves stage_evolves_fields(2,8) [OF assms(2)]
  by (simp add: sound_stage_def)

lemma sound_instance_evolves:
  assumes "sound_instance i" and "instance_evolves i i'"
  shows "sound_instance i'"
  using assms(1) requirement_kept_evolves [OF _ instance_evolves_fields(7) [OF assms(2)]]
    instance_evolves_fields(2,3) [OF assms(2)]
  by (simp add: sound_instance_def)

lemma list_all_evolves:
  assumes "list_all P xs" and "list_all2 R xs ys" and "\<And>x y. P x \<Longrightarrow> R x y \<Longrightarrow> P y"
  shows "list_all P ys"
  using assms(2,1,3) by (induction rule: list_all2_induct) auto

lemma sound_plan_evolves:
  "sound_plan a \<Longrightarrow> board_evolves (plan_board a) (plan_board b) \<Longrightarrow> sound_plan b"
  using list_all_evolves [of sound_stage] list_all_evolves [of sound_instance]
    sound_stage_evolves sound_instance_evolves
  by (fastforce simp: sound_plan_def board_evolves_def plan_board_def)

lemma sound_plan_cong:
  "pl_stages b = pl_stages a \<Longrightarrow> pl_instances b = pl_instances a \<Longrightarrow> sound_plan b = sound_plan a"
  by (simp add: sound_plan_def)

lemma sound_plan_task [simp]:
  "sound_plan (plan\<lparr>pl_task := t\<rparr>) = sound_plan plan"
  "sound_plan (touch now plan) = sound_plan plan"
  "sound_plan (set_task_status s plan) = sound_plan plan"
  by (simp_all add: sound_plan_def touch_def set_task_status_def)

lemma sound_refresh: "refresh_stages now act plan = Inr plan' \<Longrightarrow> sound_plan plan \<Longrightarrow> sound_plan plan'"
  using refresh_stages_evolves(1) sound_plan_evolves by blast

lemma sound_activate:
  "activate_current_stages now plan = Inr plan' \<Longrightarrow> sound_plan plan \<Longrightarrow> sound_plan plan'"
  using activate_current_stages_evolves(1) sound_plan_evolves by blast

lemma sound_settle: "settle_task_status plan = Inr plan' \<Longrightarrow> sound_plan plan \<Longrightarrow> sound_plan plan'"
  by (auto simp: settle_task_status_def Let_def monad split: if_splits)

lemma sound_normalized:
  "sound_stage (normalize_stage t raw)" "sound_instance (normalize_instance t now inst)"
  "sound_stage ((normalize_stage t raw)\<lparr>sg_position := n\<rparr>)"
  by (simp_all add: sound_stage_def sound_instance_def normalize_stage_def normalize_instance_def
      requirement_kept_def fresh_lifecycle_def)

lemma sound_normalize_plan:
  assumes "normalize_plan contracts now task pr stages instances cards = Inr plan"
  shows "sound_plan plan"
proof -
  obtain mid where "refresh_stages now False mid = Inr plan"
    and mid: "pl_stages mid = map (normalize_stage (tk_task_id task)) (sort_key sg_position stages)"
      "pl_instances mid = map (normalize_instance (tk_task_id task) now) instances"
    using assms unfolding normalize_plan_def Let_def bindE_Inr_iff by fastforce
  moreover have "sound_plan mid"
    by (simp add: mid sound_plan_def list_all_iff sound_normalized)
  ultimately show ?thesis using sound_refresh by blast
qed

lemma sound_build_append:
  assumes "build_append contracts now task old pr stages instances cards = Inr plan"
    and "sound_plan old"
  shows "sound_plan plan"
proof -
  obtain mid where "refresh_stages now False mid = Inr plan"
    and mid: "mid = \<lparr>pl_task = task\<lparr>tk_plan_revision := pr, tk_updated_at := now\<rparr>,
         pl_stages = pl_stages old @ map (\<lambda>raw. (normalize_stage (tk_task_id task) raw)
             \<lparr>sg_position := int (length (pl_stages old)) + sg_position raw\<rparr>)
             (sort_key sg_position stages),
         pl_instances = pl_instances old @ map (normalize_instance (tk_task_id task) now) instances,
         pl_task_cards = pl_task_cards old @ map (normalize_card (tk_task_id task) now) cards\<rparr>"
    using assms(1) unfolding build_append_def Let_def bindE_Inr_iff by auto
  moreover have "sound_plan mid"
    using assms(2) by (auto simp: mid sound_plan_def list_all_iff sound_normalized)
  ultimately show ?thesis using sound_refresh by blast
qed

lemma sound_build_merge:
  "build_merge contracts now task old pr cards = Inr plan \<Longrightarrow> sound_plan old \<Longrightarrow> sound_plan plan"
  by (auto simp: build_merge_def Let_def monad sound_plan_def)

lemma list_all_update_first:
  "list_all P xs \<Longrightarrow> (\<And>x. P x \<Longrightarrow> p x \<Longrightarrow> P (f x)) \<Longrightarrow> list_all P (update_first p f xs)"
  by (induction xs) auto

lemma list_all_update_last:
  assumes "list_all P xs" and "\<And>x. P x \<Longrightarrow> p x \<Longrightarrow> P (f x)"
  shows "list_all P (update_last p f xs)"
  using assms list_all_update_first [of P "rev xs" p f] by (simp add: update_last_def)

lemma sound_edit:
  "sound_plan plan \<Longrightarrow> (\<And>i. sound_instance i \<Longrightarrow> sound_instance (f i)) \<Longrightarrow>
   sound_plan (edit_instance x f plan)"
  by (auto simp: sound_plan_def edit_instance_def intro: list_all_update_first)

text \<open>The catalog never leads back to \<open>CREATED\<close>.\<close>

lemma never_created: "I_CREATED \<notin> set (instance_transitions s)"
  by (cases s) simp_all

lemma sound_activate_instance [simp]: "sound_instance i \<Longrightarrow> sound_instance (activate_instance now i)"
  using sound_instance_evolves instance_evolves_activate by blast

lemma sound_instance_updates [simp]:
  "sound_instance (i\<lparr>in_manual_finished := a\<rparr>) = sound_instance i"
  "sound_instance (i\<lparr>in_manual_business_status := b\<rparr>) = sound_instance i"
  "sound_instance (i\<lparr>in_approval_mode := c\<rparr>) = sound_instance i"
  "sound_instance (i\<lparr>in_delivery_rejection := d\<rparr>) = sound_instance i"
  by (simp_all add: sound_instance_def)

lemma sound_clear [simp]: "sound_instance (clear_manual_status i) = sound_instance i"
  by (simp add: clear_manual_status_def)

lemma sound_status: "sound_instance i \<Longrightarrow> s \<noteq> I_CREATED \<Longrightarrow> sound_instance (i\<lparr>in_status := s\<rparr>)"
  by (simp add: sound_instance_def)

lemma sound_transitioned:
  "sound_instance i \<Longrightarrow> s \<noteq> I_CREATED \<Longrightarrow> sound_instance (transitioned s i)"
  by (simp add: transitioned_def Let_def sound_status)

lemma sound_cancel: "sound_plan plan \<Longrightarrow> sound_plan (cancel_plan plan)"
  by (auto simp: cancel_plan_def sound_plan_def list_all_iff cancel_instance_def cancel_stage_def
      sound_instance_def sound_stage_def set_task_status_def)

lemma sound_restore_one:
  assumes "restore_one now (x, target) is = Inr is'" and "list_all sound_instance is"
  shows "list_all sound_instance is'"
proof -
  have "target \<noteq> I_CREATED" if "instance_transition I_STOPPED target = Inr ()"
    using that by (auto simp: monad)
  then show ?thesis
    using assms
    by (auto simp: restore_one_def bindE_Inr_iff Let_def intro!: list_all_update_last sound_status
        sound_activate_instance split: option.splits if_splits)
qed

lemma sound_restore_plan:
  assumes "restore_plan now was restores target plan = Inr plan'" and "sound_plan plan"
  shows "sound_plan plan'"
proof -
  from assms(1) obtain iss mid where iss: "foldE (restore_one now) restores (pl_instances plan) = Inr iss"
    and mid: "refresh_stages now True (plan\<lparr>pl_instances := iss\<rparr>) = Inr mid"
    and plan': "plan' = touch now (set_task_status (aggregate_plan (set_task_status target mid))
                  (set_task_status target mid))"
    by (auto simp: restore_plan_def Let_def bindE_Inr_iff)
  have "list_all sound_instance iss"
    using iss
  proof (rule foldE_invariant)
    show "list_all sound_instance (pl_instances plan)" using assms(2) by (simp add: sound_plan_def)
    show "list_all sound_instance t" if "list_all sound_instance s" "restore_one now x s = Inr t" for x s t
      using sound_restore_one that by (metis surj_pair)
  qed
  then have "sound_plan (plan\<lparr>pl_instances := iss\<rparr>)" using assms(2) by (simp add: sound_plan_def)
  then show ?thesis using sound_refresh [OF mid] plan' by simp
qed

lemma sound_downgrade:
  assumes "downgrade_plan d x i plan = Inr plan'" and "sound_plan plan"
    and i: "i \<in> set (pl_instances plan)" "in_instance_id i = x" and d: "downgradable i"
    and dist: "distinct (map in_instance_id (pl_instances plan))"
  shows "sound_plan plan'"
proof -
  obtain first where first: "lc_first_activated_at (in_lifecycle i) = Some first"
    using d by (auto simp: downgradable_def)
  let ?f = "\<lambda>y. y\<lparr>in_required := False, in_lifecycle := authorize d (in_lifecycle y)\<rparr>"
  have "update_first (\<lambda>y. in_instance_id y = x) ?f (pl_instances plan) =
      map (\<lambda>y. if in_instance_id y = x then ?f y else y) (pl_instances plan)"
    by (rule update_first_map [OF dist])
  moreover have "y = i" if "y \<in> set (pl_instances plan)" "in_instance_id y = x" for y
    using that i dist by (auto simp: distinct_map inj_on_def)
  ultimately have inst: "list_all sound_instance
      (update_first (\<lambda>y. in_instance_id y = x) ?f (pl_instances plan))"
    using assms(2) d
    by (auto simp: sound_plan_def list_all_iff sound_instance_def requirement_kept_def authorize_def
        downgradable_def)
  have "sound_stage (s\<lparr>sg_required := False, sg_lifecycle := authorize d
      (activate_lifecycle first (sg_lifecycle s))\<rparr>)" for s
    by (simp add: sound_stage_def requirement_kept_def authorize_def activate_lifecycle_def)
  then show ?thesis
    using assms(1,2) inst first
    by (auto simp: downgrade_plan_def Let_def sound_plan_def edit_instance_def
        intro!: list_all_update_first split: option.splits if_splits)
qed

section \<open>Handlers keep it\<close>

abbreviation good_plan :: "task_plan \<Rightarrow> bool" where
  "good_plan plan \<equiv> well_formed_plan plan \<and> sound_plan plan"

lemma keeps_get_task [keeps_rules]: "keeps I (get_task env t)"
  unfolding get_task_def by (intro keeps_rules keeps_option)

lemma keeps_check_task_revision [keeps_rules]: "keeps I (check_task_revision env t n)"
  unfolding check_task_revision_def task_revision_def by (intro keeps_rules)

lemma keeps_committed_lookup [keeps_rules]: "keeps I (committed_lookup env t c r e)"
  unfolding committed_lookup_def by (rule keeps_pure)

lemma find_plan_good:
  assumes "plans_good s" and "find_plan env t s = (Inr (Some plan), s')"
  shows "good_plan plan"
proof -
  have "repo_get (plan_repo env) s t t = Inr (Some (P_plan plan))"
    using assms(2) by (auto simp: find_plan_def monad split: option.splits)
  from all_payloads_get [OF assms(1) this] show ?thesis by simp
qed

lemma find_plan_keeps [keeps_rules]: "keeps I (find_plan env t)"
  unfolding find_plan_def by (intro keeps_rules keeps_option)

lemma keeps_find_plan:
  assumes "keeps plans_good (f None)" and "\<And>plan. good_plan plan \<Longrightarrow> keeps plans_good (f (Some plan))"
  shows "keeps plans_good (bindS (find_plan env t) f)"
proof (rule keeps_bind_strong [OF find_plan_keeps])
  fix x s s'
  assume "plans_good s" "find_plan env t s = (Inr x, s')"
  then show "keeps plans_good (f x)" using assms find_plan_good by (cases x) auto
qed

lemma keeps_get_plan:
  assumes "\<And>plan. good_plan plan \<Longrightarrow> keeps plans_good (f plan)"
  shows "keeps plans_good (bindS (get_plan env t) f)"
proof -
  have "bindS (get_plan env t) f =
      bindS (find_plan env t) (\<lambda>p. case p of None \<Rightarrow> throwS no_saved_plan | Some plan \<Rightarrow> f plan)"
    by (rule ext) (auto simp: get_plan_def bindS_def throwS_def returnS_def
        split: option.splits prod.splits sum.splits)
  then show ?thesis using assms by (simp add: keeps_find_plan keeps_pure)
qed

lemma keeps_mutable_plan:
  assumes "\<And>plan actual. good_plan plan \<Longrightarrow> keeps plans_good (f (plan, actual))"
  shows "keeps plans_good (bindS (mutable_plan env t e) f)"
proof -
  have "bindS (mutable_plan env t e) f =
      bindS (get_plan env t) (\<lambda>plan. bindS (liftE (require_plan_mutable plan)) (\<lambda>_.
      bindS (check_task_revision env t (ce_expected_revision e)) (\<lambda>actual. f (plan, actual))))"
    by (rule ext) (auto simp: mutable_plan_def bindS_def returnS_def split: prod.splits sum.splits)
  then show ?thesis using assms by (simp add: keeps_get_plan keeps_rules)
qed

lemma keeps_put_task [keeps_rules]: "keeps plans_good (put_task env e c r t task n res)"
  unfolding put_task_def task_repo_def by (intro keeps_put) simp

lemma keeps_put_projection:
  "good_payload p \<Longrightarrow> keeps plans_good (put_projection env e c t skip (k, i, p))"
  unfolding put_projection_def Let_def prod.case by (intro keeps_rules keeps_if) auto

lemma keeps_persist:
  assumes "sound_plan plan"
  shows "keeps plans_good (persist_aggregate env plan e c r n skip)"
  unfolding persist_aggregate_def Let_def plan_repo_def task_repo_def
  by (intro keeps_check keeps_rules keeps_if)
    (use assms in \<open>auto simp: validate_plan_decides intro!: keeps_put_projection\<close>)

lemma keeps_persist_touched:
  "sound_plan plan \<Longrightarrow> keeps plans_good (persist_touched env plan e c r n)"
  unfolding persist_touched_def by (intro keeps_rules keeps_persist) simp

lemma keeps_reaggregate:
  "sound_plan plan \<Longrightarrow> keeps plans_good (reaggregate env plan e c r n)"
  unfolding reaggregate_def
  by (intro keeps_bind [OF keeps_primitives(1)] keeps_check keeps_persist_touched)
    (auto dest: sound_refresh sound_settle)

lemma keeps_idempotent:
  "keeps plans_good operation \<Longrightarrow> keeps plans_good (idempotent env t c r e operation)"
  unfolding idempotent_def Let_def by (intro keeps_rules keeps_option keeps_if)

lemma keeps_put_planless [keeps_rules]:
  "keeps plans_good (put_planless env e c r task t s n)"
  unfolding put_planless_def Let_def by (intro keeps_rules)

lemma sound_find_instance:
  assumes "find_instance plan x = Inr i" and "sound_plan plan"
  shows "i \<in> set (pl_instances plan)" "in_instance_id i = x" "sound_instance i"
  using assms find_SomeD [of _ "pl_instances plan" i]
  by (auto simp: find_instance_def sound_plan_def list_all_iff split: option.splits)

lemma keeps_create_task: "keeps plans_good (create_task env r e)"
  unfolding create_task_def do_create_task_def Let_def by (intro keeps_idempotent keeps_rules)

lemma keeps_register_input: "keeps plans_good (register_input_manifest env t m e)"
  unfolding register_input_manifest_def do_update_task_input_def Let_def
  by (intro keeps_idempotent keeps_rules)

lemma keeps_rename_task: "keeps plans_good (rename_task env t title e)"
  unfolding rename_task_def do_rename_task_def Let_def
  by (intro keeps_bind [OF keeps_pure(3)] keeps_idempotent keeps_bind [OF keeps_get_task]
      keeps_bind [OF keeps_check_task_revision] keeps_bind [OF keeps_primitives(1)]
      keeps_find_plan keeps_persist; simp add: keeps_rules keeps_persist)

lemma keeps_normalize [keeps_rules]:
  "keeps plans_good (normalize_append env task old n r)"
  "keeps plans_good (normalize_merge env task old n r)"
  "keeps plans_good (normalize_replace env task n r)"
  unfolding normalize_append_def normalize_merge_def normalize_replace_def
  by (intro keeps_rules)+

lemma sound_normalize:
  "normalize_append env task old n r s = (Inr plan, s') \<Longrightarrow> sound_plan old \<Longrightarrow> sound_plan plan"
  "normalize_merge env task old n r s = (Inr plan, s') \<Longrightarrow> sound_plan old \<Longrightarrow> sound_plan plan"
  "normalize_replace env task n r s = (Inr plan, s') \<Longrightarrow> sound_plan plan"
  unfolding normalize_append_def normalize_merge_def normalize_replace_def
  by (auto simp: bindS_Inr_iff liftE_iff dest: sound_build_append sound_build_merge
      sound_normalize_plan)

lemma keeps_save_append:
  assumes "sound_plan old"
  shows "keeps plans_good (save_append env task old b n r e)"
  unfolding save_append_def
  by (rule keeps_bind_strong [OF keeps_normalize(1)])
    (intro keeps_bind [OF keeps_primitives(1)] keeps_check keeps_persist;
     use assms in \<open>auto dest: sound_normalize sound_activate sound_settle\<close>)

lemma keeps_save_merge:
  assumes "sound_plan old"
  shows "keeps plans_good (save_merge env task old b n r e)"
  unfolding save_merge_def
  by (rule keeps_bind_strong [OF keeps_normalize(2)])
    (intro keeps_bind [OF keeps_primitives(1)] keeps_persist;
     use assms in \<open>auto dest: sound_normalize\<close>)

lemma keeps_save_replace: "keeps plans_good (save_replace env task b n r e)"
proof -
  let ?mid = "\<lambda>plan. if tk_start_policy task = Manual then
      bindS (liftE (task_transition T_PLANNED T_AWAITING_START_CONFIRMATION)) (\<lambda>_.
      returnS (set_task_status T_AWAITING_START_CONFIRMATION (set_task_status T_PLANNED plan)))
    else bindS (utc_now env) (\<lambda>now.
      bindS (liftE (activate_current_stages now (set_task_status T_PLANNED plan))) (\<lambda>plan.
      bindS (liftE (validate_task_reaggregation T_PLANNED (aggregate_plan plan))) (\<lambda>_.
      returnS (set_task_status (aggregate_plan plan) plan))))"
  have mid: "sound_plan plan'" if "?mid plan s = (Inr plan', s')" "sound_plan plan" for plan plan' s s'
    using that sound_activate [of _ "set_task_status T_PLANNED plan"]
    by (auto simp: bindS_Inr_iff liftE_iff returnS_iff split: if_splits)
  show ?thesis
    unfolding save_replace_def Let_def
    by (rule keeps_bind_strong [OF keeps_normalize(3)], rule keeps_check,
        rule keeps_bind_strong [where m = "?mid _"])
      (auto intro!: keeps_rules keeps_if keeps_persist dest: sound_normalize mid)
qed

lemma keeps_save_plan: "keeps plans_good (save_plan env r e)"
proof -
  have "keeps plans_good (do_save_plan env r e)"
    unfolding do_save_plan_def Let_def
    by (intro keeps_bind [OF keeps_pure(3)] keeps_bind [OF keeps_get_task]
        keeps_bind [OF keeps_check_task_revision] keeps_find_plan)
      (auto intro: keeps_pure keeps_save_replace keeps_save_append keeps_save_merge
        split: save_mode.splits)
  then show ?thesis
    unfolding save_plan_def by (intro keeps_bind [OF keeps_pure(3)] keeps_idempotent)
qed

lemma keeps_confirm_start: "keeps plans_good (confirm_start env t e)"
  unfolding confirm_start_def do_confirm_start_def Let_def
  by (intro keeps_idempotent keeps_get_plan keeps_bind [OF keeps_check_task_revision] keeps_check
      keeps_bind [OF keeps_primitives(1)] keeps_persist) (auto dest: sound_activate)

lemma keeps_manual:
  "keeps plans_good (set_manual_finished env t x b e)"
  "keeps plans_good (set_manual_business_status env t x st e)"
  "keeps plans_good (set_approval_mode env t x m e)"
  unfolding set_manual_finished_def do_set_manual_finished_def set_manual_business_status_def
    do_set_business_status_def set_approval_mode_def do_set_approval_mode_def
  by ((intro keeps_idempotent keeps_bind [OF keeps_pure(3)] keeps_mutable_plan, unfold prod.case,
      intro keeps_bind [OF keeps_pure(3)] keeps_persist_touched sound_edit; simp))+

lemma keeps_transition: "keeps plans_good (transition_instance env t x target e)"
proof -
  have target: "target \<noteq> I_CREATED" if "instance_transition s target = Inr ()" for s
    using that never_created by (auto simp: monad)
  show ?thesis
    unfolding transition_instance_def do_transition_instance_def Let_def
    by (intro keeps_idempotent keeps_get_plan keeps_bind [OF keeps_check_task_revision] keeps_check,
        rule keeps_bind_strong)
      (auto simp: bindS_Inr_iff returnS_iff intro!: keeps_rules keeps_if keeps_reaggregate
        intro!: sound_edit sound_activate_instance intro: sound_transitioned dest: target
        split: if_splits)
qed

lemma keeps_reject: "keeps plans_good (reject_instance_delivery env t x d e)"
  unfolding reject_instance_delivery_def do_reject_delivery_def Let_def
  by (intro keeps_idempotent keeps_get_plan keeps_bind [OF keeps_check_task_revision]
      keeps_bind [OF keeps_pure(3)] keeps_bind [OF keeps_primitives(1)] keeps_reaggregate sound_edit)
    (auto intro: sound_status)

lemma keeps_archive: "keeps plans_good (archive_task env t e)"
  unfolding archive_task_def do_archive_task_def
  by (intro keeps_idempotent keeps_bind [OF keeps_get_task] keeps_bind [OF keeps_check_task_revision]
      keeps_bind [OF keeps_pure(3)] keeps_find_plan)
    (auto intro: keeps_put_planless keeps_persist_touched)

lemma keeps_restore: "keeps plans_good (restore_archived env t rs target e)"
  unfolding restore_archived_def do_restore_archived_def Let_def
  by (intro keeps_idempotent keeps_bind [OF keeps_get_task] keeps_bind [OF keeps_check_task_revision]
      keeps_bind [OF keeps_pure(3)] keeps_find_plan)
    (auto intro!: keeps_put_planless keeps_bind [OF keeps_pure(3)] keeps_bind [OF keeps_primitives(1)]
      keeps_check keeps_persist intro: sound_restore_plan)

lemma keeps_cancel: "keeps plans_good (cancel_task env t e)"
  unfolding cancel_task_def do_cancel_task_def
  by (intro keeps_idempotent keeps_bind [OF keeps_get_task] keeps_bind [OF keeps_check_task_revision]
      keeps_bind [OF keeps_pure(3)] keeps_find_plan)
    (auto intro: keeps_put_planless keeps_persist_touched sound_cancel)

lemma keeps_downgrade: "keeps plans_good (downgrade_instance env t x reason e)"
  unfolding downgrade_instance_def do_downgrade_instance_def Let_def
  by (intro keeps_idempotent keeps_bind [OF keeps_pure(3)] keeps_mutable_plan, unfold prod.case,
      intro keeps_check keeps_bind [OF keeps_primitives(1)] keeps_bind [OF keeps_primitives(2)]
      keeps_reaggregate)
    (auto simp: well_formed_plan_def guardE_Inr_iff elim!: sound_downgrade dest: sound_find_instance)

section \<open>Mutable instance fields\<close>

lemma apply_change_fields [simp]:
  "in_instance_id (apply_change c i) = in_instance_id i"
  "in_task_id (apply_change c i) = in_task_id i" "in_stage_id (apply_change c i) = in_stage_id i"
  "in_agent_type (apply_change c i) = in_agent_type i"
  "sound_instance (apply_change c i) = sound_instance i"
  by (cases c; simp add: sound_instance_def)+

lemma apply_changes_fields [simp]:
  "in_instance_id (fold apply_change cs i) = in_instance_id i"
  "in_task_id (fold apply_change cs i) = in_task_id i"
  "in_stage_id (fold apply_change cs i) = in_stage_id i"
  "in_agent_type (fold apply_change cs i) = in_agent_type i"
  "sound_instance (fold apply_change cs i) = sound_instance i"
  by (induction cs arbitrary: i) simp_all

text \<open>An edit of one instance that keeps its identity, place and type keeps the plan well formed.\<close>

lemma well_formed_edit:
  assumes "well_formed_plan plan"
    and f: "\<And>i. in_instance_id (f i) = in_instance_id i" "\<And>i. in_task_id (f i) = in_task_id i"
      "\<And>i. in_stage_id (f i) = in_stage_id i" "\<And>i. in_agent_type (f i) = in_agent_type i"
  shows "well_formed_plan (edit_instance x f plan)"
proof -
  let ?plan = "edit_instance x f plan"
  let ?f = "\<lambda>i. if in_instance_id i = x then f i else i"
  have insts: "pl_instances ?plan = map ?f (pl_instances plan)"
    using assms(1) by (simp add: edit_instance_def well_formed_plan_def update_first_map)
  have ids: "map in_instance_id (pl_instances ?plan) = map in_instance_id (pl_instances plan)"
    unfolding insts using f by simp
  have "instance_ok ?plan (?f i) = instance_ok plan i" for i
    using f by (simp add: instance_ok_def edit_instance_def)
  then have insts_ok: "list_all (instance_ok ?plan) (pl_instances ?plan) =
      list_all (instance_ok plan) (pl_instances plan)"
    unfolding insts list.pred_map comp_def by (simp only:)
  have key: "in_instance_id (?f i) = in_instance_id i" "in_stage_id (?f i) = in_stage_id i"
    "in_agent_type (?f i) = in_agent_type i" for i
    using f by simp_all
  have "(\<exists>i \<in> set (pl_instances ?plan). in_instance_id i = a \<and> in_stage_id i = b \<and> in_agent_type i = c)
    = (\<exists>i \<in> set (pl_instances plan). in_instance_id i = a \<and> in_stage_id i = b \<and> in_agent_type i = c)"
    for a b c
    unfolding insts set_map bex_simps key ..
  then have "card_ok ?plan c = card_ok plan c" for c
    by (simp add: card_ok_def edit_instance_def)
  then have cards_ok: "list_all (card_ok ?plan) (pl_task_cards plan) =
      list_all (card_ok plan) (pl_task_cards plan)"
    by (simp add: list_all_iff)
  have stages: "stage_ok ?plan n = stage_ok plan n" "pl_stages ?plan = pl_stages plan"
    "pl_task_cards ?plan = pl_task_cards plan" for n
    by (simp_all add: stage_ok_def edit_instance_def)
  show ?thesis
    using assms(1) unfolding well_formed_plan_def stages ids insts_ok cards_ok .
qed

lemma keeps_update_fields:
  "keeps plans_good (update_instance_fields env t x changes a c k hook)"
proof -
  have unplanned: "keeps plans_good (update_unplanned_instance env t x changes a c k hook)"
    unfolding update_unplanned_instance_def Let_def
    by (intro keeps_bind [OF keeps_pure(4)] keeps_bind [OF keeps_pure(3)] keeps_option keeps_if
        keeps_pure keeps_bind [OF keeps_put]) auto
  have reconcile: "keeps plans_good (reconcile_plan_projections env t)"
    by (rule keeps_reconcile) (simp add: good_projections_def)
  have edited: "good_plan (plan\<lparr>pl_instances :=
      update_first (\<lambda>i. in_instance_id i = x) (fold apply_change changes) (pl_instances plan)\<rparr>)"
    if "good_plan plan" for plan
    using that well_formed_edit [of plan "fold apply_change changes" x]
      sound_edit [of plan "fold apply_change changes" x]
    by (simp add: edit_instance_def)
  show ?thesis
    unfolding update_instance_fields_def Let_def
    by (rule keeps_bind [OF keeps_pure(3)], rule keeps_readS)
      (auto intro!: keeps_option keeps_if keeps_pure unplanned keeps_check
        keeps_bind [OF keeps_pure(4)] keeps_bind [OF keeps_put] keeps_bind [OF reconcile] edited
        simp: monad dest: all_payloads_get)
qed

section \<open>The steps of the command handlers\<close>

text \<open>One handler run to its end, whatever it returned or raised, or one startup recovery.\<close>

inductive step :: "environment \<Rightarrow> store \<Rightarrow> store \<Rightarrow> bool" for env where
  create: "create_task env r e s = (v, s') \<Longrightarrow> step env s s'"
| register_input: "register_input_manifest env t m e s = (v, s') \<Longrightarrow> step env s s'"
| rename: "rename_task env t title e s = (v, s') \<Longrightarrow> step env s s'"
| save: "save_plan env q e s = (v, s') \<Longrightarrow> step env s s'"
| confirm: "confirm_start env t e s = (v, s') \<Longrightarrow> step env s s'"
| manual_finished: "set_manual_finished env t x b e s = (v, s') \<Longrightarrow> step env s s'"
| business_status: "set_manual_business_status env t x st e s = (v, s') \<Longrightarrow> step env s s'"
| approval_mode: "set_approval_mode env t x mode e s = (v, s') \<Longrightarrow> step env s s'"
| transition_one: "transition_instance env t x target e s = (v, s') \<Longrightarrow> step env s s'"
| reject: "reject_instance_delivery env t x d e s = (v, s') \<Longrightarrow> step env s s'"
| archive: "archive_task env t e s = (v, s') \<Longrightarrow> step env s s'"
| restore: "restore_archived env t rs target' e s = (v, s') \<Longrightarrow> step env s s'"
| cancel: "cancel_task env t e s = (v, s') \<Longrightarrow> step env s s'"
| downgrade: "downgrade_instance env t x reason e s = (v, s') \<Longrightarrow> step env s s'"
| update_fields: "update_instance_fields env t x cs a c k hook s = (i, s') \<Longrightarrow> step env s s'"
| recovery: "recover env s = (u, s') \<Longrightarrow> step env s s'"

inductive_cases stepE: "step env s s'"

lemma plans_good_after: "keeps plans_good m \<Longrightarrow> m s = (r, s') \<Longrightarrow> plans_good s \<Longrightarrow> plans_good s'"
  by (rule keepsD [where I = plans_good and m = m])

lemma keeps_recovery: "keeps plans_good (recover env)"
  by (rule keeps_recover) (simp add: good_projections_def)

lemma step_keeps: "step env s s' \<Longrightarrow> plans_good s \<Longrightarrow> plans_good s'"
  by (erule stepE) (erule (1) plans_good_after [OF keeps_recovery]
      plans_good_after [OF keeps_create_task] plans_good_after [OF keeps_register_input]
      plans_good_after [OF keeps_rename_task] plans_good_after [OF keeps_save_plan]
      plans_good_after [OF keeps_confirm_start] plans_good_after [OF keeps_manual(1)]
      plans_good_after [OF keeps_manual(2)] plans_good_after [OF keeps_manual(3)]
      plans_good_after [OF keeps_transition] plans_good_after [OF keeps_reject]
      plans_good_after [OF keeps_archive] plans_good_after [OF keeps_restore]
      plans_good_after [OF keeps_cancel] plans_good_after [OF keeps_downgrade]
      plans_good_after [OF keeps_update_fields])+

end
