(* ===== verification/Handler_Frames.thy ===== *)
theory Handler_Frames imports Command_Invariants begin

text \<open>
  What no command handler touches. The locale \<open>store_frame\<close> lists the primitive effects of the
  storage layer; an invariant that each of them keeps is kept by every handler and by every store
  operation they are built from. Its interpretations: journals only grow, and a remembered result
  stays remembered.
\<close>

section \<open>Invariants of every handler\<close>

text \<open>The objects that the handlers write.\<close>

inductive command_write :: "object_type \<Rightarrow> payload \<Rightarrow> bool" where
  task: "command_write O_task (P_task x)"
| plan: "command_write O_plan (P_plan y)"
| stage: "command_write O_stage (P_stage z)"
| inst: "command_write O_instance (P_instance u)"

lemma projection_write: "(kind, i, p) \<in> set (plan_projections t plan) \<Longrightarrow> command_write kind p"
  by (auto simp: plan_projections_def intro: command_write.intros)

locale store_frame =
  fixes env :: environment and I :: "store \<Rightarrow> bool"
  assumes put: "command_write kind p \<Longrightarrow>
      keeps I (repo_put env (repository_of env kind) t i p n a c k res sha hook)"
    and unlink: "keeps I (unlink_file q)"
    and remember_result: "keeps I (remember_digest env t k c digest v)"
    and quiet: "unchanged s s' \<Longrightarrow> I s \<Longrightarrow> I s'"
    and summary: "keeps I (write_task_summary t task)"
begin

lemma keeps_quiet: "(\<And>s r s'. m s = (r, s') \<Longrightarrow> unchanged s s') \<Longrightarrow> keeps I m"
  by (rule keepsI) (blast intro: quiet)

lemma clock: "keeps I (utc_now env)"
  by (rule keeps_quiet) (rule utc_now_unchanged)

lemma fresh_id: "keeps I (fresh_uuid env)"
  by (rule keeps_quiet) (rule fresh_uuid_unchanged)

lemmas primitives = put command_write.intros unlink remember_result summary clock fresh_id

lemma put_one: "keeps I (put_task env e c r t task n v)"
  unfolding put_task_def task_repo_def by (intro put command_write.intros)

lemma retire: "keeps I (retire_plan_projections env t plan)"
  unfolding retire_plan_projections_def retire_projection_set_def retire_one_def
  by (intro keeps_rules keeps_if unlink)

lemma projection:
  "command_write kind p \<Longrightarrow> keeps I (put_projection env e c t skip (kind, i, p))"
  unfolding put_projection_def Let_def
  by (auto intro!: keeps_rules keeps_if put)

lemma persist: "keeps I (persist_aggregate env plan e c r n skip)"
  unfolding persist_aggregate_def Let_def plan_repo_def task_repo_def
  by (auto intro!: keeps_rules keeps_if primitives retire projection)

lemma idempotent_op: "keeps I operation \<Longrightarrow> keeps I (idempotent env t c r e operation)"
  unfolding idempotent_def Let_def committed_lookup_def
  by (intro keeps_rules keeps_option keeps_if primitives)

lemma get_plan_op: "keeps I (get_plan env t)"
  unfolding get_plan_def by (intro keeps_rules keeps_option)

lemma mutable_op: "keeps I (mutable_plan env t e)"
  unfolding mutable_plan_def by (intro keeps_rules get_plan_op)

lemma persist_touched_op: "keeps I (persist_touched env plan e c r n)"
  unfolding persist_touched_def by (intro keeps_rules clock persist)

lemma reaggregate_op: "keeps I (reaggregate env plan e c r n)"
  unfolding reaggregate_def by (intro keeps_rules clock persist_touched_op)

lemma planless_op: "keeps I (put_planless env e c r task t st n)"
  unfolding put_planless_def Let_def by (intro keeps_rules clock put_one)

lemmas steps = keeps_rules keeps_if keeps_option primitives put_one persist get_plan_op mutable_op
  persist_touched_op reaggregate_op planless_op idempotent_op

lemma create: "keeps I (create_task env r e)"
  unfolding create_task_def do_create_task_def Let_def by (intro steps)

lemma register_input: "keeps I (register_input_manifest env t m e)"
  unfolding register_input_manifest_def do_update_task_input_def Let_def by (intro steps)

lemma rename: "keeps I (rename_task env t title e)"
  unfolding rename_task_def do_rename_task_def Let_def by (intro steps)

lemma save: "keeps I (save_plan env q e)"
proof -
  have "keeps I (normalize_append env task old n q)" "keeps I (normalize_merge env task old n q)"
    "keeps I (normalize_replace env task n q)" for task old n
    unfolding normalize_append_def normalize_merge_def normalize_replace_def by (intro steps)+
  note normalize = this
  have "keeps I (save_append env task old b n q e)" "keeps I (save_merge env task old b n q e)"
    "keeps I (save_replace env task b n q e)" for task old b n
    unfolding save_append_def save_merge_def save_replace_def Let_def
    by (intro steps normalize)+
  then have "keeps I (do_save_plan env q e)"
    unfolding do_save_plan_def Let_def
    by (auto intro!: keeps_rules split: save_mode.split option.split)
  then show ?thesis unfolding save_plan_def by (intro steps)
qed

lemma confirm: "keeps I (confirm_start env t e)"
  unfolding confirm_start_def do_confirm_start_def Let_def by (intro steps)

lemma manual:
  "keeps I (set_manual_finished env t x b e)"
  "keeps I (set_manual_business_status env t x st e)"
  "keeps I (set_approval_mode env t x m e)"
  unfolding set_manual_finished_def do_set_manual_finished_def set_manual_business_status_def
    do_set_business_status_def set_approval_mode_def do_set_approval_mode_def
  by (auto intro!: steps split: prod.split)

lemma transition_one: "keeps I (transition_instance env t x target e)"
  unfolding transition_instance_def do_transition_instance_def Let_def by (intro steps)

lemma reject: "keeps I (reject_instance_delivery env t x d e)"
  unfolding reject_instance_delivery_def do_reject_delivery_def Let_def by (intro steps)

lemma archive: "keeps I (archive_task env t e)"
  unfolding archive_task_def do_archive_task_def by (intro steps)

lemma restore: "keeps I (restore_archived env t rs target e)"
  unfolding restore_archived_def do_restore_archived_def Let_def by (intro steps)

lemma cancel: "keeps I (cancel_task env t e)"
  unfolding cancel_task_def do_cancel_task_def by (intro steps)

lemma downgrade: "keeps I (downgrade_instance env t x reason e)"
  unfolding downgrade_instance_def do_downgrade_instance_def Let_def
  by (auto intro!: steps split: prod.split)

lemma reconcile: "keeps I (reconcile_plan_projections env t)"
  unfolding reconcile_plan_projections_def reconcile_one_def
  by (auto intro!: keeps_rules keeps_option keeps_if primitives retire dest: projection_write
      split: prod.split)

lemma update_fields: "keeps I (update_instance_fields env t x changes a c k hook)"
  unfolding update_instance_fields_def update_unplanned_instance_def Let_def
  by (intro keeps_rules keeps_option keeps_if primitives reconcile)

lemma kept: "keeps I m \<Longrightarrow> m s = (r, s') \<Longrightarrow> I s \<Longrightarrow> I s'"
  by (rule keepsD [where I = I and m = m])

lemma index_rebuilds: "keeps I (rebuild_task_index env)" "keeps I (rebuild_inbox_index env)"
proof -
  show "keeps I (rebuild_task_index env)"
    by (rule keeps_quiet) (rule rebuild_task_index_unchanged)
  show "keeps I (rebuild_inbox_index env)"
    by (rule keeps_quiet) (rule rebuild_inbox_index_unchanged)
qed

lemma kept_if_recovered: "keeps I (recover env) \<Longrightarrow> step env s s' \<Longrightarrow> I s \<Longrightarrow> I s'"
  by (erule stepE) (erule (1) kept [OF create] kept [OF register_input]
      kept [OF rename] kept [OF save] kept [OF confirm] kept [OF manual(1)] kept [OF manual(2)]
      kept [OF manual(3)] kept [OF transition_one] kept [OF reject] kept [OF archive]
      kept [OF restore] kept [OF cancel] kept [OF downgrade] kept [OF update_fields]
      kept)+

end

text \<open>An invariant that the two writes of startup recovery keep as well is kept by every step.\<close>

locale step_frame = store_frame +
  assumes file_write: "keeps I (write_file q w)"
    and warning: "keeps I (warn env t f)"
begin

lemma recovery: "keeps I (recover env)"
proof -
  have "keeps I (recover_snapshot env u x)" for u x
    unfolding recover_snapshot_def
    by (auto intro!: keeps_rules keeps_option keeps_if file_write warning split: prod.split)
  then have "keeps I (recover_task env u)" for u
    unfolding recover_task_def recover_snapshots_def recover_idempotency_results_def
      recover_idempotency_result_def
    by (auto intro!: keeps_rules primitives reconcile split: option.split)
  then show ?thesis
    unfolding recover_def by (intro keeps_rules index_rebuilds)
qed

lemma kept_by_step: "step env s s' \<Longrightarrow> I s \<Longrightarrow> I s'"
  using recovery by (rule kept_if_recovered)

end

section \<open>Journals are append-only\<close>

abbreviation journal_extends :: "string \<Rightarrow> event list \<Rightarrow> store \<Rightarrow> bool" where
  "journal_extends t es st \<equiv> \<exists>fs. journal st t = es @ fs"

lemma observed_effects:
  assumes "repo_put env (repository_of env kind) t i p n a c k res sha hook s = (r, s')"
  shows "rest s' = rest s \<and> (\<forall>u. \<exists>fs. journal s' u = journal s u @ fs)"
  using assms benign_repository
  by (cases rule: repo_put_cases) (auto simp: unchanged_def journalled_def put_effect_def)

section \<open>Remembered results stay\<close>

abbreviation remembers :: "string \<Rightarrow> string \<times> command_result \<Rightarrow> store \<Rightarrow> bool" where
  "remembers path x st \<equiv> idempotency_entry st path = Some x"

lemma entry_rest: "rest s' = rest s \<Longrightarrow> idempotency_entry s' = idempotency_entry s"
  by (simp add: rest_def idempotency_entry_def fun_eq_iff)

section \<open>Exactly once\<close>

text \<open>What a run of \<open>idempotent\<close> amounts to.\<close>

definition committed_answer ::
  "environment \<Rightarrow> store \<Rightarrow> string \<Rightarrow> string \<Rightarrow> command_request \<Rightarrow> command_envelope \<Rightarrow>
   command_result option res" where
  "committed_answer env s t c r e =
     lookup_committed_command_result s t (ce_idempotency_key e) c (ev_request_digest env c r)"

lemma idempotent_eq:
  assumes "is_identifier t"
  shows "idempotent env t c r e operation s =
    (let key = ce_idempotency_key e; sha = ev_request_digest env c r in
     case idempotency_lookup env s t key c r of
       Inl x \<Rightarrow> (Inl x, s)
     | Inr (Some w) \<Rightarrow> (Inr w, s)
     | Inr None \<Rightarrow>
         (case committed_answer env s t c r e of
            Inl x \<Rightarrow> (Inl x, s)
          | Inr (Some w) \<Rightarrow> remember_digest env t key c sha w s
          | Inr None \<Rightarrow>
              (case operation s of
                 (Inl x, u) \<Rightarrow> (Inl x, u)
               | (Inr w, u) \<Rightarrow>
                   (case committed_answer env u t c r e of
                      Inl x \<Rightarrow> (Inl x, u)
                    | Inr found \<Rightarrow>
                        if found \<noteq> Some w then
                          (Inl (RuntimeError ''command returned without an authoritative result commit''), u)
                        else remember_digest env t key c sha w u))))"
proof (cases "idempotency_lookup env s t (ce_idempotency_key e) c r")
  case (Inl x)
  then show ?thesis using assms by (simp add: idempotent_def Let_def run)
next
  case lookup: (Inr found)
  show ?thesis
  proof (cases found)
    case None
    note here = lookup [unfolded None]
    show ?thesis
    proof (cases "committed_answer env s t c r e")
      case (Inl x)
      then show ?thesis
        using assms here by (simp add: idempotent_def Let_def run committed_lookup_def committed_answer_def)
    next
      case committed: (Inr y)
      obtain v u where op: "operation s = (v, u)" by (cases "operation s")
      show ?thesis
        using assms here committed op
        by (cases y; cases v)
          (simp_all add: idempotent_def Let_def run committed_lookup_def committed_answer_def
            bindS_run throwS_def split: sum.split)
    qed
  qed (use assms lookup in \<open>simp add: idempotent_def Let_def run returnS_def\<close>)
qed

lemma idempotent_bad_scope:
  "\<not> is_identifier t \<Longrightarrow> \<exists>x. idempotent env t c r e operation s = (Inl x, s)"
  by (simp add: idempotent_def Let_def run validate_identifier_def)

lemma remember_digest_remembers:
  "remember_digest env t key c sha w u = (Inr v, s') \<Longrightarrow>
   remembers (idempotency_path env t key) (sha, v) s'"
  by (erule remember_digest_cases) auto

lemma idempotent_remembers:
  assumes "idempotent env t c r e operation s = (Inr v, s')"
  shows "is_identifier t \<and>
    remembers (idempotency_path env t (ce_idempotency_key e)) (ev_request_digest env c r, v) s'"
proof -
  have t: "is_identifier t" using assms idempotent_bad_scope [of t env c r e operation s] by auto
  from assms [unfolded idempotent_eq [OF t] Let_def] show ?thesis
    using t by (auto simp: lookup_slot remember_digest_remembers
        split: sum.splits option.splits prod.splits if_splits)
qed

lemma idempotent_replays:
  assumes "is_identifier t"
    and "remembers (idempotency_path env t (ce_idempotency_key e)) (ev_request_digest env c r, v) s"
  shows "idempotent env t c r e operation s = (Inr v, s)"
proof -
  have "idempotency_lookup env s t (ce_idempotency_key e) c r = Inr (Some v)"
    using assms(2) by (simp add: lookup_slot)
  then show ?thesis
    using assms(1) by (simp add: idempotent_def Let_def validate_identifier_def run returnS_def)
qed

lemma committed_result_append:
  "committed_result scope key command sha (es @ fs) acc =
     bindE (committed_result scope key command sha es acc)
       (committed_result scope key command sha fs)"
  by (induction es arbitrary: acc) auto

lemma remember_digest_fresh:
  assumes "idempotency_lookup env s t key c r = Inr None"
  shows "\<exists>s'. remember_digest env t key c sha v s = (Inr v, s') \<and>
     file_at s' = file_at s \<and> journal s' = journal s"
proof -
  obtain x s' where run: "remember_digest env t key c sha v s = (x, s')" by (meson surj_pair)
  moreover have "idempotency_entry s (idempotency_path env t key) = None"
    using assms by (auto simp: lookup_slot split: option.splits if_splits)
  ultimately have "x = Inr v" by (auto elim: remember_digest_cases)
  then show ?thesis using run remember_digest_observers [OF run] by blast
qed

text \<open>
  C15. A command that is cut off after its commit is not lost: as soon as the event that carries the
  command's result is in the journal, whatever interrupted the write afterwards, repeating the request
  returns that result without running the operation, and leaves every file and journal alone.
\<close>

theorem interrupted_command_completes:
  assumes "is_identifier t" and "idempotency_lookup env s t (ce_idempotency_key e) c r = Inr None"
    and "committed_answer env s t c r e = Inr None"
    and "repo_put env (repository_of env kind) t i p n a c (ce_idempotency_key e) (Some v)
      (Some (ev_request_digest env c r)) hook s = (x, s')"
    and "journal s' t \<noteq> journal s t"
  shows "\<exists>s''. idempotent env t c r e operation s' = (Inr v, s'') \<and>
     file_at s'' = file_at s' \<and> journal s'' = journal s'"
proof -
  obtain f where "journal s' t = journal s t @ [f]" "ee_command_result f = Some v"
    "ee_idempotency_key f = ce_idempotency_key e" "ee_command f = c"
    "ee_request_sha256 f = Some (ev_request_digest env c r)"
    using assms(4) benign_repository
    by (cases rule: repo_put_cases)
      (use assms(5) in \<open>auto simp: unchanged_def journalled_def put_effect_def commit_of_def\<close>)
  then have answer: "committed_answer env s' t c r e = Inr (Some v)"
    using assms(3)
    by (auto simp: committed_answer_def lookup_committed_command_result_def committed_result_append)
  have "idempotency_lookup env s' t (ce_idempotency_key e) c r = Inr None"
    using assms(2) entry_rest [OF conjunct1 [OF observed_effects [OF assms(4)]]]
    by (simp add: lookup_slot)
  with answer remember_digest_fresh [OF this] show ?thesis
    by (simp add: idempotent_eq [OF assms(1)] Let_def)
qed

end
