(* ===== verification/Task_Paths.thy ===== *)
theory Task_Paths imports Errors "HOL-Library.Sublist" begin

text \<open>
  \<^verbatim>\<open>backend/harness/storage/paths.py\<close>: the paths that requests and Agents may name inside the
  workspace of a task. A path is the list of its components. What the file system answers is an
  argument: whether a path is missing, below a plain file, a link, or something else, and what it
  resolves to.
\<close>

section \<open>Normalisation\<close>

fun split_slash :: "string \<Rightarrow> string list" where
  "split_slash [] = [[]]"
| "split_slash (c # s) =
     (if c = CHR ''/'' then [] # split_slash s
      else case split_slash s of [] \<Rightarrow> [[c]] | p # ps \<Rightarrow> (c # p) # ps)"

text \<open>\<open>PurePosixPath(value).parts\<close> of a relative path: empty components and dots are dropped.\<close>

definition posix_parts :: "string \<Rightarrow> string list" where
  "posix_parts value = filter (\<lambda>p. p \<notin> {[], ''.''}) (split_slash value)"

definition outside_task :: "string \<Rightarrow> exn" where
  "outside_task value = HarnessError PATH_OUTSIDE_TASK_ROOT ''The path is not a safe task-relative path.''
     [(''path'', DStr value)]"

definition has_drive :: "string \<Rightarrow> bool" where
  "has_drive value = (case value of c # d # _ \<Rightarrow> is_letter c \<and> d = CHR '':'' | _ \<Rightarrow> False)"

definition normalized_relative_path :: "string \<Rightarrow> string list res" where
  "normalized_relative_path value =
     bindE (guardE (value \<noteq> [] \<and> CHR 0x00 \<notin> set value \<and> CHR 0x5C \<notin> set value \<and> \<not> has_drive value)
       (outside_task value)) (\<lambda>_.
     bindE (guardE (hd value \<noteq> CHR ''/'' \<and> (\<forall>p \<in> set (posix_parts value). p \<notin> {[], ''.'', ''..''}))
       (outside_task value)) (\<lambda>_.
     Inr (posix_parts value)))"

section \<open>Resolution\<close>

text \<open>\<open>lstat\<close>: nothing there, nothing can be there because a plain file is on the way, a symbolic link or
  reparse point, or anything else.\<close>

datatype node = Missing | Below_File | Link | Entry

record file_system =
  fs_lstat :: "string list \<Rightarrow> node"
  fs_resolve :: "string list \<Rightarrow> string list option"

text \<open>The loop over the components: \<open>current\<close> grows below \<open>root\<close>. \<open>resolve(strict=True)\<close> of a path that
  leads nowhere is a \<open>FileNotFoundError\<close>.\<close>

fun walk_parts :: "file_system \<Rightarrow> string \<Rightarrow> string list \<Rightarrow> string list \<Rightarrow> string list \<Rightarrow> string list res" where
  "walk_parts fs value root current [] = Inr current"
| "walk_parts fs value root current (part # parts) =
     (case fs_lstat fs (current @ [part]) of
        Missing \<Rightarrow> walk_parts fs value root (current @ [part]) parts
      | Below_File \<Rightarrow> Inl (RuntimeError ''NotADirectoryError'')
      | Link \<Rightarrow> Inl (outside_task value)
      | Entry \<Rightarrow>
          (case fs_resolve fs (current @ [part]) of
             None \<Rightarrow> Inl (RuntimeError ''FileNotFoundError'')
           | Some resolved \<Rightarrow>
               bindE (guardE (prefix root resolved) (outside_task value)) (\<lambda>_.
               walk_parts fs value root (current @ [part]) parts)))"

definition check_prefixes :: "string \<Rightarrow> string list \<Rightarrow> string list option \<Rightarrow> unit res" where
  "check_prefixes value parts allowed =
     (case allowed of
        None \<Rightarrow> Inr ()
      | Some [] \<Rightarrow> Inr ()
      | Some ps \<Rightarrow>
          bindE (mapE normalized_relative_path ps) (\<lambda>qs.
          guardE (list_ex (\<lambda>q. prefix q parts) qs) (outside_task value)))"

definition resolve_task_path ::
  "file_system \<Rightarrow> string list \<Rightarrow> string \<Rightarrow> string list option \<Rightarrow> bool \<Rightarrow> string list res" where
  "resolve_task_path fs root value allowed require_exists =
     bindE (normalized_relative_path value) (\<lambda>parts.
     bindE (check_prefixes value parts allowed) (\<lambda>_.
     bindE (walk_parts fs value root root parts) (\<lambda>current.
     bindE (guardE (\<not> require_exists \<or> fs_lstat fs current \<in> {Link, Entry})
       (HarnessError ASSET_VALIDATION_FAILED ''The requested task file does not exist.''
         [(''path'', DStr value)])) (\<lambda>_.
     case fs_resolve fs (butlast current) of
       None \<Rightarrow> Inl (outside_task value)
     | Some parent \<Rightarrow>
         bindE (guardE (prefix root parent) (outside_task value)) (\<lambda>_. Inr current)))))"

section \<open>Confinement\<close>

text \<open>A component of a path that is accepted is a plain file name.\<close>

lemma split_slash_plain: "p \<in> set (split_slash s) \<Longrightarrow> set p \<subseteq> set s - {CHR ''/''}"
proof (induction s arbitrary: p)
  case (Cons c s)
  then show ?case by (fastforce split: if_splits list.splits)
qed simp

lemma normalized_relative_path_plain:
  assumes "normalized_relative_path value = Inr parts" and "p \<in> set parts"
  shows "p \<noteq> []" "p \<noteq> ''.''" "p \<noteq> ''..''" "CHR ''/'' \<notin> set p" "CHR 0x5C \<notin> set p" "CHR 0x00 \<notin> set p"
proof -
  from assms(1) have ok: "parts = posix_parts value" "CHR 0x00 \<notin> set value" "CHR 0x5C \<notin> set value"
    "\<forall>p \<in> set (posix_parts value). p \<notin> {[], ''.'', ''..''}"
    by (auto simp: normalized_relative_path_def monad)
  then show "p \<noteq> []" "p \<noteq> ''.''" "p \<noteq> ''..''" using assms(2) by auto
  have "set p \<subseteq> set value - {CHR ''/''}"
    using assms(2) ok(1) split_slash_plain by (auto simp: posix_parts_def)
  then show "CHR ''/'' \<notin> set p" "CHR 0x5C \<notin> set p" "CHR 0x00 \<notin> set p" using ok(2,3) by auto
qed

lemma walk_parts_Inr:
  assumes "walk_parts fs value root current parts = Inr path"
  shows "path = current @ parts"
    and "\<forall>k < length parts. fs_lstat fs (current @ take (Suc k) parts) \<noteq> Link \<and>
      (fs_lstat fs (current @ take (Suc k) parts) = Entry \<longrightarrow>
        (\<exists>resolved. fs_resolve fs (current @ take (Suc k) parts) = Some resolved \<and> prefix root resolved))"
proof -
  have "path = current @ parts \<and> (\<forall>k < length parts. fs_lstat fs (current @ take (Suc k) parts) \<noteq> Link \<and>
      (fs_lstat fs (current @ take (Suc k) parts) = Entry \<longrightarrow>
        (\<exists>resolved. fs_resolve fs (current @ take (Suc k) parts) = Some resolved \<and> prefix root resolved)))"
    using assms
  proof (induction parts arbitrary: current)
    case (Cons part parts)
    let ?next = "current @ [part]"
    have step: "fs_lstat fs ?next \<noteq> Link" "walk_parts fs value root ?next parts = Inr path"
      "fs_lstat fs ?next = Entry \<longrightarrow> (\<exists>resolved. fs_resolve fs ?next = Some resolved \<and> prefix root resolved)"
      using Cons.prems by (auto simp: monad split: node.splits option.splits)
    from Cons.IH [OF step(2)] step(1,3) show ?case
      by (auto simp: less_Suc_eq_0_disj)
  qed simp
  then show "path = current @ parts"
    and "\<forall>k < length parts. fs_lstat fs (current @ take (Suc k) parts) \<noteq> Link \<and>
      (fs_lstat fs (current @ take (Suc k) parts) = Entry \<longrightarrow>
        (\<exists>resolved. fs_resolve fs (current @ take (Suc k) parts) = Some resolved \<and> prefix root resolved))"
    by auto
qed

text \<open>A path that is resolved is the root of the task followed by plain names, none of which is a link.\<close>

lemma resolved_path_confined:
  assumes "resolve_task_path fs root value allowed require_exists = Inr path"
  shows "\<exists>parts. path = root @ parts \<and> \<not> list_ex (\<lambda>p. p \<in> {[], ''.'', ''..''} \<or> CHR ''/'' \<in> set p) parts \<and>
    (\<forall>k < length parts. fs_lstat fs (root @ take (Suc k) parts) \<noteq> Link)"
proof -
  obtain parts where parts: "normalized_relative_path value = Inr parts"
    "walk_parts fs value root root parts = Inr path"
    using assms by (auto simp: resolve_task_path_def monad split: option.splits)
  have "\<not> list_ex (\<lambda>p. p \<in> {[], ''.'', ''..''} \<or> CHR ''/'' \<in> set p) parts"
    using normalized_relative_path_plain [OF parts(1)] by (auto simp: list_ex_iff)
  then show ?thesis using walk_parts_Inr [OF parts(2)] by (intro exI [of _ parts]) simp
qed

text \<open>The dot that the source lists among the refused components never reaches the check, since the
  library drops it: the path of a dot alone is accepted, and is the root of the task.\<close>

lemma dot_is_accepted: "normalized_relative_path ''.'' = Inr []"
  by (simp add: normalized_relative_path_def posix_parts_def has_drive_def)

end
