(* ===== verification/Approvals.thy ===== *)
theory Approvals imports Task_Commands Task_Paths begin

text \<open>
  \<^verbatim>\<open>backend/harness/services/approvals.py\<close>: approvals whose owner is frozen when they are
  created, and the inbox notifications reduced from them. A locked section is one step. Left out are
  the human-readable title and message of a notification and the context of a request file, which no
  modelled code reads. The request file of an approval is found under its relative name, which is
  resolved in a workspace of plain files and directories: nothing that is modelled makes a link.
\<close>

section \<open>Shared pieces\<close>

text \<open>Constructing a \<open>CommandEnvelope\<close> validates its fields; a pydantic \<open>ValidationError\<close> is a
  \<open>ValueError\<close>.\<close>

definition make_envelope :: "string \<Rightarrow> actor_type \<Rightarrow> string \<Rightarrow> int \<Rightarrow> command_envelope res" where
  "make_envelope key actor_type actor_id expected =
     (let e = \<lparr>ce_idempotency_key = key, ce_actor_type = actor_type, ce_actor_id = actor_id,
               ce_expected_revision = expected\<rparr> in
      bindE (guardE (envelope_valid e) (ValueError ''validation error for CommandEnvelope'')) (\<lambda>_.
      Inr e))"

text \<open>A loop that collects what its passes return.\<close>

fun collectS :: "('a \<Rightarrow> 'b option sop) \<Rightarrow> 'a list \<Rightarrow> 'b list sop" where
  "collectS f [] = returnS []"
| "collectS f (x # xs) =
     bindS (f x) (\<lambda>y. bindS (collectS f xs) (\<lambda>ys.
     returnS (case y of None \<Rightarrow> ys | Some v \<Rightarrow> v # ys)))"

text \<open>\<open>try: m except HarnessError as exc: if exc.code != "REVISION_CONFLICT": raise; continue\<close>.\<close>

definition skip_conflict :: "'a sop \<Rightarrow> 'a option sop" where
  "skip_conflict m s =
     (case m s of
        (Inr x, t) \<Rightarrow> (Inr (Some x), t)
      | (Inl e, t) \<Rightarrow> (if error_code_of e = Some REVISION_CONFLICT then (Inr None, t) else (Inl e, t)))"

definition next_sequence :: "int sop" where
  "next_sequence st = (Inr (st_sequence st + 1), st\<lparr>st_sequence := st_sequence st + 1\<rparr>)"

definition write_approval_payload :: "string \<Rightarrow> string \<Rightarrow> approval_payload \<Rightarrow> unit sop" where
  "write_approval_payload task_id payload_ref p =
     modifyS (\<lambda>st. st\<lparr>st_approval_payloads :=
       AList.update (task_id, [payload_ref]) p (st_approval_payloads st)\<rparr>)"

definition read_approval_payload :: "store \<Rightarrow> string \<Rightarrow> string \<Rightarrow> approval_payload res" where
  "read_approval_payload st task_id payload_ref =
     (case map_of (st_approval_payloads st) (task_id, [payload_ref]) of
        None \<Rightarrow> Inl (ValueError ''invalid JSON'') | Some p \<Rightarrow> Inr p)"

text \<open>The workspace of a task as a file system: the directory \<^verbatim>\<open>approvals\<close>, which \<open>initialize_task\<close>
  makes, and the request files with the directories above them.\<close>

definition task_root :: "string \<Rightarrow> string list" where
  "task_root task_id = [''tasks'', task_id]"

definition request_paths :: "store \<Rightarrow> string \<Rightarrow> string list list" where
  "request_paths st task_id =
     map (\<lambda>(t, ref). concat (map posix_parts ref)) (filter (\<lambda>(t, ref). t = task_id) (map fst (st_approval_payloads st)))"

definition workspace_files :: "store \<Rightarrow> string \<Rightarrow> file_system" where
  "workspace_files st task_id =
     \<lparr>fs_lstat = (\<lambda>path.
        if list_ex (\<lambda>q. prefix path (task_root task_id @ q)) ([''approvals''] # request_paths st task_id) then Entry
        else if list_ex (\<lambda>q. strict_prefix (task_root task_id @ q) path) (request_paths st task_id) then Below_File
        else Missing),
      fs_resolve = Some\<rparr>"

definition resolve_request :: "string \<Rightarrow> string \<Rightarrow> string list sop" where
  "resolve_request task_id value =
     readS (\<lambda>st. resolve_task_path (workspace_files st task_id) (task_root task_id) value (Some [''approvals'']) True)"

text \<open>The directory of the requests always resolves.\<close>

lemma approvals_resolved [simp]:
  "resolve_task_path (workspace_files st task_id) (task_root task_id) ''approvals'' (Some [''approvals'']) True =
     Inr [''tasks'', task_id, ''approvals'']"
  by (simp add: resolve_task_path_def normalized_relative_path_def posix_parts_def has_drive_def
      check_prefixes_def workspace_files_def task_root_def)

definition approval_repo :: "environment \<Rightarrow> repository" where
  "approval_repo env = repository_of env O_approval"

definition inbox_repo :: "environment \<Rightarrow> repository" where
  "inbox_repo env = repository_of env O_inbox"

definition find_approval :: "environment \<Rightarrow> string \<Rightarrow> string \<Rightarrow> approval_request option sop" where
  "find_approval env task_id approval_id =
     bindS (readS (\<lambda>st. repo_get (approval_repo env) st task_id approval_id)) (\<lambda>p.
     case p of None \<Rightarrow> returnS None
     | Some p \<Rightarrow> bindS (liftE (as_approval p)) (\<lambda>a. returnS (Some a)))"

definition approval_revision :: "environment \<Rightarrow> string \<Rightarrow> string \<Rightarrow> int sop" where
  "approval_revision env task_id approval_id =
     readS (\<lambda>st. repo_revision (approval_repo env) st task_id approval_id)"

definition task_for_object :: "string \<Rightarrow> string \<Rightarrow> string sop" where
  "task_for_object directory object_id =
     bindS (liftE (validate_identifier object_id (directory @ ''_id''))) (\<lambda>_.
     bindS (readS (\<lambda>st. Inr (map fst (filter (\<lambda>(t, p). p = [directory, json_file object_id])
       (map fst (st_files st)))))) (\<lambda>matches.
     case matches of
       [t] \<Rightarrow> returnS t
     | _ \<Rightarrow> throwS (HarnessError VALIDATION_ERROR ''The requested control object is not unique.'' [])))"

text \<open>The instance that an approval is about.\<close>

definition task_instance :: "environment \<Rightarrow> string \<Rightarrow> string \<Rightarrow> agent_instance sop" where
  "task_instance env task_id instance_id =
     bindS (readS (\<lambda>st. repo_get (repository_of env O_instance) st task_id instance_id)) (\<lambda>p.
     case p of None \<Rightarrow> throwS instance_not_found
     | Some p \<Rightarrow>
         bindS (liftE (as_instance p)) (\<lambda>i.
         bindS (liftE (guardE (in_task_id i = task_id) instance_not_found)) (\<lambda>_.
         returnS i)))"

section \<open>Notifications\<close>

definition check_owner :: "string \<Rightarrow> unit res" where
  "check_owner owner =
     guardE (owner \<in> {''human'', ''master''})
       (HarnessError VALIDATION_ERROR ''The inbox owner is invalid.'' [])"

record notification_request =
  nr_kind :: string
  nr_owner :: string
  nr_deep_link :: string
  nr_dedupe_key :: string
  nr_instance_id :: "string option"
  nr_approval_id :: "string option"

definition inbox_identity :: "environment \<Rightarrow> string \<Rightarrow> string \<Rightarrow> string" where
  "inbox_identity env task_id dedupe_key =
     ''in_'' @ take 24 (ev_identity_digest env [task_id @ '':'' @ dedupe_key])"

definition ensure_notification ::
  "environment \<Rightarrow> string \<Rightarrow> notification_request \<Rightarrow> inbox_item sop" where
  "ensure_notification env task_id r =
     bindS (liftE (validate_identifier task_id ''task_id'')) (\<lambda>_.
     bindS (liftE (check_owner (nr_owner r))) (\<lambda>_.
     let inbox_id = inbox_identity env task_id (nr_dedupe_key r) in
     bindS (readS (\<lambda>st. repo_get (inbox_repo env) st task_id inbox_id)) (\<lambda>existing.
     case existing of
       Some p \<Rightarrow>
         bindS (liftE (as_inbox p)) (\<lambda>item.
         bindS (liftE (guardE (ib_dedupe_key item = nr_dedupe_key r)
           (HarnessError IDEMPOTENCY_CONFLICT
              ''The inbox identity belongs to a different notification.'' []))) (\<lambda>_.
         returnS item))
     | None \<Rightarrow>
         bindS (utc_now env) (\<lambda>now.
         bindS next_sequence (\<lambda>n.
         let item = \<lparr>ib_inbox_id = inbox_id, ib_task_id = task_id,
               ib_instance_id = nr_instance_id r, ib_approval_id = nr_approval_id r,
               ib_kind = nr_kind r, ib_owner = nr_owner r, ib_status = ''UNREAD'',
               ib_deep_link = nr_deep_link r, ib_created_at = now, ib_sequence = n,
               ib_revision = 1, ib_dedupe_key = nr_dedupe_key r, ib_read_at = None,
               ib_read_by_type = None, ib_read_by_id = None, ib_handled_at = None,
               ib_handled_by_type = None, ib_handled_by_id = None\<rparr> in
         bindS (repo_put env (inbox_repo env) task_id inbox_id (P_inbox item) 0
           \<lparr>ac_type = System, ac_id = ''notification_reducer''\<rparr> ''ensure_notification''
           (''ensure-'' @ inbox_id) None None no_hook) (\<lambda>_.
         returnS item))))))"

section \<open>Creating an approval\<close>

definition payload_ref_of :: "string \<Rightarrow> string" where
  "payload_ref_of approval_id = ''approvals/'' @ approval_id @ ''/request.json''"

text \<open>The body of the creation branches: the request file first, then the approval snapshot.\<close>

definition create_approval ::
  "environment \<Rightarrow> string \<Rightarrow> string \<Rightarrow> string \<Rightarrow> string \<Rightarrow> string \<Rightarrow> string \<Rightarrow> string option \<Rightarrow>
   string list \<Rightarrow> actor \<Rightarrow> string \<Rightarrow> approval_request sop" where
  "create_approval env task_id instance_id step_id approval_id kind owner attempt_id actions actor
     command =
     bindS (utc_now env) (\<lambda>now.
     let payload_ref = payload_ref_of approval_id in
     bindS (initialize_task task_id) (\<lambda>_.
     bindS (resolve_request task_id ''approvals'') (\<lambda>_.
     bindS (write_approval_payload task_id payload_ref
       \<lparr>ay_approval_id = approval_id, ay_task_id = task_id, ay_instance_id = instance_id,
        ay_step_id = step_id, ay_attempt_id = attempt_id, ay_available_actions = actions,
        ay_created_at = now\<rparr>) (\<lambda>_.
     bindS next_sequence (\<lambda>n.
     let approval = \<lparr>ap_approval_id = approval_id, ap_task_id = task_id,
           ap_instance_id = instance_id, ap_step_id = step_id, ap_kind = kind, ap_owner = owner,
           ap_status = ''PENDING'', ap_payload_ref = payload_ref, ap_created_at = now,
           ap_sequence = n, ap_revision = 1, ap_resolved_at = None, ap_resolved_by_type = None,
           ap_resolved_by_id = None\<rparr> in
     bindS (repo_put env (approval_repo env) task_id approval_id (P_approval approval) 0 actor
       command (''ensure-'' @ approval_id) None None no_hook) (\<lambda>_.
     returnS approval))))))"

definition adapter_actor :: "agent_instance \<Rightarrow> actor" where
  "adapter_actor i = \<lparr>ac_type = Adapter, ac_id = agent_type_name (in_agent_type i) @ ''_adapter''\<rparr>"

definition workflow_approval_id ::
  "environment \<Rightarrow> string \<Rightarrow> string \<Rightarrow> string \<Rightarrow> string \<Rightarrow> string" where
  "workflow_approval_id env task_id instance_id step_id operation_id =
     ''ap_'' @ take 24 (ev_identity_digest env [task_id, instance_id, step_id, operation_id])"

type_synonym ensured = "approval_request \<times> int \<times> inbox_item"

text \<open>The last part that the three \<open>ensure\<close> operations share.\<close>

definition notify_and_report ::
  "environment \<Rightarrow> string \<Rightarrow> approval_request \<Rightarrow> notification_request \<Rightarrow> ensured sop" where
  "notify_and_report env task_id approval r =
     bindS (ensure_notification env task_id r) (\<lambda>notification.
     bindS (approval_revision env task_id (ap_approval_id approval)) (\<lambda>revision.
     returnS (approval, revision, notification)))"

definition ensure_workflow_approval ::
  "environment \<Rightarrow> string \<Rightarrow> string \<Rightarrow> string \<Rightarrow> string list \<Rightarrow> string \<Rightarrow> ensured sop" where
  "ensure_workflow_approval env task_id instance_id step_id capabilities operation_id =
     bindS (liftE (validate_identifier task_id ''task_id'')) (\<lambda>_.
     bindS (liftE (validate_identifier instance_id ''instance_id'')) (\<lambda>_.
     bindS (liftE (validate_identifier step_id ''step_id'')) (\<lambda>_.
     bindS (liftE (guardE (capabilities \<noteq> [])
       (HarnessError VALIDATION_ERROR
          ''A workflow approval requires at least one legal action.'' []))) (\<lambda>_.
     bindS (task_instance env task_id instance_id) (\<lambda>i.
     let approval_id = workflow_approval_id env task_id instance_id step_id operation_id in
     bindS (find_approval env task_id approval_id) (\<lambda>existing.
     bindS (case existing of
         Some a \<Rightarrow>
           bindS (liftE (guardE (ap_status a = ''PENDING'')
             (HarnessError STALE_AGENT_OBSERVATION
                ''A resolved workflow gate cannot be reopened by a stale Agent observation.''
                [(''approval_id'', DStr approval_id), (''approval_status'', DStr (ap_status a))])))
             (\<lambda>_. returnS a)
       | None \<Rightarrow>
           create_approval env task_id instance_id step_id approval_id ''WORKFLOW''
             (in_approval_mode i) None (sort (remdups capabilities)) (adapter_actor i)
             ''ensure_workflow_approval'') (\<lambda>approval.
     notify_and_report env task_id approval
       \<lparr>nr_kind = ''APPROVAL_REQUIRED'', nr_owner = ap_owner approval,
        nr_deep_link = ''inbox?approval_id='' @ approval_id,
        nr_dedupe_key = ''approval:'' @ approval_id, nr_instance_id = Some instance_id,
        nr_approval_id = Some approval_id\<rparr>)))))))"

definition workflow_approval ::
  "environment \<Rightarrow> string \<Rightarrow> string \<Rightarrow> string \<Rightarrow> string \<Rightarrow> approval_request option sop" where
  "workflow_approval env task_id instance_id step_id operation_id =
     find_approval env task_id (workflow_approval_id env task_id instance_id step_id operation_id)"

text \<open>A delivery bundle candidate, of which the approval uses these fields; \<open>schema_ok\<close> is the
  outcome of its contract check.\<close>

record bundle_candidate =
  bc_task_id :: string
  bc_instance_id :: string
  bc_bundle_id :: string
  bc_status :: string

text \<open>An existing approval under the deterministic id must be of the expected kind.\<close>

definition existing_or_create ::
  "string \<Rightarrow> string \<Rightarrow> approval_request option \<Rightarrow> approval_request sop \<Rightarrow> approval_request sop" where
  "existing_or_create kind message existing create =
     (case existing of
        None \<Rightarrow> create
      | Some a \<Rightarrow>
          bindS (liftE (guardE (ap_kind a = kind) (HarnessError IDEMPOTENCY_CONFLICT message [])))
            (\<lambda>_. returnS a))"

definition ensure_delivery_review_approval ::
  "environment \<Rightarrow> string \<Rightarrow> string \<Rightarrow> bundle_candidate \<Rightarrow> unit res \<Rightarrow> ensured sop" where
  "ensure_delivery_review_approval env task_id instance_id candidate schema_ok =
     bindS (liftE (validate_identifier task_id ''task_id'')) (\<lambda>_.
     bindS (liftE (validate_identifier instance_id ''instance_id'')) (\<lambda>_.
     bindS (task_instance env task_id instance_id) (\<lambda>i.
     bindS (liftE schema_ok) (\<lambda>_.
     bindS (liftE (guardE (bc_task_id candidate = task_id \<and> bc_instance_id candidate = instance_id \<and>
         bc_status candidate = ''PENDING_CONFIRMATION'')
       (HarnessError VALIDATION_ERROR
          ''The delivery review candidate has an invalid owner or state.'' []))) (\<lambda>_.
     let bundle_id = bc_bundle_id candidate;
         approval_id = ''ap_'' @ take 24 (ev_identity_digest env [''DELIVERY_REVIEW'', bundle_id]);
         step_id = ''delivery_'' @ take 24 (ev_identity_digest env [bundle_id]) in
     bindS (find_approval env task_id approval_id) (\<lambda>existing.
     bindS (existing_or_create ''DELIVERY_REVIEW''
       ''The deterministic delivery approval id belongs to another request.'' existing
       (create_approval env task_id instance_id step_id approval_id ''DELIVERY_REVIEW'' ''human'' None
          [''publish_bundle''] (adapter_actor i) ''ensure_delivery_review_approval'')) (\<lambda>approval.
     notify_and_report env task_id approval
       \<lparr>nr_kind = ''DELIVERY_REVIEW_REQUIRED'', nr_owner = ''human'',
        nr_deep_link = ''tasks/'' @ task_id @ ''/deliveries?bundle_id='' @ bundle_id,
        nr_dedupe_key = ''delivery-review:'' @ bundle_id, nr_instance_id = Some instance_id,
        nr_approval_id = Some approval_id\<rparr>)))))))"

definition budget_approval_identity ::
  "environment \<Rightarrow> string \<Rightarrow> string \<Rightarrow> string \<Rightarrow> string \<times> string" where
  "budget_approval_identity env task_id instance_id attempt_id =
     (let identity = take 24 (ev_identity_digest env
            [''BUDGET_OVERRIDE'', task_id, instance_id, attempt_id]) in
      (''ap_'' @ identity, ''budget_'' @ identity))"

definition ensure_budget_approval ::
  "environment \<Rightarrow> string \<Rightarrow> string \<Rightarrow> string \<Rightarrow> ensured sop" where
  "ensure_budget_approval env task_id instance_id attempt_id =
     bindS (liftE (validate_identifier task_id ''task_id'')) (\<lambda>_.
     bindS (liftE (validate_identifier instance_id ''instance_id'')) (\<lambda>_.
     bindS (liftE (validate_identifier attempt_id ''attempt_id'')) (\<lambda>_.
     bindS (task_instance env task_id instance_id) (\<lambda>_.
     let (approval_id, step_id) = budget_approval_identity env task_id instance_id attempt_id in
     bindS (find_approval env task_id approval_id) (\<lambda>existing.
     bindS (existing_or_create ''BUDGET_OVERRIDE''
       ''The deterministic budget approval id belongs to another request.'' existing
       (create_approval env task_id instance_id step_id approval_id ''BUDGET_OVERRIDE'' ''human''
          (Some attempt_id) [''approve_once''] \<lparr>ac_type = System, ac_id = ''retry_budget_gate''\<rparr>
          ''ensure_budget_approval'')) (\<lambda>approval.
     notify_and_report env task_id approval
       \<lparr>nr_kind = ''BUDGET_APPROVAL_REQUIRED'', nr_owner = ''human'',
        nr_deep_link = ''inbox?approval_id='' @ approval_id,
        nr_dedupe_key = ''budget-approval:'' @ approval_id, nr_instance_id = Some instance_id,
        nr_approval_id = Some approval_id\<rparr>))))))"

section \<open>Reading approvals and the inbox\<close>

definition approval_missing :: exn where
  "approval_missing =
     HarnessError VALIDATION_ERROR ''The requested approval does not exist.'' []"

definition get_approval :: "environment \<Rightarrow> string \<Rightarrow> (approval_request \<times> int \<times> approval_payload) sop" where
  "get_approval env approval_id =
     bindS (task_for_object ''approvals'' approval_id) (\<lambda>task_id.
     bindS (find_approval env task_id approval_id) (\<lambda>existing.
     case existing of None \<Rightarrow> throwS approval_missing | Some approval \<Rightarrow>
     bindS (resolve_request task_id (ap_payload_ref approval)) (\<lambda>_.
     bindS (readS (\<lambda>st. read_approval_payload st task_id (ap_payload_ref approval))) (\<lambda>p.
     bindS (approval_revision env task_id approval_id) (\<lambda>revision.
     returnS (approval, revision, p))))))"

text \<open>A filter that is \<open>None\<close> lets everything pass.\<close>

definition passes :: "'a option \<Rightarrow> 'a \<Rightarrow> bool" where
  "passes f x = (case f of None \<Rightarrow> True | Some y \<Rightarrow> x = y)"

text \<open>The objects of one task that pass, each with the revision of its file.\<close>

definition listed_of ::
  "repository \<Rightarrow> (payload \<Rightarrow> 'a res) \<Rightarrow> ('a \<Rightarrow> string) \<Rightarrow> ('a \<Rightarrow> bool) \<Rightarrow> store \<Rightarrow> string \<Rightarrow>
   ('a \<times> int) list res" where
  "listed_of R read_as identifier keep st task_id =
     bindE (repo_list R st task_id) (\<lambda>ps.
     bindE (mapE read_as ps) (\<lambda>xs.
     mapE (\<lambda>x. bindE (repo_revision R st task_id (identifier x)) (\<lambda>n. Inr (x, n)))
       (filter keep xs)))"

definition approval_order :: "approval_request \<times> int \<Rightarrow> string \<times> int \<times> string" where
  "approval_order = (\<lambda>(a, n). (ap_created_at a, ap_sequence a, ap_approval_id a))"

definition inbox_order :: "inbox_item \<times> int \<Rightarrow> string \<times> int \<times> string" where
  "inbox_order = (\<lambda>(x, n). (ib_created_at x, ib_sequence x, ib_inbox_id x))"

definition list_approvals ::
  "environment \<Rightarrow> store \<Rightarrow> string option \<Rightarrow> string option \<Rightarrow> string option \<Rightarrow> string option \<Rightarrow>
   (approval_request \<times> int) list res" where
  "list_approvals env st task_id instance_id owner status =
     bindE (case task_id of
         None \<Rightarrow> Inr (task_directories st)
       | Some t \<Rightarrow> bindE (validate_identifier t ''task_id'') (\<lambda>_. Inr [t])) (\<lambda>task_ids.
     bindE (mapE (listed_of (approval_repo env) as_approval ap_approval_id
         (\<lambda>a. passes instance_id (ap_instance_id a) \<and> passes owner (ap_owner a) \<and>
              passes status (ap_status a)) st) task_ids) (\<lambda>values.
     Inr (sort_key approval_order (concat values))))"

definition list_inbox ::
  "environment \<Rightarrow> store \<Rightarrow> string \<Rightarrow> string option \<Rightarrow> int option \<Rightarrow>
   (inbox_item \<times> int) list res" where
  "list_inbox env st owner status limit =
     bindE (guardE (owner \<in> {''human'', ''master''} \<and>
         status \<in> {None, Some ''UNREAD'', Some ''READ'', Some ''HANDLED''})
       (HarnessError VALIDATION_ERROR ''The inbox filter is invalid.'' [])) (\<lambda>_.
     bindE (guardE (case limit of None \<Rightarrow> True | Some n \<Rightarrow> 1 \<le> n \<and> n \<le> 200)
       (HarnessError VALIDATION_ERROR ''The inbox limit is invalid.'' [])) (\<lambda>_.
     bindE (mapE (listed_of (inbox_repo env) as_inbox ib_inbox_id
         (\<lambda>x. ib_owner x = owner \<and> passes status (ib_status x)) st) (task_directories st))
       (\<lambda>values.
     let ordered = sort_key inbox_order (concat values) in
     Inr (case limit of None \<Rightarrow> ordered | Some n \<Rightarrow> take (nat n) ordered))))"

text \<open>\<open>passes status\<close> above takes the optional status of an item, which every item has.\<close>

definition unread_count :: "environment \<Rightarrow> store \<Rightarrow> string \<Rightarrow> int res" where
  "unread_count env st owner =
     bindE (list_inbox env st owner (Some ''UNREAD'') None) (\<lambda>xs. Inr (int (length xs)))"

section \<open>Deciding an approval\<close>

definition resolved_approval ::
  "approval_request \<Rightarrow> string \<Rightarrow> string \<Rightarrow> string \<Rightarrow> string \<Rightarrow> approval_request" where
  "resolved_approval a status now actor_type actor_id =
     a\<lparr>ap_status := status, ap_revision := ap_revision a + 1, ap_resolved_at := Some now,
       ap_resolved_by_type := Some actor_type, ap_resolved_by_id := Some actor_id\<rparr>"

definition stale_revision :: "string \<Rightarrow> int \<Rightarrow> int \<Rightarrow> exn" where
  "stale_revision message expected actual =
     HarnessError REVISION_CONFLICT message
       [(''expected_revision'', DInt expected), (''actual_revision'', DInt actual)]"

text \<open>The decision on the approval that was read.\<close>

definition decide_approval ::
  "environment \<Rightarrow> string \<Rightarrow> string \<Rightarrow> command_envelope \<Rightarrow> approval_request \<Rightarrow> int \<Rightarrow>
   command_result sop" where
  "decide_approval env approval_id decision envelope approval revision =
     (let task_id = ap_task_id approval;
         request = R_resolve_approval approval_id decision;
         sha = ev_request_digest env ''resolve_approval'' request in
     bindS (readS (\<lambda>st. lookup_committed_command_result st task_id (ce_idempotency_key envelope)
       ''resolve_approval'' sha)) (\<lambda>committed.
     case committed of Some result \<Rightarrow> returnS result | None \<Rightarrow>
     bindS (liftE (guardE (decision \<in> {''APPROVED'', ''REJECTED''})
       (HarnessError VALIDATION_ERROR ''The approval decision is invalid.'' []))) (\<lambda>_.
     bindS (liftE (guardE (ap_status approval = ''PENDING'')
       (HarnessError INVALID_STATE_TRANSITION ''Only a pending approval may be resolved.'' [])))
       (\<lambda>_.
     bindS (liftE (guardE (actor_type_name (ce_actor_type envelope) = ap_owner approval)
       (HarnessError VALIDATION_ERROR
          ''The approval must be resolved by its frozen owner.'' []))) (\<lambda>_.
     bindS (liftE (guardE (ce_expected_revision envelope = revision)
       (stale_revision ''The approval revision changed before the decision committed.''
          (ce_expected_revision envelope) revision))) (\<lambda>_.
     bindS (utc_now env) (\<lambda>now.
     let updated = resolved_approval approval decision now
           (actor_type_name (ce_actor_type envelope)) (ce_actor_id envelope);
         result = V_approval updated (revision + 1) in
     bindS (repo_put env (approval_repo env) task_id approval_id (P_approval updated) revision
       (actor_of envelope) ''resolve_approval'' (ce_idempotency_key envelope) (Some result)
       (Some sha) no_hook) (\<lambda>_.
     returnS result))))))))"

definition commit_resolution ::
  "environment \<Rightarrow> string \<Rightarrow> string \<Rightarrow> command_envelope \<Rightarrow> command_result sop" where
  "commit_resolution env approval_id decision envelope =
     bindS (get_approval env approval_id) (\<lambda>(approval, revision, _).
     decide_approval env approval_id decision envelope approval revision)"

section \<open>The status of a notification\<close>

definition or_else :: "'a option \<Rightarrow> 'a \<Rightarrow> 'a option" where
  "or_else x d = (case x of None \<Rightarrow> Some d | Some v \<Rightarrow> Some v)"

definition marked_item ::
  "inbox_item \<Rightarrow> string \<Rightarrow> string \<Rightarrow> string \<Rightarrow> string \<Rightarrow> inbox_item" where
  "marked_item x target now actor_type actor_id =
     (let y = x\<lparr>ib_status := target, ib_revision := ib_revision x + 1,
            ib_read_at := or_else (ib_read_at x) now,
            ib_read_by_type := or_else (ib_read_by_type x) actor_type,
            ib_read_by_id := or_else (ib_read_by_id x) actor_id\<rparr> in
      if target = ''HANDLED''
      then y\<lparr>ib_handled_at := Some now, ib_handled_by_type := Some actor_type,
             ib_handled_by_id := Some actor_id\<rparr>
      else y)"

definition update_inbox_status ::
  "environment \<Rightarrow> string \<Rightarrow> string \<Rightarrow> command_envelope \<Rightarrow> bool \<Rightarrow> command_result sop" where
  "update_inbox_status env inbox_id target envelope enforce_owner =
     bindS (task_for_object ''inbox'' inbox_id) (\<lambda>task_id.
     bindS (readS (\<lambda>st. read_wrapper (inbox_repo env) st task_id inbox_id)) (\<lambda>wrapper.
     case wrapper of
       None \<Rightarrow> throwS (HarnessError VALIDATION_ERROR ''The inbox item does not exist.'' [])
     | Some w \<Rightarrow>
     bindS (liftE (as_inbox (wr_payload w))) (\<lambda>current.
     let sha = ev_request_digest env ''update_inbox_status'' (R_update_inbox inbox_id target);
         actor_type = actor_type_name (ce_actor_type envelope) in
     bindS (readS (\<lambda>st. lookup_committed_command_result st task_id (ce_idempotency_key envelope)
       ''update_inbox_status'' sha)) (\<lambda>committed.
     case committed of Some result \<Rightarrow> returnS result | None \<Rightarrow>
     bindS (liftE (guardE (target \<in> {''READ'', ''HANDLED''} \<and> ib_status current \<noteq> ''HANDLED'')
       (HarnessError INVALID_STATE_TRANSITION ''The inbox transition is invalid.'' []))) (\<lambda>_.
     bindS (liftE (guardE (enforce_owner \<longrightarrow> actor_type = ib_owner current)
       (HarnessError VALIDATION_ERROR ''The inbox item belongs to another owner.'' []))) (\<lambda>_.
     bindS (liftE (guardE (ce_expected_revision envelope = wr_revision w)
       (stale_revision ''The inbox revision changed before the command committed.''
          (ce_expected_revision envelope) (wr_revision w)))) (\<lambda>_.
     bindS (utc_now env) (\<lambda>now.
     let updated = marked_item current target now actor_type (ce_actor_id envelope);
         result = V_inbox updated (wr_revision w + 1) in
     bindS (repo_put env (inbox_repo env) task_id inbox_id (P_inbox updated) (wr_revision w)
       (actor_of envelope) ''update_inbox_status'' (ce_idempotency_key envelope) (Some result)
       (Some sha) no_hook) (\<lambda>_.
     returnS result)))))))))"

fun result_item :: "command_result \<Rightarrow> inbox_item res" where
  "result_item (V_inbox x n) = Inr x"
| "result_item _ = Inl (KeyError ''item'')"

definition parse_actor_type :: "string \<Rightarrow> actor_type res" where
  "parse_actor_type s =
     (if s = ''human'' then Inr Human else if s = ''master'' then Inr Master
      else if s = ''system'' then Inr System else if s = ''adapter'' then Inr Adapter
      else Inl (ValueError ''validation error for CommandEnvelope''))"

definition view_one :: "environment \<Rightarrow> string \<Rightarrow> inbox_item \<times> int \<Rightarrow> inbox_item option sop" where
  "view_one env owner = (\<lambda>(x, n).
     bindS (skip_conflict
       (bindS (liftE (parse_actor_type owner)) (\<lambda>actor_type.
        bindS (liftE (make_envelope (''view-'' @ ib_inbox_id x @ ''-'' @ show_int n) actor_type
          (owner @ ''_operator'') n)) (\<lambda>envelope.
        update_inbox_status env (ib_inbox_id x) ''READ'' envelope True)))) (\<lambda>result.
     case result of None \<Rightarrow> returnS None
     | Some v \<Rightarrow> bindS (liftE (result_item v)) (\<lambda>y. returnS (Some y))))"

definition mark_instance_notifications_read ::
  "environment \<Rightarrow> string \<Rightarrow> string \<Rightarrow> inbox_item list sop" where
  "mark_instance_notifications_read env instance_id owner =
     bindS (liftE (validate_identifier instance_id ''instance_id'')) (\<lambda>_.
     bindS (readS (\<lambda>st. list_inbox env st owner (Some ''UNREAD'') None)) (\<lambda>items.
     collectS (view_one env owner)
       (filter (\<lambda>(x, n). ib_instance_id x = Some instance_id) items)))"

definition clear_one :: "environment \<Rightarrow> string \<Rightarrow> inbox_item \<times> int \<Rightarrow> string option sop" where
  "clear_one env owner = (\<lambda>(x, n).
     bindS (liftE (parse_actor_type owner)) (\<lambda>actor_type.
     bindS (skip_conflict (repo_delete env (inbox_repo env) (ib_task_id x) (ib_inbox_id x) n
       \<lparr>ac_type = actor_type, ac_id = owner @ ''_operator''\<rparr> ''clear_read_inbox''
       (''clear-read-'' @ ib_inbox_id x @ ''-'' @ show_int n))) (\<lambda>deleted.
     returnS (if deleted = Some True then Some (ib_inbox_id x) else None))))"

definition clear_read_notifications :: "environment \<Rightarrow> string \<Rightarrow> (string list \<times> int) sop" where
  "clear_read_notifications env owner =
     bindS (liftE (check_owner owner)) (\<lambda>_.
     bindS (readS (\<lambda>st. list_inbox env st owner (Some ''READ'') None)) (\<lambda>items.
     bindS (collectS (clear_one env owner) items) (\<lambda>removed.
     returnS (removed, int (length removed)))))"

section \<open>Approvals handled outside\<close>

definition handle_external_one :: "environment \<Rightarrow> string \<Rightarrow> inbox_item \<times> int \<Rightarrow> unit sop" where
  "handle_external_one env actor_id = (\<lambda>(x, n).
     if ib_status x = ''HANDLED'' then returnS ()
     else
       bindS (liftE (make_envelope (''external-handled-'' @ ib_inbox_id x @ ''-'' @ show_int n)
         Adapter actor_id n)) (\<lambda>envelope.
       bindS (update_inbox_status env (ib_inbox_id x) ''HANDLED'' envelope False) (\<lambda>_.
       returnS ())))"

definition handle_external_approval_notifications ::
  "environment \<Rightarrow> string \<Rightarrow> approval_request \<Rightarrow> unit sop" where
  "handle_external_approval_notifications env actor_id approval =
     bindS (readS (\<lambda>st. list_inbox env st (ap_owner approval) None None)) (\<lambda>items.
     forS (handle_external_one env actor_id)
       (filter (\<lambda>(x, n). ib_approval_id x = Some (ap_approval_id approval)) items))"

definition acknowledge_one ::
  "environment \<Rightarrow> string \<Rightarrow> string option \<Rightarrow> string \<Rightarrow> approval_request \<times> int \<Rightarrow>
   approval_request option sop" where
  "acknowledge_one env task_id current_approval_id actor_id = (\<lambda>(a, n).
     if ap_kind a \<noteq> ''WORKFLOW'' \<or> Some (ap_approval_id a) = current_approval_id then returnS None
     else
       bindS (utc_now env) (\<lambda>now.
       let updated = resolved_approval a ''APPROVED'' now ''adapter'' actor_id in
       bindS (repo_put env (approval_repo env) task_id (ap_approval_id a) (P_approval updated) n
         \<lparr>ac_type = Adapter, ac_id = actor_id\<rparr> ''acknowledge_external_workflow_approval''
         (''external-resolution-'' @ ap_approval_id a @ ''-'' @ show_int n) None None no_hook) (\<lambda>_.
       returnS (Some updated))))"

definition acknowledge_external_workflow_approvals ::
  "environment \<Rightarrow> string \<Rightarrow> string \<Rightarrow> string option \<Rightarrow> string option \<Rightarrow> string \<Rightarrow>
   approval_request list sop" where
  "acknowledge_external_workflow_approvals env task_id instance_id current_step_id
     current_operation_id actor_id =
     (let current_approval_id = (case (current_step_id, current_operation_id) of
            (Some step, Some operation) \<Rightarrow>
              Some (workflow_approval_id env task_id instance_id step operation)
          | _ \<Rightarrow> None) in
      bindS (readS (\<lambda>st. list_approvals env st (Some task_id) (Some instance_id) None
        (Some ''PENDING''))) (\<lambda>pending.
      bindS (collectS (acknowledge_one env task_id current_approval_id actor_id) pending)
        (\<lambda>resolved.
      bindS (readS (\<lambda>st. list_approvals env st (Some task_id) (Some instance_id) None None)) (\<lambda>all.
      bindS (forS (handle_external_approval_notifications env actor_id)
        (filter (\<lambda>a. ap_kind a = ''WORKFLOW'' \<and> ap_status a = ''APPROVED'' \<and>
           ap_resolved_by_type a = Some ''adapter'') (map fst all))) (\<lambda>_.
      returnS resolved)))))"

definition handle_approval_notification ::
  "environment \<Rightarrow> string option \<Rightarrow> actor \<Rightarrow> string \<Rightarrow> inbox_item option sop" where
  "handle_approval_notification env approval_id actor key =
     bindS (readS (\<lambda>st. list_inbox env st (actor_type_name (ac_type actor)) None (Some 200)))
       (\<lambda>items.
     case filter (\<lambda>(x, n). ib_approval_id x = approval_id) items of
       [] \<Rightarrow> returnS None
     | (x, n) # _ \<Rightarrow>
         if ib_status x = ''HANDLED'' then returnS (Some x)
         else
           bindS (liftE (make_envelope key (ac_type actor) (ac_id actor) n)) (\<lambda>envelope.
           bindS (update_inbox_status env (ib_inbox_id x) ''HANDLED'' envelope True) (\<lambda>result.
           bindS (liftE (result_item result)) (\<lambda>y. returnS (Some y)))))"

section \<open>Terminal notifications\<close>

definition terminal_notification ::
  "environment \<Rightarrow> agent_instance \<Rightarrow> notification_request option" where
  "terminal_notification env i =
     (let notice = (\<lambda>kind prefix suffix. Some
            \<lparr>nr_kind = kind, nr_owner = ''human'', nr_deep_link = ''instances/'' @ in_instance_id i,
             nr_dedupe_key = prefix @ in_instance_id i @ suffix,
             nr_instance_id = Some (in_instance_id i), nr_approval_id = None\<rparr>) in
      if in_agent_type i \<notin> {Image, Ppt} then None
      else if in_status i = I_SUCCEEDED then
        notice ''INSTANCE_SUCCEEDED'' ''instance-succeeded:'' []
      else if in_status i = I_FAILED \<and> in_delivery_rejection i \<noteq> None then
        (case in_delivery_rejection i of None \<Rightarrow> None | Some d \<Rightarrow>
          notice ''INSTANCE_DELIVERY_REJECTED'' ''instance-delivery-rejected:''
            ('':'' @ take 20 (ev_identity_digest env [dr_code d, dr_message d, dr_details d])))
      else if in_status i \<in> {I_FAILED, I_FAILED_TO_START} then
        notice ''INSTANCE_FAILED'' ''instance-failed:'' []
      else if in_status i = I_CRASHED then notice ''INSTANCE_CRASHED'' ''instance-crashed:'' []
      else None)"

definition notify_terminal :: "environment \<Rightarrow> string \<Rightarrow> agent_instance \<Rightarrow> unit sop" where
  "notify_terminal env task_id i =
     (case terminal_notification env i of None \<Rightarrow> returnS ()
      | Some r \<Rightarrow> bindS (ensure_notification env task_id r) (\<lambda>_. returnS ()))"

definition reconcile_task_notifications :: "environment \<Rightarrow> string \<Rightarrow> unit sop" where
  "reconcile_task_notifications env task_id =
     bindS (readS (\<lambda>st. repo_get (repository_of env O_plan) st task_id task_id)) (\<lambda>plan.
     case plan of None \<Rightarrow> returnS ()
     | Some p \<Rightarrow>
         bindS (liftE (as_plan p)) (\<lambda>plan. forS (notify_terminal env task_id) (pl_instances plan)))"

definition reconcile_terminal_notifications :: "environment \<Rightarrow> unit sop" where
  "reconcile_terminal_notifications env =
     bindS (readS (\<lambda>st. Inr (task_directories st)))
       (forS (reconcile_task_notifications env))"

end
