(* ===== verification/Model_Calls.thy ===== *)
theory Model_Calls imports Approvals begin

text \<open>
  The model-call records of \<^verbatim>\<open>backend/harness/services/supervisor_lifecycle.py\<close>, which are the roots of
  every chain of retries. The supervisor reads the active launch of the instance from its launch
  files, which no modelled code writes: it is an argument.
\<close>

section \<open>Operations\<close>

text \<open>What the supervisor reads of a launch record.\<close>

record launch =
  la_launch_id :: string
  la_state :: string

definition attempt_path :: "string \<Rightarrow> string \<Rightarrow> file_path" where
  "attempt_path task_id attempt_id = (task_id, [''attempts'', json_file attempt_id])"

definition write_model_call :: "file_path \<Rightarrow> model_call \<Rightarrow> unit sop" where
  "write_model_call path r =
     modifyS (\<lambda>st. st\<lparr>st_model_calls := AList.update path r (st_model_calls st)\<rparr>)"

definition begin_model_call ::
  "environment \<Rightarrow> string \<Rightarrow> string \<Rightarrow> string \<Rightarrow> string \<Rightarrow> launch option \<Rightarrow> model_call sop" where
  "begin_model_call env task_id instance_id attempt_id request_id current =
     bindS (liftE (validate_identifier attempt_id ''attempt_id'')) (\<lambda>_.
     bindS (liftE (guardE (request_id \<noteq> [] \<and> length request_id \<le> 512 \<and> CHR 0x00 \<notin> set request_id)
       (HarnessError VALIDATION_ERROR ''The Provider request id is invalid.'' []))) (\<lambda>_.
     let path = attempt_path task_id attempt_id in
     case current of
       None \<Rightarrow> throwS (HarnessError PROCESS_START_FAILED ''The instance has no ready process.'' [])
     | Some launch \<Rightarrow>
     bindS (liftE (guardE (la_state launch = ''RUNNING'')
       (HarnessError PROCESS_START_FAILED ''The instance has no ready process.'' []))) (\<lambda>_.
     bindS (readS (\<lambda>st. Inr (map_of (st_model_calls st) path))) (\<lambda>existing.
     case existing of
       Some r \<Rightarrow>
         bindS (liftE (guardE (mc_request_id r = request_id \<and> mc_instance_id r = instance_id)
           (HarnessError IDEMPOTENCY_CONFLICT
              ''The attempt id was reused for another model call.'' []))) (\<lambda>_.
         returnS r)
     | None \<Rightarrow>
         bindS (utc_now env) (\<lambda>now.
         let r = \<lparr>mc_attempt_id = attempt_id, mc_request_id = request_id, mc_task_id = task_id,
               mc_instance_id = instance_id, mc_launch_id = la_launch_id launch,
               mc_status = ''IN_PROGRESS'', mc_started_at = now, mc_completed_at = None\<rparr> in
         bindS (write_model_call path r) (\<lambda>_.
         returnS r))))))"

definition complete_model_call :: "environment \<Rightarrow> string \<Rightarrow> string \<Rightarrow> model_call sop" where
  "complete_model_call env task_id attempt_id =
     (let path = attempt_path task_id attempt_id in
      bindS (readS (\<lambda>st. Inr (map_of (st_model_calls st) path))) (\<lambda>existing.
      case existing of
        None \<Rightarrow> throwS (HarnessError VALIDATION_ERROR ''The model-call attempt does not exist.'' [])
      | Some r \<Rightarrow>
          if mc_status r = ''IN_PROGRESS'' then
            bindS (utc_now env) (\<lambda>now.
            let r = r\<lparr>mc_status := ''COMPLETED'', mc_completed_at := Some now\<rparr> in
            bindS (write_model_call path r) (\<lambda>_.
            returnS r))
          else returnS r))"

end
