(* ===== verification/Retry_Lineage.thy ===== *)
theory Retry_Lineage imports Model_Calls begin

text \<open>
  \<^verbatim>\<open>backend/harness/services/retry_lineage.py\<close>: the registered model call and the instance at
  the root of a chain of retries. The loop that walks the chain ends because it visits no attempt
  twice; \<open>lineage_root_iff\<close> says what it finds.
\<close>

section \<open>Operations\<close>

record retry_lineage =
  rl_root_attempt_id :: string
  rl_root_instance_id :: string
  rl_retry_group_id :: string

definition registered_root_attempt ::
  "store \<Rightarrow> string \<Rightarrow> string \<Rightarrow> string \<Rightarrow> model_call res" where
  "registered_root_attempt st task_id instance_id attempt_id =
     (case map_of (st_model_calls st) (attempt_path task_id attempt_id) of
        None \<Rightarrow> Inl (HarnessError VALIDATION_ERROR
                  ''The retry root is not a registered model-call attempt.'' [])
      | Some r \<Rightarrow>
          if mc_attempt_id r \<noteq> attempt_id \<or> mc_task_id r \<noteq> task_id \<or> mc_instance_id r \<noteq> instance_id
          then Inl (HarnessError VALIDATION_ERROR
                 ''The retry root does not belong to the requested task and instance.'' [])
          else Inr r)"

definition ensure_attempt_id_available :: "store \<Rightarrow> string \<Rightarrow> string \<Rightarrow> unit res" where
  "ensure_attempt_id_available st task_id attempt_id =
     guardE (map_of (st_model_calls st) (attempt_path task_id attempt_id) = None)
       (HarnessError IDEMPOTENCY_CONFLICT
          ''The retry attempt id already belongs to a registered model call.'' [])"

definition derived_retry_group_id :: "environment \<Rightarrow> string \<Rightarrow> string \<Rightarrow> string" where
  "derived_retry_group_id env task_id root_attempt_id =
     ''retry_group_'' @ take 24 (ev_identity_digest env [task_id, root_attempt_id])"

abbreviation attempts_by_id :: "attempt list \<Rightarrow> string \<Rightarrow> attempt option" where
  "attempts_by_id \<equiv> dict_by at_attempt_id"

definition lineage_cycle :: exn where
  "lineage_cycle =
     HarnessError VALIDATION_ERROR ''The registered retry lineage contains a cycle.'' []"

definition invalid_root_binding :: exn where
  "invalid_root_binding =
     HarnessError VALIDATION_ERROR ''The registered retry lineage has an invalid root binding.'' []"

text \<open>The loop; \<open>visited\<close> is the set of the attempt ids of the earlier passes.\<close>

function lineage_root ::
  "attempt list \<Rightarrow> string list \<Rightarrow> attempt \<Rightarrow> (string \<times> string) res" where
  "lineage_root attempts visited current =
     (if at_attempt_id current \<in> set visited then Inl lineage_cycle
      else case (at_root_attempt_id current, at_root_instance_id current) of
        (Some r, Some i) \<Rightarrow> Inr (r, i)
      | (None, None) \<Rightarrow>
          (case attempts_by_id attempts (at_retry_of current) of
             None \<Rightarrow> Inr (at_retry_of current, at_instance_id current)
           | Some predecessor \<Rightarrow>
               lineage_root attempts (at_attempt_id current # visited) predecessor)
      | _ \<Rightarrow> Inl invalid_root_binding)"
  by pat_completeness auto

text \<open>Each pass removes an attempt from those not yet visited; only the first attempt need not be
  in the dictionary.\<close>

definition unvisited :: "attempt list \<Rightarrow> string list \<Rightarrow> attempt \<Rightarrow> nat" where
  "unvisited attempts visited current =
     card (at_attempt_id ` set attempts - set visited) +
     (if at_attempt_id current \<in> at_attempt_id ` set attempts then 0 else 1)"

lemma unvisited_decreases:
  assumes "at_attempt_id current \<notin> set visited"
    and "attempts_by_id attempts (at_retry_of current) = Some predecessor"
  shows "unvisited attempts (at_attempt_id current # visited) predecessor <
    unvisited attempts visited current"
proof -
  let ?ids = "at_attempt_id ` set attempts" and ?c = "at_attempt_id current"
  have p: "at_attempt_id predecessor \<in> ?ids" using dict_by_Some [OF assms(2)] by blast
  show ?thesis
  proof (cases "?c \<in> ?ids")
    case True
    then have "card (?ids - insert ?c (set visited)) < card (?ids - set visited)"
      using assms(1) by (intro psubset_card_mono) auto
    with p True show ?thesis by (simp add: unvisited_def)
  next
    case False
    then have "?ids - insert ?c (set visited) = ?ids - set visited" by auto
    with p False show ?thesis by (simp add: unvisited_def)
  qed
qed

termination lineage_root
  by (relation "measure (\<lambda>(attempts, visited, current). unvisited attempts visited current)")
    (auto dest: unvisited_decreases)

declare lineage_root.simps [simp del]

definition resolve_lineage ::
  "environment \<Rightarrow> store \<Rightarrow> retry_budget \<Rightarrow> string \<Rightarrow> string \<Rightarrow> string \<Rightarrow> retry_lineage res" where
  "resolve_lineage env st snapshot task_id instance_id retry_of =
     (let attempts = rb_attempts snapshot; parent = attempts_by_id attempts retry_of in
      bindE (case parent of
          None \<Rightarrow>
            bindE (registered_root_attempt st task_id instance_id retry_of) (\<lambda>_.
            Inr (retry_of, instance_id))
        | Some p \<Rightarrow>
            bindE (lineage_root attempts [] p) (\<lambda>(root, root_instance).
            bindE (registered_root_attempt st task_id root_instance root) (\<lambda>_.
            Inr (root, root_instance)))) (\<lambda>(root, root_instance).
      let group = derived_retry_group_id env task_id root in
      bindE (guardE (case parent of None \<Rightarrow> True | Some p \<Rightarrow> at_retry_group_id p = group)
        (HarnessError VALIDATION_ERROR
           ''The registered retry lineage has an invalid retry group.'' [])) (\<lambda>_.
      Inr \<lparr>rl_root_attempt_id = root, rl_root_instance_id = root_instance,
           rl_retry_group_id = group\<rparr>)))"

section \<open>What the loop finds\<close>

text \<open>\<open>follows attempts a b\<close>: the unbound attempt \<open>a\<close> retries the recorded attempt \<open>b\<close>.\<close>

definition unbound :: "attempt \<Rightarrow> bool" where
  "unbound a = (at_root_attempt_id a = None \<and> at_root_instance_id a = None)"

inductive follows :: "attempt list \<Rightarrow> attempt \<Rightarrow> attempt \<Rightarrow> bool" for attempts where
  follow: "unbound a \<Longrightarrow> attempts_by_id attempts (at_retry_of a) = Some b \<Longrightarrow> follows attempts a b"

inductive_simps follows_iff: "follows attempts a b"

text \<open>\<open>ends_at attempts a (r, i)\<close>: the chain stops at \<open>a\<close> and names the root call \<open>r\<close> of \<open>i\<close>.\<close>

definition ends_at :: "attempt list \<Rightarrow> attempt \<Rightarrow> string \<times> string \<Rightarrow> bool" where
  "ends_at attempts a root \<longleftrightarrow>
     (at_root_attempt_id a = Some (fst root) \<and> at_root_instance_id a = Some (snd root)) \<or>
     (unbound a \<and> attempts_by_id attempts (at_retry_of a) = None \<and>
      root = (at_retry_of a, at_instance_id a))"

lemma ends_no_follow: "ends_at attempts a root \<Longrightarrow> \<not> follows attempts a b"
  by (auto simp: ends_at_def follows_iff unbound_def)

lemma follows_deterministic: "follows attempts a b \<Longrightarrow> follows attempts a c \<Longrightarrow> b = c"
  by (auto simp: follows_iff)

text \<open>A chain that ends does not come back to an attempt it has left.\<close>

lemma ending_chain_acyclic:
  assumes "(follows attempts)\<^sup>*\<^sup>* a z" and "ends_at attempts z root"
  shows "\<not> (follows attempts)\<^sup>+\<^sup>+ a a"
  using assms
proof (induction rule: converse_rtranclp_induct)
  case base
  then show ?case using ends_no_follow by (metis tranclpD)
next
  case (step a b)
  show ?case
  proof
    assume "(follows attempts)\<^sup>+\<^sup>+ a a"
    then have "(follows attempts)\<^sup>*\<^sup>* b a"
      using follows_deterministic [OF step.hyps(1)] by (metis tranclpD)
    then have "(follows attempts)\<^sup>+\<^sup>+ b b" using step.hyps(1) by (rule rtranclp_into_tranclp1)
    then show False using step by blast
  qed
qed

lemma lineage_root_sound:
  "lineage_root attempts visited a = Inr root \<Longrightarrow>
     \<exists>z. (follows attempts)\<^sup>*\<^sup>* a z \<and> ends_at attempts z root"
proof (induction attempts visited a rule: lineage_root.induct)
  case (1 attempts visited a)
  show ?case
  proof (cases "ends_at attempts a root")
    case False
    from 1(2) False obtain p where p: "unbound a" "at_attempt_id a \<notin> set visited"
      "attempts_by_id attempts (at_retry_of a) = Some p"
      "lineage_root attempts (at_attempt_id a # visited) p = Inr root"
      by (subst (asm) lineage_root.simps)
        (auto simp: ends_at_def unbound_def split: if_splits option.splits)
    then have "\<exists>z. (follows attempts)\<^sup>*\<^sup>* p z \<and> ends_at attempts z root"
      using 1(1) by (auto simp: unbound_def)
    moreover have "follows attempts a p" using p by (simp add: follows_iff)
    ultimately show ?thesis by (meson converse_rtranclp_into_rtranclp)
  qed blast
qed

lemma follows_recorded:
  "follows attempts a b \<Longrightarrow> attempts_by_id attempts (at_attempt_id b) = Some b"
  unfolding follows_iff using dict_by_Some by metis

lemma lineage_root_complete:
  assumes "(follows attempts)\<^sup>*\<^sup>* a z" and "ends_at attempts z root"
    and "attempts_by_id attempts (at_attempt_id a) = Some a"
    and "\<And>b. (follows attempts)\<^sup>*\<^sup>* a b \<Longrightarrow> at_attempt_id b \<notin> set visited"
  shows "lineage_root attempts visited a = Inr root"
  using assms
proof (induction arbitrary: visited rule: converse_rtranclp_induct)
  case base
  then show ?case
    by (subst lineage_root.simps)
      (auto simp: ends_at_def unbound_def split: option.splits)
next
  case (step a b)
  have fresh: "at_attempt_id a \<notin> set visited" using step.prems(3) by blast
  have "\<not> (follows attempts)\<^sup>+\<^sup>+ a a"
    using step.hyps step.prems(1) by (intro ending_chain_acyclic [of attempts a z root]) auto
  then have "at_attempt_id c \<noteq> at_attempt_id a" if "(follows attempts)\<^sup>*\<^sup>* b c" for c
  proof -
    have "attempts_by_id attempts (at_attempt_id c) = Some c"
      using that follows_recorded step.hyps(1) by cases blast+
    moreover have "c \<noteq> a"
      using rtranclp_into_tranclp2 [OF step.hyps(1) that] \<open>\<not> (follows attempts)\<^sup>+\<^sup>+ a a\<close> by auto
    ultimately show ?thesis using step.prems(2) by auto
  qed
  then have "lineage_root attempts (at_attempt_id a # visited) b = Inr root"
  proof (intro step.IH)
    show "attempts_by_id attempts (at_attempt_id b) = Some b"
      using step.hyps(1) by (rule follows_recorded)
    show "at_attempt_id c \<notin> set (at_attempt_id a # visited)" if "(follows attempts)\<^sup>*\<^sup>* b c" for c
      using that \<open>\<And>c. (follows attempts)\<^sup>*\<^sup>* b c \<Longrightarrow> at_attempt_id c \<noteq> at_attempt_id a\<close>
        step.prems(3) [OF converse_rtranclp_into_rtranclp [OF step.hyps(1) that]] by auto
  qed (use step.prems in auto)
  with fresh step.hyps(1) show ?case
    by (subst lineage_root.simps) (auto simp: follows_iff unbound_def)
qed

text \<open>
  C35. The walk from a recorded attempt to the root of its chain of retries visits no attempt twice,
  so it always ends, and it returns a root exactly when the chain of predecessors ends there: at an
  attempt that carries its root binding, or at one whose predecessor is not recorded. A chain that
  runs into a cycle or into half a binding is never given a root.
\<close>

theorem lineage_root_iff:
  "attempts_by_id (rb_attempts b) i = Some a \<Longrightarrow>
   (lineage_root (rb_attempts b) [] a = Inr root) =
     (\<exists>z. (follows (rb_attempts b))\<^sup>*\<^sup>* a z \<and> ends_at (rb_attempts b) z root)"
  using lineage_root_sound [of "rb_attempts b" "[]" a root]
    lineage_root_complete [of "rb_attempts b" a _ root "[]"] dict_by_Some
  by (metis empty_iff list.set(1))

end
