(* ===== verification/Retry_Budget.thy ===== *)
theory Retry_Budget imports Retry_Lineage begin

text \<open>
  \<^verbatim>\<open>backend/harness/services/retry_budget.py\<close>: the budget of automatic retries of a task,
  the gates a retry passes, the reservation of its tokens and cost, the human override of a denied
  retry, its settlement, and the completion of an interrupted decision. A locked section is one step.
  The policy arrives parsed; the context of an approval request is left out, and of the denied gates
  the error details keep the names.
\<close>

section \<open>Policies and snapshots\<close>

text \<open>The fields of the policy that break their constraint; pydantic counts one error for each.\<close>

definition policy_errors :: "retry_policy \<Rightarrow> nat" where
  "policy_errors p = length (filter Not
     [0 \<le> rp_max_auto_retries p \<and> rp_max_auto_retries p \<le> 100,
      0 \<le> rp_max_tokens p,
      set (map fst (rp_reservations p)) \<subseteq> {''general'', ''image'', ''ppt'', ''master''} \<and>
        list_all (\<lambda>(agent, n). 0 < n) (rp_reservations p),
      (case rp_max_cost p of None \<Rightarrow> True | Some n \<Rightarrow> 0 \<le> n),
      (case rp_price_catalog p of None \<Rightarrow> True | Some c \<Rightarrow> is_identifier c)])"

definition validated_policy :: "retry_policy \<Rightarrow> retry_policy res" where
  "validated_policy p =
     bindE (guardE (policy_errors p = 0)
       (HarnessError VALIDATION_ERROR ''The automatic retry policy is invalid.''
          [(''error_count'', DInt (int (policy_errors p)))])) (\<lambda>_. Inr p)"

definition default_policy :: retry_policy where
  "default_policy =
     \<lparr>rp_max_auto_retries = 0, rp_max_tokens = 0, rp_reservations = [], rp_max_cost = None,
      rp_price_catalog = None\<rparr>"

definition empty_ledger :: ledger where
  "empty_ledger =
     \<lparr>lg_tokens_reserved = 0, lg_tokens_settled = 0, lg_cost_reserved = 0,
      lg_cost_settled = Some 0, lg_unknown_cost = 0, lg_frozen = False, lg_frozen_reason = None\<rparr>"

definition initial_snapshot :: "environment \<Rightarrow> string \<Rightarrow> retry_budget sop" where
  "initial_snapshot env task_id =
     bindS (utc_now env) (\<lambda>now.
     returnS \<lparr>rb_task_id = task_id, rb_revision = 0, rb_policy = default_policy,
       rb_ledger = empty_ledger, rb_attempts = [], rb_created_at = now, rb_updated_at = now\<rparr>)"

definition budget_repo :: "environment \<Rightarrow> repository" where
  "budget_repo env = repository_of env O_retry_budget"

definition require_task :: "environment \<Rightarrow> string \<Rightarrow> payload sop" where
  "require_task env task_id =
     bindS (readS (\<lambda>st. repo_get (repository_of env O_task) st task_id task_id)) (\<lambda>p.
     case p of
       None \<Rightarrow> throwS (HarnessError TASK_NOT_FOUND ''The requested task does not exist.'' [])
     | Some t \<Rightarrow> returnS t)"

definition budget_instance :: "environment \<Rightarrow> string \<Rightarrow> string \<Rightarrow> agent_instance sop" where
  "budget_instance env task_id instance_id =
     bindS (require_task env task_id) (\<lambda>_. task_instance env task_id instance_id)"

definition stored_budget :: "environment \<Rightarrow> string \<Rightarrow> retry_budget option sop" where
  "stored_budget env task_id =
     bindS (readS (\<lambda>st. repo_get (budget_repo env) st task_id task_id)) (\<lambda>p.
     case p of None \<Rightarrow> returnS None
     | Some p \<Rightarrow> bindS (liftE (as_retry_budget p)) (\<lambda>b. returnS (Some b)))"

definition get_budget :: "environment \<Rightarrow> string \<Rightarrow> retry_budget sop" where
  "get_budget env task_id =
     bindS (liftE (validate_identifier task_id ''task_id'')) (\<lambda>_.
     bindS (require_task env task_id) (\<lambda>_.
     bindS (stored_budget env task_id) (\<lambda>current.
     case current of None \<Rightarrow> initial_snapshot env task_id | Some b \<Rightarrow> returnS b)))"

text \<open>Every write is based on the revision that the file has at that moment.\<close>

definition put_budget ::
  "environment \<Rightarrow> string \<Rightarrow> retry_budget \<Rightarrow> actor \<Rightarrow> string \<Rightarrow> string \<Rightarrow> command_result \<Rightarrow> string \<Rightarrow>
   unit sop" where
  "put_budget env task_id b actor command key result sha =
     bindS (readS (\<lambda>st. repo_revision (budget_repo env) st task_id task_id)) (\<lambda>revision.
     bindS (repo_put env (budget_repo env) task_id task_id (P_retry_budget b) revision actor command
       key (Some result) (Some sha) no_hook) (\<lambda>_.
     returnS ()))"

definition committed_budget_command ::
  "string \<Rightarrow> string \<Rightarrow> string \<Rightarrow> string \<Rightarrow> command_result option sop" where
  "committed_budget_command task_id key command sha =
     readS (\<lambda>st. lookup_committed_command_result st task_id key command sha)"

definition configure ::
  "environment \<Rightarrow> string \<Rightarrow> retry_policy \<Rightarrow> int \<Rightarrow> string \<Rightarrow> actor \<Rightarrow> command_result sop" where
  "configure env task_id policy expected_revision key actor =
     bindS (liftE (validate_identifier task_id ''task_id'')) (\<lambda>_.
     bindS (liftE (validate_identifier key ''idempotency_key'')) (\<lambda>_.
     bindS (liftE (guardE (ac_type actor = Human)
       (HarnessError VALIDATION_ERROR
          ''Only a human may revise an automatic retry budget.'' []))) (\<lambda>_.
     bindS (liftE (validated_policy policy)) (\<lambda>validated.
     let sha = ev_request_digest env ''configure_retry_budget''
           (R_configure_budget task_id validated expected_revision) in
     bindS (committed_budget_command task_id key ''configure_retry_budget'' sha) (\<lambda>committed.
     case committed of Some result \<Rightarrow> returnS result | None \<Rightarrow>
     bindS (get_budget env task_id) (\<lambda>current.
     bindS (liftE (guardE (rb_revision current = expected_revision)
       (stale_revision ''The retry budget revision changed before the command committed.''
          expected_revision (rb_revision current)))) (\<lambda>_.
     bindS (utc_now env) (\<lambda>now.
     let updated = current\<lparr>rb_revision := rb_revision current + 1, rb_policy := validated,
           rb_updated_at := now\<rparr> in
     bindS (put_budget env task_id updated actor ''configure_retry_budget'' key (V_budget updated)
       sha) (\<lambda>_.
     returnS (V_budget updated))))))))))"

section \<open>The gates\<close>

definition counts_as_retry :: "attempt_status \<Rightarrow> bool" where
  "counts_as_retry s = (s \<in> {RESERVED, SETTLED, EXCEEDED})"

definition group_count :: "retry_budget \<Rightarrow> string \<Rightarrow> int" where
  "group_count b retry_group =
     int (length (filter (\<lambda>a. at_retry_group_id a = retry_group \<and> counts_as_retry (at_status a))
       (rb_attempts b)))"

definition count_gates :: "retry_budget \<Rightarrow> retry_policy \<Rightarrow> string \<Rightarrow> gate list" where
  "count_gates b p retry_group =
     (if group_count b retry_group + 1 > rp_max_auto_retries p
      then [RetryCount (group_count b retry_group) 1 (rp_max_auto_retries p)] else [])"

definition token_gates :: "ledger \<Rightarrow> retry_policy \<Rightarrow> int option \<Rightarrow> gate list" where
  "token_gates l p requested =
     (case requested of
        None \<Rightarrow> [TokenBoundUnknown (lg_tokens_settled l) (lg_tokens_reserved l) (rp_max_tokens p)]
      | Some n \<Rightarrow>
          if lg_tokens_settled l + lg_tokens_reserved l + n > rp_max_tokens p
          then [TokenLimit (lg_tokens_settled l) (lg_tokens_reserved l) n (rp_max_tokens p)]
          else [])"

definition cost_gates ::
  "ledger \<Rightarrow> retry_policy \<Rightarrow> int option \<Rightarrow> string option \<Rightarrow> gate list" where
  "cost_gates l p estimated catalog =
     (case rp_max_cost p of None \<Rightarrow> []
      | Some limit \<Rightarrow>
          (case estimated of
             None \<Rightarrow> [CostUnknown (lg_cost_settled l) (lg_cost_reserved l) None limit
                        (rp_price_catalog p)]
           | Some cost \<Rightarrow>
               if catalog = None \<or> catalog \<noteq> rp_price_catalog p then
                 [CostUnknown (lg_cost_settled l) (lg_cost_reserved l) (Some cost) limit
                    (rp_price_catalog p)]
               else case lg_cost_settled l of
                 None \<Rightarrow> [CostUnknown None (lg_cost_reserved l) (Some cost) limit
                            (rp_price_catalog p)]
               | Some settled \<Rightarrow>
                   if settled + lg_cost_reserved l + cost > limit
                   then [CostLimit settled (lg_cost_reserved l) cost limit (rp_price_catalog p)]
                   else []))"

definition frozen_gates :: "ledger \<Rightarrow> gate list" where
  "frozen_gates l = (if lg_frozen l then [LedgerFrozen (lg_frozen_reason l)] else [])"

definition gates ::
  "retry_budget \<Rightarrow> retry_policy \<Rightarrow> string \<Rightarrow> int option \<Rightarrow> int option \<Rightarrow> string option \<Rightarrow>
   gate list" where
  "gates b p retry_group requested estimated catalog =
     count_gates b p retry_group @ token_gates (rb_ledger b) p requested @
     cost_gates (rb_ledger b) p estimated catalog @ frozen_gates (rb_ledger b)"

section \<open>Requesting a retry\<close>

definition denied_exn :: "string \<Rightarrow> string option \<Rightarrow> int \<Rightarrow> gate list \<Rightarrow> exn" where
  "denied_exn attempt_id approval_id revision gs =
     HarnessError BUDGET_GATE_DENIED
       ''The automatic retry requires a one-shot human budget approval.''
       [(''attempt_id'', DStr attempt_id),
        (''approval_id'', case approval_id of None \<Rightarrow> DNull | Some a \<Rightarrow> DStr a),
        (''budget_revision'', DInt revision), (''gates'', DList (map gate_name gs))]"

definition ensure_denial_approval ::
  "environment \<Rightarrow> string \<Rightarrow> string \<Rightarrow> attempt \<Rightarrow> unit sop" where
  "ensure_denial_approval env task_id instance_id attempt =
     bindS (ensure_budget_approval env task_id instance_id (at_attempt_id attempt)) (\<lambda>_.
     returnS ())"

text \<open>What a recorded answer to the request does when it is returned.\<close>

definition answer_retry :: "environment \<Rightarrow> command_result \<Rightarrow> command_result sop" where
  "answer_retry env result =
     (case result of
        V_retry allowed task_id instance_id attempt gs approval_id revision l \<Rightarrow>
          if allowed then returnS result
          else bindS (ensure_denial_approval env task_id instance_id attempt) (\<lambda>_.
               throwS (denied_exn (at_attempt_id attempt) approval_id revision gs))
      | _ \<Rightarrow> throwS (KeyError ''allowed''))"

text \<open>\<open>configured_reservation or reservation_tokens\<close>.\<close>

definition requested_tokens :: "int option \<Rightarrow> int option \<Rightarrow> int option" where
  "requested_tokens configured reservation =
     (case configured of None \<Rightarrow> reservation
      | Some n \<Rightarrow> if n = 0 then reservation else Some n)"

definition new_attempt ::
  "string \<Rightarrow> string \<Rightarrow> agent_instance \<Rightarrow> string \<Rightarrow> retry_lineage \<Rightarrow> int option \<Rightarrow> int option \<Rightarrow>
   string option \<Rightarrow> string \<Rightarrow> gate list \<Rightarrow> string \<Rightarrow> attempt" where
  "new_attempt attempt_id retry_of inst instance_id lineage requested estimated catalog approval_id
     gs now =
     \<lparr>at_attempt_id = attempt_id, at_retry_group_id = rl_retry_group_id lineage,
      at_retry_of = retry_of, at_root_attempt_id = Some (rl_root_attempt_id lineage),
      at_root_instance_id = Some (rl_root_instance_id lineage), at_instance_id = instance_id,
      at_agent_type = in_agent_type inst, at_automatic = True,
      at_status = (if gs \<noteq> [] then PENDING_APPROVAL else RESERVED),
      at_reserved_tokens = (case requested of None \<Rightarrow> LimInt 0 | Some n \<Rightarrow> LimInt n),
      at_reserved_cost = (case estimated of None \<Rightarrow> LimNull | Some n \<Rightarrow> LimInt n),
      at_price_catalog = catalog, at_approval_id = (if gs \<noteq> [] then Some approval_id else None),
      at_denied_gates = gs, at_override_consumed_at = None, at_actual_tokens = None,
      at_actual_cost = None, at_created_at = now, at_settled_at = None, at_pending = None,
      at_resolved_at = None, at_resolved_by = None, at_resolution = None\<rparr>"

definition reserve_in :: "int \<Rightarrow> int option \<Rightarrow> ledger \<Rightarrow> ledger" where
  "reserve_in tokens cost l =
     (let m = l\<lparr>lg_tokens_reserved := lg_tokens_reserved l + tokens\<rparr> in
      case cost of None \<Rightarrow> m | Some c \<Rightarrow> m\<lparr>lg_cost_reserved := lg_cost_reserved m + c\<rparr>)"

text \<open>The snapshot with the new attempt; without gates its tokens and cost are reserved.\<close>

definition with_attempt ::
  "retry_budget \<Rightarrow> attempt \<Rightarrow> gate list \<Rightarrow> int option \<Rightarrow> int option \<Rightarrow> string \<Rightarrow>
   retry_budget res" where
  "with_attempt b a gs requested estimated now =
     (let c = b\<lparr>rb_revision := rb_revision b + 1, rb_attempts := rb_attempts b @ [a],
            rb_updated_at := now\<rparr> in
      if gs \<noteq> [] then Inr c
      else case requested of
        None \<Rightarrow> Inl (RuntimeError ''an allowed retry must reserve a token amount'')
      | Some n \<Rightarrow> Inr (c\<lparr>rb_ledger := reserve_in n estimated (rb_ledger b)\<rparr>))"

definition retry_result ::
  "string \<Rightarrow> string \<Rightarrow> attempt \<Rightarrow> gate list \<Rightarrow> retry_budget \<Rightarrow> command_result" where
  "retry_result task_id instance_id a gs b =
     V_retry (gs = []) task_id instance_id a gs (at_approval_id a) (rb_revision b) (rb_ledger b)"

record retry_request =
  rr_task_id :: string
  rr_instance_id :: string
  rr_attempt_id :: string
  rr_retry_of :: string
  rr_reservation_tokens :: "int option"
  rr_estimated_cost :: "int option"
  rr_price_catalog :: "string option"

definition check_retry_request :: "retry_request \<Rightarrow> string \<Rightarrow> actor \<Rightarrow> unit res" where
  "check_retry_request q key actor =
     bindE (forE (\<lambda>(value, name). bindE (validate_identifier value name) (\<lambda>_. Inr ()))
       [(rr_task_id q, ''task_id''), (rr_instance_id q, ''instance_id''),
        (rr_attempt_id q, ''attempt_id''), (rr_retry_of q, ''retry_of_attempt_id''),
        (key, ''idempotency_key'')]) (\<lambda>_.
     bindE (guardE (ac_type actor \<in> {Master, System})
       (HarnessError VALIDATION_ERROR
          ''Automatic retries may only be requested by Master or system.'' [])) (\<lambda>_.
     guardE (rr_attempt_id q \<noteq> rr_retry_of q)
       (HarnessError VALIDATION_ERROR ''A retry attempt cannot point to itself.'' [])))"

definition check_amounts :: "retry_request \<Rightarrow> unit res" where
  "check_amounts q =
     bindE (guardE (case rr_reservation_tokens q of None \<Rightarrow> True | Some n \<Rightarrow> 0 < n)
       (HarnessError VALIDATION_ERROR ''Retry Token reservation is invalid.'' [])) (\<lambda>_.
     guardE (case rr_estimated_cost q of None \<Rightarrow> True | Some n \<Rightarrow> 0 \<le> n)
       (HarnessError VALIDATION_ERROR ''Retry cost reservation is invalid.'' []))"

text \<open>The locked section for a request that was not answered before: the decision is committed,
  and returned with the new attempt.\<close>

definition reserve_retry ::
  "environment \<Rightarrow> retry_request \<Rightarrow> agent_instance \<Rightarrow> string \<Rightarrow> string \<Rightarrow> actor \<Rightarrow>
   command_result sop" where
  "reserve_retry env q inst sha key actor =
     (let task_id = rr_task_id q; instance_id = rr_instance_id q; attempt_id = rr_attempt_id q in
      bindS (get_budget env task_id) (\<lambda>snapshot.
      bindS (liftE (guardE (attempt_id \<notin> at_attempt_id ` set (rb_attempts snapshot))
        (HarnessError IDEMPOTENCY_CONFLICT
           ''The retry attempt id already belongs to another request.'' []))) (\<lambda>_.
      bindS (readS (\<lambda>st. ensure_attempt_id_available st task_id attempt_id)) (\<lambda>_.
      bindS (readS (\<lambda>st. resolve_lineage env st snapshot task_id instance_id (rr_retry_of q)))
        (\<lambda>lineage.
      let policy = rb_policy snapshot in
      bindS (liftE (guardE (policy_errors policy = 0)
        (ValueError ''validation error for RetryPolicy''))) (\<lambda>_.
      let configured = map_of (rp_reservations policy) (agent_type_name (in_agent_type inst)) in
      bindS (liftE (guardE (configured = None \<or> rr_reservation_tokens q = None \<or>
          rr_reservation_tokens q = configured)
        (HarnessError VALIDATION_ERROR
           ''A retry cannot override the configured Agent Token reservation.'' []))) (\<lambda>_.
      let requested = requested_tokens configured (rr_reservation_tokens q);
          gs = gates snapshot policy (rl_retry_group_id lineage) requested (rr_estimated_cost q)
            (rr_price_catalog q);
          approval_id = fst (budget_approval_identity env task_id instance_id attempt_id) in
      bindS (utc_now env) (\<lambda>now.
      let attempt = new_attempt attempt_id (rr_retry_of q) inst instance_id lineage requested
            (rr_estimated_cost q) (rr_price_catalog q) approval_id gs now in
      bindS (liftE (with_attempt snapshot attempt gs requested (rr_estimated_cost q) now))
        (\<lambda>updated.
      let result = retry_result task_id instance_id attempt gs updated in
      bindS (put_budget env task_id updated actor ''reserve_retry'' key result sha) (\<lambda>_.
      returnS result))))))))))"

definition request_retry ::
  "environment \<Rightarrow> retry_request \<Rightarrow> string \<Rightarrow> actor \<Rightarrow> command_result sop" where
  "request_retry env q key actor =
     bindS (liftE (check_retry_request q key actor)) (\<lambda>_.
     bindS (budget_instance env (rr_task_id q) (rr_instance_id q)) (\<lambda>inst.
     bindS (liftE (check_amounts q)) (\<lambda>_.
     let sha = ev_request_digest env ''reserve_retry''
           (R_reserve_retry (rr_task_id q) (rr_instance_id q) (rr_attempt_id q) (rr_retry_of q)
             (rr_reservation_tokens q) (rr_estimated_cost q) (rr_price_catalog q)) in
     bindS (committed_budget_command (rr_task_id q) key ''reserve_retry'' sha) (\<lambda>committed.
     case committed of
       Some result \<Rightarrow> answer_retry env result
     | None \<Rightarrow> bindS (reserve_retry env q inst sha key actor) (answer_retry env)))))"

section \<open>Looking an attempt up\<close>

text \<open>An attempt that a handler changes in place is the first one with its id.\<close>

definition find_attempt :: "retry_budget \<Rightarrow> string \<Rightarrow> attempt res" where
  "find_attempt b attempt_id =
     (case find (\<lambda>a. at_attempt_id a = attempt_id) (rb_attempts b) of
        None \<Rightarrow> Inl (HarnessError VALIDATION_ERROR ''The retry attempt does not exist.'' [])
      | Some a \<Rightarrow> Inr a)"

definition replace_attempt :: "retry_budget \<Rightarrow> attempt \<Rightarrow> retry_budget" where
  "replace_attempt b a =
     b\<lparr>rb_attempts := update_first (\<lambda>x. at_attempt_id x = at_attempt_id a) (\<lambda>_. a) (rb_attempts b)\<rparr>"

definition touched_budget :: "retry_budget \<Rightarrow> string \<Rightarrow> retry_budget" where
  "touched_budget b now = b\<lparr>rb_revision := rb_revision b + 1, rb_updated_at := now\<rparr>"

section \<open>Resolving the approval of a denied retry\<close>

definition limit_of :: "string \<Rightarrow> limit_payload \<Rightarrow> limit_value option" where
  "limit_of field payload = map_of payload field"

text \<open>A limit may be absent, null, or an integer not below the bound of its field.\<close>

definition limit_ok :: "limit_payload \<Rightarrow> string \<Rightarrow> int \<Rightarrow> bool" where
  "limit_ok payload field least =
     (case limit_of field payload of
        None \<Rightarrow> True | Some LimNull \<Rightarrow> True | Some (LimInt n) \<Rightarrow> least \<le> n | Some _ \<Rightarrow> False)"

definition check_resolution ::
  "string \<Rightarrow> string option \<Rightarrow> limit_payload \<Rightarrow> unit res" where
  "check_resolution decision action payload =
     (if decision = ''APPROVED'' then
        bindE (guardE (action = Some ''approve_once'' \<and>
            set (map fst payload) \<subseteq> {''token_limit'', ''cost_limit_micros''})
          (HarnessError VALIDATION_ERROR
             ''A budget override only accepts explicit one-shot limits.'' [])) (\<lambda>_.
        guardE (limit_ok payload ''token_limit'' 1 \<and> limit_ok payload ''cost_limit_micros'' 0)
          (HarnessError VALIDATION_ERROR ''A one-shot budget limit is invalid.'' []))
      else if decision = ''REJECTED'' then
        guardE (action = None \<and> payload = [])
          (HarnessError VALIDATION_ERROR
             ''A rejected budget override has no action payload.'' [])
      else Inl (HarnessError VALIDATION_ERROR ''The approval decision is invalid.'' []))"

definition handle_resolution_notification ::
  "environment \<Rightarrow> string option \<Rightarrow> string \<Rightarrow> command_envelope \<Rightarrow> unit sop" where
  "handle_resolution_notification env approval_id key envelope =
     bindS (handle_approval_notification env approval_id (actor_of envelope)
       (''handle-budget-'' @ key)) (\<lambda>_. returnS ())"

text \<open>The attempt after the decision: an approved override takes over the limits it names.\<close>

definition decided_attempt :: "attempt \<Rightarrow> pending_resolution \<Rightarrow> string \<Rightarrow> attempt" where
  "decided_attempt a p now =
     (let payload = pd_payload p; envelope = pd_envelope p;
          approved = (pd_decision p = ''APPROVED'');
          limit = (\<lambda>field old. if approved then
                     (case limit_of field payload of None \<Rightarrow> old | Some v \<Rightarrow> v) else old) in
      a\<lparr>at_reserved_tokens := limit ''token_limit'' (at_reserved_tokens a),
        at_reserved_cost := limit ''cost_limit_micros'' (at_reserved_cost a),
        at_status := (if approved then AUTHORIZED else ATTEMPT_CANCELLED),
        at_resolved_at := Some now, at_resolved_by := Some (actor_of envelope),
        at_resolution := Some (ce_idempotency_key envelope, envelope), at_pending := None\<rparr>)"

definition validated_envelope :: "command_envelope \<Rightarrow> command_envelope res" where
  "validated_envelope e =
     bindE (guardE (envelope_valid e) (ValueError ''validation error for CommandEnvelope''))
       (\<lambda>_. Inr e)"

definition finish_pending_resolution ::
  "environment \<Rightarrow> string \<Rightarrow> retry_budget \<Rightarrow> attempt \<Rightarrow> command_result sop" where
  "finish_pending_resolution env task_id snapshot attempt =
     (case at_pending attempt of
        None \<Rightarrow> throwS (RuntimeError ''retry budget resolution is not prepared'')
      | Some pending \<Rightarrow>
          bindS (liftE (validated_envelope (pd_envelope pending))) (\<lambda>envelope.
          bindS (commit_resolution env (pd_approval_id pending) (pd_decision pending) envelope)
            (\<lambda>committed.
          case committed of
            V_approval approval rev_after \<Rightarrow>
              bindS (utc_now env) (\<lambda>resolved_at.
              bindS (utc_now env) (\<lambda>now.
              let decided = decided_attempt attempt pending resolved_at;
                  updated = touched_budget (replace_attempt snapshot decided) now;
                  result = V_resolution approval rev_after decided (rb_revision updated) in
              bindS (put_budget env task_id updated (actor_of envelope) ''resolve_budget_approval''
                (''budget-'' @ ce_idempotency_key envelope) result (pd_request_sha256 pending)) (\<lambda>_.
              bindS (handle_resolution_notification env (Some (pd_approval_id pending))
                (ce_idempotency_key envelope) envelope) (\<lambda>_.
              returnS result))))
          | _ \<Rightarrow> throwS (KeyError ''approval''))))"

definition gate_denied :: "string \<Rightarrow> attempt \<Rightarrow> bool" where
  "gate_denied name a = (name \<in> gate_name ` set (at_denied_gates a))"

definition check_override_limits :: "string \<Rightarrow> attempt \<Rightarrow> limit_payload \<Rightarrow> unit res" where
  "check_override_limits decision a payload =
     bindE (guardE (\<not> (decision = ''APPROVED'' \<and> gate_denied ''TOKEN_BOUND_UNKNOWN'' a \<and>
         limit_of ''token_limit'' payload = None))
       (HarnessError VALIDATION_ERROR
          ''This override requires an explicit one-shot Token limit.'' [])) (\<lambda>_.
     guardE (\<not> (decision = ''APPROVED'' \<and> gate_denied ''COST_UNKNOWN'' a \<and>
         limit_of ''cost_limit_micros'' payload = None))
       (HarnessError VALIDATION_ERROR
          ''This override requires an explicit one-shot cost limit.'' []))"

text \<open>A fresh decision: checked against the approval as it is now, prepared, then finished.\<close>

definition prepare_resolution ::
  "environment \<Rightarrow> string \<Rightarrow> retry_budget \<Rightarrow> attempt \<Rightarrow> string \<Rightarrow> string \<Rightarrow> string option \<Rightarrow>
   limit_payload \<Rightarrow> command_envelope \<Rightarrow> string \<Rightarrow> command_result sop" where
  "prepare_resolution env task_id snapshot attempt approval_id decision action payload envelope
     sha =
     bindS (get_approval env approval_id) (\<lambda>(approval, revision, _).
     bindS (liftE (guardE (ap_status approval = ''PENDING'' \<and> at_status attempt = PENDING_APPROVAL)
       (HarnessError INVALID_STATE_TRANSITION ''The budget approval was already resolved.'' [])))
       (\<lambda>_.
     bindS (liftE (guardE (actor_type_name (ce_actor_type envelope) = ap_owner approval)
       (HarnessError VALIDATION_ERROR
          ''The approval must be resolved by its frozen owner.'' []))) (\<lambda>_.
     bindS (liftE (guardE (ce_expected_revision envelope = revision)
       (stale_revision ''The approval revision changed before the decision committed.''
          (ce_expected_revision envelope) revision))) (\<lambda>_.
     bindS (liftE (check_override_limits decision attempt payload)) (\<lambda>_.
     bindS (utc_now env) (\<lambda>prepared_at.
     bindS (utc_now env) (\<lambda>now.
     let prepared = attempt\<lparr>at_pending := Some
           \<lparr>pd_approval_id = approval_id, pd_decision = decision, pd_action = action,
            pd_payload = payload, pd_idempotency_key = ce_idempotency_key envelope,
            pd_request_sha256 = sha, pd_envelope = envelope, pd_prepared_at = prepared_at\<rparr>\<rparr>;
         updated = touched_budget (replace_attempt snapshot prepared) now in
     bindS (put_budget env task_id updated (actor_of envelope) ''prepare_budget_resolution''
       (''budget-prepare-'' @ ce_idempotency_key envelope)
       (V_prepared approval_id (at_attempt_id attempt) (rb_revision updated)) sha) (\<lambda>_.
     finish_pending_resolution env task_id updated prepared))))))))"

definition resolve_approval ::
  "environment \<Rightarrow> string \<Rightarrow> string \<Rightarrow> string option \<Rightarrow> limit_payload \<Rightarrow> command_envelope \<Rightarrow>
   command_result sop" where
  "resolve_approval env approval_id decision action payload envelope =
     bindS (get_approval env approval_id) (\<lambda>(approval, revision, request_file).
     let sha = ev_request_digest env ''resolve_budget_approval''
           (R_resolve_budget approval_id decision action payload) in
     bindS (liftE (guardE (ap_kind approval = ''BUDGET_OVERRIDE'')
       (HarnessError VALIDATION_ERROR ''The approval is not a budget override.'' []))) (\<lambda>_.
     bindS (liftE (check_resolution decision action payload)) (\<lambda>_.
     let task_id = ap_task_id approval in
     case ay_attempt_id request_file of
       None \<Rightarrow> throwS (TypeError ''expected string or bytes-like object'')
     | Some attempt_id \<Rightarrow>
     bindS (liftE (validate_identifier attempt_id ''attempt_id'')) (\<lambda>_.
     bindS (committed_budget_command task_id (''budget-'' @ ce_idempotency_key envelope)
       ''resolve_budget_approval'' sha) (\<lambda>committed.
     case committed of
       Some result \<Rightarrow>
         bindS (handle_resolution_notification env (Some approval_id) (ce_idempotency_key envelope)
           envelope) (\<lambda>_. returnS result)
     | None \<Rightarrow>
     bindS (get_budget env task_id) (\<lambda>snapshot.
     bindS (liftE (find_attempt snapshot attempt_id)) (\<lambda>attempt.
     bindS (liftE (guardE (at_approval_id attempt = Some approval_id)
       (HarnessError IDEMPOTENCY_CONFLICT
          ''The approval is not bound to this retry attempt.'' []))) (\<lambda>_.
     case at_pending attempt of
       Some pending \<Rightarrow>
         bindS (liftE (guardE (pd_request_sha256 pending = sha \<and>
             pd_idempotency_key pending = ce_idempotency_key envelope)
           (HarnessError IDEMPOTENCY_CONFLICT
              ''Another human budget decision is already being committed.'' []))) (\<lambda>_.
         finish_pending_resolution env task_id snapshot attempt)
     | None \<Rightarrow>
         prepare_resolution env task_id snapshot attempt approval_id decision action payload
           envelope sha))))))))"

section \<open>Consuming an override\<close>

text \<open>\<open>int(v)\<close> of a limit, and of one that may be absent.\<close>

definition int_of_limit :: "limit_value \<Rightarrow> int res" where
  "int_of_limit v =
     (case v of
        LimInt n \<Rightarrow> Inr n
      | LimBool b \<Rightarrow> Inr (if b then 1 else 0)
      | LimNull \<Rightarrow> Inl (TypeError ''int() argument must be a string or a number, not NoneType'')
      | LimOther s \<Rightarrow> Inl (ValueError ''invalid literal for int()''))"

definition optional_limit :: "limit_value \<Rightarrow> int option res" where
  "optional_limit v = (if v = LimNull then Inr None else bindE (int_of_limit v) (\<lambda>n. Inr (Some n)))"

definition consume_override ::
  "environment \<Rightarrow> string \<Rightarrow> string \<Rightarrow> string \<Rightarrow> actor \<Rightarrow> command_result sop" where
  "consume_override env task_id attempt_id key actor =
     bindS (liftE (validate_identifier attempt_id ''attempt_id'')) (\<lambda>_.
     bindS (liftE (validate_identifier key ''idempotency_key'')) (\<lambda>_.
     bindS (liftE (guardE (ac_type actor = System)
       (HarnessError VALIDATION_ERROR
          ''Only the retry executor may consume a one-shot budget override.'' []))) (\<lambda>_.
     let sha = ev_request_digest env ''consume_budget_override''
           (R_consume_override task_id attempt_id) in
     bindS (committed_budget_command task_id key ''consume_budget_override'' sha) (\<lambda>committed.
     case committed of Some result \<Rightarrow> returnS result | None \<Rightarrow>
     bindS (get_budget env task_id) (\<lambda>snapshot.
     bindS (liftE (find_attempt snapshot attempt_id)) (\<lambda>attempt.
     if at_status attempt = RESERVED \<and> at_override_consumed_at attempt \<notin> {None, Some []}
     then returnS (V_attempt attempt)
     else
     bindS (liftE (guardE (at_status attempt = AUTHORIZED)
       (HarnessError INVALID_STATE_TRANSITION
          ''The one-shot retry override is not available.'' []))) (\<lambda>_.
     bindS (utc_now env) (\<lambda>consumed_at.
     bindS (liftE (int_of_limit (at_reserved_tokens attempt))) (\<lambda>tokens.
     bindS (liftE (optional_limit (at_reserved_cost attempt))) (\<lambda>cost.
     bindS (utc_now env) (\<lambda>now.
     let reserved = attempt\<lparr>at_status := RESERVED, at_override_consumed_at := Some consumed_at\<rparr>;
         updated = touched_budget ((replace_attempt snapshot reserved)
           \<lparr>rb_ledger := reserve_in tokens cost (rb_ledger snapshot)\<rparr>) now in
     bindS (put_budget env task_id updated actor ''consume_budget_override'' key
       (V_attempt reserved) sha) (\<lambda>_.
     returnS (V_attempt reserved)))))))))))))"

section \<open>Settling a retry\<close>

definition settle_in :: "int \<Rightarrow> int option \<Rightarrow> int \<Rightarrow> int option \<Rightarrow> ledger \<Rightarrow> ledger" where
  "settle_in reserved_tokens reserved_cost actual_tokens actual_cost l =
     (let l1 = l\<lparr>lg_tokens_reserved := max 0 (lg_tokens_reserved l - reserved_tokens),
            lg_tokens_settled := lg_tokens_settled l + actual_tokens\<rparr>;
          l2 = (case reserved_cost of None \<Rightarrow> l1
                | Some c \<Rightarrow> l1\<lparr>lg_cost_reserved := max 0 (lg_cost_reserved l1 - c)\<rparr>) in
      case actual_cost of
        None \<Rightarrow> l2\<lparr>lg_unknown_cost := lg_unknown_cost l2 + 1, lg_cost_settled := None\<rparr>
      | Some c \<Rightarrow>
          if lg_unknown_cost l2 = 0
          then l2\<lparr>lg_cost_settled :=
                 Some ((case lg_cost_settled l2 of None \<Rightarrow> 0 | Some prior \<Rightarrow> prior) + c)\<rparr>
          else l2)"

definition exceeds :: "int \<Rightarrow> int option \<Rightarrow> int \<Rightarrow> int option \<Rightarrow> bool" where
  "exceeds reserved_tokens reserved_cost actual_tokens actual_cost =
     (actual_tokens > reserved_tokens \<or>
      (case (reserved_cost, actual_cost) of (Some r, Some a) \<Rightarrow> a > r | _ \<Rightarrow> False))"

definition frozen_if :: "bool \<Rightarrow> ledger \<Rightarrow> ledger" where
  "frozen_if exceeded l =
     (if exceeded then l\<lparr>lg_frozen := True,
        lg_frozen_reason := Some ''ACTUAL_USAGE_EXCEEDED_RESERVATION''\<rparr> else l)"

definition may_settle :: "actor \<Rightarrow> attempt \<Rightarrow> bool" where
  "may_settle actor a =
     (ac_type actor \<in> {Adapter, System} \<and>
      (ac_type actor = Adapter \<longrightarrow> ac_id actor = agent_type_name (at_agent_type a) @ ''_adapter''))"

definition settle ::
  "environment \<Rightarrow> string \<Rightarrow> string \<Rightarrow> int \<Rightarrow> int option \<Rightarrow> string \<Rightarrow> actor \<Rightarrow> command_result sop" where
  "settle env task_id attempt_id actual_tokens actual_cost key actor =
     bindS (liftE (validate_identifier attempt_id ''attempt_id'')) (\<lambda>_.
     bindS (liftE (validate_identifier key ''idempotency_key'')) (\<lambda>_.
     bindS (liftE (guardE (0 \<le> actual_tokens)
       (HarnessError VALIDATION_ERROR ''Settled retry Token usage is invalid.'' []))) (\<lambda>_.
     bindS (liftE (guardE (case actual_cost of None \<Rightarrow> True | Some c \<Rightarrow> 0 \<le> c)
       (HarnessError VALIDATION_ERROR ''Settled retry cost is invalid.'' []))) (\<lambda>_.
     let sha = ev_request_digest env ''settle_retry''
           (R_settle task_id attempt_id actual_tokens actual_cost) in
     bindS (get_budget env task_id) (\<lambda>snapshot.
     bindS (liftE (find_attempt snapshot attempt_id)) (\<lambda>attempt.
     bindS (liftE (guardE (may_settle actor attempt)
       (HarnessError VALIDATION_ERROR
          ''Only the owning Adapter or retry executor may settle retry usage.'' []))) (\<lambda>_.
     bindS (committed_budget_command task_id key ''settle_retry'' sha) (\<lambda>committed.
     case committed of Some result \<Rightarrow> returnS result | None \<Rightarrow>
     if at_status attempt \<in> {SETTLED, EXCEEDED} then
       bindS (liftE (guardE (at_actual_tokens attempt = Some actual_tokens \<and>
           at_actual_cost attempt = actual_cost)
         (HarnessError IDEMPOTENCY_CONFLICT
            ''The retry attempt was settled with different usage.'' []))) (\<lambda>_.
       returnS (V_settlement attempt (rb_ledger snapshot) None))
     else
     bindS (liftE (guardE (at_status attempt = RESERVED)
       (HarnessError INVALID_STATE_TRANSITION ''Only a reserved retry may be settled.'' []))) (\<lambda>_.
     bindS (liftE (int_of_limit (at_reserved_tokens attempt))) (\<lambda>tokens.
     bindS (liftE (optional_limit (at_reserved_cost attempt))) (\<lambda>cost.
     bindS (utc_now env) (\<lambda>settled_at.
     bindS (utc_now env) (\<lambda>now.
     let exceeded = exceeds tokens cost actual_tokens actual_cost;
         l = frozen_if exceeded (settle_in tokens cost actual_tokens actual_cost
               (rb_ledger snapshot));
         settled = attempt\<lparr>at_status := (if exceeded then EXCEEDED else SETTLED),
           at_actual_tokens := Some actual_tokens, at_actual_cost := actual_cost,
           at_settled_at := Some settled_at\<rparr>;
         updated = touched_budget ((replace_attempt snapshot settled)\<lparr>rb_ledger := l\<rparr>) now;
         result = V_settlement settled l (Some (rb_revision updated)) in
     bindS (put_budget env task_id updated actor ''settle_retry'' key result sha) (\<lambda>_.
     returnS result))))))))))))))"

section \<open>Completing interrupted decisions\<close>

record recovered_attempt =
  rv_task_id :: string
  rv_attempt_id :: string
  rv_approval_id :: "string option"
  rv_completed :: bool

text \<open>One pass over an attempt id of the snapshot that the loop started with; the snapshot is
  read again after a decision has been completed.\<close>

definition recover_attempt ::
  "environment \<Rightarrow> string \<Rightarrow> string \<Rightarrow> retry_budget \<Rightarrow> (retry_budget \<times> recovered_attempt list) sop" where
  "recover_attempt env task_id attempt_id snapshot =
     bindS (liftE (find_attempt snapshot attempt_id)) (\<lambda>a.
     let report = (\<lambda>done. \<lparr>rv_task_id = task_id, rv_attempt_id = at_attempt_id a,
           rv_approval_id = at_approval_id a, rv_completed = done\<rparr>) in
     if at_pending a \<noteq> None then
       bindS (finish_pending_resolution env task_id snapshot a) (\<lambda>_.
       bindS (get_budget env task_id) (\<lambda>fresh.
       returnS (fresh, [report True])))
     else if at_status a = PENDING_APPROVAL then
       bindS (ensure_denial_approval env task_id (at_instance_id a) a) (\<lambda>_.
       returnS (snapshot, [report False]))
     else case at_resolution a of
       None \<Rightarrow> returnS (snapshot, [])
     | Some (key, stored) \<Rightarrow>
         bindS (liftE (validated_envelope stored)) (\<lambda>envelope.
         bindS (handle_resolution_notification env (at_approval_id a) key envelope) (\<lambda>_.
         returnS (snapshot, []))))"

fun recover_attempts ::
  "environment \<Rightarrow> string \<Rightarrow> string list \<Rightarrow> retry_budget \<Rightarrow> recovered_attempt list sop" where
  "recover_attempts env task_id [] snapshot = returnS []"
| "recover_attempts env task_id (i # is) snapshot =
     bindS (recover_attempt env task_id i snapshot) (\<lambda>(s, rs).
     bindS (recover_attempts env task_id is s) (\<lambda>rest. returnS (rs @ rest)))"

definition recover_task_budget :: "environment \<Rightarrow> string \<Rightarrow> recovered_attempt list option sop" where
  "recover_task_budget env task_id =
     bindS (stored_budget env task_id) (\<lambda>current.
     case current of None \<Rightarrow> returnS None
     | Some snapshot \<Rightarrow>
         bindS (recover_attempts env task_id (map at_attempt_id (rb_attempts snapshot)) snapshot)
           (\<lambda>rs. returnS (Some rs)))"

definition recover_budgets :: "environment \<Rightarrow> recovered_attempt list sop" where
  "recover_budgets env =
     bindS (readS (\<lambda>st. Inr (task_directories st))) (\<lambda>task_ids.
     bindS (collectS (recover_task_budget env) task_ids) (\<lambda>rss. returnS (concat rss)))"

end
