(* ===== verification/Service_Frames.thy ===== *)
theory Service_Frames imports Retry_Budget Payload_Invariants begin

text \<open>
  Invariants of the approval and retry-budget services. The locale \<open>notice_frame\<close> lists the writes
  of the approval service; an invariant that each of them keeps is kept by all its operations.
  \<open>budget_frame\<close> extends it by the writes of the retry-budget service: \<open>R t b\<close> is what the
  invariant says of a budget \<open>b\<close> read for the task \<open>t\<close>, and every change the service makes to a
  budget has to keep it.
\<close>

section \<open>Rules for the combinators\<close>

lemma keeps_collectS [keeps_rules]:
  "(\<And>x. x \<in> set xs \<Longrightarrow> keeps I (f x)) \<Longrightarrow> keeps I (collectS f xs)"
proof (induction xs)
  case (Cons x xs)
  then show ?case by (auto intro!: keeps_bind keeps_pure)
qed (simp add: keeps_pure)

lemma keeps_skip_conflict [keeps_rules]: "keeps I m \<Longrightarrow> keeps I (skip_conflict m)"
  unfolding keeps_def skip_conflict_def
  by (auto split: prod.splits sum.splits if_splits)

text \<open>Two operations that keep the invariant together.\<close>

lemma keeps_reassoc:
  assumes "keeps I (bindS m k)" and "\<And>x y. keeps I (g x y)"
  shows "keeps I (bindS m (\<lambda>x. bindS (k x) (g x)))"
proof -
  have "bindS m (\<lambda>x. bindS (k x) (g x)) s =
      bindS (bindS m (\<lambda>x. bindS (k x) (\<lambda>y. returnS (x, y)))) (\<lambda>(x, y). g x y) s" for s
    by (auto simp: bindS_def returnS_def split: prod.splits sum.splits)
  moreover have "keeps I (bindS m (\<lambda>x. bindS (k x) (\<lambda>y. returnS (x, y))))"
    using assms(1) unfolding keeps_def bindS_def returnS_def
    by (auto split: prod.splits sum.splits)
  ultimately show ?thesis
    using keeps_bind [of I _ "\<lambda>(x, y). g x y"] assms(2)
    unfolding keeps_def by (metis (mono_tags, lifting) case_prod_conv surj_pair)
qed

section \<open>The steps of the services\<close>

inductive service_step :: "environment \<Rightarrow> store \<Rightarrow> store \<Rightarrow> bool" for env where
  workflow: "service_step env s (snd (ensure_workflow_approval env t i st caps opn s))"
| delivery: "service_step env s (snd (ensure_delivery_review_approval env t i cand ok s))"
| budget: "service_step env s (snd (ensure_budget_approval env t i att s))"
| notify: "service_step env s (snd (ensure_notification env t r s))"
| decide: "service_step env s (snd (commit_resolution env i d e s))"
| mark: "service_step env s (snd (update_inbox_status env i target e enforce s))"
| view: "service_step env s (snd (mark_instance_notifications_read env i owner s))"
| clear: "service_step env s (snd (clear_read_notifications env owner s))"
| acknowledge: "service_step env s
    (snd (acknowledge_external_workflow_approvals env t i step opn by_id s))"
| notified: "service_step env s (snd (handle_approval_notification env aid actor k s))"
| terminal: "service_step env s (snd (reconcile_terminal_notifications env s))"
| configure: "service_step env s (snd (configure env t p n k actor s))"
| retry: "service_step env s (snd (request_retry env q k actor s))"
| resolve: "service_step env s (snd (resolve_approval env i d act pay e s))"
| consume: "service_step env s (snd (consume_override env t i k actor s))"
| settle: "service_step env s (snd (settle env t i used spent k actor s))"
| recover_budget: "service_step env s (snd (recover_budgets env s))"
| begin_call: "service_step env s (snd (begin_model_call env t i att request la s))"
| complete_call: "service_step env s (snd (complete_model_call env t att s))"

section \<open>The approval service\<close>

locale notice_frame =
  fixes env :: environment and I :: "store \<Rightarrow> bool"
  assumes quiet: "unchanged s s' \<Longrightarrow> I s \<Longrightarrow> I s'"
    and request_file: "keeps I (write_approval_payload t r p)"
    and sequence: "keeps I next_sequence"
    and new_approval:
    "ap_task_id a = t \<Longrightarrow> ap_approval_id a = i \<Longrightarrow>
     keeps I (repo_put env (approval_repo env) t i (P_approval a) 0 actor c k None None no_hook)"
    and decide:
    "I s \<Longrightarrow> repo_get (approval_repo env) s t i = Inr (Some (P_approval a)) \<Longrightarrow>
     ap_status a = ''PENDING'' \<Longrightarrow>
     keeps I (repo_put env (approval_repo env) (ap_task_id a) i
       (P_approval (resolved_approval a status now by_type by_id)) n actor c k res sha no_hook)"
    and decide_listed:
    "I s \<Longrightarrow> list_approvals env s (Some t) inst own (Some ''PENDING'') = Inr as \<Longrightarrow>
     (a, n) \<in> set as \<Longrightarrow>
     keeps I (repo_put env (approval_repo env) t (ap_approval_id a)
       (P_approval (resolved_approval a status now by_type by_id)) n actor c k None None no_hook)"
    and new_item:
    "ib_task_id x = t \<Longrightarrow> ib_inbox_id x = i \<Longrightarrow>
     keeps I (repo_put env (inbox_repo env) t i (P_inbox x) 0 actor c k None None no_hook)"
    and mark:
    "I s \<Longrightarrow> read_wrapper (inbox_repo env) s t i = Inr (Some w) \<Longrightarrow> wr_payload w = P_inbox x \<Longrightarrow>
     ib_status x \<noteq> ''HANDLED'' \<Longrightarrow>
     keeps I (repo_put env (inbox_repo env) t i (P_inbox (marked_item x target now by_type by_id)) n
       actor c k res sha no_hook)"
    and clear:
    "I s \<Longrightarrow> list_inbox env s owner (Some ''READ'') None = Inr xs \<Longrightarrow> (x, n) \<in> set xs \<Longrightarrow>
     keeps I (repo_delete env (inbox_repo env) (ib_task_id x) (ib_inbox_id x) n actor c k)"
    and model_call: "keeps I (write_model_call at_path call)"
begin

lemma keeps_quiet: "(\<And>s r s'. m s = (r, s') \<Longrightarrow> unchanged s s') \<Longrightarrow> keeps I m"
  by (rule keepsI) (blast intro: quiet)

lemma clock: "keeps I (utc_now env)"
  by (rule keeps_quiet) (rule utc_now_unchanged)

lemma init: "keeps I (initialize_task t)"
  by (rule keeps_quiet) (rule initialize_task_unchanged)

lemma request_resolution: "keeps I (resolve_request t value)"
  unfolding resolve_request_def by (intro keeps_rules)

lemma readers: "keeps I (find_approval env t i)" "keeps I (approval_revision env t i)"
  "keeps I (task_for_object d i)" "keeps I (task_instance env t i)" "keeps I (get_approval env i)"
proof -
  show find: "keeps I (find_approval env t i)"
    unfolding find_approval_def by (intro keeps_rules keeps_option)
  show revision: "keeps I (approval_revision env t i)"
    unfolding approval_revision_def by (intro keeps_rules)
  show "keeps I (task_for_object d i)"
    unfolding task_for_object_def by (auto intro!: keeps_rules split: list.split)
  then show "keeps I (get_approval env i)"
    unfolding get_approval_def
    by (auto intro!: keeps_rules keeps_option request_resolution simp: find_approval_def approval_revision_def
        task_for_object_def split: list.split)
  show "keeps I (task_instance env t i)"
    unfolding task_instance_def by (intro keeps_rules keeps_option)
qed

lemmas quiet_steps = keeps_rules keeps_if keeps_option clock init request_resolution readers request_file sequence

lemma notification: "keeps I (ensure_notification env t r)"
  unfolding ensure_notification_def Let_def
  by (intro quiet_steps new_item) simp_all

lemma report: "keeps I (notify_and_report env t a r)"
  unfolding notify_and_report_def by (intro quiet_steps notification)

lemma creation: "keeps I (create_approval env t x st i kind owner att acts actor c)"
  unfolding create_approval_def Let_def by (intro quiet_steps new_approval) simp_all

lemma existing: "keeps I m \<Longrightarrow> keeps I (existing_or_create kind msg e m)"
  unfolding existing_or_create_def by (intro quiet_steps)

lemma workflow: "keeps I (ensure_workflow_approval env t i st caps opn)"
  unfolding ensure_workflow_approval_def Let_def by (intro quiet_steps creation report)

lemma delivery: "keeps I (ensure_delivery_review_approval env t i cand ok)"
  unfolding ensure_delivery_review_approval_def Let_def
  by (intro quiet_steps existing creation report)

lemma budget_approval: "keeps I (ensure_budget_approval env t i att)"
  unfolding ensure_budget_approval_def Let_def
  by (auto split: prod.split intro!: quiet_steps existing creation report)

lemma resolution: "keeps I (commit_resolution env i d e)"
proof -
  have get: "\<exists>t. I s' \<and> repo_get (approval_repo env) s' t i = Inr (Some (P_approval a))"
    if "I s" "get_approval env i s = (Inr (a, n, p), s')" for s s' a n p
    using that
    by (auto simp: get_approval_def resolve_request_def find_approval_def approval_revision_def task_for_object_def
        monad split: option.splits list.splits)
  show ?thesis
    unfolding commit_resolution_def
  proof (rule keeps_bind_strong [OF readers(5)], clarify)
    fix s s' a n p
    assume "I s" "get_approval env i s = (Inr (a, n, p), s')"
    then obtain t where t: "I s'" "repo_get (approval_repo env) s' t i = Inr (Some (P_approval a))"
      using get by blast
    show "keeps I (decide_approval env i d e a n)"
      unfolding decide_approval_def Let_def
      by (intro keeps_bind [OF keeps_pure(4)] keeps_option keeps_check keeps_bind [OF clock]
          keeps_bind [OF decide [OF t]] keeps_pure) (auto simp: monad)
  qed
qed

lemma status_update: "keeps I (update_inbox_status env i target e enforce)"
  unfolding update_inbox_status_def Let_def
  by (intro keeps_bind [OF readers(3)] keeps_readS keeps_option keeps_check keeps_pure
      keeps_bind [OF clock] keeps_bind [OF mark]) (auto simp: monad)

lemma marking_read: "keeps I (mark_instance_notifications_read env i owner)"
  unfolding mark_instance_notifications_read_def view_one_def
  by (auto intro!: keeps_rules keeps_option status_update split: prod.split)

lemma clearing: "keeps I (clear_read_notifications env owner)"
proof -
  have "keeps I (collectS (clear_one env owner) xs)"
    if "I s" "list_inbox env s owner (Some ''READ'') None = Inr xs" for s xs
    using clear [OF that] unfolding clear_one_def
    by (auto intro!: keeps_rules split: prod.split)
  then show ?thesis
    unfolding clear_read_notifications_def
    by (intro keeps_check keeps_readS keeps_bind [where m = "collectS f ys" for f ys] keeps_pure)
qed

lemma external_handling: "keeps I (handle_external_approval_notifications env actor a)"
  unfolding handle_external_approval_notifications_def handle_external_one_def
  by (auto intro!: keeps_rules keeps_if status_update split: prod.split)

lemma acknowledgement:
  "keeps I (acknowledge_external_workflow_approvals env t i step opn actor)"
proof -
  have "keeps I (collectS (acknowledge_one env t current actor) as)"
    if "I s" "list_approvals env s (Some t) (Some i) None (Some ''PENDING'') = Inr as"
    for s as current
    using decide_listed [OF that] unfolding acknowledge_one_def Let_def
    by (auto intro!: keeps_rules keeps_if clock split: prod.split)
  then show ?thesis
    unfolding acknowledge_external_workflow_approvals_def Let_def
    by (intro keeps_readS keeps_bind [where m = "collectS f ys" for f ys]
        keeps_bind [OF keeps_forS] keeps_pure external_handling)
qed

lemma notification_handling: "keeps I (handle_approval_notification env i actor k)"
  unfolding handle_approval_notification_def
  by (auto intro!: keeps_rules keeps_if status_update split: list.split prod.split)

lemma terminal: "keeps I (reconcile_terminal_notifications env)"
  unfolding reconcile_terminal_notifications_def reconcile_task_notifications_def
    notify_terminal_def
  by (auto intro!: keeps_rules keeps_option notification split: option.split)

end

section \<open>The retry-budget service\<close>

lemma find_attempt_Inr [monad]:
  "find_attempt b i = Inr a \<longleftrightarrow> find (\<lambda>x. at_attempt_id x = i) (rb_attempts b) = Some a"
  by (auto simp: find_attempt_def split: option.splits)

lemma find_attempt_id: "find_attempt b i = Inr a \<Longrightarrow> at_attempt_id a = i"
  by (auto simp: monad dest: find_SomeD)

lemma find_replaced:
  assumes "find_attempt b i = Inr a" and "at_attempt_id a' = i"
  shows "find_attempt (replace_attempt b a') i = Inr a'"
proof -
  have "find (\<lambda>x. at_attempt_id x = i) (update_first (\<lambda>x. at_attempt_id x = i) (\<lambda>_. a') xs) = Some a'"
    if "find (\<lambda>x. at_attempt_id x = i) xs = Some a" for xs
    using that assms(2) by (induction xs) auto
  with assms show ?thesis by (simp add: monad replace_attempt_def)
qed

lemma find_touched: "find_attempt (touched_budget b now) i = find_attempt b i"
  by (simp add: find_attempt_def touched_budget_def)

locale budget_frame = notice_frame +
  fixes R :: "string \<Rightarrow> retry_budget \<Rightarrow> bool"
  assumes budget_read: "I s \<Longrightarrow> get_budget env t s = (Inr b, s') \<Longrightarrow> R t b"
    and budget_stored: "I s \<Longrightarrow> stored_budget env t s = (Inr (Some b), s') \<Longrightarrow> R t b"
    and budget_put: "R t b \<Longrightarrow> keeps I (put_budget env t b actor c k result sha)"
    and configured:
    "R t b \<Longrightarrow> policy_errors p = 0 \<Longrightarrow>
     R t (b\<lparr>rb_revision := rb_revision b + 1, rb_policy := p, rb_updated_at := now\<rparr>)"
    and reserved:
    "R t b \<Longrightarrow> rr_attempt_id q \<notin> at_attempt_id ` set (rb_attempts b) \<Longrightarrow> check_amounts q = Inr () \<Longrightarrow>
     policy_errors (rb_policy b) = 0 \<Longrightarrow> configured = map_of (rp_reservations (rb_policy b)) agent \<Longrightarrow>
     requested = requested_tokens configured (rr_reservation_tokens q) \<Longrightarrow>
     with_attempt b (new_attempt (rr_attempt_id q) ro inst inst_id lineage requested
       (rr_estimated_cost q) cat aid gs now) gs requested (rr_estimated_cost q) now = Inr b' \<Longrightarrow>
     R t b'"
    and prepared:
    "R t b \<Longrightarrow> find_attempt b i = Inr a \<Longrightarrow> at_status a = PENDING_APPROVAL \<Longrightarrow>
     check_resolution (pd_decision pd) (pd_action pd) (pd_payload pd) = Inr () \<Longrightarrow>
     R t (touched_budget (replace_attempt b (a\<lparr>at_pending := Some pd\<rparr>)) now)"
    and decided:
    "R t b \<Longrightarrow> find_attempt b i = Inr a \<Longrightarrow> at_pending a = Some pd \<Longrightarrow>
     R t (touched_budget (replace_attempt b (decided_attempt a pd at)) now)"
    and consumed:
    "R t b \<Longrightarrow> find_attempt b i = Inr a \<Longrightarrow> at_status a = AUTHORIZED \<Longrightarrow>
     int_of_limit (at_reserved_tokens a) = Inr tokens \<Longrightarrow>
     optional_limit (at_reserved_cost a) = Inr cost \<Longrightarrow>
     R t (touched_budget ((replace_attempt b
       (a\<lparr>at_status := RESERVED, at_override_consumed_at := Some at\<rparr>))
       \<lparr>rb_ledger := reserve_in tokens cost (rb_ledger b)\<rparr>) now)"
    and settled:
    "R t b \<Longrightarrow> find_attempt b i = Inr a \<Longrightarrow> at_status a = RESERVED \<Longrightarrow>
     int_of_limit (at_reserved_tokens a) = Inr tokens \<Longrightarrow>
     optional_limit (at_reserved_cost a) = Inr cost \<Longrightarrow> 0 \<le> used \<Longrightarrow>
     (case spent of None \<Rightarrow> True | Some n \<Rightarrow> 0 \<le> n) \<Longrightarrow>
     R t (touched_budget ((replace_attempt b
       (a\<lparr>at_status := (if exceeds tokens cost used spent then EXCEEDED else SETTLED),
          at_actual_tokens := Some used, at_actual_cost := spent, at_settled_at := Some at\<rparr>))
       \<lparr>rb_ledger := frozen_if (exceeds tokens cost used spent)
          (settle_in tokens cost used spent (rb_ledger b))\<rparr>) now)"
begin

lemma budget_readers: "keeps I (require_task env t)" "keeps I (stored_budget env t)"
  "keeps I (get_budget env t)" "keeps I (budget_instance env t i)"
  "keeps I (committed_budget_command t k c sha)"
proof -
  show task: "keeps I (require_task env t)"
    unfolding require_task_def by (intro quiet_steps)
  show stored: "keeps I (stored_budget env t)"
    unfolding stored_budget_def by (intro quiet_steps)
  show "keeps I (get_budget env t)"
    unfolding get_budget_def initial_snapshot_def by (intro quiet_steps task stored)
  show "keeps I (budget_instance env t i)"
    unfolding budget_instance_def by (intro quiet_steps task)
  show "keeps I (committed_budget_command t k c sha)"
    unfolding committed_budget_command_def by (intro quiet_steps)
qed

lemma with_budget:
  "(\<And>b. R t b \<Longrightarrow> keeps I (f b)) \<Longrightarrow> keeps I (bindS (get_budget env t) f)"
  by (rule keeps_bind_strong [OF budget_readers(3)]) (blast dest: budget_read)

lemmas budget_steps = with_budget keeps_bind [OF budget_readers(5)] keeps_check keeps_option
  keeps_if keeps_bind [OF clock] keeps_pure

lemma configuration: "keeps I (configure env t p n k actor)"
  unfolding configure_def Let_def
  by (intro budget_steps keeps_bind [OF budget_put] configured)
    (auto simp: monad validated_policy_def)

lemma denial: "keeps I (ensure_denial_approval env t i a)"
  unfolding ensure_denial_approval_def by (intro quiet_steps budget_approval)

lemma answering: "keeps I (answer_retry env v)"
  unfolding answer_retry_def
  by (auto intro!: keeps_rules denial split: command_result.split)

lemma reservation:
  assumes "check_amounts q = Inr ()"
  shows "keeps I (reserve_retry env q inst sha k actor)"
  unfolding reserve_retry_def Let_def
  by (intro budget_steps keeps_bind [OF keeps_pure(4)] keeps_bind [OF budget_put],
      rule reserved [OF _ _ assms _ refl refl], assumption, simp_all add: monad)

lemma retry: "keeps I (request_retry env q k actor)"
  unfolding request_retry_def Let_def
  by (intro keeps_check keeps_bind [OF budget_readers(4)] keeps_bind [OF budget_readers(5)]
      keeps_option keeps_bind [OF reservation] answering) auto

lemma resolution_notice: "keeps I (handle_resolution_notification env i k e)"
  unfolding handle_resolution_notification_def by (intro quiet_steps notification_handling)

lemma finishing:
  assumes "R t b" and "find_attempt b i = Inr a"
  shows "keeps I (finish_pending_resolution env t b a)"
  unfolding finish_pending_resolution_def Let_def
  by (auto intro!: keeps_pure keeps_check keeps_bind [OF resolution] keeps_bind [OF clock]
      keeps_bind [OF resolution_notice] keeps_bind [OF budget_put] decided [OF assms]
      split: option.split command_result.split)

lemma preparing:
  assumes "R t b" and "find_attempt b i = Inr a" and "check_resolution d act pay = Inr ()"
  shows "keeps I (prepare_resolution env t b a aid d act pay e sha)"
proof -
  have found: "find_attempt (touched_budget (replace_attempt b (a\<lparr>at_pending := Some pd\<rparr>)) now) i =
      Inr (a\<lparr>at_pending := Some pd\<rparr>)" for pd now
    using find_attempt_id [OF assms(2)] by (simp add: find_touched find_replaced [OF assms(2)])
  show ?thesis
    unfolding prepare_resolution_def Let_def
    by (auto intro!: keeps_bind [OF readers(5)] keeps_check keeps_bind [OF clock]
        keeps_bind [OF budget_put] finishing [OF _ found] prepared [OF assms(1,2)]
        simp: monad assms(3) split: prod.split)
qed

lemma resolving: "keeps I (resolve_approval env i d act pay e)"
  unfolding resolve_approval_def Let_def
  by (auto intro!: keeps_bind [OF readers(5)] keeps_check keeps_pure keeps_bind [OF budget_readers(5)]
      keeps_bind [OF resolution_notice] with_budget finishing preparing
      simp: monad split: prod.split option.split)

lemma consumption: "keeps I (consume_override env t i k actor)"
  unfolding consume_override_def Let_def
  by (intro budget_steps keeps_bind [OF budget_put] consumed) (auto simp: monad)

lemma settlement: "keeps I (settle env t i used spent k actor)"
  unfolding settle_def Let_def
  by (intro budget_steps keeps_bind [OF budget_put] settled) (auto simp: monad)


lemma recovery_of_attempt:
  assumes "R t b"
  shows "keeps I (recover_attempt env t i b)"
    and "I s \<Longrightarrow> recover_attempt env t i b s = (Inr (b', rs), s') \<Longrightarrow> R t b'"
proof -
  show "keeps I (recover_attempt env t i b)"
    unfolding recover_attempt_def Let_def
    by (auto intro!: keeps_check keeps_if keeps_bind [OF finishing] keeps_bind [OF denial]
        keeps_bind [OF budget_readers(3)] keeps_bind [OF resolution_notice] keeps_pure
        simp: assms split: option.split prod.split)
  assume I: "I s" and run: "recover_attempt env t i b s = (Inr (b', rs), s')"
  then consider "b' = b" | a v u where "find_attempt b i = Inr a"
      "finish_pending_resolution env t b a s = (Inr v, u)" "get_budget env t u = (Inr b', s')"
    by (auto simp: recover_attempt_def Let_def monad split: if_splits option.splits)
  then show "R t b'"
  proof cases
    case 2
    from keepsD [OF finishing [OF assms 2(1)] I 2(2)] have "I u" .
    then show ?thesis using 2(3) by (rule budget_read)
  qed (use assms in simp)
qed

lemma recovery_of_attempts: "R t b \<Longrightarrow> keeps I (recover_attempts env t is b)"
proof (induction "is" arbitrary: b)
  case (Cons i "is")
  show ?case
    unfolding recover_attempts.simps
    by (rule keeps_bind_strong [OF recovery_of_attempt(1) [OF Cons.prems]])
      (auto intro!: keeps_bind [OF Cons.IH] keeps_pure dest: recovery_of_attempt(2) [OF Cons.prems])
qed (simp add: keeps_pure)

lemma budget_recovery: "keeps I (recover_budgets env)"
proof -
  have "keeps I (recover_task_budget env t)" for t
    unfolding recover_task_budget_def
  proof (rule keeps_bind_strong [OF budget_readers(2)])
    fix current s s'
    assume I: "I s" and read: "stored_budget env t s = (Inr current, s')"
    then have "R t b" if "current = Some b" for b using that budget_stored by blast
    then show "keeps I (case current of None \<Rightarrow> returnS None | Some snapshot \<Rightarrow>
        bindS (recover_attempts env t (map at_attempt_id (rb_attempts snapshot)) snapshot)
          (\<lambda>rs. returnS (Some rs)))"
      by (auto intro!: keeps_pure keeps_bind [OF recovery_of_attempts] split: option.split)
  qed
  then show ?thesis
    unfolding recover_budgets_def by (intro keeps_rules)
qed

lemma calls: "keeps I (begin_model_call env t i att request la)"
  "keeps I (complete_model_call env t att)"
  unfolding begin_model_call_def complete_model_call_def Let_def
  by (intro quiet_steps keeps_bind [OF clock] keeps_bind [OF model_call] keeps_check keeps_option
      keeps_if keeps_pure keeps_bind [OF keeps_pure(4)])+

lemmas kept_after = keeps_snd [OF workflow]
  keeps_snd [OF delivery]
  keeps_snd [OF budget_approval]
  keeps_snd [OF notification]
  keeps_snd [OF resolution]
  keeps_snd [OF status_update]
  keeps_snd [OF marking_read]
  keeps_snd [OF clearing]
  keeps_snd [OF acknowledgement]
  keeps_snd [OF notification_handling]
  keeps_snd [OF terminal]
  keeps_snd [OF configuration]
  keeps_snd [OF retry]
  keeps_snd [OF resolving]
  keeps_snd [OF consumption]
  keeps_snd [OF settlement]
  keeps_snd [OF budget_recovery]
  keeps_snd [OF calls(1)]
  keeps_snd [OF calls(2)]

lemma kept_by_service: "service_step env s s' \<Longrightarrow> I s \<Longrightarrow> I s'"
  by (erule service_step.cases) (simp only:, erule kept_after)+

end

end
