(* ===== verification/System.thy ===== *)
theory System imports Handler_Frames Service_Frames begin

text \<open>
  The whole modelled system: one step is one run of a command handler, one startup recovery, or one
  operation of the approval and retry-budget services, whatever it returns or raises. The invariants
  of the command handlers and of the services meet here.
\<close>

section \<open>Steps\<close>

inductive system_step :: "environment \<Rightarrow> store \<Rightarrow> store \<Rightarrow> bool" for env where
  command: "step env s s' \<Longrightarrow> system_step env s s'"
| service: "service_step env s s' \<Longrightarrow> system_step env s s'"

abbreviation system_run :: "environment \<Rightarrow> store \<Rightarrow> store \<Rightarrow> bool" where
  "system_run env \<equiv> (system_step env)\<^sup>*\<^sup>*"

definition system_reachable :: "environment \<Rightarrow> store \<Rightarrow> bool" where
  "system_reachable env s \<longleftrightarrow> system_run env empty_store s"

lemma system_run_invariant:
  assumes "system_run env s s'" and "I s"
    and "\<And>a b. step env a b \<Longrightarrow> I a \<Longrightarrow> I b" and "\<And>a b. service_step env a b \<Longrightarrow> I a \<Longrightarrow> I b"
  shows "I s'"
  using assms(1,2) by (induction rule: rtranclp_induct) (auto elim: system_step.cases intro: assms)

section \<open>Invariants that every write keeps\<close>

locale blind_frame =
  fixes env :: environment and I :: "store \<Rightarrow> bool"
  assumes any_put: "keeps I (repo_put env (repository_of env kind) t i p n a c k res sha hook)"
    and any_delete: "keeps I (repo_delete env (repository_of env kind) t i n a c k)"
    and any_unlink: "keeps I (unlink_file q)"
    and any_write: "keeps I (write_file q w)"
    and any_remember: "keeps I (remember_digest env t k c digest v)"
    and any_quiet: "unchanged s s' \<Longrightarrow> I s \<Longrightarrow> I s'"
    and any_summary: "keeps I (write_task_summary t task)"
    and any_warning: "keeps I (warn env t f)"
    and any_request_file: "keeps I (write_approval_payload t f r)"
    and any_sequence: "keeps I next_sequence"
    and any_model_call: "keeps I (write_model_call at_path call)"

sublocale blind_frame \<subseteq> handlers: step_frame env I
  by unfold_locales (rule any_put any_unlink any_remember any_summary any_write any_warning |
    erule (1) any_quiet)+

sublocale blind_frame \<subseteq> services: budget_frame env I "\<lambda>_ _. True"
proof (unfold_locales, goal_cases)
  case (1 s s')
  then show ?case by (rule any_quiet)
qed (simp_all add: any_request_file any_sequence any_model_call approval_repo_def inbox_repo_def budget_repo_def
  put_budget_def any_put any_delete keeps_bind keeps_pure)

context blind_frame begin

lemma kept_by_run: "system_run env s s' \<Longrightarrow> I s \<Longrightarrow> I s'"
  by (erule system_run_invariant) (auto intro: handlers.kept_by_step services.kept_by_service)

end

interpretation growing: blind_frame env "journal_extends t es" for env t es
proof (unfold_locales, goal_cases)
  case (1 kind u i p n a c k res sha hook)
  show ?case
  proof (rule keepsI)
    fix s r s'
    assume "journal_extends t es s"
      and "repo_put env (repository_of env kind) u i p n a c k res sha hook s = (r, s')"
    then show "journal_extends t es s'" using observed_effects by (metis append_assoc)
  qed
next
  case (2 kind u i n a c k)
  show ?case
  proof (rule keepsI)
    fix s r s'
    assume "journal_extends t es s"
      and "repo_delete env (repository_of env kind) u i n a c k s = (r, s')"
    from this(2,1) show "journal_extends t es s'"
      by (cases rule: repo_delete_cases) (auto simp: unchanged_def)
  qed
next
  case (3 q)
  show ?case by (rule keepsI) (auto dest!: unlink_file_effect)
next
  case (4 q w)
  show ?case by (rule keepsI) (auto dest!: write_file_effect)
next
  case (5 u k c digest v)
  show ?case by (rule keepsI) (auto dest!: remember_digest_observers(2))
next
  case (6 s s')
  then show ?case by (simp add: unchanged_def)
next
  case (7 u task)
  show ?case by (rule keepsI) (auto simp: write_task_summary_def monad)
next
  case (8 u f)
  have "keeps (journal_extends t es) (utc_now env)"
    by (rule keepsI) (auto dest!: utc_now_unchanged simp: unchanged_def)
  then show ?case unfolding warn_def by (intro keeps_rules) (simp_all add: journal_def)
next
  case (9 u f r)
  show ?case by (rule keepsI) (auto simp: write_approval_payload_def monad journal_def)
next
  case 10
  show ?case by (rule keepsI) (auto simp: next_sequence_def journal_def)
next
  case (11 q r)
  show ?case by (rule keepsI) (auto simp: write_model_call_def monad journal_def)
qed

interpretation remembering: blind_frame env "remembers path x" for env path x
proof (unfold_locales, goal_cases)
  case (1 kind u i p n a c k res sha hook)
  show ?case by (rule keepsI) (use observed_effects entry_rest in metis)
next
  case (2 kind u i n a c k)
  show ?case
  proof (rule keepsI)
    fix s r s'
    assume "remembers path x s" "repo_delete env (repository_of env kind) u i n a c k s = (r, s')"
    from this(2,1) show "remembers path x s'"
      by (cases rule: repo_delete_cases) (auto simp: unchanged_def dest: entry_rest)
  qed
next
  case (3 q)
  show ?case by (rule keepsI) (auto simp: unlink_file_def monad idempotency_entry_def)
next
  case (4 q w)
  show ?case by (rule keepsI) (auto simp: write_file_def monad idempotency_entry_def)
next
  case (5 u k c digest v)
  show ?case
  proof (rule keepsI)
    fix s r s'
    assume "remembers path x s" "remember_digest env u k c digest v s = (r, s')"
    from this(2,1) show "remembers path x s'"
      by (cases rule: remember_digest_cases) auto
  qed
next
  case (6 s s')
  then show ?case using entry_rest by (metis unchanged_def)
next
  case (7 u task)
  show ?case by (rule keepsI) (auto simp: write_task_summary_def monad idempotency_entry_def)
next
  case (8 u f)
  have "keeps (remembers path x) (utc_now env)"
    by (rule keepsI) (use utc_now_unchanged entry_rest unchanged_def in metis)
  then show ?case unfolding warn_def by (intro keeps_rules) (simp_all add: idempotency_entry_def)
next
  case (9 u f r)
  show ?case by (rule keepsI) (auto simp: write_approval_payload_def monad idempotency_entry_def)
next
  case 10
  show ?case by (rule keepsI) (auto simp: next_sequence_def idempotency_entry_def)
next
  case (11 q r)
  show ?case by (rule keepsI) (auto simp: write_model_call_def monad idempotency_entry_def)
qed

section \<open>Append-only journals, exactly-once commands\<close>

text \<open>
  C36. The event journal of a task is append-only: no command handler, no
  operation of the approval and budget services, whatever it returns or raises, and no startup
  recovery removes or rewrites an event of any task.
\<close>

theorem journals_append_only:
  assumes "system_run env s s'"
  shows "\<exists>es. journal s' t = journal s t @ es"
  using growing.kept_by_run [OF assms, of t "journal s t"] by simp

text \<open>
  C3. A command takes effect once: after it has returned a result, the same request under the same key
  returns that result for ever, without running its operation and without touching the store, whatever
  commands and restarts came in between.
\<close>

theorem command_runs_once:
  assumes "idempotent env t c r e operation s = (Inr v, s')"
    and "system_run env s' s2" and "ce_idempotency_key e2 = ce_idempotency_key e"
  shows "idempotent env t c r e2 operation2 s2 = (Inr v, s2)"
  using idempotent_remembers [OF assms(1)] remembering.kept_by_run [OF assms(2)]
    idempotent_replays assms(3) by metis

text \<open>
  C37. A key names one request: once a command has returned under a key, another request under that key
  (another command, or the same with other arguments) is refused with
  \<open>IDEMPOTENCY_CONFLICT\<close> at every later time, and changes nothing.
\<close>

theorem reused_key_conflicts:
  assumes "idempotent env t c r e operation s = (Inr v, s')"
    and "system_run env s' s2" and "ce_idempotency_key e2 = ce_idempotency_key e"
    and "ev_request_digest env c2 r2 \<noteq> ev_request_digest env c r"
  shows "idempotent env t c2 r2 e2 operation2 s2 = (Inl (idempotency_conflict t c2), s2)"
proof -
  have t: "is_identifier t"
    and "remembers (idempotency_path env t (ce_idempotency_key e)) (ev_request_digest env c r, v) s2"
    using idempotent_remembers [OF assms(1)] remembering.kept_by_run [OF assms(2)] by auto
  then have "idempotency_lookup env s2 t (ce_idempotency_key e2) c2 r2 =
      Inl (idempotency_conflict t c2)"
    using assms(3,4) by (simp add: lookup_slot)
  then show ?thesis by (simp add: idempotent_eq [OF t] Let_def)
qed

section \<open>Invariants of what is stored\<close>

locale notice_payloads =
  fixes env :: environment and P :: "payload \<Rightarrow> bool"
  assumes approval_payload: "P (P_approval a)" and inbox_payload: "P (P_inbox x)"

sublocale notice_payloads \<subseteq> notice_frame env "all_payloads P"
proof (unfold_locales, goal_cases)
  case (1 s s')
  then show ?case using all_payloads_cong by (auto simp: unchanged_def)
next
  case (2 t r p)
  show ?case
    by (rule keeps_observers)
      (auto simp: write_approval_payload_def monad file_at_def journal_def fun_eq_iff)
next
  case 3
  show ?case
    by (rule keeps_observers) (auto simp: next_sequence_def file_at_def journal_def fun_eq_iff)
next
  case (10 q r)
  show ?case
    by (rule keeps_observers)
      (auto simp: write_model_call_def monad file_at_def journal_def fun_eq_iff)
qed (auto simp: approval_repo_def inbox_repo_def approval_payload inbox_payload
  intro: keeps_put keeps_delete)

lemma stored_budget_read:
  assumes "all_payloads P s" and "stored_budget env t s = (Inr (Some b), s')"
  shows "P (P_retry_budget b)"
  using assms
  by (auto simp: stored_budget_def monad split: option.splits dest: all_payloads_get)

lemma put_budget_payload:
  "P (P_retry_budget b) \<Longrightarrow> keeps (all_payloads P) (put_budget env t b a c k v sha)"
  unfolding put_budget_def budget_repo_def by (intro keeps_rules)

interpretation plan_notices: notice_payloads env good_payload for env
  by unfold_locales simp_all

interpretation plan_services: budget_frame env plans_good "\<lambda>_ _. True" for env
  by unfold_locales (simp_all add: put_budget_payload)

lemma system_plans_good: "system_reachable env s \<Longrightarrow> plans_good s"
  unfolding system_reachable_def
  by (erule system_run_invariant [where I = plans_good])
    (auto simp: all_payloads_empty intro: step_keeps plan_services.kept_by_service)

text \<open>
  C1. In every store that the command handlers, the approval and budget services and startup recovery
  can produce from the empty one, in any order and with any outcome, every stored or journalled plan
  is well formed, none of its instances is in the catalog's initial state, and a requirement is
  dropped only by a recorded downgrade of something that had been activated.
\<close>

theorem stored_plans_good:
  assumes "system_reachable env s" and "wr_payload w = P_plan plan"
    and "file_at s path = Some (Snapshot w) \<or> (\<exists>t. \<exists>e \<in> set (journal s t). ee_snapshot e = Some w)"
  shows "well_formed_plan plan \<and> sound_plan plan"
  using system_plans_good [OF assms(1)] assms(2,3) unfolding all_payloads_def
  by (metis good_payload.simps(1))

end
