(* ===== verification/Budget_Ledger.thy ===== *)
theory Budget_Ledger imports System begin

text \<open>
  The ledger of a retry budget is a cache: at every moment it equals a function of the recorded
  attempts. Its invariant, the bounds that an allowed reservation respects, and the life cycle of an
  attempt.
\<close>

section \<open>The ledger as a function of the attempts\<close>

definition amount :: "limit_value \<Rightarrow> int" where
  "amount v = (case v of LimInt n \<Rightarrow> n | _ \<Rightarrow> 0)"

definition held_tokens :: "attempt \<Rightarrow> int" where
  "held_tokens a = (if at_status a = RESERVED then amount (at_reserved_tokens a) else 0)"

definition held_cost :: "attempt \<Rightarrow> int" where
  "held_cost a = (if at_status a = RESERVED then amount (at_reserved_cost a) else 0)"

definition is_settled :: "attempt \<Rightarrow> bool" where
  "is_settled a = (at_status a \<in> {SETTLED, EXCEEDED})"

definition used_tokens :: "attempt \<Rightarrow> int" where
  "used_tokens a =
     (if is_settled a then (case at_actual_tokens a of None \<Rightarrow> 0 | Some n \<Rightarrow> n) else 0)"

definition used_cost :: "attempt \<Rightarrow> int" where
  "used_cost a = (if is_settled a then (case at_actual_cost a of None \<Rightarrow> 0 | Some n \<Rightarrow> n) else 0)"

definition unknown_cost :: "attempt \<Rightarrow> int" where
  "unknown_cost a = (if is_settled a \<and> at_actual_cost a = None then 1 else 0)"

definition has_exceeded :: "attempt list \<Rightarrow> bool" where
  "has_exceeded as = list_ex (\<lambda>a. at_status a = EXCEEDED) as"

definition tally :: "(attempt \<Rightarrow> int) \<Rightarrow> attempt list \<Rightarrow> int" where
  "tally f as = sum_list (map f as)"

definition ledger_of :: "attempt list \<Rightarrow> ledger" where
  "ledger_of as =
     \<lparr>lg_tokens_reserved = tally held_tokens as, lg_tokens_settled = tally used_tokens as,
      lg_cost_reserved = tally held_cost as,
      lg_cost_settled = (if tally unknown_cost as = 0 then Some (tally used_cost as) else None),
      lg_unknown_cost = tally unknown_cost as, lg_frozen = has_exceeded as,
      lg_frozen_reason =
        (if has_exceeded as then Some ''ACTUAL_USAGE_EXCEEDED_RESERVATION'' else None)\<rparr>"

text \<open>What else holds of a recorded attempt: its limits are null or not negative, the tokens it
  reserves are a number, and a prepared decision waits on a pending attempt with checked limits.\<close>

definition limit_sound :: "limit_value \<Rightarrow> bool" where
  "limit_sound v = (case v of LimInt n \<Rightarrow> 0 \<le> n | LimNull \<Rightarrow> True | _ \<Rightarrow> False)"

definition attempt_sound :: "attempt \<Rightarrow> bool" where
  "attempt_sound a =
     (limit_sound (at_reserved_tokens a) \<and> limit_sound (at_reserved_cost a) \<and>
      (at_status a = RESERVED \<longrightarrow> at_reserved_tokens a \<noteq> LimNull) \<and>
      (case at_pending a of None \<Rightarrow> True
       | Some p \<Rightarrow> at_status a = PENDING_APPROVAL \<and>
           (pd_decision p = ''APPROVED'' \<longrightarrow>
              limit_ok (pd_payload p) ''token_limit'' 1 \<and>
              limit_ok (pd_payload p) ''cost_limit_micros'' 0)))"

definition sound_budget :: "retry_budget \<Rightarrow> bool" where
  "sound_budget b =
     (rb_ledger b = ledger_of (rb_attempts b) \<and> list_all attempt_sound (rb_attempts b) \<and>
      distinct (map at_attempt_id (rb_attempts b)))"

fun budget_payload :: "(retry_budget \<Rightarrow> bool) \<Rightarrow> payload \<Rightarrow> bool" where
  "budget_payload Q (P_retry_budget b) = Q b"
| "budget_payload Q _ = True"

section \<open>Changing one attempt\<close>

lemma tally_update:
  "find p as = Some a \<Longrightarrow> tally f (update_first p (\<lambda>_. a') as) = tally f as - f a + f a'"
  by (induction as) (auto simp: tally_def split: if_splits)

lemma tally_append: "tally f (as @ [a]) = tally f as + f a"
  by (simp add: tally_def)

lemma tally_bound:
  assumes "\<And>x. x \<in> set as \<Longrightarrow> 0 \<le> f x"
  shows "0 \<le> tally f as" and "a \<in> set as \<Longrightarrow> f a \<le> tally f as"
proof -
  show "0 \<le> tally f as" using assms by (induction as) (auto simp: tally_def)
  show "a \<in> set as \<Longrightarrow> f a \<le> tally f as"
    using assms
  proof (induction as)
    case (Cons x xs)
    have "0 \<le> sum_list (map f xs)" using Cons.prems(2) by (intro sum_list_nonneg) auto
    moreover have "0 \<le> f x" using Cons.prems(2) by simp
    moreover have "a = x \<or> f a \<le> sum_list (map f xs)" using Cons by (auto simp: tally_def)
    ultimately show ?case by (auto simp: tally_def)
  qed simp
qed

lemma exceeded_update:
  "find p as = Some a \<Longrightarrow> at_status a \<noteq> EXCEEDED \<Longrightarrow>
   has_exceeded (update_first p (\<lambda>_. a') as) = (has_exceeded as \<or> at_status a' = EXCEEDED)"
  by (induction as) (auto simp: has_exceeded_def split: if_splits)

lemma ids_update:
  "at_attempt_id a = i \<Longrightarrow>
   map at_attempt_id (update_first (\<lambda>x. at_attempt_id x = i) (\<lambda>_. a) as) = map at_attempt_id as"
  by (induction as) auto

lemma sound_budget_update:
  "list_all attempt_sound as \<Longrightarrow> attempt_sound a \<Longrightarrow>
   list_all attempt_sound (update_first p (\<lambda>_. a) as)"
  by (induction as) auto

text \<open>The three forms that a change takes: the ledger is left alone, tokens and cost are reserved,
  tokens and cost are settled.\<close>

lemma sound_replace:
  assumes "sound_budget b" and "find_attempt b i = Inr a" and "at_attempt_id a' = i"
    and "attempt_sound a'" and "at_status a \<noteq> EXCEEDED"
    and "l = \<lparr>lg_tokens_reserved = lg_tokens_reserved (rb_ledger b) - held_tokens a + held_tokens a',
        lg_tokens_settled = lg_tokens_settled (rb_ledger b) - used_tokens a + used_tokens a',
        lg_cost_reserved = lg_cost_reserved (rb_ledger b) - held_cost a + held_cost a',
        lg_cost_settled = (if lg_unknown_cost (rb_ledger b) - unknown_cost a + unknown_cost a' = 0
          then Some (tally used_cost (rb_attempts b) - used_cost a + used_cost a') else None),
        lg_unknown_cost = lg_unknown_cost (rb_ledger b) - unknown_cost a + unknown_cost a',
        lg_frozen = (lg_frozen (rb_ledger b) \<or> at_status a' = EXCEEDED),
        lg_frozen_reason = (if lg_frozen (rb_ledger b) \<or> at_status a' = EXCEEDED
          then Some ''ACTUAL_USAGE_EXCEEDED_RESERVATION'' else None)\<rparr>"
  shows "sound_budget (touched_budget ((replace_attempt b a')\<lparr>rb_ledger := l\<rparr>) now)"
proof -
  have found: "find (\<lambda>x. at_attempt_id x = i) (rb_attempts b) = Some a"
    using assms(2) by (simp add: monad)
  show ?thesis
    using assms(1,3-6)
    by (simp add: sound_budget_def touched_budget_def replace_attempt_def ledger_of_def
        tally_update [OF found] exceeded_update [OF found] ids_update sound_budget_update)
qed

lemma sound_relabelled:
  assumes "sound_budget b" and "find_attempt b i = Inr a" and "at_attempt_id a' = i"
    and "attempt_sound a'" and "at_status a \<in> {PENDING_APPROVAL, AUTHORIZED, ATTEMPT_CANCELLED}"
    and "at_status a' \<in> {PENDING_APPROVAL, AUTHORIZED, ATTEMPT_CANCELLED}"
  shows "sound_budget (touched_budget (replace_attempt b a') now)"
proof -
  have found: "find (\<lambda>x. at_attempt_id x = i) (rb_attempts b) = Some a"
    using assms(2) by (simp add: monad)
  have none: "held_tokens x = 0" "held_cost x = 0" "used_tokens x = 0" "used_cost x = 0"
    "unknown_cost x = 0" if "x \<in> {a, a'}" for x
    using that assms(5,6)
    by (auto simp: held_tokens_def held_cost_def used_tokens_def used_cost_def unknown_cost_def
        is_settled_def)
  have "has_exceeded (update_first (\<lambda>x. at_attempt_id x = i) (\<lambda>_. a') (rb_attempts b)) =
      has_exceeded (rb_attempts b)"
    using assms(5,6) by (subst exceeded_update [OF found]) auto
  then show ?thesis
    using assms(1,3,4)
    by (simp add: sound_budget_def touched_budget_def replace_attempt_def ledger_of_def none
        tally_update [OF found] ids_update sound_budget_update)
qed

lemma sound_appended:
  assumes "sound_budget b" and "attempt_sound a" and "rb_attempts b' = rb_attempts b @ [a]"
    and "rb_ledger b' = (rb_ledger b)\<lparr>lg_tokens_reserved := lg_tokens_reserved (rb_ledger b) +
      held_tokens a, lg_cost_reserved := lg_cost_reserved (rb_ledger b) + held_cost a\<rparr>"
    and "at_attempt_id a \<notin> at_attempt_id ` set (rb_attempts b)"
    and "at_status a = (if c then PENDING_APPROVAL else RESERVED)"
  shows "sound_budget b'"
proof -
  have none: "used_tokens a = 0" "used_cost a = 0" "unknown_cost a = 0"
    "has_exceeded (rb_attempts b @ [a]) = has_exceeded (rb_attempts b)"
    using assms(6)
    by (auto simp: used_tokens_def used_cost_def unknown_cost_def is_settled_def has_exceeded_def)
  show ?thesis
    using assms(1,2,5)
    by (simp add: sound_budget_def assms(3,4) ledger_of_def tally_append none)
qed

lemma find_attempt_sound:
  "sound_budget b \<Longrightarrow> find_attempt b i = Inr a \<Longrightarrow> attempt_sound a \<and> a \<in> set (rb_attempts b)"
  by (auto simp: sound_budget_def list_all_iff monad dest: find_SomeD)

lemma int_of_sound:
  "limit_sound v \<Longrightarrow> int_of_limit v = Inr n \<Longrightarrow> v = LimInt n \<and> 0 \<le> n"
  by (auto simp: limit_sound_def int_of_limit_def split: limit_value.splits)

lemma optional_of_sound:
  "limit_sound v \<Longrightarrow> optional_limit v = Inr c \<Longrightarrow>
   v = (case c of None \<Rightarrow> LimNull | Some n \<Rightarrow> LimInt n) \<and> (case c of None \<Rightarrow> True | Some n \<Rightarrow> 0 \<le> n)"
  by (auto simp: optional_limit_def monad dest: int_of_sound split: if_splits)

lemma held_nonneg: "attempt_sound a \<Longrightarrow> 0 \<le> held_tokens a \<and> 0 \<le> held_cost a"
  by (auto simp: attempt_sound_def held_tokens_def held_cost_def limit_sound_def amount_def
      split: limit_value.splits)

lemma held_bound:
  assumes "sound_budget b" and "find_attempt b i = Inr a"
  shows "held_tokens a \<le> lg_tokens_reserved (rb_ledger b)"
    and "held_cost a \<le> lg_cost_reserved (rb_ledger b)"
  using assms find_attempt_sound [OF assms] held_nonneg
  by (auto simp: sound_budget_def ledger_of_def list_all_iff intro!: tally_bound(2))

section \<open>Every operation keeps it\<close>

lemma sound_initial: "get_budget env t s = (Inr b, s') \<Longrightarrow>
    stored_budget env t s = (Inr (Some b), s') \<or> rb_attempts b = [] \<and> rb_ledger b = empty_ledger"
  by (auto simp: get_budget_def initial_snapshot_def require_task_def stored_budget_def monad
      split: option.splits)

lemma sound_configured:
  "sound_budget b \<Longrightarrow> sound_budget (b\<lparr>rb_revision := n, rb_policy := p, rb_updated_at := now\<rparr>)"
  by (simp add: sound_budget_def)

lemma requested_positive:
  assumes "policy_errors p = 0" and "check_amounts q = Inr ()"
    and "requested_tokens (map_of (rp_reservations p) agent) (rr_reservation_tokens q) = Some n"
  shows "0 < n"
proof -
  have "0 < m" if "map_of (rp_reservations p) agent = Some m" for m
    using assms(1) map_of_SomeD [OF that]
    by (auto simp: policy_errors_def list_all_iff split: if_splits)
  then show ?thesis
    using assms(2,3)
    by (auto simp: requested_tokens_def check_amounts_def monad split: option.splits if_splits)
qed

lemma sound_reserved:
  assumes "sound_budget b" and "rr_attempt_id q \<notin> at_attempt_id ` set (rb_attempts b)"
    and "check_amounts q = Inr ()" and "policy_errors (rb_policy b) = 0"
    and "requested = requested_tokens (map_of (rp_reservations (rb_policy b)) agent)
      (rr_reservation_tokens q)"
    and "with_attempt b (new_attempt (rr_attempt_id q) ro inst inst_id lineage requested
       (rr_estimated_cost q) cat aid gs now) gs requested (rr_estimated_cost q) now = Inr b'"
  shows "sound_budget b'"
proof -
  have n: "0 < n" if "requested = Some n" for n
    using requested_positive [OF assms(4,3)] assms(5) that by simp
  have cost: "0 \<le> c" if "rr_estimated_cost q = Some c" for c
    using assms(3) that by (auto simp: check_amounts_def monad)
  let ?a = "new_attempt (rr_attempt_id q) ro inst inst_id lineage requested
       (rr_estimated_cost q) cat aid gs now"
  have fields: "at_status ?a = (if gs \<noteq> [] then PENDING_APPROVAL else RESERVED)"
    "at_reserved_tokens ?a = (case requested of None \<Rightarrow> LimInt 0 | Some n \<Rightarrow> LimInt n)"
    "at_reserved_cost ?a = (case rr_estimated_cost q of None \<Rightarrow> LimNull | Some n \<Rightarrow> LimInt n)"
    "at_pending ?a = None" "at_attempt_id ?a = rr_attempt_id q"
    by (simp_all add: new_attempt_def)
  have a: "attempt_sound ?a"
    unfolding attempt_sound_def fields using n cost
    by (cases requested; cases "rr_estimated_cost q") (simp_all add: limit_sound_def less_imp_le)
  have b': "rb_attempts b' = rb_attempts b @ [?a]"
    "rb_ledger b' = (rb_ledger b)\<lparr>lg_tokens_reserved := lg_tokens_reserved (rb_ledger b) + held_tokens ?a,
       lg_cost_reserved := lg_cost_reserved (rb_ledger b) + held_cost ?a\<rparr>"
    using assms(6) unfolding with_attempt_def Let_def held_tokens_def held_cost_def fields
    by (cases requested; cases "rr_estimated_cost q";
        force simp: reserve_in_def amount_def split: if_splits)+
  show ?thesis
    by (rule sound_appended [OF assms(1) a b'])
      (use assms(2) in \<open>simp_all add: fields\<close>)
qed

lemma sound_prepared:
  assumes "sound_budget b" and "find_attempt b i = Inr a" and "at_status a = PENDING_APPROVAL"
    and "check_resolution (pd_decision pd) (pd_action pd) (pd_payload pd) = Inr ()"
  shows "sound_budget (touched_budget (replace_attempt b (a\<lparr>at_pending := Some pd\<rparr>)) now)"
proof -
  have "attempt_sound (a\<lparr>at_pending := Some pd\<rparr>)"
    using find_attempt_sound [OF assms(1,2)] assms(3,4)
    by (auto simp: attempt_sound_def check_resolution_def monad)
  then show ?thesis
    using assms(3) find_attempt_id [OF assms(2)] by (intro sound_relabelled [OF assms(1,2)]) simp_all
qed

lemma limit_payload_sound:
  assumes "limit_ok payload field least" and "0 \<le> least" and "limit_of field payload = Some v"
  shows "limit_sound v"
  using assms by (auto simp: limit_ok_def limit_sound_def split: limit_value.splits)

lemma sound_decided:
  assumes "sound_budget b" and "find_attempt b i = Inr a" and "at_pending a = Some pd"
  shows "sound_budget (touched_budget (replace_attempt b (decided_attempt a pd at)) now)"
proof -
  have a: "attempt_sound a" "at_status a = PENDING_APPROVAL"
    using find_attempt_sound [OF assms(1,2)] assms(3) by (auto simp: attempt_sound_def)
  have "attempt_sound (decided_attempt a pd at)"
    using a assms(3) limit_payload_sound [of "pd_payload pd" "''token_limit''" 1]
      limit_payload_sound [of "pd_payload pd" "''cost_limit_micros''" 0]
    by (auto simp: attempt_sound_def decided_attempt_def Let_def split: option.splits)
  then show ?thesis
    using a(2) find_attempt_id [OF assms(2)]
    by (intro sound_relabelled [OF assms(1,2)]) (simp_all add: decided_attempt_def Let_def)
qed

lemma sound_consumed:
  assumes "sound_budget b" and "find_attempt b i = Inr a" and "at_status a = AUTHORIZED"
    and "int_of_limit (at_reserved_tokens a) = Inr tokens"
    and "optional_limit (at_reserved_cost a) = Inr cost"
  shows "sound_budget (touched_budget ((replace_attempt b
       (a\<lparr>at_status := RESERVED, at_override_consumed_at := Some at\<rparr>))
       \<lparr>rb_ledger := reserve_in tokens cost (rb_ledger b)\<rparr>) now)"
proof -
  have a: "attempt_sound a" using find_attempt_sound [OF assms(1,2)] by simp
  have amounts: "at_reserved_tokens a = LimInt tokens"
    "at_reserved_cost a = (case cost of None \<Rightarrow> LimNull | Some n \<Rightarrow> LimInt n)"
    using a int_of_sound [OF _ assms(4)] optional_of_sound [OF _ assms(5)]
    by (auto simp: attempt_sound_def)
  show ?thesis
    by (rule sound_replace [OF assms(1,2)])
      (use a amounts assms(1,3) find_attempt_id [OF assms(2)] in \<open>auto simp: attempt_sound_def
        reserve_in_def held_tokens_def held_cost_def used_tokens_def used_cost_def amount_def
        unknown_cost_def is_settled_def sound_budget_def ledger_of_def split: option.splits\<close>)
qed

lemma sound_settled:
  assumes "sound_budget b" and "find_attempt b i = Inr a" and "at_status a = RESERVED"
    and "int_of_limit (at_reserved_tokens a) = Inr tokens"
    and "optional_limit (at_reserved_cost a) = Inr cost"
  shows "sound_budget (touched_budget ((replace_attempt b
       (a\<lparr>at_status := (if exceeds tokens cost used spent then EXCEEDED else SETTLED),
          at_actual_tokens := Some used, at_actual_cost := spent, at_settled_at := Some at\<rparr>))
       \<lparr>rb_ledger := frozen_if (exceeds tokens cost used spent)
          (settle_in tokens cost used spent (rb_ledger b))\<rparr>) now)"
proof -
  have a: "attempt_sound a" using find_attempt_sound [OF assms(1,2)] by simp
  have amounts: "at_reserved_tokens a = LimInt tokens"
    "at_reserved_cost a = (case cost of None \<Rightarrow> LimNull | Some n \<Rightarrow> LimInt n)"
    using a int_of_sound [OF _ assms(4)] optional_of_sound [OF _ assms(5)]
    by (auto simp: attempt_sound_def)
  have held: "tokens \<le> lg_tokens_reserved (rb_ledger b)"
    "case cost of None \<Rightarrow> True | Some c \<Rightarrow> c \<le> lg_cost_reserved (rb_ledger b)"
    using held_bound [OF assms(1,2)] amounts assms(3)
    by (auto simp: held_tokens_def held_cost_def amount_def split: option.splits)
  have unknown: "0 \<le> lg_unknown_cost (rb_ledger b)"
    using assms(1) by (auto simp: sound_budget_def ledger_of_def unknown_cost_def intro!: tally_bound)
  let ?x = "exceeds tokens cost used spent"
  let ?a = "a\<lparr>at_status := (if ?x then EXCEEDED else SETTLED), at_actual_tokens := Some used,
    at_actual_cost := spent, at_settled_at := Some at\<rparr>"
  have old: "held_tokens a = tokens" "held_cost a = (case cost of None \<Rightarrow> 0 | Some c \<Rightarrow> c)"
    "used_tokens a = 0" "used_cost a = 0" "unknown_cost a = 0"
    using assms(3) amounts
    by (auto simp: held_tokens_def held_cost_def used_tokens_def used_cost_def unknown_cost_def
        is_settled_def amount_def split: option.splits)
  have new: "held_tokens ?a = 0" "held_cost ?a = 0" "used_tokens ?a = used"
    "used_cost ?a = (case spent of None \<Rightarrow> 0 | Some c \<Rightarrow> c)"
    "unknown_cost ?a = (if spent = None then 1 else 0)" "(at_status ?a = EXCEEDED) = ?x"
    by (auto simp: held_tokens_def held_cost_def used_tokens_def used_cost_def unknown_cost_def
        is_settled_def)
  have ledger: "rb_ledger b = ledger_of (rb_attempts b)"
    using assms(1) by (simp add: sound_budget_def)
  show ?thesis
  proof (rule sound_replace [OF assms(1,2)])
    show "at_attempt_id ?a = i" using find_attempt_id [OF assms(2)] by simp
    show "attempt_sound ?a" using a assms(3) by (auto simp: attempt_sound_def split: option.splits)
    show "at_status a \<noteq> EXCEEDED" using assms(3) by simp
  qed (unfold new old, insert held unknown, cases cost; cases spent;
      simp add: ledger ledger_of_def settle_in_def frozen_if_def Let_def)
qed

interpretation budget_notices: notice_payloads env "budget_payload Q" for env Q
  by unfold_locales simp_all

interpretation budget_commands: store_frame env "all_payloads (budget_payload Q)" for env Q
proof (unfold_locales, goal_cases)
  case (1 kind p t i n a c k res sha hook)
  then show ?case by (intro keeps_put) (auto elim: command_write.cases)
next
  case (4 s s')
  then show ?case by (rule budget_notices.quiet)
qed (rule keeps_rules)+

interpretation ledger_services: budget_frame env "all_payloads (budget_payload sound_budget)"
  "\<lambda>_. sound_budget" for env
proof (unfold_locales, goal_cases)
  case (1 s t b s')
  from sound_initial [OF 1(2)] show ?case
  proof
    assume "stored_budget env t s = (Inr (Some b), s')"
    from stored_budget_read [OF 1(1) this] show ?thesis by simp
  qed (simp add: sound_budget_def ledger_of_def empty_ledger_def tally_def has_exceeded_def)
next
  case (2 s t b s')
  from stored_budget_read [OF this] show ?case by simp
next
  case (3 t b actor c k result sha)
  then show ?case by (intro put_budget_payload) simp
qed (simp_all add: sound_configured sound_reserved sound_prepared sound_decided sound_consumed
  sound_settled)

lemma commands_keep_budgets:
  "step env s s' \<Longrightarrow> all_payloads (budget_payload Q) s \<Longrightarrow> all_payloads (budget_payload Q) s'"
  by (rule budget_commands.kept_if_recovered) (simp_all add: good_projections_def keeps_recover)

lemma stored_budgets_sound:
  assumes "system_reachable env s"
  shows "all_payloads (budget_payload sound_budget) s"
  using assms unfolding system_reachable_def
  by (rule system_run_invariant [where I = "all_payloads (budget_payload sound_budget)"])
    (simp add: all_payloads_empty, erule (1) commands_keep_budgets,
      erule (1) ledger_services.kept_by_service)

lemma stored_payload:
  assumes "all_payloads P s"
    and "file_at s path = Some (Snapshot w) \<or> (\<exists>t. \<exists>e \<in> set (journal s t). ee_snapshot e = Some w)"
  shows "P (wr_payload w)"
  using assms unfolding all_payloads_def by blast

text \<open>
  C4. The ledger of a retry budget never drifts: in every reachable store, the ledger of every stored
  or journalled budget is exactly the one computed from its attempts (the tokens and the cost held by
  the reserved ones, the usage of the settled ones, the number of settlements of unknown cost, frozen
  when one of them exceeded its reservation).
\<close>

theorem ledger_is_computed:
  assumes "system_reachable env s" and "wr_payload w = P_retry_budget b"
    and "file_at s path = Some (Snapshot w) \<or> (\<exists>t. \<exists>e \<in> set (journal s t). ee_snapshot e = Some w)"
  shows "rb_ledger b = ledger_of (rb_attempts b)"
  using stored_payload [OF stored_budgets_sound [OF assms(1)] assms(3)] assms(2)
  by (simp add: sound_budget_def)

end
