(* ===== verification/Projections.thy ===== *)
theory Projections imports Store_Recovery begin

text \<open>
  The stage and instance files are projections of the plan that owns them. This theory gives the
  invariant of a store whose files are where their content says they are (\<open>sound\<close>), shows that the
  repository operations keep it and never fail on it for want of a readable file, and that
  \<open>reconcile_plan_projections\<close> makes the projections the plan: exactly the planned stages and
  instances, and nothing else.
\<close>

section \<open>Sound stores\<close>

text \<open>The payload of an object of a kind, under its id.\<close>

fun payload_fits :: "object_type \<Rightarrow> string \<Rightarrow> payload \<Rightarrow> bool" where
  "payload_fits k i (P_task t) = (k = O_task)"
| "payload_fits k i (P_plan p) = (k = O_plan)"
| "payload_fits k i (P_stage s) = (k = O_stage \<and> sg_stage_id s = i)"
| "payload_fits k i (P_instance x) = (k = O_instance \<and> in_instance_id x = i)"
| "payload_fits k i (P_approval a) = (k = O_approval \<and> ap_approval_id a = i)"
| "payload_fits k i (P_inbox x) = (k = O_inbox \<and> ib_inbox_id x = i)"
| "payload_fits k i (P_retry_budget b) = (k = O_retry_budget)"
| "payload_fits k i (P_other s) =
     (k \<in> {O_task_intake, O_task_navigation, O_master_thread, O_master_message,
            O_plan_proposal})"

lemma payload_fits_kinds:
  "payload_fits O_task i p \<longleftrightarrow> (\<exists>t. p = P_task t)"
  "payload_fits O_plan i p \<longleftrightarrow> (\<exists>q. p = P_plan q)"
  "payload_fits O_stage i p \<longleftrightarrow> (\<exists>s. p = P_stage s \<and> sg_stage_id s = i)"
  "payload_fits O_instance i p \<longleftrightarrow> (\<exists>x. p = P_instance x \<and> in_instance_id x = i)"
  "payload_fits O_inbox i p \<longleftrightarrow> (\<exists>x. p = P_inbox x \<and> ib_inbox_id x = i)"
  by (cases p; simp)+

definition sound_file :: "file_path \<Rightarrow> content \<Rightarrow> bool" where
  "sound_file path c \<longleftrightarrow>
     (\<exists>k i w. c = Snapshot w \<and> is_identifier (fst path) \<and> is_identifier i \<and>
        snd path = relative_path k i \<and> wr_object_type w = k \<and> payload_fits k i (wr_payload w))"

definition sound :: "store \<Rightarrow> bool" where
  "sound st \<longleftrightarrow> (\<forall>path c. file_at st path = Some c \<longrightarrow> sound_file path c)"

lemma sound_unchanged: "sound a \<Longrightarrow> unchanged a b \<Longrightarrow> sound b"
  by (simp add: sound_def unchanged_def)

lemma sound_update:
  "sound a \<Longrightarrow> file_at b = (file_at a)(p \<mapsto> c) \<Longrightarrow> sound_file p c \<Longrightarrow> sound b"
  by (auto simp: sound_def split: if_splits)

lemma sound_remove: "sound a \<Longrightarrow> file_at b = (file_at a)(p := None) \<Longrightarrow> sound b"
  by (auto simp: sound_def split: if_splits)

lemma sound_at:
  assumes "sound st" and "file_at st (t, relative_path k i) = Some c"
  obtains w j where "c = Snapshot w" "wr_object_type w = k" "payload_fits k j (wr_payload w)"
    "singleton_kind k \<or> j = i" "is_identifier t" "is_identifier j"
proof -
  obtain k' j w where w: "c = Snapshot w" "is_identifier t" "is_identifier j"
    "relative_path k i = relative_path k' j" "wr_object_type w = k'"
    "payload_fits k' j (wr_payload w)"
    using assms by (fastforce simp: sound_def sound_file_def)
  with relative_path_inj [OF w(4)] that show thesis by auto
qed

lemma sound_read:
  assumes "sound st" and "is_identifier t" and "is_identifier i"
  shows "read_wrapper (repository_of env k) st t i =
           Inr (readable (file_at st (t, relative_path k i)))"
proof (cases "file_at st (t, relative_path k i)")
  case None
  then show ?thesis using assms(2,3) by (simp add: read_wrapper_def repo_path_def readable_def)
next
  case (Some c)
  obtain w where "c = Snapshot w" "wr_object_type w = k" by (rule sound_at [OF assms(1) Some])
  then show ?thesis using Some assms(2,3) by (simp add: read_wrapper_def repo_path_def readable_def)
qed

section \<open>Indexes never fail on a sound store\<close>

lemma file_at_listed: "(t, p) \<in> set (map fst (st_files st)) \<Longrightarrow> \<exists>c. file_at st (t, p) = Some c"
  by (cases "map_of (st_files st) (t, p)") (auto simp: file_at_def map_of_eq_None_iff)

lemma rebuild_task_index_total:
  assumes "sound st"
  shows "\<exists>st'. rebuild_task_index env st = (Inr (), st')"
proof -
  have row: "\<exists>y. bindE (read_json st path) task_index_row_of = Inr y"
    if mem: "path \<in> set (task_snapshot_paths st)" for path
  proof -
    obtain t where path: "path = (t, relative_path O_task t)"
      and listed: "(t, relative_path O_task t) \<in> set (map fst (st_files st))"
    proof -
      obtain t p where "path = (t, p)" by (metis surj_pair)
      with mem that [of t] show thesis by (auto simp: task_snapshot_paths_def)
    qed
    obtain c where c: "file_at st path = Some c" using file_at_listed [OF listed] path by auto
    from sound_at [OF assms c [unfolded path]]
    obtain w where "c = Snapshot w" "payload_fits O_task t (wr_payload w)"
      by (metis payload_fits_kinds(1))
    then show ?thesis
      using c by (auto simp: read_json_def task_index_row_of_def payload_fits_kinds)
  qed
  obtain rows where
    "mapE (\<lambda>path. bindE (read_json st path) task_index_row_of) (task_snapshot_paths st) = Inr rows"
    using mapE_succeeds [of "task_snapshot_paths st"
        "\<lambda>path. bindE (read_json st path) task_index_row_of"] row by blast
  then show ?thesis by (simp add: rebuild_task_index_def run modifyS_def)
qed

lemma rebuild_inbox_index_total:
  assumes "sound st"
  shows "\<exists>st'. rebuild_inbox_index env st = (Inr (), st')"
proof -
  have row: "\<exists>y. bindE (read_json st path) inbox_index_row_of = Inr y"
    if mem: "path \<in> set (inbox_snapshot_paths st)" for path
  proof -
    obtain t p where path: "path = (t, p)" by (cases path)
    obtain c where c: "file_at st path = Some c" and p: "p \<noteq> []" "butlast p = [''inbox'']"
      using mem file_at_listed [of t p st] path by (auto simp: inbox_snapshot_paths_def)
    obtain k i w where w: "c = Snapshot w" "p = relative_path k i" "payload_fits k i (wr_payload w)"
      using assms [unfolded sound_def, rule_format, OF c] path by (auto simp: sound_file_def)
    then have "k = O_inbox" using p by (cases k) auto
    then show ?thesis
      using c w by (auto simp: read_json_def inbox_index_row_of_def payload_fits_kinds)
  qed
  obtain rows where
    "mapE (\<lambda>path. bindE (read_json st path) inbox_index_row_of) (inbox_snapshot_paths st) = Inr rows"
    using mapE_succeeds [of "inbox_snapshot_paths st"
        "\<lambda>path. bindE (read_json st path) inbox_index_row_of"] row by blast
  then show ?thesis by (simp add: rebuild_inbox_index_def run modifyS_def)
qed

lemma after_commit_total:
  assumes "sound st"
  shows "\<exists>st'. after_commit (repository_of env kind) t st = (Inr (), st') \<and> unchanged st st'"
proof -
  have "\<exists>st'. after_commit (repository_of env kind) t st = (Inr (), st')"
    using rebuild_task_index_total [OF assms] rebuild_inbox_index_total [OF assms]
    by (simp add: after_commit_def index_rebuild_def returnS_def)
  then show ?thesis using benignD [OF benign_repository] by blast
qed

section \<open>Writes on a sound store\<close>

lemma append_event_total: "\<exists>st'. append_event t e st = (Inr (), st') \<and> journalled t e st st'"
proof -
  obtain r st' where run: "append_event t e st = (r, st')" by (metis surj_pair)
  then show ?thesis using append_event_journalled [OF run] by auto
qed

lemma write_file_total:
  "\<exists>st'. write_file p w st = (Inr (), st') \<and> file_at st' = (file_at st)(p \<mapsto> Snapshot w)"
proof -
  obtain r st' where run: "write_file p w st = (r, st')" by (metis surj_pair)
  then show ?thesis using write_file_effect [OF run] by auto
qed

lemma initialize_task_total:
  "is_identifier t \<Longrightarrow> \<exists>st'. initialize_task t st = (Inr (), st') \<and> unchanged st st'"
proof -
  assume "is_identifier t"
  then obtain st' where run: "initialize_task t st = (Inr (), st')"
    by (auto simp: initialize_task_def run modifyS_def)
  then show ?thesis using initialize_task_unchanged [OF run] by auto
qed

lemma repo_commit_total:
  assumes "sound st" and "is_identifier t" "is_identifier i"
    and "sound_file (t, relative_path kind i) (Snapshot w)"
  shows "\<exists>st'. repo_commit (repository_of env kind) t i w e no_hook st = (Inr w, st')"
proof -
  let ?p = "(t, relative_path kind i)"
  obtain a where a: "append_event t e st = (Inr (), a)" "file_at a = file_at st"
    using append_event_total by (metis journalled_def)
  obtain b where b: "write_file ?p w a = (Inr (), b)" "file_at b = (file_at st)(?p \<mapsto> Snapshot w)"
    using write_file_total a(2) by metis
  have "sound b" using sound_update [OF assms(1) b(2) assms(4)] .
  then obtain c where "after_commit (repository_of env kind) t b = (Inr (), c)"
    using after_commit_total by blast
  then show ?thesis
    using a(1) b(1) assms(2,3)
    by (simp add: repo_commit_def bindS_run run no_hook_def repo_path_def returnS_def)
qed

lemma repo_put_total:
  assumes st: "sound st" and ids: "is_identifier t" "is_identifier i"
    and ok: "snapshot_validator env kind p = Inr ()" and fits: "payload_fits kind i p"
    and sha: "(res = None) = (sha = None)"
    and n: "repo_revision (repository_of env kind) st t i = Inr n"
  shows "\<exists>w e st'. repo_put env (repository_of env kind) t i p n a c k res sha no_hook st = (Inr w, st') \<and>
     put_effect (t, relative_path kind i) w e st st' \<and> sound st' \<and>
     wr_object_type w = kind \<and> wr_payload w = p \<and>
     (file_at st (t, relative_path kind i) \<noteq> None \<longrightarrow> wr_revision w = n + 1)"
proof -
  obtain current where cur: "read_wrapper (repository_of env kind) st t i = Inr current"
    and n': "n = (case current of None \<Rightarrow> 0 | Some w \<Rightarrow> wr_revision w)"
    using n by (auto simp: repo_revision_def monad)
  obtain s1 where s1: "initialize_task t st = (Inr (), s1)" "unchanged st s1"
    using initialize_task_total [OF ids(1)] by blast
  let ?s = "s1\<lparr>st_ticks := Suc (st_ticks s1), st_uuids := Suc (st_uuids s1)\<rparr>"
  have same: "unchanged st ?s" using s1(2) by (simp add: unchanged_def)
  have commit: "\<exists>w st'. repo_commit (repository_of env kind) t i
      \<lparr>wr_object_type = kind, wr_object_id = i, wr_revision = v, wr_payload = p,
       wr_committed_at = now\<rparr> e no_hook ?s = (Inr w, st')" for v e now
  proof -
    have "sound_file (t, relative_path kind i) (Snapshot \<lparr>wr_object_type = kind,
        wr_object_id = i, wr_revision = v, wr_payload = p, wr_committed_at = now\<rparr>)"
      using ids fits by (auto simp: sound_file_def)
    from repo_commit_total [OF sound_unchanged [OF st same] ids this] show ?thesis by blast
  qed
  have "\<exists>w st'. repo_put env (repository_of env kind) t i p n a c k res sha no_hook st = (Inr w, st')"
    using ok sha n' cur read_wrapper_unchanged [OF s1(2)]
    by (cases current)
      (simp_all add: repo_put_def Let_def run bindS_run(1) [of "initialize_task t" st, OF s1(1)] commit)
  then obtain w st' where put: "repo_put env (repository_of env kind) t i p n a c k res sha no_hook st = (Inr w, st')"
    by blast
  then show ?thesis
    using benign_repository
  proof (cases rule: repo_put_cases)
    case (committed current v e)
    then have v: "v = w" "wr_object_type w = kind" "wr_payload w = p"
      by (auto simp: commit_of_def)
    have "sound_file (t, relative_path kind i) (Snapshot w)"
      using ids fits v by (auto simp: sound_file_def)
    then have "sound st'"
      using committed(9) sound_update [OF st] v(1) by (auto simp: put_effect_def)
    moreover have "wr_revision w = n + 1" if here: "file_at st (t, relative_path kind i) \<noteq> None"
    proof -
      obtain x where x: "file_at st (t, relative_path kind i) = Some x" using here by blast
      obtain z where "x = Snapshot z" using sound_at [OF st x] by blast
      then have "current = Some z"
        using sound_read [OF st ids, of env kind] committed(6) x by (simp add: readable_def)
      then show ?thesis using committed(7,8) v(1) by (simp add: commit_of_def commit_base_def)
    qed
    ultimately show ?thesis using put committed(9) v by auto
  qed simp_all
qed

section \<open>Reconciliation\<close>

text \<open>The file of an object holds a payload.\<close>

definition holds :: "store \<Rightarrow> string \<Rightarrow> object_type \<Rightarrow> string \<Rightarrow> payload \<Rightarrow> bool" where
  "holds st t kind i p \<longleftrightarrow>
     (\<exists>w. file_at st (t, relative_path kind i) = Some (Snapshot w) \<and> wr_object_type w = kind \<and>
          wr_payload w = p)"

lemma holds_get:
  "holds st t kind i p \<Longrightarrow> is_identifier t \<Longrightarrow> is_identifier i \<Longrightarrow>
     repo_get (repository_of env kind) st t i = Inr (Some p)"
  by (auto simp: holds_def repo_get_def read_wrapper_def repo_path_def)

definition writable :: "environment \<Rightarrow> object_type \<times> string \<times> payload \<Rightarrow> bool" where
  "writable env = (\<lambda>(kind, i, p). is_identifier i \<and> snapshot_validator env kind p = Inr () \<and>
     payload_fits kind i p)"

lemma reconcile_one_total:
  assumes st: "sound st" and t: "is_identifier t" and x: "writable env (kind, i, p)"
  shows "\<exists>st'. reconcile_one env t n (kind, i, p) st = (Inr (), st') \<and> sound st' \<and>
     holds st' t kind i p \<and>
     (\<forall>q. q \<noteq> (t, relative_path kind i) \<longrightarrow> file_at st' q = file_at st q)"
proof -
  have i: "is_identifier i" and ok: "snapshot_validator env kind p = Inr ()"
    and fits: "payload_fits kind i p" using x by (auto simp: writable_def)
  let ?c = "readable (file_at st (t, relative_path kind i))"
  have cur: "read_wrapper (repository_of env kind) st t i = Inr ?c"
    using sound_read [OF st t i] .
  show ?thesis
  proof (cases "\<exists>w. ?c = Some w \<and> wr_payload w = p")
    case True
    then obtain w where w: "?c = Some w" "wr_payload w = p" by blast
    then have "file_at st (t, relative_path kind i) = Some (Snapshot w)"
      by (auto simp: readable_def split: option.splits content.splits)
    then have "holds st t kind i p"
      using sound_at [OF st] w(2) unfolding holds_def by blast
    moreover have "reconcile_one env t n (kind, i, p) st = (Inr (), st)"
      using cur w by (simp add: reconcile_one_def run returnS_def)
    ultimately show ?thesis using st by blast
  next
    case False
    let ?n = "case ?c of None \<Rightarrow> 0 | Some w \<Rightarrow> wr_revision w"
    have rev: "repo_revision (repository_of env kind) st t i = Inr ?n"
      using cur by (simp add: repo_revision_def)
    obtain w e st' where put: "repo_put env (repository_of env kind) t i p ?n recovery_actor
        ''reconcile_plan_projection''
        (''recover-'' @ show_int n @ ''-'' @ object_type_name kind @ ''-'' @ i) None None no_hook st =
        (Inr w, st')"
      and eff: "put_effect (t, relative_path kind i) w e st st'" "sound st'" "wr_object_type w = kind"
        "wr_payload w = p"
      using repo_put_total [OF st t i ok fits _ rev, of None None] by blast
    have "reconcile_one env t n (kind, i, p) st = (Inr (), st')"
      using cur False put
      by (cases ?c) (simp_all add: reconcile_one_def run bindS_run returnS_def)
    then show ?thesis using eff by (auto simp: put_effect_def holds_def)
  qed
qed

text \<open>A loop of writes to different files, each of which returns and leaves the other files alone.\<close>

definition writes_object :: "string \<Rightarrow> object_type \<times> string \<times> payload \<Rightarrow> unit sop \<Rightarrow> bool" where
  "writes_object t = (\<lambda>(kind, i, p) m.
     \<forall>s. sound s \<longrightarrow> (\<exists>s'. m s = (Inr (), s') \<and> sound s' \<and> holds s' t kind i p \<and>
       (\<forall>q. q \<noteq> (t, relative_path kind i) \<longrightarrow> file_at s' q = file_at s q)))"

lemma reconcile_one_writes:
  assumes "is_identifier t" and "writable env x"
  shows "writes_object t x (reconcile_one env t n x)"
proof -
  obtain kind i p where x: "x = (kind, i, p)" by (cases x)
  show ?thesis
    unfolding x writes_object_def prod.case
    using reconcile_one_total [OF _ assms(1), of _ env kind i p n] assms(2) x by blast
qed

lemma write_all_total:
  assumes st: "sound st" and one: "\<And>x. x \<in> set L \<Longrightarrow> writes_object t x (f x)"
    and inj: "inj_on (\<lambda>(kind, i, p). relative_path kind i) (set L)"
  shows "\<exists>st'. forS f L st = (Inr (), st') \<and> sound st' \<and>
     (\<forall>(kind, i, p) \<in> set L. holds st' t kind i p) \<and>
     (\<forall>q. q \<notin> (\<lambda>(kind, i, p). (t, relative_path kind i)) ` set L \<longrightarrow> file_at st' q = file_at st q)"
proof -
  let ?P = "\<lambda>(kind, i, p). (t, relative_path kind i)"
  let ?I = "\<lambda>s. sound s \<and> (\<forall>q. q \<notin> ?P ` set L \<longrightarrow> file_at s q = file_at st q)"
  let ?Q = "\<lambda>(kind, i, p) s. holds s t kind i p"
  have "\<exists>u. f x s = (Inr (), u) \<and> ?I u \<and> ?Q x u \<and>
      (\<forall>y. y \<in> set L \<and> ?Q y s \<longrightarrow> ?Q y u)" if x: "x \<in> set L" and I: "?I s" for x s
  proof -
    obtain kind i p where xx: "x = (kind, i, p)" by (cases x)
    obtain u where u: "f x s = (Inr (), u)" "sound u" "holds u t kind i p"
      "\<forall>q. q \<noteq> (t, relative_path kind i) \<longrightarrow> file_at u q = file_at s q"
      using one [OF x] I unfolding xx writes_object_def prod.case by blast
    have "?Q y u" if y: "y \<in> set L" "?Q y s" for y
    proof (cases "y = x")
      case False
      obtain k j r where yy: "y = (k, j, r)" by (cases y)
      have "relative_path k j \<noteq> relative_path kind i"
        using inj_onD [OF inj _ y(1) x] False xx yy by auto
      then show ?thesis using y(2) u(4) yy by (simp add: holds_def)
    qed (use u xx in simp)
    moreover have "?I u"
    proof (intro conjI allI impI)
      fix q assume q: "q \<notin> ?P ` set L"
      have "?P x \<in> ?P ` set L" using x by (rule imageI)
      moreover have "?P x = (t, relative_path kind i)" using xx by simp
      ultimately have "q \<noteq> (t, relative_path kind i)" using q by metis
      then show "file_at u q = file_at st q" using u(4) I q by simp
    qed (use u in simp)
    moreover have "?Q x u" using u xx by simp
    ultimately show ?thesis using u(1) by blast
  qed
  from forS_establishes [where I = ?I and Q = ?Q, OF this]
  obtain st' where st': "forS f L st = (Inr (), st')" "?I st'"
    "\<forall>x \<in> set L. ?Q x st'" using st by blast
  have "\<forall>(kind, i, p) \<in> set L. holds st' t kind i p" using st'(3) by fast
  then show ?thesis using st'(1,2) by blast
qed

section \<open>Retirement\<close>

lemma ends_with_append [simp]: "ends_with s (x @ s)"
  by (simp add: ends_with_def)

lemma glob_json_set:
  "path \<in> set (glob_json st t d) \<longleftrightarrow>
     path \<in> set (map fst (st_files st)) \<and> fst path = t \<and> snd path \<noteq> [] \<and> butlast (snd path) = d \<and>
     ends_with ''.json'' (last (snd path))"
  by (auto simp: glob_json_def)

text \<open>The directory of the files of a kind, for the kinds that have one file per object.\<close>

definition kind_directory :: "object_type \<Rightarrow> string list" where
  "kind_directory kind = butlast (relative_path kind ''placeholder'')"

lemma listed_file:
  assumes "sound st" and "path \<in> set (glob_json st t d)"
  shows "\<exists>w i. read_json st path = Inr w \<and> file_at st path = Some (Snapshot w) \<and>
           is_identifier i \<and> path = (t, relative_path (wr_object_type w) i) \<and>
           payload_fits (wr_object_type w) i (wr_payload w)"
proof -
  obtain c where c: "file_at st path = Some c"
    using file_at_listed [of "fst path" "snd path" st] assms(2) by (auto simp: glob_json_set)
  then have "sound_file path c" using assms(1) by (simp add: sound_def)
  then show ?thesis
    using c assms(2) by (cases path) (auto simp: sound_file_def read_json_def glob_json_set)
qed

lemma repo_list_sound:
  assumes st: "sound st" and t: "is_identifier t" and kind: "\<not> singleton_kind kind"
  shows "\<exists>ps. repo_list (repository_of env kind) st t = Inr ps \<and>
     (\<forall>p \<in> set ps. \<exists>i. is_identifier i \<and> payload_fits kind i p) \<and>
     (\<forall>i w. file_at st (t, relative_path kind i) = Some (Snapshot w) \<longrightarrow> wr_payload w \<in> set ps)"
proof -
  let ?d = "kind_directory kind" and ?G = "glob_json st t (kind_directory kind)"
  have path: "repo_path (repository_of env kind) t ''placeholder'' =
      Inr (t, relative_path kind ''placeholder'')"
    using t by (simp add: repo_path_def is_letter_def is_digit_def is_ident_char_def)
  obtain ws where ws: "mapE (read_json st) ?G = Inr ws"
    using mapE_succeeds [of ?G "read_json st"] listed_file [OF st] by blast
  note elements = mapE_set [OF ws]
  let ?ps = "map wr_payload (filter (\<lambda>w. wr_object_type w = kind) ws)"
  have list: "repo_list (repository_of env kind) st t = Inr ?ps"
    using path ws by (simp add: repo_list_def kind_directory_def)
  have "\<exists>i. is_identifier i \<and> payload_fits kind i p" if mem: "p \<in> set ?ps" for p
  proof -
    obtain w where w: "w \<in> set ws" "wr_object_type w = kind" "p = wr_payload w" using mem by auto
    then obtain path where path: "path \<in> set ?G" "read_json st path = Inr w"
      using elements by blast
    then show ?thesis using listed_file [OF st path(1)] w by auto
  qed
  moreover have "wr_payload w \<in> set ?ps"
    if w: "file_at st (t, relative_path kind i) = Some (Snapshot w)" for i w
  proof -
    have "wr_object_type w = kind" using sound_at [OF st w] by auto
    moreover have "(t, relative_path kind i) \<in> set ?G"
    proof -
      have "(t, relative_path kind i) \<in> set (map fst (st_files st))"
        using w unfolding file_at_def by (metis list.set_map map_of_eq_None_iff option.distinct(1))
      moreover have "butlast (relative_path kind i) = ?d \<and> relative_path kind i \<noteq> [] \<and>
          ends_with ''.json'' (last (relative_path kind i))"
        using kind by (cases kind) (simp_all add: kind_directory_def json_file_def singleton_kind_def)
      ultimately show ?thesis by (simp add: glob_json_set)
    qed
    moreover have "read_json st (t, relative_path kind i) = Inr w" using w by (simp add: read_json_def)
    ultimately have "w \<in> set ws" using elements by blast
    then show ?thesis using \<open>wr_object_type w = kind\<close> by simp
  qed
  ultimately show ?thesis using list by blast
qed

text \<open>Retiring removes the files of the listed objects that are not active, and no other.\<close>

lemma retire_one_total:
  assumes st: "sound st" and t: "is_identifier t" and i: "is_identifier i"
    and p: "ident_of p = Inr i"
  shows "\<exists>st'. retire_one env kind t active_ids ident_of p st = (Inr (), st') \<and> sound st' \<and>
     file_at st' = (if i \<in> set active_ids then file_at st
                    else (file_at st)((t, relative_path kind i) := None))"
proof (cases "i \<in> set active_ids")
  case True
  then show ?thesis using st p by (simp add: retire_one_def run returnS_def)
next
  case False
  obtain r st' where u: "unlink_file (t, relative_path kind i) st = (r, st')" by (metis surj_pair)
  from unlink_file_effect [OF u] have eff: "r = Inr ()"
    "file_at st' = (file_at st)((t, relative_path kind i) := None)" by auto
  have "retire_one env kind t active_ids ident_of p st = (Inr (), st')"
    using False p t i u eff(1) by (simp add: retire_one_def run repo_path_def)
  then show ?thesis using False eff(2) sound_remove [OF st eff(2)] by auto
qed

lemma retire_set_total:
  assumes st: "sound st" and t: "is_identifier t" and kind: "\<not> singleton_kind kind"
    and ident: "\<forall>i p. payload_fits kind i p \<longrightarrow> ident_of p = Inr i"
  shows "\<exists>st'. retire_projection_set env kind t active_ids ident_of st = (Inr (), st') \<and> sound st' \<and>
     (\<forall>i. i \<notin> set active_ids \<longrightarrow> is_identifier i \<longrightarrow> file_at st' (t, relative_path kind i) = None) \<and>
     (\<forall>q. (\<forall>i. i \<notin> set active_ids \<longrightarrow> q \<noteq> (t, relative_path kind i)) \<longrightarrow>
        file_at st' q = file_at st q)"
proof -
  obtain ps where ps: "repo_list (repository_of env kind) st t = Inr ps"
    "\<forall>p \<in> set ps. \<exists>i. is_identifier i \<and> payload_fits kind i p"
    "\<forall>i w. file_at st (t, relative_path kind i) = Some (Snapshot w) \<longrightarrow> wr_payload w \<in> set ps"
    using repo_list_sound [OF st t kind] by blast
  let ?I = "\<lambda>s. sound s \<and> (\<forall>q. file_at s q = None \<or> file_at s q = file_at st q) \<and>
     (\<forall>q. (\<forall>i. i \<notin> set active_ids \<longrightarrow> q \<noteq> (t, relative_path kind i)) \<longrightarrow>
        file_at s q = file_at st q)"
  let ?Q = "\<lambda>p s. \<forall>i. payload_fits kind i p \<longrightarrow> i \<notin> set active_ids \<longrightarrow>
     file_at s (t, relative_path kind i) = None"
  have "\<exists>u. retire_one env kind t active_ids ident_of p s = (Inr (), u) \<and> ?I u \<and> ?Q p u \<and>
      (\<forall>y. y \<in> set ps \<and> ?Q y s \<longrightarrow> ?Q y u)" if p: "p \<in> set ps" and I: "?I s" for p s
  proof -
    obtain i where i: "is_identifier i" "payload_fits kind i p" using ps(2) p by blast
    have uniq: "j = i" if "payload_fits kind j p" for j
      using ident [rule_format, OF that] ident [rule_format, OF i(2)] by simp
    obtain u where u: "retire_one env kind t active_ids ident_of p s = (Inr (), u)" "sound u"
      "file_at u = (if i \<in> set active_ids then file_at s
                    else (file_at s)((t, relative_path kind i) := None))"
      using retire_one_total [of s t i ident_of p env kind active_ids] I t i(1) ident [rule_format, OF i(2)] by metis
    have gone: "file_at u q = None \<or> file_at u q = file_at s q" for q
      using u(3) by (cases "i \<in> set active_ids") auto
    have "?I u"
    proof (intro conjI allI impI)
      show "sound u" by (rule u(2))
      show "file_at u q = None \<or> file_at u q = file_at st q" for q
        using gone [of q] I by metis
      show "file_at u q = file_at st q"
        if "\<forall>i. i \<notin> set active_ids \<longrightarrow> q \<noteq> (t, relative_path kind i)" for q
        using that u(3) I by (cases "i \<in> set active_ids") auto
    qed
    moreover have "?Q p u" using u(3) uniq by auto
    moreover have "\<forall>y. y \<in> set ps \<and> ?Q y s \<longrightarrow> ?Q y u" using gone by metis
    ultimately show ?thesis using u(1) by blast
  qed
  from forS_establishes [where I = ?I and Q = ?Q, OF this]
  obtain st' where st': "forS (retire_one env kind t active_ids ident_of) ps st = (Inr (), st')"
    "?I st'" "\<forall>p \<in> set ps. ?Q p st'"
    using st by blast
  have "file_at st' (t, relative_path kind i) = None"
    if i: "i \<notin> set active_ids" "is_identifier i" for i
  proof (rule ccontr)
    assume "file_at st' (t, relative_path kind i) \<noteq> None"
    then obtain c where c: "file_at st' (t, relative_path kind i) = Some c"
      "file_at st (t, relative_path kind i) = Some c" using st'(2) by (metis option.exhaust)
    obtain w j where w: "c = Snapshot w" "payload_fits kind j (wr_payload w)" "j = i"
      using sound_at [OF st c(2)] kind by metis
    then have "wr_payload w \<in> set ps" using ps(3) c(2) by blast
    then show False using st'(3) w c(1) i(1) by fastforce
  qed
  moreover have "retire_projection_set env kind t active_ids ident_of st = (Inr (), st')"
    using st'(1) ps(1) by (simp add: retire_projection_set_def run)
  ultimately show ?thesis using st'(2) by blast
qed

section \<open>The projections are the plan\<close>

text \<open>What the store's readers see of a task: exactly the objects of the plan.\<close>

definition projected :: "environment \<Rightarrow> store \<Rightarrow> string \<Rightarrow> task_plan \<Rightarrow> bool" where
  "projected env st t plan \<longleftrightarrow>
     repo_get (repository_of env O_task) st t t = Inr (Some (P_task (pl_task plan))) \<and>
     (\<forall>i. is_identifier i \<longrightarrow>
        repo_get (repository_of env O_stage) st t i =
          Inr (map_option P_stage (stages_by_id (pl_stages plan) i)) \<and>
        repo_get (repository_of env O_instance) st t i =
          Inr (map_option P_instance (instances_by_id (pl_instances plan) i)))"

definition projectable :: "environment \<Rightarrow> string \<Rightarrow> task_plan \<Rightarrow> bool" where
  "projectable env t plan \<longleftrightarrow>
     is_identifier t \<and> distinct (map sg_stage_id (pl_stages plan)) \<and>
     distinct (map in_instance_id (pl_instances plan)) \<and>
     list_all (writable env) (plan_projections t plan)"

lemma plan_projections_set:
  "set (plan_projections t plan) =
     insert (O_task, t, P_task (pl_task plan))
       ((\<lambda>s. (O_stage, sg_stage_id s, P_stage s)) ` set (pl_stages plan) \<union>
        (\<lambda>i. (O_instance, in_instance_id i, P_instance i)) ` set (pl_instances plan))"
  by (simp add: plan_projections_def)

lemma projections_inj:
  assumes "projectable env t plan"
  shows "inj_on (\<lambda>(kind, i, p). relative_path kind i) (set (plan_projections t plan))"
proof -
  have "s = s'" if "s \<in> set (pl_stages plan)" "s' \<in> set (pl_stages plan)"
    "sg_stage_id s = sg_stage_id s'" for s s'
    using that assms by (auto simp: projectable_def distinct_map inj_on_def)
  moreover have "i = i'" if "i \<in> set (pl_instances plan)" "i' \<in> set (pl_instances plan)"
    "in_instance_id i = in_instance_id i'" for i i'
    using that assms by (auto simp: projectable_def distinct_map inj_on_def)
  ultimately show ?thesis
    by (auto simp: inj_on_def plan_projections_set json_file_def)
qed

lemma relative_path_kind: "relative_path k i = relative_path k' i' \<Longrightarrow> k = k'"
  using relative_path_inj by blast

lemma fits_id:
  "\<forall>i p. payload_fits O_stage i p \<longrightarrow> payload_stage_id p = Inr i"
  "\<forall>i p. payload_fits O_instance i p \<longrightarrow> payload_instance_id p = Inr i"
  by (auto simp: payload_stage_id_def payload_instance_id_def payload_fits_kinds)

lemma apart:
  assumes "\<not> singleton_kind kind" and "k = kind \<longrightarrow> i \<in> A"
  shows "\<forall>j. j \<notin> A \<longrightarrow> (t, relative_path k i) \<noteq> (t, relative_path kind j)"
proof (intro allI impI notI)
  fix j
  assume j: "j \<notin> A" "(t, relative_path k i) = (t, relative_path kind j)"
  then have "relative_path k i = relative_path kind j" by blast
  from relative_path_inj [OF this] assms j(1) show False by blast
qed

lemma multiple: "\<not> singleton_kind O_stage" "\<not> singleton_kind O_instance"
  by (simp_all add: singleton_kind_def)

lemma reconcile_reaches:
  assumes st: "sound st" and plan: "projectable env t plan"
  shows "\<exists>s u v. forS (reconcile_one env t n) (plan_projections t plan) st = (Inr (), s) \<and>
     retire_projection_set env O_stage t (map sg_stage_id (pl_stages plan)) payload_stage_id s =
       (Inr (), u) \<and>
     retire_projection_set env O_instance t (map in_instance_id (pl_instances plan))
       payload_instance_id u = (Inr (), v) \<and> sound v \<and>
     file_at v (t, relative_path O_plan t) = file_at st (t, relative_path O_plan t) \<and>
     (\<forall>(kind, i, p) \<in> set (plan_projections t plan). holds v t kind i p) \<and>
     (\<forall>i. is_identifier i \<longrightarrow> i \<notin> sg_stage_id ` set (pl_stages plan) \<longrightarrow>
        file_at v (t, relative_path O_stage i) = None) \<and>
     (\<forall>i. is_identifier i \<longrightarrow> i \<notin> in_instance_id ` set (pl_instances plan) \<longrightarrow>
        file_at v (t, relative_path O_instance i) = None)"
proof -
  have t: "is_identifier t" using plan by (simp add: projectable_def)
  have w: "\<forall>x \<in> set (plan_projections t plan). writable env x"
    using plan by (simp add: projectable_def list_all_iff)
  let ?P = "(\<lambda>(kind, i, p). (t, relative_path kind i)) ` set (plan_projections t plan)"
  have writes: "writes_object t x (reconcile_one env t n x)"
    if "x \<in> set (plan_projections t plan)" for x
    using reconcile_one_writes [OF t] w that by blast
  obtain s where s: "forS (reconcile_one env t n) (plan_projections t plan) st = (Inr (), s)" "sound s"
    "\<forall>(kind, i, p) \<in> set (plan_projections t plan). holds s t kind i p"
    "\<forall>q. q \<notin> ?P \<longrightarrow> file_at s q = file_at st q"
    using write_all_total [OF st writes projections_inj [OF plan]] by blast
  obtain u where u: "retire_projection_set env O_stage t (map sg_stage_id (pl_stages plan))
      payload_stage_id s = (Inr (), u)" "sound u"
    "\<forall>i. i \<notin> set (map sg_stage_id (pl_stages plan)) \<longrightarrow> is_identifier i \<longrightarrow>
       file_at u (t, relative_path O_stage i) = None"
    "\<forall>q. (\<forall>i. i \<notin> set (map sg_stage_id (pl_stages plan)) \<longrightarrow> q \<noteq> (t, relative_path O_stage i)) \<longrightarrow>
       file_at u q = file_at s q"
    using retire_set_total [OF s(2) t multiple(1) fits_id(1)] by blast
  obtain v where v: "retire_projection_set env O_instance t (map in_instance_id (pl_instances plan))
      payload_instance_id u = (Inr (), v)" "sound v"
    "\<forall>i. i \<notin> set (map in_instance_id (pl_instances plan)) \<longrightarrow> is_identifier i \<longrightarrow>
       file_at v (t, relative_path O_instance i) = None"
    "\<forall>q. (\<forall>i. i \<notin> set (map in_instance_id (pl_instances plan)) \<longrightarrow> q \<noteq> (t, relative_path O_instance i)) \<longrightarrow>
       file_at v q = file_at u q"
    using retire_set_total [OF u(2) t multiple(2) fits_id(2)] by blast
  have keep: "file_at v (t, relative_path k i) = file_at s (t, relative_path k i)"
    if "k = O_stage \<longrightarrow> i \<in> sg_stage_id ` set (pl_stages plan)"
      "k = O_instance \<longrightarrow> i \<in> in_instance_id ` set (pl_instances plan)" for k i
  proof -
    have "file_at v (t, relative_path k i) = file_at u (t, relative_path k i)"
      using v(4) apart [OF multiple(2), of k i "set (map in_instance_id (pl_instances plan))"] that(2)
      by (metis set_map)
    also have "\<dots> = file_at s (t, relative_path k i)"
      using u(4) apart [OF multiple(1), of k i "set (map sg_stage_id (pl_stages plan))"] that(1)
      by (metis set_map)
    finally show ?thesis .
  qed
  have "holds v t kind i p" if "(kind, i, p) \<in> set (plan_projections t plan)" for kind i p
  proof -
    have "holds s t kind i p" using s(3) that by blast
    moreover have "file_at v (t, relative_path kind i) = file_at s (t, relative_path kind i)"
      using that by (intro keep) (auto simp: plan_projections_set)
    ultimately show ?thesis by (simp add: holds_def)
  qed
  moreover have "file_at v (t, relative_path O_plan t) = file_at st (t, relative_path O_plan t)"
  proof -
    have "(t, relative_path O_plan t) \<notin> ?P"
      using relative_path_kind [of O_plan t] by (fastforce simp: plan_projections_set)
    then show ?thesis using keep [of O_plan t] s(4) by simp
  qed
  moreover have "file_at v (t, relative_path O_stage i) = None"
    if "is_identifier i" "i \<notin> sg_stage_id ` set (pl_stages plan)" for i
    using that u(3) v(4) by (auto simp: json_file_def)
  ultimately show ?thesis using s(1) u(1) v(1-3) by auto
qed

lemma holds_projection:
  assumes st: "sound st" and t: "is_identifier t" and kind: "\<not> singleton_kind kind"
    and dist: "distinct (map key xs)" and i: "is_identifier i"
    and here: "\<And>x. x \<in> set xs \<Longrightarrow> is_identifier (key x) \<and> holds st t kind (key x) (mk x)"
    and gone: "i \<notin> key ` set xs \<Longrightarrow> file_at st (t, relative_path kind i) = None"
  shows "repo_get (repository_of env kind) st t i = Inr (map_option mk (dict_by key xs i))"
proof (cases "dict_by key xs i")
  case None
  then have "file_at st (t, relative_path kind i) = None" using gone by (simp add: dict_by_None_iff)
  then show ?thesis using None t i by (simp add: repo_get_def read_wrapper_def repo_path_def)
next
  case (Some x)
  from dict_by_Some [OF Some] have x: "x \<in> set xs" "key x = i" by auto
  then show ?thesis using holds_get here [OF x(1)] t Some by auto
qed

lemma projectedI:
  assumes v: "sound v" and plan: "projectable env t plan"
    and own: "\<forall>(kind, i, p) \<in> set (plan_projections t plan). holds v t kind i p"
    and gone: "\<forall>i. is_identifier i \<longrightarrow> i \<notin> sg_stage_id ` set (pl_stages plan) \<longrightarrow>
        file_at v (t, relative_path O_stage i) = None"
      "\<forall>i. is_identifier i \<longrightarrow> i \<notin> in_instance_id ` set (pl_instances plan) \<longrightarrow>
        file_at v (t, relative_path O_instance i) = None"
  shows "projected env v t plan"
  unfolding projected_def
proof (intro conjI allI impI)
  have t: "is_identifier t" and ids: "\<forall>x \<in> set (plan_projections t plan). writable env x"
    using plan by (auto simp: projectable_def list_all_iff)
  show "repo_get (repository_of env O_task) v t t = Inr (Some (P_task (pl_task plan)))"
    using own t by (intro holds_get) (auto simp: plan_projections_set)
  fix i :: string assume i: "is_identifier i"
  have *: "is_identifier (sg_stage_id s) \<and> holds v t O_stage (sg_stage_id s) (P_stage s)"
    if mem: "s \<in> set (pl_stages plan)" for s
  proof -
    have "(O_stage, sg_stage_id s, P_stage s) \<in> set (plan_projections t plan)"
      using mem by (auto simp: plan_projections_set)
    from bspec [OF own this] bspec [OF ids this] show ?thesis by (auto simp: writable_def)
  qed
  show "repo_get (repository_of env O_stage) v t i =
      Inr (map_option P_stage (stages_by_id (pl_stages plan) i))"
    using plan gone(1) i
    by (intro holds_projection [OF v t multiple(1) _ i *]) (auto simp: projectable_def)
  have *: "is_identifier (in_instance_id s) \<and> holds v t O_instance (in_instance_id s) (P_instance s)"
    if mem: "s \<in> set (pl_instances plan)" for s
  proof -
    have "(O_instance, in_instance_id s, P_instance s) \<in> set (plan_projections t plan)"
      using mem by (auto simp: plan_projections_set)
    from bspec [OF own this] bspec [OF ids this] show ?thesis by (auto simp: writable_def)
  qed
  show "repo_get (repository_of env O_instance) v t i =
      Inr (map_option P_instance (instances_by_id (pl_instances plan) i))"
    using plan gone(2) i
    by (intro holds_projection [OF v t multiple(2) _ i *]) (auto simp: projectable_def)
qed

text \<open>
  C9. Reconciliation completes an interrupted aggregate commit: on a sound store, whatever stage and
  instance files are there, it returns, keeps the plan, and leaves exactly the plan's objects: the
  task, every stage and every instance read back as the plan has them, an id that is not in the plan
  reads back as absent, and the task summary is the plan's task.
\<close>

theorem reconcile_makes_projections:
  assumes st: "sound st" and plan: "projectable env t plan"
    and stored: "repo_get (repository_of env O_plan) st t t = Inr (Some (P_plan plan))"
  shows "\<exists>st'. reconcile_plan_projections env t st = (Inr (), st') \<and> sound st' \<and>
     projected env st' t plan \<and> map_of (st_summaries st') t = Some (pl_task plan) \<and>
     repo_get (repository_of env O_plan) st' t t = Inr (Some (P_plan plan))"
proof -
  have t: "is_identifier t" and ids: "\<forall>x \<in> set (plan_projections t plan). writable env x"
    using plan by (auto simp: projectable_def list_all_iff)
  obtain w where w: "read_wrapper (repository_of env O_plan) st t t = Inr (Some w)"
    "wr_payload w = P_plan plan"
    using stored by (auto simp: repo_get_def monad)
  obtain s u v where steps:
    "forS (reconcile_one env t (wr_revision w)) (plan_projections t plan) st = (Inr (), s)"
    "retire_projection_set env O_stage t (map sg_stage_id (pl_stages plan)) payload_stage_id s =
       (Inr (), u)"
    "retire_projection_set env O_instance t (map in_instance_id (pl_instances plan))
       payload_instance_id u = (Inr (), v)" "sound v"
    "file_at v (t, relative_path O_plan t) = file_at st (t, relative_path O_plan t)"
    and own: "\<forall>(kind, i, p) \<in> set (plan_projections t plan). holds v t kind i p"
    and gone: "\<forall>i. is_identifier i \<longrightarrow> i \<notin> sg_stage_id ` set (pl_stages plan) \<longrightarrow>
        file_at v (t, relative_path O_stage i) = None"
      "\<forall>i. is_identifier i \<longrightarrow> i \<notin> in_instance_id ` set (pl_instances plan) \<longrightarrow>
        file_at v (t, relative_path O_instance i) = None"
    using reconcile_reaches [OF st plan, of "wr_revision w"] by blast
  let ?v = "v\<lparr>st_summaries := AList.update t (pl_task plan) (st_summaries v)\<rparr>"
  have run: "reconcile_plan_projections env t st = (Inr (), ?v)"
    using w steps(1-3)
    by (simp add: reconcile_plan_projections_def run bindS_run retire_plan_projections_def
        write_task_summary_def modifyS_def)
  have files: "file_at ?v = file_at v" by simp
  have "projected env v t plan" by (rule projectedI [OF steps(4) plan own gone])
  moreover have "repo_get (repository_of env O_plan) v t t = Inr (Some (P_plan plan))"
    using stored steps(5) sound_read [OF st t t] sound_read [OF steps(4) t t]
    by (simp add: repo_get_def)
  ultimately have "sound ?v" "projected env ?v t plan"
    "repo_get (repository_of env O_plan) ?v t t = Inr (Some (P_plan plan))"
    using steps(4) read_wrapper_cong [OF files]
    by (simp_all add: projected_def repo_get_def sound_def)
  then show ?thesis using run by simp
qed

end
