(* ===== verification/Budget_Properties.thy ===== *)
theory Budget_Properties imports Budget_Ledger Projections begin

text \<open>
  What the retry-budget operations promise: when a retry passes every gate, what an allowed
  reservation leaves in the stored budget, settlement counts usage once, an attempt only moves
  forward through its statuses, and the override that can be approved but never consumed.
\<close>

section \<open>The gates\<close>

lemma gates_empty:
  "(gates b p grp requested estimated catalog = []) =
     (group_count b grp + 1 \<le> rp_max_auto_retries p \<and>
      (\<exists>n. requested = Some n \<and>
        lg_tokens_settled (rb_ledger b) + lg_tokens_reserved (rb_ledger b) + n \<le> rp_max_tokens p) \<and>
      (case rp_max_cost p of None \<Rightarrow> True
       | Some limit \<Rightarrow> \<exists>cost settled. estimated = Some cost \<and> catalog \<noteq> None \<and>
           catalog = rp_price_catalog p \<and> lg_cost_settled (rb_ledger b) = Some settled \<and>
           settled + lg_cost_reserved (rb_ledger b) + cost \<le> limit) \<and>
      \<not> lg_frozen (rb_ledger b))"
proof -
  have "(cost_gates (rb_ledger b) p estimated catalog = []) =
      (case rp_max_cost p of None \<Rightarrow> True
       | Some limit \<Rightarrow> \<exists>cost settled. estimated = Some cost \<and> catalog \<noteq> None \<and>
           catalog = rp_price_catalog p \<and> lg_cost_settled (rb_ledger b) = Some settled \<and>
           settled + lg_cost_reserved (rb_ledger b) + cost \<le> limit)"
    by (auto simp: cost_gates_def split: option.splits)
  then show ?thesis
    by (auto simp: gates_def count_gates_def token_gates_def frozen_gates_def split: option.splits)
qed

section \<open>Reading a budget back\<close>

lemma put_budget_stored:
  assumes "put_budget env t b actor c k v sha s = (Inr u, s')"
  shows "repo_get (budget_repo env) s' t t = Inr (Some (P_retry_budget b))"
    and "kind \<noteq> O_retry_budget \<Longrightarrow> file_at s' (t2, relative_path kind i) = file_at s (t2, relative_path kind i)"
proof -
  obtain n w where "repo_put env (repository_of env O_retry_budget) t t (P_retry_budget b) n actor c k
      (Some v) (Some sha) no_hook s = (Inr w, s')"
    using assms by (auto simp: put_budget_def budget_repo_def monad)
  from this benign_repository
  have "repo_get (budget_repo env) s' t t = Inr (Some (P_retry_budget b)) \<and>
      (\<forall>q. q \<noteq> (t, relative_path O_retry_budget t) \<longrightarrow> file_at s' q = file_at s q)"
    by (cases rule: repo_put_cases)
      (auto simp: put_effect_def commit_of_def budget_repo_def repo_get_def read_wrapper_def
        repo_path_def no_hook_def)
  then show "repo_get (budget_repo env) s' t t = Inr (Some (P_retry_budget b))"
    and "kind \<noteq> O_retry_budget \<Longrightarrow> file_at s' (t2, relative_path kind i) = file_at s (t2, relative_path kind i)"
    using relative_path_kind [of kind i O_retry_budget t] by auto
qed

lemma get_budget_cases:
  assumes "get_budget env t s = (Inr b, s')"
  shows "is_identifier t \<and> unchanged s s' \<and> (\<exists>p. repo_get (repository_of env O_task) s t t = Inr (Some p)) \<and>
    (repo_get (budget_repo env) s t t = Inr (Some (P_retry_budget b)) \<or>
     repo_get (budget_repo env) s t t = Inr None \<and> rb_attempts b = [])"
  using assms
  by (auto simp: get_budget_def require_task_def stored_budget_def initial_snapshot_def monad
      unchanged_def split: option.splits)

lemma get_budget_stored:
  assumes "is_identifier t" and "repo_get (repository_of env O_task) s t t = Inr (Some p)"
    and "repo_get (budget_repo env) s t t = Inr (Some (P_retry_budget b))"
  shows "get_budget env t s = (Inr b, s)"
  using assms
  by (simp add: get_budget_def require_task_def stored_budget_def run returnS_def bindS_run)

section \<open>An allowed retry stays within the limits\<close>

definition retry_digest :: "environment \<Rightarrow> retry_request \<Rightarrow> string" where
  "retry_digest env q = ev_request_digest env ''reserve_retry''
     (R_reserve_retry (rr_task_id q) (rr_instance_id q) (rr_attempt_id q) (rr_retry_of q)
       (rr_reservation_tokens q) (rr_estimated_cost q) (rr_price_catalog q))"

lemma reserved_fields:
  assumes "with_attempt b (new_attempt i ro inst x lineage requested cost cat aid gs now) gs requested
    cost now = Inr b'" and "gs = []" and "requested = Some n"
  shows "rb_policy b' = rb_policy b" "rb_attempts b' = rb_attempts b @
      [new_attempt i ro inst x lineage requested cost cat aid gs now]"
    "rb_ledger b' = reserve_in n cost (rb_ledger b)"
  using assms by (auto simp: with_attempt_def Let_def)

lemma group_count_append:
  "rb_attempts b' = rb_attempts b @ [a] \<Longrightarrow>
   group_count b' (at_retry_group_id a) =
     group_count b (at_retry_group_id a) + (if counts_as_retry (at_status a) then 1 else 0)"
  by (simp add: group_count_def)

text \<open>
  C29. When a retry that was not answered before is allowed, the budget then stored holds the attempt as
  reserved, and with it the settled and reserved tokens stay within the token limit, the retries of
  the group within their number, the settled and reserved cost within the cost limit when there is
  one, and the ledger is not frozen.
\<close>

theorem allowed_retry_within_limits:
  assumes "request_retry env q key actor s = (Inr v, s')"
    and "lookup_committed_command_result s (rr_task_id q) key ''reserve_retry'' (retry_digest env q) =
      Inr None"
  shows "\<exists>b a. repo_get (budget_repo env) s' (rr_task_id q) (rr_task_id q) =
        Inr (Some (P_retry_budget b)) \<and>
      a \<in> set (rb_attempts b) \<and> at_attempt_id a = rr_attempt_id q \<and> at_status a = RESERVED \<and>
      lg_tokens_settled (rb_ledger b) + lg_tokens_reserved (rb_ledger b) \<le> rp_max_tokens (rb_policy b) \<and>
      group_count b (at_retry_group_id a) \<le> rp_max_auto_retries (rb_policy b) \<and>
      (case rp_max_cost (rb_policy b) of None \<Rightarrow> True
       | Some limit \<Rightarrow> \<exists>settled. lg_cost_settled (rb_ledger b) = Some settled \<and>
           settled + lg_cost_reserved (rb_ledger b) \<le> limit) \<and>
      \<not> lg_frozen (rb_ledger b)"
proof -
  let ?t = "rr_task_id q"
  obtain inst v' s1 where amounts: "check_amounts q = Inr ()"
    and reserve: "reserve_retry env q inst (retry_digest env q) key actor s = (Inr v', s1)"
    and answer: "answer_retry env v' s1 = (Inr v, s')"
    using assms
    by (auto simp: request_retry_def retry_digest_def Let_def budget_instance_def require_task_def
        task_instance_def committed_budget_command_def monad split: option.splits)
  from reserve obtain b s2 lineage gs requested now b' s3 where read: "get_budget env ?t s = (Inr b, s2)"
    and policy: "policy_errors (rb_policy b) = 0"
    and requested: "requested = requested_tokens (map_of (rp_reservations (rb_policy b))
       (agent_type_name (in_agent_type inst))) (rr_reservation_tokens q)"
    and gs: "gs = gates b (rb_policy b) (rl_retry_group_id lineage) requested (rr_estimated_cost q)
       (rr_price_catalog q)"
    and b': "with_attempt b (new_attempt (rr_attempt_id q) (rr_retry_of q) inst (rr_instance_id q) lineage
       requested (rr_estimated_cost q) (rr_price_catalog q)
       (fst (budget_approval_identity env ?t (rr_instance_id q) (rr_attempt_id q))) gs now)
       gs requested (rr_estimated_cost q) now = Inr b'"
    and put: "put_budget env ?t b' actor ''reserve_retry'' key (retry_result ?t (rr_instance_id q)
       (new_attempt (rr_attempt_id q) (rr_retry_of q) inst (rr_instance_id q) lineage
         requested (rr_estimated_cost q) (rr_price_catalog q)
         (fst (budget_approval_identity env ?t (rr_instance_id q) (rr_attempt_id q))) gs now) gs b')
       (retry_digest env q) s3 = (Inr (), s1)"
    and v': "v' = retry_result ?t (rr_instance_id q)
       (new_attempt (rr_attempt_id q) (rr_retry_of q) inst (rr_instance_id q) lineage
         requested (rr_estimated_cost q) (rr_price_catalog q)
         (fst (budget_approval_identity env ?t (rr_instance_id q) (rr_attempt_id q))) gs now) gs b'"
    unfolding reserve_retry_def Let_def by (auto simp: monad)
  have none: "gs = []" "s' = s1"
    using answer v' by (auto simp: answer_retry_def retry_result_def monad split: if_splits)
  obtain n where n: "requested = Some n"
    and fits: "group_count b (rl_retry_group_id lineage) + 1 \<le> rp_max_auto_retries (rb_policy b)"
    "lg_tokens_settled (rb_ledger b) + lg_tokens_reserved (rb_ledger b) + n \<le> rp_max_tokens (rb_policy b)"
    "case rp_max_cost (rb_policy b) of None \<Rightarrow> True
     | Some limit \<Rightarrow> \<exists>cost settled. rr_estimated_cost q = Some cost \<and>
         lg_cost_settled (rb_ledger b) = Some settled \<and>
         settled + lg_cost_reserved (rb_ledger b) + cost \<le> limit" "\<not> lg_frozen (rb_ledger b)"
    using gates_empty [THEN iffD1, OF gs [symmetric, unfolded none(1)]]
    by (auto split: option.splits)
  note fields = reserved_fields [OF b' none(1) n]
  let ?a = "new_attempt (rr_attempt_id q) (rr_retry_of q) inst (rr_instance_id q) lineage requested
    (rr_estimated_cost q) (rr_price_catalog q)
    (fst (budget_approval_identity env ?t (rr_instance_id q) (rr_attempt_id q))) gs now"
  have a: "at_attempt_id ?a = rr_attempt_id q" "at_status ?a = RESERVED"
    "at_retry_group_id ?a = rl_retry_group_id lineage"
    using none(1) by (simp_all add: new_attempt_def)
  show ?thesis
    using put_budget_stored(1) [OF put] none(2) a fits group_count_append [OF fields(2)]
    by (intro exI [of _ b'] exI [of _ ?a])
      (auto simp: fields reserve_in_def Let_def counts_as_retry_def split: option.splits)
qed

section \<open>Settling counts usage once\<close>

definition settlement_conflict :: exn where
  "settlement_conflict = HarnessError IDEMPOTENCY_CONFLICT
     ''The retry attempt was settled with different usage.'' []"

definition settle_digest :: "environment \<Rightarrow> string \<Rightarrow> string \<Rightarrow> int \<Rightarrow> int option \<Rightarrow> string" where
  "settle_digest env t i used spent = ev_request_digest env ''settle_retry'' (R_settle t i used spent)"

lemma settle_cases:
  assumes "settle env t i used spent k actor s = (Inr (V_settlement a l m), s')"
    and "lookup_committed_command_result s t k ''settle_retry'' (settle_digest env t i used spent) =
      Inr None"
  shows "\<exists>b s1 a0. get_budget env t s = (Inr b, s1) \<and> find_attempt b i = Inr a0 \<and> is_identifier i \<and>
     (is_settled a0 \<and> at_actual_tokens a0 = Some used \<and> at_actual_cost a0 = spent \<and>
        a = a0 \<and> l = rb_ledger b \<and> s' = s1 \<or>
      (\<exists>s2 b' v sha. put_budget env t b' actor ''settle_retry'' k v sha s2 = (Inr (), s') \<and>
        file_at s2 = file_at s1 \<and> find_attempt b' i = Inr a \<and> is_settled a \<and>
        at_actual_tokens a = Some used \<and> at_actual_cost a = spent \<and> rb_ledger b' = l))"
proof -
  obtain b s1 a0 where read: "get_budget env t s = (Inr b, s1)" and a0: "find_attempt b i = Inr a0"
    and i: "is_identifier i"
    using assms(1) by (auto simp: settle_def Let_def monad)
  have journal: "lookup_committed_command_result s1 t k ''settle_retry'' (settle_digest env t i used spent) =
      Inr None"
    using get_budget_cases [OF read] assms(2)
    by (simp add: lookup_committed_command_result_def unchanged_def)
  show ?thesis
  proof (cases "is_settled a0")
    case True
    then show ?thesis
      using assms(1) read a0 i journal
      by (auto simp: settle_def Let_def monad bindS_run committed_budget_command_def settle_digest_def
          is_settled_def)
  next
    case False
    have "\<exists>s2 b' v sha. put_budget env t b' actor ''settle_retry'' k v sha s2 = (Inr (), s') \<and>
        file_at s2 = file_at s1 \<and> rb_attempts b' = rb_attempts (replace_attempt b a) \<and>
        rb_ledger b' = l \<and> at_attempt_id a = at_attempt_id a0 \<and> is_settled a \<and>
        at_actual_tokens a = Some used \<and> at_actual_cost a = spent"
      using assms(1) read a0 i journal False
      by (simp add: settle_def Let_def bindS_run run committed_budget_command_def settle_digest_def
          is_settled_def split: if_splits sum.splits)
        (elim bindS_cases; simp add: monad; elim conjE; hypsubst_thin;
          (intro exI conjI, assumption, simp_all add: touched_budget_def replace_attempt_def))+
    then obtain s2 b' v sha where put: "put_budget env t b' actor ''settle_retry'' k v sha s2 = (Inr (), s')"
      and s2: "file_at s2 = file_at s1" and b': "rb_attempts b' = rb_attempts (replace_attempt b a)"
        "rb_ledger b' = l" and a: "at_attempt_id a = at_attempt_id a0" "is_settled a"
        "at_actual_tokens a = Some used" "at_actual_cost a = spent" by blast
    have "find_attempt b' i = Inr a"
      using find_replaced [OF a0, of a] a(1) find_attempt_id [OF a0] b'(1)
      by (simp add: find_attempt_def)
    then show ?thesis
      using read a0 i s2 put a b'(2)
      by (intro exI [of _ b] exI [of _ s1] exI [of _ a0]) blast
  qed
qed

text \<open>
  C14. Usage is counted once: when a retry has been settled under a key that was new, and is settled again at once under
  another well-formed key that is new, with amounts that are not negative, by an actor that may settle it, the store is
  left as it is, and the answer is the same attempt and ledger when the usage is the same, and
  \<open>IDEMPOTENCY_CONFLICT\<close> when it differs.
\<close>

theorem settled_once:
  assumes "settle env t i used spent k actor s = (Inr (V_settlement a l m), s')"
    and "lookup_committed_command_result s t k ''settle_retry'' (settle_digest env t i used spent) =
      Inr None"
    and "is_identifier k2" and "0 \<le> used2" and "case spent2 of None \<Rightarrow> True | Some c \<Rightarrow> 0 \<le> c"
    and "may_settle actor2 a"
    and "lookup_committed_command_result s' t k2 ''settle_retry'' (settle_digest env t i used2 spent2) =
      Inr None"
  shows "settle env t i used2 spent2 k2 actor2 s' =
    ((if used2 = used \<and> spent2 = spent then Inr (V_settlement a l None) else Inl settlement_conflict), s')"
proof -
  have stable: "settle env t i used2 spent2 k2 actor2 u =
      ((if used2 = used \<and> spent2 = spent then Inr (V_settlement a l None) else Inl settlement_conflict), u)"
    if "get_budget env t u = (Inr b, u)" "find_attempt b i = Inr a" "is_identifier i" "is_settled a"
      "at_actual_tokens a = Some used" "at_actual_cost a = spent" "rb_ledger b = l" "u = s'" for u b
    using that assms(3-7)
    by (auto simp: settle_def Let_def run bindS_run committed_budget_command_def settle_digest_def
        settlement_conflict_def is_settled_def returnS_def)
  obtain b s1 a0 where read: "get_budget env t s = (Inr b, s1)" and a0: "find_attempt b i = Inr a0"
    and i: "is_identifier i"
    and run: "is_settled a0 \<and> at_actual_tokens a0 = Some used \<and> at_actual_cost a0 = spent \<and>
        a = a0 \<and> l = rb_ledger b \<and> s' = s1 \<or>
      (\<exists>s2 b' v sha. put_budget env t b' actor ''settle_retry'' k v sha s2 = (Inr (), s') \<and>
        file_at s2 = file_at s1 \<and> find_attempt b' i = Inr a \<and> is_settled a \<and>
        at_actual_tokens a = Some used \<and> at_actual_cost a = spent \<and> rb_ledger b' = l)"
    using settle_cases [OF assms(1,2)] by metis
  note b = get_budget_cases [OF read]
  obtain p where p: "repo_get (repository_of env O_task) s t t = Inr (Some p)" using b by blast
  have t: "is_identifier t" using b by blast
  have same: "file_at s1 = file_at s" using b by (simp add: unchanged_def)
  from run show ?thesis
  proof
    assume here: "is_settled a0 \<and> at_actual_tokens a0 = Some used \<and> at_actual_cost a0 = spent \<and>
        a = a0 \<and> l = rb_ledger b \<and> s' = s1"
    have "rb_attempts b \<noteq> []" using a0 by (auto simp: monad)
    then have "repo_get (budget_repo env) s1 t t = Inr (Some (P_retry_budget b))"
      using b repo_get_unchanged by metis
    moreover have "repo_get (repository_of env O_task) s1 t t = Inr (Some p)"
      using p b repo_get_unchanged by metis
    ultimately show ?thesis
      using here a0 i get_budget_stored [OF t] by (intro stable [of _ b]) auto
  next
    assume "\<exists>s2 b' v sha. put_budget env t b' actor ''settle_retry'' k v sha s2 = (Inr (), s') \<and>
        file_at s2 = file_at s1 \<and> find_attempt b' i = Inr a \<and> is_settled a \<and>
        at_actual_tokens a = Some used \<and> at_actual_cost a = spent \<and> rb_ledger b' = l"
    then obtain s2 b' v sha where put: "put_budget env t b' actor ''settle_retry'' k v sha s2 = (Inr (), s')"
      and s2: "file_at s2 = file_at s1" and b': "find_attempt b' i = Inr a" "is_settled a"
        "at_actual_tokens a = Some used" "at_actual_cost a = spent" "rb_ledger b' = l" by blast
    have "file_at s' (t, relative_path O_task t) = file_at s (t, relative_path O_task t)"
      using put_budget_stored(2) [OF put, of O_task t t] s2 same by simp
    then have "repo_get (repository_of env O_task) s' t t = Inr (Some p)"
      using p t by (simp add: repo_get_def read_wrapper_def repo_path_def)
    then show ?thesis
      using get_budget_stored [OF t _ put_budget_stored(1) [OF put]] b' i by (intro stable) auto
  qed
qed

section \<open>An override that can never be consumed\<close>

text \<open>
  A human may approve an override with a null token limit: the check accepts it and the attempt
  becomes authorised, but consuming it raises a \<open>TypeError\<close> at every later time, and changes nothing.
\<close>

theorem null_override_unusable:
  assumes "pd_decision pd = ''APPROVED''" and "pd_action pd = Some ''approve_once''"
    and "pd_payload pd = [(''token_limit'', LimNull)]"
    and "get_budget env t s = (Inr b, s1)" and "find_attempt b i = Inr (decided_attempt a pd at)"
    and "is_identifier i" and "is_identifier k" and "ac_type actor = System"
    and "lookup_committed_command_result s t k ''consume_budget_override''
      (ev_request_digest env ''consume_budget_override'' (R_consume_override t i)) = Inr None"
  shows "check_resolution (pd_decision pd) (pd_action pd) (pd_payload pd) = Inr () \<and>
    at_status (decided_attempt a pd at) = AUTHORIZED \<and>
    (\<exists>m s'. consume_override env t i k actor s = (Inl (TypeError m), s') \<and> unchanged s s')"
proof -
  have a: "at_status (decided_attempt a pd at) = AUTHORIZED"
    "at_reserved_tokens (decided_attempt a pd at) = LimNull"
    using assms(1,3) by (simp_all add: decided_attempt_def limit_of_def Let_def)
  have "unchanged s1 (s1\<lparr>st_ticks := Suc (st_ticks s1)\<rparr>)" by (simp add: unchanged_def)
  then have "unchanged s (s1\<lparr>st_ticks := Suc (st_ticks s1)\<rparr>)"
    using get_budget_cases [OF assms(4)] unchanged_trans by blast
  moreover have "check_resolution (pd_decision pd) (pd_action pd) (pd_payload pd) = Inr ()"
    by (simp add: assms(1-3) check_resolution_def limit_ok_def limit_of_def)
  ultimately show ?thesis
    using assms(4-9) a
    by (simp add: consume_override_def Let_def run bindS_run committed_budget_command_def
        int_of_limit_def)
qed

section \<open>The life cycle of an attempt\<close>

definition final_attempt :: "attempt \<Rightarrow> bool" where
  "final_attempt a = (at_status a \<in> {SETTLED, EXCEEDED, ATTEMPT_CANCELLED})"

fun forward :: "attempt_status \<Rightarrow> attempt_status \<Rightarrow> bool" where
  "forward PENDING_APPROVAL s = True"
| "forward AUTHORIZED s = (s \<in> {AUTHORIZED, RESERVED, SETTLED, EXCEEDED})"
| "forward RESERVED s = (s \<in> {RESERVED, SETTLED, EXCEEDED})"
| "forward SETTLED s = (s = SETTLED)"
| "forward EXCEEDED s = (s = EXCEEDED)"
| "forward ATTEMPT_CANCELLED s = (s = ATTEMPT_CANCELLED)"

text \<open>\<open>becomes a a'\<close>: the status only moves forward, the lineage never changes, and nothing of a
  final attempt does.\<close>

definition becomes :: "attempt \<Rightarrow> attempt \<Rightarrow> bool" where
  "becomes a a' =
     (if final_attempt a then a' = a
      else forward (at_status a) (at_status a') \<and> at_attempt_id a' = at_attempt_id a \<and>
        at_retry_group_id a' = at_retry_group_id a \<and> at_retry_of a' = at_retry_of a \<and>
        at_root_attempt_id a' = at_root_attempt_id a \<and>
        at_root_instance_id a' = at_root_instance_id a \<and> at_instance_id a' = at_instance_id a \<and>
        at_agent_type a' = at_agent_type a \<and> at_created_at a' = at_created_at a)"

lemma forward_trans: "forward x y \<Longrightarrow> forward y z \<Longrightarrow> forward x z"
  by (cases x; cases y; auto)

lemma becomes_refl: "becomes a a"
  by (cases "at_status a") (auto simp: becomes_def)

lemma becomes_trans: "becomes a b \<Longrightarrow> becomes b c \<Longrightarrow> becomes a c"
  by (auto simp: becomes_def intro: forward_trans split: if_splits)

definition budget_at :: "store \<Rightarrow> string \<Rightarrow> retry_budget \<Rightarrow> bool" where
  "budget_at s t b \<longleftrightarrow> (\<exists>w. file_at s (t, relative_path O_retry_budget t) = Some (Snapshot w) \<and>
     wr_object_type w = O_retry_budget \<and> wr_payload w = P_retry_budget b)"

definition attempt_in :: "string \<Rightarrow> attempt \<Rightarrow> retry_budget \<Rightarrow> bool" where
  "attempt_in i a b \<longleftrightarrow> (\<exists>a'. find_attempt b i = Inr a' \<and> becomes a a')"

definition keeps_attempt :: "string \<Rightarrow> string \<Rightarrow> attempt \<Rightarrow> store \<Rightarrow> bool" where
  "keeps_attempt t i a s \<longleftrightarrow>
     all_payloads (budget_payload sound_budget) s \<and> (\<exists>b. budget_at s t b \<and> attempt_in i a b)"

definition sound_with :: "string \<Rightarrow> string \<Rightarrow> attempt \<Rightarrow> string \<Rightarrow> retry_budget \<Rightarrow> bool" where
  "sound_with t i a u b \<longleftrightarrow> sound_budget b \<and> (u = t \<longrightarrow> attempt_in i a b)"

lemma budget_at_get:
  assumes "is_identifier t"
  shows "budget_at s t b \<longleftrightarrow> repo_get (budget_repo env) s t t = Inr (Some (P_retry_budget b))"
  using assms
  by (auto simp: budget_at_def budget_repo_def repo_get_def read_wrapper_def repo_path_def
      split: option.splits content.splits)

lemma find_other:
  assumes "at_attempt_id x \<noteq> i"
  shows "find_attempt (replace_attempt b x) i = find_attempt b i"
proof -
  have "find (\<lambda>y. at_attempt_id y = i) (update_first (\<lambda>y. at_attempt_id y = at_attempt_id x) (\<lambda>_. x) as) =
      find (\<lambda>y. at_attempt_id y = i) as" for as
    using assms by (induction as) auto
  then show ?thesis by (simp add: find_attempt_def replace_attempt_def)
qed

lemma attempt_in_replaced:
  assumes "attempt_in i a b" and "find_attempt b j = Inr x" and "becomes x x'"
    and "rb_attempts b' = rb_attempts (replace_attempt b x')"
  shows "attempt_in i a b'"
proof -
  have x': "at_attempt_id x' = j"
    using assms(3) find_attempt_id [OF assms(2)] by (auto simp: becomes_def split: if_splits)
  have "find_attempt b' i = find_attempt (replace_attempt b x') i"
    using assms(4) by (simp add: find_attempt_def)
  then show ?thesis
    using assms(1-3) x' find_replaced [OF assms(2) x'] find_other [of x' i b] becomes_trans
    unfolding attempt_in_def by (cases "j = i") (metis Inr_inject)+
qed

lemma attempt_in_appended:
  "attempt_in i a b \<Longrightarrow> rb_attempts b' = rb_attempts b @ xs \<Longrightarrow> attempt_in i a b'"
proof -
  have "find p as = Some y \<Longrightarrow> find p (as @ xs) = Some y" for p as and y :: attempt
    by (induction as) auto
  then show "attempt_in i a b \<Longrightarrow> rb_attempts b' = rb_attempts b @ xs \<Longrightarrow> attempt_in i a b'"
    by (auto simp: attempt_in_def monad)
qed

lemma other_file_put:
  assumes "repo_put env (repository_of env kind) u j p n ac c k res sha hook s = (r, s')"
    and "kind \<noteq> O_retry_budget"
  shows "file_at s' (t, relative_path O_retry_budget t) = file_at s (t, relative_path O_retry_budget t)"
  using assms(1) benign_repository
proof (cases rule: repo_put_cases)
  case (committed current w e)
  then show ?thesis
    using assms(2) relative_path_kind [of O_retry_budget t kind j] by (auto simp: put_effect_def)
qed (auto simp: unchanged_def journalled_def)

lemma other_file_delete:
  assumes "repo_delete env (repository_of env kind) u j n ac c k s = (r, s')"
    and "kind \<noteq> O_retry_budget"
  shows "file_at s' (t, relative_path O_retry_budget t) = file_at s (t, relative_path O_retry_budget t)"
  using assms(1)
proof (cases rule: repo_delete_cases)
  case (removed w uuid now)
  then show ?thesis
    using assms(2) relative_path_kind [of O_retry_budget t kind j] by auto
qed (auto simp: unchanged_def)

lemma keeps_attempt_beside:
  assumes "keeps (all_payloads (budget_payload sound_budget)) m"
    and "\<And>s r s'. m s = (r, s') \<Longrightarrow> file_at s' (t, relative_path O_retry_budget t) =
      file_at s (t, relative_path O_retry_budget t)"
  shows "keeps (keeps_attempt t i a) m"
proof (rule keepsI)
  fix s r s'
  assume I: "keeps_attempt t i a s" and run: "m s = (r, s')"
  then have "all_payloads (budget_payload sound_budget) s'"
    by (intro keepsD [OF assms(1) _ run]) (simp add: keeps_attempt_def)
  with I assms(2) [OF run] show "keeps_attempt t i a s'"
    by (simp add: keeps_attempt_def budget_at_def)
qed

lemma keeps_attempt_notice:
  assumes "kind \<noteq> O_retry_budget"
  shows "budget_payload sound_budget p \<Longrightarrow> keeps (keeps_attempt t i a)
      (repo_put env (repository_of env kind) u j p n ac c k res sha hook)"
    and "keeps (keeps_attempt t i a) (repo_delete env (repository_of env kind) u j n ac c k)"
  using assms by (auto intro!: keeps_attempt_beside keeps_put keeps_delete
      dest: other_file_put other_file_delete)

lemma put_budget_cases:
  assumes "put_budget env u b actor c k v sha s = (r, s')"
  obtains "s' = s"
  | n w where "repo_put env (repository_of env O_retry_budget) u u (P_retry_budget b) n actor c k
      (Some v) (Some sha) no_hook s = (w, s')"
  using assms
  by (auto simp: put_budget_def budget_repo_def returnS_def readS_def elim!: bindS_cases)

lemma keeps_attempt_put:
  assumes "sound_with t i a u b"
  shows "keeps (keeps_attempt t i a) (put_budget env u b actor c k v sha)"
proof (rule keepsI)
  fix s r s'
  assume I: "keeps_attempt t i a s" and run: "put_budget env u b actor c k v sha s = (r, s')"
  obtain b0 where old: "budget_at s t b0" "attempt_in i a b0"
    using I by (auto simp: keeps_attempt_def)
  have "keeps (all_payloads (budget_payload sound_budget)) (put_budget env u b actor c k v sha)"
    using assms by (intro put_budget_payload) (simp add: sound_with_def)
  then have "all_payloads (budget_payload sound_budget) s'"
    by (rule keepsD) (use I run in \<open>auto simp: keeps_attempt_def\<close>)
  moreover from run have "budget_at s' t b0 \<or> u = t \<and> budget_at s' t b"
  proof (cases rule: put_budget_cases)
    case (2 n w)
    from 2 benign_repository old(1) show ?thesis
      by (cases rule: repo_put_cases)
        (auto simp: unchanged_def journalled_def put_effect_def commit_of_def budget_at_def)
  qed (use old in simp)
  ultimately show "keeps_attempt t i a s'"
    using assms old(2) by (auto simp: keeps_attempt_def sound_with_def)
qed

lemma keeps_attempt_read:
  assumes "keeps_attempt t i a s"
  shows "get_budget env u s = (Inr b, s') \<Longrightarrow> sound_with t i a u b"
    and "stored_budget env u s = (Inr (Some b), s') \<Longrightarrow> sound_with t i a u b"
proof -
  have all: "all_payloads (budget_payload sound_budget) s" using assms by (simp add: keeps_attempt_def)
  obtain b0 where b0: "budget_at s t b0" "attempt_in i a b0"
    using assms by (auto simp: keeps_attempt_def)
  show "get_budget env u s = (Inr b, s') \<Longrightarrow> sound_with t i a u b"
    using get_budget_cases [of env u s b s'] ledger_services.budget_read [OF all, of env u b s']
      b0 budget_at_get [of t s b0 env] by (auto simp: sound_with_def)
  show "stored_budget env u s = (Inr (Some b), s') \<Longrightarrow> sound_with t i a u b"
    using ledger_services.budget_stored [OF all, of env u b s'] b0
    by (auto simp: sound_with_def stored_budget_def monad budget_at_def budget_repo_def repo_get_def
        read_wrapper_def split: option.splits)
qed

lemma sound_with_replaced:
  assumes "sound_with t i a u b" and "find_attempt b j = Inr x" and "becomes x x'"
    and "sound_budget (touched_budget ((replace_attempt b x')\<lparr>rb_ledger := l\<rparr>) now)"
  shows "sound_with t i a u (touched_budget ((replace_attempt b x')\<lparr>rb_ledger := l\<rparr>) now)"
  using assms attempt_in_replaced [OF _ assms(2,3)]
  by (auto simp: sound_with_def touched_budget_def)

lemma same_ledger: "(replace_attempt b x)\<lparr>rb_ledger := rb_ledger b\<rparr> = replace_attempt b x"
  by (simp add: replace_attempt_def)

lemma with_attempt_appends:
  "with_attempt b a gs requested cost now = Inr b' \<Longrightarrow> rb_attempts b' = rb_attempts b @ [a]"
  by (auto simp: with_attempt_def Let_def split: if_splits option.splits)

interpretation attempt_services: budget_frame env "keeps_attempt t i a" "sound_with t i a"
  for env t i a
proof (unfold_locales, goal_cases)
  case (1 s s')
  then show ?case using budget_notices.quiet [of s s' sound_budget]
    by (simp add: keeps_attempt_def budget_at_def unchanged_def)
next
  case (2 t' r p)
  show ?case
    by (rule keeps_attempt_beside [OF budget_notices.request_file])
      (auto simp: write_approval_payload_def monad file_at_def)
next
  case 3
  show ?case
    by (rule keeps_attempt_beside [OF budget_notices.sequence])
      (auto simp: next_sequence_def file_at_def)
next
  case (10 q r)
  show ?case
    by (rule keeps_attempt_beside [OF budget_notices.model_call])
      (auto simp: write_model_call_def monad file_at_def)
next
  case (11 s t' b s')
  then show ?case by (rule keeps_attempt_read)
next
  case (12 s t' b s')
  then show ?case by (rule keeps_attempt_read)
next
  case (13 t' b actor c k result sha)
  then show ?case by (rule keeps_attempt_put)
next
  case (14 t' b p now)
  then show ?case
    using attempt_in_appended [of i a b _ "[]"] by (simp add: sound_with_def sound_configured)
next
  case (15 t' b q conf agent req ro inst x lin cat aid gs now b')
  have "sound_budget b'"
    using 15(1) by (intro sound_reserved [OF _ 15(2-4) _ 15(7)]) (simp_all add: sound_with_def 15(5,6))
  moreover have "attempt_in i a b \<Longrightarrow> attempt_in i a b'"
    by (rule attempt_in_appended [OF _ with_attempt_appends [OF 15(7)]])
  ultimately show ?case using 15(1) by (simp add: sound_with_def)
next
  case (16 t' b j x pd now)
  have "becomes x (x\<lparr>at_pending := Some pd\<rparr>)"
    using 16(3) by (simp add: becomes_def final_attempt_def)
  from sound_with_replaced [OF 16(1,2) this, of "rb_ledger b"] show ?case
    using 16 by (simp add: same_ledger sound_with_def sound_prepared)
next
  case (17 t' b j x pd at now)
  have "at_status x = PENDING_APPROVAL"
    using 17(1,3) find_attempt_sound [OF _ 17(2)] by (auto simp: sound_with_def attempt_sound_def)
  then have "becomes x (decided_attempt x pd at)"
    by (simp add: becomes_def final_attempt_def decided_attempt_def Let_def)
  from sound_with_replaced [OF 17(1,2) this, of "rb_ledger b"] show ?case
    using 17 by (simp add: same_ledger sound_with_def sound_decided)
next
  case (18 t' b j x tokens cost at now)
  then show ?case
    by (intro sound_with_replaced [OF 18(1,2)] sound_consumed)
      (simp_all add: sound_with_def becomes_def final_attempt_def)
next
  case (19 t' b j x tokens cost used spent at now)
  then show ?case
    by (intro sound_with_replaced [OF 19(1,2)] sound_settled)
      (simp_all add: sound_with_def becomes_def final_attempt_def)
qed (auto simp: approval_repo_def inbox_repo_def intro!: keeps_attempt_notice)

lemma attempt_in_refl: "find_attempt b i = Inr a \<Longrightarrow> attempt_in i a b"
  using becomes_refl by (auto simp: attempt_in_def)

text \<open>
  C30. An attempt is never lost and only moves forward: whatever the approval and budget services do
  afterwards, a recorded attempt stays in the stored budget with its lineage, its status only moves
  from pending to authorised or cancelled, from authorised to reserved, from reserved to settled or
  exceeded, and once settled, exceeded or cancelled nothing of it changes.
\<close>

theorem attempt_moves_forward:
  assumes "system_reachable env s" and "(service_step env)\<^sup>*\<^sup>* s s'" and "is_identifier t"
    and "repo_get (budget_repo env) s t t = Inr (Some (P_retry_budget b))"
    and "find_attempt b i = Inr a"
  shows "\<exists>b' a'. repo_get (budget_repo env) s' t t = Inr (Some (P_retry_budget b')) \<and>
    find_attempt b' i = Inr a' \<and> becomes a a'"
proof -
  have "keeps_attempt t i a s"
    using stored_budgets_sound [OF assms(1)] assms(4) attempt_in_refl [OF assms(5)]
      budget_at_get [OF assms(3)] by (auto simp: keeps_attempt_def)
  with assms(2) have "keeps_attempt t i a s'"
    by (induction rule: rtranclp_induct) (auto intro: attempt_services.kept_by_service)
  then show ?thesis
    using budget_at_get [OF assms(3)] by (auto simp: keeps_attempt_def attempt_in_def)
qed

end
