(* ===== verification/Approval_Properties.thy ===== *)
theory Approval_Properties imports System begin

text \<open>
  What the approval service promises over any run of the services: a decided approval never changes
  and an undecided one keeps its owner, a handled notification stays handled, and the inbox is
  listed first in, first out.
\<close>

section \<open>Files under the names of their objects\<close>

definition named :: "object_type \<Rightarrow> string \<Rightarrow> string \<Rightarrow> payload \<Rightarrow> bool" where
  "named kind t i p \<longleftrightarrow>
     (kind = O_approval \<longrightarrow> (\<exists>a. p = P_approval a \<and> ap_approval_id a = i \<and> ap_task_id a = t)) \<and>
     (kind = O_inbox \<longrightarrow> (\<exists>x. p = P_inbox x \<and> ib_inbox_id x = i \<and> ib_task_id x = t))"

text \<open>A file holds a snapshot of its object, and so does a journalled commit.\<close>

definition tidy_event :: "string \<Rightarrow> event \<Rightarrow> bool" where
  "tidy_event t e \<longleftrightarrow> (\<forall>w. ee_snapshot e = Some w \<longrightarrow>
     1 \<le> wr_revision w \<and> wr_object_type w = ee_object_type e \<and>
     named (ee_object_type e) t (ee_object_id e) (wr_payload w))"

definition tidy :: "store \<Rightarrow> bool" where
  "tidy s \<longleftrightarrow> positive_revisions s \<and> (\<forall>t. \<forall>e \<in> set (journal s t). tidy_event t e) \<and>
     (\<forall>t kind i w. file_at s (t, relative_path kind i) = Some (Snapshot w) \<longrightarrow>
        wr_object_type w = kind \<longrightarrow> named kind t i (wr_payload w))"

lemma tidy_empty: "tidy empty_store"
  by (simp add: tidy_def positive_revisions_def journal_def file_at_def empty_store_def)

lemma tidy_cong: "file_at b = file_at a \<Longrightarrow> journal b = journal a \<Longrightarrow> tidy a \<Longrightarrow> tidy b"
  by (simp add: tidy_def positive_revisions_def)

lemma positive_extended:
  assumes "positive_revisions s" and "journal s' = (journal s)(t := journal s t @ [e])"
    and "ee_event_type e = OBJECT_COMMITTED \<Longrightarrow> 1 \<le> ee_revision e"
    and "\<forall>q w. file_at s' q = Some (Snapshot w) \<longrightarrow> file_at s q = Some (Snapshot w) \<or> 1 \<le> wr_revision w"
  shows "positive_revisions s'"
proof -
  have "1 \<le> wr_revision w" if "file_at s' q = Some (Snapshot w)" for q w
    using assms(1,4) that unfolding positive_revisions_def by blast
  moreover have "1 \<le> ee_revision f" if "f \<in> set (journal s' u)" "ee_event_type f = OBJECT_COMMITTED" for u f
    using assms(1-3) that unfolding positive_revisions_def by (auto split: if_splits)
  ultimately show ?thesis unfolding positive_revisions_def by blast
qed

lemma tidy_updated:
  assumes "tidy s" and "file_at s' = (file_at s)((t, relative_path kind i) \<mapsto> Snapshot w)"
    and "wr_object_type w = kind" and "named kind t i (wr_payload w)" and "positive_revisions s'"
    and "\<forall>t. \<forall>e \<in> set (journal s' t). tidy_event t e"
  shows "tidy s'"
  unfolding tidy_def
proof (intro conjI allI impI assms(5))
  fix u k j v
  assume v: "file_at s' (u, relative_path k j) = Some (Snapshot v)" "wr_object_type v = k"
  show "named k u j (wr_payload v)"
  proof (cases "(u, relative_path k j) = (t, relative_path kind i)")
    case True
    then have "v = w" "u = t" "k = kind" "singleton_kind k \<or> j = i"
      using v(1) assms(2) relative_path_inj [of k j kind i] by auto
    then show ?thesis using assms(4) by (cases k) (auto simp: named_def singleton_kind_def)
  next
    case False
    then show ?thesis using v assms(1,2) by (auto simp: tidy_def)
  qed
qed (use assms(6) in simp)

lemma tidy_put:
  assumes "tidy s" and "named kind t i p"
    and "repo_put env (repository_of env kind) t i p n a c k res sha hook s = (r, s')"
  shows "tidy s'"
proof -
  have pos: "positive_revisions s" using assms(1) by (simp add: tidy_def)
  from assms(3) benign_repository show ?thesis
  proof (cases rule: repo_put_cases)
    case (rejected x)
    then show ?thesis using assms(1) tidy_cong by (auto simp: unchanged_def)
  next
    case (crashed x current w e)
    have "positive_revisions s'"
      by (rule positive_extended [OF pos, of _ t e])
        (use crashed positive_base(2) [OF pos crashed(6)] in \<open>simp_all add: journalled_def commit_of_def\<close>)
    moreover have "tidy_event t e"
      using crashed(8) assms(2) positive_base(2) [OF pos crashed(6)]
      by (auto simp: tidy_event_def commit_of_def is_commit_of_def)
    ultimately show ?thesis using assms(1) crashed(9) by (auto simp: tidy_def journalled_def)
  next
    case (committed current w e)
    have "positive_revisions s'"
      by (rule positive_extended [OF pos, of _ t e])
        (use committed positive_base(2) [OF pos committed(6)] in
          \<open>simp_all add: put_effect_def commit_of_def\<close>)
    moreover have "tidy_event t e"
      using committed(8) assms(2) positive_base(2) [OF pos committed(6)]
      by (auto simp: tidy_event_def commit_of_def is_commit_of_def)
    moreover have "\<forall>u. \<forall>e \<in> set (journal s u). tidy_event u e" using assms(1) by (simp add: tidy_def)
    ultimately show ?thesis
      using committed assms(2)
      by (intro tidy_updated [OF assms(1)]) (auto simp: put_effect_def commit_of_def)
  qed
qed

lemma tidy_delete:
  assumes "tidy s" and "repo_delete env (repository_of env kind) t i n a c k s = (r, s')"
  shows "tidy s'"
  using assms(2)
proof (cases rule: repo_delete_cases)
  case refused
  then show ?thesis using assms(1) tidy_cong by (auto simp: unchanged_def)
next
  case (removed w uuid now)
  have "positive_revisions s'"
    by (rule positive_extended [of s])
      (use assms(1) removed in \<open>auto simp: tidy_def removal_event_def\<close>)
  moreover have "tidy_event t (removal_event env kind i w a c k uuid now)"
    by (simp add: tidy_event_def removal_event_def)
  ultimately show ?thesis using assms(1) removed by (auto simp: tidy_def)
qed

section \<open>What is listed is stored\<close>

lemma glob_json_stored:
  "q \<in> set (glob_json s t [d]) \<Longrightarrow> \<exists>i. q = (t, [d, json_file i])"
  by (auto simp: glob_json_def ends_with_def json_file_def)
    (metis append_butlast_last_id append_Cons append_Nil append_take_drop_id)

definition stored_as :: "store \<Rightarrow> object_type \<Rightarrow> string \<Rightarrow> string \<Rightarrow> payload \<Rightarrow> bool" where
  "stored_as s kind t i p \<longleftrightarrow> (\<exists>w. file_at s (t, relative_path kind i) = Some (Snapshot w) \<and>
     wr_object_type w = kind \<and> wr_payload w = p)"

lemma stored_named: "tidy s \<Longrightarrow> stored_as s kind t i p \<Longrightarrow> named kind t i p"
  by (auto simp: tidy_def stored_as_def)

lemma repo_list_stored:
  assumes "repo_list (repository_of env kind) s t = Inr ps" and "p \<in> set ps"
    and "relative_path kind ''placeholder'' = [d, json_file ''placeholder'']"
    and "\<And>i. relative_path kind i = [d, json_file i]"
  shows "\<exists>i. stored_as s kind t i p"
proof -
  obtain ws where ws: "mapE (read_json s) (glob_json s t [d]) = Inr ws"
    and ps: "ps = map wr_payload (filter (\<lambda>w. wr_object_type w = kind) ws)"
    using assms(1,3) by (auto simp: repo_list_def monad)
  from assms(2) ps obtain w where w: "w \<in> set ws" "wr_object_type w = kind" "p = wr_payload w"
    by auto
  then obtain q where q: "q \<in> set (glob_json s t [d])" "read_json s q = Inr w"
    using mapE_set [OF ws] by auto
  then obtain i where "q = (t, relative_path kind i)" using glob_json_stored assms(4) by metis
  then have "stored_as s kind t i p"
    using q(2) w by (auto simp: stored_as_def read_json_def split: option.splits content.splits)
  then show ?thesis ..
qed

lemma listed_of_stored:
  assumes "listed_of (repository_of env kind) read_as identifier keep s t = Inr xs"
    and "(x, n) \<in> set xs"
  shows "\<exists>ps p. repo_list (repository_of env kind) s t = Inr ps \<and> p \<in> set ps \<and> read_as p = Inr x \<and>
    keep x \<and> repo_revision (repository_of env kind) s t (identifier x) = Inr n"
proof -
  obtain ps ys where ps: "repo_list (repository_of env kind) s t = Inr ps" "mapE read_as ps = Inr ys"
    and xs: "mapE (\<lambda>x. bindE (repo_revision (repository_of env kind) s t (identifier x)) (\<lambda>n. Inr (x, n)))
      (filter keep ys) = Inr xs"
    using assms(1) by (auto simp: listed_of_def bindE_Inr_iff)
  have "x \<in> set ys" "keep x" "repo_revision (repository_of env kind) s t (identifier x) = Inr n"
    using assms(2) mapE_set [OF xs] by (auto simp: bindE_Inr_iff)
  then show ?thesis using ps(1) mapE_set [OF ps(2)] by auto
qed

lemma listed_item:
  assumes "tidy s" and "list_inbox env s owner status limit = Inr xs" and "(x, n) \<in> set xs"
  shows "stored_as s O_inbox (ib_task_id x) (ib_inbox_id x) (P_inbox x) \<and> ib_owner x = owner \<and>
    passes status (ib_status x)"
proof -
  obtain vs where vs: "mapE (listed_of (inbox_repo env) as_inbox ib_inbox_id
      (\<lambda>x. ib_owner x = owner \<and> passes status (ib_status x)) s) (task_directories s) = Inr vs"
    and "(x, n) \<in> set (concat vs)"
    using assms(2,3) by (auto simp: list_inbox_def monad Let_def split: option.splits dest: in_set_takeD)
  then obtain t ys where ys: "(x, n) \<in> set ys" "listed_of (repository_of env O_inbox) as_inbox
      ib_inbox_id (\<lambda>x. ib_owner x = owner \<and> passes status (ib_status x)) s t = Inr ys"
    using mapE_set [OF vs] by (auto simp: inbox_repo_def)
  obtain ps p where p: "repo_list (repository_of env O_inbox) s t = Inr ps" "p \<in> set ps"
    "as_inbox p = Inr x" "ib_owner x = owner \<and> passes status (ib_status x)"
    using listed_of_stored [OF ys(2,1)] by blast
  obtain i where i: "stored_as s O_inbox t i p" using repo_list_stored [OF p(1,2)] by auto
  then have "named O_inbox t i p" using assms(1) stored_named by blast
  then show ?thesis using i p(3,4) by (auto simp: named_def monad)
qed

lemma listed_approval:
  assumes "tidy s" and "list_approvals env s (Some t) inst owner status = Inr xs" and "(a, n) \<in> set xs"
  shows "stored_as s O_approval t (ap_approval_id a) (P_approval a) \<and> passes status (ap_status a)"
proof -
  obtain ys where ys: "(a, n) \<in> set ys" "listed_of (repository_of env O_approval) as_approval
      ap_approval_id (\<lambda>a. passes inst (ap_instance_id a) \<and> passes owner (ap_owner a) \<and>
        passes status (ap_status a)) s t = Inr ys"
    using assms(2,3) by (auto simp: list_approvals_def bindE_Inr_iff approval_repo_def)
  obtain ps p where p: "repo_list (repository_of env O_approval) s t = Inr ps" "p \<in> set ps"
    "as_approval p = Inr a" "passes status (ap_status a)"
    using listed_of_stored [OF ys(2,1)] by blast
  obtain i where i: "stored_as s O_approval t i p" using repo_list_stored [OF p(1,2)] by auto
  then have "named O_approval t i p" using assms(1) stored_named by blast
  then show ?thesis using i p(3,4) by (auto simp: named_def monad)
qed

lemma got_stored:
  "repo_get (repository_of env kind) s t i = Inr (Some p) \<Longrightarrow> stored_as s kind t i p"
  by (auto simp: stored_as_def repo_get_def read_wrapper_def monad split: option.splits
      content.splits if_splits)

section \<open>Objects that stay\<close>

text \<open>\<open>stays kind t i Q\<close>: the object is stored, and its payload satisfies \<open>Q\<close>.\<close>

definition stays :: "object_type \<Rightarrow> string \<Rightarrow> string \<Rightarrow> (payload \<Rightarrow> bool) \<Rightarrow> store \<Rightarrow> bool" where
  "stays kind t i Q s \<longleftrightarrow> tidy s \<and> (\<exists>p. stored_as s kind t i p \<and> Q p)"

lemma stored_as_unique: "stored_as s k t i p \<Longrightarrow> stored_as s k t i q \<Longrightarrow> p = q"
  by (auto simp: stored_as_def)

lemma stays_cong: "unchanged s s' \<Longrightarrow> stays k t i Q s \<Longrightarrow> stays k t i Q s'"
  unfolding stays_def unchanged_def stored_as_def using tidy_cong by metis

lemma stays_put:
  assumes "stays k t i Q s" and "named kind u j p"
    and "kind = k \<Longrightarrow> u = t \<Longrightarrow> j = i \<Longrightarrow> n = 0 \<or> Q p" and "\<not> singleton_kind k"
    and "repo_put env (repository_of env kind) u j p n a c key res sha hook s = (r, s')"
  shows "stays k t i Q s'"
proof -
  obtain w where w: "file_at s (t, relative_path k i) = Some (Snapshot w)" "wr_object_type w = k"
    "Q (wr_payload w)" "1 \<le> wr_revision w"
    using assms(1) by (auto simp: stays_def stored_as_def tidy_def positive_revisions_def)
  have tidy: "tidy s'" using assms(1) tidy_put [OF _ assms(2,5)] by (simp add: stays_def)
  from assms(5) benign_repository
  have "\<exists>v. file_at s' (t, relative_path k i) = Some (Snapshot v) \<and> wr_object_type v = k \<and> Q (wr_payload v)"
  proof (cases rule: repo_put_cases)
    case (committed current v e)
    show ?thesis
    proof (cases "(t, relative_path k i) = (u, relative_path kind j)")
      case True
      then have here: "kind = k" "u = t" "j = i"
        using relative_path_inj [of k i kind j] assms(4) by auto
      have "current = Some w"
        using committed(6) w by (auto simp: here read_wrapper_def repo_path_def monad split: if_splits)
      then have "Q p" using assms(3) [OF here] committed(7) w(4) by auto
      then show ?thesis using committed(8,9) by (auto simp: here put_effect_def commit_of_def)
    qed (use w committed(9) in \<open>auto simp: put_effect_def\<close>)
  qed (use w in \<open>auto simp: unchanged_def journalled_def\<close>)
  with tidy show ?thesis by (auto simp: stays_def stored_as_def)
qed

lemma stays_delete:
  assumes "stays k t i Q s" and "\<not> (kind = k \<and> u = t \<and> j = i)" and "\<not> singleton_kind k"
    and "repo_delete env (repository_of env kind) u j n a c key s = (r, s')"
  shows "stays k t i Q s'"
proof -
  have "tidy s'" using assms(1) tidy_delete [OF _ assms(4)] by (simp add: stays_def)
  moreover have "file_at s' (t, relative_path k i) = file_at s (t, relative_path k i)"
    using assms(4)
  proof (cases rule: repo_delete_cases)
    case (removed w uuid now)
    then show ?thesis using assms(2,3) relative_path_inj [of k i kind j] by auto
  qed (simp add: unchanged_def)
  ultimately show ?thesis using assms(1) by (simp add: stays_def stored_as_def)
qed

section \<open>Every step keeps the store tidy\<close>

lemma tidy_quiet:
  "(\<And>s r s'. m s = (r, s') \<Longrightarrow> file_at s' = file_at s \<and> journal s' = journal s) \<Longrightarrow> keeps tidy m"
  by (rule keepsI) (metis tidy_cong)

lemma tidy_unlinked: "keeps tidy (unlink_file q)"
proof (rule keepsI)
  fix s r s'
  assume tidy: "tidy s" and "unlink_file q s = (r, s')"
  then have "file_at s' = (file_at s)(q := None)" "journal s' = journal s"
    using unlink_file_effect by blast+
  with tidy show "tidy s'" unfolding tidy_def positive_revisions_def by (auto split: if_splits)
qed

lemma tidy_written:
  assumes "tidy_event t e" and "ee_snapshot e = Some w"
  shows "keeps tidy (write_file (t, relative_path (ee_object_type e) (ee_object_id e)) w)"
proof (rule keepsI)
  fix s r s'
  assume tidy: "tidy s"
    and "write_file (t, relative_path (ee_object_type e) (ee_object_id e)) w s = (r, s')"
  then have eff: "file_at s' = (file_at s)((t, relative_path (ee_object_type e) (ee_object_id e)) \<mapsto> Snapshot w)"
    "journal s' = journal s" using write_file_effect by blast+
  have w: "1 \<le> wr_revision w" "wr_object_type w = ee_object_type e"
    "named (ee_object_type e) t (ee_object_id e) (wr_payload w)"
    using assms by (auto simp: tidy_event_def)
  have "positive_revisions s'"
    using tidy eff w(1) unfolding tidy_def positive_revisions_def by auto
  then show "tidy s'" using tidy eff w by (intro tidy_updated [OF tidy eff(1)]) (auto simp: tidy_def)
qed

interpretation tidy_commands: store_frame env tidy for env
proof (unfold_locales, goal_cases)
  case (1 kind p t i n a c k res sha hook)
  show ?case
  proof (rule keepsI, rule tidy_put)
    show "named kind t i p" using 1 by cases (simp_all add: named_def)
  qed
next
  case (2 q)
  show ?case by (rule tidy_unlinked)
next
  case (3 t k c digest v)
  show ?case by (rule tidy_quiet) (intro conjI remember_digest_observers)
next
  case (4 s s')
  then show ?case using tidy_cong by (auto simp: unchanged_def)
next
  case (5 t task)
  show ?case by (rule tidy_quiet) (auto simp: write_task_summary_def monad)
qed

lemma tidy_recover: "keeps tidy (recover env)"
proof -
  have warn: "keeps tidy (warn env t f)" for t f
    unfolding warn_def by (rule tidy_quiet) (auto simp: run modifyS_def)
  have one: "keeps tidy (recover_snapshot env t (key, e))"
    if "tidy_event t e" "event_key e = key" for t key e
    using that
    by (auto simp: recover_snapshot_def event_key_def event_snapshot_def monad
        intro!: keeps_check keeps_bind [OF keeps_pure(4)] keeps_option keeps_if keeps_pure tidy_written
          keeps_bind [OF tidy_written] warn
        split: option.splits)
  have "keeps tidy (recover_task env t)" for t
    unfolding recover_task_def
  proof (rule keeps_readS)
    fix es s
    assume "tidy s" "Inr (journal s t) = (Inr es :: exn + event list)"
    then have es: "tidy_event t e" if "e \<in> set es" for e using that by (auto simp: tidy_def)
    have "keeps tidy (recover_snapshots env t es)"
      unfolding recover_snapshots_def
    proof (rule keeps_forS)
      fix x
      assume x: "x \<in> set (latest_commits es)"
      obtain key e where "x = (key, e)" by (cases x)
      with x show "keeps tidy (recover_snapshot env t x)"
        using one es latest_commit_event in_latest_commits by metis
    qed
    moreover have "keeps tidy (recover_idempotency_results env t es)"
      unfolding recover_idempotency_results_def recover_idempotency_result_def
      by (auto intro!: keeps_rules tidy_commands.remember_result split: option.split)
    ultimately show "keeps tidy (bindS (recover_idempotency_results env t es) (\<lambda>_.
        bindS (recover_snapshots env t es) (\<lambda>_.
        bindS (readS (\<lambda>st. forE (check_snapshot (latest_commits es) st) (snapshot_paths st t))) (\<lambda>_.
        reconcile_plan_projections env t))))"
      by (intro keeps_bind keeps_pure tidy_commands.reconcile)
  qed
  then show ?thesis
    unfolding recover_def by (intro keeps_rules tidy_commands.index_rebuilds)
qed

lemma got_approval:
  assumes "tidy s" and "repo_get (approval_repo env) s t i = Inr (Some (P_approval a))"
  shows "stored_as s O_approval t i (P_approval a) \<and> ap_task_id a = t \<and> ap_approval_id a = i"
proof -
  have here: "stored_as s O_approval t i (P_approval a)"
    using assms(2) by (auto simp: approval_repo_def intro: got_stored)
  then have "named O_approval t i (P_approval a)" using assms(1) stored_named by blast
  with here show ?thesis by (simp add: named_def)
qed

lemma read_item:
  assumes "tidy s" and "read_wrapper (inbox_repo env) s t i = Inr (Some w)" and "wr_payload w = P_inbox x"
  shows "stored_as s O_inbox t i (P_inbox x) \<and> ib_task_id x = t \<and> ib_inbox_id x = i"
proof -
  have "repo_get (repository_of env O_inbox) s t i = Inr (Some (P_inbox x))"
    using assms(2,3) by (simp add: repo_get_def inbox_repo_def)
  then have here: "stored_as s O_inbox t i (P_inbox x)" by (rule got_stored)
  then have "named O_inbox t i (P_inbox x)" using assms(1) stored_named by blast
  with here show ?thesis by (simp add: named_def)
qed

lemma named_changes:
  "named O_approval (ap_task_id a) (ap_approval_id a) (P_approval (resolved_approval a st now u v))"
  "named O_inbox (ib_task_id x) (ib_inbox_id x) (P_inbox (marked_item x target now u v))"
  "named O_approval (ap_task_id a) (ap_approval_id a) (P_approval a)"
  "named O_inbox (ib_task_id x) (ib_inbox_id x) (P_inbox x)"
  "named O_retry_budget t i p"
  by (simp_all add: named_def resolved_approval_def marked_item_def Let_def)

text \<open>An object of the approval service whose payload keeps satisfying \<open>Q\<close> when the approval is
  decided or the notification marked, and which is never a notification to clear.\<close>

locale staying =
  fixes env :: environment and kind :: object_type and t i :: string and Q :: "payload \<Rightarrow> bool"
  assumes own_kind: "kind = O_approval \<or> kind = O_inbox"
    and decided_stays: "kind = O_approval \<Longrightarrow> Q (P_approval a) \<Longrightarrow> ap_status a = ''PENDING'' \<Longrightarrow>
      Q (P_approval (resolved_approval a status now by_type by_id))"
    and marked_stays: "kind = O_inbox \<Longrightarrow> Q (P_inbox x) \<Longrightarrow> ib_status x \<noteq> ''HANDLED'' \<Longrightarrow>
      Q (P_inbox (marked_item x target now by_type by_id))"
    and never_cleared: "kind = O_inbox \<Longrightarrow> Q (P_inbox x) \<Longrightarrow> ib_status x \<noteq> ''READ''"
begin

lemma several_files: "\<not> singleton_kind kind"
  using own_kind by (auto simp: singleton_kind_def)

lemma put_stays:
  assumes "named k u j p" and "k = kind \<Longrightarrow> u = t \<Longrightarrow> j = i \<Longrightarrow> n = 0 \<or> Q p"
  shows "keeps (stays kind t i Q) (repo_put env (repository_of env k) u j p n a c key res sha hook)"
  using stays_put [OF _ assms(1) _ several_files] assms(2) by (intro keepsI) blast

lemma stored_satisfies:
  "stays kind t i Q s \<Longrightarrow> stored_as s kind t i p \<Longrightarrow> Q p"
  unfolding stays_def using stored_as_unique by metis

end

lemma passes_Some [simp]: "passes (Some y) x = (x = y)"
  by (simp add: passes_def)

sublocale staying \<subseteq> budget_frame env "stays kind t i Q" "\<lambda>_ _. True"
proof (unfold_locales, goal_cases)
  case (1 s s')
  then show ?case using stays_cong by blast
next
  case (2 u r p)
  show ?case
    by (rule keepsI)
      (auto simp: write_approval_payload_def monad stays_def stored_as_def file_at_def
        elim!: tidy_cong [rotated 2] simp: journal_def)
next
  case 3
  show ?case
    by (rule keepsI)
      (auto simp: next_sequence_def stays_def stored_as_def file_at_def elim!: tidy_cong [rotated 2]
        simp: journal_def)
next
  case (4 a u j actor c k)
  then show ?case unfolding approval_repo_def by (intro put_stays) (auto simp: named_changes)
next
  case (5 s u j a status now by_type by_id n actor c k res sha)
  have tidy: "tidy s" using 5(1) by (simp add: stays_def)
  note here = got_approval [OF tidy 5(2)]
  show ?case
    unfolding approval_repo_def
  proof (rule put_stays)
    show "named O_approval (ap_task_id a) j (P_approval (resolved_approval a status now by_type by_id))"
      using here named_changes(1) by metis
    show "n = 0 \<or> Q (P_approval (resolved_approval a status now by_type by_id))"
      if "O_approval = kind" "ap_task_id a = t" "j = i"
      using that here stored_satisfies [OF 5(1)] decided_stays [OF _ _ 5(3)] by metis
  qed
next
  case (6 s u inst own as a n status now by_type by_id actor c k)
  have tidy: "tidy s" using 6(1) by (simp add: stays_def)
  note here = listed_approval [OF tidy 6(2,3)]
  then have "named O_approval u (ap_approval_id a) (P_approval a)"
    using tidy stored_named by blast
  then have task: "ap_task_id a = u" by (simp add: named_def)
  show ?case
    unfolding approval_repo_def
  proof (rule put_stays)
    show "named O_approval u (ap_approval_id a) (P_approval (resolved_approval a status now by_type by_id))"
      using task named_changes(1) by metis
    show "n = 0 \<or> Q (P_approval (resolved_approval a status now by_type by_id))"
      if "O_approval = kind" "u = t" "ap_approval_id a = i"
      using that here stored_satisfies [OF 6(1)] decided_stays by auto
  qed
next
  case (7 x u j actor c k)
  then show ?case unfolding inbox_repo_def by (intro put_stays) (auto simp: named_changes)
next
  case (8 s u j w x target now by_type by_id n actor c k res sha)
  have tidy: "tidy s" using 8(1) by (simp add: stays_def)
  note here = read_item [OF tidy 8(2,3)]
  show ?case
    unfolding inbox_repo_def
  proof (rule put_stays)
    show "named O_inbox u j (P_inbox (marked_item x target now by_type by_id))"
      using here named_changes(2) by metis
    show "n = 0 \<or> Q (P_inbox (marked_item x target now by_type by_id))"
      if "O_inbox = kind" "u = t" "j = i"
      using that here stored_satisfies [OF 8(1)] marked_stays [OF _ _ 8(4)] by metis
  qed
next
  case (9 s owner xs x n actor c k)
  have tidy: "tidy s" using 9(1) by (simp add: stays_def)
  have "\<not> (O_inbox = kind \<and> ib_task_id x = t \<and> ib_inbox_id x = i)"
    using listed_item [OF tidy 9(2,3)] stored_satisfies [OF 9(1)] never_cleared by auto
  then show ?case
    unfolding inbox_repo_def using stays_delete [OF _ _ several_files] by (intro keepsI) blast
next
  case (10 q r)
  show ?case
    by (rule keepsI)
      (auto simp: write_model_call_def monad stays_def stored_as_def file_at_def
        elim!: tidy_cong [rotated 2] simp: journal_def)
next
  case (13 u b actor c k result sha)
  show ?case
    unfolding put_budget_def budget_repo_def
    by (intro keeps_bind keeps_pure put_stays) (use own_kind in \<open>auto simp: named_changes\<close>)
qed simp_all

section \<open>Reachable stores are tidy\<close>

lemma keeps_tidy_put:
  "named kind u j p \<Longrightarrow> keeps tidy (repo_put env (repository_of env kind) u j p n a c key res sha hook)"
  by (rule keepsI) (erule (1) tidy_put [rotated])

lemma listed_approval_task:
  assumes "tidy s" and "list_approvals env s (Some t) inst owner status = Inr xs" and "(a, n) \<in> set xs"
  shows "ap_task_id a = t"
  using stored_named [OF assms(1)] listed_approval [OF assms] by (fastforce simp: named_def)

interpretation tidy_services: budget_frame env tidy "\<lambda>_ _. True" for env
proof (unfold_locales, goal_cases)
  case (1 s s')
  then show ?case by (rule tidy_commands.quiet)
next
  case (2 u r p)
  show ?case
    by (rule tidy_quiet) (auto simp: write_approval_payload_def monad file_at_def journal_def)
next
  case 3
  show ?case by (rule tidy_quiet) (auto simp: next_sequence_def file_at_def journal_def)
next
  case (4 a u j actor c k)
  then show ?case unfolding approval_repo_def by (intro keeps_tidy_put) (auto simp: named_changes)
next
  case (5 s u j a status now by_type by_id n actor c k res sha)
  have "ap_approval_id a = j" using got_approval [OF 5(1,2)] by blast
  then show ?case unfolding approval_repo_def by (intro keeps_tidy_put) (auto simp: named_changes)
next
  case (6 s u inst own as a n status now by_type by_id actor c k)
  have "ap_task_id a = u" using listed_approval_task [OF 6] .
  then show ?case unfolding approval_repo_def by (intro keeps_tidy_put) (auto simp: named_changes)
next
  case (7 x u j actor c k)
  then show ?case unfolding inbox_repo_def by (intro keeps_tidy_put) (auto simp: named_changes)
next
  case (8 s u j w x target now by_type by_id n actor c k res sha)
  have "ib_task_id x = u" "ib_inbox_id x = j" using read_item [OF 8(1-3)] by auto
  then show ?case unfolding inbox_repo_def by (intro keeps_tidy_put) (auto simp: named_changes)
next
  case (9 s owner xs x n actor c k)
  show ?case unfolding inbox_repo_def by (rule keepsI) (erule (1) tidy_delete)
next
  case (10 q r)
  show ?case
    by (rule tidy_quiet) (auto simp: write_model_call_def monad file_at_def journal_def)
next
  case (13 u b actor c k result sha)
  show ?case
    unfolding put_budget_def budget_repo_def
    by (intro keeps_bind keeps_pure keeps_tidy_put named_changes)
qed simp_all

lemma reachable_tidy: "system_reachable env s \<Longrightarrow> tidy s"
  unfolding system_reachable_def
  by (erule system_run_invariant [where I = tidy])
    (simp add: tidy_empty, erule (1) tidy_commands.kept_if_recovered [OF tidy_recover],
      erule (1) tidy_services.kept_by_service)

section \<open>Decisions and handled notifications\<close>

text \<open>\<open>decided_from a b\<close>: \<open>b\<close> is \<open>a\<close> if that is decided; otherwise it is the same approval for the same
  owner, whatever was decided.\<close>

definition decided_from :: "approval_request \<Rightarrow> approval_request \<Rightarrow> bool" where
  "decided_from a b =
     (if ap_status a \<noteq> ''PENDING'' then b = a
      else ap_owner b = ap_owner a \<and> ap_approval_id b = ap_approval_id a \<and>
        ap_task_id b = ap_task_id a \<and> ap_instance_id b = ap_instance_id a \<and>
        ap_step_id b = ap_step_id a \<and> ap_kind b = ap_kind a \<and>
        ap_payload_ref b = ap_payload_ref a \<and> ap_created_at b = ap_created_at a \<and>
        ap_sequence b = ap_sequence a)"

interpretation decisions: staying env O_approval t i "\<lambda>p. \<exists>b. p = P_approval b \<and> decided_from a b"
  for env t i a
  by unfold_locales (auto simp: decided_from_def resolved_approval_def split: if_splits)

interpretation handled_items: staying env O_inbox t i "\<lambda>p. p = P_inbox x \<and> ib_status x = ''HANDLED''"
  for env t i x
  by unfold_locales auto

lemma stays_get:
  assumes "stays kind t i Q s" and "is_identifier t" and "is_identifier i"
  shows "\<exists>p. repo_get (repository_of env kind) s t i = Inr (Some p) \<and> Q p"
  using assms
  by (auto simp: stays_def stored_as_def repo_get_def read_wrapper_def repo_path_def)

lemma get_ids: "repo_get R s t i = Inr (Some p) \<Longrightarrow> is_identifier t \<and> is_identifier i"
  by (auto simp: repo_get_def monad dest: read_wrapper_InrD)

text \<open>
  C11. A decision is final and its owner frozen: whatever the approval and budget services do later, a
  stored approval that was decided stays exactly as it is, and one that is still pending stays
  stored with its owner, task, instance, step, kind, request file and sequence number.
\<close>

theorem decision_is_final:
  assumes "system_reachable env s" and "(service_step env)\<^sup>*\<^sup>* s s'"
    and "repo_get (approval_repo env) s t i = Inr (Some (P_approval a))"
  shows "\<exists>b. repo_get (approval_repo env) s' t i = Inr (Some (P_approval b)) \<and> decided_from a b"
proof -
  have "decided_from a a" by (simp add: decided_from_def)
  then have "stays O_approval t i (\<lambda>p. \<exists>b. p = P_approval b \<and> decided_from a b) s"
    using reachable_tidy [OF assms(1)] assms(3)
    by (auto simp: stays_def approval_repo_def dest!: got_stored)
  with assms(2) have "stays O_approval t i (\<lambda>p. \<exists>b. p = P_approval b \<and> decided_from a b) s'"
    by (induction rule: rtranclp_induct) (auto intro: decisions.kept_by_service)
  from stays_get [OF this, of env] show ?thesis
    using get_ids [OF assms(3)] by (auto simp: approval_repo_def)
qed

text \<open>
  A handled notification stays handled: whatever the approval and budget services do later, it is
  never marked again, never cleared, and never brought back to unread.
\<close>

theorem handled_stays_handled:
  assumes "system_reachable env s" and "(service_step env)\<^sup>*\<^sup>* s s'"
    and "repo_get (inbox_repo env) s t i = Inr (Some (P_inbox x))" and "ib_status x = ''HANDLED''"
  shows "repo_get (inbox_repo env) s' t i = Inr (Some (P_inbox x))"
proof -
  have "stays O_inbox t i (\<lambda>p. p = P_inbox x \<and> ib_status x = ''HANDLED'') s"
    using reachable_tidy [OF assms(1)] assms(3,4)
    by (auto simp: stays_def inbox_repo_def dest!: got_stored)
  with assms(2) have "stays O_inbox t i (\<lambda>p. p = P_inbox x \<and> ib_status x = ''HANDLED'') s'"
    by (induction rule: rtranclp_induct) (auto intro: handled_items.kept_by_service)
  from stays_get [OF this, of env] show ?thesis
    using get_ids [OF assms(3)] by (auto simp: inbox_repo_def)
qed

section \<open>Who decides\<close>

lemma put_approval_stored:
  assumes "repo_put env (repository_of env kind) t i p n a c k res sha no_hook s = (Inr w, s')"
  shows "repo_get (repository_of env kind) s' t i = Inr (Some p)"
  using assms benign_repository
  by (cases rule: repo_put_cases)
    (auto simp: put_effect_def commit_of_def repo_get_def read_wrapper_def repo_path_def)

lemma get_approval_cases:
  assumes "get_approval env i s = (Inr (a, n, p), s')" and "tidy s"
  shows "s' = s \<and> repo_get (approval_repo env) s (ap_task_id a) i = Inr (Some (P_approval a)) \<and>
    repo_revision (approval_repo env) s (ap_task_id a) i = Inr n"
proof -
  obtain t where t: "s' = s" "repo_get (approval_repo env) s t i = Inr (Some (P_approval a))"
    "repo_revision (approval_repo env) s t i = Inr n"
    using assms(1)
    by (auto simp: get_approval_def resolve_request_def find_approval_def approval_revision_def task_for_object_def
        monad split: option.splits list.splits)
  then show ?thesis using got_approval [OF assms(2) t(2)] by simp
qed

text \<open>
  C34. Only the frozen owner decides, once, on the revision it saw: when a decision under a fresh key
  returns, the stored approval was pending, belonged to the actor's type and had the expected
  revision, and afterwards it is stored with that decision and the actor's name on it.
\<close>

theorem owner_decides:
  assumes "system_reachable env s" and "get_approval env i s = (Inr (a, n, p), s)"
    and "commit_resolution env i d e s = (Inr v, s')"
    and "lookup_committed_command_result s (ap_task_id a) (ce_idempotency_key e) ''resolve_approval''
      (ev_request_digest env ''resolve_approval'' (R_resolve_approval i d)) = Inr None"
  shows "repo_get (approval_repo env) s (ap_task_id a) i = Inr (Some (P_approval a)) \<and>
    ap_status a = ''PENDING'' \<and> ap_owner a = actor_type_name (ce_actor_type e) \<and>
    n = ce_expected_revision e \<and> d \<in> {''APPROVED'', ''REJECTED''} \<and>
    (\<exists>now. repo_get (approval_repo env) s' (ap_task_id a) i = Inr (Some (P_approval
      (resolved_approval a d now (ap_owner a) (ce_actor_id e)))))"
proof -
  have decide: "decide_approval env i d e a n s = (Inr v, s')"
    using assms(2,3) by (simp add: commit_resolution_def bindS_def)
  note got = get_approval_cases [OF assms(2) reachable_tidy [OF assms(1)]]
  from decide assms(4) got show ?thesis
    by (intro conjI exI [of _ "ev_clock env (st_ticks s)"])
      (auto simp: decide_approval_def Let_def monad approval_repo_def dest!: put_approval_stored)
qed

section \<open>First in, first out\<close>

lemma repo_list_complete:
  assumes "repo_list (repository_of env O_inbox) s t = Inr ps" and "stored_as s O_inbox t i p"
  shows "p \<in> set ps"
proof -
  obtain w where w: "file_at s (t, [''inbox'', json_file i]) = Some (Snapshot w)"
    "wr_object_type w = O_inbox" "wr_payload w = p" using assms(2) by (auto simp: stored_as_def)
  then have "(t, [''inbox'', json_file i]) \<in> fst ` set (st_files s)"
    by (force simp: file_at_def dest: map_of_SomeD)
  then have "(t, [''inbox'', json_file i]) \<in> set (glob_json s t [''inbox''])"
    by (auto simp: glob_json_def json_file_def ends_with_def)
  moreover obtain ws where ws: "mapE (read_json s) (glob_json s t [''inbox'']) = Inr ws"
    "ps = map wr_payload (filter (\<lambda>w. wr_object_type w = O_inbox) ws)"
    using assms(1) by (auto simp: repo_list_def bindE_Inr_iff monad)
  ultimately have "w \<in> set ws"
    using mapE_set [OF ws(1)] w(1) by (auto simp: read_json_def intro!: bexI)
  then show ?thesis using ws(2) w by auto
qed

text \<open>
  The inbox of an owner without a limit is the list of exactly the notifications stored for that
  owner with the requested status, ordered by creation time, then by sequence number.
\<close>

theorem inbox_first_in_first_out:
  assumes "system_reachable env s" and "list_inbox env s owner status None = Inr xs"
  shows "sorted (map inbox_order xs) \<and>
    fst ` set xs = {x. \<exists>t \<in> set (task_directories s). \<exists>i. stored_as s O_inbox t i (P_inbox x) \<and>
      ib_owner x = owner \<and> passes status (ib_status x)}"
proof -
  let ?keep = "\<lambda>x. ib_owner x = owner \<and> passes status (ib_status x)"
  obtain vs where vs: "mapE (listed_of (repository_of env O_inbox) as_inbox ib_inbox_id ?keep s)
      (task_directories s) = Inr vs" and xs: "xs = sort_key inbox_order (concat vs)"
    using assms(2) by (auto simp: list_inbox_def bindE_Inr_iff Let_def inbox_repo_def)
  have tidy: "tidy s" using assms(1) by (rule reachable_tidy)
  have "x \<in> fst ` set xs" if t: "t \<in> set (task_directories s)"
    and i: "stored_as s O_inbox t i (P_inbox x)" and keep: "?keep x" for t i x
  proof -
    obtain ys where ys: "listed_of (repository_of env O_inbox) as_inbox ib_inbox_id ?keep s t = Inr ys"
      "ys \<in> set vs" using mapE_found [OF vs t] by blast
    obtain ps zs where ps: "repo_list (repository_of env O_inbox) s t = Inr ps" "mapE as_inbox ps = Inr zs"
      "mapE (\<lambda>x. bindE (repo_revision (repository_of env O_inbox) s t (ib_inbox_id x)) (\<lambda>n. Inr (x, n)))
        (filter ?keep zs) = Inr ys"
      using ys(1) by (auto simp: listed_of_def bindE_Inr_iff)
    have "x \<in> set zs" using mapE_set [OF ps(2)] repo_list_complete [OF ps(1) i] by force
    then have "x \<in> set (filter ?keep zs)" using keep by simp
    from mapE_found [OF ps(3) this] have "x \<in> fst ` set ys" by (force simp: bindE_Inr_iff)
    then show ?thesis using ys(2) xs by force
  qed
  moreover have "\<exists>t \<in> set (task_directories s). \<exists>i. stored_as s O_inbox t i (P_inbox x) \<and> ?keep x"
    if "(x, n) \<in> set xs" for x n
  proof -
    obtain ys where "ys \<in> set vs" "(x, n) \<in> set ys" using \<open>(x, n) \<in> set xs\<close> xs by auto
    then obtain t where t: "t \<in> set (task_directories s)"
      "listed_of (repository_of env O_inbox) as_inbox ib_inbox_id ?keep s t = Inr ys"
      using mapE_set [OF vs] by auto
    obtain ps p where p: "repo_list (repository_of env O_inbox) s t = Inr ps" "p \<in> set ps"
      "as_inbox p = Inr x" "?keep x"
      using listed_of_stored [OF t(2) \<open>(x, n) \<in> set ys\<close>] by blast
    then show ?thesis using repo_list_stored [OF p(1,2)] t(1) by (auto simp: monad)
  qed
  ultimately have "fst ` set xs = {x. \<exists>t \<in> set (task_directories s).
      \<exists>i. stored_as s O_inbox t i (P_inbox x) \<and> ?keep x}"
    by (intro set_eqI iffI; clarsimp simp del: set_sort; blast)
  then show ?thesis using xs by (simp only: sorted_sort_key HOL.simp_thms)
qed

end
