(* ===== verification/Plan_Properties.thy ===== *)
theory Plan_Properties imports Command_Invariants begin

text \<open>
  What the plan edits of the command handlers mean: cancellation and restoration move only what the
  catalog lets them move, an append leaves landed work alone, a merge only renews the cards of
  instances that have not started, and a task is only reported complete when everything that was
  required from the start has succeeded.
\<close>

section \<open>Cancellation\<close>

lemma cancellable:
  "s \<noteq> I_CREATED \<Longrightarrow> I_CANCELLED \<in> set (instance_transitions s) \<or>
     s \<in> {I_SUCCEEDED, I_CANCELLED, I_SUPERSEDED, I_ARCHIVED}"
  by (cases s) simp_all

text \<open>
  C31. A cancelled task has no live work left: after \<open>cancel_plan\<close> every instance of a sound plan has
  succeeded, is cancelled, superseded or archived, and an instance that is not cancelled by it is
  left exactly as it was.
\<close>

theorem cancel_plan_settles:
  assumes "sound_plan plan"
  shows "plan_status (cancel_plan plan) = T_CANCELLED \<and>
    list_all2 (\<lambda>i j. in_instance_id j = in_instance_id i \<and>
        (in_status j = I_CANCELLED \<or>
         j = i \<and> in_status i \<in> {I_SUCCEEDED, I_SUPERSEDED, I_ARCHIVED}))
      (pl_instances plan) (pl_instances (cancel_plan plan))"
proof -
  have "in_status i \<noteq> I_CREATED" if "i \<in> set (pl_instances plan)" for i
    using assms that by (auto simp: sound_plan_def list_all_iff sound_instance_def)
  then have "in_instance_id (cancel_instance i) = in_instance_id i \<and>
      (in_status (cancel_instance i) = I_CANCELLED \<or>
       cancel_instance i = i \<and> in_status i \<in> {I_SUCCEEDED, I_SUPERSEDED, I_ARCHIVED})"
    if "i \<in> set (pl_instances plan)" for i
    using that cancellable [of "in_status i"] by (auto simp: cancel_instance_def)
  then show ?thesis
    by (auto simp: cancel_plan_def set_task_status_def plan_status_def list_all2_map2 list_all2_same)
qed

section \<open>Restoration\<close>

text \<open>An instance is restored when it was stopped and the catalog allows the status asked for.\<close>

definition restored_by :: "(string \<times> instance_status) list \<Rightarrow> agent_instance \<Rightarrow> agent_instance \<Rightarrow> bool" where
  "restored_by restores i j =
     (in_instance_id j = in_instance_id i \<and> in_required j = in_required i \<and>
      (in_status j = in_status i \<or>
       in_status i = I_STOPPED \<and> in_status j \<in> set (instance_transitions I_STOPPED) \<and>
       (in_instance_id i, in_status j) \<in> set restores))"

lemma restored_by_refl [simp]: "restored_by rs i i"
  by (simp add: restored_by_def)

lemma restore_one_restores:
  assumes "restore_one now (x, target) is = Inr is'" and "(x, target) \<in> set rs"
    and "distinct (map in_instance_id is)"
  shows "list_all2 (\<lambda>i j. j = i \<or> in_instance_id i = x \<and> in_status i = I_STOPPED \<and>
      in_instance_id j = x \<and> in_required j = in_required i \<and> in_status j = target \<and>
      target \<in> set (instance_transitions I_STOPPED)) is is'"
proof -
  from assms(1) obtain i where i: "instances_by_id is x = Some i"
    and cases: "in_status i \<noteq> I_STOPPED \<and> is' = is \<or>
      in_status i = I_STOPPED \<and> target \<in> set (instance_transitions I_STOPPED) \<and>
      is' = update_last (\<lambda>y. in_instance_id y = x)
        (\<lambda>y. let y = y\<lparr>in_status := target\<rparr> in
             if target \<in> {I_STARTING, I_RUNNING} then activate_instance now y else y) is"
    unfolding restore_one_def prod.case
    by (auto simp: bindE_Inr_iff transition_Inr split: option.splits if_splits)
  have stopped: "in_status y = I_STOPPED"
    if "y \<in> set is" "in_instance_id y = x" "in_status i = I_STOPPED" for y
    using dict_by_distinct [OF assms(3) that(1)] i that by simp
  from cases show ?thesis
  proof
    assume *: "in_status i = I_STOPPED \<and> target \<in> set (instance_transitions I_STOPPED) \<and>
      is' = update_last (\<lambda>y. in_instance_id y = x)
        (\<lambda>y. let y = y\<lparr>in_status := target\<rparr> in
             if target \<in> {I_STARTING, I_RUNNING} then activate_instance now y else y) is"
    show ?thesis
      unfolding conjunct2 [OF conjunct2 [OF *]] update_last_map [OF assms(3)] list_all2_map2
        list_all2_same
      using * stopped by (auto simp: activate_instance_def Let_def)
  qed (simp add: list_all2_refl)
qed

lemma restored_by_trans:
  assumes "restored_by rs i j" and "restored_by rs j k"
  shows "restored_by rs i k"
  using assms by (auto simp: restored_by_def)

lemma restored_ids: "list_all2 (restored_by rs) is js \<Longrightarrow> map in_instance_id js = map in_instance_id is"
  by (induction rule: list_all2_induct) (auto simp: restored_by_def)

lemma restore_loop:
  assumes "foldE (restore_one now) rs is = Inr js" and "set rs \<subseteq> set all"
    and "distinct (map in_instance_id is)"
  shows "list_all2 (restored_by all) is js"
proof -
  have "list_all2 (restored_by all) is js \<and> map in_instance_id js = map in_instance_id is"
    using assms(1)
  proof (rule foldE_invariant)
    fix r a b
    assume r: "r \<in> set rs" and a: "list_all2 (restored_by all) is a \<and> map in_instance_id a = map in_instance_id is"
      and run: "restore_one now r a = Inr b"
    obtain x target where rr: "r = (x, target)" by (cases r)
    have "list_all2 (\<lambda>i j. j = i \<or> in_instance_id i = x \<and> in_status i = I_STOPPED \<and>
        in_instance_id j = x \<and> in_required j = in_required i \<and> in_status j = target \<and>
        target \<in> set (instance_transitions I_STOPPED)) a b"
      using restore_one_restores [OF run [unfolded rr]] r rr assms(2,3) a by auto
    then have "list_all2 (restored_by all) a b"
      by (rule list_all2_mono) (use r rr assms(2) in \<open>auto simp: restored_by_def\<close>)
    then show "list_all2 (restored_by all) is b \<and> map in_instance_id b = map in_instance_id is"
      using a restored_ids list_all2_transitive [of "restored_by all"] restored_by_trans
      by (metis transpI)
  qed (simp add: list_all2_refl)
  then show ?thesis ..
qed

text \<open>
  A restore only moves instances that were stopped, each along a catalog edge to a status that the
  request names for it; every other instance keeps its status, and none is added, dropped, renamed or
  made optional.
\<close>

theorem restore_plan_moves_stopped:
  assumes "restore_plan now was_archived restores target plan = Inr plan'"
    and "well_formed_plan plan"
  shows "list_all2 (restored_by restores) (pl_instances plan) (pl_instances plan')"
proof -
  from assms(1) obtain iss mid where iss: "foldE (restore_one now) restores (pl_instances plan) = Inr iss"
    and mid: "refresh_stages now True (plan\<lparr>pl_instances := iss\<rparr>) = Inr mid"
    and plan': "plan' = touch now (set_task_status (aggregate_plan (set_task_status target mid))
                  (set_task_status target mid))"
    by (auto simp: restore_plan_def Let_def bindE_Inr_iff)
  have "list_all2 (restored_by restores) (pl_instances plan) iss"
    using iss assms(2) by (auto simp: well_formed_plan_def intro: restore_loop)
  moreover have "list_all2 (restored_by restores) iss (pl_instances mid)"
  proof -
    have "list_all2 instance_evolves iss (pl_instances mid)"
      using refresh_stages_evolves(1) [OF mid] by (simp add: board_evolves_def plan_board_def)
    then show ?thesis
      by (rule list_all2_mono) (auto simp: restored_by_def instance_evolves_fields)
  qed
  moreover have "pl_instances plan' = pl_instances mid"
    by (simp add: plan' touch_def set_task_status_def)
  ultimately show ?thesis
    using list_all2_transitive [of "restored_by restores"] restored_by_trans by (metis transpI)
qed

section \<open>Append and merge\<close>

lemma activate_ready_False [simp]: "activate_ready now False r s iss = Inr (s, iss)"
  by (simp add: activate_ready_def)

text \<open>Without activation the refresh loop only sets stage statuses.\<close>

definition only_status :: "stage \<Rightarrow> stage \<Rightarrow> bool" where
  "only_status s s' = (s' = s\<lparr>sg_status := sg_status s'\<rparr>)"

lemma only_status_trans: "only_status a b \<Longrightarrow> only_status b c \<Longrightarrow> only_status a c"
  unfolding only_status_def by (cases a; cases b; cases c) simp

lemma only_status_refl [simp]: "only_status s s"
  by (simp add: only_status_def)

lemma only_status_set [simp]: "only_status s (s\<lparr>sg_status := x\<rparr>)"
  by (simp add: only_status_def)

lemma refresh_False:
  assumes "refresh_stages now False plan = Inr plan'"
  shows "list_all2 only_status (pl_stages plan) (pl_stages plan')"
    and "pl_instances plan' = pl_instances plan"
proof -
  obtain b where b: "foldE (refresh_stage now False) (by_position (pl_stages plan))
      (pl_stages plan, pl_instances plan) = Inr b" "plan' = with_board plan b"
    using assms by (auto simp: refresh_stages_def monad)
  have "list_all2 only_status (pl_stages plan) (fst b) \<and> snd b = pl_instances plan"
    using b(1)
  proof (rule foldE_invariant)
    fix n a c
    assume n: "n \<in> set (by_position (pl_stages plan))"
      and a: "list_all2 only_status (pl_stages plan) (fst a) \<and> snd a = pl_instances plan"
      and run: "refresh_stage now False n a = Inr c"
    obtain ss where aa: "a = (ss, pl_instances plan)" using a by (cases a) auto
    from run obtain target where c: "c = (ss[n := (ss ! n)\<lparr>sg_status := target\<rparr>], pl_instances plan)"
      unfolding aa refresh_stage_Inr by auto
    have len: "n < length ss" using n a aa by (auto dest: list_all2_lengthD)
    have "list_all2 only_status ss (fst c)"
      using c len by (simp add: list_all2_list_update)
    then show "list_all2 only_status (pl_stages plan) (fst c) \<and> snd c = pl_instances plan"
      using a aa c only_status_trans list_all2_transitive [of only_status] by (metis fst_conv snd_conv transpI)
  qed (simp add: list_all2_refl)
  then show "list_all2 only_status (pl_stages plan) (pl_stages plan')"
    "pl_instances plan' = pl_instances plan"
    using b(2) by (simp_all add: with_board_def)
qed

text \<open>
  An append never touches landed work: the landed instances and cards come first and are exactly as
  they were, a landed stage differs at most in its aggregate status, and the new plan is well formed.
\<close>

theorem append_keeps_landed:
  assumes "build_append contracts now task old pr stages instances cards = Inr plan"
  shows "take (length (pl_instances old)) (pl_instances plan) = pl_instances old \<and>
    take (length (pl_task_cards old)) (pl_task_cards plan) = pl_task_cards old \<and>
    list_all2 only_status (pl_stages old) (take (length (pl_stages old)) (pl_stages plan)) \<and>
    length (pl_stages plan) = length (pl_stages old) + length stages \<and>
    length (pl_instances plan) = length (pl_instances old) + length instances \<and>
    well_formed_plan plan"
proof -
  obtain mid where run: "refresh_stages now False mid = Inr plan"
    and mid: "mid = \<lparr>pl_task = task\<lparr>tk_plan_revision := pr, tk_updated_at := now\<rparr>,
         pl_stages = pl_stages old @ map (\<lambda>raw. (normalize_stage (tk_task_id task) raw)
             \<lparr>sg_position := int (length (pl_stages old)) + sg_position raw\<rparr>)
             (sort_key sg_position stages),
         pl_instances = pl_instances old @ map (normalize_instance (tk_task_id task) now) instances,
         pl_task_cards = pl_task_cards old @ map (normalize_card (tk_task_id task) now) cards\<rparr>"
    and ok: "validate_plan contracts plan = Inr ()"
    using assms unfolding build_append_def Let_def bindE_Inr_iff by auto
  have "list_all2 only_status (take (length (pl_stages old)) (pl_stages mid))
      (take (length (pl_stages old)) (pl_stages plan))"
    using refresh_False(1) [OF run] by (rule list_all2_takeI)
  then show ?thesis
    using refresh_False(2) [OF run] refresh_stages_evolves(3) [OF run] ok
      list_all2_lengthD [OF refresh_False(1) [OF run]]
    by (simp add: mid validate_plan_decides)
qed

text \<open>
  A merge keeps the topology: stages and instances are exactly the landed ones, the cards are the
  landed ones in their order, a card's revision never falls, and the card of an instance that has
  entered its start lifecycle is left exactly as it was.
\<close>

theorem merge_keeps_started:
  assumes "build_merge contracts now task old pr cards = Inr plan"
  shows "pl_stages plan = pl_stages old \<and> pl_instances plan = pl_instances old \<and>
    list_all2 (\<lambda>c d. cd_card_id d = cd_card_id c \<and> cd_instance_id d = cd_instance_id c \<and>
        cd_revision c \<le> cd_revision d \<and>
        (d = c \<or> cd_revision c < cd_revision d \<and>
           (\<exists>i \<in> set (pl_instances old). in_instance_id i = cd_instance_id c \<and>
              in_status i \<in> {I_READY, I_UNAVAILABLE})))
      (pl_task_cards old) (pl_task_cards plan)"
proof -
  obtain merged where merged: "list_all2 (\<lambda>c d. merge_card (tk_task_id task) now old cards c = Inr d)
      (pl_task_cards old) merged"
    and plan: "pl_stages plan = pl_stages old" "pl_instances plan = pl_instances old"
      "pl_task_cards plan = merged"
    using assms unfolding build_merge_def Let_def bindE_Inr_iff mapE_Inr_iff by auto
  show ?thesis
    unfolding plan
    by (intro conjI refl list_all2_mono [OF merged])
      (auto simp: merge_card_def bindE_Inr_iff subscript_Inr_iff guardE_Inr_iff
        dest!: dict_by_Some split: if_splits)
qed

section \<open>What a task status says\<close>

text \<open>
  C32. A task is only reported \<open>SUCCEEDED\<close> when everything that was required from the start has been
  delivered: no instance is still to run, and every stage that was originally required has succeeded
  and is still required, and likewise no originally required instance has been dropped, is waiting or has
  failed. (With \<open>PARTIAL\<close> instead, some authorised downgrade is on record.)
\<close>

theorem task_success_is_complete:
  assumes "sound_plan plan" and "plan_status plan \<notin> set task_terminal"
    and "aggregate_plan plan = T_SUCCEEDED"
  shows "(\<forall>s \<in> set (pl_stages plan). lc_original_required (sg_lifecycle s) \<longrightarrow>
        sg_required s \<and> sg_status s = S_SUCCEEDED) \<and>
    (\<forall>i \<in> set (pl_instances plan). in_status i \<notin> set active \<and>
        (lc_original_required (in_lifecycle i) \<longrightarrow>
           in_required i \<and> in_status i \<noteq> I_WAITING_APPROVAL \<and> in_status i \<notin> set failed))"
proof -
  have kept: "requirement_kept (sg_lifecycle s) (sg_required s)" if "s \<in> set (pl_stages plan)" for s
    using assms(1) that by (simp add: sound_plan_def list_all_iff sound_stage_def)
  have kept': "requirement_kept (in_lifecycle i) (in_required i)" if "i \<in> set (pl_instances plan)" for i
    using assms(1) that by (simp add: sound_plan_def list_all_iff sound_instance_def)
  from assms(2,3) have agg:
    "\<not> list_ex (\<lambda>i. in_required i \<and> in_status i = I_WAITING_APPROVAL) (pl_instances plan)"
    "\<not> list_ex (\<lambda>i. in_status i \<in> set active) (pl_instances plan)"
    "\<not> list_ex (\<lambda>i. in_required i \<and> in_status i \<in> set failed) (pl_instances plan)"
    "list_all (\<lambda>s. sg_status s = S_SUCCEEDED) (filter sg_required (pl_stages plan))"
    "\<not> list_ex (\<lambda>s. is_activated_downgrade (sg_lifecycle s) (sg_required s)) (pl_stages plan)"
    "\<not> list_ex (\<lambda>i. is_activated_downgrade (in_lifecycle i) (in_required i)) (pl_instances plan)"
    unfolding aggregate_plan_def aggregate_task_def plan_status_def Let_def
    by (auto split: if_splits)
  have "sg_required s" if "s \<in> set (pl_stages plan)" "lc_original_required (sg_lifecycle s)" for s
    using agg(5) kept [OF that(1)] that
    by (auto simp: list_ex_iff is_activated_downgrade_def requirement_kept_def split: if_splits)
  moreover have "in_required i"
    if "i \<in> set (pl_instances plan)" "lc_original_required (in_lifecycle i)" for i
    using agg(6) kept' [OF that(1)] that
    by (auto simp: list_ex_iff is_activated_downgrade_def requirement_kept_def split: if_splits)
  ultimately show ?thesis
    using agg(1-4) by (auto simp: list_ex_iff list_all_iff)
qed

section \<open>Dependencies\<close>

lemma all_succeeded_Inr:
  assumes "\<And>d. d \<in> set ds \<Longrightarrow> \<exists>s. D d = Some s"
  shows "all_succeeded D ds = Inr (\<forall>d \<in> set ds. \<forall>s. D d = Some s \<longrightarrow> sg_status s = S_SUCCEEDED)"
  using assms by (induction ds) (auto, fastforce)

text \<open>
  The start gate of a stage: in a well-formed plan it is evaluated without error, and it is open
  exactly when every stage it depends on has succeeded, or, for a Ppt stage with dependencies, when
  there is an Image instance in the plan and a human has marked every Image instance as finished.
\<close>

theorem stage_gate_iff:
  assumes "well_formed_plan plan" and "s \<in> set (pl_stages plan)"
  shows "\<exists>open. stage_dependencies_authorized s (pl_stages plan) (pl_instances plan) = Inr open \<and>
    (open \<longleftrightarrow>
      (\<forall>d \<in> set (pl_stages plan). sg_stage_id d \<in> set (sg_depends_on s) \<longrightarrow> sg_status d = S_SUCCEEDED) \<or>
      sg_type s = Ppt \<and> sg_depends_on s \<noteq> [] \<and>
      (\<exists>i \<in> set (pl_instances plan). in_agent_type i = Image) \<and>
      (\<forall>i \<in> set (pl_instances plan). in_agent_type i = Image \<longrightarrow> in_manual_finished i = Some True))"
proof -
  have dist: "distinct (map sg_stage_id (pl_stages plan))"
    "distinct (map in_instance_id (pl_instances plan))"
    using assms(1) by (auto simp: well_formed_plan_def)
  obtain n where n: "n < length (pl_stages plan)" "s = pl_stages plan ! n"
    using assms(2) by (auto simp: in_set_conv_nth)
  have dep: "\<exists>x \<in> set (pl_stages plan). sg_stage_id x = d" if "d \<in> set (sg_depends_on s)" for d
    using assms(1) n that unfolding well_formed_plan_def stage_ok_def Let_def
    by (metis nth_mem order.strict_trans)
  have look: "stages_by_id (pl_stages plan) d = Some x \<longleftrightarrow> x \<in> set (pl_stages plan) \<and> sg_stage_id x = d"
    for d x by (rule dict_by_iff_distinct [OF dist(1)])
  have vals: "set (dict_values in_instance_id (pl_instances plan)) = set (pl_instances plan)"
    using dict_by_distinct [OF dist(2)] by (auto simp: dict_values_def)
  have "all_succeeded (stages_by_id (pl_stages plan)) (sg_depends_on s) =
      Inr (\<forall>d \<in> set (pl_stages plan). sg_stage_id d \<in> set (sg_depends_on s) \<longrightarrow> sg_status d = S_SUCCEEDED)"
    using dep look by (subst all_succeeded_Inr) auto
  then show ?thesis
    using vals
    by (auto simp: stage_dependencies_authorized_def Let_def list_all_iff filter_empty_conv)
qed

end
