(* ===== verification/Sample_Run.thy ===== *)
theory Sample_Run imports Command_Invariants Sample_Environment begin

text \<open>
  One concrete run of the command handlers in the sample environment, on which the witnesses
  evaluate: a task with an Image stage and a Ppt stage that depends on it, created, planned,
  started, and driven through its first transitions.
\<close>

definition sample_command :: "string \<Rightarrow> int \<Rightarrow> command_envelope" where
  "sample_command key n =
     \<lparr>ce_idempotency_key = key, ce_actor_type = Human, ce_actor_id = ''h'', ce_expected_revision = n\<rparr>"

definition sample_create :: create_request where
  "sample_create =
     \<lparr>cr_task_id = ''t'', cr_title = ''T'', cr_goal = ''G'', cr_master_owner = ''m'',
      cr_start_policy = Manual, cr_input_manifest = ''{}''\<rparr>"

definition sample_stage :: "string \<Rightarrow> agent_type \<Rightarrow> int \<Rightarrow> string list \<Rightarrow> string \<Rightarrow> stage" where
  "sample_stage s a n deps i =
     \<lparr>sg_stage_id = s, sg_task_id = ''t'', sg_type = a, sg_position = n, sg_depends_on = deps,
      sg_required = True, sg_lifecycle = fresh_lifecycle True, sg_status = S_PENDING,
      sg_instance_ids = [i]\<rparr>"

definition sample_instance :: "string \<Rightarrow> string \<Rightarrow> agent_type \<Rightarrow> agent_instance" where
  "sample_instance i s a =
     \<lparr>in_instance_id = i, in_task_id = ''t'', in_stage_id = s, in_agent_type = a,
      in_required = True, in_lifecycle = fresh_lifecycle True, in_status = I_CREATED,
      in_approval_mode = ''human'', in_manual_finished = None, in_manual_business_status = None,
      in_config_revision = 1, in_credential_pair_ref = None, in_credential_pair_revision = None,
      in_workspace_relpath = ''w'', in_task_card_relpath = ''c'', in_ui_url = None,
      in_process = None, in_restart_required = None, in_delivery_rejection = None,
      in_start_failure = None, in_created_at = ''''\<rparr>"

definition sample_card :: "string \<Rightarrow> string \<Rightarrow> string \<Rightarrow> agent_type \<Rightarrow> int \<Rightarrow> task_card" where
  "sample_card c s i a n =
     \<lparr>cd_schema_version = None, cd_card_id = c, cd_revision = n, cd_task_id = ''t'',
      cd_stage_id = s, cd_instance_id = i, cd_agent_type = a, cd_objective = ''o'',
      cd_instructions = [], cd_input_assets = [], cd_expected_deliveries = [], cd_parameters = ''{}'',
      cd_retry_group_id = None,
      cd_created_at = None\<rparr>"

definition sample_save :: save_request where
  "sample_save =
     \<lparr>sv_task_id = ''t'', sv_mode = Replace,
      sv_stages = [sample_stage ''a'' Image 1 [] ''x'', sample_stage ''b'' Ppt 2 [''a''] ''y''],
      sv_instances = [sample_instance ''x'' ''a'' Image, sample_instance ''y'' ''b'' Ppt],
      sv_task_cards = [sample_card ''c'' ''a'' ''x'' Image 1, sample_card ''d'' ''b'' ''y'' Ppt 1],
      sv_expected_plan_revision = None\<rparr>"

definition store_created :: store where
  "store_created = snd (create_task sample_env sample_create (sample_command ''k0'' 0) empty_store)"

definition store_saved :: store where
  "store_saved = snd (save_plan sample_env sample_save (sample_command ''k1'' 1) store_created)"

definition store_started :: store where
  "store_started = snd (confirm_start sample_env ''t'' (sample_command ''k2'' 2) store_saved)"

definition store_starting :: store where
  "store_starting = snd (transition_instance sample_env ''t'' ''x'' I_STARTING
     (sample_command ''k3'' 3) store_started)"

definition store_running :: store where
  "store_running = snd (transition_instance sample_env ''t'' ''x'' I_RUNNING
     (sample_command ''k4'' 4) store_starting)"

text \<open>A run that can be evaluated to a result with a property has such a result.\<close>

definition returns :: "('a \<Rightarrow> bool) \<Rightarrow> 'e + 'a \<Rightarrow> bool" where
  "returns P r = (case r of Inl _ \<Rightarrow> False | Inr x \<Rightarrow> P x)"

lemma returnsE:
  assumes "returns P r"
  obtains x where "r = Inr x" "P x"
  using assms by (cases r) (auto simp: returns_def)

end
