(* ===== verification/Plan_Witnesses.thy ===== *)
theory Plan_Witnesses imports Plan_Properties Sample_Run begin

text \<open>
  The properties of the plan edits at one concrete plan: a task with one Image stage and its
  instance, ready or stopped, with the stage and instance of a later batch to append.
\<close>

definition small_task :: "task_status \<Rightarrow> main_task" where
  "small_task status =
     \<lparr>tk_task_id = ''t'', tk_title = ''T'', tk_goal = ''G'', tk_master_owner = ''m'',
      tk_start_policy = Manual, tk_input_manifest = ''{}'', tk_status = status,
      tk_created_at = ''c'', tk_updated_at = ''c'', tk_plan_revision = 1\<rparr>"

definition small_plan :: "task_status \<Rightarrow> stage_status \<Rightarrow> instance_status \<Rightarrow> task_plan" where
  "small_plan task_at stage_at instance_at =
     \<lparr>pl_task = small_task task_at,
      pl_stages = [(sample_stage ''a'' Image 1 [] ''x'')\<lparr>sg_status := stage_at\<rparr>],
      pl_instances = [(sample_instance ''x'' ''a'' Image)\<lparr>in_status := instance_at\<rparr>],
      pl_task_cards = [sample_card ''c'' ''a'' ''x'' Image 1]\<rparr>"

lemma small_plan_well_formed: "well_formed_plan (small_plan T_RUNNING S_RUNNING I_STOPPED)"
  by code_simp

text \<open>At a running plan with a ready instance.\<close>

lemma cancel_plan_settles_witness:
  "plan_status (cancel_plan (small_plan T_RUNNING S_READY I_READY)) = T_CANCELLED \<and>
   list_all2 (\<lambda>i j. in_instance_id j = in_instance_id i \<and>
       (in_status j = I_CANCELLED \<or>
        j = i \<and> in_status i \<in> {I_SUCCEEDED, I_SUPERSEDED, I_ARCHIVED}))
     (pl_instances (small_plan T_RUNNING S_READY I_READY))
     (pl_instances (cancel_plan (small_plan T_RUNNING S_READY I_READY)))"
  by (rule cancel_plan_settles) code_simp

lemma restore_run:
  "returns (\<lambda>plan. map in_status (pl_instances plan) = [I_RUNNING])
     (restore_plan ''n'' False [(''x'', I_RUNNING)] T_RUNNING (small_plan T_RUNNING S_RUNNING I_STOPPED))"
  by code_simp

lemma restore_plan_moves_stopped_witness:
  "\<exists>plan' :: task_plan. list_all2 (restored_by [(''x'', I_RUNNING)])
       (pl_instances (small_plan T_RUNNING S_RUNNING I_STOPPED)) (pl_instances plan') \<and>
     map in_status (pl_instances plan') = [I_RUNNING]"
proof -
  from restore_run obtain plan' where run: "restore_plan ''n'' False [(''x'', I_RUNNING)] T_RUNNING
      (small_plan T_RUNNING S_RUNNING I_STOPPED) = Inr plan'" "map in_status (pl_instances plan') = [I_RUNNING]"
    by (rule returnsE)
  from restore_plan_moves_stopped [OF run(1) small_plan_well_formed] run(2) show ?thesis
    by (intro exI [of _ plan'] conjI)
qed

text \<open>At a batch of one Image stage behind a finished one.\<close>

lemma append_run:
  "returns (\<lambda>plan. length (pl_stages plan) = 2)
     (build_append sample_contracts ''n'' (small_task T_RUNNING)
       (small_plan T_RUNNING S_SUCCEEDED I_SUCCEEDED) 2 [sample_stage ''b'' Image 1 [] ''y'']
       [sample_instance ''y'' ''b'' Image] [sample_card ''d'' ''b'' ''y'' Image 1])"
  by code_simp

lemma append_keeps_landed_witness:
  "\<exists>plan :: task_plan. take 1 (pl_instances plan) =
       [(sample_instance ''x'' ''a'' Image)\<lparr>in_status := I_SUCCEEDED\<rparr>] \<and> well_formed_plan plan \<and>
     length (pl_stages plan) = 2"
proof -
  from append_run obtain plan where run: "build_append sample_contracts ''n'' (small_task T_RUNNING)
      (small_plan T_RUNNING S_SUCCEEDED I_SUCCEEDED) 2 [sample_stage ''b'' Image 1 [] ''y'']
      [sample_instance ''y'' ''b'' Image] [sample_card ''d'' ''b'' ''y'' Image 1] = Inr plan"
    "length (pl_stages plan) = 2" by (rule returnsE)
  from append_keeps_landed [OF run(1)] run(2) show ?thesis
    by (intro exI [of _ plan]) (simp add: small_plan_def)
qed

text \<open>At a renewed card of an instance that is ready.\<close>

lemma merge_run:
  "returns (\<lambda>plan. map cd_revision (pl_task_cards plan) = [2])
     (build_merge sample_contracts ''n'' (small_task T_RUNNING) (small_plan T_RUNNING S_READY I_READY)
       2 [sample_card ''c'' ''a'' ''x'' Image 2])"
  by code_simp

lemma merge_keeps_started_witness:
  "\<exists>plan :: task_plan. pl_instances plan = pl_instances (small_plan T_RUNNING S_READY I_READY) \<and>
     map cd_revision (pl_task_cards plan) = [2]"
proof -
  from merge_run obtain plan where run: "build_merge sample_contracts ''n'' (small_task T_RUNNING)
      (small_plan T_RUNNING S_READY I_READY) 2 [sample_card ''c'' ''a'' ''x'' Image 2] = Inr plan"
    "map cd_revision (pl_task_cards plan) = [2]" by (rule returnsE)
  from merge_keeps_started [OF run(1)] run(2) show ?thesis by (intro exI [of _ plan] conjI) simp_all
qed

text \<open>At a task all of whose work is done.\<close>

lemma task_success_is_complete_witness:
  "sg_required (hd (pl_stages (small_plan T_RUNNING S_SUCCEEDED I_SUCCEEDED))) \<and>
   sg_status (hd (pl_stages (small_plan T_RUNNING S_SUCCEEDED I_SUCCEEDED))) = S_SUCCEEDED"
proof -
  have "sound_plan (small_plan T_RUNNING S_SUCCEEDED I_SUCCEEDED)"
    "plan_status (small_plan T_RUNNING S_SUCCEEDED I_SUCCEEDED) \<notin> set task_terminal"
    "aggregate_plan (small_plan T_RUNNING S_SUCCEEDED I_SUCCEEDED) = T_SUCCEEDED"
    by code_simp+
  from task_success_is_complete [OF this] show ?thesis
    by (simp add: small_plan_def sample_stage_def fresh_lifecycle_def)
qed

text \<open>At a Ppt stage behind an Image stage whose instance was marked finished by hand.\<close>

definition gated_plan :: task_plan where
  "gated_plan =
     \<lparr>pl_task = small_task T_RUNNING,
      pl_stages = [(sample_stage ''a'' Image 1 [] ''x'')\<lparr>sg_status := S_RUNNING\<rparr>,
        sample_stage ''b'' Ppt 2 [''a''] ''y''],
      pl_instances = [(sample_instance ''x'' ''a'' Image)
          \<lparr>in_status := I_RUNNING, in_manual_finished := Some True\<rparr>,
        (sample_instance ''y'' ''b'' Ppt)\<lparr>in_status := I_READY\<rparr>],
      pl_task_cards = [sample_card ''c'' ''a'' ''x'' Image 1, sample_card ''d'' ''b'' ''y'' Ppt 1]\<rparr>"

lemma stage_gate_iff_witness:
  "stage_dependencies_authorized (sample_stage ''b'' Ppt 2 [''a''] ''y'') (pl_stages gated_plan)
     (pl_instances gated_plan) = Inr True"
proof -
  have "well_formed_plan gated_plan" by code_simp
  moreover have "sample_stage ''b'' Ppt 2 [''a''] ''y'' \<in> set (pl_stages gated_plan)"
    by (simp add: gated_plan_def)
  ultimately show ?thesis
    using stage_gate_iff by (fastforce simp: gated_plan_def sample_stage_def sample_instance_def)
qed

end
