(* ===== verification/System_Witnesses.thy ===== *)
theory System_Witnesses imports System Plan_Witnesses begin

text \<open>
  The properties of whole runs at concrete runs of the sample environment: a task is created,
  renamed, and its commands are sent again.
\<close>

definition store_renamed :: store where
  "store_renamed = snd (rename_task sample_env ''t'' ''U'' (sample_command ''k1'' 1) store_created)"

lemma created_run: "system_run sample_env empty_store store_created"
  unfolding store_created_def
  by (intro r_into_rtranclp system_step.command step.create) (rule surjective_pairing)

lemma renamed_run: "system_run sample_env store_created store_renamed"
  unfolding store_renamed_def
  by (intro r_into_rtranclp system_step.command step.rename) (rule surjective_pairing)

lemma created: "returns (\<lambda>_. True) (fst (create_task sample_env sample_create (sample_command ''k0'' 0) empty_store))"
  by code_simp

lemma create_runs:
  obtains v where "idempotent sample_env ''t'' ''create_task'' (create_command sample_create)
    (sample_command ''k0'' 0) (do_create_task sample_env sample_create (sample_command ''k0'' 0)) empty_store =
      (Inr v, store_created)"
proof -
  from created obtain v where v: "fst (create_task sample_env sample_create (sample_command ''k0'' 0) empty_store) = Inr v"
    by (rule returnsE)
  then have "create_task sample_env sample_create (sample_command ''k0'' 0) empty_store = (Inr v, store_created)"
    by (simp add: store_created_def prod_eq_iff)
  then show ?thesis using that by (simp add: create_task_def sample_create_def)
qed

text \<open>At a rename after the creation.\<close>

lemma journals_append_only_witness:
  "\<exists>es. journal store_renamed ''t'' = journal store_created ''t'' @ es"
  by (rule journals_append_only [OF renamed_run])

text \<open>At a creation that is sent again after the rename, under a new expected revision.\<close>

lemma command_runs_once_witness:
  "\<exists>v. idempotent sample_env ''t'' ''create_task'' (create_command sample_create)
     (sample_command ''k0'' 7) (do_create_task sample_env sample_create (sample_command ''k0'' 7))
     store_renamed = (Inr v, store_renamed)"
proof -
  obtain v where "idempotent sample_env ''t'' ''create_task'' (create_command sample_create)
    (sample_command ''k0'' 0) (do_create_task sample_env sample_create (sample_command ''k0'' 0))
    empty_store = (Inr v, store_created)" by (rule create_runs)
  from command_runs_once [OF this renamed_run, of "sample_command ''k0'' 7"] show ?thesis
    by (auto simp: sample_command_def)
qed

text \<open>At a rename that reuses the key of the creation.\<close>

lemma reused_key_conflicts_witness:
  "idempotent sample_env ''t'' ''rename_task'' (R_rename_task ''t'' ''U'') (sample_command ''k0'' 1)
     (do_rename_task sample_env ''t'' ''U'' (sample_command ''k0'' 1)) store_renamed =
   (Inl (idempotency_conflict ''t'' ''rename_task''), store_renamed)"
proof -
  obtain v where "idempotent sample_env ''t'' ''create_task'' (create_command sample_create)
    (sample_command ''k0'' 0) (do_create_task sample_env sample_create (sample_command ''k0'' 0))
    empty_store = (Inr v, store_created)" by (rule create_runs)
  from reused_key_conflicts [OF this renamed_run] show ?thesis
    by (simp add: sample_command_def)
qed

text \<open>At a rename that was cut off right after its commit had been journalled, and is sent again.\<close>

definition cut_off :: "wrapper sop" where
  "cut_off = repo_put sample_env (repository_of sample_env O_task) ''t'' ''t''
     (P_task (small_task T_DRAFT)) 1 \<lparr>ac_type = Human, ac_id = ''h''\<rparr> ''rename_task''
     (ce_idempotency_key (sample_command ''k1'' 1)) (Some (V_task (small_task T_DRAFT) 2))
     (Some (ev_request_digest sample_env ''rename_task'' (R_rename_task ''t'' ''T'')))
     (crash_at ''after_event_append'')"

lemma interrupted_command_completes_witness:
  "\<exists>s''. idempotent sample_env ''t'' ''rename_task'' (R_rename_task ''t'' ''T'')
     (sample_command ''k1'' 1) (do_rename_task sample_env ''t'' ''T'' (sample_command ''k1'' 1))
     (snd (cut_off store_created)) = (Inr (V_task (small_task T_DRAFT) 2), s'') \<and>
     journal s'' = journal (snd (cut_off store_created))"
proof -
  have fresh: "idempotency_lookup sample_env store_created ''t'' (ce_idempotency_key (sample_command ''k1'' 1))
      ''rename_task'' (R_rename_task ''t'' ''T'') = Inr None"
    "committed_answer sample_env store_created ''t'' ''rename_task'' (R_rename_task ''t'' ''T'')
      (sample_command ''k1'' 1) = Inr None"
    by code_simp+
  have grew: "journal (snd (cut_off store_created)) ''t'' \<noteq> journal store_created ''t''"
  proof -
    have "length (journal (snd (cut_off store_created)) ''t'') = 2"
      "length (journal store_created ''t'') = 1" by code_simp+
    then show ?thesis by auto
  qed
  have id: "is_identifier ''t''" by code_simp
  have run: "cut_off store_created = (fst (cut_off store_created), snd (cut_off store_created))" by simp
  from interrupted_command_completes [OF id fresh
      run [unfolded cut_off_def] grew [unfolded cut_off_def]]
  show ?thesis unfolding cut_off_def by blast
qed

end
