(* ===== verification/Service_Run.thy ===== *)
theory Service_Run imports Budget_Properties Approval_Properties System_Witnesses begin

text \<open>
  One run of the services in the sample environment: the sample task is planned, a model call of its
  instance is registered, an approval is asked for and given, a retry budget is configured, a retry
  of the model call is reserved and settled. Each stage has a predicate that says what is to be seen
  in its store; \<open>story\<close> evaluates the whole run once.
\<close>

definition small_save :: save_request where
  "small_save =
     \<lparr>sv_task_id = ''t'', sv_mode = Replace,
      sv_stages = [sample_stage ''a'' Image 1 [] ''x''],
      sv_instances = [sample_instance ''x'' ''a'' Image],
      sv_task_cards = [sample_card ''c'' ''a'' ''x'' Image 1],
      sv_expected_plan_revision = None\<rparr>"

definition sample_human :: actor where
  "sample_human = \<lparr>ac_type = Human, ac_id = ''h''\<rparr>"

definition sample_system :: actor where
  "sample_system = \<lparr>ac_type = System, ac_id = ''s''\<rparr>"

definition small_policy :: retry_policy where
  "small_policy =
     \<lparr>rp_max_auto_retries = 1, rp_max_tokens = 9, rp_reservations = [(''image'', 5)],
      rp_max_cost = None, rp_price_catalog = None\<rparr>"

definition small_retry :: retry_request where
  "small_retry =
     \<lparr>rr_task_id = ''t'', rr_instance_id = ''x'', rr_attempt_id = ''r1'', rr_retry_of = ''r0'',
      rr_reservation_tokens = None, rr_estimated_cost = None, rr_price_catalog = None\<rparr>"

section \<open>The steps\<close>

definition plan_it :: "store \<Rightarrow> store" where
  "plan_it s = snd (save_plan sample_env small_save (sample_command ''k1'' 1) s)"

definition call_it :: "store \<Rightarrow> store" where
  "call_it s = snd (begin_model_call sample_env ''t'' ''x'' ''r0'' ''q''
     (Some \<lparr>la_launch_id = ''l'', la_state = ''RUNNING''\<rparr>) s)"

definition ask_it :: "store \<Rightarrow> store" where
  "ask_it s = snd (ensure_workflow_approval sample_env ''t'' ''x'' ''s'' [''approve''] ''op'' s)"

definition decide_it :: "command_result sop" where
  "decide_it = commit_resolution sample_env ''ap_txsop'' ''APPROVED'' (sample_command ''k2'' 1)"

definition configure_it :: "store \<Rightarrow> store" where
  "configure_it s = snd (configure sample_env ''t'' small_policy 0 ''k3'' sample_human s)"

definition retry_it :: "command_result sop" where
  "retry_it = request_retry sample_env small_retry ''k4'' sample_system"

definition settle_it :: "int \<Rightarrow> string \<Rightarrow> command_result sop" where
  "settle_it used k = settle sample_env ''t'' ''r1'' used (Some 0) k sample_system"

section \<open>What is to be seen\<close>

definition unused :: "store \<Rightarrow> string \<Rightarrow> string \<Rightarrow> string \<Rightarrow> bool" where
  "unused s k command sha \<longleftrightarrow> lookup_committed_command_result s ''t'' k command sha = Inr None"

definition attempt_seen :: "attempt_status \<Rightarrow> store \<Rightarrow> bool" where
  "attempt_seen at s =
     returns (\<lambda>p. case p of
         Some (P_retry_budget b) \<Rightarrow> returns (\<lambda>a. at_status a = at) (find_attempt b ''r1'')
       | _ \<Rightarrow> False) (repo_get (budget_repo sample_env) s ''t'' ''t'')"

definition settled_story :: "store \<Rightarrow> bool" where
  "settled_story s \<longleftrightarrow> unused s ''k6'' ''settle_retry'' (settle_digest sample_env ''t'' ''r1'' 4 (Some 0))"

definition retried_story :: "store \<Rightarrow> bool" where
  "retried_story s \<longleftrightarrow> attempt_seen RESERVED s \<and>
     unused s ''k5'' ''settle_retry'' (settle_digest sample_env ''t'' ''r1'' 4 (Some 0)) \<and>
     returns (\<lambda>v. case v of V_settlement a l m \<Rightarrow> may_settle sample_system a | _ \<Rightarrow> False)
       (fst (settle_it 4 ''k5'' s)) \<and>
     settled_story (snd (settle_it 4 ''k5'' s))"

definition configured_story :: "store \<Rightarrow> bool" where
  "configured_story s \<longleftrightarrow>
     unused s ''k4'' ''reserve_retry'' (retry_digest sample_env small_retry) \<and>
     returns (\<lambda>_. True) (fst (retry_it s)) \<and> retried_story (snd (retry_it s))"

definition asked_story :: "store \<Rightarrow> bool" where
  "asked_story s \<longleftrightarrow>
     returns (\<lambda>(a, n, p). ap_task_id a = ''t'' \<and> ap_status a = ''PENDING'')
       (fst (get_approval sample_env ''ap_txsop'' s)) \<and>
     unused s ''k2'' ''resolve_approval''
       (ev_request_digest sample_env ''resolve_approval'' (R_resolve_approval ''ap_txsop'' ''APPROVED'')) \<and>
     returns (\<lambda>_. True) (fst (decide_it s)) \<and> configured_story (configure_it (snd (decide_it s)))"

definition planned_story :: "store \<Rightarrow> bool" where
  "planned_story s \<longleftrightarrow>
     returns (\<lambda>p. case p of Some (P_plan plan) \<Rightarrow> True | _ \<Rightarrow> False)
       (repo_get (repository_of sample_env O_plan) s ''t'' ''t'') \<and>
     asked_story (ask_it (call_it s))"

lemma story: "planned_story (plan_it store_created)"
  by code_simp

end
