(* ===== verification/Aggregate_Commit.thy ===== *)
theory Aggregate_Commit imports System Projections begin

text \<open>
  The commit of a task aggregate (\<open>persist_aggregate\<close>): on a sound store with the expected task
  revision it returns, and every reader of the task, its stages and its instances sees the plan
  that was committed.
\<close>

lemma put_projection_writes:
  assumes t: "is_identifier t" and x: "writable env x"
  shows "writes_object t x (put_projection env e c t skip x)"
proof -
  obtain kind i p where xx: "x = (kind, i, p)" by (cases x)
  have i: "is_identifier i" and ok: "snapshot_validator env kind p = Inr ()"
    and fits: "payload_fits kind i p" using x xx by (auto simp: writable_def)
  let ?R = "repository_of env kind"
  have "\<exists>s'. put_projection env e c t skip x s = (Inr (), s') \<and> sound s' \<and> holds s' t kind i p \<and>
      (\<forall>q. q \<noteq> (t, relative_path kind i) \<longrightarrow> file_at s' q = file_at s q)" if s: "sound s" for s
  proof -
    let ?c = "readable (file_at s (t, relative_path kind i))"
    have cur: "read_wrapper ?R s t i = Inr ?c" using sound_read [OF s t i] .
    let ?n = "case ?c of None \<Rightarrow> 0 | Some w \<Rightarrow> wr_revision w"
    have rev: "repo_revision ?R s t i = Inr ?n" using cur by (simp add: repo_revision_def)
    have get: "repo_get ?R s t i = Inr (map_option wr_payload ?c)"
      using cur by (simp add: repo_get_def)
    show ?thesis
    proof (cases "skip \<and> map_option wr_payload ?c = Some p")
      case True
      then obtain w where w: "?c = Some w" "wr_payload w = p" by blast
      then have "file_at s (t, relative_path kind i) = Some (Snapshot w)"
        by (auto simp: readable_def split: option.splits content.splits)
      then have "holds s t kind i p" using sound_at [OF s] w(2) unfolding holds_def by blast
      moreover have "put_projection env e c t skip x s = (Inr (), s)"
        using True get by (simp add: put_projection_def Let_def xx run returnS_def)
      ultimately show ?thesis using s by blast
    next
      case False
      obtain w f s' where put: "repo_put env ?R t i p ?n (actor_of e) c (ce_idempotency_key e) None
          None no_hook s = (Inr w, s')"
        and eff: "put_effect (t, relative_path kind i) w f s s'" "sound s'" "wr_object_type w = kind"
          "wr_payload w = p"
        using repo_put_total [OF s t i ok fits _ rev, of None None] by blast
      have "put_projection env e c t skip x s = (Inr (), s')"
        using False get rev put
        by (cases skip; cases ?c) (simp_all add: put_projection_def Let_def xx run bindS_run returnS_def)
      then show ?thesis using eff by (auto simp: put_effect_def holds_def)
    qed
  qed
  then show ?thesis unfolding xx writes_object_def prod.case by blast
qed

lemma put_projections_total:
  assumes s: "sound s" and plan: "projectable env t plan"
    and L: "set L \<subseteq> set (plan_projections t plan)"
  shows "\<exists>s'. forS (put_projection env e c t skip) L s = (Inr (), s') \<and> sound s' \<and>
     (\<forall>(kind, i, p) \<in> set L. holds s' t kind i p) \<and>
     (\<forall>q. q \<notin> (\<lambda>(kind, i, p). (t, relative_path kind i)) ` set L \<longrightarrow> file_at s' q = file_at s q)"
proof (rule write_all_total [OF s])
  show "writes_object t x (put_projection env e c t skip x)" if "x \<in> set L" for x
  proof (rule put_projection_writes)
    show "is_identifier t" using plan by (simp add: projectable_def)
    have "x \<in> set (plan_projections t plan)" using that L by blast
    then show "writable env x" using plan unfolding projectable_def list_all_iff by blast
  qed
  show "inj_on (\<lambda>(kind, i, p). relative_path kind i) (set L)"
    using projections_inj [OF plan] L inj_on_subset by blast
qed

lemma retire_total:
  assumes s: "sound s" and t: "is_identifier t"
  shows "\<exists>s'. retire_plan_projections env t plan s = (Inr (), s') \<and> sound s' \<and>
     (\<forall>i. i \<notin> sg_stage_id ` set (pl_stages plan) \<longrightarrow> is_identifier i \<longrightarrow>
        file_at s' (t, relative_path O_stage i) = None) \<and>
     (\<forall>i. i \<notin> in_instance_id ` set (pl_instances plan) \<longrightarrow> is_identifier i \<longrightarrow>
        file_at s' (t, relative_path O_instance i) = None) \<and>
     (\<forall>k i. k \<noteq> O_stage \<longrightarrow> k \<noteq> O_instance \<longrightarrow>
        file_at s' (t, relative_path k i) = file_at s (t, relative_path k i))"
proof -
  obtain u where u: "retire_projection_set env O_stage t (map sg_stage_id (pl_stages plan))
      payload_stage_id s = (Inr (), u)" "sound u"
    "\<forall>i. i \<notin> set (map sg_stage_id (pl_stages plan)) \<longrightarrow> is_identifier i \<longrightarrow>
       file_at u (t, relative_path O_stage i) = None"
    "\<forall>q. (\<forall>i. i \<notin> set (map sg_stage_id (pl_stages plan)) \<longrightarrow> q \<noteq> (t, relative_path O_stage i)) \<longrightarrow>
       file_at u q = file_at s q"
    using retire_set_total [OF s t multiple(1) fits_id(1)] by blast
  obtain v where v: "retire_projection_set env O_instance t (map in_instance_id (pl_instances plan))
      payload_instance_id u = (Inr (), v)" "sound v"
    "\<forall>i. i \<notin> set (map in_instance_id (pl_instances plan)) \<longrightarrow> is_identifier i \<longrightarrow>
       file_at v (t, relative_path O_instance i) = None"
    "\<forall>q. (\<forall>i. i \<notin> set (map in_instance_id (pl_instances plan)) \<longrightarrow> q \<noteq> (t, relative_path O_instance i)) \<longrightarrow>
       file_at v q = file_at u q"
    using retire_set_total [OF u(2) t multiple(2) fits_id(2)] by blast
  have keep: "file_at v (t, relative_path k i) = file_at u (t, relative_path k i)"
    if "k \<noteq> O_instance" for k i
    by (rule mp [OF spec [OF v(4)]], rule apart [OF multiple(2)]) (use that in simp)
  have keep': "file_at u (t, relative_path k i) = file_at s (t, relative_path k i)"
    if "k \<noteq> O_stage" for k i
    by (rule mp [OF spec [OF u(4)]], rule apart [OF multiple(1)]) (use that in simp)
  have rest: "\<forall>k i. k \<noteq> O_stage \<longrightarrow> k \<noteq> O_instance \<longrightarrow>
      file_at v (t, relative_path k i) = file_at s (t, relative_path k i)"
    by (intro allI impI) (rule trans [OF keep keep'])
  have stages: "\<forall>i. i \<notin> sg_stage_id ` set (pl_stages plan) \<longrightarrow> is_identifier i \<longrightarrow>
      file_at v (t, relative_path O_stage i) = None"
  proof (intro allI impI)
    fix i assume "i \<notin> sg_stage_id ` set (pl_stages plan)" "is_identifier i"
    then have "file_at u (t, relative_path O_stage i) = None" using u(3) unfolding set_map by blast
    then show "file_at v (t, relative_path O_stage i) = None" using keep [of O_stage i] by simp
  qed
  have run: "retire_plan_projections env t plan s = (Inr (), v)"
    using u(1) v(1) by (simp add: retire_plan_projections_def bindS_run)
  show ?thesis using run v(2) v(3) [unfolded set_map] stages rest by blast
qed

text \<open>The two projection loops of the commit are one loop over the plan's stages and instances.\<close>

lemma projection_loops:
  assumes s: "sound s" and plan: "projectable env t plan"
    and task: "holds s t O_task t (P_task (pl_task plan))"
  shows "\<exists>u v. forS (put_projection env e c t skip)
        (map (\<lambda>x. (O_stage, sg_stage_id x, P_stage x)) (pl_stages plan)) s = (Inr (), u) \<and>
     forS (put_projection env e c t skip)
        (map (\<lambda>x. (O_instance, in_instance_id x, P_instance x)) (pl_instances plan)) u = (Inr (), v) \<and>
     sound v \<and> (\<forall>(kind, i, p) \<in> set (plan_projections t plan). holds v t kind i p) \<and>
     file_at v (t, relative_path O_plan t) = file_at s (t, relative_path O_plan t) \<and>
     (\<forall>i. i \<notin> sg_stage_id ` set (pl_stages plan) \<longrightarrow>
        file_at v (t, relative_path O_stage i) = file_at s (t, relative_path O_stage i)) \<and>
     (\<forall>i. i \<notin> in_instance_id ` set (pl_instances plan) \<longrightarrow>
        file_at v (t, relative_path O_instance i) = file_at s (t, relative_path O_instance i))"
proof -
  let ?A = "map (\<lambda>x. (O_stage, sg_stage_id x, P_stage x)) (pl_stages plan)"
  let ?B = "map (\<lambda>x. (O_instance, in_instance_id x, P_instance x)) (pl_instances plan)"
  let ?P = "(\<lambda>(kind, i, p). (t, relative_path kind i)) ` set (?A @ ?B)"
  have L: "set (plan_projections t plan) = insert (O_task, t, P_task (pl_task plan)) (set (?A @ ?B))"
    by (simp add: plan_projections_def)
  obtain v where v: "forS (put_projection env e c t skip) (?A @ ?B) s = (Inr (), v)" "sound v"
    "\<forall>(kind, i, p) \<in> set (?A @ ?B). holds v t kind i p"
    "\<forall>q. q \<notin> ?P \<longrightarrow> file_at v q = file_at s q"
    using put_projections_total [OF s plan, of "?A @ ?B" e c skip] L by blast
  then obtain u where loops: "forS (put_projection env e c t skip) ?A s = (Inr (), u)"
    "forS (put_projection env e c t skip) ?B u = (Inr (), v)"
    by (auto simp: forS_append bindS_Inr_iff)
  have other: "(t, relative_path k i) \<notin> ?P"
    if "k = O_stage \<longrightarrow> i \<notin> sg_stage_id ` set (pl_stages plan)"
      "k = O_instance \<longrightarrow> i \<notin> in_instance_id ` set (pl_instances plan)" for k i
    using that by (cases k) (auto simp: json_file_def)
  have "holds v t O_task t (P_task (pl_task plan))"
    using task v(4) other [of O_task t] by (simp add: holds_def)
  then have own: "\<forall>(kind, i, p) \<in> set (plan_projections t plan). holds v t kind i p"
    unfolding L using v(3) by simp
  have same: "file_at v (t, relative_path k i) = file_at s (t, relative_path k i)"
    if "k = O_stage \<longrightarrow> i \<notin> sg_stage_id ` set (pl_stages plan)"
      "k = O_instance \<longrightarrow> i \<notin> in_instance_id ` set (pl_instances plan)" for k i
    using v(4) other [OF that] by blast
  show ?thesis
    by (intro exI [of _ u] exI [of _ v] conjI allI impI loops v(2) own) (rule same; simp)+
qed

lemma put_journals:
  assumes "repo_put env (repository_of env kind) t i p n a c k res sha hook s = (Inr w, s')"
  shows "\<exists>f. journal s' t = journal s t @ [f] \<and> is_commit_of kind i f \<and>
     ee_command_result f = res \<and> ee_idempotency_key f = k"
  using assms benign_repository
  by (cases rule: repo_put_cases) (auto simp: put_effect_def commit_of_def)

lemma projection_loop_extends:
  assumes "forS (put_projection env e c t skip) (map (\<lambda>x. (k, f x, p x)) xs) s = (r, s')"
    and "journal_extends u es s" and "\<And>x. command_write k (p x)"
  shows "journal_extends u es s'"
  by (rule keepsD [where I = "journal_extends u es", OF keeps_forS assms(2,1)])
    (auto intro!: growing.handlers.projection assms(3))

text \<open>
  C10. Committing an aggregate succeeds and is visible to every reader: on a sound store whose task file has
  the expected revision, a valid plan whose objects fit their schemas is committed; the result carries
  the plan and the next two revisions; afterwards the plan file holds the plan, the task, every stage
  and every instance read back as the plan has them, retired ones as absent, and the result is in the
  task's journal under the caller's key, where a retry finds it.
\<close>

theorem persist_aggregate_commits:
  assumes s: "sound s" and plan: "projectable env t plan" and id: "tk_task_id (pl_task plan) = t"
    and valid: "validate_plan (ev_contracts env) plan = Inr ()"
    and task: "read_wrapper (repository_of env O_task) s t t = Inr (Some old)" "wr_revision old = n"
    and rev: "repo_revision (repository_of env O_plan) s t t = Inr m"
  shows "\<exists>s'. let result = V_aggregate (pl_task plan) plan (n + 1) (m + 1) in
     persist_aggregate env plan e c r n skip s = (Inr result, s') \<and> sound s' \<and>
     projected env s' t plan \<and>
     repo_get (repository_of env O_plan) s' t t = Inr (Some (P_plan plan)) \<and>
     map_of (st_summaries s') t = Some (pl_task plan) \<and>
     (\<exists>f \<in> set (journal s' t). ee_command_result f = Some result \<and>
        ee_idempotency_key f = ce_idempotency_key e \<and> is_commit_of O_plan t f)"
proof -
  have t: "is_identifier t" and writable: "\<forall>x \<in> set (plan_projections t plan). writable env x"
    using plan by (auto simp: projectable_def list_all_iff)
  have plan_ok: "snapshot_validator env O_plan (P_plan plan) = Inr ()"
    using valid by (simp add: validate_plan_decides)
  have task_ok: "snapshot_validator env O_task (P_task (pl_task plan)) = Inr ()"
    using writable by (auto simp: plan_projections_def writable_def)
  let ?v = "V_aggregate (pl_task plan) plan (n + 1) (m + 1)"
  obtain w1 f1 s1 where put1: "repo_put env (repository_of env O_plan) t t (P_plan plan) m (actor_of e)
      c (ce_idempotency_key e) (Some ?v) (Some (ev_request_digest env c r)) no_hook s = (Inr w1, s1)"
    and eff1: "put_effect (t, relative_path O_plan t) w1 f1 s s1" "sound s1"
      "wr_object_type w1 = O_plan" "wr_payload w1 = P_plan plan"
    using repo_put_total [OF s t t plan_ok _ _ rev, of "Some ?v" "Some (ev_request_digest env c r)"
        "actor_of e" c "ce_idempotency_key e"] by auto
  obtain s2 where retire: "retire_plan_projections env t plan s1 = (Inr (), s2)" "sound s2"
    "\<forall>i. i \<notin> sg_stage_id ` set (pl_stages plan) \<longrightarrow> is_identifier i \<longrightarrow>
        file_at s2 (t, relative_path O_stage i) = None"
    "\<forall>i. i \<notin> in_instance_id ` set (pl_instances plan) \<longrightarrow> is_identifier i \<longrightarrow>
        file_at s2 (t, relative_path O_instance i) = None"
    "\<forall>k i. k \<noteq> O_stage \<longrightarrow> k \<noteq> O_instance \<longrightarrow>
        file_at s2 (t, relative_path k i) = file_at s1 (t, relative_path k i)"
    using retire_total [OF eff1(2) t] by blast
  have task2: "file_at s2 (t, relative_path O_task t) = file_at s (t, relative_path O_task t)"
    using retire(5) [rule_format, of O_task t] eff1(1) by (simp add: put_effect_def)
  have old: "readable (file_at s (t, relative_path O_task t)) = Some old"
    using task(1) sound_read [OF s t t, of env O_task] by simp
  then have here: "file_at s2 (t, relative_path O_task t) \<noteq> None"
    using task2 by (auto simp: readable_def split: option.splits)
  have rev2: "repo_revision (repository_of env O_task) s2 t t = Inr n"
    using sound_read [OF retire(2) t t, of env O_task] task2 old task(2)
    by (simp add: repo_revision_def)
  obtain w3 f3 s3 where put3: "repo_put env (repository_of env O_task) t t (P_task (pl_task plan)) n
      (actor_of e) c (ce_idempotency_key e) None None no_hook s2 = (Inr w3, s3)"
    and eff3: "put_effect (t, relative_path O_task t) w3 f3 s2 s3" "sound s3"
      "wr_object_type w3 = O_task" "wr_payload w3 = P_task (pl_task plan)" "wr_revision w3 = n + 1"
    using repo_put_total [OF retire(2) t t task_ok _ _ rev2, of None None "actor_of e" c
        "ce_idempotency_key e"] here by auto
  have "holds s3 t O_task t (P_task (pl_task plan))"
    using eff3 by (simp add: holds_def put_effect_def)
  from projection_loops [OF eff3(2) plan this, of e c skip] obtain s4 s5 where loops:
    "forS (put_projection env e c t skip)
       (map (\<lambda>x. (O_stage, sg_stage_id x, P_stage x)) (pl_stages plan)) s3 = (Inr (), s4)"
    "forS (put_projection env e c t skip)
       (map (\<lambda>x. (O_instance, in_instance_id x, P_instance x)) (pl_instances plan)) s4 = (Inr (), s5)"
    "sound s5" "\<forall>(kind, i, p) \<in> set (plan_projections t plan). holds s5 t kind i p"
    "file_at s5 (t, relative_path O_plan t) = file_at s3 (t, relative_path O_plan t)"
    "\<forall>i. i \<notin> sg_stage_id ` set (pl_stages plan) \<longrightarrow>
        file_at s5 (t, relative_path O_stage i) = file_at s3 (t, relative_path O_stage i)"
    "\<forall>i. i \<notin> in_instance_id ` set (pl_instances plan) \<longrightarrow>
        file_at s5 (t, relative_path O_instance i) = file_at s3 (t, relative_path O_instance i)"
    by blast
  let ?s = "s5\<lparr>st_summaries := AList.update t (pl_task plan) (st_summaries s5)\<rparr>"
  have run: "persist_aggregate env plan e c r n skip s = (Inr ?v, ?s)"
    using valid id rev put1 retire(1) put3 loops(1,2) eff3(5)
    by (simp add: persist_aggregate_def plan_repo_def task_repo_def Let_def run bindS_run
        write_task_summary_def modifyS_def returnS_def)
  have stage3: "file_at s3 (t, relative_path k i) = file_at s2 (t, relative_path k i)"
    if "k \<noteq> O_task" for k i
    using eff3(1) that relative_path_kind [of k i O_task t] by (auto simp: put_effect_def)
  have "projected env s5 t plan"
    using loops(6,7) stage3 [of O_stage] stage3 [of O_instance] retire(3,4)
    by (intro projectedI [OF loops(3) plan loops(4)]) simp_all
  moreover have "repo_get (repository_of env O_plan) s5 t t = Inr (Some (P_plan plan))"
    using loops(5) stage3 [of O_plan t] retire(5) [rule_format, of O_plan t] eff1 t
    by (intro holds_get) (simp_all add: holds_def put_effect_def)
  moreover have same: "file_at ?s = file_at s5" "journal ?s = journal s5" by simp_all
  moreover have "journal_extends t (journal s1 t) s5"
  proof -
    have "journal_extends t (journal s1 t) s2"
      by (rule keepsD [OF growing.handlers.retire _ retire(1)]) simp
    then have "journal_extends t (journal s1 t) s3" by (rule keepsD [OF growing.any_put _ put3])
    then have "journal_extends t (journal s1 t) s4"
      by (rule projection_loop_extends [OF loops(1)]) (rule command_write.intros)
    then show ?thesis
      by (rule projection_loop_extends [OF loops(2)]) (rule command_write.intros)
  qed
  moreover obtain f where "journal s1 t = journal s t @ [f]" "is_commit_of O_plan t f"
    "ee_command_result f = Some ?v" "ee_idempotency_key f = ce_idempotency_key e"
    using put_journals [OF put1] by blast
  ultimately show ?thesis
    unfolding Let_def
    by (intro exI [of _ ?s]) (use run loops(3) t in \<open>auto simp: sound_def projected_def
      repo_get_def cong: read_wrapper_cong\<close>)
qed

end
