(* ===== verification/Service_Witnesses.thy ===== *)
theory Service_Witnesses imports Service_Run Aggregate_Commit begin

text \<open>
  The properties of the approval and budget services at the stages of the sample run, and the commit
  of a plan on a store that holds its task.
\<close>

section \<open>The stages of the run\<close>

definition store_planned :: store where
  "store_planned = plan_it store_created"

definition store_asked :: store where
  "store_asked = ask_it (call_it store_planned)"

definition store_decided :: store where
  "store_decided = snd (decide_it store_asked)"

definition store_configured :: store where
  "store_configured = configure_it store_decided"

definition store_retried :: store where
  "store_retried = snd (retry_it store_configured)"

definition store_settled :: store where
  "store_settled = snd (settle_it 4 ''k5'' store_retried)"

lemma seen: "planned_story store_planned" "asked_story store_asked"
  "configured_story store_configured" "retried_story store_retried" "settled_story store_settled"
proof -
  show planned: "planned_story store_planned" using story by (simp add: store_planned_def)
  then show asked: "asked_story store_asked" by (simp add: planned_story_def store_asked_def)
  then show configured: "configured_story store_configured"
    by (simp add: asked_story_def store_configured_def store_decided_def)
  then show retried: "retried_story store_retried"
    by (simp add: configured_story_def store_retried_def)
  then show "settled_story store_settled" by (simp add: retried_story_def store_settled_def)
qed

lemmas stories = planned_story_def asked_story_def configured_story_def retried_story_def
  settled_story_def

lemmas told = seen [unfolded stories]

lemma service_run: "service_step env s s' \<Longrightarrow> system_run env s s'"
  by (rule r_into_rtranclp) (rule system_step.service)

lemma reached: "system_reachable sample_env store_planned" "system_reachable sample_env store_asked"
  "system_reachable sample_env store_configured" "system_reachable sample_env store_retried"
proof -
  have "system_step sample_env store_created store_planned"
    unfolding store_planned_def plan_it_def
    by (intro system_step.command step.save) (rule surjective_pairing)
  with created_run have planned: "system_run sample_env empty_store store_planned"
    by (rule rtranclp.rtrancl_into_rtrancl)
  also have "system_run sample_env store_planned (call_it store_planned)"
    unfolding call_it_def by (intro service_run service_step.begin_call)
  also have "system_run sample_env (call_it store_planned) store_asked"
    unfolding store_asked_def ask_it_def by (intro service_run service_step.workflow)
  finally have asked: "system_run sample_env empty_store store_asked" .
  also have "system_run sample_env store_asked store_decided"
    unfolding store_decided_def decide_it_def by (intro service_run service_step.decide)
  also have "system_run sample_env store_decided store_configured"
    unfolding store_configured_def configure_it_def by (intro service_run service_step.configure)
  finally have configured: "system_run sample_env empty_store store_configured" .
  also have "system_run sample_env store_configured store_retried"
    unfolding store_retried_def retry_it_def by (intro service_run service_step.retry)
  finally have "system_run sample_env empty_store store_retried" .
  with planned asked configured show "system_reachable sample_env store_planned"
    "system_reachable sample_env store_asked" "system_reachable sample_env store_configured"
    "system_reachable sample_env store_retried"
    by (simp_all add: system_reachable_def)
qed

text \<open>The store of the planned task, and the file its plan is in.\<close>

lemma stored_plans_good_witness:
  "\<exists>plan. repo_get (repository_of sample_env O_plan) store_planned ''t'' ''t'' = Inr (Some (P_plan plan)) \<and>
     well_formed_plan plan \<and> sound_plan plan"
proof -
  have "returns (\<lambda>p. case p of Some (P_plan plan) \<Rightarrow> True | _ \<Rightarrow> False)
      (repo_get (repository_of sample_env O_plan) store_planned ''t'' ''t'')"
    using told by blast
  then obtain plan where plan: "repo_get (repository_of sample_env O_plan) store_planned ''t'' ''t'' =
      Inr (Some (P_plan plan))"
    by (rule returnsE) (auto split: option.splits payload.splits)
  then obtain w where "file_at store_planned (''t'', relative_path O_plan ''t'') = Some (Snapshot w)"
    "wr_payload w = P_plan plan"
    by (auto dest!: got_stored simp: stored_as_def)
  with stored_plans_good [OF reached(1)] plan show ?thesis by blast
qed

text \<open>The approval that is asked for, before and after the decision.\<close>

lemma pending_approval:
  obtains a n p where "get_approval sample_env ''ap_txsop'' store_asked = (Inr (a, n, p), store_asked)"
    "ap_task_id a = ''t''" "ap_status a = ''PENDING''"
proof -
  have "returns (\<lambda>(a, n, p). ap_task_id a = ''t'' \<and> ap_status a = ''PENDING'')
      (fst (get_approval sample_env ''ap_txsop'' store_asked))"
    using told by blast
  then obtain a n p where "fst (get_approval sample_env ''ap_txsop'' store_asked) = Inr (a, n, p)"
    and a: "ap_task_id a = ''t''" "ap_status a = ''PENDING''"
    by (rule returnsE) auto
  then have "get_approval sample_env ''ap_txsop'' store_asked =
      (Inr (a, n, p), snd (get_approval sample_env ''ap_txsop'' store_asked))"
    by (simp add: prod_eq_iff)
  with get_approval_cases [OF this reachable_tidy [OF reached(2)]] a that show ?thesis by simp
qed

lemma decision_is_final_witness:
  "\<exists>a b. repo_get (approval_repo sample_env) store_asked ''t'' ''ap_txsop'' = Inr (Some (P_approval a)) \<and>
     repo_get (approval_repo sample_env) store_decided ''t'' ''ap_txsop'' = Inr (Some (P_approval b)) \<and>
     decided_from a b"
proof -
  obtain a n p where a: "get_approval sample_env ''ap_txsop'' store_asked = (Inr (a, n, p), store_asked)"
    "ap_task_id a = ''t''" by (rule pending_approval)
  have got: "repo_get (approval_repo sample_env) store_asked ''t'' ''ap_txsop'' = Inr (Some (P_approval a))"
    using get_approval_cases [OF a(1) reachable_tidy [OF reached(2)]] a(2) by simp
  have "(service_step sample_env)\<^sup>*\<^sup>* store_asked store_decided"
    unfolding store_decided_def decide_it_def by (intro r_into_rtranclp service_step.decide)
  from decision_is_final [OF reached(2) this got] got show ?thesis by blast
qed

lemma owner_decides_witness:
  "\<exists>b. repo_get (approval_repo sample_env) store_decided ''t'' ''ap_txsop'' = Inr (Some (P_approval b)) \<and>
     ap_status b = ''APPROVED'' \<and> ap_resolved_by_id b = Some ''h''"
proof -
  obtain a n p where a: "get_approval sample_env ''ap_txsop'' store_asked = (Inr (a, n, p), store_asked)"
    "ap_task_id a = ''t''" by (rule pending_approval)
  have "returns (\<lambda>_. True) (fst (decide_it store_asked))" using told by blast
  then obtain v where "fst (decide_it store_asked) = Inr v" by (rule returnsE)
  then have run: "decide_it store_asked = (Inr v, store_decided)"
    by (simp add: store_decided_def prod_eq_iff)
  have "unused store_asked ''k2'' ''resolve_approval''
      (ev_request_digest sample_env ''resolve_approval'' (R_resolve_approval ''ap_txsop'' ''APPROVED''))"
    using told by blast
  then have "lookup_committed_command_result store_asked (ap_task_id a)
      (ce_idempotency_key (sample_command ''k2'' 1)) ''resolve_approval''
      (ev_request_digest sample_env ''resolve_approval'' (R_resolve_approval ''ap_txsop'' ''APPROVED'')) =
      Inr None"
    by (simp add: unused_def a(2) sample_command_def)
  from owner_decides [OF reached(2) a(1) run [unfolded decide_it_def] this] a(2) show ?thesis
    by (auto simp: resolved_approval_def sample_command_def)
qed

section \<open>The retry\<close>

lemma reserved_attempt:
  obtains b a where "repo_get (budget_repo sample_env) store_retried ''t'' ''t'' = Inr (Some (P_retry_budget b))"
    "find_attempt b ''r1'' = Inr a" "at_status a = RESERVED"
proof -
  have "attempt_seen RESERVED store_retried" using told by blast
  then show ?thesis
    unfolding attempt_seen_def
    by (elim returnsE) (auto split: option.splits payload.splits elim!: returnsE intro: that)
qed

lemma ledger_is_computed_witness:
  "\<exists>b a. repo_get (budget_repo sample_env) store_retried ''t'' ''t'' = Inr (Some (P_retry_budget b)) \<and>
     find_attempt b ''r1'' = Inr a \<and> rb_ledger b = ledger_of (rb_attempts b)"
proof -
  obtain b a where b: "repo_get (budget_repo sample_env) store_retried ''t'' ''t'' = Inr (Some (P_retry_budget b))"
    "find_attempt b ''r1'' = Inr a" by (rule reserved_attempt)
  then obtain w where "file_at store_retried (''t'', relative_path O_retry_budget ''t'') = Some (Snapshot w)"
    "wr_payload w = P_retry_budget b"
    by (auto simp: budget_repo_def dest!: got_stored simp: stored_as_def)
  with ledger_is_computed [OF reached(4)] b show ?thesis by blast
qed

lemma allowed_retry_within_limits_witness:
  "\<exists>b a. repo_get (budget_repo sample_env) store_retried ''t'' ''t'' = Inr (Some (P_retry_budget b)) \<and>
     a \<in> set (rb_attempts b) \<and> at_attempt_id a = ''r1'' \<and> at_status a = RESERVED \<and>
     lg_tokens_settled (rb_ledger b) + lg_tokens_reserved (rb_ledger b) \<le> rp_max_tokens (rb_policy b)"
proof -
  have "returns (\<lambda>_. True) (fst (retry_it store_configured))" using told by blast
  then obtain v where "fst (retry_it store_configured) = Inr v" by (rule returnsE)
  then have run: "retry_it store_configured = (Inr v, store_retried)"
    by (simp add: store_retried_def prod_eq_iff)
  have "unused store_configured ''k4'' ''reserve_retry'' (retry_digest sample_env small_retry)"
    using told by blast
  then have "lookup_committed_command_result store_configured (rr_task_id small_retry) ''k4''
      ''reserve_retry'' (retry_digest sample_env small_retry) = Inr None"
    by (simp add: unused_def small_retry_def)
  from allowed_retry_within_limits [OF run [unfolded retry_it_def] this] show ?thesis
    by (auto simp: small_retry_def)
qed

lemma attempt_moves_forward_witness:
  "\<exists>b a b' a'. repo_get (budget_repo sample_env) store_retried ''t'' ''t'' = Inr (Some (P_retry_budget b)) \<and>
     repo_get (budget_repo sample_env) store_settled ''t'' ''t'' = Inr (Some (P_retry_budget b')) \<and>
     find_attempt b ''r1'' = Inr a \<and> find_attempt b' ''r1'' = Inr a' \<and> becomes a a'"
proof -
  obtain b a where b: "repo_get (budget_repo sample_env) store_retried ''t'' ''t'' = Inr (Some (P_retry_budget b))"
    "find_attempt b ''r1'' = Inr a" by (rule reserved_attempt)
  have "(service_step sample_env)\<^sup>*\<^sup>* store_retried store_settled"
    unfolding store_settled_def settle_it_def by (intro r_into_rtranclp service_step.settle)
  moreover have "is_identifier ''t''" by code_simp
  ultimately show ?thesis using attempt_moves_forward [OF reached(4) _ _ b] b by blast
qed

lemma settled_once_witness:
  "\<exists>a l. settle_it 4 ''k6'' store_settled = (Inr (V_settlement a l None), store_settled)"
proof -
  have "returns (\<lambda>v. case v of V_settlement a l m \<Rightarrow> may_settle sample_system a | _ \<Rightarrow> False)
      (fst (settle_it 4 ''k5'' store_retried))"
    using told by blast
  then obtain a l m where "fst (settle_it 4 ''k5'' store_retried) = Inr (V_settlement a l m)"
    and may: "may_settle sample_system a"
    by (rule returnsE) (auto split: command_result.splits)
  then have run: "settle_it 4 ''k5'' store_retried = (Inr (V_settlement a l m), store_settled)"
    by (simp add: store_settled_def prod_eq_iff)
  have new: "lookup_committed_command_result store_retried ''t'' ''k5'' ''settle_retry''
      (settle_digest sample_env ''t'' ''r1'' 4 (Some 0)) = Inr None"
    "lookup_committed_command_result store_settled ''t'' ''k6'' ''settle_retry''
      (settle_digest sample_env ''t'' ''r1'' 4 (Some 0)) = Inr None"
    using told unfolding unused_def by blast+
  have id: "is_identifier ''k6''" by code_simp
  from settled_once [OF run [unfolded settle_it_def] new(1) id, of 4 "Some 0" sample_system] may new(2)
  show ?thesis by (simp add: settle_it_def)
qed

section \<open>A chain of retries\<close>

definition chained :: "string \<Rightarrow> string \<Rightarrow> attempt" where
  "chained i prev =
     \<lparr>at_attempt_id = i, at_retry_group_id = ''g'', at_retry_of = prev, at_root_attempt_id = None,
      at_root_instance_id = None, at_instance_id = ''x'', at_agent_type = Image, at_automatic = True,
      at_status = RESERVED, at_reserved_tokens = LimInt 5, at_reserved_cost = LimNull,
      at_price_catalog = None, at_approval_id = None, at_denied_gates = [],
      at_override_consumed_at = None, at_actual_tokens = None, at_actual_cost = None,
      at_created_at = ''c'', at_settled_at = None, at_pending = None, at_resolved_at = None,
      at_resolved_by = None, at_resolution = None\<rparr>"

definition chained_budget :: "attempt list \<Rightarrow> retry_budget" where
  "chained_budget as =
     \<lparr>rb_task_id = ''t'', rb_revision = 2, rb_policy = small_policy, rb_ledger = empty_ledger,
      rb_attempts = as, rb_created_at = ''c'', rb_updated_at = ''c''\<rparr>"

text \<open>Two attempts without a recorded root, above a registered call.\<close>

lemma lineage_root_iff_witness:
  "\<exists>z. (follows [chained ''r1'' ''r0'', chained ''r2'' ''r1''])\<^sup>*\<^sup>* (chained ''r2'' ''r1'') z \<and>
     ends_at [chained ''r1'' ''r0'', chained ''r2'' ''r1''] z (''r0'', ''x'')"
proof -
  let ?b = "chained_budget [chained ''r1'' ''r0'', chained ''r2'' ''r1'']"
  have "attempts_by_id (rb_attempts ?b) ''r2'' = Some (chained ''r2'' ''r1'')"
    "lineage_root (rb_attempts ?b) [] (chained ''r2'' ''r1'') = Inr (''r0'', ''x'')"
    by code_simp+
  from this(2) [unfolded lineage_root_iff [OF this(1)]] show ?thesis
    by (simp add: chained_budget_def)
qed

section \<open>An override without a token limit\<close>

definition null_decision :: pending_resolution where
  "null_decision =
     \<lparr>pd_approval_id = ''p'', pd_decision = ''APPROVED'', pd_action = Some ''approve_once'',
      pd_payload = [(''token_limit'', LimNull)], pd_idempotency_key = ''k'',
      pd_request_sha256 = ''d'', pd_envelope = sample_command ''k'' 1, pd_prepared_at = ''n''\<rparr>"

definition null_store :: store where
  "null_store = store_created\<lparr>st_files :=
     ((''t'', relative_path O_retry_budget ''t''),
       Snapshot \<lparr>wr_object_type = O_retry_budget, wr_object_id = ''t'', wr_revision = 2,
         wr_payload = P_retry_budget (chained_budget
           [decided_attempt (chained ''r1'' ''r0'') null_decision ''n'']),
         wr_committed_at = ''n''\<rparr>) # st_files store_created\<rparr>"

lemma null_override_unusable_witness:
  "\<exists>m s'. consume_override sample_env ''t'' ''r1'' ''k9'' sample_system null_store =
     (Inl (TypeError m), s') \<and> unchanged null_store s'"
proof -
  have got: "get_budget sample_env ''t'' null_store =
      (Inr (chained_budget [decided_attempt (chained ''r1'' ''r0'') null_decision ''n'']), null_store)"
    "find_attempt (chained_budget [decided_attempt (chained ''r1'' ''r0'') null_decision ''n'']) ''r1'' =
      Inr (decided_attempt (chained ''r1'' ''r0'') null_decision ''n'')"
    "lookup_committed_command_result null_store ''t'' ''k9'' ''consume_budget_override''
      (ev_request_digest sample_env ''consume_budget_override'' (R_consume_override ''t'' ''r1'')) = Inr None"
    by code_simp+
  have "is_identifier ''r1''" "is_identifier ''k9''" by code_simp+
  with null_override_unusable [of null_decision sample_env "''t''" null_store] got show ?thesis
    by (simp add: null_decision_def sample_system_def)
qed

section \<open>A notification\<close>

definition small_notice :: notification_request where
  "small_notice =
     \<lparr>nr_kind = ''K'', nr_owner = ''human'', nr_deep_link = ''l'', nr_dedupe_key = ''d'',
      nr_instance_id = None, nr_approval_id = None\<rparr>"

definition store_notified :: store where
  "store_notified = snd (ensure_notification sample_env ''t'' small_notice store_created)"

definition store_handled :: store where
  "store_handled = snd (update_inbox_status sample_env ''in_td'' ''HANDLED'' (sample_command ''k1'' 1)
     True store_notified)"

lemma handled_reached: "system_reachable sample_env store_handled"
proof -
  note created_run
  also have "system_run sample_env store_created store_notified"
    unfolding store_notified_def by (intro service_run service_step.notify)
  also have "system_run sample_env store_notified store_handled"
    unfolding store_handled_def by (intro service_run service_step.mark)
  finally show ?thesis unfolding system_reachable_def .
qed

lemma handled_item:
  obtains x where "repo_get (inbox_repo sample_env) store_handled ''t'' ''in_td'' = Inr (Some (P_inbox x))"
    "ib_status x = ''HANDLED''"
proof -
  have "returns (\<lambda>p. case p of Some (P_inbox x) \<Rightarrow> ib_status x = ''HANDLED'' | _ \<Rightarrow> False)
      (repo_get (inbox_repo sample_env) store_handled ''t'' ''in_td'')"
    by code_simp
  then show ?thesis by (rule returnsE) (auto split: option.splits payload.splits intro: that)
qed

lemma handled_stays_handled_witness:
  "\<exists>x. repo_get (inbox_repo sample_env)
      (snd (clear_read_notifications sample_env ''human'' store_handled)) ''t'' ''in_td'' =
     Inr (Some (P_inbox x)) \<and> ib_status x = ''HANDLED''"
proof -
  obtain x where x: "repo_get (inbox_repo sample_env) store_handled ''t'' ''in_td'' = Inr (Some (P_inbox x))"
    "ib_status x = ''HANDLED''" by (rule handled_item)
  have "(service_step sample_env)\<^sup>*\<^sup>* store_handled
      (snd (clear_read_notifications sample_env ''human'' store_handled))"
    by (intro r_into_rtranclp service_step.clear)
  from handled_stays_handled [OF handled_reached this x] x(2) show ?thesis by blast
qed

lemma inbox_first_in_first_out_witness:
  "\<exists>xs. list_inbox sample_env store_handled ''human'' None None = Inr xs \<and>
     sorted (map inbox_order xs) \<and> length xs = 1"
proof -
  have "returns (\<lambda>xs. length xs = 1) (list_inbox sample_env store_handled ''human'' None None)"
    by code_simp
  then obtain xs where xs: "list_inbox sample_env store_handled ''human'' None None = Inr xs" "length xs = 1"
    by (rule returnsE)
  from inbox_first_in_first_out [OF handled_reached xs(1)] xs show ?thesis by blast
qed

section \<open>A plan that is committed\<close>

definition lean_store :: store where
  "lean_store = empty_store\<lparr>st_files :=
     [((''t'', relative_path O_task ''t''),
       Snapshot \<lparr>wr_object_type = O_task, wr_object_id = ''t'', wr_revision = 3,
         wr_payload = P_task (small_task T_PLANNED), wr_committed_at = ''c''\<rparr>)]\<rparr>"

lemma sound_lean: "sound lean_store"
proof -
  have "sound_file (''t'', relative_path O_task ''t'')
      (Snapshot \<lparr>wr_object_type = O_task, wr_object_id = ''t'', wr_revision = 3,
        wr_payload = P_task (small_task T_PLANNED), wr_committed_at = ''c''\<rparr>)"
    unfolding sound_file_def
    by (intro exI [of _ O_task] exI [of _ "''t''"]) (simp add: small_task_def is_letter_def)
  then show ?thesis by (auto simp: sound_def file_at_def lean_store_def split: if_splits)
qed

lemma persist_aggregate_commits_witness:
  "\<exists>v s'. persist_aggregate sample_env (small_plan T_PLANNED S_READY I_READY) (sample_command ''k'' 3)
       ''save_plan'' (R_task ''t'') 3 False lean_store = (Inr v, s') \<and>
     projected sample_env s' ''t'' (small_plan T_PLANNED S_READY I_READY)"
proof -
  let ?plan = "small_plan T_PLANNED S_READY I_READY"
  have plan: "projectable sample_env ''t'' ?plan"
    by (simp add: projectable_def small_plan_def sample_stage_def sample_instance_def
        plan_projections_def writable_def is_letter_def)
  have id: "tk_task_id (pl_task ?plan) = ''t''" by (simp add: small_plan_def small_task_def)
  have valid: "validate_plan (ev_contracts sample_env) ?plan = Inr ()" by code_simp
  have task: "returns (\<lambda>w. case w of Some w \<Rightarrow> wr_revision w = 3 | None \<Rightarrow> False)
      (read_wrapper (repository_of sample_env O_task) lean_store ''t'' ''t'')"
    and rev: "repo_revision (repository_of sample_env O_plan) lean_store ''t'' ''t'' = Inr 0"
    by code_simp+
  from task obtain old where old: "read_wrapper (repository_of sample_env O_task) lean_store ''t'' ''t'' =
      Inr (Some old)" "wr_revision old = 3"
    by (rule returnsE) (auto split: option.splits)
  from persist_aggregate_commits [OF sound_lean plan id valid old rev, of "sample_command ''k'' 3"
      "''save_plan''" "R_task ''t''" False]
  show ?thesis unfolding Let_def by blast
qed

end
