(* ===== verification/Store_Witnesses.thy ===== *)
theory Store_Witnesses imports Projections Sample_Environment begin

text \<open>
  The properties of the storage layer at concrete stores: a task directory with one approval,
  committed, interrupted, overwritten and removed in the sample environment, and a stored plan with
  a missing and an orphaned projection.
\<close>

definition sample_approval :: "string \<Rightarrow> payload" where
  "sample_approval status = P_approval
     \<lparr>ap_approval_id = ''a'', ap_task_id = ''t'', ap_instance_id = ''x'', ap_step_id = ''s'',
      ap_kind = ''agent'', ap_owner = ''human'', ap_status = status, ap_payload_ref = ''p'',
      ap_created_at = ''t0'', ap_sequence = 1, ap_revision = 1, ap_resolved_at = None,
      ap_resolved_by_type = None, ap_resolved_by_id = None\<rparr>"

definition sample_put :: "string \<Rightarrow> int \<Rightarrow> (string \<Rightarrow> unit res) \<Rightarrow> wrapper sop" where
  "sample_put status n hook =
     repo_put sample_env (repository_of sample_env O_approval) ''t'' ''a'' (sample_approval status) n
       \<lparr>ac_type = Human, ac_id = ''h''\<rparr> ''decide'' ''k'' None None hook"

definition sample_wrapper :: "string \<Rightarrow> int \<Rightarrow> string \<Rightarrow> wrapper" where
  "sample_wrapper status n now =
     \<lparr>wr_object_type = O_approval, wr_object_id = ''a'', wr_revision = n,
      wr_payload = sample_approval status, wr_committed_at = now\<rparr>"

definition sample_event :: event where
  "sample_event =
     \<lparr>ee_event_id = ''evt_u0'', ee_event_type = OBJECT_COMMITTED, ee_object_type = O_approval,
      ee_object_id = ''a'', ee_revision = 1, ee_payload_sha256 = ''digest'',
      ee_actor = \<lparr>ac_type = Human, ac_id = ''h''\<rparr>, ee_command = ''decide'',
      ee_idempotency_key = ''k'', ee_occurred_at = ''t0'',
      ee_snapshot = Some (sample_wrapper ''PENDING'' 1 ''t0''), ee_command_result = None,
      ee_request_sha256 = None\<rparr>"

definition approval_path :: file_path where
  "approval_path = (''t'', [''approvals'', ''a.json''])"

definition one_approval :: store where
  "one_approval = empty_store\<lparr>
     st_files := [(approval_path, Snapshot (sample_wrapper ''PENDING'' 1 ''t0''))],
     st_journals := [(''t'', [sample_event])], st_ticks := 1, st_uuids := 1\<rparr>"

lemma sample_letters [simp]: "is_letter CHR ''t''" "is_letter CHR ''a''"
  by (simp_all add: is_letter_def)

lemma one_approval_put:
  "sample_put ''PENDING'' 0 no_hook empty_store =
     (Inr (sample_wrapper ''PENDING'' 1 ''t0''), one_approval)"
  by code_simp

lemma one_approval_parts [simp]:
  "file_at one_approval p =
     (if p = approval_path then Some (Snapshot (sample_wrapper ''PENDING'' 1 ''t0'')) else None)"
  "journal one_approval u = (if u = ''t'' then [sample_event] else [])"
  by (simp_all add: one_approval_def file_at_def journal_def)

lemma synced_empty: "synced ''t'' empty_store"
  by (simp add: synced_def journal_ok_def journal_def file_at_def empty_store_def)

lemma positive_empty: "positive_revisions empty_store"
  by (simp add: positive_revisions_def journal_def file_at_def empty_store_def)

lemma proper_sample: "proper_key ''t'' (O_approval, ''a'')"
  by (simp add: proper_key_def singleton_kind_def)

text \<open>At the first write of an approval.\<close>

lemma put_commits_witness:
  "repo_get (repository_of sample_env O_approval) one_approval ''t'' ''a'' =
     Inr (Some (sample_approval ''PENDING''))"
  using put_commits [OF positive_empty one_approval_put [unfolded sample_put_def]] by blast

text \<open>At a write that still expects revision 0.\<close>

lemma stale_put_rejected_witness:
  "\<exists>st'. sample_put ''APPROVED'' 0 no_hook one_approval =
     (Inl (revision_conflict O_approval ''a'' 0 1), st') \<and> unchanged one_approval st'"
  unfolding sample_put_def
proof (rule stale_put_rejected)
  show "snapshot_validator sample_env O_approval (sample_approval ''APPROVED'') = Inr ()" by simp
  show "repo_revision (repository_of sample_env O_approval) one_approval ''t'' ''a'' = Inr 1"
    by code_simp
qed simp_all

text \<open>At a second write that also expects revision 0.\<close>

lemma no_lost_update_witness:
  "fst (request_put sample_env (O_approval, ''t'', ''a'')
     \<lparr>wq_payload = sample_approval ''APPROVED'', wq_actor = \<lparr>ac_type = Human, ac_id = ''h''\<rparr>,
      wq_command = ''decide'', wq_key = ''k2'', wq_result = None, wq_sha = None, wq_hook = no_hook\<rparr>
     0 (run_requests sample_env [] one_approval)) \<noteq> Inr (sample_wrapper ''APPROVED'' 1 ''t1'')"
  by (rule no_lost_update [OF positive_empty one_approval_put [unfolded sample_put_def]])

text \<open>At the removal of the approval.\<close>

lemma approval_path_object: "approval_path = object_path ''t'' (O_approval, ''a'')"
  by (simp add: approval_path_def object_path_def json_file_def)

lemma sample_latest:
  "latest_commit [sample_event] key = (if key = (O_approval, ''a'') then Some sample_event else None)"
  by (simp add: latest_commit_def latest_commits_def record_latest_def sample_event_def event_key_def)

lemma synced_one: "synced ''t'' one_approval"
proof -
  have "commit_ok ''t'' sample_event"
    by (simp add: commit_ok_def sample_event_def event_key_def sample_wrapper_def proper_sample)
  moreover have "ee_snapshot sample_event = Some (sample_wrapper ''PENDING'' 1 ''t0'')"
    by (simp add: sample_event_def)
  ultimately show ?thesis
    by (auto simp: synced_def journal_ok_def approval_path_object proper_sample
        object_path_inj sample_latest)
qed

definition sample_delete :: "bool sop" where
  "sample_delete =
     repo_delete sample_env (repository_of sample_env O_approval) ''t'' ''a'' 1
       \<lparr>ac_type = Human, ac_id = ''h''\<rparr> ''delete'' ''k''"

lemma sample_delete_run: "sample_delete one_approval = (Inr True, snd (sample_delete one_approval))"
  unfolding prod_eq_iff by (simp, code_simp)

lemma deleted_object_returns_witness:
  "\<exists>st s. sample_delete one_approval = (Inr True, st) \<and>
     repo_get (repository_of sample_env O_approval) st ''t'' ''a'' = Inr None \<and>
     recover_snapshots sample_env ''t'' (journal st ''t'') st = (Inr (), s) \<and>
     (\<exists>p. repo_get (repository_of sample_env O_approval) s ''t'' ''a'' = Inr (Some p))"
  using deleted_object_returns [OF synced_one proper_sample sample_delete_run [unfolded sample_delete_def]]
    sample_delete_run unfolding sample_delete_def by blast

text \<open>The crash property at a second write that is cut off after its event was appended.\<close>

lemma sample_crash_run:
  "sample_put ''APPROVED'' 1 (crash_at ''after_event_append'') one_approval =
     (Inl (SimulatedCrash ''after_event_append''),
      snd (sample_put ''APPROVED'' 1 (crash_at ''after_event_append'') one_approval))"
  unfolding prod_eq_iff by (simp, code_simp)

lemma put_atomic_under_crash_witness:
  "\<exists>st s0 s1. sample_put ''APPROVED'' 1 (crash_at ''after_event_append'') one_approval =
       (Inl (SimulatedCrash ''after_event_append''), st) \<and>
     recover_snapshots sample_env ''t'' (journal st ''t'') st = (Inr (), s1) \<and> synced ''t'' s1 \<and>
     (file_at s1 = file_at s0 \<or>
      (\<exists>w. wr_payload w = sample_approval ''APPROVED'' \<and>
         file_at s1 = (file_at s0)(object_path ''t'' (O_approval, ''a'') \<mapsto> Snapshot w)))"
  using put_atomic_under_crash [OF synced_one proper_sample sample_crash_run [unfolded sample_put_def]]
    sample_crash_run unfolding sample_put_def by blast

section \<open>A stored plan\<close>

definition sample_task :: main_task where
  "sample_task =
     \<lparr>tk_task_id = ''t'', tk_title = ''T'', tk_goal = ''G'', tk_master_owner = ''m'',
      tk_start_policy = Manual, tk_input_manifest = ''{}'', tk_status = T_PLANNED,
      tk_created_at = ''c'', tk_updated_at = ''c'', tk_plan_revision = 1\<rparr>"

definition bare_stage :: "string \<Rightarrow> stage" where
  "bare_stage s =
     \<lparr>sg_stage_id = s, sg_task_id = ''t'', sg_type = Image, sg_position = 1, sg_depends_on = [],
      sg_required = True,
      sg_lifecycle = \<lparr>lc_original_required = True, lc_first_activated_at = None,
        lc_authorized_downgrade = None\<rparr>,
      sg_status = S_PENDING, sg_instance_ids = []\<rparr>"

definition bare_plan :: task_plan where
  "bare_plan = \<lparr>pl_task = sample_task, pl_stages = [bare_stage ''a''], pl_instances = [],
     pl_task_cards = []\<rparr>"

text \<open>The plan is stored, its stage file is missing, and a stage of an older plan is left over.\<close>

definition half_projected :: store where
  "half_projected = empty_store\<lparr>
     st_files :=
       [((''t'', [''plan.json'']),
         Snapshot \<lparr>wr_object_type = O_plan, wr_object_id = ''t'', wr_revision = 2,
           wr_payload = P_plan bare_plan, wr_committed_at = ''t0''\<rparr>),
        ((''t'', [''stages'', ''b.json'']),
         Snapshot \<lparr>wr_object_type = O_stage, wr_object_id = ''b'', wr_revision = 1,
           wr_payload = P_stage (bare_stage ''b''), wr_committed_at = ''t0''\<rparr>)]\<rparr>"

lemma sound_half: "sound half_projected"
proof -
  have "sound_file (''t'', [''plan.json''])
      (Snapshot \<lparr>wr_object_type = O_plan, wr_object_id = ''t'', wr_revision = 2,
        wr_payload = P_plan bare_plan, wr_committed_at = ''t0''\<rparr>)"
    unfolding sound_file_def by (intro exI [of _ O_plan] exI [of _ "''t''"]) simp
  moreover have "sound_file (''t'', [''stages'', ''b.json''])
      (Snapshot \<lparr>wr_object_type = O_stage, wr_object_id = ''b'', wr_revision = 1,
        wr_payload = P_stage (bare_stage ''b''), wr_committed_at = ''t0''\<rparr>)"
    unfolding sound_file_def
    by (intro exI [of _ O_stage] exI [of _ "''b''"])
      (simp add: json_file_def bare_stage_def is_letter_def)
  ultimately show ?thesis
    by (auto simp: sound_def file_at_def half_projected_def split: if_splits)
qed

lemma projectable_bare: "projectable sample_env ''t'' bare_plan"
  by (simp add: projectable_def bare_plan_def bare_stage_def plan_projections_def writable_def)

lemma reconcile_makes_projections_witness:
  "\<exists>st'. reconcile_plan_projections sample_env ''t'' half_projected = (Inr (), st') \<and>
     projected sample_env st' ''t'' bare_plan"
proof -
  have "repo_get (repository_of sample_env O_plan) half_projected ''t'' ''t'' =
      Inr (Some (P_plan bare_plan))"
    by code_simp
  from reconcile_makes_projections [OF sound_half projectable_bare this] show ?thesis by blast
qed

end
