(* ===== verification/Master_Plan.thy ===== *)
theory Master_Plan imports Plan_Edit begin

text \<open>
  \<^verbatim>\<open>backend/harness/domain/master.py\<close>: the checks that a plan proposed by the Master passes before it
  becomes durable, and its translation into the arguments of \<open>save_plan\<close>. The result of the
  JSON-Schema check of the proposal is an argument. \<open>validate_plan_proposal_iff\<close> says what the
  checks amount to; the depth-first search among them ends because every call visits a work item
  that is not yet on its path.
\<close>

section \<open>Proposals\<close>

record proposal_stage =
  ps_stage_id :: string
  ps_type :: agent_type
  ps_position :: int
  ps_depends_on :: "string list"
  ps_required :: bool

record work_item =
  wi_work_item_id :: string
  wi_task_id :: string
  wi_stage_id :: string
  wi_agent_type :: agent_type
  wi_required :: bool
  wi_depends_on :: "string list"
  wi_current_instance_id :: "string option"
  wi_instance_ids :: "string list"
  wi_task_card_ids :: "string list"

record plan_proposal =
  pp_task_id :: string
  pp_revision :: int
  pp_status :: string
  pp_stages :: "proposal_stage list"
  pp_work_items :: "work_item list"
  pp_execution_cards :: "task_card list"
  pp_confirmed_at :: "string option"

abbreviation items_by_id :: "work_item list \<Rightarrow> string \<Rightarrow> work_item option" where
  "items_by_id \<equiv> dict_by wi_work_item_id"

section \<open>The checks\<close>

definition check_proposal_stage :: "string list \<Rightarrow> proposal_stage list \<Rightarrow> proposal_stage \<Rightarrow> unit res" where
  "check_proposal_stage stage_ids stages s =
     bindE (guardE (set (ps_depends_on s) \<subseteq> set (take (nat (ps_position s - 1)) stage_ids))
       (invalid ''A Master stage dependency must reference an earlier stage.'')) (\<lambda>_.
     forE (\<lambda>dependency_id.
         bindE (subscript (dict_by ps_stage_id stages) dependency_id) (\<lambda>dependency.
         guardE (\<not> (ps_type dependency \<noteq> Image \<or> ps_type s \<noteq> Ppt))
           (invalid ''Same-type stages must be parallel and only Image-to-PPT dependencies are supported.'')))
       (ps_depends_on s))"

definition check_work_item ::
  "string \<Rightarrow> proposal_stage list \<Rightarrow> work_item list \<Rightarrow> work_item \<Rightarrow> unit res" where
  "check_work_item task_id stages items w =
     bindE (guardE (wi_task_id w = task_id \<and>
         (case dict_by ps_stage_id stages (wi_stage_id w) of
            None \<Rightarrow> False | Some s \<Rightarrow> wi_agent_type w = ps_type s))
       (invalid ''Every Master work item must match its task and stage.'')) (\<lambda>_.
     bindE (case wi_current_instance_id w of
         None \<Rightarrow> Inl (invalid ''A new Master work item requires one current instance.'')
       | Some current \<Rightarrow> Inr current) (\<lambda>current.
     bindE (guardE (set (wi_instance_ids w) = {current})
       (invalid ''A new Master plan cannot introduce historical instances.'')) (\<lambda>_.
     bindE (guardE (wi_work_item_id w \<notin> set (wi_depends_on w))
       (invalid ''A Master work item cannot depend on itself.'')) (\<lambda>_.
     guardE (set (wi_depends_on w) \<subseteq> wi_work_item_id ` set items)
       (invalid ''A Master work item references an unknown dependency.'')))))"

text \<open>
  The nested function of the depth-first search: \<open>visiting\<close> is the path it is on, \<open>visited\<close> what it
  has finished.
\<close>

lemma foldE_cong [fundef_cong]:
  assumes "xs = ys" and "s = t" and "\<And>x u. x \<in> set ys \<Longrightarrow> f x u = g x u"
  shows "foldE f xs s = foldE g ys t"
proof -
  have "foldE f ys t = foldE g ys t" using assms(3)
  proof (induction ys arbitrary: t)
    case (Cons y ys)
    then show ?case by (cases "g y t") auto
  qed simp
  then show ?thesis by (simp add: assms(1,2))
qed

function visit :: "work_item list \<Rightarrow> string list \<Rightarrow> string \<Rightarrow> string list \<Rightarrow> (string list) res" where
  "visit items visiting i visited =
     (if i \<in> set visiting then Inl (invalid ''Master work item dependencies contain a cycle.'')
      else if i \<in> set visited then Inr visited
      else case items_by_id items i of
        None \<Rightarrow> Inl (KeyError i)
      | Some w \<Rightarrow>
          bindE (foldE (\<lambda>d v. visit items (i # visiting) d v) (wi_depends_on w) visited)
            (\<lambda>v. Inr (i # v)))"
  by pat_completeness auto

definition unseen :: "work_item list \<Rightarrow> string list \<Rightarrow> nat" where
  "unseen items visiting = card (wi_work_item_id ` set items - set visiting)"

lemma unseen_decreases:
  assumes "i \<notin> set visiting" and "items_by_id items i = Some w"
  shows "unseen items (i # visiting) < unseen items visiting"
proof -
  have "i \<in> wi_work_item_id ` set items" using dict_by_Some [OF assms(2)] by blast
  then show ?thesis unfolding unseen_def using assms(1) by (intro psubset_card_mono) auto
qed

termination visit
  by (relation "measure (\<lambda>(items, visiting, i, visited). unseen items visiting)")
    (auto simp: unseen_decreases)

declare visit.simps [simp del]

definition check_card_of ::
  "string \<Rightarrow> task_card list \<Rightarrow> work_item \<Rightarrow> string list \<Rightarrow> (string list) res" where
  "check_card_of task_id cards w seen =
     (case wi_task_card_ids w of
        [card_id] \<Rightarrow>
          bindE (subscript (dict_by cd_card_id cards) card_id) (\<lambda>c.
          bindE (guardE (cd_task_id c = task_id \<and> cd_stage_id c = wi_stage_id w \<and>
              cd_agent_type c = wi_agent_type w \<and> Some (cd_instance_id c) = wi_current_instance_id w)
            (invalid ''A Master execution card does not match its work item.'')) (\<lambda>_.
          bindE (guardE (cd_instance_id c \<notin> set seen)
            (invalid ''A Master instance cannot belong to multiple work items.'')) (\<lambda>_.
          Inr (cd_instance_id c # seen))))
      | _ \<Rightarrow> Inl (invalid ''Each new work item requires exactly one active execution card.''))"

definition validate_plan_proposal ::
  "unit res \<Rightarrow> plan_proposal \<Rightarrow> string \<Rightarrow> int \<Rightarrow> unit res" where
  "validate_plan_proposal schema_ok p task_id expected_revision =
     bindE schema_ok (\<lambda>_.
     bindE (guardE (pp_task_id p = task_id)
       (invalid ''The Master plan belongs to another task.'')) (\<lambda>_.
     bindE (guardE (pp_revision p = expected_revision)
       (invalid ''The Master plan revision is not the next durable revision.'')) (\<lambda>_.
     bindE (guardE (pp_status p = ''PENDING_CONFIRMATION'' \<and> pp_confirmed_at p = None)
       (invalid ''A new Master plan must be pending confirmation.'')) (\<lambda>_.
     let stages = sort_key ps_position (pp_stages p);
         stage_ids = map ps_stage_id stages;
         items = pp_work_items p; cards = pp_execution_cards p;
         referenced = concat (map wi_task_card_ids items) in
     bindE (guardE (distinct stage_ids \<and> contiguous_from_one (map ps_position stages))
       (invalid ''Master plan stages require unique ids and contiguous positions.'')) (\<lambda>_.
     bindE (forE (check_proposal_stage stage_ids stages) stages) (\<lambda>_.
     bindE (guardE (distinct (map wi_work_item_id items))
       (invalid ''Master work item ids must be unique.'')) (\<lambda>_.
     bindE (forE (check_work_item task_id stages items) items) (\<lambda>_.
     bindE (foldE (visit items []) (map wi_work_item_id items) []) (\<lambda>_.
     bindE (guardE (distinct (map cd_card_id cards))
       (invalid ''Master execution card ids must be unique.'')) (\<lambda>_.
     bindE (guardE (distinct referenced \<and> set referenced = cd_card_id ` set cards)
       (invalid ''Every Master execution card must belong to exactly one work item.'')) (\<lambda>_.
     bindE (foldE (check_card_of task_id cards) items []) (\<lambda>_.
     Inr ()))))))))))))"

section \<open>The translation\<close>

text \<open>The translated stages and instances have no task, lifecycle or status yet: \<open>save_plan\<close> sets them,
  whatever these fields hold.\<close>

definition instance_of_item :: "work_item \<Rightarrow> string \<Rightarrow> agent_instance" where
  "instance_of_item w instance_id =
     \<lparr>in_instance_id = instance_id, in_task_id = [], in_stage_id = wi_stage_id w,
      in_agent_type = wi_agent_type w, in_required = wi_required w,
      in_lifecycle = fresh_lifecycle (wi_required w), in_status = I_CREATED,
      in_approval_mode = ''human'', in_manual_finished = None, in_manual_business_status = None,
      in_config_revision = 1, in_credential_pair_ref = None, in_credential_pair_revision = None,
      in_workspace_relpath = ''instances/'' @ instance_id,
      in_task_card_relpath = ''instances/'' @ instance_id @ ''/task-card.json'', in_ui_url = None,
      in_process = None, in_restart_required = None, in_delivery_rejection = None,
      in_start_failure = None, in_created_at = []\<rparr>"

text \<open>\<open>f"instances/{None}"\<close> is the text of a missing instance id.\<close>

definition current_instance :: "work_item \<Rightarrow> string" where
  "current_instance w = (case wi_current_instance_id w of None \<Rightarrow> ''None'' | Some i \<Rightarrow> i)"

definition stage_of_proposal :: "work_item list \<Rightarrow> proposal_stage \<Rightarrow> stage" where
  "stage_of_proposal items s =
     \<lparr>sg_stage_id = ps_stage_id s, sg_task_id = [], sg_type = ps_type s,
      sg_position = ps_position s, sg_depends_on = ps_depends_on s, sg_required = ps_required s,
      sg_lifecycle = fresh_lifecycle (ps_required s), sg_status = S_PENDING,
      sg_instance_ids =
        map current_instance (filter (\<lambda>w. wi_stage_id w = ps_stage_id s) items)\<rparr>"

text \<open>A work item of an unknown stage is a \<open>KeyError\<close> of the dictionary of stage instances.\<close>

definition materialize_plan_proposal ::
  "plan_proposal \<Rightarrow> (stage list \<times> agent_instance list \<times> task_card list) res" where
  "materialize_plan_proposal p =
     bindE (forE (\<lambda>w. guardE (wi_stage_id w \<in> ps_stage_id ` set (pp_stages p))
         (KeyError (wi_stage_id w))) (pp_work_items p)) (\<lambda>_.
     Inr (map (stage_of_proposal (pp_work_items p)) (sort_key ps_position (pp_stages p)),
          map (\<lambda>w. instance_of_item w (current_instance w)) (pp_work_items p),
          pp_execution_cards p))"

section \<open>What the search decides\<close>

text \<open>\<open>awaits items i d\<close>: the work item \<open>i\<close> depends on \<open>d\<close>.\<close>

definition awaits :: "work_item list \<Rightarrow> (string \<times> string) set" where
  "awaits items = {(i, d). \<exists>w \<in> set items. wi_work_item_id w = i \<and> d \<in> set (wi_depends_on w)}"

lemma foldE_grows:
  assumes "foldE f ds v = Inr v'" and "set v \<subseteq> A"
    and "\<And>d v v'. d \<in> set ds \<Longrightarrow> set v \<subseteq> A \<Longrightarrow> f d v = Inr v' \<Longrightarrow>
      set v \<subseteq> set v' \<and> d \<in> set v' \<and> set v' \<subseteq> A"
  shows "set v \<subseteq> set v' \<and> set ds \<subseteq> set v' \<and> set v' \<subseteq> A"
  using assms
proof (induction ds arbitrary: v)
  case (Cons d ds)
  from Cons.prems(1) obtain u where u: "f d v = Inr u" "foldE f ds u = Inr v'" by (auto simp: monad)
  have grown: "set v \<subseteq> set u \<and> d \<in> set u \<and> set u \<subseteq> A"
    using Cons.prems(3) [OF _ Cons.prems(2) u(1)] by simp
  have "set u \<subseteq> set v' \<and> set ds \<subseteq> set v' \<and> set v' \<subseteq> A"
  proof (rule Cons.IH [OF u(2)])
    show "set u \<subseteq> A" using grown by blast
    fix e w w'
    assume "e \<in> set ds" "set w \<subseteq> A" "f e w = Inr w'"
    then show "set w \<subseteq> set w' \<and> e \<in> set w' \<and> set w' \<subseteq> A"
      by (intro Cons.prems(3)) simp_all
  qed
  then show ?case using grown by auto
qed auto

lemma foldE_returns:
  assumes "\<And>d v. d \<in> set ds \<Longrightarrow> \<exists>v'. f d v = Inr v'"
  shows "\<exists>v'. foldE f ds v = Inr v'"
  using assms
proof (induction ds arbitrary: v)
  case (Cons d ds)
  obtain u where "f d v = Inr u" using Cons.prems [of d v] by auto
  then show ?case using Cons by simp
qed simp

lemma awaits_item:
  assumes "distinct (map wi_work_item_id items)" and "items_by_id items i = Some w"
  shows "(i, d) \<in> awaits items \<longleftrightarrow> d \<in> set (wi_depends_on w)"
proof -
  have w: "w \<in> set items" "wi_work_item_id w = i" using dict_by_Some [OF assms(2)] by auto
  have "x = w" if "x \<in> set items" "wi_work_item_id x = i" for x
    using dict_by_distinct [OF assms(1) that(1)] that(2) assms(2) by simp
  then show ?thesis using w unfolding awaits_def by blast
qed

text \<open>What has been visited leads only to ends.\<close>

lemma visit_sound:
  "visit items path i v = Inr v' \<Longrightarrow> distinct (map wi_work_item_id items) \<Longrightarrow>
   set v \<subseteq> termi (awaits items) \<Longrightarrow>
   set v \<subseteq> set v' \<and> i \<in> set v' \<and> set v' \<subseteq> termi (awaits items)"
proof (induction items path i v arbitrary: v' rule: visit.induct)
  case (1 items path i v)
  show ?case
  proof (cases "i \<in> set v")
    case True
    with 1 show ?thesis by (auto simp: visit.simps [of items path] split: if_splits)
  next
    case False
    with 1(2) obtain w u where w: "i \<notin> set path" "items_by_id items i = Some w" "v' = i # u"
      and u: "foldE (\<lambda>d v. visit items (i # path) d v) (wi_depends_on w) v = Inr u"
      by (auto simp: visit.simps [of items path] monad split: if_splits option.splits)
    have u': "set v \<subseteq> set u \<and> set (wi_depends_on w) \<subseteq> set u \<and>
        set u \<subseteq> termi (awaits items)"
      by (rule foldE_grows [OF u 1(4)]) (rule 1(1) [OF w(1) False w(2) _ _ 1(3)])
    have "i \<in> termi (awaits items)"
    proof (rule accI)
      fix d
      assume "(d, i) \<in> (awaits items)\<inverse>"
      then have "d \<in> set (wi_depends_on w)" using awaits_item [OF 1(3) w(2)] by simp
      then show "d \<in> termi (awaits items)" using u' by blast
    qed
    with u' w(3) show ?thesis by auto
  qed
qed

text \<open>A search that meets its own path has found a cycle.\<close>

lemma visit_complete:
  "acyclic (awaits items) \<Longrightarrow> distinct (map wi_work_item_id items) \<Longrightarrow>
   (\<forall>w \<in> set items. set (wi_depends_on w) \<subseteq> wi_work_item_id ` set items) \<Longrightarrow>
   i \<in> wi_work_item_id ` set items \<Longrightarrow> (\<forall>x \<in> set path. (x, i) \<in> (awaits items)\<^sup>+) \<Longrightarrow>
   \<exists>v'. visit items path i v = Inr v'"
proof (induction items path i v rule: visit.induct)
  case (1 items path i v)
  have fresh: "i \<notin> set path" using 1(2,6) by (auto simp: acyclic_def)
  obtain w where w: "items_by_id items i = Some w"
    using 1(5) dict_by_None_iff [of wi_work_item_id items i] by (cases "items_by_id items i") auto
  have "\<exists>v'. foldE (\<lambda>d v. visit items (i # path) d v) (wi_depends_on w) v = Inr v'" if "i \<notin> set v"
  proof (rule foldE_returns)
    fix d u
    assume d: "d \<in> set (wi_depends_on w)"
    then have step: "(i, d) \<in> awaits items" using awaits_item [OF 1(3) w] by simp
    have "\<forall>x \<in> set (i # path). (x, d) \<in> (awaits items)\<^sup>+"
      using 1(6) step by (auto intro: trancl_into_trancl)
    moreover have "d \<in> wi_work_item_id ` set items"
      using 1(4) d dict_by_Some [OF w] by auto
    ultimately show "\<exists>v'. visit items (i # path) d u = Inr v'"
      using 1(1) [OF fresh that w d] 1(2-4) by blast
  qed
  then show ?case using fresh w by (auto simp: visit.simps [of items path] monad)
qed

lemma visit_all_iff:
  assumes "distinct (map wi_work_item_id items)"
    and "\<forall>w \<in> set items. set (wi_depends_on w) \<subseteq> wi_work_item_id ` set items"
  shows "(\<exists>v. foldE (visit items []) (map wi_work_item_id items) [] = Inr v) \<longleftrightarrow> acyclic (awaits items)"
proof
  assume "\<exists>v. foldE (visit items []) (map wi_work_item_id items) [] = Inr v"
  then obtain v where "foldE (visit items []) (map wi_work_item_id items) [] = Inr v" ..
  from foldE_grows [OF this, of "termi (awaits items)"] visit_sound [OF _ assms(1)]
  have grown: "set (map wi_work_item_id items) \<subseteq> set v \<and> set v \<subseteq> termi (awaits items)"
    by simp
  have "x \<in> termi (awaits items)" for x
  proof (rule accI)
    fix d
    assume "(d, x) \<in> (awaits items)\<inverse>"
    then have "d \<in> set (map wi_work_item_id items)" using assms(2) by (auto simp: awaits_def)
    then show "d \<in> termi (awaits items)" using grown by blast
  qed
  then have "wf ((awaits items)\<inverse>)" by (intro acc_wfI) simp
  then show "acyclic (awaits items)" by (metis acyclic_converse wf_acyclic)
next
  assume "acyclic (awaits items)"
  then show "\<exists>v. foldE (visit items []) (map wi_work_item_id items) [] = Inr v"
    using assms by (intro foldE_returns visit_complete) auto
qed

section \<open>What an accepted proposal is\<close>

text \<open>
  The stages, by position, are numbered from one with distinct ids, and a dependency is an Image stage
  listed earlier than the Ppt stage that has it. A work item has one instance, of the type of its stage,
  and one card, which agrees with it; the dependencies of the work items lead round in no circle.
\<close>

definition proposal_stage_ok :: "proposal_stage list \<Rightarrow> nat \<Rightarrow> bool" where
  "proposal_stage_ok stages n =
     (let s = stages ! n in
      ps_position s = int (Suc n) \<and>
      (\<forall>d \<in> set (ps_depends_on s).
         \<exists>m < n. ps_stage_id (stages ! m) = d \<and> ps_type (stages ! m) = Image \<and> ps_type s = Ppt))"

definition work_item_ok :: "plan_proposal \<Rightarrow> work_item \<Rightarrow> bool" where
  "work_item_ok p w =
     (wi_task_id w = pp_task_id p \<and>
      (\<exists>s \<in> set (pp_stages p). ps_stage_id s = wi_stage_id w \<and> ps_type s = wi_agent_type w) \<and>
      (\<exists>i. wi_current_instance_id w = Some i \<and> set (wi_instance_ids w) = {i}) \<and>
      set (wi_depends_on w) \<subseteq> set (map wi_work_item_id (pp_work_items p)))"

definition card_of_item :: "plan_proposal \<Rightarrow> work_item \<Rightarrow> bool" where
  "card_of_item p w =
     (\<exists>c \<in> set (pp_execution_cards p). wi_task_card_ids w = [cd_card_id c] \<and>
        cd_task_id c = pp_task_id p \<and> cd_stage_id c = wi_stage_id w \<and>
        cd_agent_type c = wi_agent_type w \<and> wi_current_instance_id w = Some (cd_instance_id c))"

definition well_formed_proposal :: "plan_proposal \<Rightarrow> bool" where
  "well_formed_proposal p =
     (let stages = sort_key ps_position (pp_stages p); items = pp_work_items p in
      distinct (map ps_stage_id stages) \<and>
      (\<forall>n < length stages. proposal_stage_ok stages n) \<and>
      distinct (map wi_work_item_id items) \<and>
      list_all (work_item_ok p) items \<and>
      acyclic (awaits items) \<and>
      distinct (map cd_card_id (pp_execution_cards p)) \<and>
      distinct (concat (map wi_task_card_ids items)) \<and>
      set (concat (map wi_task_card_ids items)) = set (map cd_card_id (pp_execution_cards p)) \<and>
      list_all (card_of_item p) items \<and>
      distinct (map wi_current_instance_id items))"

lemma check_proposal_stage_Inr [monad]:
  "check_proposal_stage ids stages s = Inr u \<longleftrightarrow>
     (\<forall>d \<in> set (ps_depends_on s). d \<in> set (take (nat (ps_position s - 1)) ids) \<and>
        (\<exists>t. dict_by ps_stage_id stages d = Some t \<and> ps_type t = Image \<and> ps_type s = Ppt))"
  unfolding check_proposal_stage_def bindE_Inr_iff forE_Inr_iff subscript_Inr_iff guardE_Inr_iff
  by auto

lemma proposal_stages_iff:
  assumes dist: "distinct (map ps_stage_id stages)"
    and pos: "\<forall>n < length stages. ps_position (stages ! n) = int (Suc n)"
  shows "(\<forall>s \<in> set stages. check_proposal_stage (map ps_stage_id stages) stages s = Inr ()) \<longleftrightarrow>
    (\<forall>n < length stages. proposal_stage_ok stages n)"
proof -
  have "check_proposal_stage (map ps_stage_id stages) stages (stages ! n) = Inr () \<longleftrightarrow>
      proposal_stage_ok stages n" if n: "n < length stages" for n
  proof -
    have earlier: "nat (ps_position (stages ! n) - 1) = n" using pos n by simp
    have "d \<in> set (take n (map ps_stage_id stages)) \<and>
        (\<exists>t. dict_by ps_stage_id stages d = Some t \<and> ps_type t = Image \<and> ps_type (stages ! n) = Ppt)
      \<longleftrightarrow> (\<exists>m < n. ps_stage_id (stages ! m) = d \<and> ps_type (stages ! m) = Image \<and>
          ps_type (stages ! n) = Ppt)" for d
    proof -
      have "dict_by ps_stage_id stages (ps_stage_id (stages ! m)) = Some (stages ! m)" if "m < n" for m
        using that n by (intro dict_by_distinct [OF dist]) auto
      then show ?thesis using n by (auto simp: in_take_map)
    qed
    then show ?thesis
      unfolding check_proposal_stage_Inr earlier proposal_stage_ok_def Let_def using pos n by simp
  qed
  then show ?thesis by (auto simp: all_set_conv_all_nth)
qed

lemma check_work_item_Inr:
  assumes "distinct (map ps_stage_id stages)" and "set stages = set (pp_stages p)"
    and "items = pp_work_items p" and "task_id = pp_task_id p"
  shows "check_work_item task_id stages items w = Inr () \<longleftrightarrow>
    work_item_ok p w \<and> wi_work_item_id w \<notin> set (wi_depends_on w)"
proof -
  have "(case dict_by ps_stage_id stages (wi_stage_id w) of
        None \<Rightarrow> False | Some s \<Rightarrow> wi_agent_type w = ps_type s) \<longleftrightarrow>
      (\<exists>s. dict_by ps_stage_id stages (wi_stage_id w) = Some s \<and> ps_type s = wi_agent_type w)"
    by (auto split: option.splits)
  also have "\<dots> \<longleftrightarrow>
      (\<exists>s \<in> set (pp_stages p). ps_stage_id s = wi_stage_id w \<and> ps_type s = wi_agent_type w)"
    unfolding dict_by_iff_distinct [OF assms(1)] assms(2) by blast
  finally have "(case dict_by ps_stage_id stages (wi_stage_id w) of
        None \<Rightarrow> False | Some s \<Rightarrow> wi_agent_type w = ps_type s) \<longleftrightarrow>
      (\<exists>s \<in> set (pp_stages p). ps_stage_id s = wi_stage_id w \<and> ps_type s = wi_agent_type w)" .
  then show ?thesis
    by (cases "wi_current_instance_id w")
      (auto simp: check_work_item_def work_item_ok_def monad assms(3,4))
qed

lemma acyclic_not_own:
  "acyclic (awaits items) \<Longrightarrow> w \<in> set items \<Longrightarrow> wi_work_item_id w \<notin> set (wi_depends_on w)"
  by (auto simp: acyclic_def awaits_def)

lemma check_cards_of_iff:
  assumes "distinct (map cd_card_id (pp_execution_cards p))"
  shows "foldE (check_card_of (pp_task_id p) (pp_execution_cards p)) ws seen = Inr r \<longleftrightarrow>
    list_all (card_of_item p) ws \<and> distinct (map wi_current_instance_id ws) \<and>
    set (map wi_current_instance_id ws) \<inter> Some ` set seen = {} \<and>
    map Some r = rev (map wi_current_instance_id ws) @ map Some seen"
proof (induction ws arbitrary: seen)
  case Nil
  have "inj (Some :: string \<Rightarrow> _)" by simp
  then show ?case by auto
next
  case (Cons w ws)
  have "check_card_of (pp_task_id p) (pp_execution_cards p) w seen = Inr t \<longleftrightarrow>
      card_of_item p w \<and> wi_current_instance_id w \<notin> Some ` set seen \<and>
      (\<exists>i. wi_current_instance_id w = Some i \<and> t = i # seen)" for t
    by (auto simp: check_card_of_def card_of_item_def monad dict_by_iff_distinct [OF assms]
        split: list.splits)
  then show ?case by (auto simp: monad Cons.IH card_of_item_def)
qed

lemma validate_proposal_decides:
  "validate_plan_proposal schema_ok p task_id expected_revision = Inr () \<longleftrightarrow>
     schema_ok = Inr () \<and> pp_task_id p = task_id \<and> pp_revision p = expected_revision \<and>
     pp_status p = ''PENDING_CONFIRMATION'' \<and> pp_confirmed_at p = None \<and> well_formed_proposal p"
proof -
  let ?S = "sort_key ps_position (pp_stages p)"
  let ?W = "pp_work_items p"
  have items: "(\<forall>w \<in> set ?W. check_work_item (pp_task_id p) ?S ?W w = Inr ()) \<and>
      (\<exists>v. foldE (visit ?W []) (map wi_work_item_id ?W) [] = Inr v) \<longleftrightarrow>
      list_all (work_item_ok p) ?W \<and> acyclic (awaits ?W)"
    if "distinct (map ps_stage_id ?S)" "distinct (map wi_work_item_id ?W)"
  proof -
    have "(\<forall>w \<in> set ?W. check_work_item (pp_task_id p) ?S ?W w = Inr ()) \<longleftrightarrow>
        list_all (work_item_ok p) ?W \<and> (\<forall>w \<in> set ?W. wi_work_item_id w \<notin> set (wi_depends_on w))"
      unfolding list_all_iff by (auto simp: check_work_item_Inr [OF that(1), of p])
    moreover have "\<forall>w \<in> set ?W. set (wi_depends_on w) \<subseteq> wi_work_item_id ` set ?W"
      if "list_all (work_item_ok p) ?W" using that by (auto simp: list_all_iff work_item_ok_def)
    ultimately show ?thesis using visit_all_iff [OF that(2)] acyclic_not_own by blast
  qed
  have stages: "distinct (map ps_stage_id ?S) \<and> contiguous_from_one (map ps_position ?S) \<and>
      (\<forall>s \<in> set ?S. check_proposal_stage (map ps_stage_id ?S) ?S s = Inr ()) \<longleftrightarrow>
      distinct (map ps_stage_id ?S) \<and> (\<forall>n < length ?S. proposal_stage_ok ?S n)"
    unfolding contiguous_nth using proposal_stages_iff [of ?S] proposal_stage_ok_def by metis
  have cards: "(\<exists>r. foldE (check_card_of (pp_task_id p) (pp_execution_cards p)) ?W [] = Inr r) \<longleftrightarrow>
      list_all (card_of_item p) ?W \<and> distinct (map wi_current_instance_id ?W)"
    if "distinct (map cd_card_id (pp_execution_cards p))"
  proof -
    have "map Some (rev (map (the \<circ> wi_current_instance_id) ?W)) = rev (map wi_current_instance_id ?W)"
      if "list_all (card_of_item p) ?W"
      using that by (auto simp: rev_map [symmetric] list_all_iff card_of_item_def)
    then show ?thesis unfolding check_cards_of_iff [OF that] by auto
  qed
  show ?thesis
    unfolding validate_plan_proposal_def well_formed_proposal_def Let_def
      bindE_Inr_iff guardE_Inr_iff forE_Inr_iff
    using items stages cards by auto
qed

text \<open>
  C6. The checks of a proposal, in the order of the code, accept it exactly when it passes its schema, is
  the next pending revision of its task and is well formed: the depth-first search among them ends, and
  finds nothing exactly when the dependencies of the work items are acyclic.
\<close>

theorem validate_plan_proposal_iff:
  "validate_plan_proposal schema_ok p task_id expected_revision = Inr () \<longleftrightarrow>
     schema_ok = Inr () \<and> pp_task_id p = task_id \<and> pp_revision p = expected_revision \<and>
     pp_status p = ''PENDING_CONFIRMATION'' \<and> pp_confirmed_at p = None \<and> well_formed_proposal p"
  by (rule validate_proposal_decides)

end
