(* ===== verification/Master_Properties.thy ===== *)
theory Master_Properties imports Plan_Properties Master_Plan begin

text \<open>
  The two checks of a plan fit together: what \<open>validate_plan_proposal\<close> accepts and
  \<open>materialize_plan_proposal\<close> translates is, once normalised, a well-formed plan, so that only the
  JSON Schema of stored plans can still refuse it.
\<close>

section \<open>Refreshing a new plan\<close>

text \<open>In a plan whose stages are all pending, and whose instances are ready or unavailable, the loop
  that derives the stage statuses meets no undefined id and no forbidden transition.\<close>

definition startable :: "stage list \<Rightarrow> agent_instance list \<Rightarrow> stage \<Rightarrow> bool" where
  "startable ss iss s =
     (sg_status s = S_PENDING \<and> set (sg_depends_on s) \<subseteq> sg_stage_id ` set ss \<and>
      set (sg_instance_ids s) \<subseteq> in_instance_id ` set iss)"

lemma subscript_known: "k \<in> key ` set xs \<Longrightarrow> \<exists>x \<in> set xs. subscript (dict_by key xs) k = Inr x"
  using dict_by_None_iff [of key xs k]
  by (cases "dict_by key xs k") (auto simp: subscript_def dest: dict_by_Some)

lemma all_succeeded_known:
  "set ds \<subseteq> sg_stage_id ` set ss \<Longrightarrow> \<exists>b. all_succeeded (stages_by_id ss) ds = Inr b"
proof (induction ds)
  case (Cons d ds)
  obtain s where "subscript (stages_by_id ss) d = Inr s"
    using subscript_known [of d sg_stage_id ss] Cons.prems by auto
  moreover obtain b where "all_succeeded (stages_by_id ss) ds = Inr b" using Cons by auto
  ultimately have "all_succeeded (stages_by_id ss) (d # ds) = Inr (sg_status s = S_SUCCEEDED \<and> b)"
    by simp
  then show ?case ..
qed (auto intro: exI [of _ True])

lemma dependencies_known:
  assumes "set (sg_depends_on s) \<subseteq> sg_stage_id ` set ss"
  shows "\<exists>b. stage_dependencies_authorized s ss iss = Inr b"
  using all_succeeded_known [OF assms] by (auto simp: stage_dependencies_authorized_def Let_def)

lemma status_of_new:
  assumes "sg_status s = S_PENDING" and "\<forall>i \<in> set own. in_status i \<in> {I_READY, I_UNAVAILABLE}"
  shows "status_of_instances s own \<in> {S_PENDING, S_READY, S_UNAVAILABLE, S_SKIPPED}"
proof -
  have "\<not> list_ex (\<lambda>s. s \<in> set executing) (map in_status own)"
    "\<not> list_ex (\<lambda>i. finished (in_status i)) own"
    "\<not> list_ex (\<lambda>s. s \<in> set failed) (map in_status (filter in_required own))"
    "I_WAITING_APPROVAL \<notin> set (map in_status (filter in_required own))"
    using assms(2) by (auto simp: list_ex_iff executing_def finished_def failed_def)
  moreover have "\<not> (filter in_required own \<noteq> [] \<and>
      list_all (\<lambda>i. finished (in_status i)) (filter in_required own))"
    using assms(2) by (cases "filter in_required own") (auto simp: finished_def filter_eq_Cons_iff)
  ultimately show ?thesis using assms(1) unfolding status_of_instances_def Let_def by auto
qed

lemma refresh_new_stage:
  assumes "startable ss iss (ss ! n)"
    and "\<forall>i \<in> set iss. in_status i \<in> {I_READY, I_UNAVAILABLE}"
  shows "\<exists>x. refresh_stage now False n (ss, iss) = Inr (ss[n := (ss ! n)\<lparr>sg_status := x\<rparr>], iss)"
proof -
  have s: "sg_status (ss ! n) = S_PENDING" using assms(1) by (simp add: startable_def)
  obtain ready where ready: "stage_dependencies_authorized (ss ! n) ss iss = Inr ready"
    using dependencies_known assms(1) unfolding startable_def by blast
  have "\<exists>own. mapE (subscript (instances_by_id iss)) (sg_instance_ids (ss ! n)) = Inr own"
    using assms(1) subscript_known [of _ in_instance_id iss] unfolding startable_def
    by (intro mapE_succeeds) blast
  then obtain own where own: "mapE (subscript (instances_by_id iss)) (sg_instance_ids (ss ! n)) = Inr own" ..
  have "\<forall>i \<in> set own. in_status i \<in> {I_READY, I_UNAVAILABLE}"
    using assms(2) unfolding mapE_set [OF own]
    by (auto simp: subscript_def dest: dict_by_Some split: option.splits)
  note derived = status_of_new [OF s this]
  have "\<exists>x. aggregate_stage (ss ! n) ss iss = Inr x \<and> x \<in> {S_PENDING, S_READY, S_UNAVAILABLE, S_SKIPPED}"
  proof (cases "\<not> ready \<and> lc_first_activated_at (sg_lifecycle (ss ! n)) = None")
    case False
    then have "aggregate_stage (ss ! n) ss iss = Inr (status_of_instances (ss ! n) own)"
      using ready own s by (auto simp: aggregate_stage_def)
    then show ?thesis using derived by blast
  qed (use ready s in \<open>simp add: aggregate_stage_def\<close>)
  then obtain x where
    x: "aggregate_stage (ss ! n) ss iss = Inr x" "x \<in> {S_PENDING, S_READY, S_UNAVAILABLE, S_SKIPPED}"
    by blast
  have "x \<noteq> S_PENDING \<Longrightarrow> validate_stage_reaggregation S_PENDING x = Inr ()"
    using x(2) by (auto simp: validate_stage_reaggregation_def stage_transition_def transition_def)
  then show ?thesis using x(1) ready s by (auto simp: refresh_stage_Inr)
qed

lemma refresh_new_stages:
  assumes "distinct ns" and "\<forall>n \<in> set ns. n < length ss \<and> startable ss iss (ss ! n)"
    and "\<forall>i \<in> set iss. in_status i \<in> {I_READY, I_UNAVAILABLE}"
  shows "\<exists>b. foldE (refresh_stage now False) ns (ss, iss) = Inr b"
  using assms(1,2)
proof (induction ns arbitrary: ss)
  case (Cons n ns)
  obtain x where x: "refresh_stage now False n (ss, iss) = Inr (ss[n := (ss ! n)\<lparr>sg_status := x\<rparr>], iss)"
    using refresh_new_stage [of ss iss n now] assms(3) Cons.prems(2) by auto
  let ?t = "ss[n := (ss ! n)\<lparr>sg_status := x\<rparr>]"
  have "map sg_stage_id ?t = map sg_stage_id ss"
    using Cons.prems(2) by (simp add: map_update list_update_same_conv)
  then have "sg_stage_id ` set ?t = sg_stage_id ` set ss" by (metis set_map)
  moreover have "?t ! m = ss ! m" if "m \<in> set ns" for m using that Cons.prems(1) by (metis distinct.simps(2) nth_list_update_neq)
  ultimately have "\<forall>m \<in> set ns. m < length ?t \<and> startable ?t iss (?t ! m)"
    using Cons.prems(2) by (auto simp: startable_def)
  then obtain b where "foldE (refresh_stage now False) ns (?t, iss) = Inr b"
    using Cons.IH [of ?t] Cons.prems(1) by auto
  then show ?case using x by simp
qed simp

text \<open>A refresh that only sets the stage statuses keeps a plan well formed.\<close>

lemma only_status_fields:
  "only_status s t \<Longrightarrow> sg_stage_id t = sg_stage_id s \<and> sg_task_id t = sg_task_id s \<and>
     sg_position t = sg_position s \<and> sg_type t = sg_type s \<and> sg_depends_on t = sg_depends_on s \<and>
     sg_instance_ids t = sg_instance_ids s"
  unfolding only_status_def by (cases s; cases t) simp

lemma list_all2_same_map:
  "list_all2 P xs ys \<Longrightarrow> (\<And>x y. P x y \<Longrightarrow> f y = f x) \<Longrightarrow> map f ys = map f xs"
  by (induction rule: list_all2_induct) auto

lemma refresh_keeps_well_formed:
  assumes "well_formed_plan plan" and "refresh_stages now False plan = Inr plan'"
  shows "well_formed_plan plan'"
proof -
  note same = refresh_False [OF assms(2)] refresh_stages_evolves(2,3) [OF assms(2)]
  have maps: "map sg_stage_id (pl_stages plan') = map sg_stage_id (pl_stages plan)"
    "map sg_instance_ids (pl_stages plan') = map sg_instance_ids (pl_stages plan)"
    "map (\<lambda>s. (sg_stage_id s, sg_type s)) (pl_stages plan') =
       map (\<lambda>s. (sg_stage_id s, sg_type s)) (pl_stages plan)"
    by (rule list_all2_same_map [OF same(1)], use only_status_fields in blast)+
  have "stage_ok plan' n" if "n < length (pl_stages plan')" for n
  proof -
    have field: "only_status (pl_stages plan ! m) (pl_stages plan' ! m)" if "m \<le> n" for m
      using list_all2_nthD2 [OF same(1)] that \<open>n < length (pl_stages plan')\<close> by simp
    have "stage_ok plan n"
      using assms(1) that list_all2_lengthD [OF same(1)] by (simp add: well_formed_plan_def)
    then show ?thesis
      using only_status_fields [OF field] same(3) unfolding stage_ok_def Let_def
      by (metis (no_types, lifting) nat_less_le order_refl)
  qed
  moreover have "instance_ok plan' = instance_ok plan"
  proof -
    have "instance_ok x = (\<lambda>i. in_task_id i = tk_task_id (pl_task x) \<and>
        (in_stage_id i, in_agent_type i) \<in> set (map (\<lambda>s. (sg_stage_id s, sg_type s)) (pl_stages x)))"
      for x by (force simp: instance_ok_def fun_eq_iff)
    then show ?thesis using maps(3) same(3) by presburger
  qed
  moreover have "card_ok plan' = card_ok plan"
    by (simp add: card_ok_def same(2,3) fun_eq_iff)
  ultimately show ?thesis
    using assms(1) unfolding well_formed_plan_def same(2,4) maps by (simp add: list_all_iff)
qed

section \<open>The plan of an accepted proposal\<close>

text \<open>What \<open>normalize_plan\<close> makes of the translation before it derives the stage statuses.\<close>

definition proposed_plan :: "string \<Rightarrow> main_task \<Rightarrow> int \<Rightarrow> plan_proposal \<Rightarrow> task_plan" where
  "proposed_plan now task plan_revision p =
     (let task_id = tk_task_id task; items = pp_work_items p in
      \<lparr>pl_task = task\<lparr>tk_status := T_PLANNED, tk_plan_revision := plan_revision, tk_updated_at := now\<rparr>,
       pl_stages = map (\<lambda>s. normalize_stage task_id (stage_of_proposal items s))
         (sort_key ps_position (pp_stages p)),
       pl_instances = map (\<lambda>w. normalize_instance task_id now (instance_of_item w (current_instance w))) items,
       pl_task_cards = map (normalize_card task_id now) (pp_execution_cards p)\<rparr>)"

lemma proposed_ids [simp]:
  "sg_stage_id (normalize_stage t (stage_of_proposal ws s)) = ps_stage_id s"
  "sg_position (normalize_stage t (stage_of_proposal ws s)) = ps_position s"
  "sg_type (normalize_stage t (stage_of_proposal ws s)) = ps_type s"
  "sg_depends_on (normalize_stage t (stage_of_proposal ws s)) = ps_depends_on s"
  "sg_task_id (normalize_stage t (stage_of_proposal ws s)) = t"
  "sg_status (normalize_stage t (stage_of_proposal ws s)) = S_PENDING"
  "sg_instance_ids (normalize_stage t (stage_of_proposal ws s)) =
     map current_instance (filter (\<lambda>w. wi_stage_id w = ps_stage_id s) ws)"
  "in_instance_id (normalize_instance t now (instance_of_item w i)) = i"
  "in_stage_id (normalize_instance t now (instance_of_item w i)) = wi_stage_id w"
  "in_agent_type (normalize_instance t now (instance_of_item w i)) = wi_agent_type w"
  "in_task_id (normalize_instance t now (instance_of_item w i)) = t"
  "cd_card_id (normalize_card t now c) = cd_card_id c"
  "cd_instance_id (normalize_card t now c) = cd_instance_id c"
  "cd_stage_id (normalize_card t now c) = cd_stage_id c"
  "cd_agent_type (normalize_card t now c) = cd_agent_type c"
  "cd_task_id (normalize_card t now c) = t"
  by (simp_all add: normalize_stage_def stage_of_proposal_def normalize_instance_def
      instance_of_item_def normalize_card_def)

text \<open>Grouping the work items by their stage lists every one of them once.\<close>

lemma grouped_set:
  assumes "\<forall>w \<in> set ws. g w \<in> set ks"
  shows "set (concat (map (\<lambda>k. map h (filter (\<lambda>w. g w = k) ws)) ks)) = h ` set ws"
  using assms by auto

lemma grouped_distinct:
  assumes "distinct ks" and "distinct (map h ws)"
  shows "distinct (concat (map (\<lambda>k. map h (filter (\<lambda>w. g w = k) ws)) ks))"
  using assms(1)
proof (induction ks)
  case (Cons k ks)
  have inj: "inj_on h (set ws)" using assms(2) by (simp add: distinct_map)
  have "h w \<noteq> h v" if "w \<in> set ws" "v \<in> set ws" "g w \<noteq> g v" for w v
    using inj_onD [OF inj _ that(1,2)] that(3) by auto
  moreover have "distinct (map h (filter (\<lambda>w. g w = k) ws))"
    using assms(2) by (simp add: distinct_map_filter)
  ultimately show ?case using Cons by fastforce
qed simp

lemma well_formed_current:
  assumes "well_formed_proposal p" and "w \<in> set (pp_work_items p)"
  shows "wi_current_instance_id w = Some (current_instance w)"
  using assms
  by (auto simp: well_formed_proposal_def Let_def list_all_iff work_item_ok_def current_instance_def)

lemma well_formed_stage:
  assumes "well_formed_proposal p" and "w \<in> set (pp_work_items p)"
  shows "wi_stage_id w \<in> ps_stage_id ` set (pp_stages p)"
proof -
  have "work_item_ok p w" using assms by (simp add: well_formed_proposal_def Let_def list_all_iff)
  then show ?thesis by (auto simp: work_item_ok_def image_iff intro: sym)
qed

lemma well_formed_instances:
  assumes "well_formed_proposal p"
  shows "distinct (map current_instance (pp_work_items p))"
proof -
  have "map wi_current_instance_id (pp_work_items p) =
      map Some (map current_instance (pp_work_items p))"
    using well_formed_current [OF assms] by simp
  moreover have "distinct (map wi_current_instance_id (pp_work_items p))"
    using assms unfolding well_formed_proposal_def Let_def by blast
  ultimately show ?thesis by (metis distinct_map)
qed

text \<open>The cards of an accepted proposal are those of its work items.\<close>

lemma item_of_card:
  assumes "well_formed_proposal p" and "c \<in> set (pp_execution_cards p)"
  obtains w where "w \<in> set (pp_work_items p)" "wi_task_card_ids w = [cd_card_id c]"
    "cd_instance_id c = current_instance w" "cd_stage_id c = wi_stage_id w"
    "cd_agent_type c = wi_agent_type w"
proof -
  have "cd_card_id c \<in> set (concat (map wi_task_card_ids (pp_work_items p)))"
    using assms unfolding well_formed_proposal_def Let_def by simp
  then obtain w where w: "w \<in> set (pp_work_items p)" "cd_card_id c \<in> set (wi_task_card_ids w)" by auto
  moreover obtain d where d: "d \<in> set (pp_execution_cards p)" "wi_task_card_ids w = [cd_card_id d]"
    "cd_stage_id d = wi_stage_id w" "cd_agent_type d = wi_agent_type w"
    "wi_current_instance_id w = Some (cd_instance_id d)"
    using assms(1) w(1) unfolding well_formed_proposal_def Let_def list_all_iff card_of_item_def by blast
  moreover have "inj_on cd_card_id (set (pp_execution_cards p))"
    using assms(1) unfolding well_formed_proposal_def Let_def by (simp add: distinct_map)
  then have "d = c" using inj_onD [of cd_card_id _ d c] d(1,2) assms(2) w(2) by simp
  ultimately show ?thesis using that [of w] well_formed_current [OF assms(1) w(1)] by auto
qed

lemma well_formed_cards:
  assumes "well_formed_proposal p"
  shows "distinct (map cd_instance_id (pp_execution_cards p))"
    and "cd_instance_id ` set (pp_execution_cards p) = current_instance ` set (pp_work_items p)"
proof -
  have wf: "distinct (map cd_card_id (pp_execution_cards p))" "list_all (card_of_item p) (pp_work_items p)"
    "inj_on current_instance (set (pp_work_items p))"
    using assms well_formed_instances [OF assms] by (auto simp: well_formed_proposal_def Let_def distinct_map)
  have "c = d" if c: "c \<in> set (pp_execution_cards p)" and d: "d \<in> set (pp_execution_cards p)"
    and same: "cd_instance_id c = cd_instance_id d" for c d
  proof -
    obtain v where v: "v \<in> set (pp_work_items p)" "wi_task_card_ids v = [cd_card_id c]"
      "cd_instance_id c = current_instance v" by (rule item_of_card [OF assms c])
    obtain w where w: "w \<in> set (pp_work_items p)" "wi_task_card_ids w = [cd_card_id d]"
      "cd_instance_id d = current_instance w" by (rule item_of_card [OF assms d])
    have "v = w" using inj_onD [OF wf(3)] v(1,3) w(1,3) same by simp
    then have "cd_card_id c = cd_card_id d" using v(2) w(2) by simp
    then show ?thesis using wf(1) c d by (auto simp: distinct_map dest: inj_onD)
  qed
  then show "distinct (map cd_instance_id (pp_execution_cards p))"
    using wf(1) by (auto simp: distinct_map intro: inj_onI)
  show "cd_instance_id ` set (pp_execution_cards p) = current_instance ` set (pp_work_items p)"
  proof
    show "cd_instance_id ` set (pp_execution_cards p) \<subseteq> current_instance ` set (pp_work_items p)"
      by (auto elim: item_of_card [OF assms])
    show "current_instance ` set (pp_work_items p) \<subseteq> cd_instance_id ` set (pp_execution_cards p)"
      using wf(2) well_formed_current [OF assms] unfolding list_all_iff card_of_item_def by fastforce
  qed
qed

lemma proposed_plan_well_formed:
  assumes "well_formed_proposal p"
  shows "well_formed_plan (proposed_plan now task revision p)"
proof -
  let ?S = "sort_key ps_position (pp_stages p)"
  let ?W = "pp_work_items p"
  let ?q = "proposed_plan now task revision p"
  have wf: "distinct (map ps_stage_id ?S)" "\<forall>n < length ?S. proposal_stage_ok ?S n"
    "list_all (work_item_ok p) ?W"
    using assms unfolding well_formed_proposal_def Let_def by blast+
  have groups: "map sg_instance_ids (pl_stages ?q) =
      map (\<lambda>k. map current_instance (filter (\<lambda>w. wi_stage_id w = k) ?W)) (map ps_stage_id ?S)"
    by (simp add: proposed_plan_def Let_def)
  have stage_of: "wi_stage_id w \<in> set (map ps_stage_id ?S)" if "w \<in> set ?W" for w
    using well_formed_stage [OF assms that] by simp
  have ids: "map in_instance_id (pl_instances ?q) = map current_instance ?W"
    "map cd_instance_id (pl_task_cards ?q) = map cd_instance_id (pp_execution_cards p)"
    "map sg_stage_id (pl_stages ?q) = map ps_stage_id ?S"
    by (simp_all add: proposed_plan_def Let_def)
  have referenced: "set (concat (map sg_instance_ids (pl_stages ?q))) = set (map current_instance ?W)"
    unfolding groups using grouped_set [of ?W wi_stage_id] stage_of by (metis set_map)
  have distinct: "distinct (concat (map sg_instance_ids (pl_stages ?q)))"
    unfolding groups by (rule grouped_distinct [OF wf(1) well_formed_instances [OF assms]])
  have stages: "\<forall>n < length (pl_stages ?q). stage_ok ?q n"
    using wf(2) by (auto simp: stage_ok_def proposal_stage_ok_def proposed_plan_def Let_def; fastforce)
  have instances: "list_all (instance_ok ?q) (pl_instances ?q)"
    using wf(3) by (auto simp: list_all_iff instance_ok_def work_item_ok_def proposed_plan_def Let_def)
  have cards: "list_all (card_ok ?q) (pl_task_cards ?q)"
    by (auto simp: list_all_iff card_ok_def proposed_plan_def Let_def elim!: item_of_card [OF assms])
  show ?thesis
    unfolding well_formed_plan_def ids referenced
    using wf(1) stages instances cards distinct well_formed_instances [OF assms]
      well_formed_cards [OF assms] by simp
qed

lemma proposed_plan_startable:
  assumes "well_formed_proposal p" and "s \<in> set (pl_stages (proposed_plan now task revision p))"
  shows "startable (pl_stages (proposed_plan now task revision p))
     (pl_instances (proposed_plan now task revision p)) s"
proof -
  let ?q = "proposed_plan now task revision p"
  note wf = proposed_plan_well_formed [OF assms(1), of now task revision]
  obtain n where n: "n < length (pl_stages ?q)" "s = pl_stages ?q ! n"
    using assms(2) by (metis in_set_conv_nth)
  have ok: "stage_ok ?q n" using wf n(1) by (simp add: well_formed_plan_def)
  have "d \<in> sg_stage_id ` set (pl_stages ?q)" if "d \<in> set (sg_depends_on s)" for d
  proof -
    have "\<exists>m < n. sg_stage_id (pl_stages ?q ! m) = d"
      using ok that unfolding stage_ok_def Let_def n(2) [symmetric] by blast
    then obtain m where m: "m < n" "sg_stage_id (pl_stages ?q ! m) = d" by blast
    have "pl_stages ?q ! m \<in> set (pl_stages ?q)" using m(1) n(1) by simp
    then show ?thesis using m(2) by blast
  qed
  moreover have "set (sg_instance_ids s) \<subseteq> in_instance_id ` set (pl_instances ?q)"
    using wf assms(2) unfolding well_formed_plan_def by auto
  moreover have "sg_status s = S_PENDING" using assms(2) by (auto simp: proposed_plan_def Let_def)
  ultimately show ?thesis unfolding startable_def by blast
qed

lemma proposed_plan_instances:
  "\<forall>i \<in> set (pl_instances (proposed_plan now task revision p)). in_status i \<in> {I_READY, I_UNAVAILABLE}"
  by (auto simp: proposed_plan_def Let_def normalize_instance_def)

lemma validate_of_well_formed:
  "well_formed_plan plan \<Longrightarrow>
   validate_plan contracts plan = contracts_validate contracts ''task-plan'' (P_plan plan)"
  using validate_plan_decides [of contracts plan]
  by (cases "contracts_validate contracts ''task-plan'' (P_plan plan)") (auto simp: validate_plan_def)

section \<open>Accepted proposals\<close>

text \<open>
  C7. A proposal that the Master's checks accept translates, and what \<open>save_plan\<close> normalises of it is
  a well-formed plan of the task: of all the checks of \<open>validate_plan\<close> only the JSON Schema of stored
  plans can refuse it.
\<close>

theorem accepted_proposal_makes_plan:
  assumes "validate_plan_proposal schema_ok p (tk_task_id task) expected_revision = Inr ()"
  shows "\<exists>stages instances cards plan.
      materialize_plan_proposal p = Inr (stages, instances, cards) \<and> well_formed_plan plan \<and>
      map in_instance_id (pl_instances plan) = map current_instance (pp_work_items p) \<and>
      normalize_plan contracts now task revision stages instances cards =
        bindE (contracts_validate contracts ''task-plan'' (P_plan plan)) (\<lambda>_. Inr plan)"
proof -
  have wf: "well_formed_proposal p" using assms by (simp add: validate_proposal_decides)
  let ?q = "proposed_plan now task revision p"
  let ?S = "sort_key ps_position (pp_stages p)"
  let ?raw = "map (stage_of_proposal (pp_work_items p)) ?S"
  let ?is = "map (\<lambda>w. instance_of_item w (current_instance w)) (pp_work_items p)"
  have materialized: "materialize_plan_proposal p = Inr (?raw, ?is, pp_execution_cards p)"
    using well_formed_stage [OF wf] by (auto simp: materialize_plan_proposal_def monad)
  have startable: "\<forall>n \<in> set (by_position (pl_stages ?q)). n < length (pl_stages ?q) \<and>
      startable (pl_stages ?q) (pl_instances ?q) (pl_stages ?q ! n)"
    using proposed_plan_startable [OF wf] by simp
  moreover have "distinct (by_position (pl_stages ?q))" by (simp add: by_position_def)
  ultimately obtain plan where plan: "refresh_stages now False ?q = Inr plan"
    using refresh_new_stages [OF _ startable proposed_plan_instances, of now]
    by (auto simp: refresh_stages_def)
  have plan_ok: "well_formed_plan plan"
    by (rule refresh_keeps_well_formed [OF proposed_plan_well_formed [OF wf] plan])
  have "sort_key sg_position ?raw = ?raw"
    by (rule sort_key_id_if_sorted) (simp add: stage_of_proposal_def o_def)
  then have "normalize_plan contracts now task revision ?raw ?is (pp_execution_cards p) =
      bindE (refresh_stages now False ?q) (\<lambda>plan. bindE (validate_plan contracts plan) (\<lambda>_. Inr plan))"
    by (simp add: normalize_plan_def Let_def proposed_plan_def o_def)
  also have "\<dots> = bindE (contracts_validate contracts ''task-plan'' (P_plan plan)) (\<lambda>_. Inr plan)"
    unfolding plan by (simp add: validate_of_well_formed [OF plan_ok])
  finally have normal: "normalize_plan contracts now task revision ?raw ?is (pp_execution_cards p) = \<dots>" .
  have ids: "map in_instance_id (pl_instances plan) = map current_instance (pp_work_items p)"
    unfolding refresh_False(2) [OF plan] by (simp add: proposed_plan_def Let_def o_def)
  show ?thesis by (intro exI conjI) (rule materialized plan_ok ids normal)+
qed

end
