(* ===== verification/Plan_Draft.thy ===== *)
theory Plan_Draft imports Master_Plan begin

text \<open>
  \<^verbatim>\<open>backend/harness/services/plan_drafts.py\<close>: the deterministic translation of the semantic plan
  that the language model drafts into a plan proposal. The SHA-256 hexadecimal digest of a text and
  the JSON text of the parameters of a card are arguments, the first written \<open>digest\<close> and the
  second \<open>json\<close>. The titles, which no modelled code reads, are left out.
\<close>

section \<open>Drafts\<close>

record stage_draft =
  sd_type :: agent_type
  sd_required :: bool
  sd_objective :: string
  sd_instructions :: "string list"
  sd_input_asset_ids :: "string list"
  sd_expected_deliveries :: "expected_delivery list"
  sd_parameters :: "(string \<times> string option) list"

text \<open>\<open>PlanDraftValidationError\<close>: schema, path and reason.\<close>

record draft_error =
  de_schema :: string
  de_path :: string
  de_reason :: string

definition invalid_draft :: "string \<Rightarrow> string \<Rightarrow> draft_error" where
  "invalid_draft path reason = \<lparr>de_schema = ''plan-draft'', de_path = path, de_reason = reason\<rparr>"

definition max_image_stages :: nat where
  "max_image_stages = 6"

section \<open>Identifiers\<close>

text \<open>\<open>"\0".join(parts)\<close>.\<close>

fun join_nul :: "string list \<Rightarrow> string" where
  "join_nul [] = []"
| "join_nul [p] = p"
| "join_nul (p # q # ps) = p @ CHR 0x00 # join_nul (q # ps)"

definition draft_identifier :: "(string \<Rightarrow> string) \<Rightarrow> string \<Rightarrow> string list \<Rightarrow> string" where
  "draft_identifier digest prefix parts = prefix @ ''_'' @ take 32 (digest (join_nul parts))"

definition positioned :: "string \<Rightarrow> int \<Rightarrow> nat \<Rightarrow> string list" where
  "positioned task_id revision position = [task_id, show_int revision, show_nat position]"

section \<open>The loop over the drafted stages\<close>

text \<open>The stage before: its stage id, type and work item id.\<close>

type_synonym previous = "(string \<times> agent_type \<times> string) option"

definition follows_image :: "previous \<Rightarrow> stage_draft \<Rightarrow> bool" where
  "follows_image previous d =
     (case previous of None \<Rightarrow> False | Some (_, t, _) \<Rightarrow> t = Image \<and> sd_type d = Ppt)"

definition drafted_stage ::
  "(string \<Rightarrow> string) \<Rightarrow> string \<Rightarrow> int \<Rightarrow> nat \<Rightarrow> previous \<Rightarrow> stage_draft \<Rightarrow> proposal_stage" where
  "drafted_stage digest task_id revision position previous d =
     \<lparr>ps_stage_id = draft_identifier digest ''stage'' (positioned task_id revision position),
      ps_type = sd_type d, ps_position = int position,
      ps_depends_on = (if follows_image previous d then [fst (the previous)] else []),
      ps_required = sd_required d\<rparr>"

definition drafted_item ::
  "(string \<Rightarrow> string) \<Rightarrow> string \<Rightarrow> int \<Rightarrow> nat \<Rightarrow> previous \<Rightarrow> stage_draft \<Rightarrow> work_item" where
  "drafted_item digest task_id revision position previous d =
     (let instance_id = draft_identifier digest ''instance'' (positioned task_id revision position) in
      \<lparr>wi_work_item_id = draft_identifier digest ''work'' (positioned task_id revision position),
       wi_task_id = task_id,
       wi_stage_id = draft_identifier digest ''stage'' (positioned task_id revision position),
       wi_agent_type = sd_type d, wi_required = sd_required d,
       wi_depends_on = (if follows_image previous d then [snd (snd (the previous))] else []),
       wi_current_instance_id = Some instance_id, wi_instance_ids = [instance_id],
       wi_task_card_ids = [draft_identifier digest ''card'' (positioned task_id revision position)]\<rparr>)"

definition drafted_card ::
  "(string \<Rightarrow> string) \<Rightarrow> ((string \<times> string) list \<Rightarrow> string) \<Rightarrow> string \<Rightarrow> int \<Rightarrow> string \<Rightarrow> nat \<Rightarrow>
   stage_draft \<Rightarrow> task_card" where
  "drafted_card digest json task_id revision created_at position d =
     \<lparr>cd_schema_version = Some ''1.1'',
      cd_card_id = draft_identifier digest ''card'' (positioned task_id revision position), cd_revision = 1,
      cd_task_id = task_id,
      cd_stage_id = draft_identifier digest ''stage'' (positioned task_id revision position),
      cd_instance_id = draft_identifier digest ''instance'' (positioned task_id revision position),
      cd_agent_type = sd_type d, cd_objective = sd_objective d, cd_instructions = sd_instructions d,
      cd_input_assets = map (\<lambda>a. (a, ''inputs/manifests/'' @ a @ ''.json'')) (sd_input_asset_ids d),
      cd_expected_deliveries = sd_expected_deliveries d,
      cd_parameters = json [(key, v). (key, Some v) \<leftarrow> sd_parameters d], cd_retry_group_id = None,
      cd_created_at = Some created_at\<rparr>"

fun draft_loop ::
  "(string \<Rightarrow> string) \<Rightarrow> ((string \<times> string) list \<Rightarrow> string) \<Rightarrow> string \<Rightarrow> int \<Rightarrow> string \<Rightarrow> string set \<Rightarrow>
   nat \<Rightarrow> previous \<Rightarrow> stage_draft list \<Rightarrow>
   draft_error + proposal_stage list \<times> work_item list \<times> task_card list" where
  "draft_loop digest json task_id revision created_at asset_ids position previous [] = Inr ([], [], [])"
| "draft_loop digest json task_id revision created_at asset_ids position previous (d # ds) =
     bindE (guardE (set (sd_input_asset_ids d) \<subseteq> asset_ids)
       (invalid_draft (''stages.'' @ show_nat (position - 1) @ ''.input_asset_ids'')
         ''unknown_asset_reference'')) (\<lambda>_.
     let stage = drafted_stage digest task_id revision position previous d;
         item = drafted_item digest task_id revision position previous d;
         card = drafted_card digest json task_id revision created_at position d in
     bindE (draft_loop digest json task_id revision created_at asset_ids (Suc position)
         (Some (ps_stage_id stage, sd_type d, wi_work_item_id item)) ds) (\<lambda>(ss, ws, cs).
     Inr (stage # ss, item # ws, card # cs)))"

definition materialize_plan_draft ::
  "(string \<Rightarrow> string) \<Rightarrow> ((string \<times> string) list \<Rightarrow> string) \<Rightarrow> string \<Rightarrow> int \<Rightarrow> stage_draft list \<Rightarrow>
   string \<Rightarrow> string set \<Rightarrow> draft_error + plan_proposal" where
  "materialize_plan_draft digest json task_id revision stages created_at asset_ids =
     bindE (guardE (list_all (\<lambda>d. sd_type d \<in> {General, Image, Ppt}) stages)
       (invalid_draft ''stages'' ''unsupported_topology'')) (\<lambda>_.
     bindE (guardE (length (filter (\<lambda>d. sd_type d = Image) stages) \<le> max_image_stages)
       (invalid_draft ''stages'' ''too_many_image_stages'')) (\<lambda>_.
     bindE (draft_loop digest json task_id revision created_at asset_ids 1 None stages)
       (\<lambda>(ss, ws, cs).
     Inr \<lparr>pp_task_id = task_id, pp_revision = revision, pp_status = ''PENDING_CONFIRMATION'',
          pp_stages = ss, pp_work_items = ws, pp_execution_cards = cs, pp_confirmed_at = None\<rparr>)))"

section \<open>What the loop builds\<close>

text \<open>The stage drafted at an index, counted from zero, knows only the one before it.\<close>

definition previous_at :: "(string \<Rightarrow> string) \<Rightarrow> string \<Rightarrow> int \<Rightarrow> stage_draft list \<Rightarrow> nat \<Rightarrow> previous" where
  "previous_at digest task_id revision ds k =
     (if k = 0 then None
      else Some (draft_identifier digest ''stage'' (positioned task_id revision k), sd_type (ds ! (k - 1)),
                 draft_identifier digest ''work'' (positioned task_id revision k)))"

lemma draft_loop_Inr:
  "k \<le> length ds \<Longrightarrow>
   draft_loop digest json task_id revision created_at asset_ids (Suc k)
     (previous_at digest task_id revision ds k) (drop k ds) = Inr (ss, ws, cs) \<Longrightarrow>
   ss = map (\<lambda>j. drafted_stage digest task_id revision (Suc j)
     (previous_at digest task_id revision ds j) (ds ! j)) [k..<length ds] \<and>
   ws = map (\<lambda>j. drafted_item digest task_id revision (Suc j)
     (previous_at digest task_id revision ds j) (ds ! j)) [k..<length ds] \<and>
   cs = map (\<lambda>j. drafted_card digest json task_id revision created_at (Suc j) (ds ! j)) [k..<length ds]"
proof (induction "length ds - k" arbitrary: k ss ws cs)
  case 0
  then show ?case by simp
next
  case (Suc m)
  then have k: "k < length ds" by simp
  have prev: "Some (ps_stage_id (drafted_stage digest task_id revision (Suc k) x (ds ! k)), sd_type (ds ! k),
      wi_work_item_id (drafted_item digest task_id revision (Suc k) y (ds ! k))) =
      previous_at digest task_id revision ds (Suc k)" for x y
    by (simp add: previous_at_def drafted_stage_def drafted_item_def Let_def)
  obtain ss' ws' cs' where rest: "draft_loop digest json task_id revision created_at asset_ids (Suc (Suc k))
      (previous_at digest task_id revision ds (Suc k)) (drop (Suc k) ds) = Inr (ss', ws', cs')"
    "ss = drafted_stage digest task_id revision (Suc k) (previous_at digest task_id revision ds k) (ds ! k) # ss'"
    "ws = drafted_item digest task_id revision (Suc k) (previous_at digest task_id revision ds k) (ds ! k) # ws'"
    "cs = drafted_card digest json task_id revision created_at (Suc k) (ds ! k) # cs'"
    using Suc.prems(2) unfolding Cons_nth_drop_Suc [OF k, symmetric] draft_loop.simps Let_def prev
    by (auto simp: monad split: prod.splits)
  from Suc.hyps(1) [OF _ _ rest(1)] Suc.hyps(2) k rest(2-4) show ?case
    by (simp add: upt_conv_Cons)
qed

text \<open>The identifiers of one kind are distinct when the digests of the positions are.\<close>

lemma identifiers_distinct:
  assumes "inj_on (\<lambda>k. take 32 (digest (join_nul (positioned task_id revision k)))) {1..n}"
  shows "distinct (map (\<lambda>j. draft_identifier digest prefix (positioned task_id revision (Suc j))) [0..<n])"
  unfolding distinct_map
proof
  show "inj_on (\<lambda>j. draft_identifier digest prefix (positioned task_id revision (Suc j))) (set [0..<n])"
  proof (rule inj_onI)
    fix i j
    assume "i \<in> set [0..<n]" "j \<in> set [0..<n]"
      "draft_identifier digest prefix (positioned task_id revision (Suc i)) =
       draft_identifier digest prefix (positioned task_id revision (Suc j))"
    then show "i = j" using inj_onD [OF assms, of "Suc i" "Suc j"] by (simp add: draft_identifier_def)
  qed
qed simp

lemma materialize_plan_draft_Inr:
  assumes "materialize_plan_draft digest json task_id revision ds created_at asset_ids = Inr p"
  shows "p = \<lparr>pp_task_id = task_id, pp_revision = revision, pp_status = ''PENDING_CONFIRMATION'',
     pp_stages = map (\<lambda>j. drafted_stage digest task_id revision (Suc j)
       (previous_at digest task_id revision ds j) (ds ! j)) [0..<length ds],
     pp_work_items = map (\<lambda>j. drafted_item digest task_id revision (Suc j)
       (previous_at digest task_id revision ds j) (ds ! j)) [0..<length ds],
     pp_execution_cards = map (\<lambda>j. drafted_card digest json task_id revision created_at (Suc j) (ds ! j))
       [0..<length ds],
     pp_confirmed_at = None\<rparr>"
proof -
  obtain ss ws cs where loop: "draft_loop digest json task_id revision created_at asset_ids 1 None ds =
      Inr (ss, ws, cs)"
    "p = \<lparr>pp_task_id = task_id, pp_revision = revision, pp_status = ''PENDING_CONFIRMATION'',
      pp_stages = ss, pp_work_items = ws, pp_execution_cards = cs, pp_confirmed_at = None\<rparr>"
    using assms unfolding materialize_plan_draft_def by (auto simp: monad split: prod.splits)
  have "draft_loop digest json task_id revision created_at asset_ids (Suc 0)
      (previous_at digest task_id revision ds 0) (drop 0 ds) = Inr (ss, ws, cs)"
    using loop(1) by (simp add: previous_at_def)
  from draft_loop_Inr [OF _ this] loop(2) show ?thesis by simp
qed

lemma drafted_stage_ok:
  assumes "j < length ds"
  shows "proposal_stage_ok (map (\<lambda>j. drafted_stage digest task_id revision (Suc j)
    (previous_at digest task_id revision ds j) (ds ! j)) [0..<length ds]) j"
proof -
  let ?ss = "map (\<lambda>j. drafted_stage digest task_id revision (Suc j)
    (previous_at digest task_id revision ds j) (ds ! j)) [0..<length ds]"
  have nth: "?ss ! m = drafted_stage digest task_id revision (Suc m)
      (previous_at digest task_id revision ds m) (ds ! m)" if "m < length ds" for m
    using that by simp
  have "\<exists>m < j. ps_stage_id (?ss ! m) = d \<and> ps_type (?ss ! m) = Image \<and> ps_type (?ss ! j) = Ppt"
    if "d \<in> set (ps_depends_on (?ss ! j))" for d
  proof -
    have "0 < j" "ps_stage_id (?ss ! (j - 1)) = d" "ps_type (?ss ! (j - 1)) = Image" "ps_type (?ss ! j) = Ppt"
      using that assms
      by (auto simp: nth drafted_stage_def follows_image_def previous_at_def split: if_splits)
    then show ?thesis by (intro exI [of _ "j - 1"]) simp
  qed
  moreover have "ps_position (?ss ! j) = int (Suc j)" using assms by (simp add: drafted_stage_def)
  ultimately show ?thesis unfolding proposal_stage_ok_def Let_def by blast
qed

text \<open>Work items are numbered, and one waits only for the one before.\<close>

lemma numbered_acyclic:
  assumes "inj_on f {..<n}" and "\<And>j. j < n \<Longrightarrow> wi_work_item_id (g j) = f j"
    and "\<And>j d. j < n \<Longrightarrow> d \<in> set (wi_depends_on (g j)) \<Longrightarrow> 0 < j \<and> d = f (j - 1)"
  shows "acyclic (awaits (map g [0..<n]))"
proof (rule acyclicI_order [of _ "\<lambda>i. inv_into {..<n} f i"])
  fix i d
  assume "(i, d) \<in> awaits (map g [0..<n])"
  then obtain j where j: "j < n" "i = f j" "d \<in> set (wi_depends_on (g j))"
    using assms(2) by (auto simp: awaits_def)
  then have "0 < j" "d = f (j - 1)" using assms(3) by auto
  moreover have "inv_into {..<n} f (f k) = k" if "k < n" for k
    using inv_into_f_f [OF assms(1)] that by simp
  ultimately show "inv_into {..<n} f d < inv_into {..<n} f i" using j(1,2) by simp
qed

lemma drafted_proposal_well_formed:
  assumes "materialize_plan_draft digest json task_id revision ds created_at asset_ids = Inr p"
    and "inj_on (\<lambda>k. take 32 (digest (join_nul (positioned task_id revision k)))) {1..length ds}"
  shows "well_formed_proposal p"
proof -
  let ?n = "length ds"
  let ?prev = "previous_at digest task_id revision ds"
  let ?id = "\<lambda>prefix j. draft_identifier digest prefix (positioned task_id revision (Suc j))"
  let ?stage = "\<lambda>j. drafted_stage digest task_id revision (Suc j) (?prev j) (ds ! j)"
  let ?item = "\<lambda>j. drafted_item digest task_id revision (Suc j) (?prev j) (ds ! j)"
  let ?card = "\<lambda>j. drafted_card digest json task_id revision created_at (Suc j) (ds ! j)"
  note p = materialize_plan_draft_Inr [OF assms(1)]
  note dist = identifiers_distinct [OF assms(2)]
  have sorted: "sort_key ps_position (map ?stage [0..<?n]) = map ?stage [0..<?n]"
    by (rule sort_key_id_if_sorted) (simp add: drafted_stage_def o_def sorted_map sorted_wrt_upt)
  have deps: "0 < j \<and> d = ?id ''work'' (j - 1)"
    if "d \<in> set (wi_depends_on (?item j))" for j d
    using that by (auto simp: drafted_item_def Let_def follows_image_def previous_at_def split: if_splits)
  have acyclic: "acyclic (awaits (map ?item [0..<?n]))"
    using dist [of "''work''"]
    by (intro numbered_acyclic [of "?id ''work''"] deps)
      (auto simp: distinct_map atLeast0LessThan drafted_item_def Let_def)
  have items: "work_item_ok p (?item j) \<and> card_of_item p (?item j)" if "j < ?n" for j
  proof -
    have "?stage j \<in> set (pp_stages p)" "?card j \<in> set (pp_execution_cards p)" using that by (auto simp: p)
    moreover have "?id ''work'' (j - 1) \<in> set (map wi_work_item_id (pp_work_items p))"
      using that by (auto simp: p drafted_item_def Let_def)
    then have "set (wi_depends_on (?item j)) \<subseteq> set (map wi_work_item_id (pp_work_items p))"
      using deps by blast
    ultimately show ?thesis
      unfolding work_item_ok_def card_of_item_def
      by (auto simp: p drafted_stage_def drafted_item_def drafted_card_def Let_def)
  qed
  have cards: "map cd_card_id (pp_execution_cards p) = map (?id ''card'') [0..<?n]"
    "concat (map wi_task_card_ids (pp_work_items p)) = map (?id ''card'') [0..<?n]"
    by (simp_all add: p drafted_card_def drafted_item_def Let_def o_def)
  have ids: "map ps_stage_id (map ?stage [0..<?n]) = map (?id ''stage'') [0..<?n]"
    "map wi_work_item_id (map ?item [0..<?n]) = map (?id ''work'') [0..<?n]"
    "map wi_current_instance_id (map ?item [0..<?n]) = map (\<lambda>j. Some (?id ''instance'' j)) [0..<?n]"
    by (simp_all add: drafted_stage_def drafted_item_def Let_def)
  have "distinct (map (\<lambda>j. Some (?id ''instance'' j)) [0..<?n])"
    using dist [of "''instance''"] by (auto simp: distinct_map inj_on_def)
  moreover have "list_all (work_item_ok p) (map ?item [0..<?n])" "list_all (card_of_item p) (map ?item [0..<?n])"
    using items by (auto simp: list_all_iff)
  moreover have "pp_stages p = map ?stage [0..<?n]" "pp_work_items p = map ?item [0..<?n]"
    by (simp_all add: p)
  ultimately show ?thesis
    unfolding well_formed_proposal_def Let_def
    using dist drafted_stage_ok [of _ ds] acyclic cards by (simp only: sorted ids) simp
qed

text \<open>
  C8. Every plan that the translation of a draft proposes is accepted by the checks of plan proposals, as
  far as its schema is: whatever the model drafted, and provided only that SHA-256 does not collide on
  the positions of the draft.
\<close>

theorem materialized_draft_accepted:
  assumes "materialize_plan_draft digest json task_id revision ds created_at asset_ids = Inr p"
    and "inj_on (\<lambda>k. take 32 (digest (join_nul (positioned task_id revision k)))) {1..length ds}"
  shows "validate_plan_proposal schema_ok p task_id revision = schema_ok"
proof -
  have "pp_task_id p = task_id" "pp_revision p = revision" "pp_status p = ''PENDING_CONFIRMATION''"
    "pp_confirmed_at p = None"
    by (simp_all add: materialize_plan_draft_Inr [OF assms(1)])
  then have "validate_plan_proposal (Inr ()) p task_id revision = Inr ()"
    by (simp add: validate_proposal_decides drafted_proposal_well_formed [OF assms])
  then show ?thesis by (cases schema_ok) (simp_all add: validate_plan_proposal_def)
qed

end
