(* ===== verification/Source_Citations.thy ===== *)
theory Source_Citations imports Master_Plan begin

text \<open>
  The source citations of \<^verbatim>\<open>backend/harness/domain/master.py\<close>: the scanner for the regular
  expression \<open>_SOURCE_CITATION\<close> and the check that the cited pages and blocks exist; and
  \<^verbatim>\<open>backend/harness/services/plan_proposals.py\<close>, the gate that applies it. The alternatives
  of the expression exclude each other and each of its repetitions stops at a character that the next
  part cannot start with, so that it matches at a position in one way at most.
\<close>

section \<open>The scanner\<close>

text \<open>The character class of the two lookarounds.\<close>

definition citation_char :: "char \<Rightarrow> bool" where
  "citation_char c = (is_ident_char c \<or> c = CHR ''.'')"

datatype citation =
    Page (cited_asset: string) (cited_page: nat)
  | Block (cited_asset: string) (cited_block: string)

text \<open>\<open>int(page)\<close> of decimal digits.\<close>

definition at_word_end :: "string \<Rightarrow> bool" where
  "at_word_end rest = (rest = [] \<or> \<not> citation_char (hd rest))"

text \<open>The expression at the start of a text, with the text behind the match.\<close>

definition match_target :: "string \<Rightarrow> string \<Rightarrow> (citation \<times> string) option" where
  "match_target asset_id s =
     (if take 5 s = ''page/'' then
        let page = takeWhile is_digit (drop 5 s); rest = dropWhile is_digit (drop 5 s) in
        if page \<noteq> [] \<and> hd page \<noteq> CHR ''0'' \<and> at_word_end rest
        then Some (Page asset_id (digits_value page), rest) else None
      else if take 6 s = ''block/'' then
        let block_id = takeWhile is_ident_char (drop 6 s); rest = dropWhile is_ident_char (drop 6 s) in
        if is_identifier block_id \<and> at_word_end rest
        then Some (Block asset_id block_id, rest) else None
      else None)"

definition match_citation :: "string \<Rightarrow> (citation \<times> string) option" where
  "match_citation s =
     (let asset_id = takeWhile is_ident_char s; rest = dropWhile is_ident_char s in
      if is_identifier asset_id \<and> rest \<noteq> [] \<and> hd rest = CHR ''/''
      then match_target asset_id (tl rest) else None)"

lemma match_citation_shorter:
  "match_citation s = Some (c, rest) \<Longrightarrow> length rest < length s"
proof -
  have drop_le: "length (dropWhile P (drop n xs)) \<le> length xs - n" for P n and xs :: string
    using length_dropWhile_le [of P "drop n xs"] by simp
  assume "match_citation s = Some (c, rest)"
  then obtain a where "match_target a (tl (dropWhile is_ident_char s)) = Some (c, rest)"
    "dropWhile is_ident_char s \<noteq> []"
    by (auto simp: match_citation_def Let_def split: if_splits)
  then show ?thesis
    using drop_le [of is_digit 5 "tl (dropWhile is_ident_char s)"]
      drop_le [of is_ident_char 6 "tl (dropWhile is_ident_char s)"]
      length_dropWhile_le [of is_ident_char s]
    by (cases "dropWhile is_ident_char s") (auto simp: match_target_def Let_def split: if_splits)
qed

text \<open>\<open>finditer\<close>: leftmost matches that do not overlap. The flag says whether the character before, if
  there is one, lets a citation start.\<close>

function find_citations :: "bool \<Rightarrow> string \<Rightarrow> citation list" where
  "find_citations free [] = []"
| "find_citations free (c # s) =
     (case (if free then match_citation (c # s) else None) of
        Some (citation, rest) \<Rightarrow> citation # find_citations False rest
      | None \<Rightarrow> find_citations (\<not> citation_char c) s)"
  by pat_completeness auto

termination find_citations
  by (relation "measure (\<lambda>(free, s). length s)")
    (auto dest: match_citation_shorter split: if_splits)

declare find_citations.simps(2) [simp del]

section \<open>The checks\<close>

record source_index =
  si_page_count :: "nat option"
  si_block_ids :: "string list"

definition check_target :: "source_index \<Rightarrow> citation \<Rightarrow> unit res" where
  "check_target index citation =
     (case citation of
        Page _ page \<Rightarrow>
          guardE (case si_page_count index of None \<Rightarrow> False | Some count \<Rightarrow> page \<le> count)
            (invalid ''A source citation references a page that does not exist.'')
      | Block _ block_id \<Rightarrow>
          guardE (block_id \<in> set (si_block_ids index))
            (invalid ''A source citation references a block that does not exist.''))"

definition check_cited_asset ::
  "(string \<Rightarrow> source_index option) \<Rightarrow> citation list \<Rightarrow> string \<Rightarrow> unit res" where
  "check_cited_asset source_indexes citations asset_id =
     (let own = filter (\<lambda>c. cited_asset c = asset_id) citations in
      bindE (guardE (own \<noteq> [])
        (invalid ''Every input asset in a Master execution card requires an asset_id/page or asset_id/block source citation.'')) (\<lambda>_.
      case source_indexes asset_id of
        None \<Rightarrow> Inl (invalid ''A cited input asset has no persisted source understanding.'')
      | Some index \<Rightarrow> forE (check_target index) own))"

text \<open>\<open>"\n".join(card["instructions"])\<close>.\<close>

fun join_lines :: "string list \<Rightarrow> string" where
  "join_lines [] = []"
| "join_lines [l] = l"
| "join_lines (l # m # ls) = l @ CHR 0x0A # join_lines (m # ls)"

text \<open>The code goes through a \<open>set\<close> of input asset ids, whose order is the interpreter's; here it is
  the order of the card. The order decides only which of the errors is raised first.\<close>

definition check_card_sources ::
  "(string \<Rightarrow> source_index option) \<Rightarrow> task_card \<Rightarrow> unit res" where
  "check_card_sources source_indexes c =
     (let citations = find_citations True (join_lines (cd_instructions c));
          input_asset_ids = remdups (cd_input_asset_ids c) in
      bindE (forE (\<lambda>x. guardE (cited_asset x \<in> set input_asset_ids)
          (invalid ''A source citation references an undeclared input asset.'')) citations) (\<lambda>_.
      forE (check_cited_asset source_indexes citations) input_asset_ids))"

definition validate_source_citations ::
  "plan_proposal \<Rightarrow> (string \<Rightarrow> source_index option) \<Rightarrow> unit res" where
  "validate_source_citations p source_indexes =
     forE (check_card_sources source_indexes) (pp_execution_cards p)"

text \<open>The gate of every new proposal. Whether the task requires citations, and the persisted
  understanding of an asset, come from the services that it calls.\<close>

definition validate_sources ::
  "unit res \<Rightarrow> bool res \<Rightarrow> (string \<Rightarrow> source_index res) \<Rightarrow> plan_proposal \<Rightarrow> bool \<Rightarrow> unit res" where
  "validate_sources schema_ok required load_persisted p contract_validated =
     bindE (if contract_validated then Inr () else schema_ok) (\<lambda>_.
     bindE required (\<lambda>required.
     if \<not> required then Inr ()
     else
       let asset_ids = remdups (concat (map cd_input_asset_ids (pp_execution_cards p))) in
       bindE (mapE (\<lambda>a. bindE (load_persisted a) (\<lambda>index. Inr (a, index))) asset_ids) (\<lambda>indexes.
       validate_source_citations p (map_of indexes))))"

definition validate_new ::
  "unit res \<Rightarrow> bool res \<Rightarrow> (string \<Rightarrow> source_index res) \<Rightarrow> string \<Rightarrow> plan_proposal \<Rightarrow> int \<Rightarrow> unit res" where
  "validate_new schema_ok required load_persisted task_id p expected_revision =
     bindE (validate_plan_proposal schema_ok p task_id expected_revision) (\<lambda>_.
     validate_sources schema_ok required load_persisted p True)"

section \<open>The scanner finds what is written\<close>

text \<open>A citation as it is written in an instruction.\<close>

fun cite :: "citation \<Rightarrow> string" where
  "cite (Page a n) = a @ ''/page/'' @ show_nat n"
| "cite (Block a b) = a @ ''/block/'' @ b"

fun valid_citation :: "citation \<Rightarrow> bool" where
  "valid_citation (Page a n) = (is_identifier a \<and> 0 < n)"
| "valid_citation (Block a b) = (is_identifier a \<and> is_identifier b)"

lemma show_nat_hd: "0 < n \<Longrightarrow> hd (show_nat n) \<noteq> CHR ''0''"
proof (induction n rule: show_nat.induct)
  case (1 n)
  have "char_of (48 + k) \<noteq> CHR ''0''" if "0 < k" "k < 10" for k :: nat
  proof
    assume "char_of (48 + k) = CHR ''0''"
    then have "(of_char (char_of (48 + k)) :: nat) = of_char CHR ''0''" by simp
    with that show False by simp
  qed
  then show ?case using 1 by (cases "n < 10") (simp_all add: show_nat.simps [of n])
qed

lemma span_append:
  assumes "list_all P xs" and "rest = [] \<or> \<not> P (hd rest)"
  shows "takeWhile P (xs @ rest) = xs" and "dropWhile P (xs @ rest) = rest"
  using assms by (induction xs) (auto; cases rest; auto)+

lemma word_end_not_digit: "at_word_end rest \<Longrightarrow> rest = [] \<or> \<not> is_digit (hd rest)"
  and word_end_not_ident: "at_word_end rest \<Longrightarrow> rest = [] \<or> \<not> is_ident_char (hd rest)"
  by (auto simp: at_word_end_def citation_char_def is_ident_char_def)

lemma identifier_all: "is_identifier a \<Longrightarrow> list_all is_ident_char a"
  by (auto simp: list_all_iff dest: is_identifier_chars)

lemma match_target_written:
  assumes "at_word_end rest"
  shows "0 < n \<Longrightarrow> match_target a (''page/'' @ show_nat n @ rest) = Some (Page a n, rest)"
    and "is_identifier b \<Longrightarrow> match_target a (''block/'' @ b @ rest) = Some (Block a b, rest)"
  using assms span_append [OF show_nat_digits word_end_not_digit [OF assms], of n]
    span_append [OF identifier_all word_end_not_ident [OF assms], of b]
  by (simp_all add: match_target_def Let_def show_nat_hd digits_value_show)

lemma match_citation_written:
  assumes "valid_citation c" and "at_word_end rest"
  shows "match_citation (cite c @ rest) = Some (c, rest)"
proof -
  have slash: "\<not> is_ident_char CHR ''/''"
    by (simp add: is_ident_char_def is_letter_def is_digit_def)
  have split: "match_citation (a @ CHR ''/'' # t) = match_target a t" if "is_identifier a" for a t
    using span_append [OF identifier_all [OF that], of "CHR ''/'' # t"] slash that
    by (simp add: match_citation_def Let_def)
  show ?thesis
    using assms match_target_written [OF assms(2)] split by (cases c) auto
qed

lemma cite_starts: "valid_citation c \<Longrightarrow> \<exists>x xs. cite c = x # xs"
  by (subst neq_Nil_conv [symmetric]) (cases c; simp)

text \<open>Plain text: no slash, so no citation; and it ends before one.\<close>

lemma no_citation_in_plain:
  assumes "CHR ''/'' \<notin> set s"
  shows "match_citation s = None"
proof -
  have "hd (dropWhile is_ident_char s) \<noteq> CHR ''/''" if "dropWhile is_ident_char s \<noteq> []"
    using that assms by (metis hd_in_set set_dropWhileD)
  then show ?thesis by (auto simp: match_citation_def Let_def)
qed

lemma find_citations_plain: "CHR ''/'' \<notin> set s \<Longrightarrow> find_citations free s = []"
  by (induction s arbitrary: free) (auto simp: find_citations.simps(2) no_citation_in_plain)

lemma no_citation_before_gap:
  assumes "CHR ''/'' \<notin> set g" and "g \<noteq> []" and "\<not> citation_char (last g)"
  shows "match_citation (g @ s) = None"
proof -
  have stop: "\<exists>x \<in> set g. \<not> is_ident_char x"
    using assms(2,3) by (intro bexI [of _ "last g"]) (auto simp: citation_char_def)
  then have "dropWhile is_ident_char (g @ s) = dropWhile is_ident_char g @ s"
    "dropWhile is_ident_char g \<noteq> []" by (auto simp: dropWhile_append1)
  moreover have "hd (dropWhile is_ident_char g) \<noteq> CHR ''/''"
    using assms(1) calculation(2) by (metis hd_in_set set_dropWhileD)
  ultimately show ?thesis by (simp add: match_citation_def Let_def)
qed

lemma find_citations_gap:
  "CHR ''/'' \<notin> set g \<Longrightarrow> g \<noteq> [] \<Longrightarrow> \<not> citation_char (last g) \<Longrightarrow>
   find_citations free (g @ s) = find_citations True s"
proof (induction g arbitrary: free)
  case (Cons x g)
  have "find_citations free ((x # g) @ s) = find_citations (\<not> citation_char x) (g @ s)"
    using no_citation_before_gap [OF Cons.prems, of s] by (simp add: find_citations.simps(2))
  then show ?case using Cons by (cases g) auto
qed simp

text \<open>A gap between two citations: plain text that no word touches the citations with.\<close>

definition gap :: "string \<Rightarrow> bool" where
  "gap g = (g \<noteq> [] \<and> CHR ''/'' \<notin> set g \<and> \<not> citation_char (hd g) \<and> \<not> citation_char (last g))"

text \<open>
  C26. Instructions that cite pages and blocks are read back as exactly these citations, in their order, under
  three conditions: before every citation, the first one included, stands some text without a slash that neither
  begins nor ends with a character that continues a citation (a letter, a digit, a hyphen, an underscore or a
  dot); the text behind the last one has no slash; and it is empty or begins with a character that continues no
  citation, so that a full stop, too, may not follow a citation directly.
\<close>

theorem written_citations_found:
  assumes "\<forall>(g, c) \<in> set cited. gap g \<and> valid_citation c"
    and "CHR ''/'' \<notin> set rest" and "at_word_end rest"
  shows "find_citations free (concat (map (\<lambda>(g, c). g @ cite c) cited) @ rest) = map snd cited"
  using assms(1)
proof (induction cited arbitrary: free)
  case Nil
  then show ?case using find_citations_plain [OF assms(2)] by simp
next
  case (Cons x cited)
  obtain g c where x: "x = (g, c)" by force
  let ?more = "concat (map (\<lambda>(g, c). g @ cite c) cited) @ rest"
  have g: "gap g" "valid_citation c" using Cons.prems x by auto
  have "at_word_end ?more"
    using Cons.prems assms(3) by (cases cited) (auto simp: at_word_end_def gap_def)
  from match_citation_written [OF g(2) this] cite_starts [OF g(2)]
  have "find_citations True (cite c @ ?more) = c # find_citations False ?more"
    by (auto simp: find_citations.simps(2))
  moreover have "find_citations free (g @ cite c @ ?more) = find_citations True (cite c @ ?more)"
    using g(1) by (intro find_citations_gap) (auto simp: gap_def)
  ultimately show ?case using Cons x by simp
qed

section \<open>What the checks accept\<close>

definition resolves :: "(string \<Rightarrow> source_index option) \<Rightarrow> citation \<Rightarrow> bool" where
  "resolves source_indexes c =
     (\<exists>index. source_indexes (cited_asset c) = Some index \<and>
        (case c of Page a n \<Rightarrow> (\<exists>count. si_page_count index = Some count \<and> n \<le> count)
         | Block a b \<Rightarrow> b \<in> set (si_block_ids index)))"

lemma validate_source_citations_iff:
  "validate_source_citations p source_indexes = Inr () \<longleftrightarrow>
     (\<forall>c \<in> set (pp_execution_cards p).
        let cs = find_citations True (join_lines (cd_instructions c)) in
        cited_asset ` set cs = set (cd_input_asset_ids c) \<and> list_all (resolves source_indexes) cs)"
proof -
  have target: "check_target index c = Inr () \<longleftrightarrow> (case c of
      Page a n \<Rightarrow> (\<exists>count. si_page_count index = Some count \<and> n \<le> count)
    | Block a b \<Rightarrow> b \<in> set (si_block_ids index))" for index c
    by (auto simp: check_target_def monad split: citation.splits option.splits)
  have asset: "check_cited_asset source_indexes cs a = Inr () \<longleftrightarrow>
      a \<in> cited_asset ` set cs \<and> (\<forall>c \<in> set cs. cited_asset c = a \<longrightarrow> resolves source_indexes c)" for cs a
  proof -
    have "filter (\<lambda>c. cited_asset c = a) cs \<noteq> [] \<longleftrightarrow> a \<in> cited_asset ` set cs"
      by (auto simp: filter_empty_conv)
    then show ?thesis
      by (auto simp: check_cited_asset_def Let_def monad target resolves_def split: option.splits)
  qed
  have "check_card_sources source_indexes c = Inr () \<longleftrightarrow>
      (let cs = find_citations True (join_lines (cd_instructions c)) in
        cited_asset ` set cs = set (cd_input_asset_ids c) \<and> list_all (resolves source_indexes) cs)" for c
    by (auto simp: check_card_sources_def Let_def monad asset list_all_iff)
  then show ?thesis by (simp add: validate_source_citations_def monad)
qed

end
