(* ===== verification/Master_Witnesses.thy ===== *)
theory Master_Witnesses imports Master_Properties Plan_Draft Source_Citations Plan_Witnesses begin

text \<open>
  The properties of plan proposals at one concrete proposal: an Image stage and a Ppt stage that
  depends on it, listed out of order, with one work item and one card each.
\<close>

definition sample_item :: "string \<Rightarrow> string \<Rightarrow> agent_type \<Rightarrow> string list \<Rightarrow> string \<Rightarrow> string \<Rightarrow> work_item" where
  "sample_item w s a ds i c =
     \<lparr>wi_work_item_id = w, wi_task_id = ''t'', wi_stage_id = s, wi_agent_type = a, wi_required = True,
      wi_depends_on = ds, wi_current_instance_id = Some i, wi_instance_ids = [i],
      wi_task_card_ids = [c]\<rparr>"

definition sample_proposal :: plan_proposal where
  "sample_proposal =
     \<lparr>pp_task_id = ''t'', pp_revision = 1, pp_status = ''PENDING_CONFIRMATION'',
      pp_stages =
        [\<lparr>ps_stage_id = ''b'', ps_type = Ppt, ps_position = 2, ps_depends_on = [''a''], ps_required = True\<rparr>,
         \<lparr>ps_stage_id = ''a'', ps_type = Image, ps_position = 1, ps_depends_on = [], ps_required = True\<rparr>],
      pp_work_items =
        [sample_item ''v'' ''b'' Ppt [''u''] ''y'' ''d'', sample_item ''u'' ''a'' Image [] ''x'' ''c''],
      pp_execution_cards = [sample_card ''c'' ''a'' ''x'' Image 1, sample_card ''d'' ''b'' ''y'' Ppt 1],
      pp_confirmed_at = None\<rparr>"

lemma sample_proposal_accepted: "validate_plan_proposal (Inr ()) sample_proposal ''t'' 1 = Inr ()"
  by code_simp

text \<open>A proposal whose work items wait for each other is refused.\<close>

lemma sample_cycle_refused:
  "validate_plan_proposal (Inr ())
     (sample_proposal\<lparr>pp_work_items :=
        [sample_item ''v'' ''b'' Ppt [''u''] ''y'' ''d'', sample_item ''u'' ''a'' Image [''v''] ''x'' ''c'']\<rparr>)
     ''t'' 1 = Inl (invalid ''Master work item dependencies contain a cycle.'')"
  by code_simp

lemma accepted_proposal_makes_plan_witness:
  "\<exists>stages instances cards plan.
     materialize_plan_proposal sample_proposal = Inr (stages, instances, cards) \<and> well_formed_plan plan \<and>
     map in_instance_id (pl_instances plan) = map current_instance (pp_work_items sample_proposal) \<and>
     normalize_plan sample_contracts ''n'' (small_task T_PLANNED) 1 stages instances cards =
       bindE (contracts_validate sample_contracts ''task-plan'' (P_plan plan)) (\<lambda>_. Inr plan)"
proof -
  have "validate_plan_proposal (Inr ()) sample_proposal (tk_task_id (small_task T_PLANNED)) 1 = Inr ()"
    using sample_proposal_accepted by (simp add: small_task_def)
  from accepted_proposal_makes_plan [OF this] show ?thesis by blast
qed

text \<open>A draft of an Image and a Ppt stage, with texts reversed in the place of their digests.\<close>

definition sample_draft :: "agent_type \<Rightarrow> stage_draft" where
  "sample_draft a =
     \<lparr>sd_type = a, sd_required = True, sd_objective = ''o'', sd_instructions = [],
      sd_input_asset_ids = [''f''],
      sd_expected_deliveries = [\<lparr>xd_kind = ''image'', xd_role = ''r'', xd_required = True, xd_accepted_mime_types = [''image/png'']\<rparr>],
      sd_parameters = [(''aspect_ratio'', None)]\<rparr>"

lemma sample_draft_run:
  "returns (\<lambda>p. map ps_depends_on (pp_stages p) = [[], [''stage_1'' @ CHR 0x00 # ''1'' @ CHR 0x00 # ''t'']])
     (materialize_plan_draft rev (\<lambda>_. ''{}'') ''t'' 1 [sample_draft Image, sample_draft Ppt] ''n'' {''f''})"
  by code_simp

lemma materialized_draft_accepted_witness:
  "\<exists>p :: plan_proposal. length (pp_stages p) = 2 \<and> validate_plan_proposal (Inr ()) p ''t'' 1 = Inr ()"
proof -
  obtain p where p: "materialize_plan_draft rev (\<lambda>_. ''{}'') ''t'' 1 [sample_draft Image, sample_draft Ppt]
      ''n'' {''f''} = Inr p"
    "map ps_depends_on (pp_stages p) = [[], [''stage_1'' @ CHR 0x00 # ''1'' @ CHR 0x00 # ''t'']]"
    by (rule returnsE [OF sample_draft_run])
  have "distinct (map (\<lambda>k. take 32 (rev (join_nul (positioned ''t'' 1 k)))) [1, 2])" by code_simp
  then have "inj_on (\<lambda>k. take 32 (rev (join_nul (positioned ''t'' 1 k)))) {1, 2}"
    by (simp add: distinct_map)
  moreover have "{1..length [sample_draft Image, sample_draft Ppt]} = {1, 2}" by auto
  ultimately have "inj_on (\<lambda>k. take 32 (rev (join_nul (positioned ''t'' 1 k))))
      {1..length [sample_draft Image, sample_draft Ppt]}" by simp
  from materialized_draft_accepted [OF p(1) this, of "Inr ()"] p(2) show ?thesis
    by (intro exI [of _ p] conjI) (auto dest: arg_cong [of _ _ length])
qed

lemma written_citations_found_witness:
  "find_citations True '' See a1/page/12, and b/block/intro .'' = [Page ''a1'' 12, Block ''b'' ''intro'']"
proof -
  have "find_citations True (concat (map (\<lambda>(g, c). g @ cite c)
      [('' See '', Page ''a1'' 12), ('', and '', Block ''b'' ''intro'')]) @ '' .'') =
      map snd [('' See '', Page ''a1'' 12), ('', and '', Block ''b'' ''intro'')]"
    by (rule written_citations_found) code_simp+
  moreover have "concat (map (\<lambda>(g, c). g @ cite c)
      [('' See '', Page ''a1'' 12), ('', and '', Block ''b'' ''intro'')]) @ '' .'' =
      '' See a1/page/12, and b/block/intro .''" by code_simp
  ultimately show ?thesis by simp
qed

end
