(* ===== verification/Journal_Files.thy ===== *)
theory Journal_Files imports Errors begin

text \<open>
  \<^verbatim>\<open>backend/harness/storage/ndjson.py\<close>: journals as files of checksummed JSON lines, their
  repair after a torn append, and the refusal of interior corruption. A file is its bytes, as
  characters of eight bits. JSON objects are maps; the text of an object, the parser of a line and the
  SHA-256 digest are the fields of a record, because they are the Python library's: the laws that the
  properties need of them are \<open>faithful_json\<close>. Permissions, \<open>fsync\<close> and the locks have no effect here.
\<close>

section \<open>Records and their lines\<close>

datatype json_value = JText string | JValue string

type_synonym json_object = "string \<Rightarrow> json_value option"

record json_library =
  js_dumps :: "json_object \<Rightarrow> string"
  js_loads :: "string \<Rightarrow> json_object option option"
  js_digest :: "json_object \<Rightarrow> string"

text \<open>\<open>js_loads\<close> is \<open>None\<close> for a text that is no JSON, and \<open>Some None\<close> for JSON that is no object.\<close>

definition checksum_key :: string where
  "checksum_key = ''_record_checksum''"

abbreviation LF :: char where "LF \<equiv> CHR 0x0A"
abbreviation CR :: char where "CR \<equiv> CHR 0x0D"

definition clean :: "json_object \<Rightarrow> json_object" where
  "clean r = r(checksum_key := None)"

definition record_with_checksum :: "json_library \<Rightarrow> json_object \<Rightarrow> json_object" where
  "record_with_checksum js r = (clean r)(checksum_key \<mapsto> JText (js_digest js (clean r)))"

definition journal_line :: "json_library \<Rightarrow> json_object \<Rightarrow> string" where
  "journal_line js r = js_dumps js (record_with_checksum js r) @ [LF]"

text \<open>A journal that does not exist yet is created by the append.\<close>

definition append_record :: "json_library \<Rightarrow> json_object \<Rightarrow> string option \<Rightarrow> string option" where
  "append_record js r file = Some ((case file of None \<Rightarrow> [] | Some raw \<Rightarrow> raw) @ journal_line js r)"

text \<open>The exceptions of the decoder, all of which the caller catches.\<close>

definition decode_verified :: "json_library \<Rightarrow> string \<Rightarrow> string + json_object" where
  "decode_verified js raw_line =
     (case js_loads js raw_line of
        None \<Rightarrow> Inl ''JSONDecodeError''
      | Some None \<Rightarrow> Inl ''NDJSON record must be an object''
      | Some (Some parsed) \<Rightarrow>
          (case parsed checksum_key of
             Some (JText expected) \<Rightarrow>
               if expected = js_digest js (clean parsed) then Inr (clean parsed)
               else Inl ''NDJSON record checksum mismatch''
           | _ \<Rightarrow> Inl ''NDJSON record checksum mismatch''))"

section \<open>Lines of a file\<close>

text \<open>\<open>bytes.splitlines(keepends=True)\<close>: a line ends after a line feed, a carriage return, or both.\<close>

fun first_line :: "string \<Rightarrow> string \<times> string" where
  "first_line [] = ([], [])"
| "first_line (c # s) =
     (if c = LF then ([c], s)
      else if c = CR then
        (case s of [] \<Rightarrow> ([c], []) | d # t \<Rightarrow> if d = LF then ([c, d], t) else ([c], s))
      else let (l, rest) = first_line s in (c # l, rest))"

lemma first_line_append: "first_line s = (l, rest) \<Longrightarrow> l @ rest = s"
  by (induction s arbitrary: l rest rule: first_line.induct)
    (auto split: if_splits list.splits prod.splits)

lemma first_line_shorter: "length (snd (first_line (c # s))) < length (c # s)"
proof -
  obtain l rest where split: "first_line (c # s) = (l, rest)" by force
  then have "l \<noteq> []" by (auto split: if_splits list.splits prod.splits)
  moreover have "length l + length rest = length (c # s)"
    using first_line_append [OF split] by (metis length_append)
  ultimately show ?thesis using split by (cases l) auto
qed

function split_lines :: "string \<Rightarrow> string list" where
  "split_lines [] = []"
| "split_lines (c # s) = fst (first_line (c # s)) # split_lines (snd (first_line (c # s)))"
  by pat_completeness auto

termination split_lines
  by (relation "measure length")
    (simp_all del: first_line.simps add: first_line_shorter [simplified])

declare split_lines.simps(2) [simp del] first_line.simps(2) [simp del]

section \<open>Recovery\<close>

text \<open>The loop over the lines, from the offset of the first of them. It raises at the offset of an
  interior line that does not decode, and returns the records with, when the last line does not
  decode, the offset where that line starts.\<close>

definition decode_line :: "json_library \<Rightarrow> string \<Rightarrow> string + json_object" where
  "decode_line js line =
     (if line \<noteq> [] \<and> last line = LF then decode_verified js (butlast line)
      else Inl ''incomplete NDJSON tail'')"

fun recover_lines ::
  "json_library \<Rightarrow> nat \<Rightarrow> string list \<Rightarrow> nat + json_object list \<times> (nat \<times> string) option" where
  "recover_lines js offset [] = Inr ([], None)"
| "recover_lines js offset (line # lines) =
     (case decode_line js line of
        Inl reason \<Rightarrow> if lines \<noteq> [] then Inl offset else Inr ([], Some (offset, reason))
      | Inr r \<Rightarrow> bindE (recover_lines js (offset + length line) lines)
          (\<lambda>(rs, torn). Inr (r # rs, torn)))"

text \<open>The warning of a repair: the length found, the length kept, and the reason.\<close>

type_synonym tail_warning = "nat \<times> nat \<times> string"

definition recover_records ::
  "json_library \<Rightarrow> string option \<Rightarrow>
   (nat + json_object list \<times> tail_warning option) \<times> string option" where
  "recover_records js file =
     (case file of
        None \<Rightarrow> (Inr ([], None), None)
      | Some raw \<Rightarrow>
          (case recover_lines js 0 (split_lines raw) of
             Inl offset \<Rightarrow> (Inl offset, file)
           | Inr (rs, None) \<Rightarrow> (Inr (rs, None), file)
           | Inr (rs, Some (verified_end, reason)) \<Rightarrow>
               (Inr (rs, Some (length raw, verified_end, reason)), Some (take verified_end raw))))"

section \<open>Splitting\<close>

lemma concat_split_lines: "concat (split_lines s) = s"
proof (induction s rule: split_lines.induct)
  case (2 c s)
  then show ?case
    using first_line_append [OF prod.collapse [symmetric], of "c # s"] by (simp add: split_lines.simps(2))
qed simp

text \<open>A text that is one complete line stays one whatever follows.\<close>

definition complete_line :: "string \<Rightarrow> bool" where
  "complete_line l = (l \<noteq> [] \<and> last l = LF \<and> first_line l = (l, []))"

lemma first_line_of_complete:
  assumes "complete_line l"
  shows "first_line (l @ t) = (l, t)"
proof -
  have "first_line s = (l, r) \<Longrightarrow> l \<noteq> [] \<Longrightarrow> last l = LF \<Longrightarrow> first_line (l @ t) = (l, t)" for s l r
  proof (induction s arbitrary: l r rule: first_line.induct)
    case (2 c s)
    show ?case
    proof (cases "c = LF \<or> c = CR")
      case True
      then show ?thesis using "2.prems"
        by (auto simp: first_line.simps(2) split: if_splits list.splits)
    next
      case False
      obtain l' r' where s: "first_line s = (l', r')" by force
      with "2.prems" False have l: "l = c # l'" by (auto simp: first_line.simps(2))
      with "2.prems" False have "l' \<noteq> []" "last l' = LF" by (auto split: if_splits)
      with "2.IH" [OF _ _ s] False s l show ?thesis by (simp add: first_line.simps(2))
    qed
  qed simp
  then show ?thesis using assms unfolding complete_line_def by blast
qed

lemma split_first:
  assumes "complete_line l"
  shows "split_lines (l @ t) = l # split_lines t"
proof -
  obtain c s where "l = c # s" using assms by (cases l) (auto simp: complete_line_def)
  then show ?thesis using first_line_of_complete [OF assms, of t] by (simp add: split_lines.simps(2))
qed

lemma split_complete_lines:
  "list_all complete_line ls \<Longrightarrow> split_lines (concat ls @ t) = ls @ split_lines t"
  by (induction ls) (simp_all add: split_first)

text \<open>A line that a split finds, and that ends in a line feed, is complete.\<close>

lemma split_lines_complete:
  "l \<in> set (split_lines s) \<Longrightarrow> last l = LF \<Longrightarrow> complete_line l"
proof (induction s rule: split_lines.induct)
  case (2 c s)
  obtain l' r' where s: "first_line (c # s) = (l', r')" by force
  show ?case
  proof (cases "l = l'")
    case True
    have "first_line x = (l, r) \<Longrightarrow> last l = LF \<Longrightarrow> l \<noteq> [] \<Longrightarrow> first_line l = (l, [])" for x l r
    proof (induction x arbitrary: l r rule: first_line.induct)
      case (2 d x)
      show ?case
      proof (cases "d = LF \<or> d = CR")
        case False
        obtain m q where x: "first_line x = (m, q)" by force
        with "2.prems" False have l: "l = d # m" by (auto simp: first_line.simps(2))
        with "2.prems" False have "m \<noteq> []" "last m = LF" by (auto split: if_splits)
        with "2.IH" [OF _ _ x] False l show ?thesis by (simp add: first_line.simps(2))
      qed (use "2.prems" in \<open>auto simp: first_line.simps(2) split: if_splits list.splits\<close>)
    qed simp
    moreover have "l' \<noteq> []" using s by (auto simp: first_line.simps(2) split: if_splits list.splits prod.splits)
    ultimately show ?thesis using s True "2.prems"(2) unfolding complete_line_def by blast
  qed (use 2 s in \<open>simp add: split_lines.simps(2)\<close>)
qed simp

lemma plain_line:
  assumes "LF \<notin> set s" and "CR \<notin> set s"
  shows "first_line (s @ [LF]) = (s @ [LF], [])" and "s \<noteq> [] \<Longrightarrow> split_lines s = [s]"
proof -
  have "first_line s = (s, [])" using assms by (induction s) (auto simp: first_line.simps(2))
  then show "s \<noteq> [] \<Longrightarrow> split_lines s = [s]" by (cases s) (simp_all add: split_lines.simps(2))
  show "first_line (s @ [LF]) = (s @ [LF], [])"
    using assms by (induction s) (auto simp: first_line.simps(2))
qed

section \<open>What recovery reads\<close>

text \<open>What the JSON library promises for a record: the line parses back to the object, and contains no
  line break, which JSON escapes.\<close>

definition faithful_json :: "json_library \<Rightarrow> json_object \<Rightarrow> bool" where
  "faithful_json js r =
     (let text = js_dumps js (record_with_checksum js r) in
      js_loads js text = Some (Some (record_with_checksum js r)) \<and> LF \<notin> set text \<and> CR \<notin> set text)"

abbreviation journal_bytes :: "json_library \<Rightarrow> json_object list \<Rightarrow> string" where
  "journal_bytes js rs \<equiv> concat (map (journal_line js) rs)"

lemma journal_line_complete:
  assumes "faithful_json js r"
  shows "complete_line (journal_line js r)" and "decode_line js (journal_line js r) = Inr (clean r)"
proof -
  show "complete_line (journal_line js r)"
    using assms plain_line(1) by (simp add: faithful_json_def Let_def journal_line_def complete_line_def)
  have "clean (record_with_checksum js r) = clean r"
    by (simp add: record_with_checksum_def clean_def)
  then show "decode_line js (journal_line js r) = Inr (clean r)"
    using assms
    by (simp add: faithful_json_def Let_def journal_line_def decode_line_def decode_verified_def)
      (simp add: record_with_checksum_def)
qed

lemma recover_lines_append:
  "list_all2 (\<lambda>l r. decode_line js l = Inr r) ls rs \<Longrightarrow>
   recover_lines js offset (ls @ ms) =
     bindE (recover_lines js (offset + length (concat ls)) ms) (\<lambda>(qs, torn). Inr (rs @ qs, torn))"
proof (induction ls rs arbitrary: offset rule: list_all2_induct)
  case Nil
  then show ?case by (cases "recover_lines js offset ms") auto
next
  case (Cons l ls r rs)
  then show ?case
    by (cases "recover_lines js (offset + length (concat (l # ls))) ms") (auto simp: add.assoc)
qed

lemma recover_journal_bytes:
  assumes "\<forall>r \<in> set rs. faithful_json js r"
  shows "recover_lines js 0 (split_lines (journal_bytes js rs @ tail)) =
    bindE (recover_lines js (length (journal_bytes js rs)) (split_lines tail))
      (\<lambda>(qs, torn). Inr (map clean rs @ qs, torn))"
proof -
  have lines: "list_all complete_line (map (journal_line js) rs)"
    "list_all2 (\<lambda>l r. decode_line js l = Inr r) (map (journal_line js) rs) (map clean rs)"
    using assms journal_line_complete by (auto simp: list_all_iff list_all2_conv_all_nth)
  show ?thesis
    unfolding split_complete_lines [OF lines(1)] recover_lines_append [OF lines(2)] by simp
qed

text \<open>
  C25. Crash safety of the journal at the level of bytes: when the append of one more record is cut off
  after any number of bytes, the next recovery returns the records that were there, drops the
  fragment, and leaves exactly their bytes, so that the record can be appended again.
\<close>

theorem torn_append_repaired:
  assumes "\<forall>q \<in> set rs. faithful_json js q" and "faithful_json js r"
    and "n < length (journal_line js r)"
  shows "\<exists>warning. recover_records js (Some (journal_bytes js rs @ take n (journal_line js r))) =
      (Inr (map clean rs, warning), Some (journal_bytes js rs)) \<and> (warning = None \<longleftrightarrow> n = 0)"
proof -
  define torn where "torn = take n (journal_line js r)"
  have torn: "LF \<notin> set torn" "CR \<notin> set torn"
    using assms(2,3) by (auto simp: torn_def journal_line_def faithful_json_def Let_def dest: in_set_takeD)
  show ?thesis
  proof (cases "torn = []")
    case True
    moreover have "n = 0" using True assms(3) by (auto simp: torn_def)
    ultimately show ?thesis
      using recover_journal_bytes [OF assms(1), of "[]"] by (simp add: recover_records_def)
  next
    case False
    have "last torn \<noteq> LF" using False torn(1) last_in_set by metis
    then have "recover_lines js (length (journal_bytes js rs)) (split_lines torn) =
        Inr ([], Some (length (journal_bytes js rs), ''incomplete NDJSON tail''))"
      by (simp add: plain_line(2) [OF torn False] decode_line_def)
    moreover have "n \<noteq> 0" using False by (auto simp: torn_def)
    ultimately show ?thesis
      using recover_journal_bytes [OF assms(1), of torn]
      by (simp add: recover_records_def torn_def [symmetric])
  qed
qed

text \<open>Without a crash, the journal holds what was appended, in the order of the appends.\<close>

lemma append_record_bytes:
  "fold (append_record js) rs (Some raw) = Some (raw @ journal_bytes js rs)"
  by (induction rs arbitrary: raw) (simp_all add: append_record_def)

lemma appended_records_read:
  assumes "\<forall>r \<in> set rs. faithful_json js r"
  shows "recover_records js (fold (append_record js) rs None) =
    (Inr (map clean rs, None), fold (append_record js) rs None)"
proof (cases rs)
  case (Cons r qs)
  have "fold (append_record js) rs None = Some (journal_bytes js rs)"
    using append_record_bytes [of js qs "journal_line js r"] by (simp add: Cons append_record_def)
  then show ?thesis
    using recover_journal_bytes [OF assms, of "[]"] by (simp add: recover_records_def)
qed (simp add: recover_records_def)

section \<open>Any file at all\<close>

lemma recover_lines_Inr:
  "recover_lines js offset ls = Inr (rs, torn) \<Longrightarrow>
   (\<exists>ks. list_all (\<lambda>l. l \<noteq> [] \<and> last l = LF) ks \<and> list_all2 (\<lambda>l r. decode_line js l = Inr r) ks rs \<and>
     (case torn of None \<Rightarrow> ls = ks
      | Some (end_, reason) \<Rightarrow> end_ = offset + length (concat ks) \<and> (\<exists>l. ls = ks @ [l])))"
proof (induction ls arbitrary: offset rs torn)
  case (Cons l ls)
  show ?case
  proof (cases "decode_line js l")
    case (Inl reason)
    with Cons.prems show ?thesis by (intro exI [of _ "[]"]) (auto split: if_splits)
  next
    case (Inr r)
    then obtain qs where qs: "recover_lines js (offset + length l) ls = Inr (qs, torn)" "rs = r # qs"
      using Cons.prems by (auto simp: monad)
    have "l \<noteq> [] \<and> last l = LF" using Inr by (auto simp: decode_line_def split: if_splits)
    moreover obtain ks where "list_all (\<lambda>l. l \<noteq> [] \<and> last l = LF) ks"
      "list_all2 (\<lambda>l r. decode_line js l = Inr r) ks qs"
      "case torn of None \<Rightarrow> ls = ks
       | Some (end_, reason) \<Rightarrow> end_ = offset + length l + length (concat ks) \<and> (\<exists>l. ls = ks @ [l])"
      using Cons.IH [OF qs(1)] by blast
    ultimately show ?thesis
      using qs(2) Inr by (intro exI [of _ "l # ks"]) (auto split: option.splits)
  qed
qed simp

text \<open>
  Whatever bytes a journal holds, and whatever the JSON library makes of them, a recovery that
  returns only ever drops bytes at the end, and is final: recovering again returns the same records
  and changes nothing.
\<close>

theorem recovery_is_stable:
  assumes "recover_records js (Some raw) = (Inr (rs, warning), file)"
  shows "\<exists>kept. file = Some kept \<and> kept = take (length kept) raw \<and>
    recover_records js (Some kept) = (Inr (rs, None), Some kept)"
proof -
  obtain torn where run: "recover_lines js 0 (split_lines raw) = Inr (rs, torn)"
    and left: "file = Some (case torn of None \<Rightarrow> raw | Some (end_, reason) \<Rightarrow> take end_ raw)"
    using assms by (auto simp: recover_records_def split: sum.splits option.splits prod.splits)
  from recover_lines_Inr [OF run, unfolded add_0_left] obtain ks where ks: "list_all (\<lambda>l. l \<noteq> [] \<and> last l = LF) ks"
    "list_all2 (\<lambda>l r. decode_line js l = Inr r) ks rs"
    and rest: "case torn of None \<Rightarrow> split_lines raw = ks
      | Some (end_, reason) \<Rightarrow> end_ = length (concat ks) \<and> (\<exists>l. split_lines raw = ks @ [l])"
    by blast
  obtain more where more: "split_lines raw = ks @ more" using rest by (cases torn) auto
  then have raw: "raw = concat ks @ concat more" using concat_split_lines [of raw] by simp
  have "file = Some (concat ks)"
    using left rest raw more by (cases torn) (auto simp: concat_split_lines)
  moreover have "list_all complete_line ks"
    using ks(1) more split_lines_complete [of _ raw] by (auto simp: list_all_iff)
  from split_complete_lines [OF this, of "[]"]
  have "recover_lines js 0 (split_lines (concat ks)) = Inr (rs, None)"
    using recover_lines_append [OF ks(2), of 0 "[]"] by simp
  then have "recover_records js (Some (concat ks)) = (Inr (rs, None), Some (concat ks))"
    by (simp add: recover_records_def)
  ultimately show ?thesis using raw by (intro exI [of _ "concat ks"]) simp
qed

end
