(* ===== verification/Pagination.thy ===== *)
theory Pagination
  imports Errors "HOL-Library.Multiset" "HOL-Library.Char_ord" "HOL-Library.List_Lexorder"
begin

text \<open>
  \<^verbatim>\<open>backend/harness/api/pagination.py\<close>: keyset pages of a list with an opaque cursor. The base64
  text of a cursor and the parser of one are the fields of a record, because JSON and base64 are the
  Python library's. The property says that a client that follows the cursors reads the whole list.
\<close>

section \<open>Keys\<close>

text \<open>What an item holds in a field: a text, an integer, or a value that no key may have.\<close>

datatype field_value = Text string | Number int | Unsortable

datatype key_value = Key_Number int | Key_Text string

text \<open>Texts and integers are ordered as in Python. Comparing one with the other is a \<open>TypeError\<close> there;
  here it has an arbitrary result, and the operations check for it.\<close>

instantiation key_value :: linorder
begin

fun less_key_value :: "key_value \<Rightarrow> key_value \<Rightarrow> bool" where
  "less_key_value (Key_Number i) (Key_Number j) = (i < j)"
| "less_key_value (Key_Number i) (Key_Text t) = True"
| "less_key_value (Key_Text s) (Key_Number j) = False"
| "less_key_value (Key_Text s) (Key_Text t) = (s < t)"

definition less_eq_key_value :: "key_value \<Rightarrow> key_value \<Rightarrow> bool" where
  "less_eq_key_value a b = (a < b \<or> a = b)"

instance
proof
  fix a b c :: key_value
  show "(a < b) = (a \<le> b \<and> \<not> b \<le> a)"
    by (cases a; cases b) (auto simp: less_eq_key_value_def)
  show "a \<le> a" by (simp add: less_eq_key_value_def)
  show "a \<le> b \<Longrightarrow> b \<le> c \<Longrightarrow> a \<le> c"
    by (cases a; cases b; cases c) (auto simp: less_eq_key_value_def)
  show "a \<le> b \<Longrightarrow> b \<le> a \<Longrightarrow> a = b"
    by (cases a; cases b) (auto simp: less_eq_key_value_def)
  show "a \<le> b \<or> b \<le> a"
    by (cases a; cases b) (auto simp: less_eq_key_value_def)
qed

end

type_synonym page_key = "key_value list"

type_synonym item = "string \<Rightarrow> field_value option"

fun same_kind :: "key_value \<Rightarrow> key_value \<Rightarrow> bool" where
  "same_kind (Key_Number i) (Key_Number j) = True"
| "same_kind (Key_Text s) (Key_Text t) = True"
| "same_kind _ _ = False"

text \<open>Tuples are compared up to the first place where they differ.\<close>

fun comparable :: "page_key \<Rightarrow> page_key \<Rightarrow> bool" where
  "comparable (a # as) (b # bs) = (if a = b then comparable as bs else same_kind a b)"
| "comparable _ _ = True"

definition key_of :: "item \<Rightarrow> string list \<Rightarrow> page_key res" where
  "key_of item names =
     mapE (\<lambda>field. case item field of
         Some (Text s) \<Rightarrow> Inr (Key_Text s)
       | Some (Number i) \<Rightarrow> Inr (Key_Number i)
       | _ \<Rightarrow> Inl (HarnessError INTERNAL_ERROR ''A list item is missing its stable pagination key.'' []))
     names"

section \<open>Cursors\<close>

text \<open>A cursor that is base64 of a JSON object: whether \<open>v\<close> is 1, the texts in \<open>scope\<close> and \<open>order\<close>, and
  the list in \<open>key\<close>.\<close>

record cursor_object =
  cu_version_ok :: bool
  cu_scope :: "string option"
  cu_order :: "string option"
  cu_key :: "field_value list option"

record cursor_codec =
  cc_encode :: "cursor_object \<Rightarrow> string"
  cc_decode :: "string \<Rightarrow> cursor_object option"

datatype sort_order = Asc | Desc

fun order_name :: "sort_order \<Rightarrow> string" where
  "order_name Asc = ''asc''"
| "order_name Desc = ''desc''"

fun to_field :: "key_value \<Rightarrow> field_value" where
  "to_field (Key_Number i) = Number i"
| "to_field (Key_Text s) = Text s"

fun of_field :: "field_value \<Rightarrow> key_value option" where
  "of_field (Number i) = Some (Key_Number i)"
| "of_field (Text s) = Some (Key_Text s)"
| "of_field Unsortable = None"

definition cursor_of :: "string \<Rightarrow> sort_order \<Rightarrow> page_key \<Rightarrow> cursor_object" where
  "cursor_of scope order key =
     \<lparr>cu_version_ok = True, cu_scope = Some scope, cu_order = Some (order_name order),
      cu_key = Some (map to_field key)\<rparr>"

definition encode_cursor :: "cursor_codec \<Rightarrow> string \<Rightarrow> sort_order \<Rightarrow> page_key \<Rightarrow> string" where
  "encode_cursor codec scope order key = cc_encode codec (cursor_of scope order key)"

definition invalid_cursor :: exn where
  "invalid_cursor = HarnessError VALIDATION_ERROR ''The pagination cursor is invalid.'' []"

definition decode_cursor ::
  "cursor_codec \<Rightarrow> string \<Rightarrow> string \<Rightarrow> sort_order \<Rightarrow> nat \<Rightarrow> page_key res" where
  "decode_cursor codec value scope order key_length =
     (if value = [] \<or> length value > 2048 then Inl invalid_cursor
      else case cc_decode codec value of
        None \<Rightarrow> Inl invalid_cursor
      | Some payload \<Rightarrow>
          if \<not> cu_version_ok payload \<or> cu_scope payload \<noteq> Some scope \<or>
             cu_order payload \<noteq> Some (order_name order)
          then Inl invalid_cursor
          else case cu_key payload of
            None \<Rightarrow> Inl invalid_cursor
          | Some key \<Rightarrow>
              if length key \<noteq> key_length then Inl invalid_cursor
              else mapE (\<lambda>v. case of_field v of None \<Rightarrow> Inl invalid_cursor | Some k \<Rightarrow> Inr k) key)"

section \<open>Pages\<close>

record page =
  pg_items :: "item list"
  pg_limit :: int
  pg_order :: sort_order
  pg_has_more :: bool
  pg_next_cursor :: "string option"

text \<open>Sorting compares neighbours of the result, so that it raises exactly when two keys cannot be
  compared.\<close>

definition sort_items :: "(item \<times> page_key) list \<Rightarrow> sort_order \<Rightarrow> (item \<times> page_key) list res" where
  "sort_items keyed order =
     bindE (guardE (\<forall>x \<in> set keyed. \<forall>y \<in> set keyed. comparable (snd x) (snd y))
       (TypeError ''not supported between str and int'')) (\<lambda>_.
     Inr (case order of Asc \<Rightarrow> sort_key snd keyed | Desc \<Rightarrow> rev (sort_key snd (rev keyed))))"

definition behind :: "sort_order \<Rightarrow> page_key \<Rightarrow> page_key \<Rightarrow> bool" where
  "behind order after key = (case order of Asc \<Rightarrow> after < key | Desc \<Rightarrow> key < after)"

definition drop_seen ::
  "sort_order \<Rightarrow> page_key \<Rightarrow> (item \<times> page_key) list \<Rightarrow> (item \<times> page_key) list res" where
  "drop_seen order after ordered =
     bindE (guardE (\<forall>x \<in> set ordered. comparable (snd x) after)
       (TypeError ''not supported between str and int'')) (\<lambda>_.
     Inr (filter (\<lambda>x. behind order after (snd x)) ordered))"

definition paginate ::
  "cursor_codec \<Rightarrow> item list \<Rightarrow> string \<Rightarrow> string list \<Rightarrow> int \<Rightarrow> string option \<Rightarrow> sort_order \<Rightarrow> page res" where
  "paginate codec items scope names limit cursor order =
     bindE (guardE (names \<noteq> [] \<and> 1 \<le> limit \<and> limit \<le> 200)
       (HarnessError VALIDATION_ERROR ''The pagination parameters are invalid.'' [])) (\<lambda>_.
     bindE (mapE (\<lambda>i. bindE (key_of i names) (\<lambda>k. Inr (i, k))) items) (\<lambda>keyed.
     bindE (sort_items keyed order) (\<lambda>ordered.
     bindE (case cursor of
         None \<Rightarrow> Inr ordered
       | Some value \<Rightarrow> bindE (decode_cursor codec value scope order (length names))
           (\<lambda>after. drop_seen order after ordered)) (\<lambda>ordered.
     let has_more = length ordered > nat limit; page_items = take (nat limit) ordered in
     Inr \<lparr>pg_items = map fst page_items, pg_limit = limit, pg_order = order, pg_has_more = has_more,
          pg_next_cursor = (if has_more \<and> page_items \<noteq> []
            then Some (encode_cursor codec scope order (snd (last page_items))) else None)\<rparr>))))"

section \<open>A client that follows the cursors\<close>

fun walk ::
  "nat \<Rightarrow> cursor_codec \<Rightarrow> item list \<Rightarrow> string \<Rightarrow> string list \<Rightarrow> int \<Rightarrow> string option \<Rightarrow> sort_order \<Rightarrow>
   item list res" where
  "walk 0 codec items scope names limit cursor order = Inl (RuntimeError ''out of requests'')"
| "walk (Suc n) codec items scope names limit cursor order =
     bindE (paginate codec items scope names limit cursor order) (\<lambda>page.
     case pg_next_cursor page of
       None \<Rightarrow> Inr (pg_items page)
     | Some c \<Rightarrow> bindE (walk n codec items scope names limit (Some c) order)
         (\<lambda>rest. Inr (pg_items page @ rest)))"

section \<open>Pages cover the list\<close>

text \<open>The list in the order of its keys, which are comparable and pairwise distinct.\<close>

definition keyed_by :: "string list \<Rightarrow> item list \<Rightarrow> (item \<times> page_key) list \<Rightarrow> bool" where
  "keyed_by names items keyed =
     (map fst keyed = items \<and> list_all (\<lambda>(i, k). key_of i names = Inr k) keyed \<and>
      distinct (map snd keyed) \<and>
      (\<forall>x \<in> set keyed. \<forall>y \<in> set keyed. comparable (snd x) (snd y)))"

definition ordered :: "sort_order \<Rightarrow> (item \<times> page_key) list \<Rightarrow> (item \<times> page_key) list" where
  "ordered order keyed = (case order of Asc \<Rightarrow> sort_key snd keyed | Desc \<Rightarrow> rev (sort_key snd (rev keyed)))"

text \<open>What the codec promises of the cursors the list can have: they are not empty and decode to what was encoded.\<close>

definition faithful_codec ::
  "cursor_codec \<Rightarrow> string \<Rightarrow> sort_order \<Rightarrow> (item \<times> page_key) list \<Rightarrow> bool" where
  "faithful_codec codec scope order keyed =
     (\<forall>k \<in> snd ` set keyed. let c = encode_cursor codec scope order k in
        c \<noteq> [] \<and> cc_decode codec c = Some (cursor_of scope order k))"

text \<open>The limit of \<open>_decode_cursor\<close>, which \<open>_encode_cursor\<close> does not check: the cursors of the list keep it.\<close>

definition short_cursors ::
  "cursor_codec \<Rightarrow> string \<Rightarrow> sort_order \<Rightarrow> (item \<times> page_key) list \<Rightarrow> bool" where
  "short_cursors codec scope order keyed =
     list_all (\<lambda>(i, k). length (encode_cursor codec scope order k) \<le> 2048) keyed"

lemma keyed_mapE:
  assumes "keyed_by names items keyed"
  shows "mapE (\<lambda>i. bindE (key_of i names) (\<lambda>k. Inr (i, k))) items = Inr keyed"
proof -
  have "list_all (\<lambda>(i, k). key_of i names = Inr k) xs \<Longrightarrow>
      mapE (\<lambda>i. bindE (key_of i names) (\<lambda>k. Inr (i, k))) (map fst xs) = Inr xs" for xs
    by (induction xs) (auto split: prod.splits)
  then show ?thesis using assms unfolding keyed_by_def by blast
qed

lemma ordered_set [simp]: "set (ordered order keyed) = set keyed"
  by (cases order) (simp_all add: ordered_def)

lemma ordered_length [simp]: "length (ordered order keyed) = length keyed"
  by (cases order) (simp_all add: ordered_def)

lemma sort_items_keyed:
  "keyed_by names items keyed \<Longrightarrow> sort_items keyed order = Inr (ordered order keyed)"
  by (simp add: sort_items_def ordered_def keyed_by_def)

text \<open>Every key is behind those before it.\<close>

lemma ordered_strict:
  assumes "distinct (map snd keyed)"
  shows "sorted_wrt (\<lambda>x y. behind order (snd x) (snd y)) (ordered order keyed)"
proof -
  have up: "sorted_wrt (\<lambda>x y. snd x < snd y) (sort_key snd xs)" if "distinct (map snd xs)" for xs :: "(item \<times> page_key) list"
  proof -
    have "sorted (map snd (sort_key snd xs))" by simp
    moreover have "distinct (map snd (sort_key snd xs))"
      using that by (simp add: distinct_map)
    ultimately have "sorted_wrt (<) (map snd (sort_key snd xs))" by (simp add: strict_sorted_iff)
    then show ?thesis by (simp add: sorted_wrt_map)
  qed
  show ?thesis
  proof (cases order)
    case Asc
    then show ?thesis using up [OF assms] by (simp add: ordered_def behind_def)
  next
    case Desc
    have "distinct (map snd (rev keyed))" using assms by (simp add: rev_map [symmetric])
    then show ?thesis using up [of "rev keyed"] Desc by (simp add: ordered_def behind_def sorted_wrt_rev)
  qed
qed

lemma filter_behind:
  assumes "sorted_wrt (\<lambda>x y. behind order (snd x) (snd y)) (xs @ ys)" and "xs \<noteq> []"
  shows "filter (\<lambda>x. behind order (snd (last xs)) (snd x)) (xs @ ys) = ys"
proof -
  have last: "last xs \<in> set xs" using assms(2) by simp
  have asym: "behind order a b \<Longrightarrow> \<not> behind order b a" for a b
    by (cases order) (auto simp: behind_def)
  obtain zs where xs: "xs = zs @ [last xs]" using assms(2) by (metis append_butlast_last_id)
  have "\<not> behind order (snd (last xs)) (snd x)" if "x \<in> set xs" for x
  proof (cases "x \<in> set zs")
    case True
    then have "behind order (snd x) (snd (last xs))"
      using assms(1) by (subst (asm) xs) (auto simp: sorted_wrt_append)
    then show ?thesis by (rule asym)
  next
    case False
    then have "x = last xs" using that xs by (metis Un_iff list.set(1,2) singletonD set_append empty_iff insert_iff)
    then show ?thesis using asym by blast
  qed
  moreover have "behind order (snd (last xs)) (snd y)" if "y \<in> set ys" for y
    using assms(1) last that by (auto simp: sorted_wrt_append)
  ultimately show ?thesis by simp
qed

lemma decode_encode:
  assumes "faithful_codec codec scope order keyed" and "keyed_by names items keyed" and "k \<in> snd ` set keyed"
    and "short_cursors codec scope order keyed"
  shows "decode_cursor codec (encode_cursor codec scope order k) scope order (length names) = Inr k"
proof -
  have "length k = length names"
  proof -
    obtain i where "(i, k) \<in> set keyed" using assms(3) by force
    then have "key_of i names = Inr k" using assms(2) by (auto simp: keyed_by_def list_all_iff)
    then show ?thesis by (auto simp: key_of_def mapE_Inr_iff dest: list_all2_lengthD)
  qed
  moreover have "mapE (\<lambda>v. case of_field v of None \<Rightarrow> Inl invalid_cursor | Some k \<Rightarrow> Inr k) (map to_field xs) = Inr xs" for xs
  proof (induction xs)
    case (Cons x xs)
    then show ?case by (cases x) auto
  qed simp
  moreover have "encode_cursor codec scope order k \<noteq> [] \<and> length (encode_cursor codec scope order k) \<le> 2048 \<and>
      cc_decode codec (encode_cursor codec scope order k) = Some (cursor_of scope order k)"
    using assms(1,3,4) unfolding faithful_codec_def short_cursors_def Let_def list_all_iff by fastforce
  ultimately show ?thesis by (simp add: decode_cursor_def cursor_of_def)
qed

text \<open>The page behind a cursor.\<close>

lemma paginate_at:
  assumes "keyed_by names items keyed" and "faithful_codec codec scope order keyed"
    and "names \<noteq> []" and "1 \<le> limit" and "limit \<le> 200"
    and "ordered order keyed = xs @ ys"
    and "case cursor of None \<Rightarrow> xs = []
      | Some c \<Rightarrow> xs \<noteq> [] \<and> c = encode_cursor codec scope order (snd (last xs))"
    and "short_cursors codec scope order keyed"
  shows "paginate codec items scope names limit cursor order = Inr
    \<lparr>pg_items = map fst (take (nat limit) ys), pg_limit = limit, pg_order = order,
     pg_has_more = nat limit < length ys,
     pg_next_cursor = (if nat limit < length ys
       then Some (encode_cursor codec scope order (snd (last (take (nat limit) ys)))) else None)\<rparr>"
proof -
  have dist: "distinct (map snd keyed)" using assms(1) by (simp add: keyed_by_def)
  have "(case cursor of None \<Rightarrow> Inr (ordered order keyed)
      | Some value \<Rightarrow> bindE (decode_cursor codec value scope order (length names))
          (\<lambda>after. drop_seen order after (ordered order keyed))) = Inr ys"
  proof (cases cursor)
    case None
    then show ?thesis using assms(6,7) by simp
  next
    case (Some c)
    then have xs: "xs \<noteq> []" "c = encode_cursor codec scope order (snd (last xs))" using assms(7) by auto
    have "last xs \<in> set (ordered order keyed)" using assms(6) xs(1) by simp
    then have last: "last xs \<in> set keyed" by simp
    have "\<forall>x \<in> set (ordered order keyed). comparable (snd x) (snd (last xs))"
      using assms(1) last unfolding keyed_by_def by simp
    moreover have "filter (\<lambda>x. behind order (snd (last xs)) (snd x)) (ordered order keyed) = ys"
      using filter_behind [OF _ xs(1)] ordered_strict [OF dist, of order] assms(6) by metis
    ultimately show ?thesis
      using Some xs(2) decode_encode [OF assms(2,1) _ assms(8)] last by (simp add: drop_seen_def)
  qed
  moreover have "take (nat limit) ys \<noteq> []" if "nat limit < length ys" using that assms(4) by auto
  ultimately show ?thesis
    using assms(3-5)
    by (simp add: paginate_def keyed_mapE [OF assms(1)] sort_items_keyed [OF assms(1)] Let_def)
qed

lemma walk_from:
  assumes "keyed_by names items keyed" and "faithful_codec codec scope order keyed"
    and "names \<noteq> []" and "1 \<le> limit" and "limit \<le> 200" and "short_cursors codec scope order keyed"
  shows "ordered order keyed = xs @ ys \<Longrightarrow> length ys < n \<Longrightarrow>
    (case cursor of None \<Rightarrow> xs = []
     | Some c \<Rightarrow> xs \<noteq> [] \<and> c = encode_cursor codec scope order (snd (last xs))) \<Longrightarrow>
    walk n codec items scope names limit cursor order = Inr (map fst ys)"
proof (induction n arbitrary: xs ys cursor)
  case (Suc n)
  note page = paginate_at [OF assms(1-5) Suc.prems(1,3) assms(6)]
  show ?case
  proof (cases "nat limit < length ys")
    case True
    let ?page = "take (nat limit) ys"
    have "?page \<noteq> []" using True assms(4) by auto
    moreover have "ordered order keyed = (xs @ ?page) @ drop (nat limit) ys" using Suc.prems(1) by simp
    ultimately have "walk n codec items scope names limit
        (Some (encode_cursor codec scope order (snd (last ?page)))) order = Inr (map fst (drop (nat limit) ys))"
      using True Suc.prems(2) assms(4) by (intro Suc.IH [of "xs @ ?page"]) auto
    then show ?thesis using page True by (simp add: map_append [symmetric] del: map_append)
  next
    case False
    then show ?thesis using page by simp
  qed
qed simp

text \<open>
  C28. Of a list whose items have distinct and mutually comparable keys, of at least one field each, and whose
  cursors have at most 2048 characters each, a client that asks for pages of 1 to 200 items and follows
  the cursors from the first page comes to an end, and has read every item exactly once and in order: no item
  is skipped or repeated at a page boundary. The codec is assumed to decode what it encoded. A longer
  cursor is refused by the server that made it.
\<close>

theorem pages_enumerate_list:
  assumes "keyed_by names items keyed" and "faithful_codec codec scope order keyed"
    and "names \<noteq> []" and "1 \<le> limit" and "limit \<le> 200" and "short_cursors codec scope order keyed"
  shows "\<exists>read. walk (Suc (length items)) codec items scope names limit None order = Inr read \<and>
    mset read = mset items \<and> read = map fst (ordered order keyed)"
proof -
  have len: "length items = length keyed" using assms(1) by (auto simp: keyed_by_def)
  have "walk (Suc (length items)) codec items scope names limit None order =
      Inr (map fst (ordered order keyed))"
    by (rule walk_from [OF assms, of "[]"]) (simp_all add: len)
  moreover have "mset (ordered order keyed) = mset keyed"
    by (cases order) (simp_all add: ordered_def)
  then have "mset (map fst (ordered order keyed)) = mset items"
    using assms(1) by (metis keyed_by_def mset_map)
  ultimately show ?thesis by blast
qed

text \<open>The length limit holds for every cursor, also for those the server itself handed out.\<close>

lemma long_cursor_refused:
  "2048 < length (encode_cursor codec scope order k) \<Longrightarrow>
     decode_cursor codec (encode_cursor codec scope order k) scope order n = Inl invalid_cursor"
  by (simp add: decode_cursor_def)

end
