(* ===== verification/Usage.thy ===== *)
theory Usage imports File_Store Plan_Edit begin

text \<open>
  \<^verbatim>\<open>backend/harness/services/usage.py\<close> and the \<open>UsageRepository\<close> of
  \<^verbatim>\<open>backend/harness/storage/repository.py\<close>: ingestion of token usage events, the state of their
  collection, its recovery, and the summaries. The state is the usage journal of a task and its
  collection file; the snapshots that the service reads are an argument. The schema of usage events,
  the digest of an event and the hexadecimal SHA-256 of a text are the fields of a record. The clock
  reading is the argument \<open>now\<close>.
\<close>

section \<open>Events and collection state\<close>

record usage_event =
  ue_event_id :: string
  ue_task_id :: string
  ue_instance_id :: string
  ue_agent_type :: agent_type
  ue_model :: string
  ue_call_type :: string
  ue_input_tokens :: int
  ue_output_tokens :: int
  ue_cached_input_tokens :: int
  ue_reasoning_tokens :: int
  ue_total_tokens :: int
  ue_cost_micros :: "int option"
  ue_price_catalog_revision :: "string option"
  ue_occurred_at :: string
  ue_details :: string

datatype completeness = NOT_REPORTED | PARTIAL | COMPLETE

record usage_entry =
  un_instance_id :: string
  un_agent_type :: agent_type
  un_status :: completeness
  un_event_count :: nat
  un_cursor :: "string option"
  un_last_checked_at :: string
  un_source :: string

type_synonym usage_entries = "(string \<times> usage_entry) list"

text \<open>The collection file may be absent, or hold something else than a collection state.\<close>

datatype usage_state_file = No_State | Bad_State | Usage_State usage_entries

record usage_files =
  uf_events :: "usage_event list"
  uf_state :: usage_state_file

type_synonym 'a uop = "(usage_files, exn, 'a) op"

record usage_library =
  ul_schema :: "usage_event \<Rightarrow> unit res"
  ul_digest :: "usage_event \<Rightarrow> string"
  ul_sha256 :: "string \<Rightarrow> string"

definition usage_invalid :: "string \<Rightarrow> exn" where
  "usage_invalid message = HarnessError VALIDATION_ERROR message []"

section \<open>The journal\<close>

definition usage_append :: "usage_library \<Rightarrow> usage_event \<Rightarrow> bool uop" where
  "usage_append lib e =
     bindS (liftE (ul_schema lib e)) (\<lambda>_.
     bindS (readS (\<lambda>f. Inr (ue_event_id e \<in> ue_event_id ` set (uf_events f)))) (\<lambda>known.
     if known then returnS False
     else bindS (modifyS (\<lambda>f. f\<lparr>uf_events := uf_events f @ [e]\<rparr>)) (\<lambda>_. returnS True)))"

definition usage_dict :: "usage_event list \<Rightarrow> usage_event list" where
  "usage_dict events = map snd (dict_items ue_event_id events)"

section \<open>The instance an event belongs to\<close>

definition master_agent :: agent_type where
  "master_agent = OtherAgent ''master''"

definition master_instance_id :: "usage_library \<Rightarrow> string \<Rightarrow> string" where
  "master_instance_id lib task_id = ''master_'' @ take 24 (ul_sha256 lib task_id)"

record usage_owner =
  uo_instance_id :: string
  uo_agent_type :: agent_type
  uo_status :: instance_status

definition owner_of_instance :: "agent_instance \<Rightarrow> usage_owner" where
  "owner_of_instance i =
     \<lparr>uo_instance_id = in_instance_id i, uo_agent_type = in_agent_type i, uo_status = in_status i\<rparr>"

definition master_owner :: "usage_library \<Rightarrow> string \<Rightarrow> usage_owner" where
  "master_owner lib task_id =
     \<lparr>uo_instance_id = master_instance_id lib task_id, uo_agent_type = master_agent,
      uo_status = I_RUNNING\<rparr>"

definition stored_instance ::
  "environment \<Rightarrow> store \<Rightarrow> string \<Rightarrow> string \<Rightarrow> agent_instance option res" where
  "stored_instance env st task_id instance_id =
     bindE (repo_get (repository_of env O_instance) st task_id instance_id) (\<lambda>p.
     case p of None \<Rightarrow> Inr None | Some p \<Rightarrow> bindE (as_instance p) (\<lambda>i. Inr (Some i)))"

definition usage_owner_of ::
  "environment \<Rightarrow> usage_library \<Rightarrow> store \<Rightarrow> string \<Rightarrow> string \<Rightarrow> usage_owner res" where
  "usage_owner_of env lib st task_id instance_id =
     bindE (if instance_id = master_instance_id lib task_id
            then repo_get (repository_of env O_task) st task_id task_id else Inr None) (\<lambda>task.
     if task \<noteq> None then Inr (master_owner lib task_id)
     else bindE (stored_instance env st task_id instance_id) (\<lambda>i.
       case i of
         Some i \<Rightarrow>
           if in_task_id i = task_id then Inr (owner_of_instance i)
           else Inl (HarnessError INSTANCE_NOT_FOUND ''The requested instance does not exist.'' [])
       | None \<Rightarrow> Inl (HarnessError INSTANCE_NOT_FOUND ''The requested instance does not exist.'' [])))"

definition terminal_instance_statuses :: "instance_status list" where
  "terminal_instance_statuses =
     [I_SUCCEEDED, I_FAILED, I_FAILED_TO_START, I_CRASHED, I_CANCELLED, I_SUPERSEDED, I_ARCHIVED,
      I_UNAVAILABLE]"

section \<open>Validation of events\<close>

definition check_token_counts :: "usage_event \<Rightarrow> unit res" where
  "check_token_counts e =
     bindE (guardE (ue_total_tokens e = ue_input_tokens e + ue_output_tokens e)
       (usage_invalid ''Usage total_tokens must equal input plus output.'')) (\<lambda>_.
     bindE (guardE (ue_cached_input_tokens e \<le> ue_input_tokens e)
       (usage_invalid ''Cached input usage exceeds total input usage.'')) (\<lambda>_.
     guardE (ue_reasoning_tokens e \<le> ue_output_tokens e)
       (usage_invalid ''Reasoning usage exceeds total output usage.'')))"

definition validate_event :: "usage_library \<Rightarrow> string \<Rightarrow> usage_owner \<Rightarrow> usage_event \<Rightarrow> unit res" where
  "validate_event lib task_id owner e =
     bindE (ul_schema lib e) (\<lambda>_.
     bindE (guardE (ue_task_id e = task_id \<and> ue_instance_id e = uo_instance_id owner)
       (usage_invalid ''The usage event belongs to another task or instance.'')) (\<lambda>_.
     bindE (guardE (ue_agent_type e = uo_agent_type owner)
       (usage_invalid ''The usage event Agent type does not match its instance.'')) (\<lambda>_.
     check_token_counts e)))"

definition validate_master_event :: "usage_library \<Rightarrow> string \<Rightarrow> usage_event \<Rightarrow> unit res" where
  "validate_master_event lib task_id e =
     bindE (ul_schema lib e) (\<lambda>_.
     bindE (guardE (ue_task_id e = task_id \<and> ue_instance_id e = master_instance_id lib task_id \<and>
         ue_agent_type e = master_agent)
       (usage_invalid ''The Master usage owner is invalid.'')) (\<lambda>_.
     bindE (guardE (ue_call_type e \<in> {''reasoning_llm'', ''vision_language_model''})
       (usage_invalid ''The Master usage call type is invalid.'')) (\<lambda>_.
     check_token_counts e)))"

section \<open>Staging a batch\<close>

text \<open>The loop over the batch: the events to append and the number of repetitions.\<close>

definition stage_event ::
  "usage_library \<Rightarrow> (usage_event \<Rightarrow> unit res) \<Rightarrow> usage_event list \<Rightarrow> usage_event \<Rightarrow>
   usage_event list \<times> nat \<Rightarrow> (usage_event list \<times> nat) res" where
  "stage_event lib check existing e = (\<lambda>(staged, duplicates).
     bindE (check e) (\<lambda>_.
     case (case dict_by ue_event_id staged (ue_event_id e) of
             Some p \<Rightarrow> Some p | None \<Rightarrow> dict_by ue_event_id existing (ue_event_id e)) of
       Some previous \<Rightarrow>
         if ul_digest lib previous \<noteq> ul_digest lib e then
           Inl (HarnessError IDEMPOTENCY_CONFLICT
             ''A usage event id was reused with different accounting data.''
             [(''event_id'', DStr (ue_event_id e))])
         else Inr (staged, Suc duplicates)
     | None \<Rightarrow> Inr (staged @ [e], duplicates)))"

definition stage_batch ::
  "usage_library \<Rightarrow> (usage_event \<Rightarrow> unit res) \<Rightarrow> usage_event list \<Rightarrow> usage_event list \<Rightarrow>
   (usage_event list \<times> nat) res" where
  "stage_batch lib check existing batch = foldE (stage_event lib check existing) batch ([], 0)"

definition append_staged :: "usage_library \<Rightarrow> usage_event \<Rightarrow> unit uop" where
  "append_staged lib e =
     bindS (usage_append lib e) (\<lambda>appended.
     if appended then returnS ()
     else throwS (RuntimeError ''usage event disappeared during the ingestion lock''))"

text \<open>The whole batch is checked before the first append.\<close>

definition take_batch ::
  "usage_library \<Rightarrow> (usage_event \<Rightarrow> unit res) \<Rightarrow> usage_event list \<Rightarrow> (usage_event list \<times> nat) uop" where
  "take_batch lib check batch =
     bindS (readS (\<lambda>f. stage_batch lib check (uf_events f) batch)) (\<lambda>(staged, duplicates).
     bindS (forS (append_staged lib) staged) (\<lambda>_. returnS (staged, duplicates)))"

section \<open>The collection state\<close>

definition read_usage_state :: "usage_files \<Rightarrow> usage_entries res" where
  "read_usage_state f =
     (case uf_state f of
        No_State \<Rightarrow> Inr []
      | Bad_State \<Rightarrow> Inl (usage_invalid ''The usage collection state is invalid.'')
      | Usage_State entries \<Rightarrow> Inr entries)"

definition write_usage_entry :: "usage_entries \<Rightarrow> usage_entry \<Rightarrow> unit uop" where
  "write_usage_entry entries entry =
     modifyS (\<lambda>f. f\<lparr>uf_state := Usage_State (AList.update (un_instance_id entry) entry entries)\<rparr>)"

section \<open>Ingestion\<close>

record ingest_result =
  ir_accepted :: nat
  ir_duplicates :: nat
  ir_completeness :: completeness
  ir_cursor :: "string option"

text \<open>The completeness an adapter's batch leaves: nothing seen, all there is, or more to come.\<close>

definition completeness_of :: "nat \<Rightarrow> bool \<Rightarrow> completeness" where
  "completeness_of seen complete = (if seen = 0 then NOT_REPORTED else if complete then COMPLETE else PARTIAL)"

definition adapter_entry ::
  "string \<Rightarrow> usage_owner \<Rightarrow> string \<Rightarrow> usage_event list \<Rightarrow> string \<Rightarrow> string option \<Rightarrow> bool option \<Rightarrow>
   usage_entries \<Rightarrow> usage_event list \<Rightarrow> usage_entry" where
  "adapter_entry now owner instance_id events source cursor collection_complete entries existing =
     (let prior = map_of entries instance_id;
          seen = length (filter (\<lambda>e. ue_instance_id e = instance_id) existing);
          complete = (case collection_complete of
            None \<Rightarrow> uo_status owner \<in> set terminal_instance_statuses | Some b \<Rightarrow> b);
          next_cursor = (if cursor = None \<and> events \<noteq> [] then Some (ue_event_id (last events)) else cursor)
      in \<lparr>un_instance_id = instance_id, un_agent_type = uo_agent_type owner,
          un_status = completeness_of seen complete, un_event_count = seen,
          un_cursor = (if next_cursor \<noteq> None then next_cursor
            else case prior of None \<Rightarrow> None | Some p \<Rightarrow> un_cursor p),
          un_last_checked_at = now, un_source = source\<rparr>)"

definition master_entry :: "string \<Rightarrow> string \<Rightarrow> usage_entries \<Rightarrow> usage_event list \<Rightarrow> usage_entry" where
  "master_entry now instance_id entries existing =
     (let master_events = filter (\<lambda>e. ue_instance_id e = instance_id) existing in
      \<lparr>un_instance_id = instance_id, un_agent_type = master_agent, un_status = PARTIAL,
       un_event_count = length master_events,
       un_cursor = (if master_events = [] then None else Some (ue_event_id (last master_events))),
       un_last_checked_at = now, un_source = ''internal''\<rparr>)"

text \<open>After the appends: the entry of the instance is replaced, and the result is made of it.\<close>

definition record_collection ::
  "(usage_entries \<Rightarrow> usage_event list \<Rightarrow> usage_entry) \<Rightarrow> usage_event list \<times> nat \<Rightarrow> ingest_result uop" where
  "record_collection make_entry = (\<lambda>(staged, duplicates).
     bindS (readS read_usage_state) (\<lambda>entries.
     bindS (readS (\<lambda>f. Inr (make_entry entries (usage_dict (uf_events f))))) (\<lambda>entry.
     bindS (write_usage_entry entries entry) (\<lambda>_.
     returnS \<lparr>ir_accepted = length staged, ir_duplicates = duplicates,
       ir_completeness = un_status entry, ir_cursor = un_cursor entry\<rparr>))))"

definition ingest ::
  "environment \<Rightarrow> usage_library \<Rightarrow> store \<Rightarrow> string \<Rightarrow> string \<Rightarrow> string \<Rightarrow> usage_event list \<Rightarrow> string \<Rightarrow>
   string option \<Rightarrow> bool option \<Rightarrow> ingest_result uop" where
  "ingest env lib st now task_id instance_id events source cursor collection_complete =
     bindS (liftE (validate_identifier task_id ''task_id'')) (\<lambda>_.
     bindS (liftE (validate_identifier instance_id ''instance_id'')) (\<lambda>_.
     bindS (liftE (guardE (source \<in> {''adapter'', ''internal''})
       (usage_invalid ''The usage source is invalid.''))) (\<lambda>_.
     bindS (liftE (guardE (length events \<le> 10000)
       (usage_invalid ''A usage batch is too large.''))) (\<lambda>_.
     bindS (liftE (usage_owner_of env lib st task_id instance_id)) (\<lambda>owner.
     bindS (take_batch lib (validate_event lib task_id owner) events)
       (record_collection
         (adapter_entry now owner instance_id events source cursor collection_complete)))))))"

definition ingest_master ::
  "environment \<Rightarrow> usage_library \<Rightarrow> store \<Rightarrow> string \<Rightarrow> string \<Rightarrow> usage_event list \<Rightarrow> ingest_result uop" where
  "ingest_master env lib st now task_id events =
     bindS (liftE (validate_identifier task_id ''task_id'')) (\<lambda>_.
     bindS (liftE (bindE (repo_get (repository_of env O_task) st task_id task_id) (\<lambda>task.
       guardE (task \<noteq> None) (HarnessError TASK_NOT_FOUND ''The requested task does not exist.'' [])))) (\<lambda>_.
     bindS (take_batch lib (validate_master_event lib task_id) events)
       (record_collection (master_entry now (master_instance_id lib task_id)))))"

section \<open>The Master's own calls\<close>

record model_result =
  mr_request_id :: string
  mr_model :: string
  mr_call_type :: string
  mr_input_tokens :: int
  mr_output_tokens :: int
  mr_cached_input_tokens :: int
  mr_reasoning_tokens :: int
  mr_total_tokens :: int
  mr_details :: string

definition model_call_event_id :: "usage_library \<Rightarrow> string \<Rightarrow> model_result \<Rightarrow> string" where
  "model_call_event_id lib task_id r =
     ''usage_'' @ take 32 (ul_sha256 lib
       (task_id @ CHR 0x00 # mr_request_id r @ CHR 0x00 # mr_call_type r))"

definition model_call_event :: "usage_library \<Rightarrow> string \<Rightarrow> string \<Rightarrow> model_result \<Rightarrow> usage_event" where
  "model_call_event lib now task_id r =
     \<lparr>ue_event_id = model_call_event_id lib task_id r, ue_task_id = task_id,
      ue_instance_id = master_instance_id lib task_id, ue_agent_type = master_agent,
      ue_model = mr_model r, ue_call_type = mr_call_type r, ue_input_tokens = mr_input_tokens r,
      ue_output_tokens = mr_output_tokens r, ue_cached_input_tokens = mr_cached_input_tokens r,
      ue_reasoning_tokens = mr_reasoning_tokens r, ue_total_tokens = mr_total_tokens r,
      ue_cost_micros = None, ue_price_catalog_revision = None, ue_occurred_at = now,
      ue_details = mr_details r\<rparr>"

definition record_master_model_call ::
  "environment \<Rightarrow> usage_library \<Rightarrow> store \<Rightarrow> string \<Rightarrow> string \<Rightarrow> model_result \<Rightarrow> ingest_result uop" where
  "record_master_model_call env lib st now task_id r =
     bindS (readS (\<lambda>f. Inr (find (\<lambda>e. ue_event_id e = model_call_event_id lib task_id r) (uf_events f))))
       (\<lambda>existing.
     case existing of
       Some e \<Rightarrow> ingest_master env lib st now task_id [e]
     | None \<Rightarrow> ingest_master env lib st now task_id [model_call_event lib now task_id r])"

section \<open>Collection from an adapter\<close>

text \<open>\<open>collect_usage\<close> of the adapter is an argument; the answer that is not a list is \<open>None\<close>.\<close>

definition collect_instance ::
  "environment \<Rightarrow> usage_library \<Rightarrow> store \<Rightarrow> string \<Rightarrow> agent_type \<Rightarrow>
   (string option \<Rightarrow> usage_event list option res) \<Rightarrow> string \<Rightarrow> string \<Rightarrow> ingest_result uop" where
  "collect_instance env lib st now adapter_type collect_usage task_id instance_id =
     bindS (liftE (usage_owner_of env lib st task_id instance_id)) (\<lambda>owner.
     bindS (liftE (guardE (uo_agent_type owner = adapter_type)
       (usage_invalid ''The usage collector does not own this instance.''))) (\<lambda>_.
     bindS (readS read_usage_state) (\<lambda>entries.
     let cursor = (case map_of entries instance_id of None \<Rightarrow> None | Some p \<Rightarrow> un_cursor p) in
     bindS (liftE (collect_usage cursor)) (\<lambda>answer.
     case answer of
       None \<Rightarrow> throwS (usage_invalid ''The Agent adapter returned invalid usage data.'')
     | Some events \<Rightarrow>
         ingest env lib st now task_id instance_id events ''adapter''
           (if events \<noteq> [] then Some (ue_event_id (last events)) else cursor)
           (Some (uo_status owner \<in> set terminal_instance_statuses))))))"

section \<open>Summaries\<close>

record token_totals =
  tt_input :: int
  tt_output :: int
  tt_cached_input :: int
  tt_reasoning :: int
  tt_total :: int

definition token_totals_of :: "usage_event list \<Rightarrow> token_totals" where
  "token_totals_of events =
     \<lparr>tt_input = sum_list (map ue_input_tokens events), tt_output = sum_list (map ue_output_tokens events),
      tt_cached_input = sum_list (map ue_cached_input_tokens events),
      tt_reasoning = sum_list (map ue_reasoning_tokens events),
      tt_total = sum_list (map ue_total_tokens events)\<rparr>"

datatype cost_completeness = Cost_Unknown | Cost_Complete | Cost_Partial

record cost_summary =
  cs_completeness :: cost_completeness
  cs_known_micros :: int
  cs_priced :: nat
  cs_unpriced :: nat
  cs_revisions :: "string list"

text \<open>A priced event without the revision of its price catalog is a \<open>KeyError\<close>.\<close>

definition cost_summary_of :: "usage_event list \<Rightarrow> cost_summary res" where
  "cost_summary_of events =
     (let reported = filter (\<lambda>e. ue_cost_micros e \<noteq> None) events in
      bindE (mapE (\<lambda>e. case ue_price_catalog_revision e of
          None \<Rightarrow> Inl (KeyError ''price_catalog_revision'') | Some r \<Rightarrow> Inr r) reported) (\<lambda>revisions.
      Inr \<lparr>cs_completeness = (if reported = [] then Cost_Unknown
             else if length reported = length events then Cost_Complete else Cost_Partial),
           cs_known_micros = sum_list (map (\<lambda>e. the (ue_cost_micros e)) reported),
           cs_priced = length reported, cs_unpriced = length events - length reported,
           cs_revisions = sort (remdups revisions)\<rparr>))"

record usage_row =
  ur_instance_id :: string
  ur_agent_type :: agent_type
  ur_completeness :: completeness
  ur_event_count :: nat
  ur_tokens :: token_totals
  ur_cost :: cost_summary
  ur_last_checked_at :: "string option"

record usage_summary =
  ux_completeness :: completeness
  ux_event_count :: nat
  ux_tokens :: token_totals
  ux_cost :: cost_summary
  ux_instances :: "usage_row list"
  ux_models :: "(string \<times> nat \<times> token_totals \<times> cost_summary) list"
  ux_time_buckets :: "(string \<times> nat \<times> token_totals) list"
  ux_events :: "usage_event list"

definition usage_row_of :: "usage_entries \<Rightarrow> usage_event list \<Rightarrow> string \<times> agent_type \<Rightarrow> usage_row res" where
  "usage_row_of entries events = (\<lambda>(instance_id, agent_type).
     (let row_events = filter (\<lambda>e. ue_instance_id e = instance_id) events in
      bindE (cost_summary_of row_events) (\<lambda>cost.
      Inr \<lparr>ur_instance_id = instance_id, ur_agent_type = agent_type,
           ur_completeness = (case map_of entries instance_id of
               Some c \<Rightarrow> un_status c
             | None \<Rightarrow> if row_events \<noteq> [] then PARTIAL else NOT_REPORTED),
           ur_event_count = length row_events, ur_tokens = token_totals_of row_events,
           ur_cost = cost,
           ur_last_checked_at = map_option un_last_checked_at (map_of entries instance_id)\<rparr>)))"

text \<open>The keys of a dictionary of lists, sorted.\<close>

definition groups_of :: "('a \<Rightarrow> string) \<Rightarrow> 'a list \<Rightarrow> (string \<times> 'a list) list" where
  "groups_of key xs =
     map (\<lambda>k. (k, filter (\<lambda>x. key x = k) xs)) (sort (remdups (map key xs)))"

definition hour_of :: "usage_event \<Rightarrow> string" where
  "hour_of e = take 13 (ue_occurred_at e) @ '':00:00Z''"

definition overall_completeness :: "usage_row list \<Rightarrow> usage_event list \<Rightarrow> completeness" where
  "overall_completeness rows events =
     (if rows \<noteq> [] \<and> list_all (\<lambda>r. ur_completeness r = COMPLETE) rows then COMPLETE
      else if events \<noteq> [] \<or> list_ex (\<lambda>r. ur_completeness r \<noteq> NOT_REPORTED) rows then PARTIAL
      else NOT_REPORTED)"

definition stored_plan :: "environment \<Rightarrow> store \<Rightarrow> string \<Rightarrow> task_plan option res" where
  "stored_plan env st task_id =
     bindE (repo_get (repository_of env O_plan) st task_id task_id) (\<lambda>p.
     case p of None \<Rightarrow> Inr None | Some p \<Rightarrow> bindE (as_plan p) (\<lambda>q. Inr (Some q)))"

definition usage_summary_of ::
  "environment \<Rightarrow> usage_library \<Rightarrow> store \<Rightarrow> string \<Rightarrow> string option \<Rightarrow> usage_files \<Rightarrow> usage_summary res" where
  "usage_summary_of env lib st task_id instance_id f =
     bindE (validate_identifier task_id ''task_id'') (\<lambda>_.
     bindE (repo_get (repository_of env O_task) st task_id task_id) (\<lambda>task.
     bindE (guardE (task \<noteq> None) (HarnessError TASK_NOT_FOUND ''The requested task does not exist.'' [])) (\<lambda>_.
     bindE (case instance_id of None \<Rightarrow> Inr () | Some i \<Rightarrow>
         bindE (validate_identifier i ''instance_id'') (\<lambda>_.
         bindE (usage_owner_of env lib st task_id i) (\<lambda>_. Inr ()))) (\<lambda>_.
     let events = filter (\<lambda>e. instance_id = None \<or> Some (ue_instance_id e) = instance_id) (uf_events f) in
     bindE (read_usage_state f) (\<lambda>entries.
     bindE (stored_plan env st task_id) (\<lambda>plan.
     let master_id = master_instance_id lib task_id;
         planned = (case plan of None \<Rightarrow> [] | Some p \<Rightarrow> map (\<lambda>i. (in_instance_id i, in_agent_type i)) (pl_instances p)) @
           (if map_of entries master_id \<noteq> None then [(master_id, master_agent)] else []);
         shown = filter (\<lambda>i. instance_id = None \<or> Some (fst i) = instance_id) planned in
     bindE (mapE (usage_row_of entries events) shown) (\<lambda>rows.
     bindE (cost_summary_of events) (\<lambda>cost.
     bindE (mapE (\<lambda>(m, es). bindE (cost_summary_of es) (\<lambda>c. Inr (m, length es, token_totals_of es, c)))
       (groups_of ue_model events)) (\<lambda>models.
     Inr \<lparr>ux_completeness = overall_completeness rows events, ux_event_count = length events,
          ux_tokens = token_totals_of events, ux_cost = cost, ux_instances = rows, ux_models = models,
          ux_time_buckets =
            map (\<lambda>(h, es). (h, length es, token_totals_of es)) (groups_of hour_of events),
          ux_events = events\<rparr>)))))))))"

section \<open>Recovery of the collection state\<close>

text \<open>One pass of the loop over the instances that have events. The flag says whether anything changed.\<close>

definition recover_usage_entry ::
  "environment \<Rightarrow> usage_library \<Rightarrow> store \<Rightarrow> string \<Rightarrow> string \<Rightarrow> usage_event list \<Rightarrow> string \<Rightarrow>
   usage_entries \<times> bool \<Rightarrow> (usage_entries \<times> bool) res" where
  "recover_usage_entry env lib st now task_id events instance_id = (\<lambda>(entries, changed).
     let own = filter (\<lambda>e. ue_instance_id e = instance_id) events;
         entry = map_of entries instance_id;
         cursor = (case entry of None \<Rightarrow> None | Some e \<Rightarrow> un_cursor e) in
     if entry = None \<or> un_event_count (the entry) \<noteq> length own \<or> cursor = None then
       bindE (stored_instance env st task_id instance_id) (\<lambda>i.
       bindE (case i of
           Some i \<Rightarrow> Inr (in_agent_type i)
         | None \<Rightarrow> if instance_id = master_instance_id lib task_id then Inr master_agent
             else Inl (HarnessError VALIDATION_ERROR
               ''Usage recovery found an event for an unknown instance.''
               [(''instance_id'', DStr instance_id)])) (\<lambda>agent_type.
       Inr (AList.update instance_id
         \<lparr>un_instance_id = instance_id, un_agent_type = agent_type, un_status = PARTIAL,
          un_event_count = length own,
          un_cursor = (if cursor = None then Some (ue_event_id (last own)) else cursor),
          un_last_checked_at = now, un_source = ''recovery''\<rparr> entries, True)))
     else Inr (entries, changed))"

text \<open>The recovery of one task directory, with the number of events when it changed anything.\<close>

definition recover_usage ::
  "environment \<Rightarrow> usage_library \<Rightarrow> store \<Rightarrow> string \<Rightarrow> string \<Rightarrow> nat option uop" where
  "recover_usage env lib st now task_id =
     bindS (readS (\<lambda>f. Inr f)) (\<lambda>f.
     if uf_events f = [] \<and> uf_state f = No_State then returnS None
     else
       bindS (readS read_usage_state) (\<lambda>entries.
       bindS (liftE (foldE (recover_usage_entry env lib st now task_id (uf_events f))
           (map fst (dict_items ue_instance_id (uf_events f))) (entries, False))) (\<lambda>(entries', changed).
       if changed then
         bindS (modifyS (\<lambda>f. f\<lparr>uf_state := Usage_State entries'\<rparr>)) (\<lambda>_.
         returnS (Some (length (uf_events f))))
       else returnS None)))"

end
