(* ===== verification/Usage_Properties.thy ===== *)
theory Usage_Properties imports Usage begin

text \<open>
  The accounting of tokens: a batch of usage events is taken whole or not at all, every event is
  counted once however often it is sent, and the collection state agrees with the journal at all
  times.
\<close>

section \<open>Staging\<close>

abbreviation event_ids :: "usage_event list \<Rightarrow> string list" where
  "event_ids es \<equiv> map ue_event_id es"

definition recorded :: "usage_library \<Rightarrow> usage_event list \<Rightarrow> usage_event \<Rightarrow> bool" where
  "recorded lib es e = (\<exists>r \<in> set es. ue_event_id r = ue_event_id e \<and> ul_digest lib r = ul_digest lib e)"

lemma recorded_mono: "recorded lib es e \<Longrightarrow> set es \<subseteq> set fs \<Longrightarrow> recorded lib fs e"
  by (auto simp: recorded_def)

lemma stage_event_cases:
  assumes "stage_event lib check es e (staged, d) = Inr (staged', d')"
  obtains (repeated) "staged' = staged" "d' = Suc d" "recorded lib (es @ staged) e" "check e = Inr ()"
  | (fresh) "staged' = staged @ [e]" "d' = d" "ue_event_id e \<notin> set (event_ids (es @ staged))" "check e = Inr ()"
proof -
  have checked: "check e = Inr ()" using assms by (auto simp: stage_event_def monad)
  show ?thesis
  proof (cases "dict_by ue_event_id staged (ue_event_id e)")
    case (Some p)
    with assms checked have "staged' = staged" "d' = Suc d" "ul_digest lib p = ul_digest lib e"
      by (auto simp: stage_event_def split: if_splits)
    with dict_by_Some [OF Some] repeated checked show ?thesis by (auto simp: recorded_def)
  next
    case None
    show ?thesis
    proof (cases "dict_by ue_event_id es (ue_event_id e)")
      case (Some p)
      with assms checked None have "staged' = staged" "d' = Suc d" "ul_digest lib p = ul_digest lib e"
        by (auto simp: stage_event_def split: if_splits)
      with dict_by_Some [OF Some] repeated checked show ?thesis by (auto simp: recorded_def)
    next
      case none: None
      with assms checked None have "staged' = staged @ [e]" "d' = d" by (auto simp: stage_event_def)
      with None none fresh checked show ?thesis by (auto simp: dict_by_None_iff)
    qed
  qed
qed

text \<open>What the loop over a batch stages.\<close>

definition staged_from ::
  "usage_library \<Rightarrow> (usage_event \<Rightarrow> unit res) \<Rightarrow> usage_event list \<Rightarrow> usage_event list \<Rightarrow>
   usage_event list \<Rightarrow> nat \<Rightarrow> bool" where
  "staged_from lib check es batch new d =
     (distinct (event_ids (es @ new)) \<and> length new + d = length batch \<and>
      set new \<subseteq> set batch \<and> (\<forall>e \<in> set batch. check e = Inr ()) \<and>
      list_all (recorded lib (es @ new)) batch)"

lemma stage_batch_stages:
  assumes "stage_batch lib check es batch = Inr (new, d)" and "distinct (event_ids es)"
  shows "staged_from lib check es batch new d"
proof -
  have "foldE (stage_event lib check es) batch (st, k) = Inr (new, d) \<Longrightarrow>
      staged_from lib check es done st k \<Longrightarrow> staged_from lib check es (done @ batch) new d" for st k "done"
  proof (induction batch arbitrary: st k "done")
    case (Cons e batch)
    from Cons.prems(1) obtain st' k' where step: "stage_event lib check es e (st, k) = Inr (st', k')"
      and rest: "foldE (stage_event lib check es) batch (st', k') = Inr (new, d)"
      by (auto simp: monad)
    have "staged_from lib check es (done @ [e]) st' k'"
      using step
    proof (cases rule: stage_event_cases)
      case repeated
      then show ?thesis using Cons.prems(2) by (auto simp: staged_from_def)
    next
      case fresh
      have "recorded lib (es @ st') x" if "recorded lib (es @ st) x" for x
        using fresh(1) by (intro recorded_mono [OF that]) auto
      then have "list_all (recorded lib (es @ st')) done"
        using Cons.prems(2) by (simp add: staged_from_def list_all_iff)
      moreover have "recorded lib (es @ st') e" using fresh(1) by (auto simp: recorded_def)
      ultimately show ?thesis using Cons.prems(2) fresh by (auto simp: staged_from_def)
    qed
    from Cons.IH [OF rest this] show ?case by simp
  qed simp
  from this [of "[]" 0 "[]"] show ?thesis
    using assms by (simp add: stage_batch_def staged_from_def)
qed

text \<open>A batch that is recorded already stages nothing.\<close>

lemma stage_batch_again:
  assumes "list_all (recorded lib es) batch" and "\<forall>e \<in> set batch. check e = Inr ()"
    and "distinct (event_ids es)"
  shows "stage_batch lib check es batch = Inr ([], length batch)"
proof -
  have "foldE (stage_event lib check es) batch ([], k) = Inr ([], k + length batch)" for k
    using assms(1,2)
  proof (induction batch arbitrary: k)
    case (Cons e batch)
    then obtain r where r: "r \<in> set es" "ue_event_id r = ue_event_id e" "ul_digest lib r = ul_digest lib e"
      by (auto simp: recorded_def)
    then have "dict_by ue_event_id es (ue_event_id e) = Some r"
      using dict_by_distinct [OF assms(3) r(1)] by simp
    then have "stage_event lib check es e ([], k) = Inr ([], Suc k)"
      using Cons.prems r(3) by (simp add: stage_event_def dict_by_def)
    then show ?case using Cons by simp
  qed simp
  then show ?thesis by (simp add: stage_batch_def)
qed

section \<open>Appending what was staged\<close>

lemma append_all_staged:
  assumes "distinct (event_ids (uf_events f @ new))" and "\<forall>e \<in> set new. ul_schema lib e = Inr ()"
  shows "forS (append_staged lib) new f = (Inr (), f\<lparr>uf_events := uf_events f @ new\<rparr>)"
  using assms
proof (induction new arbitrary: f)
  case (Cons e new)
  have "append_staged lib e f = (Inr (), f\<lparr>uf_events := uf_events f @ [e]\<rparr>)"
    using Cons.prems by (simp add: append_staged_def usage_append_def run) (simp add: returnS_def)
  then show ?case using Cons.IH [of "f\<lparr>uf_events := uf_events f @ [e]\<rparr>"] Cons.prems by (simp add: bindS_run)
qed (simp add: returnS_def)

lemma usage_dict_distinct: "distinct (event_ids es) \<Longrightarrow> usage_dict es = es"
proof -
  assume d: "distinct (event_ids es)"
  have "rev (remdups (rev (event_ids es))) = event_ids es" using d by (simp add: distinct_remdups_id)
  moreover have "map (\<lambda>k. the (dict_by ue_event_id es k)) (event_ids es) = es"
    using dict_by_distinct [OF d] by (auto intro: map_idI)
  ultimately show ?thesis by (simp add: usage_dict_def dict_items_def o_def)
qed

lemma take_batch_cases:
  assumes "take_batch lib check batch f = (r, f')" and "distinct (event_ids (uf_events f))"
    and "\<And>e. check e = Inr () \<Longrightarrow> ul_schema lib e = Inr ()"
  obtains (refused) x where "r = Inl x" "f' = f"
  | (taken) new d where "r = Inr (new, d)" "f' = f\<lparr>uf_events := uf_events f @ new\<rparr>"
      "staged_from lib check (uf_events f) batch new d"
proof (cases "stage_batch lib check (uf_events f) batch")
  case (Inl x)
  then have "r = Inl x" "f' = f" using assms(1) by (auto simp: take_batch_def run)
  then show ?thesis by (rule refused)
next
  case (Inr sd)
  obtain new d where sd: "sd = (new, d)" by force
  have staged: "staged_from lib check (uf_events f) batch new d"
    using stage_batch_stages [OF _ assms(2)] Inr sd by simp
  then have "forS (append_staged lib) new f = (Inr (), f\<lparr>uf_events := uf_events f @ new\<rparr>)"
    using assms(3) by (intro append_all_staged) (auto simp: staged_from_def)
  then have "take_batch lib check batch f = (Inr (new, d), f\<lparr>uf_events := uf_events f @ new\<rparr>)"
    by (simp add: take_batch_def run Inr sd bindS_run) (simp add: returnS_def)
  then show ?thesis using assms(1) staged taken by simp
qed

text \<open>What an ingestion leaves behind when it returns.\<close>

definition books_entry :: "usage_files \<Rightarrow> string \<Rightarrow> agent_type \<Rightarrow> usage_entry \<Rightarrow> bool" where
  "books_entry f i a entry =
     (un_instance_id entry = i \<and> un_agent_type entry = a \<and>
      un_event_count entry = length (filter (\<lambda>e. ue_instance_id e = i) (uf_events f)))"

definition ingested ::
  "usage_library \<Rightarrow> (usage_event \<Rightarrow> unit res) \<Rightarrow> string \<Rightarrow> agent_type \<Rightarrow> usage_event list \<Rightarrow> usage_files \<Rightarrow>
   ingest_result \<Rightarrow> usage_files \<Rightarrow> bool" where
  "ingested lib check i a batch f x f' =
     (\<exists>new entries entry. staged_from lib check (uf_events f) batch new (ir_duplicates x) \<and>
        ir_accepted x = length new \<and> uf_events f' = uf_events f @ new \<and>
        read_usage_state f = Inr entries \<and> uf_state f' = Usage_State (AList.update i entry entries) \<and>
        books_entry f' i a entry)"

lemma record_collection_cases:
  assumes "record_collection mk (new, d) f = (r, f')" and "uf_state f \<noteq> Bad_State"
    and "distinct (event_ids (uf_events f))"
  obtains x entries where "r = Inr x" "read_usage_state f = Inr entries" "ir_accepted x = length new"
    "ir_duplicates x = d" "f' = f\<lparr>uf_state := Usage_State (AList.update
       (un_instance_id (mk entries (uf_events f))) (mk entries (uf_events f)) entries)\<rparr>"
proof -
  obtain entries where "read_usage_state f = Inr entries"
    using assms(2) by (cases "uf_state f") (auto simp: read_usage_state_def)
  then show ?thesis
    using assms(1) that [OF _ \<open>read_usage_state f = Inr entries\<close>]
    by (auto simp: record_collection_def run write_usage_entry_def usage_dict_distinct [OF assms(3)] returnS_iff)
qed

lemma collection_cases:
  assumes "bindS (take_batch lib check batch) (record_collection mk) f = (r, f')"
    and "distinct (event_ids (uf_events f))" and "uf_state f \<noteq> Bad_State"
    and "\<And>e. check e = Inr () \<Longrightarrow> ul_schema lib e = Inr ()"
    and "\<And>es g. uf_events g = es \<Longrightarrow> books_entry g i a (mk entries es)"
    and "read_usage_state f = Inr entries"
  obtains (refused) x where "r = Inl x" "f' = f"
  | (returned) x where "r = Inr x" "ingested lib check i a batch f x f'"
  using assms(1)
proof (cases rule: bindS_cases)
  case (raised x)
  show ?thesis
    by (cases rule: take_batch_cases [OF raised(1) assms(2,4)]) (use raised(2) refused in auto)
next
  case (returned y g)
  show ?thesis
  proof (rule take_batch_cases [OF returned(1) assms(2,4)])
    fix new d
    assume taken: "Inr y = (Inr (new, d) :: exn + usage_event list \<times> nat)"
      "g = f\<lparr>uf_events := uf_events f @ new\<rparr>" "staged_from lib check (uf_events f) batch new d"
    have state: "read_usage_state g = Inr entries" "uf_state g \<noteq> Bad_State" "distinct (event_ids (uf_events g))"
      using assms(3,6) taken(2,3) by (auto simp: read_usage_state_def staged_from_def)
    have "record_collection mk (new, d) g = (r, f')" using returned(2) taken(1) by simp
    then obtain x where x: "r = Inr x" "ir_accepted x = length new" "ir_duplicates x = d"
      "f' = g\<lparr>uf_state := Usage_State (AList.update (un_instance_id (mk entries (uf_events g)))
         (mk entries (uf_events g)) entries)\<rparr>"
      using state by (elim record_collection_cases) auto
    have "books_entry f' i a (mk entries (uf_events g))" using assms(5) [of f' "uf_events g"] x(4) by simp
    then have "ingested lib check i a batch f x f'"
      unfolding ingested_def using taken(2,3) x(2-4) assms(6)
      by (intro exI [of _ new] exI [of _ entries] exI [of _ "mk entries (uf_events g)"])
        (auto simp: books_entry_def)
    then show ?thesis using that(2) x(1) by blast
  next
    fix x
    assume "Inr y = (Inl x :: exn + usage_event list \<times> nat)"
    then show ?thesis by simp
  qed
qed

lemma read_state_good: "uf_state f \<noteq> Bad_State \<Longrightarrow> \<exists>entries. read_usage_state f = Inr entries"
  by (cases "uf_state f") (auto simp: read_usage_state_def)

lemma ingest_cases:
  assumes "ingest env lib st now t i batch source cursor collected f = (r, f')"
    and "distinct (event_ids (uf_events f))" and "uf_state f \<noteq> Bad_State"
  obtains (refused) x where "r = Inl x" "f' = f"
  | (returned) x owner where "r = Inr x" "usage_owner_of env lib st t i = Inr owner"
      "ingested lib (validate_event lib t owner) i (uo_agent_type owner) batch f x f'"
proof (cases "\<exists>u v owner. validate_identifier t ''task_id'' = Inr u \<and> validate_identifier i ''instance_id'' = Inr v \<and>
    source \<in> {''adapter'', ''internal''} \<and> length batch \<le> 10000 \<and> usage_owner_of env lib st t i = Inr owner")
  case False
  then have "\<exists>x. (r, f') = (Inl x, f)"
    unfolding assms(1) [symmetric] ingest_def by (auto simp: run guardE_def split: sum.splits)
  then show ?thesis using refused by blast
next
  case True
  then obtain owner where owner: "usage_owner_of env lib st t i = Inr owner" by blast
  obtain entries where entries: "read_usage_state f = Inr entries" using read_state_good [OF assms(3)] ..
  have "bindS (take_batch lib (validate_event lib t owner) batch)
      (record_collection (adapter_entry now owner i batch source cursor collected)) f = (r, f')"
    using assms(1) True owner unfolding ingest_def by (auto simp: run)
  then show ?thesis
    by (rule collection_cases [OF _ assms(2,3) _ _ entries, where i = i and a = "uo_agent_type owner"])
      (use owner that in \<open>auto simp: validate_event_def monad books_entry_def adapter_entry_def Let_def\<close>)
qed

lemma ingest_master_cases:
  assumes "ingest_master env lib st now t batch f = (r, f')"
    and "distinct (event_ids (uf_events f))" and "uf_state f \<noteq> Bad_State"
  obtains (refused) x where "r = Inl x" "f' = f"
  | (returned) x where "r = Inr x"
      "ingested lib (validate_master_event lib t) (master_instance_id lib t) master_agent batch f x f'"
proof (cases "\<exists>u p. validate_identifier t ''task_id'' = Inr u \<and>
    repo_get (repository_of env O_task) st t t = Inr (Some p)")
  case False
  then have "\<exists>x. (r, f') = (Inl x, f)"
    unfolding assms(1) [symmetric] ingest_master_def
    by (auto simp: run guardE_def bindE_def split: sum.splits)
  then show ?thesis using refused by blast
next
  case True
  obtain entries where entries: "read_usage_state f = Inr entries" using read_state_good [OF assms(3)] ..
  have "bindS (take_batch lib (validate_master_event lib t) batch)
      (record_collection (master_entry now (master_instance_id lib t))) f = (r, f')"
    using assms(1) True unfolding ingest_master_def by (auto simp: run)
  then show ?thesis
    by (rule collection_cases [OF _ assms(2,3) _ _ entries, where i = "master_instance_id lib t" and a = master_agent])
      (use that in \<open>auto simp: validate_master_event_def monad books_entry_def master_entry_def Let_def\<close>)
qed

section \<open>A batch is taken whole and once\<close>

text \<open>Past its guards, which do not look at the journal, an ingestion is the taking of its batch.\<close>

lemma ingest_guarded:
  assumes "ingest env lib st now t i batch source cursor collected f = (Inr x, f')"
  obtains owner where "usage_owner_of env lib st t i = Inr owner"
    "ingest env lib st now t i batch source cursor collected =
       bindS (take_batch lib (validate_event lib t owner) batch)
         (record_collection (adapter_entry now owner i batch source cursor collected))"
proof -
  obtain owner where "usage_owner_of env lib st t i = Inr owner" "\<exists>u. validate_identifier t ''task_id'' = Inr u"
    "\<exists>u. validate_identifier i ''instance_id'' = Inr u" "source \<in> {''adapter'', ''internal''}" "length batch \<le> 10000"
    using assms unfolding ingest_def by (auto simp: run guardE_def split: sum.splits if_splits)
  then show ?thesis using that [of owner] by (auto simp: ingest_def run fun_eq_iff)
qed

lemma ingested_facts:
  assumes "ingested lib check i a batch f x f'"
  shows "\<exists>new. uf_events f' = uf_events f @ new \<and> ir_accepted x = length new \<and> set new \<subseteq> set batch"
    and "distinct (event_ids (uf_events f'))" and "ir_accepted x + ir_duplicates x = length batch"
    and "list_all (recorded lib (uf_events f')) batch" and "\<forall>e \<in> set batch. check e = Inr ()"
    and "uf_state f' \<noteq> Bad_State"
  using assms unfolding ingested_def staged_from_def by force+

lemma ingest_again:
  assumes "ingest env lib st now t i batch source cursor collected f = (Inr x, f')"
    and "distinct (event_ids (uf_events f))" and "uf_state f \<noteq> Bad_State"
  shows "\<exists>y g. ingest env lib st now t i batch source cursor collected f' = (Inr y, g) \<and>
    ir_accepted y = 0 \<and> ir_duplicates y = length batch \<and> uf_events g = uf_events f'"
proof -
  obtain owner where owner: "usage_owner_of env lib st t i = Inr owner"
    and again: "ingest env lib st now t i batch source cursor collected =
       bindS (take_batch lib (validate_event lib t owner) batch)
         (record_collection (adapter_entry now owner i batch source cursor collected))"
    by (rule ingest_guarded [OF assms(1)])
  have "ingested lib (validate_event lib t owner) i (uo_agent_type owner) batch f x f'"
    using assms(1) assms(2,3) by (cases rule: ingest_cases) (use owner in auto)
  note facts = ingested_facts [OF this]
  have "stage_batch lib (validate_event lib t owner) (uf_events f') batch = Inr ([], length batch)"
    by (rule stage_batch_again [OF facts(4,5,2)])
  then have "take_batch lib (validate_event lib t owner) batch f' = (Inr ([], length batch), f')"
    by (simp add: take_batch_def run) (simp add: returnS_def)
  then have run: "ingest env lib st now t i batch source cursor collected f' =
      record_collection (adapter_entry now owner i batch source cursor collected) ([], length batch) f'"
    by (simp add: again bindS_run)
  obtain r g where rg: "record_collection (adapter_entry now owner i batch source cursor collected) ([], length batch) f' = (r, g)"
    by force
  then show ?thesis
    by (rule record_collection_cases [OF _ facts(6,2)]) (use run rg in auto)
qed

text \<open>
  C23. A batch of usage events is all or nothing, and counts once: a refused batch leaves no trace; a
  batch that is taken appends exactly its new events, no event id is ever recorded twice, every event
  of the batch is then on record, and sending the batch again appends nothing.
\<close>

theorem usage_counts_once:
  assumes "ingest env lib st now t i batch source cursor collected f = (r, f')"
    and "distinct (event_ids (uf_events f))" and "uf_state f \<noteq> Bad_State"
  shows "case r of Inl x \<Rightarrow> f' = f
    | Inr x \<Rightarrow>
        uf_events f' = uf_events f @ drop (length (uf_events f)) (uf_events f') \<and>
        length (uf_events f') = length (uf_events f) + ir_accepted x \<and>
        ir_accepted x + ir_duplicates x = length batch \<and>
        distinct (event_ids (uf_events f')) \<and> list_all (recorded lib (uf_events f')) batch \<and>
        (\<exists>y g. ingest env lib st now t i batch source cursor collected f' = (Inr y, g) \<and>
           ir_accepted y = 0 \<and> uf_events g = uf_events f')"
  using assms
proof (cases rule: ingest_cases)
  case (returned x owner)
  note facts = ingested_facts [OF returned(3)]
  show ?thesis
    using facts(1-4) ingest_again [OF assms(1) [unfolded returned(1)] assms(2,3)] returned(1) by auto
qed simp

section \<open>The books balance\<close>

text \<open>The file of an instance holds the instance that it is named after.\<close>

definition owners_named :: "environment \<Rightarrow> usage_library \<Rightarrow> store \<Rightarrow> string \<Rightarrow> bool" where
  "owners_named env lib st t =
     (\<forall>i owner. usage_owner_of env lib st t i = Inr owner \<longrightarrow> uo_instance_id owner = i)"

text \<open>Everything that happens to the usage files of a task, in any order, with any arguments.\<close>

inductive usage_step :: "environment \<Rightarrow> usage_library \<Rightarrow> string \<Rightarrow> usage_files \<Rightarrow> usage_files \<Rightarrow> bool"
  for env lib t where
  ingested: "owners_named env lib st t \<Longrightarrow>
    ingest env lib st now t i batch source cursor collected f = (r, f') \<Longrightarrow> usage_step env lib t f f'"
| collected: "owners_named env lib st t \<Longrightarrow>
    collect_instance env lib st now kind collect t i f = (r, f') \<Longrightarrow> usage_step env lib t f f'"
| master: "ingest_master env lib st now t batch f = (r, f') \<Longrightarrow> usage_step env lib t f f'"
| called: "record_master_model_call env lib st now t result f = (r, f') \<Longrightarrow> usage_step env lib t f f'"
| recovered: "recover_usage env lib st now t f = (r, f') \<Longrightarrow> usage_step env lib t f f'"

definition no_usage :: usage_files where
  "no_usage = \<lparr>uf_events = [], uf_state = No_State\<rparr>"

definition event_balanced :: "usage_event \<Rightarrow> bool" where
  "event_balanced e =
     (ue_total_tokens e = ue_input_tokens e + ue_output_tokens e \<and>
      ue_cached_input_tokens e \<le> ue_input_tokens e \<and> ue_reasoning_tokens e \<le> ue_output_tokens e)"

definition entry_of :: "usage_files \<Rightarrow> string \<Rightarrow> usage_entry option" where
  "entry_of f i = (case uf_state f of Usage_State entries \<Rightarrow> map_of entries i | _ \<Rightarrow> None)"

definition books_balance :: "usage_files \<Rightarrow> bool" where
  "books_balance f =
     (uf_state f \<noteq> Bad_State \<and> distinct (event_ids (uf_events f)) \<and>
      list_all event_balanced (uf_events f) \<and>
      (\<forall>i entry. entry_of f i = Some entry \<longrightarrow>
         un_event_count entry = length (filter (\<lambda>e. ue_instance_id e = i) (uf_events f))) \<and>
      (\<forall>e \<in> set (uf_events f). entry_of f (ue_instance_id e) \<noteq> None))"

lemma ingested_balances:
  assumes "ingested lib check i a batch f x f'" and "books_balance f"
    and "\<And>e. check e = Inr () \<Longrightarrow> ue_instance_id e = i \<and> event_balanced e"
  shows "books_balance f'"
proof -
  from assms(1) obtain new entries entry where new: "staged_from lib check (uf_events f) batch new (ir_duplicates x)"
    "uf_events f' = uf_events f @ new" "read_usage_state f = Inr entries"
    "uf_state f' = Usage_State (AList.update i entry entries)" "books_entry f' i a entry"
    unfolding ingested_def by blast
  have old: "entry_of f = map_of entries"
    using new(3) by (auto simp: entry_of_def read_usage_state_def fun_eq_iff split: usage_state_file.splits)
  have after: "entry_of f' = (map_of entries)(i \<mapsto> entry)" using new(4) by (simp add: entry_of_def fun_eq_iff)
  have own: "ue_instance_id e = i \<and> event_balanced e" if "e \<in> set new" for e
    using new(1) that assms(3) unfolding staged_from_def by blast
  then have "filter (\<lambda>e. ue_instance_id e = j) new = []" if "j \<noteq> i" for j
    using that by (auto simp: filter_empty_conv)
  then show ?thesis
    using assms(2) new(1,2,4,5) own old after
    by (auto simp: books_balance_def staged_from_def books_entry_def list_all_iff)
qed

lemma validated_balanced:
  "validate_event lib t owner e = Inr () \<Longrightarrow> ue_instance_id e = uo_instance_id owner \<and> event_balanced e"
  "validate_master_event lib t e = Inr () \<Longrightarrow> ue_instance_id e = master_instance_id lib t \<and> event_balanced e"
  by (auto simp: validate_event_def validate_master_event_def check_token_counts_def event_balanced_def monad)

lemma books_premises:
  "books_balance f \<Longrightarrow> distinct (event_ids (uf_events f))" "books_balance f \<Longrightarrow> uf_state f \<noteq> Bad_State"
  by (simp_all add: books_balance_def)

lemma ingest_balances:
  assumes "ingest env lib st now t i batch source cursor collected f = (r, f')" and "books_balance f"
    and "owners_named env lib st t"
  shows "books_balance f'"
  using assms(1) books_premises [OF assms(2)]
proof (cases rule: ingest_cases)
  case (returned x owner)
  then have "uo_instance_id owner = i" using assms(3) by (auto simp: owners_named_def)
  then show ?thesis using ingested_balances [OF returned(3) assms(2)] validated_balanced(1) by blast
qed (use assms(2) in simp)

lemma ingest_master_balances:
  assumes "ingest_master env lib st now t batch f = (r, f')" and "books_balance f"
  shows "books_balance f'"
  using assms(1) books_premises [OF assms(2)]
proof (cases rule: ingest_master_cases)
  case (returned x)
  then show ?thesis using ingested_balances [OF returned(2) assms(2)] validated_balanced(2) by blast
qed (use assms(2) in simp)

lemma collect_balances:
  assumes "collect_instance env lib st now kind collect t i f = (r, f')" and "books_balance f"
    and "owners_named env lib st t"
  shows "books_balance f'"
proof -
  have "f' = f \<or> (\<exists>batch cursor flag r. ingest env lib st now t i batch ''adapter'' cursor flag f = (r, f'))"
    using assms(1) unfolding collect_instance_def
    by (auto simp: run Let_def throwS_def guardE_def split: sum.splits option.splits if_splits)
  then show ?thesis using ingest_balances assms(2,3) by blast
qed

lemma call_balances:
  assumes "record_master_model_call env lib st now t result f = (r, f')" and "books_balance f"
  shows "books_balance f'"
  using assms(1) ingest_master_balances [OF _ assms(2)]
  by (auto simp: record_master_model_call_def run split: option.splits)

text \<open>Recovery rewrites entries so that they count the events.\<close>

lemma recover_entries:
  assumes "foldE (recover_usage_entry env lib st now t es) is (entries, b) = Inr (entries', b')"
    and "\<forall>i entry. map_of entries i = Some entry \<longrightarrow>
      i \<in> set done \<or> i \<in> set is \<or> un_event_count entry = length (filter (\<lambda>e. ue_instance_id e = i) es)"
    and "\<forall>i \<in> set done. \<exists>entry. map_of entries i = Some entry \<and>
      un_event_count entry = length (filter (\<lambda>e. ue_instance_id e = i) es)"
  shows "(\<forall>i entry. map_of entries' i = Some entry \<longrightarrow>
      un_event_count entry = length (filter (\<lambda>e. ue_instance_id e = i) es)) \<and>
    (\<forall>i \<in> set done \<union> set is. map_of entries' i \<noteq> None)"
  using assms
proof (induction "is" arbitrary: entries b "done")
  case Nil
  then show ?case by (simp; metis option.inject option.distinct(1))
next
  case (Cons i "is")
  let ?n = "\<lambda>j. length (filter (\<lambda>e. ue_instance_id e = j) es)"
  from Cons.prems(1) obtain mid c where step: "recover_usage_entry env lib st now t es i (entries, b) = Inr (mid, c)"
    and rest: "foldE (recover_usage_entry env lib st now t es) is (mid, c) = Inr (entries', b')"
    by (auto simp: monad)
  have mid: "\<exists>entry. map_of mid i = Some entry \<and> un_event_count entry = ?n i"
    "\<forall>j. j \<noteq> i \<longrightarrow> map_of mid j = map_of entries j"
    using step by (auto simp: recover_usage_entry_def Let_def monad split: if_splits)
  have "(\<forall>j entry. map_of entries' j = Some entry \<longrightarrow> un_event_count entry = ?n j) \<and>
    (\<forall>j \<in> set (i # done) \<union> set is. map_of entries' j \<noteq> None)"
  proof (rule Cons.IH [OF rest])
    show "\<forall>j entry. map_of mid j = Some entry \<longrightarrow> j \<in> set (i # done) \<or> j \<in> set is \<or> un_event_count entry = ?n j"
      using mid Cons.prems(2) by (metis list.set_intros(1) list.set_intros(2) set_ConsD)
    show "\<forall>j \<in> set (i # done). \<exists>entry. map_of mid j = Some entry \<and> un_event_count entry = ?n j"
      using mid Cons.prems(3) by (metis set_ConsD)
  qed
  then show ?case by simp
qed

lemma recover_balances:
  assumes "recover_usage env lib st now t f = (r, f')" and "books_balance f"
  shows "books_balance f'"
proof (cases "f' = f")
  case False
  let ?is = "map fst (dict_items ue_instance_id (uf_events f))"
  obtain entries entries' where run: "read_usage_state f = Inr entries"
    "foldE (recover_usage_entry env lib st now t (uf_events f)) ?is (entries, False) = Inr (entries', True)"
    "f' = f\<lparr>uf_state := Usage_State entries'\<rparr>"
    using assms(1) False unfolding recover_usage_def
    by (auto simp: run returnS_iff split: sum.splits if_splits)
  have ids: "set ?is = ue_instance_id ` set (uf_events f)" by (simp add: dict_items_def o_def)
  have old: "entry_of f = map_of entries"
    using run(1) by (auto simp: entry_of_def read_usage_state_def fun_eq_iff split: usage_state_file.splits)
  have "(\<forall>i entry. map_of entries' i = Some entry \<longrightarrow>
      un_event_count entry = length (filter (\<lambda>e. ue_instance_id e = i) (uf_events f))) \<and>
    (\<forall>i \<in> set [] \<union> set ?is. map_of entries' i \<noteq> None)"
    using assms(2) old by (intro recover_entries [OF run(2)]) (auto simp: books_balance_def)
  then show ?thesis
    using assms(2) run(3) unfolding ids by (auto simp: books_balance_def entry_of_def)
qed (use assms(2) in simp)

lemma usage_step_balances:
  assumes "usage_step env lib t f f'" and "books_balance f"
  shows "books_balance f'"
  using assms
  by cases (auto intro: ingest_balances collect_balances ingest_master_balances call_balances recover_balances)

text \<open>
  C24. The usage books of a task always balance, whatever sequence of ingestions, collections, calls of the
  Master and recoveries led to them: no event id occurs twice, every event's total is the sum of its
  parts, and the collection state has an entry for every instance with events that counts them exactly.
\<close>

theorem usage_books_balance:
  assumes "(usage_step env lib t)\<^sup>*\<^sup>* no_usage f"
  shows "distinct (map ue_event_id (uf_events f)) \<and> list_all event_balanced (uf_events f) \<and>
    (\<forall>i entry. entry_of f i = Some entry \<longrightarrow>
       un_event_count entry = length (filter (\<lambda>e. ue_instance_id e = i) (uf_events f))) \<and>
    (\<forall>e \<in> set (uf_events f). entry_of f (ue_instance_id e) \<noteq> None)"
proof -
  have "books_balance no_usage" by (simp add: books_balance_def no_usage_def entry_of_def)
  with assms have "books_balance f" by (induction rule: rtranclp_induct) (auto intro: usage_step_balances)
  then show ?thesis by (simp add: books_balance_def)
qed

end
