(* ===== verification/Component_Witnesses.thy ===== *)
theory Component_Witnesses imports Journal_Files Pagination Usage_Properties Plan_Witnesses begin

text \<open>
  The properties of journals, pages and usage at concrete inputs: a journal of one record and a torn
  second one, two pages of a list of two items, and a batch that repeats one usage event.
\<close>

section \<open>A journal\<close>

text \<open>A record is one text, its line that text, and its checksum constant.\<close>

definition sample_row :: "string \<Rightarrow> json_object" where
  "sample_row s = Map.empty(''k'' \<mapsto> JText s)"

definition sample_json :: json_library where
  "sample_json =
     \<lparr>js_dumps = (\<lambda>m. case m ''k'' of Some (JText s) \<Rightarrow> s | _ \<Rightarrow> []),
      js_loads = (\<lambda>s. Some (Some ((sample_row s)(checksum_key \<mapsto> JText ''d'')))),
      js_digest = (\<lambda>_. ''d'')\<rparr>"

lemma sample_row_faithful: "LF \<notin> set s \<Longrightarrow> CR \<notin> set s \<Longrightarrow> faithful_json sample_json (sample_row s)"
  by (simp add: faithful_json_def sample_json_def sample_row_def record_with_checksum_def clean_def
      checksum_key_def fun_upd_twist)

lemma sample_row_line: "journal_line sample_json (sample_row s) = s @ [LF]" "clean (sample_row s) = sample_row s"
  by (simp_all add: journal_line_def sample_json_def sample_row_def record_with_checksum_def clean_def
      checksum_key_def fun_upd_idem_iff)

lemma torn_append_repaired_witness:
  "\<exists>warning. recover_records sample_json (Some (''a'' @ [LF] @ ''b'')) =
     (Inr ([sample_row ''a''], warning), Some (''a'' @ [LF])) \<and> warning \<noteq> None"
proof -
  have "\<exists>warning. recover_records sample_json
      (Some (journal_bytes sample_json [sample_row ''a''] @ take 1 (journal_line sample_json (sample_row ''bc'')))) =
      (Inr (map clean [sample_row ''a''], warning), Some (journal_bytes sample_json [sample_row ''a''])) \<and>
      (warning = None \<longleftrightarrow> (1 :: nat) = 0)"
    by (rule torn_append_repaired) (simp_all add: sample_row_faithful sample_row_line)
  then show ?thesis by (simp add: sample_row_line)
qed

lemma torn_tail_run:
  "recover_records sample_json (Some (''a'' @ [LF] @ ''b'')) =
     (Inr ([sample_row ''a''], Some (3, 2, ''incomplete NDJSON tail'')), Some (''a'' @ [LF]))"
  by (simp add: recover_records_def split_lines.simps(2) first_line.simps(2) decode_line_def
      decode_verified_def sample_json_def sample_row_def clean_def checksum_key_def fun_upd_twist fun_upd_idem_iff)

lemma recovery_is_stable_witness:
  "\<exists>kept. recover_records sample_json (Some kept) = (Inr ([sample_row ''a''], None), Some kept)"
  using recovery_is_stable [OF torn_tail_run] by blast

section \<open>Pages\<close>

definition sample_list_item :: "string \<Rightarrow> item" where
  "sample_list_item s = Map.empty(''id'' \<mapsto> Text s)"

definition sample_codec :: cursor_codec where
  "sample_codec =
     \<lparr>cc_encode = (\<lambda>c. case cu_key c of Some [Text s] \<Rightarrow> s | _ \<Rightarrow> []),
      cc_decode = (\<lambda>s. Some (cursor_of ''tasks'' Asc [Key_Text s]))\<rparr>"

lemma pages_enumerate_list_witness:
  "walk 3 sample_codec [sample_list_item ''a'', sample_list_item ''b''] ''tasks'' [''id''] 1 None Asc =
     Inr [sample_list_item ''a'', sample_list_item ''b'']"
proof -
  let ?keyed = "[(sample_list_item ''a'', [Key_Text ''a'']), (sample_list_item ''b'', [Key_Text ''b''])]"
  have "keyed_by [''id''] [sample_list_item ''a'', sample_list_item ''b''] ?keyed"
    by (simp add: keyed_by_def key_of_def sample_list_item_def)
  moreover have "faithful_codec sample_codec ''tasks'' Asc ?keyed"
    by (simp add: faithful_codec_def encode_cursor_def sample_codec_def cursor_of_def)
  moreover have "short_cursors sample_codec ''tasks'' Asc ?keyed"
    by (simp add: short_cursors_def encode_cursor_def sample_codec_def cursor_of_def)
  ultimately have "\<exists>read. walk (Suc (length [sample_list_item ''a'', sample_list_item ''b''])) sample_codec
      [sample_list_item ''a'', sample_list_item ''b''] ''tasks'' [''id''] 1 None Asc = Inr read \<and>
      mset read = mset [sample_list_item ''a'', sample_list_item ''b''] \<and> read = map fst (ordered Asc ?keyed)"
    by (intro pages_enumerate_list) simp_all
  moreover have "map fst (ordered Asc ?keyed) = [sample_list_item ''a'', sample_list_item ''b'']"
    by (simp add: ordered_def less_eq_key_value_def less_eq_char_def less_char_def)
  ultimately show ?thesis by (simp add: numeral_3_eq_3)
qed

section \<open>Usage\<close>

definition sample_library :: usage_library where
  "sample_library =
     \<lparr>ul_schema = (\<lambda>_. Inr ()), ul_digest = (\<lambda>e. show_int (ue_total_tokens e)), ul_sha256 = (\<lambda>s. s)\<rparr>"

definition sample_usage :: usage_event where
  "sample_usage =
     \<lparr>ue_event_id = ''e'', ue_task_id = ''t'', ue_instance_id = ''master_t'', ue_agent_type = master_agent,
      ue_model = ''m'', ue_call_type = ''reasoning_llm'', ue_input_tokens = 3, ue_output_tokens = 4,
      ue_cached_input_tokens = 1, ue_reasoning_tokens = 2, ue_total_tokens = 7, ue_cost_micros = None,
      ue_price_catalog_revision = None, ue_occurred_at = ''n'', ue_details = ''{}''\<rparr>"

text \<open>A store that holds the task alone.\<close>

definition usage_store :: store where
  "usage_store = empty_store\<lparr>st_files := [((''t'', relative_path O_task ''t''),
     Snapshot \<lparr>wr_object_type = O_task, wr_object_id = ''t'', wr_revision = 1,
       wr_payload = P_task (small_task T_RUNNING), wr_committed_at = ''c''\<rparr>)]\<rparr>"

definition usage_returns ::
  "(ingest_result \<Rightarrow> usage_files \<Rightarrow> bool) \<Rightarrow> (exn + ingest_result) \<times> usage_files \<Rightarrow> bool" where
  "usage_returns P = (\<lambda>(r, f). case r of Inl _ \<Rightarrow> False | Inr x \<Rightarrow> P x f)"

lemma usage_returnsE:
  assumes "usage_returns P m"
  obtains x f where "m = (Inr x, f)" "P x f"
  using assms by (cases m; cases "fst m") (auto simp: usage_returns_def)

lemma usage_run:
  "usage_returns (\<lambda>x f. ir_accepted x = 1 \<and> ir_duplicates x = 1 \<and> map ue_total_tokens (uf_events f) = [7])
     (ingest sample_env sample_library usage_store ''n'' ''t'' ''master_t'' [sample_usage, sample_usage]
        ''internal'' None None no_usage)"
  by code_simp

lemma usage_counts_once_witness:
  "\<exists>x f y g. ingest sample_env sample_library usage_store ''n'' ''t'' ''master_t'' [sample_usage, sample_usage]
       ''internal'' None None no_usage = (Inr x, f) \<and>
     ir_accepted x = 1 \<and> ir_duplicates x = 1 \<and>
     ingest sample_env sample_library usage_store ''n'' ''t'' ''master_t'' [sample_usage, sample_usage]
       ''internal'' None None f = (Inr y, g) \<and> ir_accepted y = 0 \<and> uf_events g = uf_events f"
proof -
  obtain x f where run: "ingest sample_env sample_library usage_store ''n'' ''t'' ''master_t''
      [sample_usage, sample_usage] ''internal'' None None no_usage = (Inr x, f)"
    "ir_accepted x = 1 \<and> ir_duplicates x = 1 \<and> map ue_total_tokens (uf_events f) = [7]"
    by (rule usage_returnsE [OF usage_run])
  have "distinct (event_ids (uf_events no_usage))" "uf_state no_usage \<noteq> Bad_State"
    by (simp_all add: no_usage_def)
  from usage_counts_once [OF run(1) this] run show ?thesis by simp
qed

lemma master_usage_run:
  "usage_returns (\<lambda>x f. map ue_event_id (uf_events f) = [''e''] \<and> map ue_instance_id (uf_events f) = [''master_t''])
     (ingest_master sample_env sample_library usage_store ''n'' ''t'' [sample_usage] no_usage)"
  by code_simp

lemma usage_books_balance_witness:
  "\<exists>f entry. (usage_step sample_env sample_library ''t'')\<^sup>*\<^sup>* no_usage f \<and>
     map ue_event_id (uf_events f) = [''e''] \<and>
     entry_of f ''master_t'' = Some entry \<and> un_event_count entry = 1"
proof -
  obtain x f where run: "ingest_master sample_env sample_library usage_store ''n'' ''t'' [sample_usage] no_usage =
      (Inr x, f)"
    "map ue_event_id (uf_events f) = [''e''] \<and> map ue_instance_id (uf_events f) = [''master_t'']"
    by (rule usage_returnsE [OF master_usage_run])
  have reach: "(usage_step sample_env sample_library ''t'')\<^sup>*\<^sup>* no_usage f"
    using usage_step.master [OF run(1)] by (rule r_into_rtranclp)
  obtain e where e: "uf_events f = [e]" "ue_instance_id e = ''master_t''" using run(2) by auto
  note books = usage_books_balance [OF reach]
  obtain entry where entry: "entry_of f ''master_t'' = Some entry" using books e by auto
  then have "un_event_count entry = 1" using books e by auto
  with reach run(2) entry show ?thesis by (intro exI [of _ f] exI [of _ entry]) simp
qed

end
