(* ===== verification/Config_Tree.thy ===== *)
theory Config_Tree imports Errors begin

text \<open>
  The check of public configuration values of \<^verbatim>\<open>backend/harness/storage/config_revision_io.py\<close>. Values
  come from YAML, where an alias may name the same object twice, or an object inside itself: a value
  is a possibly infinite tree whose containers carry the identity of their object. The check bounds
  its depth, so it ends on every value; \<open>public_config_iff\<close> says what it accepts. The
  regular expressions are functions from a position to the positions behind a match.
\<close>

section \<open>Regular expressions\<close>

text \<open>A position: the character before it and the text behind it.\<close>

type_synonym position = "char option \<times> string"
type_synonym regex = "position \<Rightarrow> position list"

definition one_of :: "(char \<Rightarrow> bool) \<Rightarrow> regex" where
  "one_of P = (\<lambda>(prior, s). case s of [] \<Rightarrow> [] | c # s' \<Rightarrow> if P c then [(Some c, s')] else [])"

text \<open>At least \<open>n\<close> characters of a class.\<close>

fun at_least :: "nat \<Rightarrow> (char \<Rightarrow> bool) \<Rightarrow> regex" where
  "at_least n P (prior, []) = (if n = 0 then [(prior, [])] else [])"
| "at_least n P (prior, c # s) =
     (if n = 0 then [(prior, c # s)] else []) @ (if P c then at_least (n - 1) P (Some c, s) else [])"

definition followed_by :: "regex \<Rightarrow> regex \<Rightarrow> regex" where
  "followed_by r q x = concat (map q (r x))"

definition any_of :: "regex list \<Rightarrow> regex" where
  "any_of rs x = concat (map (\<lambda>r. r x) rs)"

fun in_order :: "regex list \<Rightarrow> regex" where
  "in_order [] x = [x]"
| "in_order (r # rs) x = followed_by r (in_order rs) x"

definition literal :: "string \<Rightarrow> regex" where
  "literal w = in_order (map (\<lambda>c. one_of ((=) c)) w)"

definition lower :: "char \<Rightarrow> char" where
  "lower c = (let n = (of_char c :: nat) in if 65 \<le> n \<and> n \<le> 90 then char_of (n + 32) else c)"

text \<open>The character classes on the bits of a character, for evaluation.\<close>

lemma is_letter_bits [code]:
  "is_letter (Char b0 b1 b2 b3 b4 b5 b6 b7) \<longleftrightarrow>
     b6 \<and> \<not> b7 \<and> (b0 \<or> b1 \<or> b2 \<or> b3 \<or> b4) \<and> \<not> (b4 \<and> b3 \<and> (b2 \<or> b1 \<and> b0))"
  by (cases b0; cases b1; cases b2; cases b3; cases b4; cases b5; cases b6; cases b7) (simp_all add: is_letter_def)

lemma is_digit_bits [code]:
  "is_digit (Char b0 b1 b2 b3 b4 b5 b6 b7) \<longleftrightarrow> \<not> b7 \<and> \<not> b6 \<and> b5 \<and> b4 \<and> (\<not> b3 \<or> \<not> b2 \<and> \<not> b1)"
  by (cases b0; cases b1; cases b2; cases b3; cases b4; cases b5; cases b6; cases b7) (simp_all add: is_digit_def)

lemma lower_bits [code]:
  "lower (Char b0 b1 b2 b3 b4 b5 b6 b7) =
     (if is_letter (Char b0 b1 b2 b3 b4 b5 b6 b7) then Char b0 b1 b2 b3 b4 True b6 b7
      else Char b0 b1 b2 b3 b4 b5 b6 b7)"
  by (cases b0; cases b1; cases b2; cases b3; cases b4; cases b5; cases b6; cases b7)
    (simp_all add: is_letter_def lower_def char_of_def bit_Suc_0_iff)

text \<open>The flag \<open>IGNORECASE\<close>.\<close>

definition literal_any_case :: "string \<Rightarrow> regex" where
  "literal_any_case w = in_order (map (\<lambda>c. one_of (\<lambda>d. lower d = lower c)) w)"

definition text_start :: regex where
  "text_start = (\<lambda>(prior, s). if prior = None then [(prior, s)] else [])"

text \<open>The dollar also matches before a line feed that ends the text.\<close>

definition text_end :: regex where
  "text_end = (\<lambda>(prior, s). if s = [] \<or> s = [CHR 0x0A] then [(prior, s)] else [])"

text \<open>Word characters, with the letters and numbers of Latin-1.\<close>

definition word_char :: "char \<Rightarrow> bool" where
  "word_char c = (let n = (of_char c :: nat) in
     is_letter c \<or> is_digit c \<or> c = CHR ''_'' \<or> n \<in> {170, 178, 179, 181, 185, 186, 188, 189, 190} \<or>
     (192 \<le> n \<and> n \<noteq> 215 \<and> n \<noteq> 247))"

lemma word_char_bits [code]:
  "word_char (Char b0 b1 b2 b3 b4 b5 b6 b7) =
     (let c = Char b0 b1 b2 b3 b4 b5 b6 b7 in
      if b7 then (let n = (of_char c :: nat) in
        n \<in> {170, 178, 179, 181, 185, 186, 188, 189, 190} \<or> (192 \<le> n \<and> n \<noteq> 215 \<and> n \<noteq> 247))
      else is_letter c \<or> is_digit c \<or> c = CHR ''_'')"
  by (cases b0; cases b1; cases b2; cases b3; cases b4; cases b5; cases b6; cases b7)
    (simp_all add: word_char_def is_letter_def is_digit_def)

definition word_boundary :: regex where
  "word_boundary = (\<lambda>(prior, s).
     if (case prior of None \<Rightarrow> False | Some c \<Rightarrow> word_char c) \<noteq> (s \<noteq> [] \<and> word_char (hd s))
     then [(prior, s)] else [])"

fun positions :: "char option \<Rightarrow> string \<Rightarrow> position list" where
  "positions prior [] = [(prior, [])]"
| "positions prior (c # s) = (prior, c # s) # positions (Some c) s"

definition matches_start :: "regex \<Rightarrow> string \<Rightarrow> bool" where
  "matches_start r s = (r (None, s) \<noteq> [])"

definition found_in :: "regex \<Rightarrow> string \<Rightarrow> bool" where
  "found_in r s = list_ex (\<lambda>x. r x \<noteq> []) (positions None s)"

section \<open>The patterns\<close>

definition url_pattern :: regex where
  "url_pattern = in_order
     [text_start, one_of is_letter,
      at_least 0 (\<lambda>c. is_letter c \<or> is_digit c \<or> c \<in> {CHR ''+'', CHR ''.'', CHR ''-''}), literal ''://'']"

definition is_slash :: "char \<Rightarrow> bool" where
  "is_slash c = (c = CHR ''/'' \<or> c = CHR 0x5C)"

definition windows_absolute :: regex where
  "windows_absolute = in_order [text_start, one_of is_letter, literal '':'', one_of is_slash]"

definition traversal_pattern :: regex where
  "traversal_pattern = in_order
     [any_of [text_start, one_of is_slash], literal ''..'', any_of [one_of is_slash, text_end]]"

definition sensitive_words :: "string list" where
  "sensitive_words =
     [''api_key'', ''access_token'', ''authorization'', ''base_url'', ''cookie'', ''credential'',
      ''endpoint'', ''password'', ''private_key'', ''secret'']"

definition sensitive_key :: regex where
  "sensitive_key = in_order
     [any_of [text_start, literal ''_''], any_of (map literal_any_case sensitive_words),
      any_of [text_end, literal ''_'']]"

definition alphanumeric :: "char \<Rightarrow> bool" where
  "alphanumeric c = (is_letter c \<or> is_digit c)"

definition credential_value :: regex where
  "credential_value = any_of
     [in_order [word_boundary, literal_any_case ''sk-'', at_least 8 is_ident_char, word_boundary],
      in_order [word_boundary, literal_any_case ''gh'', one_of (\<lambda>c. lower c \<in> set ''pousr''),
        literal ''_'', at_least 8 alphanumeric, word_boundary],
      in_order [word_boundary, literal_any_case ''github_pat_'',
        at_least 20 (\<lambda>c. alphanumeric c \<or> c = CHR ''_''), word_boundary],
      in_order [literal_any_case ''-----BEGIN'',
        any_of [in_order [literal '' '', at_least 1 alphanumeric], in_order []],
        literal_any_case '' PRIVATE KEY-----'']]"

definition unsafe_text :: "string \<Rightarrow> bool" where
  "unsafe_text s =
     (matches_start url_pattern s \<or> (s \<noteq> [] \<and> hd s = CHR ''/'') \<or> matches_start windows_absolute s \<or>
      found_in traversal_pattern s \<or> found_in credential_value s)"

section \<open>Values\<close>

text \<open>The identity of a container: one that a loaded document brings, or a named one of a document that
  the program builds.\<close>

datatype object_id = Object nat | Own string

text \<open>A member key that is no string is known by its text.\<close>

datatype member_key = Key string | Odd_Key string

text \<open>A float is known by whether it is finite.\<close>

codatatype config_tree =
    C_Null
  | C_Bool bool
  | C_Int int
  | C_Float bool
  | C_Text string
  | C_Other
  | C_List object_id "config_tree list"
  | C_Dict object_id "(member_key \<times> config_tree) list"

section \<open>The check\<close>

definition field_problem :: "string \<Rightarrow> string \<Rightarrow> exn" where
  "field_problem message field =
     HarnessError CONFIG_INTEGRITY_FAILED message [(''field'', DStr (take 64 field))]"

definition invalid_public_value :: "string \<Rightarrow> exn" where
  "invalid_public_value key =
     field_problem ''Runtime configuration contains a non-public value type.'' key"

definition key_text :: "member_key \<Rightarrow> string" where
  "key_text k = (case k of Key s \<Rightarrow> s | Odd_Key s \<Rightarrow> s)"

definition check_key :: "bool \<Rightarrow> member_key \<Rightarrow> unit res" where
  "check_key public k =
     guardE (case k of Odd_Key _ \<Rightarrow> False | Key s \<Rightarrow> \<not> (public \<and> found_in sensitive_key s))
       (field_problem ''Runtime configuration contains a sensitive field.'' (key_text k))"

definition check_text :: "bool \<Rightarrow> string \<Rightarrow> string \<Rightarrow> unit res" where
  "check_text public key s =
     (if s = [] \<or> \<not> public then Inr ()
      else guardE (\<not> unsafe_text s)
        (field_problem ''Runtime configuration contains a secret, Provider URL, or unsafe path.'' key))"

lemma bindE_cong [fundef_cong]:
  "m = m' \<Longrightarrow> (\<And>x. m' = Inr x \<Longrightarrow> f x = g x) \<Longrightarrow> bindE m f = bindE m' g"
  by (cases m') auto

text \<open>The set \<open>seen\<close> of the objects met so far is passed along.\<close>

function (sequential) validate_node :: "bool \<Rightarrow> nat \<Rightarrow> string \<Rightarrow> config_tree \<Rightarrow> object_id list \<Rightarrow> object_id list res"
  and validate_members ::
    "bool \<Rightarrow> nat \<Rightarrow> (member_key \<times> config_tree) list \<Rightarrow> object_id list \<Rightarrow> object_id list res"
  and validate_items ::
    "bool \<Rightarrow> nat \<Rightarrow> string \<Rightarrow> config_tree list \<Rightarrow> object_id list \<Rightarrow> object_id list res"
where
  "validate_node public depth key v seen =
     (if 32 < depth then Inl (invalid_public_value key)
      else case v of
        C_Dict i members \<Rightarrow>
          if 512 < length members \<or> i \<in> set seen then Inl (invalid_public_value key)
          else validate_members public (Suc depth) members (i # seen)
      | C_List i items \<Rightarrow>
          if 512 < length items \<or> i \<in> set seen then Inl (invalid_public_value key)
          else validate_items public (Suc depth) key items (i # seen)
      | C_Null \<Rightarrow> Inr seen
      | C_Bool _ \<Rightarrow> Inr seen
      | C_Int _ \<Rightarrow> Inr seen
      | C_Float is_finite \<Rightarrow> bindE (guardE is_finite (invalid_public_value key)) (\<lambda>_. Inr seen)
      | C_Text s \<Rightarrow> bindE (check_text public key s) (\<lambda>_. Inr seen)
      | C_Other \<Rightarrow> Inl (invalid_public_value key))"
| "validate_members public depth [] seen = Inr seen"
| "validate_members public depth ((k, x) # ms) seen =
     bindE (check_key public k) (\<lambda>_.
     bindE (validate_node public depth (key_text k) x seen) (\<lambda>seen.
     validate_members public depth ms seen))"
| "validate_items public depth key [] seen = Inr seen"
| "validate_items public depth key (x # xs) seen =
     bindE (validate_node public depth key x seen) (\<lambda>seen.
     validate_items public depth key xs seen)"
  by pat_completeness auto

termination
  by (relation "inv_image (less_than <*lex*> less_than) (\<lambda>a. case a of
       Inl (public, depth, key, v, seen) \<Rightarrow> (33 - depth, 0)
     | Inr (Inl (public, depth, ms, seen)) \<Rightarrow> (33 - depth, Suc (length ms))
     | Inr (Inr (public, depth, key, xs, seen)) \<Rightarrow> (33 - depth, Suc (length xs)))") auto

definition validate_public_config_tree :: "config_tree \<Rightarrow> unit res" where
  "validate_public_config_tree v = bindE (validate_node True 0 [] v []) (\<lambda>_. Inr ())"

definition validate_config_tree_shape :: "config_tree \<Rightarrow> unit res" where
  "validate_config_tree_shape v = bindE (validate_node False 0 [] v []) (\<lambda>_. Inr ())"

section \<open>What the check accepts\<close>

text \<open>The values directly inside a value, each with the key it is checked under.\<close>

definition members_of :: "string \<Rightarrow> config_tree \<Rightarrow> (string \<times> config_tree) list" where
  "members_of key v =
     (case v of
        C_List _ xs \<Rightarrow> map (Pair key) xs
      | C_Dict _ ms \<Rightarrow> map (\<lambda>(k, x). (key_text k, x)) ms
      | _ \<Rightarrow> [])"

text \<open>The value at the end of an access path.\<close>

fun value_at :: "string \<Rightarrow> config_tree \<Rightarrow> nat list \<Rightarrow> (string \<times> config_tree) option" where
  "value_at key v [] = Some (key, v)"
| "value_at key v (j # p) =
     (if j < length (members_of key v) then
        value_at (fst (members_of key v ! j)) (snd (members_of key v ! j)) p
      else None)"

definition object_of :: "config_tree \<Rightarrow> object_id option" where
  "object_of v = (case v of C_List i _ \<Rightarrow> Some i | C_Dict i _ \<Rightarrow> Some i | _ \<Rightarrow> None)"

text \<open>What the check asks of one value.\<close>

definition harmless :: "bool \<Rightarrow> string \<Rightarrow> config_tree \<Rightarrow> bool" where
  "harmless public key v =
     (length (members_of key v) \<le> 512 \<and>
      (case v of
         C_Dict _ ms \<Rightarrow> \<forall>(k, x) \<in> set ms. \<exists>s. k = Key s \<and> \<not> (public \<and> found_in sensitive_key s)
       | C_Float is_finite \<Rightarrow> is_finite
       | C_Text s \<Rightarrow> s = [] \<or> \<not> public \<or> \<not> unsafe_text s
       | C_Other \<Rightarrow> False
       | _ \<Rightarrow> True))"

definition object_at :: "config_tree \<Rightarrow> nat list \<Rightarrow> object_id \<Rightarrow> bool" where
  "object_at v p i = (\<exists>k w. value_at [] v p = Some (k, w) \<and> object_of w = Some i)"

definition objects_in :: "config_tree \<Rightarrow> object_id set" where
  "objects_in v = {i. \<exists>p. object_at v p i}"

text \<open>Everything within reach of a value at a depth is harmless, not too deep, and no object has two paths.\<close>

definition acceptable :: "bool \<Rightarrow> nat \<Rightarrow> string \<Rightarrow> config_tree \<Rightarrow> bool" where
  "acceptable public depth key v =
     ((\<forall>p k w. value_at key v p = Some (k, w) \<longrightarrow> depth + length p \<le> 32 \<and> harmless public k w) \<and>
      (\<forall>p q i. object_at v p i \<longrightarrow> object_at v q i \<longrightarrow> p = q))"

lemma members_of_snd: "map snd (members_of k v) = map snd (members_of k' v)"
  by (cases v) (auto simp: members_of_def)

lemma members_of_length: "length (members_of k v) = length (members_of k' v)"
  using members_of_snd [of k v k'] by (metis length_map)

lemma value_at_key: "map_option snd (value_at k v p) = map_option snd (value_at k' v p)"
proof (induction p arbitrary: k k' v)
  case (Cons j p)
  have "snd (members_of k v ! j) = snd (members_of k' v ! j)" if "j < length (members_of k v)"
    using members_of_snd [of k v k'] that members_of_length [of k v k'] by (metis nth_map)
  then show ?case
    using Cons.IH members_of_length [of k v k'] by auto
qed simp

lemma object_at_any_key: "object_at v p i \<longleftrightarrow> (\<exists>l w. value_at k v p = Some (l, w) \<and> object_of w = Some i)"
  unfolding object_at_def using value_at_key [of "[]" v p k]
  by (cases "value_at [] v p"; cases "value_at k v p") auto

lemma object_at_Nil [simp]: "object_at v [] i \<longleftrightarrow> object_of v = Some i"
  by (auto simp: object_at_def)

lemma object_at_Cons [simp]:
  "object_at v (j # p) i \<longleftrightarrow>
     j < length (members_of k v) \<and> object_at (snd (members_of k v ! j)) p i"
  by (subst object_at_any_key [of _ _ _ k]) (auto simp: object_at_any_key [symmetric])

lemma objects_in_unfold:
  "objects_in v = set_option (object_of v) \<union> (\<Union>(k, x) \<in> set (members_of key v). objects_in x)"
  (is "_ = ?r")
proof (intro set_eqI iffI)
  fix i
  assume "i \<in> objects_in v"
  then obtain p where p: "object_at v p i" by (auto simp: objects_in_def)
  show "i \<in> ?r"
  proof (cases p)
    case Nil
    then show ?thesis using p by simp
  next
    case (Cons j q)
    then have "j < length (members_of key v)" "object_at (snd (members_of key v ! j)) q i"
      using p object_at_Cons [of v j q i key] by auto
    then show ?thesis
      by (auto simp: objects_in_def intro!: bexI [of _ "members_of key v ! j"] split: prod.splits)
  qed
next
  fix i
  assume "i \<in> ?r"
  then consider "object_of v = Some i" | k x where "(k, x) \<in> set (members_of key v)" "i \<in> objects_in x"
    by auto
  then show "i \<in> objects_in v"
  proof cases
    case 1
    then show ?thesis by (auto simp: objects_in_def intro: exI [of _ "[]"])
  next
    case 2
    then obtain j q where "j < length (members_of key v)" "members_of key v ! j = (k, x)"
      "object_at x q i" by (auto simp: objects_in_def in_set_conv_nth)
    then have "object_at v (j # q) i" using object_at_Cons [of v j q i key] by simp
    then show ?thesis by (auto simp: objects_in_def)
  qed
qed

declare validate_node.simps [simp del]

text \<open>A list of values, checked one after the other.\<close>

definition visit_all ::
  "bool \<Rightarrow> nat \<Rightarrow> (string \<times> config_tree) list \<Rightarrow> object_id list \<Rightarrow> object_id list res" where
  "visit_all public depth = foldE (\<lambda>(key, x). validate_node public depth key x)"

lemma validate_items_visit: "validate_items public depth key xs seen =
    visit_all public depth (map (Pair key) xs) seen"
  by (induction xs arbitrary: seen) (auto simp: visit_all_def bindE_def split: sum.splits)

lemma validate_members_visit:
  "validate_members public depth ms seen = Inr t \<longleftrightarrow>
     (\<forall>(k, x) \<in> set ms. check_key public k = Inr ()) \<and>
     visit_all public depth (map (\<lambda>(k, x). (key_text k, x)) ms) seen = Inr t"
proof (induction ms arbitrary: seen)
  case (Cons m ms)
  then show ?case by (cases m) (auto simp: visit_all_def monad)
qed (simp add: visit_all_def)

lemma check_key_Inr [monad]:
  "check_key public k = Inr u \<longleftrightarrow> (\<exists>s. k = Key s \<and> \<not> (public \<and> found_in sensitive_key s))"
  by (cases k) (auto simp: check_key_def monad)

lemma check_text_Inr [monad]:
  "check_text public key s = Inr u \<longleftrightarrow> s = [] \<or> \<not> public \<or> \<not> unsafe_text s"
  by (auto simp: check_text_def monad)

lemma validate_node_step:
  "validate_node public depth key v seen = Inr t \<longleftrightarrow>
     depth \<le> 32 \<and> harmless public key v \<and>
     (case object_of v of
        None \<Rightarrow> t = seen
      | Some i \<Rightarrow> i \<notin> set seen \<and> visit_all public (Suc depth) (members_of key v) (i # seen) = Inr t)"
  by (cases v)
    (auto simp: validate_node.simps harmless_def object_of_def members_of_def monad validate_members_visit
      validate_items_visit not_less)

text \<open>What a visit accepts, relative to the objects met before.\<close>

definition acceptable_all ::
  "bool \<Rightarrow> nat \<Rightarrow> (string \<times> config_tree) list \<Rightarrow> object_id set \<Rightarrow> bool" where
  "acceptable_all public depth xs seen =
     ((\<forall>(k, x) \<in> set xs. acceptable public depth k x \<and> objects_in x \<inter> seen = {}) \<and>
      sorted_wrt (\<lambda>x y. objects_in (snd x) \<inter> objects_in (snd y) = {}) xs)"

lemma acceptable_all_Cons:
  "acceptable_all public depth ((k, x) # xs) seen \<longleftrightarrow>
     acceptable public depth k x \<and> objects_in x \<inter> seen = {} \<and>
     acceptable_all public depth xs (seen \<union> objects_in x)"
  by (fastforce simp: acceptable_all_def Int_Un_distrib)

lemma acceptable_unfold:
  "acceptable public depth key v \<and> objects_in v \<inter> seen = {} \<longleftrightarrow>
     depth \<le> 32 \<and> harmless public key v \<and>
     (case object_of v of
        None \<Rightarrow> True
      | Some i \<Rightarrow> i \<notin> seen \<and> acceptable_all public (Suc depth) (members_of key v) (insert i seen))"
  (is "?l = ?r")
proof (cases "object_of v")
  case None
  have leaf: "members_of key v = []" using None by (cases v) (auto simp: object_of_def members_of_def)
  have "objects_in v = {}" by (subst objects_in_unfold [of _ key]) (simp add: leaf None)
  moreover have "value_at key v p = (if p = [] then Some (key, v) else None)" for p
    by (cases p) (simp_all add: leaf)
  moreover have "\<not> object_at v p i" for p i using None leaf by (cases p) (simp_all add: object_at_Cons [of _ _ _ _ key])
  ultimately show ?thesis using None by (auto simp: acceptable_def)
next
  case (Some i)
  let ?m = "members_of key v"
  have objs: "objects_in v = insert i (\<Union>(k, x) \<in> set ?m. objects_in x)"
    by (subst objects_in_unfold [of _ key]) (simp add: Some)
  have at: "object_at v p j \<longleftrightarrow>
      (case p of [] \<Rightarrow> i = j | n # q \<Rightarrow> n < length ?m \<and> object_at (snd (?m ! n)) q j)" for p j
    using Some object_at_Cons [of v _ _ j key] by (cases p) auto
  have members: "value_at key v p = (case p of [] \<Rightarrow> Some (key, v) | n # q \<Rightarrow>
      if n < length ?m then value_at (fst (?m ! n)) (snd (?m ! n)) q else None)" for p
    by (cases p) auto
  show ?thesis
  proof
    assume l: ?l
    have once: "p = q" if "object_at v p j" "object_at v q j" for p q j
      using l that unfolding acceptable_def by blast
    have below: "depth + length p \<le> 32 \<and> harmless public k w" if "value_at key v p = Some (k, w)" for p k w
      using l that unfolding acceptable_def by blast
    have child: "acceptable public (Suc depth) (fst (?m ! n)) (snd (?m ! n))" if "n < length ?m" for n
      unfolding acceptable_def
    proof (intro conjI allI impI)
      fix p k w
      assume "value_at (fst (?m ! n)) (snd (?m ! n)) p = Some (k, w)"
      then show "Suc depth + length p \<le> 32" "harmless public k w"
        using below [of "n # p" k w] that by auto
    next
      fix p q j
      assume "object_at (snd (?m ! n)) p j" "object_at (snd (?m ! n)) q j"
      then show "p = q" using once [of "n # p" j "n # q"] that at by auto
    qed
    have fresh: "i \<notin> objects_in (snd (?m ! n))" if n: "n < length ?m" for n
    proof
      assume "i \<in> objects_in (snd (?m ! n))"
      then obtain p where "object_at (snd (?m ! n)) p i" by (auto simp: objects_in_def)
      then show False using once [of "[]" i "n # p"] n Some by (simp add: at)
    qed
    have apart: "objects_in (snd (?m ! a)) \<inter> objects_in (snd (?m ! b)) = {}"
      if "a < b" "b < length ?m" for a b
    proof (rule ccontr)
      assume "\<not> ?thesis"
      then obtain p q j where "object_at (snd (?m ! a)) p j" "object_at (snd (?m ! b)) q j"
        by (auto simp: objects_in_def)
      then show False using once [of "a # p" j "b # q"] that by (simp add: at)
    qed
    have "acceptable_all public (Suc depth) ?m (insert i seen)"
      unfolding acceptable_all_def sorted_wrt_iff_nth_less
      using child fresh apart l objs by (fastforce simp: in_set_conv_nth)
    then show ?r using below [of "[]"] l objs Some by auto
  next
    assume r: ?r
    have all: "acceptable_all public (Suc depth) ?m (insert i seen)" using r Some by simp
    have child: "acceptable public (Suc depth) (fst (?m ! n)) (snd (?m ! n))"
        "objects_in (snd (?m ! n)) \<inter> insert i seen = {}" if "n < length ?m" for n
    proof -
      have "(fst (?m ! n), snd (?m ! n)) \<in> set ?m" using nth_mem [OF that] by simp
      then show "acceptable public (Suc depth) (fst (?m ! n)) (snd (?m ! n))"
        "objects_in (snd (?m ! n)) \<inter> insert i seen = {}"
        using all unfolding acceptable_all_def by blast+
    qed
    have apart: "objects_in (snd (?m ! a)) \<inter> objects_in (snd (?m ! b)) = {}"
      if "a < b" "b < length ?m" for a b
      using all that unfolding acceptable_all_def sorted_wrt_iff_nth_less by blast
    have same: "a = b" if "object_at (snd (?m ! a)) p j" "object_at (snd (?m ! b)) q j"
        "a < length ?m" "b < length ?m" for a b p q j
      using that apart [of a b] apart [of b a] by (cases a b rule: linorder_cases) (auto simp: objects_in_def)
    have "depth + length p \<le> 32 \<and> harmless public k w" if "value_at key v p = Some (k, w)" for p k w
      using that r child(1) unfolding acceptable_def members
      by (cases p) (fastforce split: if_splits)+
    moreover have "p = q" if "object_at v p j" "object_at v q j" for p q j
    proof -
      have inner: "p = q" if "object_at (snd (?m ! n)) p j" "object_at (snd (?m ! n)) q j"
          "n < length ?m" for n p q
        using child(1) [OF that(3)] that unfolding acceptable_def by blast
      have outer: "\<not> object_at (snd (?m ! n)) p i" if "n < length ?m" for n p
        using child(2) [OF that] by (auto simp: objects_in_def)
      show ?thesis
      proof (cases p; cases q)
        fix a p' b q'
        assume pq: "p = a # p'" "q = b # q'"
        then have sub: "object_at (snd (?m ! a)) p' j" "object_at (snd (?m ! b)) q' j"
          "a < length ?m" "b < length ?m" using that by (simp_all add: at)
        have "a = b" using same sub by blast
        then show ?thesis using inner sub pq by blast
      qed (use that outer Some in \<open>auto simp: at\<close>)
    qed
    moreover have "objects_in v \<inter> seen = {}" using all r Some unfolding objs acceptable_all_def by fastforce
    ultimately show ?l unfolding acceptable_def by blast
  qed
qed

lemma visit_values_iff:
  assumes "\<And>key v seen t. validate_node public depth key v seen = Inr t \<Longrightarrow> set t = set seen \<union> objects_in v"
    and "\<And>key v seen. (\<exists>t. validate_node public depth key v seen = Inr t) \<longleftrightarrow>
           acceptable public depth key v \<and> objects_in v \<inter> set seen = {}"
  shows "(visit_all public depth xs seen = Inr t \<longrightarrow>
      set t = set seen \<union> (\<Union>(k, x) \<in> set xs. objects_in x)) \<and>
    ((\<exists>t. visit_all public depth xs seen = Inr t) \<longleftrightarrow> acceptable_all public depth xs (set seen))"
proof (induction xs arbitrary: seen t)
  case Nil
  show ?case by (simp add: visit_all_def acceptable_all_def)
next
  case (Cons x xs)
  obtain k y where x: "x = (k, y)" by (cases x)
  have step: "visit_all public depth ((k, y) # xs) seen = Inr t \<longleftrightarrow>
      (\<exists>u. validate_node public depth k y seen = Inr u \<and> visit_all public depth xs u = Inr t)" for t
    by (simp add: visit_all_def monad)
  have "(\<exists>t. visit_all public depth xs u = Inr t) \<longleftrightarrow>
      acceptable_all public depth xs (set seen \<union> objects_in y)"
    if "validate_node public depth k y seen = Inr u" for u
    using Cons.IH [of u] assms(1) [OF that] by simp
  then have "(\<exists>t. visit_all public depth ((k, y) # xs) seen = Inr t) \<longleftrightarrow>
      acceptable_all public depth ((k, y) # xs) (set seen)"
    unfolding step acceptable_all_Cons using assms(2) [of k y seen] by blast
  moreover have "set t = set seen \<union> (objects_in y \<union> (\<Union>(k, x) \<in> set xs. objects_in x))"
    if "visit_all public depth ((k, y) # xs) seen = Inr t"
  proof -
    from that obtain u where u: "validate_node public depth k y seen = Inr u" "visit_all public depth xs u = Inr t"
      using step by blast
    show ?thesis using Cons.IH [of u t] u(2) assms(1) [OF u(1)] by (simp add: Un_assoc)
  qed
  ultimately show ?case unfolding x by auto
qed

lemma validate_node_iff:
  "(validate_node public depth key v seen = Inr t \<longrightarrow> set t = set seen \<union> objects_in v) \<and>
   ((\<exists>t. validate_node public depth key v seen = Inr t) \<longleftrightarrow>
      acceptable public depth key v \<and> objects_in v \<inter> set seen = {})"
proof (induction "33 - depth" arbitrary: depth key v seen t rule: less_induct)
  case less
  show ?case
  proof (cases "depth \<le> 32")
    case False
    then show ?thesis
      unfolding validate_node_step acceptable_unfold by simp
  next
    case True
    have below: "33 - Suc depth < 33 - depth" using True by simp
    have visit: "(visit_all public (Suc depth) xs u = Inr t \<longrightarrow>
        set t = set u \<union> (\<Union>(k, x) \<in> set xs. objects_in x)) \<and>
      ((\<exists>t. visit_all public (Suc depth) xs u = Inr t) \<longleftrightarrow> acceptable_all public (Suc depth) xs (set u))"
      for xs u t
      by (rule visit_values_iff) (use less [OF below] in blast)+
    show ?thesis
    proof (cases "object_of v")
      case None
      then have "members_of key v = []" by (cases v) (auto simp: object_of_def members_of_def)
      then have "objects_in v = {}" using None by (subst objects_in_unfold [of _ key]) simp
      then show ?thesis
        unfolding validate_node_step acceptable_unfold using None True by simp
    next
      case (Some i)
      have "set t = set seen \<union> objects_in v"
        if "visit_all public (Suc depth) (members_of key v) (i # seen) = Inr t"
        using visit [of "members_of key v" "i # seen" t] that Some
        by (subst objects_in_unfold [of _ key]) auto
      then show ?thesis
        unfolding validate_node_step acceptable_unfold
        using Some True visit [of "members_of key v" "i # seen"] by auto
    qed
  qed
qed

text \<open>
  C13. A configuration value is public exactly when everything that can be reached in it is: at most 32
  levels below the top, in containers of at most 512 members, under string keys that name no secret, with
  no infinite number, no foreign object, and no text that is an address, an absolute or climbing
  path, or a credential; and when no object can be reached in two ways. The check ends on values that
  contain themselves, and refuses them.
\<close>

theorem public_config_iff:
  "validate_public_config_tree v = Inr () \<longleftrightarrow> acceptable True 0 [] v"
  using validate_node_iff [of True 0 "[]" v "[]"]
  by (auto simp: validate_public_config_tree_def monad)

end
