(* ===== verification/Config_Kernel.thy ===== *)
theory Config_Kernel
  imports Errors "HOL-Library.Char_ord" "HOL-Library.List_Lexorder"
begin

text \<open>
  \<^verbatim>\<open>backend/harness/core/config_kernel.py\<close>: the loading of the deployment configuration, which
  collects every problem it can find before it refuses. YAML is a library: a document is a tree, and
  the typed schemas of the four files (pydantic models) are arguments that turn a tree into a record or
  into problems. What the schemas check beyond types is \<open>runtime_file_ok\<close> and \<open>model_ok\<close>.
\<close>

section \<open>Problems\<close>

record config_problem =
  cp_file :: string
  cp_path :: string
  cp_reason :: string

definition problem :: "string \<Rightarrow> string \<Rightarrow> string \<Rightarrow> config_problem" where
  "problem filename path reason = \<lparr>cp_file = filename, cp_path = path, cp_reason = reason\<rparr>"

text \<open>\<open>".".join(...)\<close>.\<close>

fun join_dots :: "string list \<Rightarrow> string" where
  "join_dots [] = []"
| "join_dots [p] = p"
| "join_dots (p # q # ps) = p @ CHR ''.'' # join_dots (q # ps)"

fun join_commas :: "string list \<Rightarrow> string" where
  "join_commas [] = []"
| "join_commas [p] = p"
| "join_commas (p # q # ps) = p @ '', '' @ join_commas (q # ps)"

definition quoted :: "string \<Rightarrow> string" where
  "quoted s = CHR 0x22 # s @ [CHR 0x22]"

definition error_path :: "string list \<Rightarrow> string" where
  "error_path location = (let text = join_dots location in if text = [] then ''<root>'' else text)"

section \<open>The environment file\<close>

text \<open>\<open>str.strip\<close>, on characters of eight bits.\<close>

definition is_space :: "char \<Rightarrow> bool" where
  "is_space c = (let n = (of_char c :: nat) in 9 \<le> n \<and> n \<le> 13 \<or> 28 \<le> n \<and> n \<le> 32 \<or> n = 133 \<or> n = 160)"

definition strip :: "string \<Rightarrow> string" where
  "strip s = rev (dropWhile is_space (rev (dropWhile is_space s)))"

fun starts_with :: "string \<Rightarrow> string \<Rightarrow> bool" where
  "starts_with [] s = True"
| "starts_with (p # ps) [] = False"
| "starts_with (p # ps) (c # cs) = (p = c \<and> starts_with ps cs)"

fun contains :: "string \<Rightarrow> string \<Rightarrow> bool" where
  "contains sub [] = (sub = [])"
| "contains sub (c # cs) = (starts_with sub (c # cs) \<or> contains sub cs)"

definition env_name_start :: "char \<Rightarrow> bool" where
  "env_name_start c = (is_letter c \<or> c = CHR ''_'')"

definition env_name_char :: "char \<Rightarrow> bool" where
  "env_name_char c = (is_letter c \<or> is_digit c \<or> c = CHR ''_'')"

definition is_env_name :: "string \<Rightarrow> bool" where
  "is_env_name s = (s \<noteq> [] \<and> env_name_start (hd s) \<and> list_all env_name_char s)"

definition unquote :: "string \<Rightarrow> string" where
  "unquote v =
     (if 2 \<le> length v \<and> hd v = last v \<and> hd v \<in> {CHR 0x27, CHR 0x22} then butlast (tl v) else v)"

definition has_shell_syntax :: "string \<Rightarrow> bool" where
  "has_shell_syntax v = list_ex (\<lambda>t. contains t v) [''${'', ''$('' @ [CHR 0x60], ''$('', [CHR 0x60]]"

type_synonym env_values = "(string \<times> string) list"

text \<open>One line: the values and problems so far, and the number of the line.\<close>

definition parse_env_line ::
  "string \<Rightarrow> nat \<Rightarrow> string \<Rightarrow> env_values \<times> config_problem list \<Rightarrow> env_values \<times> config_problem list" where
  "parse_env_line filename number raw_line = (\<lambda>(values, problems).
     let line = strip raw_line; at = ''line '' @ show_nat number in
     if line = [] \<or> starts_with ''#'' line then (values, problems)
     else if starts_with ''export '' line \<or> CHR ''='' \<notin> set line then
       (values, problems @ [problem filename at ''expected NAME=value without shell syntax''])
     else
       let name = strip (takeWhile (\<lambda>c. c \<noteq> CHR ''='') line);
           value = strip (tl (dropWhile (\<lambda>c. c \<noteq> CHR ''='') line)) in
       if \<not> is_env_name name then (values, problems @ [problem filename at ''invalid variable name''])
       else if map_of values name \<noteq> None then
         (values, problems @ [problem filename at (''duplicate variable '' @ quoted name)])
       else if has_shell_syntax (unquote value) then
         (values, problems @ [problem filename at
           ''shell expansion, command substitution, and nested variables are forbidden''])
       else (values @ [(name, unquote value)], problems))"

fun parse_env_lines ::
  "string \<Rightarrow> nat \<Rightarrow> string list \<Rightarrow> env_values \<times> config_problem list \<Rightarrow> env_values \<times> config_problem list" where
  "parse_env_lines filename number [] acc = acc"
| "parse_env_lines filename number (l # ls) acc =
     parse_env_lines filename (Suc number) ls (parse_env_line filename number l acc)"

text \<open>A file that is missing, cannot be read, or has these lines.\<close>

datatype text_file = Missing_File | Unreadable_File string | File_Lines "string list"

fun parse_env :: "text_file \<Rightarrow> env_values \<times> config_problem list" where
  "parse_env Missing_File = ([], [problem ''.env'' ''<file>'' ''required file is missing''])"
| "parse_env (Unreadable_File e) = ([], [problem ''.env'' ''<file>'' (''cannot be read: '' @ e)])"
| "parse_env (File_Lines ls) = parse_env_lines ''.env'' 1 ls ([], [])"

section \<open>Documents\<close>

datatype yaml = Y_Map "(string \<times> yaml) list" | Y_List "yaml list" | Y_Text string | Y_Scalar string

datatype yaml_file = Missing_Yaml | Bad_Yaml string string | Unreadable_Yaml string | Yaml yaml

definition load_yaml :: "string \<Rightarrow> yaml_file \<Rightarrow> yaml option \<times> config_problem list" where
  "load_yaml filename f =
     (case f of
        Missing_Yaml \<Rightarrow> (None, [problem filename ''<file>'' ''required file is missing''])
      | Bad_Yaml path reason \<Rightarrow> (None, [problem filename path (''invalid YAML: '' @ reason)])
      | Unreadable_Yaml e \<Rightarrow> (None, [problem filename ''<file>'' (''cannot be read: '' @ e)])
      | Yaml (Y_Map kvs) \<Rightarrow> (Some (Y_Map kvs), [])
      | Yaml _ \<Rightarrow> (None, [problem filename ''<root>'' ''must be a YAML object'']))"

lemma size_in_map [termination_simp]: "(k, v) \<in> set kvs \<Longrightarrow> size v < Suc (size_list (size_prod (\<lambda>_. 0) size) kvs)"
  by (induction kvs) auto

lemma size_in_enumerate [termination_simp]:
  "(i, v) \<in> set (List.enumerate n vs) \<Longrightarrow> size v < Suc (size_list size vs)"
proof -
  assume "(i, v) \<in> set (List.enumerate n vs)"
  then have "v \<in> set vs" by (auto simp: in_set_enumerate_eq)
  then show ?thesis by (induction vs) auto
qed

fun find_env_references :: "yaml \<Rightarrow> string list \<Rightarrow> (string \<times> string) list" where
  "find_env_references (Y_Map kvs) path =
     concat (map (\<lambda>(k, v). find_env_references v (path @ [k])) kvs)"
| "find_env_references (Y_List vs) path =
     concat (map (\<lambda>(i, v). find_env_references v (path @ [show_nat i])) (List.enumerate 0 vs))"
| "find_env_references (Y_Text s) path = (if contains ''${'' s then [(error_path path, s)] else [])"
| "find_env_references (Y_Scalar s) path = []"

text \<open>The name inside \<open>${NAME}\<close>.\<close>

definition env_reference :: "string \<Rightarrow> string option" where
  "env_reference s =
     (let name = butlast (drop 2 s) in
      if starts_with ''${'' s \<and> 4 \<le> length s \<and> last s = CHR ''}'' \<and> is_env_name name then Some name
      else None)"

definition placeholder :: "string list \<Rightarrow> yaml" where
  "placeholder path =
     Y_Text (if path \<noteq> [] \<and> last path = ''api_key'' then ''missing'' else ''https://missing.invalid'')"

definition substitute_text ::
  "(string \<Rightarrow> string option) \<Rightarrow> string \<Rightarrow> string list \<Rightarrow> yaml \<times> config_problem list" where
  "substitute_text environment s path =
     (if \<not> contains ''${'' s then (Y_Text s, [])
      else case env_reference s of
        None \<Rightarrow> (placeholder path, [problem ''provider.yaml'' (error_path path)
          ''environment values must use one complete ${ENV_NAME} replacement''])
      | Some name \<Rightarrow>
          (case environment name of
             Some (c # cs) \<Rightarrow> (Y_Text (c # cs), [])
           | _ \<Rightarrow> (placeholder path, [problem ''provider.yaml'' (error_path path)
               (''environment variable '' @ name @ '' is missing'')])))"

fun substitute_env ::
  "(string \<Rightarrow> string option) \<Rightarrow> yaml \<Rightarrow> string list \<Rightarrow> yaml \<times> config_problem list" where
  "substitute_env environment (Y_Map kvs) path =
     (let rs = map (\<lambda>(k, v). (k, substitute_env environment v (path @ [k]))) kvs in
      (Y_Map (map (\<lambda>(k, r). (k, fst r)) rs), concat (map (\<lambda>(k, r). snd r) rs)))"
| "substitute_env environment (Y_List vs) path =
     (let rs = map (\<lambda>(i, v). substitute_env environment v (path @ [show_nat i])) (List.enumerate 0 vs) in
      (Y_List (map fst rs), concat (map snd rs)))"
| "substitute_env environment (Y_Text s) path = substitute_text environment s path"
| "substitute_env environment (Y_Scalar s) path = (Y_Scalar s, [])"

section \<open>Typed configuration\<close>

datatype capability = Structured_Output | Tool_Calling | Image_Input | Text_To_Image | Image_To_Image

fun capability_name :: "capability \<Rightarrow> string" where
  "capability_name Structured_Output = ''structured_output''"
| "capability_name Tool_Calling = ''tool_calling''"
| "capability_name Image_Input = ''image_input''"
| "capability_name Text_To_Image = ''text_to_image''"
| "capability_name Image_To_Image = ''image_to_image''"

record model_definition =
  md_id :: string
  md_label :: string
  md_provider :: string
  md_model :: string
  md_capabilities :: "capability list"

text \<open>The expression of model ids: 1 to 128 letters, digits, dots, underscores and dashes, the first a
  letter or a digit.\<close>

definition is_model_id :: "string \<Rightarrow> bool" where
  "is_model_id s =
     (s \<noteq> [] \<and> length s \<le> 128 \<and> (is_letter (hd s) \<or> is_digit (hd s)) \<and>
      list_all (\<lambda>c. is_ident_char c \<or> c = CHR ''.'') s)"

definition model_ok :: "model_definition \<Rightarrow> bool" where
  "model_ok m =
     (is_model_id (md_id m) \<and> md_label m \<noteq> [] \<and> length (md_label m) \<le> 200 \<and> md_provider m = ''ark'' \<and>
      md_model m \<noteq> [] \<and> length (md_model m) \<le> 200 \<and> md_capabilities m \<noteq> [] \<and> distinct (md_capabilities m))"

record model_list =
  ml_text_models :: "model_definition list"
  ml_vlm_models :: "model_definition list"
  ml_image_models :: "model_definition list"

record server_config =
  sv_host :: string
  sv_port :: int
  sv_log_level :: string

record model_selection =
  ms_master :: string
  ms_text_reasoning :: string
  ms_vision_understanding :: string
  ms_image_generation :: string

record model_overrides =
  mo_intake_clarify :: "string option"
  mo_confirmation_build :: "string option"
  mo_initial_candidate_generation :: "string option"
  mo_self_check_inspection :: "string option"
  mo_self_check_rework :: "string option"
  mo_human_prompt_rework :: "string option"

record supervisor_config =
  sp_port_range_start :: int
  sp_port_range_end :: int
  sp_startup_timeout_seconds :: int
  sp_shutdown_grace_seconds :: int
  sp_health_failure_threshold :: int

record self_check_config =
  sk_fixed_rounds :: int
  sk_max_rounds :: int

record image_agent_config =
  ia_max_auto_questions :: int
  ia_clarification_total_budget :: int
  ia_candidate_concurrency :: int
  ia_self_check :: self_check_config
  ia_overrides :: model_overrides

record runtime_file =
  rf_server :: server_config
  rf_models :: model_selection
  rf_supervisor :: supervisor_config

record runtime_config =
  rc_file :: runtime_file
  rc_image_agent :: image_agent_config

text \<open>The bounds and cross-field rules of the two runtime schemas.\<close>

definition in_range :: "int \<Rightarrow> int \<Rightarrow> int \<Rightarrow> bool" where
  "in_range lo hi x = (lo \<le> x \<and> x \<le> hi)"

definition supervisor_ok :: "supervisor_config \<Rightarrow> bool" where
  "supervisor_ok s =
     (in_range 1 65535 (sp_port_range_start s) \<and> in_range 1 65535 (sp_port_range_end s) \<and>
      in_range 1 3600 (sp_startup_timeout_seconds s) \<and> in_range 0 3600 (sp_shutdown_grace_seconds s) \<and>
      in_range 1 100 (sp_health_failure_threshold s) \<and>
      sp_port_range_start s \<le> sp_port_range_end s)"

definition runtime_file_ok :: "runtime_file \<Rightarrow> bool" where
  "runtime_file_ok r =
     (sv_host (rf_server r) \<noteq> [] \<and> in_range 1 65535 (sv_port (rf_server r)) \<and>
      supervisor_ok (rf_supervisor r) \<and>
      \<not> in_range (sp_port_range_start (rf_supervisor r)) (sp_port_range_end (rf_supervisor r))
          (sv_port (rf_server r)))"

definition image_agent_ok :: "image_agent_config \<Rightarrow> bool" where
  "image_agent_ok a =
     (in_range 0 10 (ia_max_auto_questions a) \<and> in_range 0 100 (ia_clarification_total_budget a) \<and>
      in_range 1 5 (ia_candidate_concurrency a) \<and> in_range 1 20 (sk_fixed_rounds (ia_self_check a)) \<and>
      in_range 1 50 (sk_max_rounds (ia_self_check a)) \<and>
      sk_fixed_rounds (ia_self_check a) \<le> sk_max_rounds (ia_self_check a))"

section \<open>The cross-file checks\<close>

datatype model_group = Text_Models | Vlm_Models | Image_Models

fun group_name :: "model_group \<Rightarrow> string" where
  "group_name Text_Models = ''text_models''"
| "group_name Vlm_Models = ''vlm_models''"
| "group_name Image_Models = ''image_models''"

text \<open>\<open>removesuffix("_models")\<close>.\<close>

fun group_base :: "model_group \<Rightarrow> string" where
  "group_base Text_Models = ''text''"
| "group_base Vlm_Models = ''vlm''"
| "group_base Image_Models = ''image''"

fun group_models :: "model_list \<Rightarrow> model_group \<Rightarrow> model_definition list" where
  "group_models l Text_Models = ml_text_models l"
| "group_models l Vlm_Models = ml_vlm_models l"
| "group_models l Image_Models = ml_image_models l"

definition model_groups :: "model_group list" where
  "model_groups = [Text_Models, Vlm_Models, Image_Models]"

definition runtime_references :: "(string \<times> (runtime_config \<Rightarrow> string option) \<times> model_group \<times> capability list) list" where
  "runtime_references =
     [(''models.master'', \<lambda>r. Some (ms_master (rf_models (rc_file r))), Text_Models,
         [Structured_Output, Tool_Calling]),
      (''models.text_reasoning'', \<lambda>r. Some (ms_text_reasoning (rf_models (rc_file r))), Text_Models,
         [Structured_Output]),
      (''models.vision_understanding'', \<lambda>r. Some (ms_vision_understanding (rf_models (rc_file r))), Vlm_Models,
         [Image_Input, Structured_Output]),
      (''models.image_generation'', \<lambda>r. Some (ms_image_generation (rf_models (rc_file r))), Image_Models,
         [Text_To_Image]),
      (''image_agent.advanced_model_overrides.intake_clarify'',
         \<lambda>r. mo_intake_clarify (ia_overrides (rc_image_agent r)), Text_Models, [Structured_Output]),
      (''image_agent.advanced_model_overrides.confirmation_build'',
         \<lambda>r. mo_confirmation_build (ia_overrides (rc_image_agent r)), Text_Models, [Structured_Output]),
      (''image_agent.advanced_model_overrides.initial_candidate_generation'',
         \<lambda>r. mo_initial_candidate_generation (ia_overrides (rc_image_agent r)), Image_Models, [Text_To_Image]),
      (''image_agent.advanced_model_overrides.self_check_inspection'',
         \<lambda>r. mo_self_check_inspection (ia_overrides (rc_image_agent r)), Vlm_Models, [Image_Input]),
      (''image_agent.advanced_model_overrides.self_check_rework'',
         \<lambda>r. mo_self_check_rework (ia_overrides (rc_image_agent r)), Image_Models, [Text_To_Image]),
      (''image_agent.advanced_model_overrides.human_prompt_rework'',
         \<lambda>r. mo_human_prompt_rework (ia_overrides (rc_image_agent r)), Image_Models, [Text_To_Image])]"

text \<open>The loop over the models of a group: the ids seen so far, each with its group, and the problems.\<close>

type_synonym seen_models = "(string \<times> model_group) list"

definition check_model ::
  "string list option \<Rightarrow> model_group \<Rightarrow> nat \<times> model_definition \<Rightarrow> seen_models \<times> config_problem list \<Rightarrow>
   seen_models \<times> config_problem list" where
  "check_model providers g = (\<lambda>(index, m) (seen, problems).
     let duplicate = (case map_of seen (md_id m) of
           None \<Rightarrow> []
         | Some other \<Rightarrow> [problem ''model_list.yaml'' (group_name g @ ''.'' @ show_nat index @ ''.id'')
             (''is duplicated in '' @ group_name other @ ''; model ids must be globally unique'')]);
         unknown = (if providers \<noteq> None \<and> md_provider m \<notin> set (the providers)
           then [problem ''model_list.yaml'' (group_name g @ ''.'' @ md_id m @ ''.provider'')
             (''unknown provider '' @ quoted (md_provider m))] else []) in
     (if duplicate = [] then seen @ [(md_id m, g)] else seen, problems @ duplicate @ unknown))"

definition check_group ::
  "string list option \<Rightarrow> model_list \<Rightarrow> model_group \<Rightarrow> seen_models \<times> config_problem list \<Rightarrow>
   seen_models \<times> config_problem list" where
  "check_group providers l g acc = fold (check_model providers g) (List.enumerate 0 (group_models l g)) acc"

text \<open>\<open>all_categories\<close>: a later group replaces an earlier one.\<close>

definition all_categories :: "model_list \<Rightarrow> string \<Rightarrow> model_group option" where
  "all_categories l = map_of (rev (concat (map (\<lambda>g. map (\<lambda>m. (md_id m, g)) (group_models l g)) model_groups)))"

definition model_in :: "model_list \<Rightarrow> model_group \<Rightarrow> string \<Rightarrow> model_definition option" where
  "model_in l g = dict_by md_id (group_models l g)"

definition check_reference ::
  "model_list \<Rightarrow> runtime_config \<Rightarrow> string \<times> (runtime_config \<Rightarrow> string option) \<times> model_group \<times> capability list \<Rightarrow>
   config_problem list" where
  "check_reference l r = (\<lambda>(path, get, expected, required).
     case get r of
       None \<Rightarrow> []
     | Some model_id \<Rightarrow>
         (case all_categories l model_id of
            None \<Rightarrow> [problem ''runtime.yaml'' path (''unknown '' @ group_base expected @ '' model id '' @ quoted model_id)]
          | Some actual \<Rightarrow>
              if actual \<noteq> expected then
                [problem ''runtime.yaml'' path (''model '' @ quoted model_id @ '' belongs to '' @ group_name actual @
                   '', expected '' @ group_name expected)]
              else
                (let caps = (case model_in l expected model_id of None \<Rightarrow> [] | Some m \<Rightarrow> md_capabilities m);
                     missing = sort (map capability_name (filter (\<lambda>c. c \<notin> set caps) required)) in
                 if missing \<noteq> [] then
                   [problem ''runtime.yaml'' path (''model '' @ quoted model_id @
                      '' lacks required capabilities: '' @ join_commas missing)]
                 else [])))"

definition validate_config ::
  "string list option \<Rightarrow> model_list \<Rightarrow> runtime_config \<Rightarrow> config_problem list" where
  "validate_config providers l r =
     snd (fold (check_group providers l) model_groups ([], [])) @
     concat (map (check_reference l r) runtime_references)"

section \<open>Snapshots\<close>

record config_snapshot =
  sn_revision :: string
  sn_providers :: "string list"
  sn_model_list :: model_list
  sn_runtime :: runtime_config

datatype config_failure = Configuration_Error "config_problem list" | Attribute_Error string

record config_schemas =
  sc_providers :: "yaml \<Rightarrow> config_problem list + string list"
  sc_models :: "yaml \<Rightarrow> config_problem list + model_list"
  sc_runtime :: "yaml \<Rightarrow> config_problem list + runtime_file"
  sc_image_agent :: "yaml \<Rightarrow> config_problem list + image_agent_config"
  sc_revision :: "string list \<Rightarrow> model_list \<Rightarrow> runtime_config \<Rightarrow> string"

definition snapshot_of ::
  "config_schemas \<Rightarrow> string list \<Rightarrow> model_list \<Rightarrow> runtime_config \<Rightarrow> config_snapshot" where
  "snapshot_of sc providers l r =
     \<lparr>sn_revision = sc_revision sc providers l r, sn_providers = providers, sn_model_list = l,
      sn_runtime = r\<rparr>"

text \<open>The problems of a schema check, or its value.\<close>

definition problems_of :: "config_problem list + 'a \<Rightarrow> config_problem list" where
  "problems_of r = (case r of Inl ps \<Rightarrow> ps | Inr _ \<Rightarrow> [])"

definition value_of :: "config_problem list + 'a \<Rightarrow> 'a option" where
  "value_of r = (case r of Inl _ \<Rightarrow> None | Inr v \<Rightarrow> Some v)"

definition aggregate_runtime ::
  "runtime_file option \<Rightarrow> image_agent_config option \<Rightarrow> runtime_config option" where
  "aggregate_runtime r a =
     (case (r, a) of
        (Some r, Some a) \<Rightarrow> Some \<lparr>rc_file = r, rc_image_agent = a\<rparr>
      | _ \<Rightarrow> None)"

definition build_config_snapshot ::
  "config_schemas \<Rightarrow> string list \<Rightarrow> model_list \<Rightarrow> yaml \<Rightarrow> yaml \<Rightarrow> config_failure + config_snapshot" where
  "build_config_snapshot sc providers l runtime image_agent =
     (let r = sc_runtime sc runtime; a = sc_image_agent sc image_agent;
          aggregate = aggregate_runtime (value_of r) (value_of a);
          problems = problems_of r @ problems_of a @
            (case aggregate of None \<Rightarrow> [] | Some rt \<Rightarrow> validate_config (Some providers) l rt) in
      case aggregate of
        Some rt \<Rightarrow> if problems \<noteq> [] then Inl (Configuration_Error problems)
          else Inr (snapshot_of sc providers l rt)
      | None \<Rightarrow> Inl (Configuration_Error problems))"

section \<open>Loading\<close>

definition yaml_get :: "yaml \<Rightarrow> string \<Rightarrow> config_failure + yaml option" where
  "yaml_get y k =
     (case y of Y_Map kvs \<Rightarrow> Inr (map_of kvs k) | _ \<Rightarrow> Inl (Attribute_Error ''get''))"

definition or_empty :: "yaml option \<Rightarrow> yaml" where
  "or_empty v = (case v of None \<Rightarrow> Y_Map [] | Some y \<Rightarrow> y)"

text \<open>\<open>raw_provider.get("providers", {}).get("ark", {}).get("api_key")\<close>: a level that is no object is an
  \<open>AttributeError\<close>.\<close>

definition raw_api_key :: "yaml \<Rightarrow> config_failure + yaml option" where
  "raw_api_key raw =
     bindE (yaml_get raw ''providers'') (\<lambda>providers.
     bindE (yaml_get (or_empty providers) ''ark'') (\<lambda>ark.
     yaml_get (or_empty ark) ''api_key''))"

definition api_key_problems :: "yaml option \<Rightarrow> config_problem list" where
  "api_key_problems key =
     (case key of
        Some (Y_Text s) \<Rightarrow> if env_reference s \<noteq> None then [] else
          [problem ''provider.yaml'' ''providers.ark.api_key''
            ''must be one complete ${ENV_NAME} reference; plaintext secrets are forbidden'']
      | _ \<Rightarrow> [problem ''provider.yaml'' ''providers.ark.api_key''
            ''must be one complete ${ENV_NAME} reference; plaintext secrets are forbidden''])"

definition resolve_provider ::
  "(string \<Rightarrow> string option) \<Rightarrow> yaml option \<Rightarrow> config_failure + yaml option \<times> config_problem list" where
  "resolve_provider environment raw =
     (case raw of
        None \<Rightarrow> Inr (None, [])
      | Some doc \<Rightarrow> bindE (raw_api_key doc) (\<lambda>key.
          let (doc', problems) = substitute_env environment doc [] in
          Inr (Some doc', api_key_problems key @ problems)))"

definition substitution_problems :: "string \<Rightarrow> yaml option \<Rightarrow> config_problem list" where
  "substitution_problems filename doc =
     (case doc of None \<Rightarrow> []
      | Some y \<Rightarrow> map (\<lambda>(path, _). problem filename path
          ''environment substitution is only allowed in provider.yaml'') (find_env_references y []))"

definition check_schema ::
  "(yaml \<Rightarrow> config_problem list + 'a) \<Rightarrow> yaml option \<Rightarrow> 'a option \<times> config_problem list" where
  "check_schema schema doc =
     (case doc of None \<Rightarrow> (None, []) | Some y \<Rightarrow> (value_of (schema y), problems_of (schema y)))"

definition load_config ::
  "config_schemas \<Rightarrow> (string \<Rightarrow> string option) \<Rightarrow> text_file \<Rightarrow> yaml_file \<Rightarrow> yaml_file \<Rightarrow> yaml_file \<Rightarrow>
   yaml_file \<Rightarrow> config_failure + config_snapshot" where
  "load_config sc environ dotenv_file provider_file models_file runtime_file image_file =
     (let (dotenv, p0) = parse_env dotenv_file;
          environment = (\<lambda>n. case environ n of Some v \<Rightarrow> Some v | None \<Rightarrow> map_of dotenv n);
          (raw_provider, p1) = load_yaml ''provider.yaml'' provider_file;
          (raw_models, p2) = load_yaml ''model_list.yaml'' models_file;
          (raw_runtime, p3) = load_yaml ''runtime.yaml'' runtime_file;
          (raw_image, p4) = load_yaml ''image_agent_runtime.yaml'' image_file in
      bindE (resolve_provider environment raw_provider) (\<lambda>(provider_doc, p5).
      let p6 = substitution_problems ''model_list.yaml'' raw_models @
            substitution_problems ''runtime.yaml'' raw_runtime @
            substitution_problems ''image_agent_runtime.yaml'' raw_image;
          (providers, p7) = check_schema (sc_providers sc) provider_doc;
          (models, p8) = check_schema (sc_models sc) raw_models;
          (runtime, p9) = check_schema (sc_runtime sc) raw_runtime;
          (image, p10) = check_schema (sc_image_agent sc) raw_image;
          aggregate = aggregate_runtime runtime image;
          p11 = (case (models, aggregate) of
            (Some l, Some rt) \<Rightarrow> validate_config providers l rt | _ \<Rightarrow> []);
          problems = p0 @ p1 @ p2 @ p3 @ p4 @ p5 @ p6 @ p7 @ p8 @ p9 @ p10 @ p11 in
      case (providers, models, aggregate) of
        (Some ps, Some l, Some rt) \<Rightarrow>
          if problems \<noteq> [] then Inl (Configuration_Error problems) else Inr (snapshot_of sc ps l rt)
      | _ \<Rightarrow> Inl (Configuration_Error problems)))"

section \<open>What the cross-file checks decide\<close>

definition all_models :: "model_list \<Rightarrow> model_definition list" where
  "all_models l = concat (map (group_models l) model_groups)"

text \<open>A reference resolves in its group, to a model with the capabilities that its use needs.\<close>

definition reference_ok ::
  "model_list \<Rightarrow> runtime_config \<Rightarrow> string \<times> (runtime_config \<Rightarrow> string option) \<times> model_group \<times> capability list \<Rightarrow> bool" where
  "reference_ok l r = (\<lambda>(path, get, g, required).
     case get r of None \<Rightarrow> True
     | Some i \<Rightarrow> \<exists>m \<in> set (group_models l g). md_id m = i \<and> set required \<subseteq> set (md_capabilities m))"

definition well_configured :: "string list option \<Rightarrow> model_list \<Rightarrow> runtime_config \<Rightarrow> bool" where
  "well_configured providers l r =
     (distinct (map md_id (all_models l)) \<and>
      (\<forall>m \<in> set (all_models l). case providers of None \<Rightarrow> True | Some ps \<Rightarrow> md_provider m \<in> set ps) \<and>
      list_all (reference_ok l r) runtime_references)"

text \<open>The models that the loop may have passed without a problem, and its state behind them.\<close>

definition clean_models :: "string list option \<Rightarrow> model_definition list \<Rightarrow> bool" where
  "clean_models providers ms =
     (distinct (map md_id ms) \<and>
      (\<forall>m \<in> set ms. case providers of None \<Rightarrow> True | Some ps \<Rightarrow> md_provider m \<in> set ps))"

definition clean_scan ::
  "string list option \<Rightarrow> model_definition list \<Rightarrow> seen_models \<times> config_problem list \<Rightarrow> bool" where
  "clean_scan providers ms acc =
     (snd acc = [] \<and> fst ` set (fst acc) = md_id ` set ms \<and> clean_models providers ms)"

lemma clean_models_append: "clean_models providers (ms @ qs) \<Longrightarrow> clean_models providers ms"
  by (auto simp: clean_models_def)

lemma check_model_keeps: "snd acc \<noteq> [] \<Longrightarrow> snd (check_model providers g im acc) \<noteq> []"
  by (cases acc; cases im) (simp add: check_model_def Let_def)

lemma fold_keeps_problems:
  "snd acc \<noteq> [] \<Longrightarrow> snd (fold (check_model providers g) ims acc) \<noteq> []"
  by (induction ims arbitrary: acc) (simp_all add: check_model_keeps)

lemma check_model_clean:
  assumes "clean_scan providers ms acc"
  shows "snd (check_model providers g (n, m) acc) = [] \<longleftrightarrow> clean_models providers (ms @ [m])"
    and "clean_models providers (ms @ [m]) \<Longrightarrow> clean_scan providers (ms @ [m]) (check_model providers g (n, m) acc)"
proof -
  obtain seen problems where acc: "acc = (seen, problems)" by force
  have known: "map_of seen (md_id m) = None \<longleftrightarrow> md_id m \<notin> md_id ` set ms"
    using assms acc by (auto simp: clean_scan_def map_of_eq_None_iff)
  show "snd (check_model providers g (n, m) acc) = [] \<longleftrightarrow> clean_models providers (ms @ [m])"
    using assms acc known
    by (cases providers; cases "map_of seen (md_id m)")
      (auto simp: check_model_def clean_scan_def clean_models_def Let_def)
  show "clean_scan providers (ms @ [m]) (check_model providers g (n, m) acc)"
    if "clean_models providers (ms @ [m])"
    using that assms acc known
    by (cases providers; cases "map_of seen (md_id m)")
      (auto simp: check_model_def clean_scan_def clean_models_def Let_def)
qed

lemma fold_clean:
  "clean_scan providers ms acc \<Longrightarrow>
   (snd (fold (check_model providers g) (List.enumerate n qs) acc) = [] \<longleftrightarrow> clean_models providers (ms @ qs)) \<and>
   (clean_models providers (ms @ qs) \<longrightarrow>
      clean_scan providers (ms @ qs) (fold (check_model providers g) (List.enumerate n qs) acc))"
proof (induction qs arbitrary: ms acc n)
  case (Cons q qs)
  show ?case
  proof (cases "clean_models providers (ms @ [q])")
    case True
    from Cons.IH [OF check_model_clean(2) [OF Cons.prems True], of "Suc n"] show ?thesis by simp
  next
    case False
    then have "snd (check_model providers g (n, q) acc) \<noteq> []" using check_model_clean(1) [OF Cons.prems] by simp
    moreover have "\<not> clean_models providers (ms @ q # qs)"
      using False clean_models_append [of providers "ms @ [q]" qs] by auto
    ultimately show ?thesis using fold_keeps_problems by simp
  qed
qed (auto simp: clean_scan_def)

lemma scan_clean:
  "clean_scan providers ms acc \<Longrightarrow>
   (snd (fold (check_group providers l) gs acc) = [] \<longleftrightarrow>
      clean_models providers (ms @ concat (map (group_models l) gs)))"
proof (induction gs arbitrary: ms acc)
  case (Cons g gs)
  have keeps: "snd b \<noteq> [] \<Longrightarrow> snd (fold (check_group providers l) hs b) \<noteq> []" for hs b
    by (induction hs arbitrary: b) (simp_all add: check_group_def fold_keeps_problems)
  note step = fold_clean [OF Cons.prems, of g 0 "group_models l g"]
  show ?case
  proof (cases "clean_models providers (ms @ group_models l g)")
    case True
    then have "clean_scan providers (ms @ group_models l g) (check_group providers l g acc)"
      using step by (simp add: check_group_def)
    from Cons.IH [OF this] show ?thesis by simp
  next
    case False
    then have "\<not> clean_models providers (ms @ group_models l g @ concat (map (group_models l) gs))"
      using clean_models_append [of providers "ms @ group_models l g"] by auto
    moreover have "snd (check_group providers l g acc) \<noteq> []"
      using step False by (simp add: check_group_def)
    ultimately show ?thesis using keeps by simp
  qed
qed (auto simp: clean_scan_def)

lemma scan_iff:
  "snd (fold (check_group providers l) model_groups ([], [])) = [] \<longleftrightarrow> clean_models providers (all_models l)"
  using scan_clean [of providers "[]" "([], [])" l model_groups]
  by (simp add: clean_scan_def clean_models_def all_models_def)

lemma all_categories_Some:
  assumes "distinct (map md_id (all_models l))"
  shows "all_categories l i = Some g \<longleftrightarrow> (\<exists>m \<in> set (group_models l g). md_id m = i)"
proof -
  let ?pairs = "concat (map (\<lambda>g. map (\<lambda>m. (md_id m, g)) (group_models l g)) model_groups)"
  have keys: "map fst ?pairs = map md_id (all_models l)"
    by (simp add: all_models_def model_groups_def o_def)
  have "distinct (map fst (rev ?pairs))" using assms keys by (simp add: rev_map [symmetric])
  then have "all_categories l i = Some g \<longleftrightarrow> (i, g) \<in> set (rev ?pairs)"
    unfolding all_categories_def by (rule map_of_eq_Some_iff)
  also have "\<dots> \<longleftrightarrow> (\<exists>m \<in> set (group_models l g). md_id m = i)"
    by (cases g) (auto simp: model_groups_def)
  finally show ?thesis .
qed

lemma check_reference_iff:
  assumes "distinct (map md_id (all_models l))"
  shows "check_reference l r ref = [] \<longleftrightarrow> reference_ok l r ref"
proof -
  obtain path get g required where ref: "ref = (path, get, g, required)" by (cases ref)
  have group: "distinct (map md_id (group_models l g))"
    using assms by (cases g) (auto simp: all_models_def model_groups_def)
  show ?thesis
  proof (cases "get r")
    case (Some i)
    show ?thesis
    proof (cases "\<exists>m \<in> set (group_models l g). md_id m = i")
      case True
      then obtain m where m: "m \<in> set (group_models l g)" "md_id m = i" by blast
      have "all_categories l i = Some g" using all_categories_Some [OF assms] True by blast
      moreover have "model_in l g i = Some m"
        using dict_by_distinct [OF group m(1)] m(2) by (simp add: model_in_def)
      moreover have "(\<exists>q \<in> set (group_models l g). md_id q = i \<and> set required \<subseteq> set (md_capabilities q)) \<longleftrightarrow>
          set required \<subseteq> set (md_capabilities m)"
        using m inj_onD [OF conjunct2 [OF group [unfolded distinct_map]]] by blast
      moreover have "sort (map capability_name (filter (\<lambda>c. c \<notin> set (md_capabilities m)) required)) = [] \<longleftrightarrow>
          set required \<subseteq> set (md_capabilities m)"
      proof -
        have "sort xs = [] \<longleftrightarrow> xs = []" for xs :: "string list" by (metis length_0_conv length_sort)
        then show ?thesis by (auto simp: filter_empty_conv)
      qed
      ultimately show ?thesis
        using Some ref by (simp add: check_reference_def reference_ok_def Let_def)
    next
      case False
      then have "all_categories l i \<noteq> Some g" using all_categories_Some [OF assms] by blast
      with False Some ref show ?thesis
        by (auto simp: check_reference_def reference_ok_def split: option.splits)
    qed
  qed (simp add: ref check_reference_def reference_ok_def)
qed

text \<open>
  C27. Documents that were edited make a configuration snapshot exactly when both runtime files pass their
  schemas, no two models share an id, every model's provider is configured, and every model the runtime
  refers to is in the right list and can do what it is used for.
\<close>

theorem build_config_snapshot_iff:
  "build_config_snapshot sc providers l runtime image_agent = Inr snapshot \<longleftrightarrow>
     (\<exists>r a. sc_runtime sc runtime = Inr r \<and> sc_image_agent sc image_agent = Inr a \<and>
        well_configured (Some providers) l \<lparr>rc_file = r, rc_image_agent = a\<rparr> \<and>
        snapshot = snapshot_of sc providers l \<lparr>rc_file = r, rc_image_agent = a\<rparr>)"
proof -
  have "validate_config ps l rt = [] \<longleftrightarrow> well_configured ps l rt" for ps rt
    using scan_iff [of ps l] check_reference_iff [of l rt]
    by (auto simp: validate_config_def well_configured_def clean_models_def list_all_iff)
  then show ?thesis
    by (cases "sc_runtime sc runtime"; cases "sc_image_agent sc image_agent")
      (auto simp: build_config_snapshot_def aggregate_runtime_def value_of_def problems_of_def Let_def)
qed

section \<open>Loading\<close>

text \<open>What loading accepts has its key in the environment, no references outside the provider file, and is
  well configured.\<close>

lemma load_config_accepts:
  assumes "load_config sc environ dotenv provider models runtime images = Inr snapshot"
  shows "\<exists>doc l r a s. provider = Yaml doc \<and> raw_api_key doc = Inr (Some (Y_Text s)) \<and> env_reference s \<noteq> None \<and>
    models = Yaml l \<and> runtime = Yaml r \<and> images = Yaml a \<and>
    find_env_references l [] = [] \<and> find_env_references r [] = [] \<and> find_env_references a [] = [] \<and>
    well_configured (Some (sn_providers snapshot)) (sn_model_list snapshot) (sn_runtime snapshot)"
proof -
  have valid: "validate_config ps l rt = [] \<longleftrightarrow> well_configured ps l rt" for ps l rt
    using scan_iff [of ps l] check_reference_iff [of l rt]
    by (auto simp: validate_config_def well_configured_def clean_models_def list_all_iff)
  have loaded: "load_yaml name f = (doc, []) \<Longrightarrow> \<exists>y. doc = Some y \<and> f = Yaml y" for name f doc
    by (auto simp: load_yaml_def split: yaml_file.splits yaml.splits)
  obtain dv p0 pd p1 md p2 rd p3 ad p4 where files:
    "parse_env dotenv = (dv, p0)" "load_yaml ''provider.yaml'' provider = (pd, p1)"
    "load_yaml ''model_list.yaml'' models = (md, p2)" "load_yaml ''runtime.yaml'' runtime = (rd, p3)"
    "load_yaml ''image_agent_runtime.yaml'' images = (ad, p4)"
    by (metis surj_pair)
  from assms obtain pd' p5 where resolved:
    "resolve_provider (\<lambda>n. case environ n of None \<Rightarrow> map_of dv n | Some v \<Rightarrow> Some v) pd = Inr (pd', p5)"
    by (auto simp: load_config_def files Let_def bindE_Inr_iff)
  have none: "p1 = []" "p2 = []" "p3 = []" "p4 = []" "p5 = []"
      "substitution_problems ''model_list.yaml'' md = []" "substitution_problems ''runtime.yaml'' rd = []"
      "substitution_problems ''image_agent_runtime.yaml'' ad = []"
      "well_configured (Some (sn_providers snapshot)) (sn_model_list snapshot) (sn_runtime snapshot)"
    using assms
    by (auto simp: load_config_def files resolved Let_def snapshot_of_def valid split: prod.splits option.splits if_splits)
  obtain doc where doc: "pd = Some doc" "provider = Yaml doc"
    using loaded [OF files(2) [unfolded none(1)]] by blast
  obtain l where l: "md = Some l" "models = Yaml l" using loaded [OF files(3) [unfolded none(2)]] by blast
  obtain r where r: "rd = Some r" "runtime = Yaml r" using loaded [OF files(4) [unfolded none(3)]] by blast
  obtain a where a: "ad = Some a" "images = Yaml a" using loaded [OF files(5) [unfolded none(4)]] by blast
  have refs: "find_env_references l [] = []" "find_env_references r [] = []" "find_env_references a [] = []"
    using none(6-8) l(1) r(1) a(1) by (simp_all add: substitution_problems_def)
  obtain key where key: "raw_api_key doc = Inr key" "api_key_problems key = []"
    using resolved doc(1) none(5) by (auto simp: resolve_provider_def bindE_Inr_iff Let_def case_prod_beta)
  then obtain s where "key = Some (Y_Text s)" "env_reference s \<noteq> None"
    by (auto simp: api_key_problems_def split: option.splits yaml.splits if_splits)
  with key doc l r a refs none(9) show ?thesis by blast
qed

text \<open>A provider file whose \<open>providers\<close> is no object ends the load with an \<open>AttributeError\<close>, in the place of
  the report of all problems.\<close>

lemma scalar_providers_not_reported:
  "load_config sc environ dotenv (Yaml (Y_Map [(''providers'', Y_Scalar ''null'')])) models runtime images =
     Inl (Attribute_Error ''get'')"
  by (simp add: load_config_def load_yaml_def resolve_provider_def raw_api_key_def yaml_get_def or_empty_def
      split: prod.splits)

end
