(* ===== verification/Task_Config.thy ===== *)
theory Task_Config imports Config_Tree Config_Kernel File_Store begin

text \<open>
  The configuration baseline of a task: \<^verbatim>\<open>backend/harness/storage/task_config_revisions.py\<close>
  (immutable revisions, and the state file that points to the current one) and
  \<^verbatim>\<open>backend/harness/services/task_config.py\<close> (pinning, rebasing and locking it). The state is the
  files of one task. A locked section is one step. The argument \<open>hook\<close> of \<open>commit_config\<close> is the
  fault-injection hook of the code; the services pass it on here, so that a run can be stopped at
  its checkpoints. Clock readings are arguments. JSON contracts, digests and the canonical text of
  a revision are fields of \<open>config_library\<close>.
\<close>

section \<open>Documents and files\<close>

record config_revision =
  cfr_task_id :: string
  cfr_revision_id :: string
  cfr_parent :: "string option"
  cfr_source :: string
  cfr_provider_ids :: "string list"
  cfr_model_list :: config_tree
  cfr_runtime :: config_tree
  cfr_config_hash :: string
  cfr_created_by :: "string \<times> string"
  cfr_created_at :: string

record config_state =
  cfs_task_id :: string
  cfs_current :: string
  cfs_source :: string
  cfs_locked_at :: "string option"
  cfs_locked_reason :: "string option"
  cfs_revision :: int
  cfs_created_at :: string
  cfs_updated_at :: string

text \<open>A provider of the legacy snapshot is an object with one text \<open>base_url\<close>, or something else.\<close>

record legacy_snapshot =
  lgs_schema_version :: string
  lgs_task_id :: string
  lgs_source :: string
  lgs_config_hash :: string
  lgs_providers :: "(string \<times> string option) list"
  lgs_model_list :: config_tree
  lgs_runtime :: config_tree
  lgs_created_at :: string

text \<open>A file may be unsafe to read, hold something that is no object, with the message of the reader,
  or hold a document. A document stands for the text in the file, which \<open>config_library\<close> gives.\<close>

datatype 'a stored = Unsafe_File | Odd_File string | Document 'a

text \<open>The legacy file may hold an object with other members than a snapshot.\<close>

record config_files =
  cff_state :: "config_state stored option"
  cff_revisions :: "(string \<times> config_revision stored) list"
  cff_legacy :: "legacy_snapshot option stored option"
  cff_root_names :: "string list"
  cff_revision_names :: "string list"

type_synonym 'a cop = "(config_files, exn, 'a) op"

record config_library =
  cfl_revision_contract :: "config_revision \<Rightarrow> unit res"
  cfl_state_contract :: "config_state \<Rightarrow> unit res"
  cfl_digest :: "string list \<times> config_tree \<times> config_tree \<Rightarrow> string"
  cfl_legacy_digest :: "(string \<times> string option) list \<times> config_tree \<times> config_tree \<Rightarrow> string"
  cfl_bytes :: "config_revision \<Rightarrow> string"
  cfl_state_bytes :: "config_state \<Rightarrow> string"
  cfl_legacy_bytes :: "legacy_snapshot option \<Rightarrow> string"
  cfl_directories :: "unit res"

definition integrity :: "string \<Rightarrow> exn" where
  "integrity message = HarnessError CONFIG_INTEGRITY_FAILED message []"

definition settings_conflict :: "string \<Rightarrow> (string \<times> detail) list \<Rightarrow> exn" where
  "settings_conflict message details = HarnessError SETTINGS_REVISION_CONFLICT message details"

definition max_config_file_bytes :: nat where
  "max_config_file_bytes = 4 * 1024 * 1024"

definition missing_or_unsafe :: "string \<Rightarrow> exn" where
  "missing_or_unsafe filename = HarnessError CONFIG_INTEGRITY_FAILED
     ''A configuration revision file is missing or unsafe.'' [(''file'', DStr filename)]"

text \<open>What \<open>read_regular_bytes\<close> returns for a file with this text.\<close>

definition limited :: "string \<Rightarrow> string \<Rightarrow> string res" where
  "limited filename bytes =
     (if length bytes \<le> max_config_file_bytes then Inr bytes else Inl (missing_or_unsafe filename))"

lemma limited_code [code]:
  "limited filename bytes = (if int (length bytes) \<le> 4194304 then Inr bytes else Inl (missing_or_unsafe filename))"
  by (simp add: limited_def max_config_file_bytes_def)

text \<open>\<open>read_json_object\<close>, where \<open>text_of\<close> is the text of a document. A missing file cannot be opened,
  and a file above the limit is refused before it is parsed; an \<open>Odd_File\<close> is within the limit.\<close>

definition read_json_object :: "('a \<Rightarrow> string) \<Rightarrow> string \<Rightarrow> 'a stored option \<Rightarrow> 'a res" where
  "read_json_object text_of filename content =
     (case content of
        Some (Document d) \<Rightarrow> bindE (limited filename (text_of d)) (\<lambda>_. Inr d)
      | Some (Odd_File message) \<Rightarrow>
          Inl (HarnessError CONFIG_INTEGRITY_FAILED message [(''file'', DStr filename)])
      | _ \<Rightarrow> Inl (missing_or_unsafe filename))"

text \<open>The documents as values, in the order in which the program builds them.\<close>

definition optional_text :: "string option \<Rightarrow> config_tree" where
  "optional_text s = (case s of None \<Rightarrow> C_Null | Some t \<Rightarrow> C_Text t)"

definition revision_tree :: "config_revision \<Rightarrow> config_tree" where
  "revision_tree r = C_Dict (Own ''revision'')
     [(Key ''schema_version'', C_Text ''2.0''), (Key ''task_id'', C_Text (cfr_task_id r)),
      (Key ''revision_id'', C_Text (cfr_revision_id r)),
      (Key ''parent_revision_id'', optional_text (cfr_parent r)),
      (Key ''source_system_revision'', C_Text (cfr_source r)),
      (Key ''provider_ids'', C_List (Own ''provider_ids'') (map C_Text (cfr_provider_ids r))),
      (Key ''model_list'', cfr_model_list r), (Key ''runtime'', cfr_runtime r),
      (Key ''config_hash'', C_Text (cfr_config_hash r)),
      (Key ''created_by'', C_Dict (Own ''created_by'')
         [(Key ''type'', C_Text (fst (cfr_created_by r))), (Key ''id'', C_Text (snd (cfr_created_by r)))]),
      (Key ''created_at'', C_Text (cfr_created_at r))]"

definition state_tree :: "config_state \<Rightarrow> config_tree" where
  "state_tree s = C_Dict (Own ''state'')
     [(Key ''schema_version'', C_Text ''2.0''), (Key ''task_id'', C_Text (cfs_task_id s)),
      (Key ''current_revision_id'', C_Text (cfs_current s)),
      (Key ''source_system_revision'', C_Text (cfs_source s)),
      (Key ''locked_at'', optional_text (cfs_locked_at s)),
      (Key ''locked_reason'', optional_text (cfs_locked_reason s)),
      (Key ''revision'', C_Int (cfs_revision s)), (Key ''created_at'', C_Text (cfs_created_at s)),
      (Key ''updated_at'', C_Text (cfs_updated_at s))]"

section \<open>Revision identifiers\<close>

text \<open>\<open>f"{n:06d}"\<close>: six places, the sign among them.\<close>

definition six_digits :: "int \<Rightarrow> string" where
  "six_digits n =
     (let digits = show_nat (nat \<bar>n\<bar>); width = (if n < 0 then 5 else 6) in
      (if n < 0 then ''-'' else []) @ replicate (width - length digits) CHR ''0'' @ digits)"

definition revision_id_of :: "int \<Rightarrow> string" where
  "revision_id_of n = ''task-config-r'' @ six_digits n"

text \<open>\<open>int(text)\<close> on the characters of an identifier: digits, with a sign, and underscores between digits.\<close>

fun underscores_inside :: "string \<Rightarrow> bool" where
  "underscores_inside [] = False"
| "underscores_inside [c] = is_digit c"
| "underscores_inside (c # d # s) =
     ((is_digit c \<or> c = CHR ''_'' \<and> is_digit d) \<and> underscores_inside (d # s))"

definition int_of_text :: "string \<Rightarrow> int res" where
  "int_of_text s =
     (let sign = (s \<noteq> [] \<and> hd s = CHR ''-''); digits = (if sign then tl s else s) in
      if digits \<noteq> [] \<and> is_digit (hd digits) \<and> underscores_inside digits
      then Inr ((if sign then - 1 else 1) * int (digits_value (filter is_digit digits)))
      else Inl (ValueError ''invalid literal for int()''))"

text \<open>\<open>int(revision_id.rsplit("r", 1)[1])\<close>\<close>

definition revision_sequence :: "string \<Rightarrow> int res" where
  "revision_sequence revision_id =
     (if CHR ''r'' \<notin> set revision_id then Inl (IndexError ''list index out of range'')
      else int_of_text (rev (takeWhile (\<lambda>c. c \<noteq> CHR ''r'') (rev revision_id))))"

definition first_revision_id :: string where
  "first_revision_id = ''task-config-r000001''"

section \<open>Building and checking revisions\<close>

definition build_revision ::
  "config_library \<Rightarrow> string \<Rightarrow> string \<Rightarrow> string option \<Rightarrow> string \<Rightarrow> string list \<Rightarrow> config_tree \<Rightarrow>
   config_tree \<Rightarrow> string \<times> string \<Rightarrow> string \<Rightarrow> config_revision" where
  "build_revision lib task_id revision_id parent source provider_ids model_list runtime created_by
     created_at =
     \<lparr>cfr_task_id = task_id, cfr_revision_id = revision_id, cfr_parent = parent, cfr_source = source,
      cfr_provider_ids = sort provider_ids, cfr_model_list = model_list, cfr_runtime = runtime,
      cfr_config_hash = cfl_digest lib (sort provider_ids, model_list, runtime),
      cfr_created_by = created_by, cfr_created_at = created_at\<rparr>"

definition validate_revision_hash :: "config_library \<Rightarrow> config_revision \<Rightarrow> unit res" where
  "validate_revision_hash lib r =
     bindE (validate_public_config_tree (revision_tree r)) (\<lambda>_.
     guardE (cfl_digest lib (cfr_provider_ids r, cfr_model_list r, cfr_runtime r) = cfr_config_hash r)
       (HarnessError CONFIG_INTEGRITY_FAILED
         ''The task configuration revision failed its content hash check.''
         [(''revision_id'', DStr (cfr_revision_id r))]))"

text \<open>\<open>_validate_persisted\<close>: a contract error is reported as lost integrity.\<close>

definition validate_persisted :: "string \<Rightarrow> unit res \<Rightarrow> unit res" where
  "validate_persisted schema contract =
     (case contract of
        Inl e \<Rightarrow> if error_code_of e \<noteq> None then
            Inl (HarnessError CONFIG_INTEGRITY_FAILED
              ''A persisted task configuration document failed contract validation.''
              [(''schema'', DStr schema)])
          else Inl e
      | Inr _ \<Rightarrow> Inr ())"

definition config_invalid :: "string \<Rightarrow> exn" where
  "config_invalid message = HarnessError VALIDATION_ERROR message []"

definition validate_pair ::
  "config_library \<Rightarrow> string \<Rightarrow> config_revision \<Rightarrow> config_state \<Rightarrow> unit res" where
  "validate_pair lib task_id r s =
     bindE (validate_public_config_tree (state_tree s)) (\<lambda>_.
     bindE (guardE (cfr_task_id r = task_id \<and> cfs_task_id s = task_id)
       (config_invalid ''Configuration records belong to another task.'')) (\<lambda>_.
     bindE (guardE (cfs_current s = cfr_revision_id r)
       (config_invalid ''The task configuration state points to another revision.'')) (\<lambda>_.
     bindE (guardE (cfs_source s = cfr_source r)
       (config_invalid ''The task configuration source revision is inconsistent.'')) (\<lambda>_.
     bindE (guardE (cfr_parent r \<noteq> Some (cfr_revision_id r))
       (config_invalid ''A task configuration revision cannot be its own parent.'')) (\<lambda>_.
     validate_revision_hash lib r)))))"

section \<open>Reading\<close>

record config_pair =
  cfp_state :: config_state
  cfp_revision :: config_revision
  cfp_legacy :: bool

definition load_legacy_task_snapshot ::
  "config_library \<Rightarrow> legacy_snapshot option stored option \<Rightarrow> legacy_snapshot res" where
  "load_legacy_task_snapshot lib content =
     bindE (read_json_object (cfl_legacy_bytes lib) ''config-snapshot.json'' content) (\<lambda>document.
     let odd = integrity ''The legacy task configuration snapshot is invalid.'' in
     case document of
       None \<Rightarrow> Inl odd
     | Some l \<Rightarrow>
         bindE (guardE (lgs_schema_version l = ''1.0'' \<and> list_all (\<lambda>(name, url). url \<noteq> None) (lgs_providers l))
           odd) (\<lambda>_.
         bindE (guardE (cfl_legacy_digest lib (lgs_providers l, lgs_model_list l, lgs_runtime l) = lgs_config_hash l)
           (integrity ''The legacy task configuration snapshot failed its content hash check.'')) (\<lambda>_.
         Inr l)))"

definition legacy_revision :: "config_library \<Rightarrow> string \<Rightarrow> legacy_snapshot \<Rightarrow> config_revision" where
  "legacy_revision lib task_id l =
     build_revision lib task_id first_revision_id None (lgs_source l) (sort (map fst (lgs_providers l)))
       (lgs_model_list l) (lgs_runtime l) (''system'', ''legacy_migration'') (lgs_created_at l)"

definition legacy_state :: "string \<Rightarrow> legacy_snapshot \<Rightarrow> config_revision \<Rightarrow> config_state" where
  "legacy_state task_id l r =
     \<lparr>cfs_task_id = task_id, cfs_current = cfr_revision_id r, cfs_source = cfr_source r,
      cfs_locked_at = None, cfs_locked_reason = None, cfs_revision = 1,
      cfs_created_at = lgs_created_at l, cfs_updated_at = lgs_created_at l\<rparr>"

definition legacy_pair :: "config_library \<Rightarrow> config_files \<Rightarrow> string \<Rightarrow> config_pair option res" where
  "legacy_pair lib f task_id =
     (if cff_legacy f = None then Inr None
      else bindE (load_legacy_task_snapshot lib (cff_legacy f)) (\<lambda>l.
        bindE (guardE (lgs_task_id l = task_id)
          (integrity ''The legacy task configuration belongs to another task.'')) (\<lambda>_.
        let r = legacy_revision lib task_id l; s = legacy_state task_id l r in
        bindE (validate_persisted ''task-config-revision'' (cfl_revision_contract lib r)) (\<lambda>_.
        bindE (validate_persisted ''task-config-state'' (cfl_state_contract lib s)) (\<lambda>_.
        Inr (Some \<lparr>cfp_state = s, cfp_revision = r, cfp_legacy = True\<rparr>))))))"

definition read_stored_revision ::
  "config_library \<Rightarrow> config_files \<Rightarrow> string \<Rightarrow> string \<Rightarrow> config_revision res" where
  "read_stored_revision lib f task_id revision_id =
     bindE (read_json_object (cfl_bytes lib) (revision_id @ ''.json'') (map_of (cff_revisions f) revision_id)) (\<lambda>d.
     bindE (validate_persisted ''task-config-revision'' (cfl_revision_contract lib d)) (\<lambda>_.
     bindE (guardE (cfr_task_id d = task_id \<and> cfr_revision_id d = revision_id)
       (integrity ''The task configuration revision identity is inconsistent.'')) (\<lambda>_.
     bindE (guardE (cfr_parent d \<noteq> Some revision_id)
       (integrity ''A task configuration revision cannot be its own parent.'')) (\<lambda>_.
     bindE (validate_revision_hash lib d) (\<lambda>_. Inr d)))))"

definition read_revision ::
  "config_library \<Rightarrow> config_files \<Rightarrow> string \<Rightarrow> string \<Rightarrow> config_revision res" where
  "read_revision lib f task_id revision_id =
     bindE (validate_identifier task_id ''task_id'') (\<lambda>_.
     bindE (validate_identifier revision_id ''revision_id'') (\<lambda>_.
     bindE (if map_of (cff_revisions f) revision_id = None \<and> revision_id = first_revision_id
            then legacy_pair lib f task_id else Inr None) (\<lambda>legacy.
     case legacy of
       Some p \<Rightarrow> Inr (cfp_revision p)
     | None \<Rightarrow> read_stored_revision lib f task_id revision_id)))"

definition read_current :: "config_library \<Rightarrow> string \<Rightarrow> config_files \<Rightarrow> config_pair option res" where
  "read_current lib task_id f =
     bindE (validate_identifier task_id ''task_id'') (\<lambda>_.
     if cff_state f = None then legacy_pair lib f task_id
     else
       bindE (read_json_object (cfl_state_bytes lib) ''state.json'' (cff_state f)) (\<lambda>s.
       bindE (validate_persisted ''task-config-state'' (cfl_state_contract lib s)) (\<lambda>_.
       bindE (validate_public_config_tree (state_tree s)) (\<lambda>_.
       bindE (guardE (cfs_task_id s = task_id)
         (integrity ''The task configuration state belongs to another task.'')) (\<lambda>_.
       bindE (read_revision lib f task_id (cfs_current s)) (\<lambda>r.
       bindE (guardE (cfs_source s = cfr_source r)
         (integrity ''The task configuration state source revision is inconsistent.'')) (\<lambda>_.
       Inr (Some \<lparr>cfp_state = s, cfp_revision = r, cfp_legacy = False\<rparr>))))))))"

section \<open>Writing\<close>

definition ensure_directories :: "config_library \<Rightarrow> unit cop" where
  "ensure_directories lib = liftE (cfl_directories lib)"

definition write_immutable_revision :: "config_library \<Rightarrow> config_revision \<Rightarrow> unit cop" where
  "write_immutable_revision lib r =
     bindS (ensure_directories lib) (\<lambda>_.
     bindS (liftE (validate_identifier (cfr_revision_id r) ''revision_id'')) (\<lambda>_.
     bindS (readS (\<lambda>f. Inr (map_of (cff_revisions f) (cfr_revision_id r)))) (\<lambda>existing.
     let reused = settings_conflict ''An immutable task configuration revision ID was reused.''
           [(''revision_id'', DStr (cfr_revision_id r))] in
     case existing of
       None \<Rightarrow> modifyS (\<lambda>f. f\<lparr>cff_revisions := (cfr_revision_id r, Document r) # cff_revisions f\<rparr>)
     | Some (Document d) \<Rightarrow>
         bindS (liftE (limited (cfr_revision_id r @ ''.json'') (cfl_bytes lib d))) (\<lambda>bytes.
         liftE (guardE (bytes = cfl_bytes lib r) reused))
     | Some (Odd_File _) \<Rightarrow> throwS reused
     | Some Unsafe_File \<Rightarrow> throwS (missing_or_unsafe (cfr_revision_id r @ ''.json'')))))"

definition write_config_state :: "config_state \<Rightarrow> unit cop" where
  "write_config_state s = modifyS (\<lambda>f. f\<lparr>cff_state := Some (Document s)\<rparr>)"

definition check_successor ::
  "config_pair option \<Rightarrow> config_revision \<Rightarrow> config_state \<Rightarrow> int \<Rightarrow> unit res" where
  "check_successor current r s expected =
     (let current_number = (case current of None \<Rightarrow> 0 | Some p \<Rightarrow> cfs_revision (cfp_state p));
          expected_parent = map_option (\<lambda>p. cfr_revision_id (cfp_revision p)) current in
      bindE (guardE (current_number = expected)
        (settings_conflict ''The task configuration state changed after it was read.''
          [(''expected_revision'', DInt expected), (''actual_revision'', DInt current_number)])) (\<lambda>_.
      bindE (guardE (cfs_revision s = expected + 1)
        (settings_conflict ''The next task configuration state revision is not consecutive.''
          [(''expected_revision'', DInt (expected + 1))])) (\<lambda>_.
      bindE (guardE (cfr_parent r = expected_parent)
        (settings_conflict ''The task configuration revision parent is stale.''
          [(''expected_parent_revision_id'',
            case expected_parent of None \<Rightarrow> DNull | Some p \<Rightarrow> DStr p)])) (\<lambda>_.
      bindE (case expected_parent of None \<Rightarrow> Inr 1
             | Some p \<Rightarrow> bindE (revision_sequence p) (\<lambda>n. Inr (n + 1))) (\<lambda>next_sequence.
      guardE (cfr_revision_id r = revision_id_of next_sequence)
        (settings_conflict ''The next task configuration revision ID is not consecutive.''
          [(''expected_revision_id'', DStr (revision_id_of next_sequence))]))))))"

definition commit_config ::
  "config_library \<Rightarrow> (string \<Rightarrow> unit res) \<Rightarrow> string \<Rightarrow> config_revision \<Rightarrow> config_state \<Rightarrow> int \<Rightarrow>
   config_pair cop" where
  "commit_config lib hook task_id r s expected =
     bindS (liftE (validate_identifier task_id ''task_id'')) (\<lambda>_.
     bindS (liftE (cfl_revision_contract lib r)) (\<lambda>_.
     bindS (liftE (cfl_state_contract lib s)) (\<lambda>_.
     bindS (liftE (validate_pair lib task_id r s)) (\<lambda>_.
     bindS (readS (read_current lib task_id)) (\<lambda>current.
     bindS (liftE (check_successor current r s expected)) (\<lambda>_.
     bindS (write_immutable_revision lib r) (\<lambda>_.
     bindS (liftE (hook ''after_task_revision_published'')) (\<lambda>_.
     bindS (write_config_state s) (\<lambda>_.
     bindS (liftE (hook ''after_task_state_published'')) (\<lambda>_.
     returnS \<lparr>cfp_state = s, cfp_revision = r, cfp_legacy = False\<rparr>))))))))))"

definition lock_current ::
  "config_library \<Rightarrow> string \<Rightarrow> string \<Rightarrow> string \<Rightarrow> config_state cop" where
  "lock_current lib task_id locked_at locked_reason =
     bindS (liftE (validate_identifier task_id ''task_id'')) (\<lambda>_.
     bindS (readS (read_current lib task_id)) (\<lambda>current.
     case current of
       None \<Rightarrow> throwS (integrity ''The task configuration cannot be locked before it is pinned.'')
     | Some p \<Rightarrow>
         let s = cfp_state p in
         if cfs_locked_at s \<noteq> None then returnS s
         else
           let updated = s\<lparr>cfs_locked_at := Some locked_at, cfs_locked_reason := Some locked_reason,
                 cfs_revision := cfs_revision s + 1, cfs_updated_at := locked_at\<rparr> in
           bindS (liftE (cfl_state_contract lib updated)) (\<lambda>_.
           bindS (liftE (validate_public_config_tree (state_tree updated))) (\<lambda>_.
           bindS (ensure_directories lib) (\<lambda>_.
           bindS (write_config_state updated) (\<lambda>_.
           returnS updated))))))"

section \<open>Recovery\<close>

text \<open>The revisions that can be read at all.\<close>

definition known_ids :: "config_files \<Rightarrow> string set" where
  "known_ids f = insert first_revision_id (set (map fst (cff_revisions f)))"

lemma limited_Inr [monad]: "limited n b = Inr c \<longleftrightarrow> c = b \<and> length b \<le> max_config_file_bytes"
  by (auto simp: limited_def)

lemma limited_Inl [monad]:
  "limited n b = Inl e \<longleftrightarrow> e = missing_or_unsafe n \<and> max_config_file_bytes < length b"
  by (auto simp: limited_def)

lemma read_json_object_Inr [monad]:
  "read_json_object text_of n c = Inr d \<longleftrightarrow> c = Some (Document d) \<and> length (text_of d) \<le> max_config_file_bytes"
  by (auto simp: read_json_object_def monad split: option.splits stored.splits)

lemma validate_persisted_Inr [monad]: "validate_persisted n c = Inr u \<longleftrightarrow> c = Inr ()"
  by (auto simp: validate_persisted_def split: sum.splits if_splits)

lemma validate_persisted_ok [simp]: "validate_persisted n (Inr u) = Inr ()"
  by (simp add: validate_persisted_def)

text \<open>A revision that every check of a reader accepts.\<close>

definition good_revision :: "config_library \<Rightarrow> string \<Rightarrow> config_revision \<Rightarrow> bool" where
  "good_revision lib task_id r \<longleftrightarrow>
     cfl_revision_contract lib r = Inr () \<and> cfr_task_id r = task_id \<and>
     cfr_parent r \<noteq> Some (cfr_revision_id r) \<and> validate_revision_hash lib r = Inr ()"

lemma read_stored_revision_iff:
  "read_stored_revision lib f t i = Inr d \<longleftrightarrow>
     map_of (cff_revisions f) i = Some (Document d) \<and> length (cfl_bytes lib d) \<le> max_config_file_bytes \<and>
     good_revision lib t d \<and> cfr_revision_id d = i"
  by (auto simp: read_stored_revision_def good_revision_def monad)

lemma legacy_pair_Some:
  assumes "legacy_pair lib f t = Inr (Some p)"
  shows "cfr_revision_id (cfp_revision p) = first_revision_id" and "cfr_parent (cfp_revision p) = None"
    and "cfp_legacy p" and "cfr_task_id (cfp_revision p) = t"
    and "cfs_current (cfp_state p) = first_revision_id" and "cfs_task_id (cfp_state p) = t"
    and "cfs_source (cfp_state p) = cfr_source (cfp_revision p)" and "cfs_revision (cfp_state p) = 1"
    and "cfs_locked_at (cfp_state p) = None"
  using assms
  by (auto simp: legacy_pair_def legacy_revision_def legacy_state_def build_revision_def monad Let_def
      split: if_splits)

lemma read_revision_iff:
  "read_revision lib f t i = Inr r \<longleftrightarrow> is_identifier t \<and> is_identifier i \<and>
     (if map_of (cff_revisions f) i = None
      then i = first_revision_id \<and> (\<exists>p. legacy_pair lib f t = Inr (Some p) \<and> r = cfp_revision p)
      else read_stored_revision lib f t i = Inr r)"
  by (auto simp: read_revision_def monad read_stored_revision_iff split: if_splits option.splits)

lemma read_revision_known:
  assumes "read_revision lib f t i = Inr r"
  shows "i \<in> known_ids f" and "cfr_revision_id r = i"
proof -
  show "i \<in> known_ids f"
    using assms by (auto simp: read_revision_iff read_stored_revision_iff known_ids_def map_of_eq_None_iff
        split: if_splits)
  show "cfr_revision_id r = i"
    using assms by (auto simp: read_revision_iff read_stored_revision_iff dest: legacy_pair_Some(1)
        split: if_splits)
qed

text \<open>The loop of \<open>recover\<close> from a revision up to its oldest ancestor. It ends because it refuses to meet
  a revision twice.\<close>

function ancestry ::
  "config_library \<Rightarrow> config_files \<Rightarrow> string \<Rightarrow> config_revision \<Rightarrow> string list \<Rightarrow> string list res" where
  "ancestry lib f task_id r referenced =
     (if cfr_revision_id r \<in> set referenced
      then Inl (integrity ''The task configuration revision ancestry contains a cycle.'')
      else case cfr_parent r of
        None \<Rightarrow> Inr (cfr_revision_id r # referenced)
      | Some p \<Rightarrow> bindE (read_revision lib f task_id p)
          (\<lambda>q. ancestry lib f task_id q (cfr_revision_id r # referenced)))"
  by pat_completeness auto

termination
proof (relation "measure (\<lambda>(lib, f, t, r, referenced).
    card (known_ids f - set referenced) + (if cfr_revision_id r \<in> known_ids f then 0 else 1))", simp)
  fix lib :: config_library and f t referenced p and r q :: config_revision
  assume new: "cfr_revision_id r \<notin> set referenced" and q: "read_revision lib f t p = Inr q"
  have q': "cfr_revision_id q \<in> known_ids f" using read_revision_known [OF q] by simp
  have fin: "finite (known_ids f)" by (simp add: known_ids_def)
  show "((lib, f, t, q, cfr_revision_id r # referenced), lib, f, t, r, referenced) \<in> measure
      (\<lambda>(lib, f, t, r, referenced).
        card (known_ids f - set referenced) + (if cfr_revision_id r \<in> known_ids f then 0 else 1))"
  proof (cases "cfr_revision_id r \<in> known_ids f")
    case True
    have "known_ids f - set (cfr_revision_id r # referenced) \<subset> known_ids f - set referenced"
      using True new by auto
    then have "card (known_ids f - set (cfr_revision_id r # referenced)) < card (known_ids f - set referenced)"
      using fin by (intro psubset_card_mono) auto
    then show ?thesis using q' True by simp
  next
    case False
    then have "known_ids f - set (cfr_revision_id r # referenced) = known_ids f - set referenced" by auto
    then show ?thesis using q' False by simp
  qed
qed

declare ancestry.simps [simp del]

definition temporary_name :: "string \<Rightarrow> bool" where
  "temporary_name name =
     (name \<noteq> [] \<and> hd name = CHR ''.'' \<and> 4 \<le> length name \<and> drop (length name - 4) name = ''.tmp'')"

record config_recovery =
  cfx_removed :: "string list"
  cfx_current :: "string option"
  cfx_unreferenced :: "string list"

text \<open>\<open>glob("task-config-r*.json")\<close>\<close>

definition revision_file :: "string \<Rightarrow> bool" where
  "revision_file name = (take 13 name = ''task-config-r'')"

definition recover_config :: "config_library \<Rightarrow> string \<Rightarrow> config_recovery cop" where
  "recover_config lib task_id =
     bindS (liftE (validate_identifier task_id ''task_id'')) (\<lambda>_.
     bindS (ensure_directories lib) (\<lambda>_.
     bindS (readS (\<lambda>f. Inr (filter temporary_name (sort (cff_root_names f)) @
         filter temporary_name (sort (cff_revision_names f))))) (\<lambda>removed.
     bindS (modifyS (\<lambda>f. f\<lparr>cff_root_names := filter (\<lambda>n. \<not> temporary_name n) (cff_root_names f),
         cff_revision_names := filter (\<lambda>n. \<not> temporary_name n) (cff_revision_names f)\<rparr>)) (\<lambda>_.
     bindS (readS (read_current lib task_id)) (\<lambda>current.
     bindS (readS (\<lambda>f. case current of None \<Rightarrow> Inr []
         | Some p \<Rightarrow> ancestry lib f task_id (cfp_revision p) [])) (\<lambda>referenced.
     bindS (readS (\<lambda>f. Inr (filter revision_file (sort (map fst (cff_revisions f)))))) (\<lambda>present.
     returnS \<lparr>cfx_removed = removed,
       cfx_current = map_option (\<lambda>p. cfr_revision_id (cfp_revision p)) current,
       cfx_unreferenced = filter (\<lambda>i. i \<notin> set referenced) present\<rparr>)))))))"

end
