(* ===== verification/Task_Config_Service.thy ===== *)
theory Task_Config_Service imports Task_Config begin

text \<open>
  \<^verbatim>\<open>backend/harness/services/task_config.py\<close>: pinning the deployment defaults as the first
  revision of a task, rebasing the baseline, locking it at the start, and the documents derived
  from it. The deployment defaults are known by the dumps of their documents. \<open>env\<close> and \<open>st\<close> give
  the task snapshots that the service reads.
\<close>

record process_config =
  pcf_revision :: string
  pcf_providers :: "string list"
  pcf_model_list :: config_tree
  pcf_runtime :: config_tree

definition require_process_snapshot :: "process_config option \<Rightarrow> process_config res" where
  "require_process_snapshot process =
     (case process of
        None \<Rightarrow> Inl (config_invalid
          ''A validated deployment configuration is required for Master execution.'')
      | Some p \<Rightarrow> Inr p)"

section \<open>Public documents\<close>

record public_config =
  pub_task_id :: string
  pub_config_revision_id :: string
  pub_source :: string
  pub_config_hash :: string
  pub_provider_ids :: "string list"
  pub_model_list :: config_tree
  pub_runtime :: config_tree
  pub_created_at :: string
  pub_locked_at :: "string option"
  pub_locked_reason :: "string option"
  pub_revision :: int

datatype config_document = Legacy_Config legacy_snapshot | Public_Config public_config

definition public_of :: "string \<Rightarrow> config_pair \<Rightarrow> public_config" where
  "public_of task_id p =
     (let r = cfp_revision p; s = cfp_state p in
      \<lparr>pub_task_id = task_id, pub_config_revision_id = cfr_revision_id r, pub_source = cfr_source r,
       pub_config_hash = cfr_config_hash r, pub_provider_ids = cfr_provider_ids r,
       pub_model_list = cfr_model_list r, pub_runtime = cfr_runtime r,
       pub_created_at = cfr_created_at r, pub_locked_at = cfs_locked_at s,
       pub_locked_reason = cfs_locked_reason s, pub_revision = cfs_revision s\<rparr>)"

definition public_document ::
  "config_library \<Rightarrow> string \<Rightarrow> config_pair \<Rightarrow> config_files \<Rightarrow> config_document res" where
  "public_document lib task_id p f =
     (if cfp_legacy p \<and> cff_legacy f \<noteq> None then
        bindE (load_legacy_task_snapshot lib (cff_legacy f)) (\<lambda>l. Inr (Legacy_Config l))
      else Inr (Public_Config (public_of task_id p)))"

section \<open>Pinning\<close>

definition pinned_revision ::
  "config_library \<Rightarrow> string \<Rightarrow> process_config \<Rightarrow> string \<Rightarrow> config_revision" where
  "pinned_revision lib task_id process now =
     build_revision lib task_id first_revision_id None (pcf_revision process)
       (sort (pcf_providers process)) (pcf_model_list process) (pcf_runtime process)
       (''system'', ''task_config_service'') now"

definition pinned_state :: "string \<Rightarrow> config_revision \<Rightarrow> string \<Rightarrow> config_state" where
  "pinned_state task_id r now =
     \<lparr>cfs_task_id = task_id, cfs_current = cfr_revision_id r, cfs_source = cfr_source r,
      cfs_locked_at = None, cfs_locked_reason = None, cfs_revision = 1, cfs_created_at = now,
      cfs_updated_at = now\<rparr>"

text \<open>Another process may have pinned the task first: then its baseline counts.\<close>

definition commit_or_adopt ::
  "config_library \<Rightarrow> string \<Rightarrow> config_pair cop \<Rightarrow> config_pair cop" where
  "commit_or_adopt lib task_id commit f =
     (case commit f of
        (Inr p, g) \<Rightarrow> (Inr p, g)
      | (Inl e, g) \<Rightarrow>
          if error_code_of e \<in> {Some REVISION_CONFLICT, Some SETTINGS_REVISION_CONFLICT} then
            bindS (readS (read_current lib task_id)) (\<lambda>committed.
              case committed of None \<Rightarrow> throwS e | Some p \<Rightarrow> returnS p) g
          else (Inl e, g))"

definition pin_config ::
  "environment \<Rightarrow> store \<Rightarrow> config_library \<Rightarrow> process_config option \<Rightarrow> (string \<Rightarrow> unit res) \<Rightarrow> string \<Rightarrow>
   bool \<Rightarrow> string \<Rightarrow> config_document cop" where
  "pin_config env st lib process hook now require_task task_id =
     bindS (liftE (validate_identifier task_id ''task_id'')) (\<lambda>_.
     bindS (liftE (if require_task then
         bindE (repo_get (repository_of env O_task) st task_id task_id) (\<lambda>task.
         guardE (task \<noteq> None) (HarnessError TASK_NOT_FOUND ''The requested task does not exist.'' []))
       else Inr ())) (\<lambda>_.
     bindS (readS (read_current lib task_id)) (\<lambda>current.
     case current of
       Some p \<Rightarrow> readS (public_document lib task_id p)
     | None \<Rightarrow>
         bindS (liftE (require_process_snapshot process)) (\<lambda>snapshot.
         let r = pinned_revision lib task_id snapshot now in
         bindS (commit_or_adopt lib task_id
           (commit_config lib hook task_id r (pinned_state task_id r now) 0)) (\<lambda>p.
         readS (public_document lib task_id p))))))"

section \<open>Rebasing\<close>

definition assertion :: "'a option \<Rightarrow> 'a res" where
  "assertion x = (case x of None \<Rightarrow> Inl (RuntimeError ''AssertionError'') | Some y \<Rightarrow> Inr y)"

text \<open>\<open>get_current\<close>: the baseline, pinned when there is none.\<close>

definition current_or_pinned ::
  "environment \<Rightarrow> store \<Rightarrow> config_library \<Rightarrow> process_config option \<Rightarrow> (string \<Rightarrow> unit res) \<Rightarrow> string \<Rightarrow>
   string \<Rightarrow> config_pair cop" where
  "current_or_pinned env st lib process hook now task_id =
     bindS (readS (read_current lib task_id)) (\<lambda>current.
     case current of
       Some p \<Rightarrow> returnS p
     | None \<Rightarrow>
         bindS (pin_config env st lib process hook now True task_id) (\<lambda>_.
         bindS (readS (read_current lib task_id)) (\<lambda>current. liftE (assertion current))))"

definition rebased_revision ::
  "config_library \<Rightarrow> string \<Rightarrow> process_config \<Rightarrow> string \<times> string \<Rightarrow> string \<Rightarrow> config_pair \<Rightarrow> int \<Rightarrow>
   config_revision" where
  "rebased_revision lib task_id process created_by now p sequence =
     build_revision lib task_id (revision_id_of sequence) (Some (cfr_revision_id (cfp_revision p)))
       (pcf_revision process) (sort (pcf_providers process)) (pcf_model_list process)
       (pcf_runtime process) created_by now"

definition rebased_state :: "config_pair \<Rightarrow> config_revision \<Rightarrow> string \<Rightarrow> config_state" where
  "rebased_state p r now = (cfp_state p)
     \<lparr>cfs_current := cfr_revision_id r, cfs_source := cfr_source r,
      cfs_revision := cfs_revision (cfp_state p) + 1, cfs_updated_at := now\<rparr>"

definition rebase_config ::
  "environment \<Rightarrow> store \<Rightarrow> config_library \<Rightarrow> process_config option \<Rightarrow> (string \<Rightarrow> unit res) \<Rightarrow> string \<Rightarrow>
   string \<Rightarrow> string \<times> string \<Rightarrow> config_document cop" where
  "rebase_config env st lib process hook now task_id created_by =
     bindS (current_or_pinned env st lib process hook now task_id) (\<lambda>p.
     bindS (liftE (guardE (cfs_locked_at (cfp_state p) = None)
       (HarnessError INSTANCE_CONFIG_LOCKED
         ''The task configuration baseline was locked by an accepted start.''
         [(''task_id'', DStr task_id)]))) (\<lambda>_.
     bindS (liftE (require_process_snapshot process)) (\<lambda>snapshot.
     if cfr_source (cfp_revision p) = pcf_revision snapshot
     then readS (public_document lib task_id p)
     else
       bindS (liftE (revision_sequence (cfr_revision_id (cfp_revision p)))) (\<lambda>n.
       let r = rebased_revision lib task_id snapshot created_by now p (n + 1) in
       bindS (commit_config lib hook task_id r (rebased_state p r now) (cfs_revision (cfp_state p)))
         (\<lambda>q. readS (public_document lib task_id q))))))"

section \<open>Locking\<close>

definition lock_for_start ::
  "environment \<Rightarrow> store \<Rightarrow> config_library \<Rightarrow> process_config option \<Rightarrow> (string \<Rightarrow> unit res) \<Rightarrow> string \<Rightarrow>
   string \<Rightarrow> string \<Rightarrow> string \<Rightarrow> config_state cop" where
  "lock_for_start env st lib process hook now locked_at task_id reason =
     bindS (pin_config env st lib process hook now True task_id) (\<lambda>_.
     lock_current lib task_id locked_at reason)"

section \<open>Reading\<close>

definition get_public ::
  "environment \<Rightarrow> store \<Rightarrow> config_library \<Rightarrow> process_config option \<Rightarrow> (string \<Rightarrow> unit res) \<Rightarrow> string \<Rightarrow>
   string \<Rightarrow> config_document cop" where
  "get_public env st lib process hook now task_id =
     bindS (readS (read_current lib task_id)) (\<lambda>current.
     case current of
       None \<Rightarrow> pin_config env st lib process hook now True task_id
     | Some p \<Rightarrow> readS (public_document lib task_id p))"

text \<open>\<open>document[key]\<close> on a loaded value.\<close>

definition member :: "string \<Rightarrow> config_tree \<Rightarrow> config_tree res" where
  "member key v =
     (case v of
        C_Dict _ ms \<Rightarrow> (case map_of ms (Key key) of None \<Rightarrow> Inl (KeyError key) | Some x \<Rightarrow> Inr x)
      | _ \<Rightarrow> Inl (TypeError key))"

text \<open>\<open>bool(value)\<close>; the truth of a float or of a foreign object is not needed for a setting.\<close>

definition truth :: "config_tree \<Rightarrow> bool" where
  "truth v =
     (case v of C_Null \<Rightarrow> False | C_Bool b \<Rightarrow> b | C_Int n \<Rightarrow> n \<noteq> 0 | C_Text s \<Rightarrow> s \<noteq> []
      | C_List _ xs \<Rightarrow> xs \<noteq> [] | C_Dict _ ms \<Rightarrow> ms \<noteq> [] | _ \<Rightarrow> True)"

definition document_runtime :: "config_document \<Rightarrow> config_tree" where
  "document_runtime d = (case d of Legacy_Config l \<Rightarrow> lgs_runtime l | Public_Config p \<Rightarrow> pub_runtime p)"

definition source_citations_required ::
  "environment \<Rightarrow> store \<Rightarrow> config_library \<Rightarrow> process_config option \<Rightarrow> (string \<Rightarrow> unit res) \<Rightarrow> string \<Rightarrow>
   string \<Rightarrow> bool cop" where
  "source_citations_required env st lib process hook now task_id =
     bindS (get_public env st lib process hook now task_id) (\<lambda>d.
     liftE (bindE (member ''document_processing'' (document_runtime d)) (\<lambda>p.
       bindE (member ''require_source_citations'' p) (\<lambda>v. Inr (truth v)))))"

text \<open>The in-memory snapshot of a revision. The parsers of its two documents are the typed models of
  the configuration kernel.\<close>

record config_models =
  cfm_model_list :: "config_tree \<Rightarrow> model_list res"
  cfm_runtime :: "config_tree \<Rightarrow> runtime_config res"

definition resolve_revision_snapshot ::
  "config_models \<Rightarrow> process_config option \<Rightarrow> config_revision \<Rightarrow> config_snapshot res" where
  "resolve_revision_snapshot models process r =
     bindE (require_process_snapshot process) (\<lambda>snapshot.
     bindE (forE (\<lambda>name. guardE (name \<in> set (pcf_providers snapshot))
         (HarnessError MODEL_PROVIDER_NOT_AUTHORIZED
           ''The task configuration references an unavailable Provider.''
           [(''provider'', DStr name)])) (cfr_provider_ids r)) (\<lambda>_.
     bindE (cfm_model_list models (cfr_model_list r)) (\<lambda>model_list.
     bindE (cfm_runtime models (cfr_runtime r)) (\<lambda>runtime.
     Inr \<lparr>sn_revision = cfr_source r, sn_providers = cfr_provider_ids r, sn_model_list = model_list,
       sn_runtime = runtime\<rparr>))))"

definition resolve_config ::
  "environment \<Rightarrow> store \<Rightarrow> config_library \<Rightarrow> config_models \<Rightarrow> process_config option \<Rightarrow>
   (string \<Rightarrow> unit res) \<Rightarrow> string \<Rightarrow> string \<Rightarrow> config_snapshot cop" where
  "resolve_config env st lib models process hook now task_id =
     bindS (current_or_pinned env st lib process hook now task_id) (\<lambda>p.
     liftE (resolve_revision_snapshot models process (cfp_revision p)))"

definition resolve_config_revision ::
  "config_library \<Rightarrow> config_models \<Rightarrow> process_config option \<Rightarrow> string \<Rightarrow> string \<Rightarrow> config_snapshot cop" where
  "resolve_config_revision lib models process task_id revision_id =
     bindS (readS (\<lambda>f. read_revision lib f task_id revision_id)) (\<lambda>r.
     liftE (resolve_revision_snapshot models process r))"

end
