(* ===== verification/Task_Config_Properties.thy ===== *)
theory Task_Config_Properties imports Task_Config_Service begin

text \<open>
  What the configuration baseline of a task promises over any run of its service, with crashes at any
  checkpoint of a commit: published revisions never change, the ancestry of the current one is
  complete and consecutively numbered, a locked baseline stays, and a commit is atomic, as long as
  the files that are written keep the limit that the readers check. The other side of immutability: a first
  pin that was cut off can never be completed.
\<close>

section \<open>Revision identifiers\<close>

lemma underscores_inside_digits: "list_all is_digit s \<Longrightarrow> s \<noteq> [] \<Longrightarrow> underscores_inside s"
  by (induction s rule: underscores_inside.induct) auto

lemma six_digits_digits: "0 \<le> n \<Longrightarrow> list_all is_digit (six_digits n) \<and> six_digits n \<noteq> []"
  using show_nat_digits [of "nat \<bar>n\<bar>"] by (auto simp: six_digits_def Let_def list_all_iff is_digit_def)

lemma int_of_six_digits: "0 \<le> n \<Longrightarrow> int_of_text (six_digits n) = Inr n"
proof -
  assume n: "0 \<le> n"
  note d = six_digits_digits [OF n]
  have hd: "is_digit (hd (six_digits n))" using d by (simp add: list_all_iff)
  moreover have "hd (six_digits n) \<noteq> CHR ''-''" using hd by (auto simp: is_digit_def)
  moreover have "digits_value (six_digits n) = nat n"
    using n by (simp add: six_digits_def Let_def digits_value_padding digits_value_show)
  moreover have "filter is_digit (six_digits n) = six_digits n"
    using d by (simp add: list_all_iff)
  ultimately show ?thesis
    using d n underscores_inside_digits by (simp add: int_of_text_def Let_def)
qed

lemma sequence_after_r: "0 \<le> n \<Longrightarrow> revision_sequence (s @ CHR ''r'' # six_digits n) = Inr n"
proof -
  assume n: "0 \<le> n"
  have "c \<noteq> CHR ''r''" if "c \<in> set (rev (six_digits n))" for c
    using six_digits_digits [OF n] that by (auto simp: list_all_iff is_digit_def)
  then have "takeWhile (\<lambda>c. c \<noteq> CHR ''r'') (rev (six_digits n) @ CHR ''r'' # t) = rev (six_digits n)" for t
    by (simp add: takeWhile_append)
  then show ?thesis using int_of_six_digits [OF n] by (simp add: revision_sequence_def)
qed

lemma revision_sequence_id: "0 \<le> n \<Longrightarrow> revision_sequence (revision_id_of n) = Inr n"
  using sequence_after_r [of n "''task-config-''"] by (simp add: revision_id_of_def)

lemma revision_id_of_inject: "0 \<le> m \<Longrightarrow> 0 \<le> n \<Longrightarrow> revision_id_of m = revision_id_of n \<longleftrightarrow> m = n"
  using revision_sequence_id by (metis sum.inject(2))

lemma first_revision_id: "first_revision_id = revision_id_of 1"
  by code_simp

section \<open>What a commit does\<close>

lemma write_immutable_cases:
  assumes "write_immutable_revision lib r f = (v, g)"
  obtains (raised) e where "v = Inl e" "g = f"
  | (written) "v = Inr ()" "map_of (cff_revisions f) (cfr_revision_id r) = None"
      "is_identifier (cfr_revision_id r)"
      "g = f\<lparr>cff_revisions := (cfr_revision_id r, Document r) # cff_revisions f\<rparr>"
  | (same) d where "v = Inr ()" "map_of (cff_revisions f) (cfr_revision_id r) = Some (Document d)"
      "cfl_bytes lib d = cfl_bytes lib r" "length (cfl_bytes lib d) \<le> max_config_file_bytes"
      "is_identifier (cfr_revision_id r)" "g = f"
proof -
  note def = write_immutable_revision_def ensure_directories_def
  show thesis
  proof (cases "map_of (cff_revisions f) (cfr_revision_id r)")
    case None
    then show thesis
      using assms that unfolding def
      by (cases v) (auto simp: monad Let_def)
  next
    case (Some x)
    then show thesis
      using assms that unfolding def
      by (cases v; cases x) (auto simp: monad Let_def)
  qed
qed

text \<open>A hook that stops the process does not raise an error of the application.\<close>

definition stopping :: "(string \<Rightarrow> unit res) \<Rightarrow> bool" where
  "stopping hook \<longleftrightarrow> (\<forall>c e. hook c = Inl e \<longrightarrow> error_code_of e = None)"

definition commit_allowed ::
  "config_library \<Rightarrow> string \<Rightarrow> config_revision \<Rightarrow> config_state \<Rightarrow> int \<Rightarrow> config_files \<Rightarrow> bool" where
  "commit_allowed lib t r s n f \<longleftrightarrow> cfl_revision_contract lib r = Inr () \<and> cfl_state_contract lib s = Inr () \<and>
     validate_pair lib t r s = Inr () \<and>
     (\<exists>c. read_current lib t f = Inr c \<and> check_successor c r s n = Inr ())"

lemma commit_config_cases:
  assumes "commit_config lib hook t r s n f = (v, g)"
  obtains (rejected) e where "v = Inl e" "g = f"
  | (stopped) e f' where "v = Inl e" "hook ''after_task_revision_published'' = Inl e" "g = f'"
      "write_immutable_revision lib r f = (Inr (), f')" "commit_allowed lib t r s n f"
  | (committed) f' where "write_immutable_revision lib r f = (Inr (), f')"
      "g = f'\<lparr>cff_state := Some (Document s)\<rparr>"
      "v = (case hook ''after_task_state_published'' of Inl e \<Rightarrow> Inl e
         | Inr _ \<Rightarrow> Inr \<lparr>cfp_state = s, cfp_revision = r, cfp_legacy = False\<rparr>)" "commit_allowed lib t r s n f"
proof (cases "\<exists>e. v = Inl e \<and> g = f")
  case True
  then show thesis using rejected by blast
next
  case False
  have quiet: "h = f" if "write_immutable_revision lib r f = (Inl e, h)" for e h
    using that by (cases rule: write_immutable_cases) auto
  have "commit_allowed lib t r s n f \<and> ((\<exists>e f'. v = Inl e \<and> hook ''after_task_revision_published'' = Inl e \<and> g = f' \<and>
      write_immutable_revision lib r f = (Inr (), f')) \<or>
    (\<exists>f'. write_immutable_revision lib r f = (Inr (), f') \<and> g = f'\<lparr>cff_state := Some (Document s)\<rparr> \<and>
      v = (case hook ''after_task_state_published'' of Inl e \<Rightarrow> Inl e
         | Inr _ \<Rightarrow> Inr \<lparr>cfp_state = s, cfp_revision = r, cfp_legacy = False\<rparr>)))"
    using False assms unfolding commit_config_def write_config_state_def commit_allowed_def
    by (cases v) (auto simp: monad dest: quiet)
  then show thesis using stopped committed by blast
qed

section \<open>Runs\<close>

text \<open>One step is one call of the service, whatever it returns or raises, or the recovery at a start. The
  deployment defaults and the task snapshots may differ from step to step; \<open>clock\<close> are the readings that
  the clock may give.\<close>

inductive config_step :: "config_library \<Rightarrow> string \<Rightarrow> string set \<Rightarrow> config_files \<Rightarrow> config_files \<Rightarrow> bool"
  for lib t clock where
  pin: "stopping hook \<Longrightarrow> now \<in> clock \<Longrightarrow>
    pin_config env st lib process hook now required t f = (v, g) \<Longrightarrow> config_step lib t clock f g"
| rebase: "stopping hook \<Longrightarrow> now \<in> clock \<Longrightarrow>
    rebase_config env st lib process hook now t created_by f = (w, g) \<Longrightarrow> config_step lib t clock f g"
| lock: "stopping hook \<Longrightarrow> now \<in> clock \<Longrightarrow>
    lock_for_start env st lib process hook now locked_at t reason f = (x, g) \<Longrightarrow>
    config_step lib t clock f g"
| public: "stopping hook \<Longrightarrow> now \<in> clock \<Longrightarrow>
    get_public env st lib process hook now t f = (y, g) \<Longrightarrow> config_step lib t clock f g"
| citations: "stopping hook \<Longrightarrow> now \<in> clock \<Longrightarrow>
    source_citations_required env st lib process hook now t f = (b, g) \<Longrightarrow> config_step lib t clock f g"
| resolve: "stopping hook \<Longrightarrow> now \<in> clock \<Longrightarrow>
    resolve_config env st lib models process hook now t f = (z, g) \<Longrightarrow> config_step lib t clock f g"
| recover: "recover_config lib t f = (u, g) \<Longrightarrow> config_step lib t clock f g"

abbreviation config_run :: "config_library \<Rightarrow> string \<Rightarrow> string set \<Rightarrow> config_files \<Rightarrow> config_files \<Rightarrow> bool" where
  "config_run lib t clock \<equiv> (config_step lib t clock)\<^sup>*\<^sup>*"

definition locked_state :: "config_state \<Rightarrow> string \<Rightarrow> string \<Rightarrow> config_state" where
  "locked_state s locked_at reason =
     s\<lparr>cfs_locked_at := Some locked_at, cfs_locked_reason := Some reason,
       cfs_revision := cfs_revision s + 1, cfs_updated_at := locked_at\<rparr>"

abbreviation pin_commit ::
  "config_library \<Rightarrow> (string \<Rightarrow> unit res) \<Rightarrow> string \<Rightarrow> process_config \<Rightarrow> string \<Rightarrow> config_pair cop" where
  "pin_commit lib hook t process now \<equiv>
     commit_config lib hook t (pinned_revision lib t process now)
       (pinned_state t (pinned_revision lib t process now) now) 0"

lemma commit_or_adopt_state: "commit_or_adopt lib t m f = (v, g) \<Longrightarrow> snd (m f) = g"
  by (auto simp: commit_or_adopt_def bindS_def readS_def returnS_def throwS_def
      split: prod.splits sum.splits if_splits option.splits)

lemma pin_config_cases:
  assumes "pin_config env st lib process hook now required t f = (v, g)"
  obtains (quiet) "g = f" "read_current lib t f = Inr None \<Longrightarrow> \<exists>e. v = Inl e"
  | (committed) q w where "read_current lib t f = Inr None"
      "commit_or_adopt lib t (pin_commit lib hook t q now) f = (w, g)"
      "\<And>e. w = Inl e \<Longrightarrow> v = Inl e" "snd (pin_commit lib hook t q now f) = g"
proof (cases "\<exists>p. read_current lib t f = Inr (Some p)")
  case True
  then obtain p where "read_current lib t f = Inr (Some p)" by blast
  then have "g = f" using assms unfolding pin_config_def by (cases v) (auto simp: monad)
  then show thesis using True by (intro quiet) auto
next
  case False
  show thesis
  proof (cases "read_current lib t f = Inr None")
    case True
    show thesis
    proof (cases "g = f \<and> (\<exists>e. v = Inl e)")
      case False
      then have "\<exists>q w. commit_or_adopt lib t (pin_commit lib hook t q now) f = (w, g) \<and>
          (\<forall>e. w = Inl e \<longrightarrow> v = Inl e)"
        using assms True unfolding pin_config_def by (cases v) (auto simp: monad Let_def)
      then show thesis using committed True commit_or_adopt_state by blast
    qed (intro quiet, auto)
  next
    case no: False
    then have "g = f" using assms False unfolding pin_config_def
      by (cases v; cases "read_current lib t f") (auto simp: monad)
    then show thesis using no by (intro quiet) auto
  qed
qed

text \<open>What the four writes of the service keep is kept by every run.\<close>

locale config_frame =
  fixes lib :: config_library and t :: string and clock :: "string set"
    and I :: "config_files \<Rightarrow> bool"
  assumes pinned: "\<lbrakk>I f; stopping hook; now \<in> clock; read_current lib t f = Inr None;
      commit_config lib hook t (pinned_revision lib t process now)
        (pinned_state t (pinned_revision lib t process now) now) 0 f = (v, g)\<rbrakk> \<Longrightarrow> I g"
    and rebased: "\<lbrakk>I f; stopping hook; now \<in> clock; read_current lib t f = Inr (Some p);
      cfs_locked_at (cfp_state p) = None; revision_sequence (cfr_revision_id (cfp_revision p)) = Inr n;
      r = rebased_revision lib t process created_by now p (n + 1);
      commit_config lib hook t r (rebased_state p r now) (cfs_revision (cfp_state p)) f = (w, g)\<rbrakk> \<Longrightarrow> I g"
    and locked: "\<lbrakk>I f; read_current lib t f = Inr (Some p); cfs_locked_at (cfp_state p) = None;
      s = locked_state (cfp_state p) locked_at reason; cfl_state_contract lib s = Inr ();
      validate_public_config_tree (state_tree s) = Inr ()\<rbrakk> \<Longrightarrow> I (f\<lparr>cff_state := Some (Document s)\<rparr>)"
    and tidied: "I f \<Longrightarrow> I (f\<lparr>cff_root_names := xs, cff_revision_names := ys\<rparr>)"
begin

lemma frame_pin:
  assumes "stopping hook" "now \<in> clock"
  shows "keeps I (pin_config env st lib process hook now required t)"
proof (rule keepsI)
  fix f v g
  assume I: "I f" and "pin_config env st lib process hook now required t f = (v, g)"
  from this(2) show "I g"
  proof (cases rule: pin_config_cases)
    case (committed q w)
    then show ?thesis using pinned [OF I assms] by (metis prod.collapse)
  qed (use I in simp)
qed

lemma frame_current_or_pinned:
  assumes "stopping hook" "now \<in> clock"
  shows "keeps I (current_or_pinned env st lib process hook now t)"
  unfolding current_or_pinned_def
  by (intro keeps_bind keeps_option keeps_pure frame_pin assms)

lemma frame_rebase:
  assumes "stopping hook" "now \<in> clock"
  shows "keeps I (rebase_config env st lib process hook now t created_by)"
proof (rule keepsI)
  fix f v g
  assume I: "I f" and run: "rebase_config env st lib process hook now t created_by f = (v, g)"
  have current: "read_current lib t h = Inr (Some p)"
    if "current_or_pinned env st lib process hook now t f = (Inr p, h)" for p h
    using that by (auto simp: current_or_pinned_def monad assertion_def split: option.splits)
  have kept: "I h" if "current_or_pinned env st lib process hook now t f = (w, h)" for w h
    using keepsD [OF frame_current_or_pinned [OF assms] I that] .
  note commit = rebased [OF kept assms current _ _ refl]
  show "I g"
    using run unfolding rebase_config_def
    by (cases v) (auto simp: monad Let_def split: if_splits intro: kept commit)
qed

lemma frame_lock: "keeps I (lock_current lib t locked_at reason)"
proof (rule keepsI)
  fix f v g
  assume I: "I f" and run: "lock_current lib t locked_at reason f = (v, g)"
  show "I g"
    using run I locked [OF I _ _ refl, unfolded locked_state_def]
    unfolding lock_current_def write_config_state_def ensure_directories_def
    by (cases v) (auto simp: monad Let_def locked_state_def split: if_split_asm option.split_asm)
qed

lemma frame_recover: "keeps I (recover_config lib t)"
  unfolding recover_config_def ensure_directories_def
  by (intro keeps_bind keeps_pure keeps_modify tidied)

lemma frame_step: "config_step lib t clock f g \<Longrightarrow> I f \<Longrightarrow> I g"
proof (induction rule: config_step.induct)
  case (pin hook now env st process required f v g)
  then show ?case by (metis keepsD frame_pin)
next
  case (rebase hook now env st process created_by f w g)
  then show ?case by (metis keepsD frame_rebase)
next
  case (lock hook now env st process locked_at reason f x g)
  then have "keeps I (lock_for_start env st lib process hook now locked_at t reason)"
    unfolding lock_for_start_def by (intro keeps_bind frame_pin frame_lock)
  then show ?case using keepsD lock by metis
next
  case (public hook now env st process f y g)
  then have "keeps I (get_public env st lib process hook now t)"
    unfolding get_public_def by (intro keeps_bind keeps_option keeps_pure frame_pin)
  then show ?case using keepsD public by metis
next
  case (citations hook now env st process f b g)
  then have "keeps I (source_citations_required env st lib process hook now t)"
    unfolding source_citations_required_def get_public_def
    by (intro keeps_bind keeps_option keeps_pure frame_pin)
  then show ?case using keepsD citations by metis
next
  case (resolve hook now env st models process f z g)
  then have "keeps I (resolve_config env st lib models process hook now t)"
    unfolding resolve_config_def by (intro keeps_bind keeps_pure frame_current_or_pinned)
  then show ?case using keepsD resolve by metis
next
  case (recover f u g)
  then show ?case by (metis keepsD frame_recover)
qed

lemma frame_run: "config_run lib t clock f g \<Longrightarrow> I f \<Longrightarrow> I g"
  by (induction rule: rtranclp_induct) (auto intro: frame_step)

end

section \<open>Published revisions\<close>

lemma commit_keeps_revision:
  assumes "commit_config lib hook t r s n f = (v, g)" and "map_of (cff_revisions f) i = Some x"
  shows "map_of (cff_revisions g) i = Some x"
proof -
  have "map_of (cff_revisions f') i = Some x" if "write_immutable_revision lib r f = (w, f')" for w f'
    using that assms(2) by (cases rule: write_immutable_cases) auto
  with assms show ?thesis by (cases rule: commit_config_cases) auto
qed

interpretation published: config_frame lib t clock "\<lambda>f. map_of (cff_revisions f) i = Some x" for lib t clock i x
  by unfold_locales (auto intro: commit_keeps_revision)

text \<open>
  A published configuration revision is immutable: whatever the service, its recovery and its crashes
  do later, the file of the revision stays as it was.
\<close>

theorem published_revision_final:
  assumes "map_of (cff_revisions f) i = Some x" and "config_run lib t clock f g"
  shows "map_of (cff_revisions g) i = Some x"
  using published.frame_run [OF assms(2)] assms(1) .

section \<open>Locked baselines\<close>

lemma legacy_pair_cong: "cff_legacy f = cff_legacy g \<Longrightarrow> legacy_pair lib f = legacy_pair lib g"
  by (intro ext) (simp only: legacy_pair_def)

lemma read_revision_local:
  assumes "map_of (cff_revisions f) i = map_of (cff_revisions g) i" and "cff_legacy f = cff_legacy g"
  shows "read_revision lib f t i = read_revision lib g t i"
  by (simp only: read_revision_def read_stored_revision_def assms(1) legacy_pair_cong [OF assms(2)])

lemma read_current_cong:
  "cff_state f = cff_state g \<Longrightarrow> cff_revisions f = cff_revisions g \<Longrightarrow> cff_legacy f = cff_legacy g \<Longrightarrow>
     read_current lib t f = read_current lib t g"
  using read_revision_local [of f _ g lib t] legacy_pair_cong [of f g lib] by (simp add: read_current_def)

lemma read_current_state:
  "read_current lib t f = Inr None \<Longrightarrow> cff_state f = None"
  "read_current lib t f = Inr (Some p) \<Longrightarrow> cff_state f \<noteq> None \<Longrightarrow> cff_state f = Some (Document (cfp_state p))"
  by (auto simp: read_current_def monad split: if_splits)

interpretation locked_baseline: config_frame lib t clock
  "\<lambda>f. cfs_locked_at s \<noteq> None \<and> cff_state f = Some (Document s) \<and> cff_revisions f = rs \<and> cff_legacy f = l"
  for lib t clock s rs l
  by unfold_locales (auto dest: read_current_state)

text \<open>
  C17. A locked baseline is final: once the configuration of a task is locked, every reader finds the same
  state and the same revision for ever, whatever is published, rebased, locked or recovered later.
\<close>

theorem locked_baseline_final:
  assumes "read_current lib t f = Inr (Some p)" and "cfs_locked_at (cfp_state p) \<noteq> None"
    and "config_run lib t clock f g"
  shows "read_current lib t g = Inr (Some p)"
proof -
  have "cff_state f \<noteq> None"
  proof
    assume "cff_state f = None"
    then have "legacy_pair lib f t = Inr (Some p)"
      using assms(1) by (simp add: read_current_def monad)
    from legacy_pair_Some(9) [OF this] show False using assms(2) by simp
  qed
  then have state: "cff_state f = Some (Document (cfp_state p))" using assms(1) read_current_state(2) by blast
  have "cff_state g = cff_state f \<and> cff_revisions g = cff_revisions f \<and> cff_legacy g = cff_legacy f"
    using locked_baseline.frame_run [OF assms(3), of "cfp_state p" "cff_revisions f" "cff_legacy f"]
      state assms(2) by simp
  then show ?thesis using assms(1) read_current_cong [of g f lib t] by simp
qed

section \<open>Sound baselines\<close>

text \<open>Two revisions with the same text have the same identifier, parent, source and time.\<close>

definition faithful_text :: "config_library \<Rightarrow> bool" where
  "faithful_text lib \<longleftrightarrow> (\<forall>d r. cfl_bytes lib d = cfl_bytes lib r \<longrightarrow>
     cfr_revision_id d = cfr_revision_id r \<and> cfr_parent d = cfr_parent r \<and> cfr_source d = cfr_source r \<and>
     cfr_created_at d = cfr_created_at r)"

definition good_state :: "config_library \<Rightarrow> string \<Rightarrow> config_state \<Rightarrow> bool" where
  "good_state lib t s \<longleftrightarrow> cfl_state_contract lib s = Inr () \<and>
     validate_public_config_tree (state_tree s) = Inr () \<and> cfs_task_id s = t"

definition parent_of :: "int \<Rightarrow> string option" where
  "parent_of k = (if k = 1 then None else Some (revision_id_of (k - 1)))"

definition chain :: "config_library \<Rightarrow> string \<Rightarrow> config_files \<Rightarrow> int \<Rightarrow> bool" where
  "chain lib t f n \<longleftrightarrow> (\<forall>k. 1 \<le> k \<and> k \<le> n \<longrightarrow>
     (\<exists>r. read_revision lib f t (revision_id_of k) = Inr r \<and> cfr_parent r = parent_of k))"

definition good_files :: "config_library \<Rightarrow> string \<Rightarrow> config_files \<Rightarrow> bool" where
  "good_files lib t f \<longleftrightarrow> is_identifier t \<and>
     (\<forall>i x. map_of (cff_revisions f) i = Some x \<longrightarrow>
        (\<exists>d. x = Document d \<and> good_revision lib t d \<and> cfr_revision_id d = i)) \<and>
     (\<exists>l. legacy_pair lib f t = Inr l \<and>
        (l \<noteq> None \<longrightarrow> map_of (cff_revisions f) first_revision_id = None))"

text \<open>The first \<open>n\<close> revisions are there, and the last of them is the current one.\<close>

definition baseline :: "config_library \<Rightarrow> string \<Rightarrow> config_files \<Rightarrow> int \<Rightarrow> bool" where
  "baseline lib t f n \<longleftrightarrow> good_files lib t f \<and> 0 \<le> n \<and> chain lib t f n \<and>
     (case cff_state f of
        None \<Rightarrow> n = (if legacy_pair lib f t = Inr None then 0 else 1)
      | Some x \<Rightarrow> \<exists>s r. x = Document s \<and> good_state lib t s \<and> length (cfl_state_bytes lib s) \<le> max_config_file_bytes \<and>
          1 \<le> n \<and> cfs_current s = revision_id_of n \<and>
          read_revision lib f t (revision_id_of n) = Inr r \<and> cfs_source s = cfr_source r)"

text \<open>The other way: the state file, or the file of the revision that it names, is too long for a reader.\<close>

definition overlong :: "config_library \<Rightarrow> config_files \<Rightarrow> bool" where
  "overlong lib f =
     (case cff_state f of
        Some (Document s) \<Rightarrow> max_config_file_bytes < length (cfl_state_bytes lib s) \<or>
          (case map_of (cff_revisions f) (cfs_current s) of
             Some (Document d) \<Rightarrow> max_config_file_bytes < length (cfl_bytes lib d)
           | _ \<Rightarrow> False)
      | _ \<Rightarrow> False)"

lemma overlong_iff:
  "overlong lib f \<longleftrightarrow> (\<exists>s. cff_state f = Some (Document s) \<and>
     (max_config_file_bytes < length (cfl_state_bytes lib s) \<or>
      (\<exists>d. map_of (cff_revisions f) (cfs_current s) = Some (Document d) \<and>
         max_config_file_bytes < length (cfl_bytes lib d))))"
proof -
  have found: "(case x of Some (Document d) \<Rightarrow> P d | _ \<Rightarrow> False) \<longleftrightarrow> (\<exists>d. x = Some (Document d) \<and> P d)"
    for x :: "'a stored option" and P by (auto split: option.split stored.split)
  show ?thesis unfolding overlong_def found ..
qed

lemma overlong_unreadable:
  assumes "overlong lib f"
  shows "read_current lib t f \<noteq> Inr x"
proof
  assume "read_current lib t f = Inr x"
  then show False using assms unfolding overlong_iff
    by (auto simp: read_current_def monad read_revision_iff read_stored_revision_iff)
qed

lemma overlong_cong:
  "cff_state f = cff_state g \<Longrightarrow> cff_revisions f = cff_revisions g \<Longrightarrow> overlong lib f = overlong lib g"
  by (simp only: overlong_def)

definition commit_fits :: "config_library \<Rightarrow> config_revision \<Rightarrow> config_state \<Rightarrow> bool" where
  "commit_fits lib r s \<longleftrightarrow> length (cfl_bytes lib r) \<le> max_config_file_bytes \<and>
     length (cfl_state_bytes lib s) \<le> max_config_file_bytes"

lemma first_identifier: "is_identifier first_revision_id"
  by code_simp

lemma baseline_current:
  assumes "baseline lib t f n"
  obtains "n = 0" "read_current lib t f = Inr None" "legacy_pair lib f t = Inr None"
  | p where "1 \<le> n" "read_current lib t f = Inr (Some p)"
      "read_revision lib f t (revision_id_of n) = Inr (cfp_revision p)"
      "cfr_revision_id (cfp_revision p) = revision_id_of n" "cfs_current (cfp_state p) = revision_id_of n"
      "cfs_source (cfp_state p) = cfr_source (cfp_revision p)" "cfs_task_id (cfp_state p) = t"
proof (cases "cff_state f")
  case None
  obtain l where l: "legacy_pair lib f t = Inr l" "l \<noteq> None \<longrightarrow> map_of (cff_revisions f) first_revision_id = None"
    and t: "is_identifier t" using assms unfolding baseline_def good_files_def by blast
  have read: "read_current lib t f = Inr l" using None l t by (simp add: read_current_def)
  show thesis
  proof (cases l)
    case None
    then show thesis using that(1) assms l read \<open>cff_state f = None\<close> by (simp add: baseline_def)
  next
    case (Some p)
    then have p: "legacy_pair lib f t = Inr (Some p)" using l by simp
    have "n = 1" using assms Some l \<open>cff_state f = None\<close> by (simp add: baseline_def)
    moreover have "read_revision lib f t first_revision_id = Inr (cfp_revision p)"
      using l Some t first_identifier by (simp add: read_revision_iff)
    ultimately show thesis
      using that(2) [of p] read Some legacy_pair_Some [OF p] first_revision_id by simp
  qed
next
  case (Some x)
  then obtain s r where "x = Document s" "good_state lib t s" "1 \<le> n" "cfs_current s = revision_id_of n"
    "read_revision lib f t (revision_id_of n) = Inr r" "cfs_source s = cfr_source r"
    "length (cfl_state_bytes lib s) \<le> max_config_file_bytes"
    using assms by (auto simp: baseline_def)
  moreover have "is_identifier t" using assms by (simp add: baseline_def good_files_def)
  ultimately show thesis
    using that(2) [of "\<lparr>cfp_state = s, cfp_revision = r, cfp_legacy = False\<rparr>"] Some read_revision_known(2)
    by (auto simp: read_current_def good_state_def monad)
qed

lemma validate_pair_Inr:
  "validate_pair lib t r s = Inr () \<longleftrightarrow> validate_public_config_tree (state_tree s) = Inr () \<and>
     cfr_task_id r = t \<and> cfs_task_id s = t \<and> cfs_current s = cfr_revision_id r \<and>
     cfs_source s = cfr_source r \<and> cfr_parent r \<noteq> Some (cfr_revision_id r) \<and>
     validate_revision_hash lib r = Inr ()"
  by (auto simp: validate_pair_def monad)

text \<open>What a commit is allowed to publish is the next revision.\<close>

lemma commit_allowed_next:
  assumes "baseline lib t f n" and "commit_allowed lib t r s m f"
  shows "good_revision lib t r" and "good_state lib t s" and "cfr_revision_id r = revision_id_of (n + 1)"
    and "cfr_parent r = parent_of (n + 1)" and "cfs_current s = cfr_revision_id r"
    and "cfs_source s = cfr_source r"
proof -
  obtain c where c: "read_current lib t f = Inr c" "check_successor c r s m = Inr ()"
    and checks: "cfl_revision_contract lib r = Inr ()" "cfl_state_contract lib s = Inr ()"
      "validate_pair lib t r s = Inr ()"
    using assms(2) by (auto simp: commit_allowed_def)
  show "good_revision lib t r" "good_state lib t s" "cfs_current s = cfr_revision_id r"
    "cfs_source s = cfr_source r"
    using checks by (auto simp: good_revision_def good_state_def validate_pair_Inr)
  from assms(1) show "cfr_revision_id r = revision_id_of (n + 1)" "cfr_parent r = parent_of (n + 1)"
    by (cases rule: baseline_current; use c in \<open>auto simp: check_successor_def Let_def monad parent_of_def
      revision_sequence_id\<close>)+
qed

lemma written_revision_read:
  assumes base: "baseline lib t f n" and faithful: "faithful_text lib"
    and stored: "write_immutable_revision lib r f = (Inr (), f')"
    and r: "good_revision lib t r" "cfr_revision_id r = revision_id_of (n + 1)"
  shows "good_files lib t f'" and "cff_state f' = cff_state f" and "cff_legacy f' = cff_legacy f"
    and "\<And>k. k \<le> n \<Longrightarrow> 1 \<le> k \<Longrightarrow> read_revision lib f' t (revision_id_of k) = read_revision lib f t (revision_id_of k)"
    and "length (cfl_bytes lib r) \<le> max_config_file_bytes \<Longrightarrow>
      \<exists>d. read_revision lib f' t (cfr_revision_id r) = Inr d \<and> cfr_parent d = cfr_parent r \<and>
          cfr_source d = cfr_source r \<and> cfr_created_at d = cfr_created_at r \<and> cfl_bytes lib d = cfl_bytes lib r"
    and "\<exists>d. map_of (cff_revisions f') (cfr_revision_id r) = Some (Document d) \<and> cfl_bytes lib d = cfl_bytes lib r"
proof -
  have good: "good_files lib t f" and n: "0 \<le> n" using base by (simp_all add: baseline_def)
  have t: "is_identifier t" using good by (simp add: good_files_def)
  have "n = 0" if "legacy_pair lib f t = Inr None" "cff_state f = None"
    using base that by (simp add: baseline_def)
  have first: "cfr_revision_id r \<noteq> first_revision_id" if "legacy_pair lib f t \<noteq> Inr None"
  proof -
    have "1 \<le> n" using base that by (auto simp: baseline_def split: option.splits)
    then show ?thesis using r(2) by (simp add: first_revision_id revision_id_of_inject)
  qed
  have "good_files lib t f' \<and> cff_state f' = cff_state f \<and> cff_legacy f' = cff_legacy f \<and>
    (\<forall>k. k \<le> n \<and> 1 \<le> k \<longrightarrow>
      read_revision lib f' t (revision_id_of k) = read_revision lib f t (revision_id_of k)) \<and>
    (length (cfl_bytes lib r) \<le> max_config_file_bytes \<longrightarrow>
      (\<exists>d. read_revision lib f' t (cfr_revision_id r) = Inr d \<and> cfr_parent d = cfr_parent r \<and>
      cfr_source d = cfr_source r \<and> cfr_created_at d = cfr_created_at r \<and> cfl_bytes lib d = cfl_bytes lib r)) \<and>
    (\<exists>d. map_of (cff_revisions f') (cfr_revision_id r) = Some (Document d) \<and> cfl_bytes lib d = cfl_bytes lib r)"
    using stored
  proof (cases rule: write_immutable_cases)
    case written
    have leg: "legacy_pair lib f' = legacy_pair lib f" using written(4) by (intro legacy_pair_cong) simp
    have "read_revision lib f' t (revision_id_of k) = read_revision lib f t (revision_id_of k)"
      if "k \<le> n" "1 \<le> k" for k
    proof -
      have "revision_id_of k \<noteq> cfr_revision_id r" using that n r(2) by (simp add: revision_id_of_inject)
      then show ?thesis using written(4) by (intro read_revision_local) auto
    qed
    moreover have "good_files lib t f'"
    proof -
      obtain l where "legacy_pair lib f t = Inr l"
          "l \<noteq> None \<longrightarrow> map_of (cff_revisions f) first_revision_id = None"
        using good by (auto simp: good_files_def)
      moreover have "\<exists>d. x = Document d \<and> good_revision lib t d \<and> cfr_revision_id d = i"
        if "map_of (cff_revisions f') i = Some x" for i x
        using good r(1) written(4) that by (auto simp: good_files_def split: if_splits)
      ultimately show ?thesis
        using t first leg written(4) by (cases l) (auto simp: good_files_def)
    qed
    moreover have "read_revision lib f' t (cfr_revision_id r) = Inr r"
      if "length (cfl_bytes lib r) \<le> max_config_file_bytes"
      using that written t r(1) by (simp add: read_revision_iff read_stored_revision_iff)
    ultimately show ?thesis using written(4) by auto
  next
    case (same d)
    then have "good_revision lib t d" "cfr_revision_id d = cfr_revision_id r"
      using good by (auto simp: good_files_def)
    then have "read_revision lib f t (cfr_revision_id r) = Inr d"
      using same(2,4,5) t by (simp add: read_revision_iff read_stored_revision_iff)
    moreover have "cfr_parent d = cfr_parent r" "cfr_source d = cfr_source r"
      "cfr_created_at d = cfr_created_at r"
      using faithful same(3) unfolding faithful_text_def by blast+
    ultimately show ?thesis using same(2,3,6) good by simp
  qed simp
  then show "good_files lib t f'" and "cff_state f' = cff_state f" and "cff_legacy f' = cff_legacy f"
    and "\<And>k. k \<le> n \<Longrightarrow> 1 \<le> k \<Longrightarrow> read_revision lib f' t (revision_id_of k) = read_revision lib f t (revision_id_of k)"
    and "length (cfl_bytes lib r) \<le> max_config_file_bytes \<Longrightarrow>
      \<exists>d. read_revision lib f' t (cfr_revision_id r) = Inr d \<and> cfr_parent d = cfr_parent r \<and>
          cfr_source d = cfr_source r \<and> cfr_created_at d = cfr_created_at r \<and> cfl_bytes lib d = cfl_bytes lib r"
    and "\<exists>d. map_of (cff_revisions f') (cfr_revision_id r) = Some (Document d) \<and> cfl_bytes lib d = cfl_bytes lib r"
    by blast+
qed

lemma stopped_baseline:
  assumes base: "baseline lib t f n" and faithful: "faithful_text lib"
    and stored: "write_immutable_revision lib r f = (Inr (), f')" and allowed: "commit_allowed lib t r s m f"
  shows "baseline lib t f' n \<and> read_current lib t f' = read_current lib t f"
proof -
  note nxt = commit_allowed_next [OF base allowed]
  note w = written_revision_read [OF base faithful stored nxt(1,3)]
  have leg: "legacy_pair lib f' = legacy_pair lib f" using w(3) by (rule legacy_pair_cong)
  have n: "0 \<le> n" "chain lib t f n" using base by (auto simp: baseline_def)
  have "chain lib t f' n" using n(2) w(4) by (simp add: chain_def)
  moreover have "read_revision lib f' t (revision_id_of n) = read_revision lib f t (revision_id_of n)"
    if "1 \<le> n" using w(4) that by simp
  ultimately have "baseline lib t f' n"
    using base w(1,2) n leg by (auto simp: baseline_def split: option.splits)
  moreover have "read_current lib t f' = read_current lib t f"
    using base
  proof (cases rule: baseline_current)
    case 1
    then show ?thesis using w(2) leg by (simp add: read_current_def monad split: if_splits)
  next
    case (2 p)
    show ?thesis
    proof (cases "cff_state f")
      case None
      then show ?thesis using w(2) leg by (simp add: read_current_def)
    next
      case (Some x)
      then have x: "x = Document (cfp_state p)" using read_current_state(2) [OF 2(2)] by simp
      have "read_revision lib f' t (cfs_current (cfp_state p)) = read_revision lib f t (cfs_current (cfp_state p))"
        using w(4) [of n] 2(1,5) by simp
      then show ?thesis using w(2) Some x by (simp add: read_current_def read_json_object_def limited_def)
    qed
  qed
  ultimately show ?thesis by blast
qed

lemma committed_baseline:
  assumes base: "baseline lib t f n" and faithful: "faithful_text lib"
    and stored: "write_immutable_revision lib r f = (Inr (), f')" and allowed: "commit_allowed lib t r s m f"
    and g: "g = f'\<lparr>cff_state := Some (Document s)\<rparr>"
  shows "if commit_fits lib r s
    then baseline lib t g (n + 1) \<and> (\<exists>d. cfl_bytes lib d = cfl_bytes lib r \<and>
      read_current lib t g = Inr (Some \<lparr>cfp_state = s, cfp_revision = d, cfp_legacy = False\<rparr>))
    else overlong lib g"
proof -
  note nxt = commit_allowed_next [OF base allowed]
  note w = written_revision_read [OF base faithful stored nxt(1,3)]
  have n: "0 \<le> n" "chain lib t f n" "is_identifier t"
    using base by (auto simp: baseline_def good_files_def)
  have state: "cff_state g = Some (Document s)" using g by simp
  show ?thesis
  proof (cases "commit_fits lib r s")
    case False
    then have "overlong lib g"
      using w(6) g nxt(5) by (auto simp: overlong_iff commit_fits_def)
    then show ?thesis using False by simp
  next
    case fits: True
    have "length (cfl_bytes lib r) \<le> max_config_file_bytes" using fits by (simp add: commit_fits_def)
    from w(5) [OF this] obtain d where d: "read_revision lib f' t (cfr_revision_id r) = Inr d" "cfr_parent d = cfr_parent r"
      "cfr_source d = cfr_source r" "cfl_bytes lib d = cfl_bytes lib r" by blast
    have same: "read_revision lib g = read_revision lib f'" "legacy_pair lib g = legacy_pair lib f'"
      using g by (auto intro!: ext read_revision_local legacy_pair_cong)
    have "chain lib t g (n + 1)"
      unfolding chain_def same
    proof (intro allI impI)
      fix k assume k: "1 \<le> k \<and> k \<le> n + 1"
      show "\<exists>r. read_revision lib f' t (revision_id_of k) = Inr r \<and> cfr_parent r = parent_of k"
      proof (cases "k = n + 1")
        case True
        then show ?thesis using d nxt(3,4) by simp
      next
        case False
        then show ?thesis using k n(2) w(4) by (simp add: chain_def)
      qed
    qed
    moreover have "good_files lib t g"
      using w(1) same g by (simp add: good_files_def)
    ultimately have "baseline lib t g (n + 1)"
      using n(1) nxt d same state fits by (simp add: baseline_def commit_fits_def)
    moreover have "read_current lib t g = Inr (Some \<lparr>cfp_state = s, cfp_revision = d, cfp_legacy = False\<rparr>)"
      using state nxt d same n(3) fits
      by (simp add: read_current_def read_json_object_def good_state_def commit_fits_def limited_def)
    ultimately show ?thesis using d(4) fits by auto
  qed
qed

lemma commit_baseline:
  assumes base: "baseline lib t f n" and faithful: "faithful_text lib"
    and commit: "commit_config lib hook t r s m f = (v, g)"
  shows "baseline lib t g n \<and> read_current lib t g = read_current lib t f \<and> (\<exists>e. v = Inl e) \<or>
    (if commit_fits lib r s
     then baseline lib t g (n + 1) \<and> (\<exists>d. cfl_bytes lib d = cfl_bytes lib r \<and>
       read_current lib t g = Inr (Some \<lparr>cfp_state = s, cfp_revision = d, cfp_legacy = False\<rparr>))
     else overlong lib g)"
  using commit
proof (cases rule: commit_config_cases)
  case (rejected e)
  then show ?thesis using base by simp
next
  case (stopped e f')
  then show ?thesis using stopped_baseline [OF base faithful stopped(4,5)] by blast
next
  case (committed f')
  then show ?thesis using committed_baseline [OF base faithful committed(1,4,2)] by blast
qed

lemma lock_baseline:
  assumes base: "baseline lib t f n" and p: "read_current lib t f = Inr (Some p)"
    and s: "s = locked_state (cfp_state p) locked_at reason" "cfl_state_contract lib s = Inr ()"
      "validate_public_config_tree (state_tree s) = Inr ()"
  shows "baseline lib t (f\<lparr>cff_state := Some (Document s)\<rparr>) n \<or> overlong lib (f\<lparr>cff_state := Some (Document s)\<rparr>)"
  using base
proof (cases rule: baseline_current)
  case (2 q)
  then have q: "q = p" using p by simp
  let ?g = "f\<lparr>cff_state := Some (Document s)\<rparr>"
  have same: "read_revision lib ?g = read_revision lib f" "legacy_pair lib ?g = legacy_pair lib f"
    by (auto intro!: ext read_revision_local legacy_pair_cong)
  have "good_state lib t s" using s 2 q by (simp add: good_state_def locked_state_def)
  then have "baseline lib t ?g n" if "length (cfl_state_bytes lib s) \<le> max_config_file_bytes"
    using that base 2 q s(1) same
    by (simp add: baseline_def good_files_def chain_def locked_state_def)
  then show ?thesis by (cases "length (cfl_state_bytes lib s) \<le> max_config_file_bytes") (auto simp: overlong_iff)
qed (use p in simp)

lemma tidy_baseline:
  assumes "baseline lib t f n"
  shows "baseline lib t (f\<lparr>cff_root_names := xs, cff_revision_names := ys\<rparr>) n"
proof -
  let ?g = "f\<lparr>cff_root_names := xs, cff_revision_names := ys\<rparr>"
  have "read_revision lib ?g = read_revision lib f" "legacy_pair lib ?g = legacy_pair lib f"
    by (auto intro!: ext read_revision_local legacy_pair_cong)
  then show ?thesis
    using assms by (cases "cff_state f") (simp_all add: baseline_def good_files_def chain_def)
qed

text \<open>A baseline that a reader accepts is sound, and what is then written leaves a sound or an overlong one.\<close>

abbreviation sound_or_overlong :: "config_library \<Rightarrow> string \<Rightarrow> config_files \<Rightarrow> bool" where
  "sound_or_overlong lib t f \<equiv> (\<exists>n. baseline lib t f n) \<or> overlong lib f"

lemma commit_sound:
  assumes "faithful_text lib" and "sound_or_overlong lib t f" and "read_current lib t f = Inr c"
    and "commit_config lib hook t r s m f = (v, g)"
  shows "sound_or_overlong lib t g"
proof -
  obtain n where "baseline lib t f n" using assms(2,3) overlong_unreadable by blast
  from commit_baseline [OF this assms(1,4)] show ?thesis by (auto split: if_splits)
qed

interpretation baselines: config_frame lib t clock "\<lambda>f. faithful_text lib \<and> sound_or_overlong lib t f"
  for lib t clock
proof (unfold_locales, goal_cases)
  case (1 f hook now process v g)
  then show ?case using commit_sound by blast
next
  case (2 f hook now p n r process created_by w g)
  then show ?case using commit_sound by blast
next
  case (3 f p s locked_at reason)
  then obtain n where "baseline lib t f n" using overlong_unreadable by blast
  from lock_baseline [OF this 3(2) 3(4-6)] show ?case using 3(1) by blast
next
  case (4 f ys xs)
  moreover have "overlong lib (f\<lparr>cff_root_names := xs, cff_revision_names := ys\<rparr>) = overlong lib f"
    by (rule overlong_cong) simp_all
  ultimately show ?case using tidy_baseline by blast
qed

text \<open>The files of a task before its first pin: nothing, or a legacy snapshot that can be read.\<close>

definition unpinned :: "config_library \<Rightarrow> string \<Rightarrow> config_files \<Rightarrow> bool" where
  "unpinned lib t f \<longleftrightarrow> is_identifier t \<and> cff_state f = None \<and> cff_revisions f = [] \<and>
     (\<exists>l. legacy_pair lib f t = Inr l)"

lemma unpinned_baseline:
  assumes "unpinned lib t f"
  shows "\<exists>n. baseline lib t f n"
proof -
  obtain l where l: "legacy_pair lib f t = Inr l" and f: "is_identifier t" "cff_state f = None" "cff_revisions f = []"
    using assms by (auto simp: unpinned_def)
  then have files: "good_files lib t f" by (simp add: good_files_def)
  show ?thesis
  proof (cases l)
    case None
    then have "baseline lib t f 0" using l f files by (auto simp: baseline_def chain_def)
    then show ?thesis by blast
  next
    case (Some p)
    have "read_revision lib f t (revision_id_of 1) = Inr (cfp_revision p)"
      using l Some f first_identifier by (simp add: read_revision_iff first_revision_id)
    moreover have "cfr_parent (cfp_revision p) = None" using l Some legacy_pair_Some(2) by blast
    moreover have "k = 1" if "1 \<le> k" "k \<le> 1" for k :: int using that by simp
    ultimately have "chain lib t f 1" by (force simp: chain_def parent_of_def)
    then have "baseline lib t f 1" using l Some f files by (simp add: baseline_def)
    then show ?thesis by blast
  qed
qed

lemma run_baseline:
  assumes "faithful_text lib" and "unpinned lib t f" and "config_run lib t clock f g"
  shows "sound_or_overlong lib t g"
  using baselines.frame_run [OF assms(3)] unpinned_baseline assms(1,2) by blast

lemma ancestry_chain:
  assumes "chain lib t f n" and "1 \<le> k" and "k \<le> n" and "read_revision lib f t (revision_id_of k) = Inr r"
  shows "ancestry lib f t r (map revision_id_of [k + 1..n]) = Inr (map revision_id_of [1..n])"
  using assms(2-4)
proof (induction "nat k" arbitrary: k r)
  case (Suc m)
  have id: "cfr_revision_id r = revision_id_of k" using Suc.prems read_revision_known(2) by blast
  have new: "revision_id_of k \<notin> set (map revision_id_of [k + 1..n])"
    using Suc.prems by (auto simp: revision_id_of_inject)
  have parent: "cfr_parent r = parent_of k"
    using assms(1) Suc.prems unfolding chain_def by fastforce
  have step: "revision_id_of k # map revision_id_of [k + 1..n] = map revision_id_of [k..n]"
    using Suc.prems by (simp add: upto_rec1)
  show ?case
  proof (cases "k = 1")
    case True
    then show ?thesis
      using id new parent step by (simp add: ancestry.simps [of _ _ _ r] parent_of_def)
  next
    case False
    then have "1 \<le> k - 1 \<and> k - 1 \<le> n" using Suc.prems by simp
    then obtain q where q: "read_revision lib f t (revision_id_of (k - 1)) = Inr q"
      using assms(1) unfolding chain_def by blast
    have "ancestry lib f t q (map revision_id_of [k..n]) = Inr (map revision_id_of [1..n])"
      using Suc.hyps(1) [of "k - 1" q] Suc.hyps(2) Suc.prems False q by simp
    then show ?thesis
      using id new parent step q False by (simp add: ancestry.simps [of _ _ _ r] parent_of_def)
  qed
qed simp

lemmas recover_unfold = recover_config_def ensure_directories_def bindS_lift bindS_read bindS_modify bindS_return returnS_def

text \<open>
  C12. The configuration of a task is lost in one way only. After any run of the service, with a crash at any
  checkpoint of any commit, the recovery returns; it finds a current revision with a number \<open>n\<close> and all its
  ancestors, which are the revisions 1 to \<open>n\<close>, and reports exactly the other published ones as unreferenced. The
  exception is a current state or revision of more than the four MiB that a reader takes, which the writers do
  not check: then the recovery fails, and so does every reader.
\<close>

theorem recovery_finds_ancestry:
  assumes "faithful_text lib" and "unpinned lib t f" and "config_run lib t clock f g"
    and "cfl_directories lib = Inr ()"
  shows "if overlong lib g then \<exists>e h. recover_config lib t g = (Inl e, h)
    else \<exists>n report h. 0 \<le> n \<and> recover_config lib t g = (Inr report, h) \<and>
      cfx_current report = (if n = 0 then None else Some (revision_id_of n)) \<and>
      set (cfx_unreferenced report) =
        {i \<in> fst ` set (cff_revisions g). revision_file i \<and> i \<notin> revision_id_of ` {1..n}}"
proof (cases "overlong lib g")
  case True
  have t: "is_identifier t" using assms(2) by (simp add: unpinned_def)
  let ?h = "g\<lparr>cff_root_names := filter (\<lambda>n. \<not> temporary_name n) (cff_root_names g),
    cff_revision_names := filter (\<lambda>n. \<not> temporary_name n) (cff_revision_names g)\<rparr>"
  have "overlong lib ?h" using True overlong_cong [of ?h g lib] by simp
  then obtain e where "read_current lib t ?h = Inl e"
    using overlong_unreadable by (cases "read_current lib t ?h") blast+
  then have "recover_config lib t g = (Inl e, ?h)"
    using t assms(4) by (simp add: recover_unfold)
  then show ?thesis using True by simp
next
  case False
  then obtain n where base: "baseline lib t g n" using run_baseline [OF assms(1-3)] by blast
  then have t: "is_identifier t" by (simp add: baseline_def good_files_def)
  let ?h = "g\<lparr>cff_root_names := filter (\<lambda>n. \<not> temporary_name n) (cff_root_names g),
    cff_revision_names := filter (\<lambda>n. \<not> temporary_name n) (cff_revision_names g)\<rparr>"
  have base': "baseline lib t ?h n" using base by (rule tidy_baseline)
  then have chain: "chain lib t ?h n" by (simp add: baseline_def)
  from base' show ?thesis
  proof (cases rule: baseline_current)
    case 1
    then show ?thesis using False t assms(4) by (auto simp: recover_unfold)
  next
    case (2 p)
    have "ancestry lib ?h t (cfp_revision p) [] = Inr (map revision_id_of [1..n])"
      using ancestry_chain [OF chain 2(1) order_refl 2(3)] by simp
    then show ?thesis using False t assms(4) 2 by (auto simp: recover_unfold image_iff intro!: exI [of _ n])
  qed
qed

text \<open>
  C16. A commit of a configuration revision is atomic: stopped at any checkpoint, refused or done, it leaves every
  reader with what it found before, or with the new state and a revision of the new text, provided that
  both texts fit in the limit of four MiB. Beyond the limit, which the commit does not check, it leaves the
  task without a configuration that any reader accepts.
\<close>

theorem config_commit_atomic:
  assumes "faithful_text lib" and "unpinned lib t f" and "config_run lib t clock f g"
    and "commit_config lib hook t r s m g = (v, h)"
  shows "read_current lib t h = read_current lib t g \<and> (\<exists>e. v = Inl e) \<or>
    (if commit_fits lib r s
     then \<exists>d. cfl_bytes lib d = cfl_bytes lib r \<and>
       read_current lib t h = Inr (Some \<lparr>cfp_state = s, cfp_revision = d, cfp_legacy = False\<rparr>)
     else \<exists>e. read_current lib t h = Inl e)"
proof (cases "overlong lib g")
  case True
  from assms(4) have "h = g \<and> (\<exists>e. v = Inl e)"
    by (cases rule: commit_config_cases)
      (use overlong_unreadable [OF True] in \<open>auto simp: commit_allowed_def\<close>)
  then show ?thesis by blast
next
  case False
  then obtain n where "baseline lib t g n" using run_baseline [OF assms(1-3)] by blast
  note outcome = commit_baseline [OF this assms(1,4)]
  have "\<exists>e. read_current lib t h = Inl e" if "overlong lib h"
    using overlong_unreadable [OF that] by (cases "read_current lib t h") blast+
  with outcome show ?thesis by (auto split: if_splits)
qed

section \<open>A first pin that was cut off\<close>

definition orphaned :: "string \<Rightarrow> string \<Rightarrow> config_files \<Rightarrow> bool" where
  "orphaned t now f \<longleftrightarrow> is_identifier t \<and> cff_state f = None \<and> cff_legacy f = None \<and>
     (\<exists>d. map_of (cff_revisions f) first_revision_id = Some (Document d) \<and> cfr_created_at d = now)"

lemma orphaned_current: "orphaned t now f \<Longrightarrow> read_current lib t f = Inr None"
  by (simp add: orphaned_def read_current_def legacy_pair_def)

lemma orphaned_commit:
  assumes f: "orphaned t now f" and faithful: "faithful_text lib" and later: "later \<noteq> now"
    and commit: "pin_commit lib hook t process later f = (v, g)"
  shows "g = f" and "\<exists>e. v = Inl e"
proof -
  have False if "write_immutable_revision lib (pinned_revision lib t process later) f = (Inr (), f')" for f'
    using that
  proof (cases rule: write_immutable_cases)
    case (same d)
    then have "cfr_created_at d = later"
      using faithful unfolding faithful_text_def by (metis build_revision_def config_revision.select_convs(10)
        pinned_revision_def)
    then show False
      using same(2) f later by (simp add: orphaned_def pinned_revision_def build_revision_def)
  qed (use f in \<open>auto simp: orphaned_def pinned_revision_def build_revision_def\<close>)
  with commit show "g = f" and "\<exists>e. v = Inl e"
    by (cases rule: commit_config_cases; blast)+
qed

interpretation orphans: config_frame lib t "- {now}" "\<lambda>f. faithful_text lib \<and> orphaned t now f" for lib t now
proof (unfold_locales, goal_cases)
  case (1 f hook later process v g)
  then have "g = f" using orphaned_commit(1) [of t now f lib later hook process v g] by auto
  with 1 show ?case by simp
qed (auto simp: orphaned_current, auto simp: orphaned_def)

text \<open>
  C39. A first pin that is cut off between its two writes can never be completed: the revision it left behind
  has the identifier that every later pin needs and another time in it, so that, whatever else is done later,
  the task has no configuration and every attempt to pin one fails.
\<close>

theorem interrupted_pin_stuck:
  assumes "faithful_text lib" and "is_identifier t"
    and "cff_state f = None" and "cff_revisions f = []" and "cff_legacy f = None"
    and pin: "pin_config env st lib process hook now required t f = (Inl stop, g)"
    and "cff_revisions g \<noteq> []" and "cff_state g = None"
    and run: "config_run lib t (- {now}) g h"
    and again: "pin_config env' st' lib process' hook' later required' t h = (v, h')" and "later \<noteq> now"
  shows "read_current lib t h = Inr None \<and> (\<exists>e. v = Inl e)"
proof -
  from pin have "orphaned t now g"
  proof (cases rule: pin_config_cases)
    case quiet
    then show ?thesis using assms(4,7) by simp
  next
    case (committed q w)
    obtain x where "pin_commit lib hook t q now f = (x, g)" using committed(4) by (metis prod.collapse)
    then show ?thesis
    proof (cases rule: commit_config_cases)
      case (rejected e)
      then show ?thesis using assms(4,7) by simp
    next
      case (stopped e f')
      from stopped(4) show ?thesis
        by (cases rule: write_immutable_cases)
          (use assms stopped in \<open>auto simp: orphaned_def pinned_revision_def build_revision_def\<close>)
    next
      case (committed f')
      then show ?thesis using assms(8) by simp
    qed
  qed
  then have h: "orphaned t now h" using orphans.frame_run [OF run] assms(1) by blast
  from again have "\<exists>e. v = Inl e"
  proof (cases rule: pin_config_cases)
    case quiet
    then show ?thesis using h orphaned_current by blast
  next
    case (committed q w)
    obtain x k where c: "pin_commit lib hook' t q later h = (x, k)" by (rule prod.exhaust)
    have "k = h" "\<exists>e. x = Inl e" using orphaned_commit [OF h assms(1,11) c] by auto
    then have "\<exists>e. w = Inl e"
      using committed(2) c orphaned_current [OF h]
      by (auto simp: commit_or_adopt_def bindS_read throwS_def split: if_splits)
    then show ?thesis using committed(3) by blast
  qed
  then show ?thesis using orphaned_current [OF h] by blast
qed

end
