(* ===== verification/Config_Witnesses.thy ===== *)
theory Config_Witnesses imports Task_Config_Properties Sample_Environment begin

text \<open>
  The properties of configuration baselines at concrete runs: a task is pinned, its pin is cut off, its
  baseline is locked. The canonical text of a revision spells its fields out.
\<close>

fun spelled :: "string \<Rightarrow> string" where
  "spelled [] = '';''"
| "spelled (c # s) = CHR ''c'' # c # spelled s"

definition sample_bytes :: "config_revision \<Rightarrow> string" where
  "sample_bytes r = spelled (cfr_revision_id r) @
     spelled (case cfr_parent r of None \<Rightarrow> [] | Some p \<Rightarrow> CHR ''s'' # p) @
     spelled (cfr_source r) @ spelled (cfr_created_at r)"

lemma spelled_inject: "spelled a @ s = spelled b @ t \<longleftrightarrow> a = b \<and> s = t"
proof (induction a arbitrary: b)
  case Nil
  show ?case by (cases b) auto
next
  case (Cons c a)
  then show ?case by (cases b) auto
qed

lemma sample_bytes_inject:
  "sample_bytes d = sample_bytes r \<Longrightarrow> cfr_revision_id d = cfr_revision_id r \<and> cfr_parent d = cfr_parent r \<and>
     cfr_source d = cfr_source r \<and> cfr_created_at d = cfr_created_at r"
proof -
  assume eq: "sample_bytes d = sample_bytes r"
  have last: "spelled a = spelled b \<longleftrightarrow> a = b" for a b using spelled_inject [of a "[]" b "[]"] by simp
  from eq show ?thesis
    unfolding sample_bytes_def by (cases "cfr_parent d"; cases "cfr_parent r") (simp_all add: spelled_inject last)
qed

definition sample_config_library :: config_library where
  "sample_config_library =
     \<lparr>cfl_revision_contract = (\<lambda>_. Inr ()), cfl_state_contract = (\<lambda>_. Inr ()), cfl_digest = (\<lambda>_. ''h''),
      cfl_legacy_digest = (\<lambda>_. ''h''), cfl_bytes = sample_bytes, cfl_state_bytes = (\<lambda>s. spelled (cfs_current s)),
      cfl_legacy_bytes = (\<lambda>_. []), cfl_directories = Inr ()\<rparr>"

lemma sample_faithful: "faithful_text sample_config_library"
  unfolding faithful_text_def sample_config_library_def config_library.select_convs
  using sample_bytes_inject by blast

definition no_config :: config_files where
  "no_config = \<lparr>cff_state = None, cff_revisions = [], cff_legacy = None, cff_root_names = [], cff_revision_names = []\<rparr>"

definition sample_defaults :: "string \<Rightarrow> process_config" where
  "sample_defaults revision =
     \<lparr>pcf_revision = revision, pcf_providers = [''ark''],
      pcf_model_list = C_Dict (Object 0) [(Key ''text'', C_List (Object 1) [C_Text ''m''])],
      pcf_runtime = C_Dict (Object 2) [(Key ''port'', C_Int 1)]\<rparr>"

definition no_crash :: "string \<Rightarrow> unit res" where
  "no_crash c = Inr ()"

definition crash_between :: "string \<Rightarrow> unit res" where
  "crash_between c = (if c = ''after_task_revision_published'' then Inl (SimulatedCrash c) else Inr ())"

lemma sample_hooks: "stopping no_crash" "stopping crash_between"
  by (auto simp: stopping_def no_crash_def crash_between_def split: if_splits)

definition sample_pin :: "(string \<Rightarrow> unit res) \<Rightarrow> string \<Rightarrow> config_document cop" where
  "sample_pin hook now =
     pin_config sample_env empty_store sample_config_library (Some (sample_defaults ''s1'')) hook now False ''t''"

definition pinned_files :: config_files where
  "pinned_files = snd (sample_pin no_crash ''1'' no_config)"

definition rebase_it :: "config_files \<Rightarrow> config_files" where
  "rebase_it f = snd (rebase_config sample_env empty_store sample_config_library
     (Some (sample_defaults ''s2'')) no_crash ''2'' ''t'' (''human'', ''h'') f)"

definition locked_files :: config_files where
  "locked_files = snd (lock_current sample_config_library ''t'' ''3'' ''launch'' pinned_files)"

definition cut_files :: config_files where
  "cut_files = snd (sample_pin crash_between ''1'' no_config)"

definition sample_revision :: config_revision where
  "sample_revision = pinned_revision sample_config_library ''t'' (sample_defaults ''s1'') ''1''"

definition sample_commit :: "config_pair cop" where
  "sample_commit =
     commit_config sample_config_library no_crash ''t'' sample_revision
       (pinned_state ''t'' sample_revision ''1'') 0"

lemma pin_step:
  "stopping hook \<Longrightarrow> now \<in> clock \<Longrightarrow>
     config_run sample_config_library ''t'' clock f (snd (sample_pin hook now f))"
  unfolding sample_pin_def
  by (rule r_into_rtranclp, erule (1) config_step.pin, rule surjective_pairing)

lemma rebase_step: "config_run sample_config_library ''t'' UNIV f (rebase_it f)"
  unfolding rebase_it_def
  by (intro r_into_rtranclp config_step.rebase [OF sample_hooks(1) UNIV_I]) (rule surjective_pairing)

lemma sample_unpinned: "unpinned sample_config_library ''t'' no_config"
  by (simp add: unpinned_def no_config_def legacy_pair_def is_letter_def)

lemma pinned_evaluated: "map fst (cff_revisions pinned_files) = [first_revision_id]"
  by code_simp

lemma locked_evaluated:
  "case read_current sample_config_library ''t'' locked_files of
     Inr (Some p) \<Rightarrow> cfs_locked_at (cfp_state p) = Some ''3'' | _ \<Rightarrow> False"
  by code_simp

lemma cut_evaluated:
  "case sample_pin crash_between ''1'' no_config of
     (Inl e, f) \<Rightarrow> cff_revisions f \<noteq> [] \<and> cff_state f = None | _ \<Rightarrow> False"
  by code_simp

lemma commit_evaluated: "case sample_commit no_config of (Inr p, f) \<Rightarrow> True | _ \<Rightarrow> False"
  by code_simp

lemma cut_readable: "\<not> overlong sample_config_library cut_files"
  using cut_evaluated unfolding cut_files_def by (auto simp: overlong_iff split: prod.splits sum.splits)

lemma sample_fits:
  "commit_fits sample_config_library sample_revision (pinned_state ''t'' sample_revision ''1'')"
  by (simp add: commit_fits_def sample_config_library_def sample_bytes_def sample_revision_def pinned_state_def
      pinned_revision_def build_revision_def sample_defaults_def first_revision_id_def max_config_file_bytes_def)

section \<open>Witnesses\<close>

theorem published_revision_final_witness:
  "\<exists>x. map_of (cff_revisions pinned_files) first_revision_id = Some x \<and>
     map_of (cff_revisions (rebase_it pinned_files)) first_revision_id = Some x"
proof -
  obtain x where "map_of (cff_revisions pinned_files) first_revision_id = Some x"
    using pinned_evaluated by (cases "cff_revisions pinned_files") auto
  then show ?thesis using published_revision_final [OF _ rebase_step] by blast
qed

theorem locked_baseline_final_witness:
  "\<exists>p. read_current sample_config_library ''t'' locked_files = Inr (Some p) \<and>
     read_current sample_config_library ''t'' (rebase_it locked_files) = Inr (Some p)"
proof -
  obtain p where "read_current sample_config_library ''t'' locked_files = Inr (Some p)"
    "cfs_locked_at (cfp_state p) \<noteq> None"
    using locked_evaluated by (auto split: sum.splits option.splits)
  then show ?thesis using locked_baseline_final [OF _ _ rebase_step] by blast
qed

theorem recovery_finds_ancestry_witness:
  "\<exists>n report h. 0 \<le> n \<and> recover_config sample_config_library ''t'' cut_files = (Inr report, h) \<and>
    cfx_current report = (if n = 0 then None else Some (revision_id_of n)) \<and>
    set (cfx_unreferenced report) =
      {i \<in> fst ` set (cff_revisions cut_files). revision_file i \<and> i \<notin> revision_id_of ` {1..n}}"
proof -
  have "config_run sample_config_library ''t'' UNIV no_config cut_files"
    unfolding cut_files_def by (rule pin_step [OF sample_hooks(2) UNIV_I])
  from recovery_finds_ancestry [OF sample_faithful sample_unpinned this] show ?thesis
    using cut_readable by (simp add: sample_config_library_def)
qed

theorem config_commit_atomic_witness:
  "\<exists>d. cfl_bytes sample_config_library d = cfl_bytes sample_config_library sample_revision \<and>
     read_current sample_config_library ''t'' (snd (sample_commit no_config)) =
       Inr (Some \<lparr>cfp_state = pinned_state ''t'' sample_revision ''1'', cfp_revision = d, cfp_legacy = False\<rparr>)"
proof -
  have "config_run sample_config_library ''t'' UNIV no_config no_config" by simp
  from config_commit_atomic [OF sample_faithful sample_unpinned this surjective_pairing, of no_crash
      sample_revision "pinned_state ''t'' sample_revision ''1''" 0]
  show ?thesis
    using commit_evaluated unfolding sample_commit_def by (auto simp: sample_fits split: prod.splits sum.splits)
qed

theorem interrupted_pin_stuck_witness:
  "read_current sample_config_library ''t'' cut_files = Inr None \<and>
   (\<exists>e. fst (sample_pin no_crash ''2'' cut_files) = Inl e)"
proof -
  obtain stop where cut: "sample_pin crash_between ''1'' no_config = (Inl stop, cut_files)"
    "cff_revisions cut_files \<noteq> []" "cff_state cut_files = None"
    using cut_evaluated unfolding cut_files_def by (auto split: prod.splits sum.splits)
  show ?thesis
    unfolding sample_pin_def
    by (rule interrupted_pin_stuck [OF sample_faithful _ _ _ _ cut(1) [unfolded sample_pin_def] cut(2,3)
        rtranclp.rtrancl_refl surjective_pairing])
      (simp_all add: no_config_def is_letter_def)
qed

end
