(* ===== verification/Instance_Config.thy ===== *)
theory Instance_Config imports Task_Config begin

text \<open>
  The runtime configuration of one Agent instance:
  \<^verbatim>\<open>backend/harness/storage/instance_config_revisions.py\<close>. A revision is a directory with a manifest and
  two YAML files, published by one rename. The state file points to the active revision and to at
  most one pending one, and a receipt records that an external Agent applied a revision. The state is the directory
  \<^verbatim>\<open>runtime-config\<close> of the instance. A locked section is one step. JSON contracts, digests, YAML and
  the answers of the file system on directories are fields of \<open>instance_library\<close>.
\<close>

section \<open>Documents and files\<close>

record instance_manifest =
  imf_task_id :: string
  imf_instance_id :: string
  imf_revision_id :: string
  imf_parent :: "string option"
  imf_task_revision :: string
  imf_overrides :: config_tree
  imf_effective_runtime :: config_tree
  imf_model_bindings :: "(string \<times> string) list"
  imf_runtime_sha256 :: string
  imf_model_sha256 :: string
  imf_config_hash :: string
  imf_created_by :: "string \<times> string"
  imf_created_at :: string
  imf_confirmed_at :: "string option"
  imf_apply_mode :: string
  imf_apply_status :: string
  imf_branch_id :: "string option"
  imf_checkpoint_id :: "string option"
  imf_effective_from :: "string option"

record instance_pointer =
  ipt_task_id :: string
  ipt_instance_id :: string
  ipt_current :: string
  ipt_pending :: "string option"
  ipt_revision :: int
  ipt_created_at :: string
  ipt_updated_at :: string

text \<open>A receipt comes from outside: a member that is missing or no text is \<open>None\<close>. Its \<open>revision_id\<close> may be
  absent, which counts as the right one, or present as something that is no text.\<close>

record receipt =
  rcp_revision_id :: "string option option"
  rcp_branch_id :: "string option"
  rcp_checkpoint_id :: "string option"
  rcp_from_checkpoint :: "string option"
  rcp_effective_from :: "string option"
  rcp_config_hash :: "string option"
  rcp_applied_at :: "string option"

text \<open>The stored receipt also names its task and its instance.\<close>

record application = receipt +
  app_task_id :: "string option"
  app_instance_id :: "string option"

datatype raw_file = Unsafe_Raw | Raw string

record revision_files =
  rvf_manifest :: "instance_manifest stored option"
  rvf_runtime :: "raw_file option"
  rvf_model :: "raw_file option"
  rvf_others :: "string list"

text \<open>What stands under the name of a revision: its directory, a link to a directory, or something else.\<close>

datatype revision_entry = Revision_Directory revision_files | Linked_Directory | Other_Entry

record instance_files =
  icf_root :: bool
  icf_state :: "instance_pointer stored option"
  icf_revisions :: "(string \<times> revision_entry) list"
  icf_applications :: "(string \<times> application stored) list"
  icf_legacy_runtime :: "raw_file option"
  icf_legacy_model :: "raw_file option"
  icf_root_names :: "string list"
  icf_revision_names :: "string list"

type_synonym 'a iop = "(instance_files, exn, 'a) op"

text \<open>\<open>icl_load_yaml\<close> is \<open>None\<close> when the loader raises; \<open>icl_str\<close> is \<open>str\<close> on values that are no texts;
  \<open>icl_directory\<close> says whether a directory could be made, or found, private.\<close>

record instance_library =
  icl_manifest_contract :: "instance_manifest \<Rightarrow> unit res"
  icl_pointer_contract :: "instance_pointer \<Rightarrow> unit res"
  icl_manifest_bytes :: "instance_manifest \<Rightarrow> string"
  icl_pointer_bytes :: "instance_pointer \<Rightarrow> string"
  icl_application_bytes :: "application \<Rightarrow> string"
  icl_dump_yaml :: "config_tree \<Rightarrow> string"
  icl_load_yaml :: "string \<Rightarrow> config_tree option"
  icl_sha256 :: "string \<Rightarrow> string"
  icl_content_digest :: "string \<times> string \<Rightarrow> string"
  icl_legacy_digest :: "config_tree \<times> config_tree \<Rightarrow> string"
  icl_str :: "config_tree \<Rightarrow> string"
  icl_directory :: "string \<Rightarrow> unit res"

record instance_bundle =
  inb_manifest :: instance_manifest
  inb_runtime :: config_tree
  inb_model :: config_tree

record instance_current =
  icu_state :: instance_pointer
  icu_bundle :: instance_bundle
  icu_application :: "application option"
  icu_legacy :: bool

abbreviation active_id :: "instance_current \<Rightarrow> string" where
  "active_id c \<equiv> imf_revision_id (inb_manifest (icu_bundle c))"

section \<open>Values of the documents\<close>

definition text_members :: "(string \<times> string) list \<Rightarrow> (member_key \<times> config_tree) list" where
  "text_members = map (\<lambda>(k, v). (Key k, C_Text v))"

definition manifest_tree :: "instance_manifest \<Rightarrow> config_tree" where
  "manifest_tree m = C_Dict (Own ''manifest'')
     [(Key ''schema_version'', C_Text ''2.0''), (Key ''task_id'', C_Text (imf_task_id m)),
      (Key ''instance_id'', C_Text (imf_instance_id m)), (Key ''revision_id'', C_Text (imf_revision_id m)),
      (Key ''parent_revision_id'', optional_text (imf_parent m)),
      (Key ''task_config_revision_id'', C_Text (imf_task_revision m)),
      (Key ''overrides'', imf_overrides m), (Key ''effective_runtime'', imf_effective_runtime m),
      (Key ''model_bindings'', C_Dict (Own ''model_bindings'') (text_members (imf_model_bindings m))),
      (Key ''runtime_sha256'', C_Text (imf_runtime_sha256 m)),
      (Key ''model_config_sha256'', C_Text (imf_model_sha256 m)),
      (Key ''config_hash'', C_Text (imf_config_hash m)),
      (Key ''created_by'', C_Dict (Own ''created_by'')
         (text_members [(''type'', fst (imf_created_by m)), (''id'', snd (imf_created_by m))])),
      (Key ''created_at'', C_Text (imf_created_at m)),
      (Key ''confirmed_at'', optional_text (imf_confirmed_at m)),
      (Key ''apply_mode'', C_Text (imf_apply_mode m)), (Key ''apply_status'', C_Text (imf_apply_status m)),
      (Key ''branch_id'', optional_text (imf_branch_id m)),
      (Key ''checkpoint_id'', optional_text (imf_checkpoint_id m)),
      (Key ''effective_from_state'', optional_text (imf_effective_from m))]"

definition pointer_tree :: "instance_pointer \<Rightarrow> config_tree" where
  "pointer_tree s = C_Dict (Own ''state'')
     [(Key ''schema_version'', C_Text ''2.0''), (Key ''task_id'', C_Text (ipt_task_id s)),
      (Key ''instance_id'', C_Text (ipt_instance_id s)),
      (Key ''current_revision_id'', C_Text (ipt_current s)),
      (Key ''pending_revision_id'', optional_text (ipt_pending s)),
      (Key ''revision'', C_Int (ipt_revision s)), (Key ''created_at'', C_Text (ipt_created_at s)),
      (Key ''updated_at'', C_Text (ipt_updated_at s))]"

definition application_of :: "string \<Rightarrow> string \<Rightarrow> string \<Rightarrow> receipt \<Rightarrow> application" where
  "application_of task_id instance_id revision_id r =
     \<lparr>rcp_revision_id = Some (Some revision_id), rcp_branch_id = rcp_branch_id r,
      rcp_checkpoint_id = rcp_checkpoint_id r, rcp_from_checkpoint = rcp_from_checkpoint r,
      rcp_effective_from = rcp_effective_from r, rcp_config_hash = rcp_config_hash r,
      rcp_applied_at = rcp_applied_at r, app_task_id = Some task_id, app_instance_id = Some instance_id\<rparr>"

definition application_tree :: "application \<Rightarrow> config_tree" where
  "application_tree a = C_Dict (Own ''document'')
     [(Key ''schema_version'', C_Text ''1.0''), (Key ''task_id'', optional_text (app_task_id a)),
      (Key ''instance_id'', optional_text (app_instance_id a)),
      (Key ''revision_id'', optional_text (case rcp_revision_id a of None \<Rightarrow> None | Some i \<Rightarrow> i)),
      (Key ''branch_id'', optional_text (rcp_branch_id a)),
      (Key ''checkpoint_id'', optional_text (rcp_checkpoint_id a)),
      (Key ''from_checkpoint'', optional_text (rcp_from_checkpoint a)),
      (Key ''effective_from_state'', optional_text (rcp_effective_from a)),
      (Key ''config_hash'', optional_text (rcp_config_hash a)),
      (Key ''applied_at'', optional_text (rcp_applied_at a))]"

section \<open>Checks\<close>

definition validate_scope :: "string \<Rightarrow> string \<Rightarrow> unit res" where
  "validate_scope task_id instance_id =
     bindE (validate_identifier task_id ''task_id'') (\<lambda>_.
     bindE (validate_identifier instance_id ''instance_id'') (\<lambda>_. Inr ()))"

definition content_hash :: "instance_library \<Rightarrow> string \<Rightarrow> string \<Rightarrow> string" where
  "content_hash lib runtime_sha256 model_sha256 = icl_content_digest lib (runtime_sha256, model_sha256)"

definition validate_hashes ::
  "instance_library \<Rightarrow> instance_manifest \<Rightarrow> string \<Rightarrow> string \<Rightarrow> unit res" where
  "validate_hashes lib m runtime_bytes model_bytes =
     bindE (validate_public_config_tree (manifest_tree m)) (\<lambda>_.
     let runtime_sha256 = icl_sha256 lib runtime_bytes; model_sha256 = icl_sha256 lib model_bytes in
     guardE (imf_runtime_sha256 m = runtime_sha256 \<and> imf_model_sha256 m = model_sha256 \<and>
         imf_config_hash m = content_hash lib runtime_sha256 model_sha256)
       (HarnessError CONFIG_INTEGRITY_FAILED
         ''The instance configuration bundle failed its content hash checks.''
         [(''revision_id'', DStr (imf_revision_id m))]))"

definition persisted_contract :: "string \<Rightarrow> unit res \<Rightarrow> unit res" where
  "persisted_contract schema contract =
     (case contract of
        Inl e \<Rightarrow> if error_code_of e \<noteq> None then
            Inl (HarnessError CONFIG_INTEGRITY_FAILED
              ''A persisted instance configuration document failed contract validation.''
              [(''schema'', DStr schema)])
          else Inl e
      | Inr _ \<Rightarrow> Inr ())"

definition present :: "string option \<Rightarrow> bool" where
  "present s = (case s of None \<Rightarrow> False | Some t \<Rightarrow> t \<noteq> [])"

definition validate_receipt :: "instance_manifest \<Rightarrow> 'a receipt_scheme \<Rightarrow> unit res" where
  "validate_receipt m r =
     bindE (guardE (list_all present [rcp_branch_id r, rcp_checkpoint_id r, rcp_from_checkpoint r,
         rcp_effective_from r, rcp_config_hash r, rcp_applied_at r])
       (integrity ''The runtime configuration application receipt is incomplete.'')) (\<lambda>_.
     guardE (rcp_revision_id r \<in> {None, Some (Some (imf_revision_id m))} \<and>
         rcp_config_hash r = Some (imf_config_hash m) \<and> rcp_effective_from r = imf_effective_from m)
       (HarnessError CONFIG_INTEGRITY_FAILED
         ''The runtime configuration application receipt does not match its revision.''
         [(''revision_id'', DStr (imf_revision_id m))]))"

section \<open>Building a manifest\<close>

definition build_manifest ::
  "instance_library \<Rightarrow> string \<Rightarrow> string \<Rightarrow> string \<Rightarrow> string option \<Rightarrow> string \<Rightarrow> config_tree \<Rightarrow> config_tree \<Rightarrow>
   (string \<times> string) list \<Rightarrow> config_tree \<Rightarrow> config_tree \<Rightarrow> string \<times> string \<Rightarrow> string \<Rightarrow> string option \<Rightarrow> string \<Rightarrow>
   string \<Rightarrow> string option \<Rightarrow> string option \<Rightarrow> string option \<Rightarrow> instance_manifest" where
  "build_manifest lib task_id instance_id revision_id parent task_revision overrides effective bindings
     runtime model created_by created_at confirmed_at apply_mode apply_status branch_id checkpoint_id
     effective_from =
     (let runtime_sha256 = icl_sha256 lib (icl_dump_yaml lib runtime);
          model_sha256 = icl_sha256 lib (icl_dump_yaml lib model) in
      \<lparr>imf_task_id = task_id, imf_instance_id = instance_id, imf_revision_id = revision_id,
       imf_parent = parent, imf_task_revision = task_revision, imf_overrides = overrides,
       imf_effective_runtime = effective, imf_model_bindings = bindings,
       imf_runtime_sha256 = runtime_sha256, imf_model_sha256 = model_sha256,
       imf_config_hash = content_hash lib runtime_sha256 model_sha256, imf_created_by = created_by,
       imf_created_at = created_at, imf_confirmed_at = confirmed_at, imf_apply_mode = apply_mode,
       imf_apply_status = apply_status, imf_branch_id = branch_id, imf_checkpoint_id = checkpoint_id,
       imf_effective_from = effective_from\<rparr>)"

section \<open>Reading files\<close>

definition read_regular_bytes :: "string \<Rightarrow> raw_file option \<Rightarrow> string res" where
  "read_regular_bytes filename content =
     (case content of
        Some (Raw bytes) \<Rightarrow> limited filename bytes
      | _ \<Rightarrow> Inl (missing_or_unsafe filename))"

definition parse_yaml_object :: "instance_library \<Rightarrow> string \<Rightarrow> string \<Rightarrow> config_tree res" where
  "parse_yaml_object lib bytes filename =
     (case icl_load_yaml lib bytes of
        None \<Rightarrow> Inl (HarnessError CONFIG_INTEGRITY_FAILED
          ''A configuration revision YAML document is invalid.'' [(''file'', DStr filename)])
      | Some (C_Dict i ms) \<Rightarrow> Inr (C_Dict i ms)
      | Some _ \<Rightarrow> Inl (HarnessError CONFIG_INTEGRITY_FAILED
          ''A configuration revision YAML document must be an object.'' [(''file'', DStr filename)]))"

section \<open>The legacy configuration\<close>

text \<open>\<open>document.get(key)\<close>, where \<open>None\<close> is a missing key.\<close>

definition entry :: "string \<Rightarrow> config_tree \<Rightarrow> config_tree option" where
  "entry key v = (case v of C_Dict _ ms \<Rightarrow> map_of ms (Key key) | _ \<Rightarrow> None)"

definition entry_or :: "config_tree \<Rightarrow> string \<Rightarrow> config_tree \<Rightarrow> config_tree" where
  "entry_or fallback key v = (case entry key v of None \<Rightarrow> fallback | Some x \<Rightarrow> x)"

definition required_entry :: "string \<Rightarrow> config_tree \<Rightarrow> config_tree res" where
  "required_entry key v = (case entry key v of None \<Rightarrow> Inl (KeyError key) | Some x \<Rightarrow> Inr x)"

definition materialization_fields :: "string list" where
  "materialization_fields = [''source_config_revision'', ''config_hash'', ''generated_at'']"

definition without_metadata :: "string \<Rightarrow> config_tree \<Rightarrow> config_tree" where
  "without_metadata own v =
     (case v of
        C_Dict _ ms \<Rightarrow> C_Dict (Own own) (filter (\<lambda>(k, x). k \<notin> Key ` set materialization_fields) ms)
      | _ \<Rightarrow> v)"

definition text_entry :: "string \<Rightarrow> config_tree \<Rightarrow> string option" where
  "text_entry key v = (case entry key v of Some (C_Text s) \<Rightarrow> Some s | _ \<Rightarrow> None)"

definition validate_legacy_metadata :: "instance_library \<Rightarrow> config_tree \<Rightarrow> config_tree \<Rightarrow> unit res" where
  "validate_legacy_metadata lib runtime model =
     bindE (guardE (list_all (\<lambda>key. present (text_entry key runtime) \<and>
           text_entry key model = text_entry key runtime) materialization_fields)
       (integrity ''The legacy configuration metadata is inconsistent.'')) (\<lambda>_.
     guardE (Some (icl_legacy_digest lib
           (without_metadata ''runtime'' runtime, without_metadata ''model_config'' model)) =
         text_entry ''config_hash'' runtime)
       (integrity ''The legacy configuration hash is invalid.''))"

definition model_states :: "string list" where
  "model_states = [''intake_clarify'', ''confirmation_build'', ''initial_candidate_generation'',
     ''self_check_inspection'', ''self_check_rework'', ''human_prompt_rework'']"

definition as_text :: "instance_library \<Rightarrow> config_tree \<Rightarrow> string" where
  "as_text lib v = (case v of C_Text s \<Rightarrow> s | _ \<Rightarrow> icl_str lib v)"

text \<open>The binding that one item of \<open>state_bindings\<close> adds to the dictionary.\<close>

definition add_binding ::
  "instance_library \<Rightarrow> config_tree \<Rightarrow> (string \<times> string) list \<Rightarrow> (string \<times> string) list" where
  "add_binding lib item bindings =
     (case text_entry ''state'' item of
        Some s \<Rightarrow> if s \<in> set model_states
          then AList.update s (as_text lib (entry_or C_Null ''model'' item)) bindings else bindings
      | None \<Rightarrow> bindings)"

definition legacy_bindings :: "instance_library \<Rightarrow> config_tree \<Rightarrow> (string \<times> string) list res" where
  "legacy_bindings lib model =
     (case entry ''state_bindings'' model of
        Some (C_List _ items) \<Rightarrow>
          let bindings = fold (add_binding lib) items [] in
          bindE (guardE (set (map fst bindings) = set model_states \<and> list_all (\<lambda>(k, v). v \<noteq> []) bindings)
            (integrity ''The legacy model bindings are incomplete.'')) (\<lambda>_. Inr bindings)
      | _ \<Rightarrow> Inl (integrity ''The legacy model bindings are invalid.''))"

definition legacy_effective_runtime :: "config_tree \<Rightarrow> config_tree res" where
  "legacy_effective_runtime runtime =
     (let empty = C_Dict (Own ''self_check'') [];
          self_check = (case entry_or empty ''self_check'' runtime of C_Dict i ms \<Rightarrow> C_Dict i ms | _ \<Rightarrow> empty) in
      bindE (required_entry ''candidate_concurrency'' runtime) (\<lambda>concurrency.
      bindE (required_entry ''default_output_size'' runtime) (\<lambda>output_size.
      bindE (required_entry ''response_format'' runtime) (\<lambda>response_format.
      bindE (required_entry ''watermark'' runtime) (\<lambda>watermark.
      Inr (C_Dict (Own ''effective_runtime'')
        [(Key ''question_preference'', entry_or (C_Text ''proactive'') ''question_preference'' runtime),
         (Key ''max_auto_questions'', entry_or (C_Int 3) ''max_auto_questions'' runtime),
         (Key ''clarification_total_budget'', entry_or (C_Int 10) ''clarification_total_budget'' runtime),
         (Key ''candidate_concurrency'', concurrency), (Key ''default_output_size'', output_size),
         (Key ''response_format'', response_format), (Key ''watermark'', watermark),
         (Key ''self_check'', C_Dict (Own ''effective_self_check'')
           [(Key ''termination'', entry_or (C_Text ''solo'') ''termination'' self_check),
            (Key ''fixed_rounds'', entry_or (C_Int 2) ''fixed_rounds'' self_check),
            (Key ''max_rounds'', entry_or (C_Int 4) ''max_rounds'' self_check),
            (Key ''stop_early_on_pass'', entry_or (C_Bool False) ''stop_early_on_pass'' self_check)])]))))))"

definition first_instance_revision :: string where
  "first_instance_revision = ''cfg-inst-r000001''"

definition legacy_manifest ::
  "instance_library \<Rightarrow> string \<Rightarrow> string \<Rightarrow> string \<Rightarrow> string \<Rightarrow> string \<Rightarrow> (string \<times> string) list \<Rightarrow> config_tree \<Rightarrow>
   instance_manifest" where
  "legacy_manifest lib task_id instance_id runtime_bytes model_bytes created_at bindings effective =
     (let runtime_sha256 = icl_sha256 lib runtime_bytes; model_sha256 = icl_sha256 lib model_bytes in
      \<lparr>imf_task_id = task_id, imf_instance_id = instance_id, imf_revision_id = first_instance_revision,
       imf_parent = None, imf_task_revision = first_revision_id,
       imf_overrides = C_Dict (Own ''overrides'') [], imf_effective_runtime = effective,
       imf_model_bindings = bindings, imf_runtime_sha256 = runtime_sha256,
       imf_model_sha256 = model_sha256, imf_config_hash = content_hash lib runtime_sha256 model_sha256,
       imf_created_by = (''system'', ''legacy_migration''), imf_created_at = created_at,
       imf_confirmed_at = Some created_at, imf_apply_mode = ''before_start'', imf_apply_status = ''APPLIED'',
       imf_branch_id = None, imf_checkpoint_id = None, imf_effective_from = Some ''initial''\<rparr>)"

definition legacy_pointer :: "string \<Rightarrow> string \<Rightarrow> string \<Rightarrow> instance_pointer" where
  "legacy_pointer task_id instance_id created_at =
     \<lparr>ipt_task_id = task_id, ipt_instance_id = instance_id, ipt_current = first_instance_revision,
      ipt_pending = None, ipt_revision = 1, ipt_created_at = created_at, ipt_updated_at = created_at\<rparr>"

definition legacy_bundle ::
  "instance_library \<Rightarrow> string \<Rightarrow> string \<Rightarrow> instance_files \<Rightarrow> instance_current option res" where
  "legacy_bundle lib task_id instance_id f =
     (if icf_legacy_runtime f = None \<and> icf_legacy_model f = None then Inr None
      else if icf_legacy_runtime f = None \<or> icf_legacy_model f = None
      then Inl (integrity ''The legacy instance configuration is incomplete.'')
      else
        bindE (read_regular_bytes ''runtime.yaml'' (icf_legacy_runtime f)) (\<lambda>runtime_bytes.
        bindE (read_regular_bytes ''model_config.yaml'' (icf_legacy_model f)) (\<lambda>model_bytes.
        bindE (parse_yaml_object lib runtime_bytes ''runtime.yaml'') (\<lambda>runtime.
        bindE (parse_yaml_object lib model_bytes ''model_config.yaml'') (\<lambda>model.
        bindE (validate_config_tree_shape runtime) (\<lambda>_.
        bindE (validate_config_tree_shape model) (\<lambda>_.
        bindE (validate_legacy_metadata lib runtime model) (\<lambda>_.
        bindE (legacy_bindings lib model) (\<lambda>bindings.
        bindE (required_entry ''generated_at'' runtime) (\<lambda>generated_at.
        bindE (legacy_effective_runtime runtime) (\<lambda>effective.
        let created_at = as_text lib generated_at;
            m = legacy_manifest lib task_id instance_id runtime_bytes model_bytes created_at bindings effective;
            s = legacy_pointer task_id instance_id created_at in
        bindE (persisted_contract ''instance-runtime-config-manifest'' (icl_manifest_contract lib m)) (\<lambda>_.
        bindE (persisted_contract ''instance-runtime-config-state'' (icl_pointer_contract lib s)) (\<lambda>_.
        Inr (Some \<lparr>icu_state = s,
          icu_bundle = \<lparr>inb_manifest = m, inb_runtime = runtime, inb_model = model\<rparr>,
          icu_application = None, icu_legacy = True\<rparr>))))))))))))))"

section \<open>Reading\<close>

definition no_revision_files :: revision_files where
  "no_revision_files = \<lparr>rvf_manifest = None, rvf_runtime = None, rvf_model = None, rvf_others = []\<rparr>"

text \<open>Behind a link, or in something that is no directory, no file can be opened.\<close>

definition files_of :: "revision_entry option \<Rightarrow> revision_files" where
  "files_of p = (case p of Some (Revision_Directory d) \<Rightarrow> d | _ \<Rightarrow> no_revision_files)"

definition read_directory ::
  "instance_library \<Rightarrow> string \<Rightarrow> string \<Rightarrow> string \<Rightarrow> revision_files \<Rightarrow> instance_bundle res" where
  "read_directory lib task_id instance_id revision_id d =
     bindE (read_json_object (icl_manifest_bytes lib) ''manifest.json'' (rvf_manifest d)) (\<lambda>m.
     bindE (persisted_contract ''instance-runtime-config-manifest'' (icl_manifest_contract lib m)) (\<lambda>_.
     bindE (guardE (imf_task_id m = task_id \<and> imf_instance_id m = instance_id \<and>
         imf_revision_id m = revision_id)
       (integrity ''The instance configuration revision identity is inconsistent.'')) (\<lambda>_.
     bindE (guardE (imf_parent m \<noteq> Some revision_id)
       (integrity ''An instance configuration revision cannot be its own parent.'')) (\<lambda>_.
     bindE (read_regular_bytes ''runtime.yaml'' (rvf_runtime d)) (\<lambda>runtime_bytes.
     bindE (read_regular_bytes ''model_config.yaml'' (rvf_model d)) (\<lambda>model_bytes.
     bindE (validate_hashes lib m runtime_bytes model_bytes) (\<lambda>_.
     bindE (parse_yaml_object lib runtime_bytes ''runtime.yaml'') (\<lambda>runtime.
     bindE (parse_yaml_object lib model_bytes ''model_config.yaml'') (\<lambda>model.
     bindE (validate_public_config_tree runtime) (\<lambda>_.
     bindE (validate_public_config_tree model) (\<lambda>_.
     Inr \<lparr>inb_manifest = m, inb_runtime = runtime, inb_model = model\<rparr>)))))))))))"

definition read_instance_revision ::
  "instance_library \<Rightarrow> string \<Rightarrow> string \<Rightarrow> instance_files \<Rightarrow> string \<Rightarrow> instance_bundle res" where
  "read_instance_revision lib task_id instance_id f revision_id =
     bindE (validate_scope task_id instance_id) (\<lambda>_.
     bindE (validate_identifier revision_id ''revision_id'') (\<lambda>_.
     let entry = map_of (icf_revisions f) revision_id in
     bindE (if entry = None \<and> revision_id = first_instance_revision
            then legacy_bundle lib task_id instance_id f else Inr None) (\<lambda>legacy.
     case legacy of
       Some c \<Rightarrow> Inr (icu_bundle c)
     | None \<Rightarrow> read_directory lib task_id instance_id revision_id (files_of entry))))"

definition read_application ::
  "instance_library \<Rightarrow> string \<Rightarrow> string \<Rightarrow> instance_files \<Rightarrow> string \<Rightarrow> application option res" where
  "read_application lib task_id instance_id f revision_id =
     (case map_of (icf_applications f) revision_id of
        None \<Rightarrow> Inr None
      | Some content \<Rightarrow>
          bindE (read_json_object (icl_application_bytes lib) (revision_id @ ''.json'') (Some content)) (\<lambda>a.
          bindE (read_instance_revision lib task_id instance_id f revision_id) (\<lambda>b.
          bindE (validate_receipt (inb_manifest b) a) (\<lambda>_. Inr (Some a)))))"

definition read_instance ::
  "instance_library \<Rightarrow> string \<Rightarrow> string \<Rightarrow> instance_files \<Rightarrow> instance_current option res" where
  "read_instance lib task_id instance_id f =
     bindE (validate_scope task_id instance_id) (\<lambda>_.
     if icf_state f = None then legacy_bundle lib task_id instance_id f
     else
       bindE (read_json_object (icl_pointer_bytes lib) ''state.json'' (icf_state f)) (\<lambda>s.
       bindE (persisted_contract ''instance-runtime-config-state'' (icl_pointer_contract lib s)) (\<lambda>_.
       bindE (validate_public_config_tree (pointer_tree s)) (\<lambda>_.
       bindE (guardE (ipt_task_id s = task_id \<and> ipt_instance_id s = instance_id)
         (integrity ''The instance configuration state has the wrong scope.'')) (\<lambda>_.
       bindE (read_instance_revision lib task_id instance_id f (ipt_current s)) (\<lambda>b.
       bindE (if imf_apply_status (inb_manifest b) = ''APPLIED'' then Inr None
          else bindE (read_application lib task_id instance_id f (ipt_current s)) (\<lambda>receipt.
            bindE (guardE (receipt \<noteq> None)
              (integrity ''The active instance configuration revision is not applied.'')) (\<lambda>_.
            Inr receipt))) (\<lambda>receipt.
       bindE (case ipt_pending s of
           None \<Rightarrow> Inr ()
         | Some p \<Rightarrow>
             bindE (guardE (p \<noteq> ipt_current s)
               (integrity ''The pending instance revision is already current.'')) (\<lambda>_.
             bindE (read_instance_revision lib task_id instance_id f p) (\<lambda>_. Inr ()))) (\<lambda>_.
       Inr (Some \<lparr>icu_state = s, icu_bundle = b, icu_application = receipt, icu_legacy = False\<rparr>)))))))))"

section \<open>Publishing a revision\<close>

definition ensure_private :: "instance_library \<Rightarrow> string \<Rightarrow> unit iop" where
  "ensure_private lib name = liftE (icl_directory lib name)"

text \<open>\<open>initialize_instance\<close>, and the private directory of the configuration.\<close>

definition ensure_root :: "instance_library \<Rightarrow> unit iop" where
  "ensure_root lib =
     bindS (ensure_private lib ''instance'') (\<lambda>_.
     bindS (ensure_private lib ''runtime-config'') (\<lambda>_.
     modifyS (\<lambda>f. f\<lparr>icf_root := True\<rparr>)))"

definition verify_existing_directory ::
  "instance_library \<Rightarrow> string \<Rightarrow> revision_entry \<Rightarrow> instance_manifest \<Rightarrow> string \<Rightarrow> string \<Rightarrow> unit res" where
  "verify_existing_directory lib revision_id p m runtime_bytes model_bytes =
     (let reused = settings_conflict
            ''An immutable configuration revision ID was reused with different content.''
            [(''revision_id'', DStr revision_id)] in
      case p of
        Revision_Directory d \<Rightarrow>
          bindE (guardE (rvf_manifest d \<noteq> None \<and> rvf_runtime d \<noteq> None \<and> rvf_model d \<noteq> None \<and> rvf_others d = [])
            (HarnessError CONFIG_INTEGRITY_FAILED
              ''An immutable configuration revision has an unexpected file set.''
              [(''revision_id'', DStr revision_id)])) (\<lambda>_.
          bindE (case rvf_manifest d of
              Some (Document n) \<Rightarrow> bindE (limited ''manifest.json'' (icl_manifest_bytes lib n)) (\<lambda>bytes.
                guardE (bytes = icl_manifest_bytes lib m) reused)
            | Some (Odd_File _) \<Rightarrow> Inl reused
            | _ \<Rightarrow> Inl (missing_or_unsafe ''manifest.json'')) (\<lambda>_.
          bindE (read_regular_bytes ''runtime.yaml'' (rvf_runtime d)) (\<lambda>runtime.
          bindE (guardE (runtime = runtime_bytes) reused) (\<lambda>_.
          bindE (read_regular_bytes ''model_config.yaml'' (rvf_model d)) (\<lambda>model.
          guardE (model = model_bytes) reused)))))
      | _ \<Rightarrow> Inl (HarnessError CONFIG_INTEGRITY_FAILED
          ''An immutable configuration revision path is unsafe.'' [(''revision_id'', DStr revision_id)]))"

text \<open>An exception that an \<open>except Exception\<close> clause catches.\<close>

definition caught :: "exn \<Rightarrow> bool" where
  "caught e = (case e of SimulatedCrash _ \<Rightarrow> False | _ \<Rightarrow> True)"

text \<open>The files are staged in a directory of the fresh name \<open>staging\<close>. An exception removes it; the end of the
  process leaves it behind. The rename publishes all files at once.\<close>

definition publish_immutable_directory ::
  "instance_library \<Rightarrow> (string \<Rightarrow> unit res) \<Rightarrow> string \<Rightarrow> instance_manifest \<Rightarrow> string \<Rightarrow> string \<Rightarrow> bool iop" where
  "publish_immutable_directory lib hook staging m runtime_bytes model_bytes =
     bindS (ensure_private lib ''revisions'') (\<lambda>_.
     bindS (readS (\<lambda>f. Inr (map_of (icf_revisions f) (imf_revision_id m)))) (\<lambda>existing.
     case existing of
       Some p \<Rightarrow>
         bindS (liftE (verify_existing_directory lib (imf_revision_id m) p m runtime_bytes model_bytes))
           (\<lambda>_. returnS False)
     | None \<Rightarrow>
         (case hook ''after_revision_staged'' of
            Inl e \<Rightarrow>
              bindS (whenS (\<not> caught e)
                (modifyS (\<lambda>f. f\<lparr>icf_revision_names := staging # icf_revision_names f\<rparr>))) (\<lambda>_. throwS e)
          | Inr _ \<Rightarrow>
              bindS (modifyS (\<lambda>f. f\<lparr>icf_revisions := (imf_revision_id m, Revision_Directory
                \<lparr>rvf_manifest = Some (Document m), rvf_runtime = Some (Raw runtime_bytes),
                 rvf_model = Some (Raw model_bytes), rvf_others = []\<rparr>) # icf_revisions f\<rparr>)) (\<lambda>_.
              bindS (liftE (hook ''after_revision_published'')) (\<lambda>_. returnS True)))))"

definition check_bundle ::
  "instance_library \<Rightarrow> string \<Rightarrow> string \<Rightarrow> instance_manifest \<Rightarrow> config_tree \<Rightarrow> config_tree \<Rightarrow> unit res" where
  "check_bundle lib task_id instance_id m runtime model =
     bindE (validate_scope task_id instance_id) (\<lambda>_.
     bindE (icl_manifest_contract lib m) (\<lambda>_.
     bindE (guardE (imf_task_id m = task_id \<and> imf_instance_id m = instance_id)
       (config_invalid ''The runtime configuration manifest has the wrong scope.'')) (\<lambda>_.
     bindE (guardE (imf_parent m \<noteq> Some (imf_revision_id m))
       (config_invalid ''A runtime configuration revision cannot be its own parent.'')) (\<lambda>_.
     bindE (validate_public_config_tree runtime) (\<lambda>_.
     bindE (validate_public_config_tree model) (\<lambda>_.
     validate_hashes lib m (icl_dump_yaml lib runtime) (icl_dump_yaml lib model)))))))"

definition write_revision ::
  "instance_library \<Rightarrow> (string \<Rightarrow> unit res) \<Rightarrow> string \<Rightarrow> string \<Rightarrow> string \<Rightarrow> instance_manifest \<Rightarrow> config_tree \<Rightarrow>
   config_tree \<Rightarrow> instance_bundle iop" where
  "write_revision lib hook staging task_id instance_id m runtime model =
     bindS (liftE (check_bundle lib task_id instance_id m runtime model)) (\<lambda>_.
     bindS (ensure_root lib) (\<lambda>_.
     bindS (ensure_private lib ''proposals'') (\<lambda>_.
     bindS (ensure_private lib ''revisions'') (\<lambda>_.
     bindS (liftE (validate_identifier (imf_revision_id m) ''revision_id'')) (\<lambda>_.
     bindS (publish_immutable_directory lib hook staging m
       (icl_dump_yaml lib runtime) (icl_dump_yaml lib model)) (\<lambda>_.
     returnS \<lparr>inb_manifest = m, inb_runtime = runtime, inb_model = model\<rparr>))))))"

section \<open>The next identifier\<close>

definition instance_revision_id :: "int \<Rightarrow> string" where
  "instance_revision_id n = ''cfg-inst-r'' @ six_digits n"

text \<open>The glob pattern of six digits, on directories.\<close>

definition numbered_directory :: "string \<times> revision_entry \<Rightarrow> bool" where
  "numbered_directory e =
     (case e of (name, p) \<Rightarrow> p \<noteq> Other_Entry \<and> take 10 name = ''cfg-inst-r'' \<and> length name = 16 \<and>
        list_all is_digit (drop 10 name))"

definition next_revision_id ::
  "instance_library \<Rightarrow> string \<Rightarrow> string \<Rightarrow> instance_files \<Rightarrow> string res" where
  "next_revision_id lib task_id instance_id f =
     bindE (validate_scope task_id instance_id) (\<lambda>_.
     bindE (mapE revision_sequence (map fst (filter numbered_directory (icf_revisions f)))) (\<lambda>sequences.
     bindE (read_instance lib task_id instance_id f) (\<lambda>current.
     bindE (case current of
         None \<Rightarrow> Inr sequences
       | Some c \<Rightarrow> bindE (revision_sequence (active_id c)) (\<lambda>n. Inr (sequences @ [n]))) (\<lambda>sequences.
     Inr (instance_revision_id ((if sequences = [] then 0 else Max (set sequences)) + 1))))))"

section \<open>Receipts\<close>

definition record_application ::
  "instance_library \<Rightarrow> string \<Rightarrow> string \<Rightarrow> string \<Rightarrow> receipt \<Rightarrow> application iop" where
  "record_application lib task_id instance_id revision_id r =
     bindS (liftE (validate_scope task_id instance_id)) (\<lambda>_.
     bindS (liftE (validate_identifier revision_id ''revision_id'')) (\<lambda>_.
     bindS (readS (\<lambda>f. read_instance_revision lib task_id instance_id f revision_id)) (\<lambda>b.
     bindS (liftE (validate_receipt (inb_manifest b) r)) (\<lambda>_.
     let a = application_of task_id instance_id revision_id r;
         changed = HarnessError CONFIG_INTEGRITY_FAILED
           ''The runtime configuration application receipt changed after publication.''
           [(''revision_id'', DStr revision_id)] in
     bindS (liftE (validate_public_config_tree (application_tree a))) (\<lambda>_.
     bindS (ensure_private lib ''applications'') (\<lambda>_.
     bindS (readS (\<lambda>f. Inr (map_of (icf_applications f) revision_id))) (\<lambda>existing.
     case existing of
       Some (Document old) \<Rightarrow>
         bindS (liftE (limited (revision_id @ ''.json'') (icl_application_bytes lib old))) (\<lambda>bytes.
         bindS (liftE (guardE (bytes = icl_application_bytes lib a) changed)) (\<lambda>_.
         returnS a))
     | Some (Odd_File _) \<Rightarrow> throwS changed
     | Some Unsafe_File \<Rightarrow> throwS (missing_or_unsafe (revision_id @ ''.json''))
     | None \<Rightarrow>
         bindS (modifyS (\<lambda>f. f\<lparr>icf_applications := (revision_id, Document a) # icf_applications f\<rparr>)) (\<lambda>_.
         returnS a))))))))"

section \<open>The pointer\<close>

definition write_pointer :: "instance_pointer \<Rightarrow> unit iop" where
  "write_pointer s = modifyS (\<lambda>f. f\<lparr>icf_state := Some (Document s)\<rparr>)"

definition pointer_number :: "instance_current option \<Rightarrow> int" where
  "pointer_number current = (case current of None \<Rightarrow> 0 | Some c \<Rightarrow> ipt_revision (icu_state c))"

definition check_expected :: "int \<Rightarrow> int \<Rightarrow> unit res" where
  "check_expected actual expected =
     guardE (actual = expected)
       (settings_conflict ''The instance configuration state changed after it was read.''
         [(''expected_revision'', DInt expected), (''actual_revision'', DInt actual)])"

definition next_pointer ::
  "string \<Rightarrow> string \<Rightarrow> instance_current option \<Rightarrow> string \<Rightarrow> int \<Rightarrow> string \<Rightarrow> instance_pointer" where
  "next_pointer task_id instance_id current revision_id expected updated_at =
     \<lparr>ipt_task_id = task_id, ipt_instance_id = instance_id, ipt_current = revision_id, ipt_pending = None,
      ipt_revision = expected + 1,
      ipt_created_at = (case current of None \<Rightarrow> updated_at | Some c \<Rightarrow> ipt_created_at (icu_state c)),
      ipt_updated_at = updated_at\<rparr>"

text \<open>The receipt of an activation is checked and recorded before the parent of the revision is checked.\<close>

definition accept_receipt ::
  "instance_library \<Rightarrow> string \<Rightarrow> string \<Rightarrow> string \<Rightarrow> instance_manifest \<Rightarrow> receipt option \<Rightarrow> unit iop" where
  "accept_receipt lib task_id instance_id revision_id m receipt =
     bindS (liftE (guardE (imf_apply_status m = ''APPLIED'' \<or> receipt \<noteq> None)
       (HarnessError INVALID_STATE_TRANSITION ''Only an applied configuration revision may become current.''
         [(''revision_id'', DStr revision_id)]))) (\<lambda>_.
     case receipt of
       None \<Rightarrow> returnS ()
     | Some r \<Rightarrow> bindS (liftE (validate_receipt m r)) (\<lambda>_.
         bindS (record_application lib task_id instance_id revision_id r) (\<lambda>_. returnS ())))"

definition publish_pointer ::
  "instance_library \<Rightarrow> (string \<Rightarrow> unit res) \<Rightarrow> instance_pointer \<Rightarrow> instance_pointer iop" where
  "publish_pointer lib hook s =
     bindS (liftE (icl_pointer_contract lib s)) (\<lambda>_.
     bindS (liftE (validate_public_config_tree (pointer_tree s))) (\<lambda>_.
     bindS (ensure_root lib) (\<lambda>_.
     bindS (write_pointer s) (\<lambda>_.
     bindS (liftE (hook ''after_instance_state_published'')) (\<lambda>_.
     returnS s)))))"

definition set_current ::
  "instance_library \<Rightarrow> (string \<Rightarrow> unit res) \<Rightarrow> string \<Rightarrow> string \<Rightarrow> string \<Rightarrow> int \<Rightarrow> string \<Rightarrow> receipt option \<Rightarrow>
   instance_pointer iop" where
  "set_current lib hook task_id instance_id revision_id expected updated_at receipt =
     bindS (liftE (validate_scope task_id instance_id)) (\<lambda>_.
     bindS (liftE (validate_identifier revision_id ''revision_id'')) (\<lambda>_.
     bindS (readS (read_instance lib task_id instance_id)) (\<lambda>current.
     bindS (liftE (check_expected (pointer_number current) expected)) (\<lambda>_.
     bindS (readS (\<lambda>f. read_instance_revision lib task_id instance_id f revision_id)) (\<lambda>target.
     let m = inb_manifest target; expected_parent = map_option active_id current in
     bindS (accept_receipt lib task_id instance_id revision_id m receipt) (\<lambda>_.
     bindS (liftE (guardE (imf_parent m = expected_parent)
       (settings_conflict ''The instance configuration revision parent is stale.''
         [(''expected_parent_revision_id'',
           case expected_parent of None \<Rightarrow> DNull | Some p \<Rightarrow> DStr p)]))) (\<lambda>_.
     publish_pointer lib hook
       (next_pointer task_id instance_id current revision_id expected updated_at))))))))"

text \<open>The write that \<open>set_pending\<close> and \<open>clear_pending\<close> end with.\<close>

definition write_pending ::
  "instance_library \<Rightarrow> instance_pointer \<Rightarrow> string option \<Rightarrow> int \<Rightarrow> string \<Rightarrow> instance_pointer iop" where
  "write_pending lib s pending expected updated_at =
     (let updated = s\<lparr>ipt_pending := pending, ipt_revision := expected + 1, ipt_updated_at := updated_at\<rparr> in
      bindS (liftE (icl_pointer_contract lib updated)) (\<lambda>_.
      bindS (liftE (validate_public_config_tree (pointer_tree updated))) (\<lambda>_.
      bindS (write_pointer updated) (\<lambda>_.
      returnS updated))))"

text \<open>Both begin by reading the state and comparing its revision.\<close>

definition expected_pointer ::
  "instance_library \<Rightarrow> string \<Rightarrow> string \<Rightarrow> string \<Rightarrow> int \<Rightarrow> instance_pointer iop" where
  "expected_pointer lib task_id instance_id revision_id expected =
     bindS (liftE (validate_scope task_id instance_id)) (\<lambda>_.
     bindS (liftE (validate_identifier revision_id ''revision_id'')) (\<lambda>_.
     bindS (readS (read_instance lib task_id instance_id)) (\<lambda>current.
     case current of
       None \<Rightarrow> throwS (integrity ''A pending revision requires an active instance baseline.'')
     | Some c \<Rightarrow>
         bindS (liftE (check_expected (ipt_revision (icu_state c)) expected)) (\<lambda>_.
         returnS (icu_state c)))))"

definition other_pending :: "string option \<Rightarrow> exn" where
  "other_pending existing =
     settings_conflict ''Another runtime configuration revision is already pending.''
       [(''pending_revision_id'', case existing of None \<Rightarrow> DNull | Some p \<Rightarrow> DStr p)]"

definition set_pending ::
  "instance_library \<Rightarrow> string \<Rightarrow> string \<Rightarrow> string \<Rightarrow> int \<Rightarrow> string \<Rightarrow> instance_pointer iop" where
  "set_pending lib task_id instance_id revision_id expected updated_at =
     bindS (expected_pointer lib task_id instance_id revision_id expected) (\<lambda>s.
     bindS (liftE (guardE (ipt_pending s \<in> {None, Some revision_id}) (other_pending (ipt_pending s)))) (\<lambda>_.
     bindS (readS (\<lambda>f. read_instance_revision lib task_id instance_id f revision_id)) (\<lambda>_.
     if ipt_pending s = Some revision_id then returnS s
     else write_pending lib s (Some revision_id) expected updated_at)))"

definition clear_pending ::
  "instance_library \<Rightarrow> string \<Rightarrow> string \<Rightarrow> string \<Rightarrow> int \<Rightarrow> string \<Rightarrow> instance_pointer iop" where
  "clear_pending lib task_id instance_id revision_id expected updated_at =
     bindS (expected_pointer lib task_id instance_id revision_id expected) (\<lambda>s.
     if ipt_pending s = None then returnS s
     else
       bindS (liftE (guardE (ipt_pending s = Some revision_id) (other_pending (ipt_pending s)))) (\<lambda>_.
       write_pending lib s None expected updated_at))"

section \<open>Recovery\<close>

definition recover_temporary_paths :: "instance_library \<Rightarrow> string \<Rightarrow> string list \<Rightarrow> string list res" where
  "recover_temporary_paths lib name names =
     bindE (icl_directory lib name) (\<lambda>_. Inr (filter temporary_name (sort names)))"

definition recover_instance ::
  "instance_library \<Rightarrow> string \<Rightarrow> string \<Rightarrow> (string list \<times> string option) iop" where
  "recover_instance lib task_id instance_id =
     bindS (liftE (validate_scope task_id instance_id)) (\<lambda>_.
     bindS (readS (\<lambda>f. Inr (icf_root f))) (\<lambda>root.
     if \<not> root then returnS ([], None)
     else
       bindS (readS (\<lambda>f. recover_temporary_paths lib ''runtime-config'' (icf_root_names f))) (\<lambda>in_root.
       bindS (modifyS (\<lambda>f. f\<lparr>icf_root_names := filter (\<lambda>n. \<not> temporary_name n) (icf_root_names f)\<rparr>)) (\<lambda>_.
       bindS (readS (\<lambda>f. recover_temporary_paths lib ''revisions'' (icf_revision_names f))) (\<lambda>in_revisions.
       bindS (modifyS (\<lambda>f. f\<lparr>icf_revision_names := filter (\<lambda>n. \<not> temporary_name n) (icf_revision_names f)\<rparr>)) (\<lambda>_.
       bindS (readS (read_instance lib task_id instance_id)) (\<lambda>current.
       returnS (in_root @ in_revisions, map_option active_id current))))))))"

end
