(* ===== verification/Instance_Config_Frames.thy ===== *)
theory Instance_Config_Frames imports Instance_Config Task_Config_Properties begin

text \<open>
  What the operations on the runtime configuration of an instance read and write: inversion rules of the
  readers, the outcomes of every operation, the step relation \<open>instance_step\<close>, and the locale
  \<open>instance_frame\<close>, in which an invariant that the single writes keep is kept by every run.
\<close>

section \<open>What the readers accept\<close>

lemma persisted_contract_Inr [monad]: "persisted_contract n c = Inr u \<longleftrightarrow> c = Inr ()"
  by (auto simp: persisted_contract_def split: sum.splits if_splits)

lemma persisted_contract_ok [simp]: "persisted_contract n (Inr u) = Inr ()"
  by (simp add: persisted_contract_def)

lemma validate_scope_Inr [monad]: "validate_scope t i = Inr u \<longleftrightarrow> is_identifier t \<and> is_identifier i"
  by (auto simp: validate_scope_def monad)

lemma read_regular_bytes_Inr [monad]:
  "read_regular_bytes n c = Inr b \<longleftrightarrow> c = Some (Raw b) \<and> length b \<le> max_config_file_bytes"
  by (auto simp: read_regular_bytes_def monad split: option.splits raw_file.splits)

definition is_object :: "config_tree \<Rightarrow> bool" where
  "is_object v = (case v of C_Dict _ _ \<Rightarrow> True | _ \<Rightarrow> False)"

lemma parse_yaml_object_Inr [monad]:
  "parse_yaml_object lib b n = Inr v \<longleftrightarrow> icl_load_yaml lib b = Some v \<and> is_object v"
  by (auto simp: parse_yaml_object_def is_object_def split: option.splits config_tree.splits)

lemma legacy_bundle_Some:
  assumes "legacy_bundle lib t i f = Inr (Some c)"
  shows "active_id c = first_instance_revision" and "imf_parent (inb_manifest (icu_bundle c)) = None"
    and "ipt_current (icu_state c) = first_instance_revision" and "ipt_pending (icu_state c) = None"
  using assms
  by (auto simp: legacy_bundle_def legacy_manifest_def legacy_pointer_def monad Let_def split: if_splits)

lemma read_directory_Inr:
  "read_directory lib t i r d = Inr b \<longleftrightarrow>
     (\<exists>m runtime_bytes model_bytes. rvf_manifest d = Some (Document m) \<and> inb_manifest b = m \<and>
       length (icl_manifest_bytes lib m) \<le> max_config_file_bytes \<and>
       icl_manifest_contract lib m = Inr () \<and> imf_task_id m = t \<and> imf_instance_id m = i \<and>
       imf_revision_id m = r \<and> imf_parent m \<noteq> Some r \<and>
       rvf_runtime d = Some (Raw runtime_bytes) \<and> length runtime_bytes \<le> max_config_file_bytes \<and>
       rvf_model d = Some (Raw model_bytes) \<and> length model_bytes \<le> max_config_file_bytes \<and>
       validate_hashes lib m runtime_bytes model_bytes = Inr () \<and>
       icl_load_yaml lib runtime_bytes = Some (inb_runtime b) \<and> is_object (inb_runtime b) \<and>
       icl_load_yaml lib model_bytes = Some (inb_model b) \<and> is_object (inb_model b) \<and>
       validate_public_config_tree (inb_runtime b) = Inr () \<and> validate_public_config_tree (inb_model b) = Inr ())"
  unfolding read_directory_def by (cases b) (auto simp: monad)

lemma read_instance_revision_Inr:
  "read_instance_revision lib t i f r = Inr b \<longleftrightarrow> is_identifier t \<and> is_identifier i \<and> is_identifier r \<and>
     (if map_of (icf_revisions f) r = None \<and> r = first_instance_revision \<and> legacy_bundle lib t i f \<noteq> Inr None
      then \<exists>c. legacy_bundle lib t i f = Inr (Some c) \<and> b = icu_bundle c
      else read_directory lib t i r (files_of (map_of (icf_revisions f) r)) = Inr b)"
  by (auto simp: read_instance_revision_def monad Let_def split: if_splits option.splits)

lemma read_instance_revision_id:
  assumes "read_instance_revision lib t i f r = Inr b"
  shows "imf_revision_id (inb_manifest b) = r"
  using assms legacy_bundle_Some(1) by (auto simp: read_instance_revision_Inr read_directory_Inr split: if_splits)

lemma read_application_Inr:
  "read_application lib t i f r = Inr x \<longleftrightarrow>
     (case map_of (icf_applications f) r of
        None \<Rightarrow> x = None
      | Some y \<Rightarrow> \<exists>a b. y = Document a \<and> x = Some a \<and>
          length (icl_application_bytes lib a) \<le> max_config_file_bytes \<and> read_instance_revision lib t i f r = Inr b \<and>
          validate_receipt (inb_manifest b) a = Inr ())"
  by (auto simp: read_application_def monad split: option.splits)

definition good_pointer :: "instance_library \<Rightarrow> string \<Rightarrow> string \<Rightarrow> instance_pointer \<Rightarrow> bool" where
  "good_pointer lib t i s \<longleftrightarrow> icl_pointer_contract lib s = Inr () \<and>
     validate_public_config_tree (pointer_tree s) = Inr () \<and> ipt_task_id s = t \<and> ipt_instance_id s = i"

lemma read_instance_stored:
  assumes "icf_state f \<noteq> None"
  shows "read_instance lib t i f = Inr x \<longleftrightarrow> is_identifier t \<and> is_identifier i \<and>
    (\<exists>s b a. icf_state f = Some (Document s) \<and> length (icl_pointer_bytes lib s) \<le> max_config_file_bytes \<and>
      good_pointer lib t i s \<and>
      read_instance_revision lib t i f (ipt_current s) = Inr b \<and>
      (if imf_apply_status (inb_manifest b) = ''APPLIED'' then a = None
       else \<exists>y. a = Some y \<and> read_application lib t i f (ipt_current s) = Inr a) \<and>
      (\<forall>p. ipt_pending s = Some p \<longrightarrow> p \<noteq> ipt_current s \<and> (\<exists>q. read_instance_revision lib t i f p = Inr q)) \<and>
      x = Some \<lparr>icu_state = s, icu_bundle = b, icu_application = a, icu_legacy = False\<rparr>)"
proof (cases "\<exists>s. icf_state f = Some (Document s)")
  case True
  then obtain s where s: "icf_state f = Some (Document s)" by blast
  show ?thesis
    unfolding read_instance_def good_pointer_def
    by (cases "ipt_pending s") (auto simp: s monad split: if_splits)
qed (use assms in \<open>auto simp: read_instance_def monad\<close>)

lemma read_instance_active:
  assumes "read_instance lib t i f = Inr (Some c)"
  shows "active_id c = ipt_current (icu_state c)"
proof (cases "icf_state f = None")
  case True
  then show ?thesis
    using assms legacy_bundle_Some(1,3) by (auto simp: read_instance_def monad)
next
  case False
  then show ?thesis using assms read_instance_revision_id by (auto simp: read_instance_stored)
qed

lemma read_instance_state:
  assumes "icf_state f = Some (Document s)" and "read_instance lib t i f = Inr x"
  shows "\<exists>c. x = Some c \<and> icu_state c = s"
proof -
  have "icf_state f \<noteq> None" using assms(1) by simp
  from assms(2) [unfolded read_instance_stored [OF this]] assms(1) show ?thesis by auto
qed

section \<open>What the operations write\<close>

abbreviation bundle_files :: "instance_library \<Rightarrow> instance_manifest \<Rightarrow> config_tree \<Rightarrow> config_tree \<Rightarrow> revision_entry" where
  "bundle_files lib m runtime model \<equiv> Revision_Directory
     \<lparr>rvf_manifest = Some (Document m), rvf_runtime = Some (Raw (icl_dump_yaml lib runtime)),
      rvf_model = Some (Raw (icl_dump_yaml lib model)), rvf_others = []\<rparr>"

lemma ensure_root_Inr [monad]:
  "ensure_root lib f = (Inr u, g) \<longleftrightarrow> icl_directory lib ''instance'' = Inr () \<and>
     icl_directory lib ''runtime-config'' = Inr () \<and> g = f\<lparr>icf_root := True\<rparr>"
  by (auto simp: ensure_root_def ensure_private_def monad)

lemma ensure_root_Inl [monad]:
  "ensure_root lib f = (Inl e, g) \<longleftrightarrow> (icl_directory lib ''instance'' = Inl e \<or>
     icl_directory lib ''instance'' = Inr () \<and> icl_directory lib ''runtime-config'' = Inl e) \<and> g = f"
  by (auto simp: ensure_root_def ensure_private_def monad)

lemma publish_cases:
  assumes "publish_immutable_directory lib hook staging m rb mb f = (v, g)"
  obtains (failed) e ys where "v = Inl e" "g = f\<lparr>icf_revision_names := ys\<rparr>"
  | (same) p where "v = Inr False" "g = f" "map_of (icf_revisions f) (imf_revision_id m) = Some p"
      "verify_existing_directory lib (imf_revision_id m) p m rb mb = Inr ()"
  | (published) "map_of (icf_revisions f) (imf_revision_id m) = None"
      "g = f\<lparr>icf_revisions := (imf_revision_id m, Revision_Directory
        \<lparr>rvf_manifest = Some (Document m), rvf_runtime = Some (Raw rb), rvf_model = Some (Raw mb),
         rvf_others = []\<rparr>) # icf_revisions f\<rparr>"
      "v = (case hook ''after_revision_published'' of Inl e \<Rightarrow> Inl e | Inr _ \<Rightarrow> Inr True)"
proof -
  note def = publish_immutable_directory_def ensure_private_def
  have unchanged: thesis if "v = Inl e" "g = f" for e
    using failed [OF that(1), of "icf_revision_names f"] that(2) by simp
  show thesis
  proof (cases "icl_directory lib ''revisions''")
    case (Inl e)
    then show thesis using assms unchanged by (auto simp: def bindS_lift)
  next
    case made: (Inr u)
    show thesis
    proof (cases "map_of (icf_revisions f) (imf_revision_id m)")
      case None
      show thesis
      proof (cases "hook ''after_revision_staged''")
        case (Inl e)
        then show thesis
          using assms made None unchanged failed [of e "staging # icf_revision_names f"]
          by (cases "caught e") (auto simp: def run whenS_def throwS_def)
      next
        case (Inr w)
        then show thesis
          using assms made None published
          by (cases "hook ''after_revision_published''") (auto simp: def run returnS_def liftE_def)
      qed
    next
      case (Some p)
      then show thesis
        using assms made same [OF _ _ Some] unchanged
        by (cases "verify_existing_directory lib (imf_revision_id m) p m rb mb")
          (auto simp: def run returnS_def liftE_def)
    qed
  qed
qed

lemma write_revision_cases:
  assumes "write_revision lib hook staging t i m runtime model f = (v, g)"
  obtains (failed) e b ys where "v = Inl e" "g = f\<lparr>icf_root := b, icf_revision_names := ys\<rparr>"
  | (same) p where "v = Inr \<lparr>inb_manifest = m, inb_runtime = runtime, inb_model = model\<rparr>"
      "g = f\<lparr>icf_root := True\<rparr>" "map_of (icf_revisions f) (imf_revision_id m) = Some p"
      "verify_existing_directory lib (imf_revision_id m) p m (icl_dump_yaml lib runtime) (icl_dump_yaml lib model) = Inr ()"
      "check_bundle lib t i m runtime model = Inr ()" "is_identifier (imf_revision_id m)"
  | (published) "map_of (icf_revisions f) (imf_revision_id m) = None"
      "check_bundle lib t i m runtime model = Inr ()" "is_identifier (imf_revision_id m)"
      "g = f\<lparr>icf_root := True,
         icf_revisions := (imf_revision_id m, bundle_files lib m runtime model) # icf_revisions f\<rparr>"
      "v = (case hook ''after_revision_published'' of Inl e \<Rightarrow> Inl e
         | Inr _ \<Rightarrow> Inr \<lparr>inb_manifest = m, inb_runtime = runtime, inb_model = model\<rparr>)"
proof -
  let ?h = "f\<lparr>icf_root := True\<rparr>"
  let ?publish = "publish_immutable_directory lib hook staging m (icl_dump_yaml lib runtime) (icl_dump_yaml lib model)"
  have early: "f = f\<lparr>icf_root := icf_root f, icf_revision_names := icf_revision_names f\<rparr>"
    and later: "?h = f\<lparr>icf_root := True, icf_revision_names := icf_revision_names f\<rparr>" by simp_all
  show thesis
  proof (cases "check_bundle lib t i m runtime model = Inr () \<and> is_identifier (imf_revision_id m) \<and>
      list_all (\<lambda>n. icl_directory lib n = Inr ()) [''instance'', ''runtime-config'', ''proposals'', ''revisions'']")
    case ok: True
    obtain w h where h: "?publish ?h = (w, h)" by (cases "?publish ?h")
    have root: "ensure_root lib f = (Inr (), ?h)" using ok by (simp add: monad)
    have run: "g = h" "v = (case w of Inl e \<Rightarrow> Inl e | Inr _ \<Rightarrow>
        Inr \<lparr>inb_manifest = m, inb_runtime = runtime, inb_model = model\<rparr>)"
      using assms ok h
      by (cases w; simp add: write_revision_def ensure_private_def bindS_lift bindS_run(1) [where m = "ensure_root lib", OF root]
          bindS_run(1) [where m = ?publish] bindS_run(2) [where m = ?publish] returnS_def)+
    from h show thesis
    proof (cases rule: publish_cases)
      case (failed e ys)
      then show thesis using run that(1) by auto
    next
      case (same p)
      then show thesis using run that(2) ok by simp
    next
      case published
      then show thesis using run that(3) ok by (simp split: sum.splits)
    qed
  next
    case False
    have "\<exists>e. v = Inl e \<and> (g = f \<or> g = ?h)"
    proof (rule ccontr)
      assume no: "\<not> ?thesis"
      show False
        using assms False no unfolding write_revision_def ensure_private_def
        by (cases v) (auto simp: monad)
    qed
    then show thesis using failed early later by metis
  qed
qed

lemma record_application_cases:
  assumes "record_application lib t i r rc f = (v, g)"
  obtains (quiet) "g = f"
      "\<And>a. v = Inr a \<Longrightarrow> \<exists>old. map_of (icf_applications f) r = Some (Document old) \<and>
         icl_application_bytes lib old = icl_application_bytes lib (application_of t i r rc)"
  | (recorded) b where "map_of (icf_applications f) r = None" "v = Inr (application_of t i r rc)"
      "read_instance_revision lib t i f r = Inr b" "validate_receipt (inb_manifest b) rc = Inr ()"
      "validate_public_config_tree (application_tree (application_of t i r rc)) = Inr ()"
      "g = f\<lparr>icf_applications := (r, Document (application_of t i r rc)) # icf_applications f\<rparr>"
proof (cases "map_of (icf_applications f) r")
  case None
  show thesis
  proof (cases "g = f \<and> (\<exists>e. v = Inl e)")
    case False
    then show thesis
      using assms None recorded unfolding record_application_def ensure_private_def
      by (cases v) (auto simp: monad Let_def)
  qed (use quiet in auto)
next
  case (Some x)
  show thesis
    by (rule quiet; use assms Some in \<open>cases v; cases x;
      auto simp: record_application_def ensure_private_def monad Let_def\<close>)
qed

section \<open>Which files a reader depends on\<close>

lemma legacy_bundle_cong:
  "icf_legacy_runtime f = icf_legacy_runtime g \<Longrightarrow> icf_legacy_model f = icf_legacy_model g \<Longrightarrow>
     legacy_bundle lib t i f = legacy_bundle lib t i g"
  by (simp only: legacy_bundle_def)

lemma read_instance_revision_cong:
  "map_of (icf_revisions f) r = map_of (icf_revisions g) r \<Longrightarrow> icf_legacy_runtime f = icf_legacy_runtime g \<Longrightarrow>
     icf_legacy_model f = icf_legacy_model g \<Longrightarrow>
     read_instance_revision lib t i f r = read_instance_revision lib t i g r"
  using legacy_bundle_cong [of f g lib t i] by (simp only: read_instance_revision_def)

lemma read_instance_more_receipts:
  assumes "read_instance lib t i f = Inr c" and "map_of (icf_applications f) r = None"
  shows "read_instance lib t i (f\<lparr>icf_applications := (r, x) # icf_applications f\<rparr>) = Inr c"
proof -
  let ?g = "f\<lparr>icf_applications := (r, x) # icf_applications f\<rparr>"
  have revision: "read_instance_revision lib t i ?g k = read_instance_revision lib t i f k" for k
    by (rule read_instance_revision_cong) simp_all
  show ?thesis
  proof (cases "icf_state f = None")
    case True
    then show ?thesis using assms(1) legacy_bundle_cong [of ?g f lib t i] by (simp add: read_instance_def)
  next
    case False
    have "read_application lib t i ?g k = Inr (Some a)"
      if "read_application lib t i f k = Inr (Some a)" for k a
      using that assms(2) by (auto simp: read_application_Inr revision split: option.splits)
    then show ?thesis
      using assms(1) False unfolding read_instance_stored [OF False]
      by (auto simp: read_instance_stored revision split: if_splits)
  qed
qed

section \<open>Runs\<close>

text \<open>One step is one call of the store, whatever it returns or raises. The configurations that are
  written are dictionaries, as the annotations of the code say.\<close>

inductive instance_step :: "instance_library \<Rightarrow> string \<Rightarrow> string \<Rightarrow> instance_files \<Rightarrow> instance_files \<Rightarrow> bool"
  for lib t i where
  publish: "is_object runtime \<Longrightarrow> is_object model \<Longrightarrow>
    write_revision lib hook staging t i m runtime model f = (v, g) \<Longrightarrow> instance_step lib t i f g"
| activate: "set_current lib hook t i r n now rc f = (w, g) \<Longrightarrow> instance_step lib t i f g"
| pend: "set_pending lib t i r n now f = (w, g) \<Longrightarrow> instance_step lib t i f g"
| unpend: "clear_pending lib t i r n now f = (w, g) \<Longrightarrow> instance_step lib t i f g"
| acknowledge: "record_application lib t i r receipt f = (x, g) \<Longrightarrow> instance_step lib t i f g"
| recover: "recover_instance lib t i f = (y, g) \<Longrightarrow> instance_step lib t i f g"

abbreviation instance_run :: "instance_library \<Rightarrow> string \<Rightarrow> string \<Rightarrow> instance_files \<Rightarrow> instance_files \<Rightarrow> bool" where
  "instance_run lib t i \<equiv> (instance_step lib t i)\<^sup>*\<^sup>*"

definition accepted_pointer :: "instance_library \<Rightarrow> instance_pointer \<Rightarrow> bool" where
  "accepted_pointer lib s \<longleftrightarrow> icl_pointer_contract lib s = Inr () \<and>
     validate_public_config_tree (pointer_tree s) = Inr ()"

text \<open>The pointer that \<open>set_pending\<close> and \<open>clear_pending\<close> write.\<close>

definition moved_pending :: "instance_pointer \<Rightarrow> string option \<Rightarrow> string \<Rightarrow> instance_pointer" where
  "moved_pending s pending now =
     s\<lparr>ipt_pending := pending, ipt_revision := ipt_revision s + 1, ipt_updated_at := now\<rparr>"

text \<open>Recording the receipt of an activation.\<close>

definition recorded :: "instance_library \<Rightarrow> string \<Rightarrow> string \<Rightarrow> string \<Rightarrow> instance_files \<Rightarrow> instance_files \<Rightarrow> bool" where
  "recorded lib t i r f h \<longleftrightarrow> h = f \<or> (\<exists>a x. record_application lib t i r a f = (x, h))"

lemma recorded_self: "recorded lib t i r f f"
  by (simp add: recorded_def)

lemma accept_receipt_recorded: "accept_receipt lib t i r m rc f = (x, h) \<Longrightarrow> recorded lib t i r f h"
  by (cases x; cases rc) (auto simp: accept_receipt_def recorded_def monad)

lemma accept_receipt_stored:
  assumes "accept_receipt lib t i r m rc f = (Inr u, h)"
  shows "imf_apply_status m = ''APPLIED'' \<or> map_of (icf_applications h) r \<noteq> None"
proof (cases rc)
  case None
  then show ?thesis using assms by (simp add: accept_receipt_def monad)
next
  case (Some a)
  then obtain y where "record_application lib t i r a f = (Inr y, h)"
    using assms by (auto simp: accept_receipt_def monad)
  then show ?thesis by (cases rule: record_application_cases) auto
qed

lemma publish_pointer_cases:
  assumes "publish_pointer lib hook s h = (w, g)"
  obtains (unwritten) b where "g = h\<lparr>icf_root := b\<rparr>"
  | (written) "accepted_pointer lib s" "g = h\<lparr>icf_root := True, icf_state := Some (Document s)\<rparr>"
proof (cases "g = h\<lparr>icf_root := icf_root h\<rparr> \<or> g = h\<lparr>icf_root := True\<rparr>")
  case False
  then show thesis
    using assms written unfolding publish_pointer_def write_pointer_def accepted_pointer_def
    by (cases w) (auto simp: monad)
qed (use unwritten in blast)

lemma set_current_cases:
  assumes "set_current lib hook t i r n now rc f = (w, g)"
  obtains (stopped) h b where "recorded lib t i r f h" "g = h\<lparr>icf_root := b\<rparr>"
  | (moved) h c b s where "recorded lib t i r f h"
      "read_instance lib t i f = Inr c" "pointer_number c = n" "read_instance_revision lib t i f r = Inr b"
      "imf_parent (inb_manifest b) = map_option active_id c"
      "imf_apply_status (inb_manifest b) = ''APPLIED'' \<or> map_of (icf_applications h) r \<noteq> None"
      "s = next_pointer t i c r n now" "accepted_pointer lib s"
      "g = h\<lparr>icf_root := True, icf_state := Some (Document s)\<rparr>"
proof -
  let ?accept = "\<lambda>b :: instance_bundle. accept_receipt lib t i r (inb_manifest b) rc f"
  let ?moved = "\<lambda>c b h. read_instance lib t i f = Inr c \<and> pointer_number c = n \<and>
    read_instance_revision lib t i f r = Inr b \<and> ?accept b = (Inr (), h) \<and>
    imf_parent (inb_manifest b) = map_option active_id c \<and>
    publish_pointer lib hook (next_pointer t i c r n now) h = (w, g)"
  have "\<exists>c b h. ?moved c b h" if "g \<noteq> f" "\<And>b x. ?accept b \<noteq> (x, g)"
    using assms that unfolding set_current_def check_expected_def
    by (cases w) (auto simp: monad Let_def)
  moreover have same: "f = f\<lparr>icf_root := icf_root f\<rparr>" for f :: instance_files by simp
  ultimately consider (early) "g = f" | (accepting) b x where "?accept b = (x, g)"
    | (writing) c b h where "?moved c b h" by blast
  then show thesis
  proof cases
    case early
    then show thesis using stopped [OF recorded_self, of "icf_root f"] by simp
  next
    case accepting
    then show thesis using stopped [OF accept_receipt_recorded same] by blast
  next
    case writing
    then have rec: "recorded lib t i r f h" using accept_receipt_recorded by blast
    have "publish_pointer lib hook (next_pointer t i c r n now) h = (w, g)" using writing by simp
    then show thesis
    proof (cases rule: publish_pointer_cases)
      case (unwritten b)
      then show thesis using stopped [OF rec] by blast
    next
      case written
      then show thesis using moved [OF rec] writing accept_receipt_stored by blast
    qed
  qed
qed

lemma write_pending_cases:
  assumes "write_pending lib s p n now f = (w, g)" and "n = ipt_revision s"
  obtains (unwritten) "g = f"
  | (written) "accepted_pointer lib (moved_pending s p now)" "w = Inr (moved_pending s p now)"
      "g = f\<lparr>icf_state := Some (Document (moved_pending s p now))\<rparr>"
proof (cases "g = f")
  case False
  then show thesis
    using assms written unfolding write_pending_def write_pointer_def accepted_pointer_def moved_pending_def
    by (cases w) (auto simp: monad Let_def)
qed (use unwritten in blast)

lemma expected_pointer_Inr [monad]:
  "expected_pointer lib t i r n f = (Inr s, g) \<longleftrightarrow> is_identifier t \<and> is_identifier i \<and> is_identifier r \<and> g = f \<and>
     (\<exists>c. read_instance lib t i f = Inr (Some c) \<and> s = icu_state c \<and> ipt_revision s = n)"
  by (auto simp: expected_pointer_def check_expected_def monad split: option.splits)

lemma expected_pointer_Inl [monad]: "expected_pointer lib t i r n f = (Inl e, g) \<Longrightarrow> g = f"
  by (auto simp: expected_pointer_def check_expected_def monad split: option.splits)

lemma set_pending_cases:
  assumes "set_pending lib t i r n now f = (w, g)"
  obtains (unwritten) "g = f"
  | (written) c b where "read_instance lib t i f = Inr (Some c)" "ipt_pending (icu_state c) = None"
      "read_instance_revision lib t i f r = Inr b" "accepted_pointer lib (moved_pending (icu_state c) (Some r) now)"
      "g = f\<lparr>icf_state := Some (Document (moved_pending (icu_state c) (Some r) now))\<rparr>"
proof (cases "g = f")
  case False
  have "\<exists>c b. read_instance lib t i f = Inr (Some c) \<and> ipt_pending (icu_state c) = None \<and>
      read_instance_revision lib t i f r = Inr b \<and> ipt_revision (icu_state c) = n \<and>
      write_pending lib (icu_state c) (Some r) n now f = (w, g)"
    using assms False unfolding set_pending_def
    by (cases w) (auto simp: monad dest: expected_pointer_Inl split: if_splits)
  then obtain c b where c: "read_instance lib t i f = Inr (Some c)" "ipt_pending (icu_state c) = None"
    "read_instance_revision lib t i f r = Inr b" "n = ipt_revision (icu_state c)"
    and run: "write_pending lib (icu_state c) (Some r) n now f = (w, g)" by blast
  from write_pending_cases [OF run c(4)] written [OF c(1-3)] False show thesis by metis
qed (use unwritten in blast)

lemma clear_pending_cases:
  assumes "clear_pending lib t i r n now f = (w, g)"
  obtains (unwritten) "g = f"
  | (written) c where "read_instance lib t i f = Inr (Some c)"
      "accepted_pointer lib (moved_pending (icu_state c) None now)"
      "g = f\<lparr>icf_state := Some (Document (moved_pending (icu_state c) None now))\<rparr>"
proof (cases "g = f")
  case False
  have "\<exists>c. read_instance lib t i f = Inr (Some c) \<and> ipt_revision (icu_state c) = n \<and>
      write_pending lib (icu_state c) None n now f = (w, g)"
    using assms False unfolding clear_pending_def
    by (cases w) (auto simp: monad dest: expected_pointer_Inl split: if_splits)
  then obtain c where c: "read_instance lib t i f = Inr (Some c)" "n = ipt_revision (icu_state c)"
    and run: "write_pending lib (icu_state c) None n now f = (w, g)" by blast
  from write_pending_cases [OF run c(2)] written [OF c(1)] False show thesis by metis
qed (use unwritten in blast)

text \<open>What the writes of the store keep is kept by every run.\<close>

locale instance_frame =
  fixes lib :: instance_library and t i :: string and I :: "instance_files \<Rightarrow> bool"
  assumes tidied: "I f \<Longrightarrow> I (f\<lparr>icf_root := made, icf_root_names := xs, icf_revision_names := ys\<rparr>)"
    and published: "\<lbrakk>I f; is_object runtime; is_object model; map_of (icf_revisions f) (imf_revision_id m) = None;
      check_bundle lib t i m runtime model = Inr (); is_identifier (imf_revision_id m)\<rbrakk> \<Longrightarrow>
      I (f\<lparr>icf_revisions := (imf_revision_id m, bundle_files lib m runtime model) # icf_revisions f\<rparr>)"
    and applied: "\<lbrakk>I f; map_of (icf_applications f) r = None; read_instance_revision lib t i f r = Inr b;
      validate_receipt (inb_manifest b) a = Inr ()\<rbrakk> \<Longrightarrow>
      I (f\<lparr>icf_applications := (r, Document (application_of t i r a)) # icf_applications f\<rparr>)"
    and activated: "\<lbrakk>I f; read_instance lib t i f = Inr p; read_instance_revision lib t i f r = Inr b;
      imf_parent (inb_manifest b) = map_option active_id p;
      imf_apply_status (inb_manifest b) = ''APPLIED'' \<or> map_of (icf_applications f) r \<noteq> None;
      s = next_pointer t i p r (pointer_number p) now; accepted_pointer lib s\<rbrakk> \<Longrightarrow>
      I (f\<lparr>icf_state := Some (Document s)\<rparr>)"
    and pending: "\<lbrakk>I f; read_instance lib t i f = Inr (Some c); read_instance_revision lib t i f r = Inr b;
      s = moved_pending (icu_state c) (Some r) now; accepted_pointer lib s\<rbrakk> \<Longrightarrow>
      I (f\<lparr>icf_state := Some (Document s)\<rparr>)"
    and cleared: "\<lbrakk>I f; read_instance lib t i f = Inr (Some c); s = moved_pending (icu_state c) None now;
      accepted_pointer lib s\<rbrakk> \<Longrightarrow> I (f\<lparr>icf_state := Some (Document s)\<rparr>)"
begin

lemma frame_root: "I f \<Longrightarrow> I (f\<lparr>icf_root := b\<rparr>)"
  using tidied [where xs = "icf_root_names f" and ys = "icf_revision_names f", of f b] by simp

lemma frame_names: "I f \<Longrightarrow> I (f\<lparr>icf_root := b, icf_revision_names := ys\<rparr>)"
  using tidied [where xs = "icf_root_names f" and ys = ys, of f b] by simp

lemma frame_record:
  assumes "I f" and "record_application lib t i r a f = (x, g)"
  shows "I g"
  using assms(2) by (cases rule: record_application_cases) (use assms(1) applied in auto)

lemma frame_publish:
  assumes "I f" and "is_object runtime" "is_object model"
    and "write_revision lib hook staging t i m runtime model f = (v, g)"
  shows "I g"
  using assms(4)
proof (cases rule: write_revision_cases)
  case published': published
  let ?h = "f\<lparr>icf_revisions := (imf_revision_id m, bundle_files lib m runtime model) # icf_revisions f\<rparr>"
  have "g = ?h\<lparr>icf_root := True\<rparr>" using published'(4) by (cases f) simp
  then show ?thesis using frame_root [OF published [OF assms(1-3) published'(1-3)]] by simp
qed (use assms(1) frame_names frame_root in auto)

lemma frame_activate:
  assumes "I f" and "set_current lib hook t i r n now rc f = (w, g)"
  shows "I g"
proof -
  have kept: "I h" if "recorded lib t i r f h" for h
    using that assms(1) frame_record by (auto simp: recorded_def)
  from assms(2) show ?thesis
  proof (cases rule: set_current_cases)
    case (stopped h b)
    then show ?thesis using kept frame_root by blast
  next
    case (moved h c b s)
    have "read_instance lib t i h = Inr c \<and> read_instance_revision lib t i h r = Inr b"
      using moved(1) unfolding recorded_def
    proof (elim disjE exE)
      fix a x
      assume "record_application lib t i r a f = (x, h)"
      then show ?thesis
      proof (cases rule: record_application_cases)
        case (recorded b')
        have "read_instance_revision lib t i h r = read_instance_revision lib t i f r"
          by (rule read_instance_revision_cong) (simp_all add: recorded)
        then show ?thesis using moved(2,4) read_instance_more_receipts [OF moved(2) recorded(1)] recorded by simp
      qed (use moved in simp)
    qed (use moved in simp)
    then have "I (h\<lparr>icf_state := Some (Document s)\<rparr>)"
      using activated [OF kept [OF moved(1)]] moved by blast
    moreover have "g = h\<lparr>icf_state := Some (Document s)\<rparr>\<lparr>icf_root := True\<rparr>" using moved(9) by (cases h) simp
    ultimately show ?thesis using frame_root by simp
  qed
qed

lemma frame_recover: "keeps I (recover_instance lib t i)"
proof -
  have names: "I (f\<lparr>icf_root_names := xs\<rparr>)" "I (f\<lparr>icf_revision_names := ys\<rparr>)" if "I f" for f xs ys
    using tidied [OF that, where made = "icf_root f" and xs = xs and ys = "icf_revision_names f"]
      tidied [OF that, where made = "icf_root f" and xs = "icf_root_names f" and ys = ys] by simp_all
  show ?thesis
    unfolding recover_instance_def by (intro keeps_bind keeps_if keeps_pure keeps_modify names)
qed

lemma frame_step: "instance_step lib t i f g \<Longrightarrow> I f \<Longrightarrow> I g"
proof (induction rule: instance_step.induct)
  case (pend r n now f w g)
  from pend(1) show ?case by (cases rule: set_pending_cases) (use pend(2) pending in blast)+
next
  case (unpend r n now f w g)
  from unpend(1) show ?case by (cases rule: clear_pending_cases) (use unpend(2) cleared in blast)+
next
  case (publish runtime model hook staging m f v g)
  then show ?case using frame_publish by metis
next
  case (activate hook r n now rc f w g)
  then show ?case using frame_activate by metis
next
  case (acknowledge r receipt f x g)
  then show ?case using frame_record by metis
next
  case (recover f y g)
  then show ?case using keepsD [OF frame_recover] by metis
qed

lemma frame_run: "instance_run lib t i f g \<Longrightarrow> I f \<Longrightarrow> I g"
  by (induction rule: rtranclp_induct) (auto intro: frame_step)

end

end
