(* ===== verification/Instance_Config_Properties.thy ===== *)
theory Instance_Config_Properties imports Instance_Config_Frames begin

text \<open>
  What the runtime configuration of an instance promises over any run of its operations, with crashes at
  the checkpoints: published revisions and receipts never change, and the active pointer moves from a revision to
  one that names it as its parent. The other side: the active revision, once it is made pending, locks the
  instance out.
\<close>

section \<open>Published revisions\<close>

interpretation bundles: instance_frame lib t i "\<lambda>f. map_of (icf_revisions f) k = Some x" for lib t i k x
  by unfold_locales auto

interpretation receipts: instance_frame lib t i "\<lambda>f. map_of (icf_applications f) k = Some x" for lib t i k x
  by unfold_locales auto

text \<open>
  C33. Published revisions and receipts are immutable: whatever the store does later, the directory of a
  revision and the file of a receipt stay as they were.
\<close>

theorem published_bundle_final:
  assumes "instance_run lib t i f g"
  shows "(\<forall>k x. map_of (icf_revisions f) k = Some x \<longrightarrow> map_of (icf_revisions g) k = Some x) \<and>
    (\<forall>k x. map_of (icf_applications f) k = Some x \<longrightarrow> map_of (icf_applications g) k = Some x)"
  using bundles.frame_run [OF assms] receipts.frame_run [OF assms] by blast

section \<open>The line of active revisions\<close>

definition child_of :: "instance_files \<Rightarrow> string \<Rightarrow> string \<Rightarrow> bool" where
  "child_of f a b \<longleftrightarrow> (\<exists>d m. map_of (icf_revisions f) b = Some (Revision_Directory d) \<and>
     rvf_manifest d = Some (Document m) \<and> imf_parent m = Some a)"

definition moved_on :: "instance_pointer \<Rightarrow> instance_files \<Rightarrow> bool" where
  "moved_on s f \<longleftrightarrow> (\<exists>s'. icf_state f = Some (Document s') \<and>
     (child_of f)\<^sup>*\<^sup>* (ipt_current s) (ipt_current s') \<and> (s' = s \<or> ipt_revision s < ipt_revision s'))"

lemma child_of_cong: "icf_revisions f = icf_revisions g \<Longrightarrow> child_of f = child_of g"
  by (intro ext) (simp only: child_of_def)

lemma child_of_more:
  assumes "map_of (icf_revisions f) k = None" and "(child_of f)\<^sup>*\<^sup>* a b"
  shows "(child_of (f\<lparr>icf_revisions := (k, x) # icf_revisions f\<rparr>))\<^sup>*\<^sup>* a b"
  by (rule rtranclp_mono [THEN predicate2D, OF _ assms(2)]) (use assms(1) in \<open>auto simp: child_of_def\<close>)

lemma read_child:
  assumes "read_instance_revision lib t i f r = Inr b" and "imf_parent (inb_manifest b) = Some a"
  shows "child_of f a r"
  using assms legacy_bundle_Some(2)
  by (auto simp: read_instance_revision_Inr read_directory_Inr child_of_def files_of_def no_revision_files_def
      split: if_splits option.splits revision_entry.splits)

lemma moved_on_step:
  assumes "moved_on s f" and "read_instance lib t i f = Inr (Some c)"
    and "ipt_current s' = ipt_current (icu_state c) \<or> child_of f (ipt_current (icu_state c)) (ipt_current s')"
    and "ipt_revision s' = ipt_revision (icu_state c) + 1"
  shows "moved_on s (f\<lparr>icf_state := Some (Document s')\<rparr>)"
proof -
  let ?g = "f\<lparr>icf_state := Some (Document s')\<rparr>"
  obtain u where u: "icf_state f = Some (Document u)" "(child_of f)\<^sup>*\<^sup>* (ipt_current s) (ipt_current u)"
    "u = s \<or> ipt_revision s < ipt_revision u" using assms(1) unfolding moved_on_def by blast
  have c: "icu_state c = u" using read_instance_state [OF u(1) assms(2)] by simp
  have "(child_of f)\<^sup>*\<^sup>* (ipt_current s) (ipt_current s')"
    using u(2) assms(3) unfolding c by (auto intro: rtranclp.rtrancl_into_rtrancl)
  moreover have "child_of ?g = child_of f" by (rule child_of_cong) simp
  moreover have "ipt_revision s < ipt_revision s'" using u(3) assms(4) unfolding c by auto
  ultimately show ?thesis unfolding moved_on_def by auto
qed

lemma moved_on_same:
  "moved_on s f \<Longrightarrow> icf_state g = icf_state f \<Longrightarrow> icf_revisions g = icf_revisions f \<Longrightarrow> moved_on s g"
  using child_of_cong [of f g] by (simp add: moved_on_def)

interpretation lineage: instance_frame lib t i "moved_on s" for lib t i s
proof (unfold_locales, goal_cases)
  case (1 f ys xs made)
  then show ?case by (rule moved_on_same) simp_all
next
  case (2 f runtime model m)
  then show ?case using child_of_more [OF 2(4)] by (auto simp: moved_on_def)
next
  case (3 f r b a)
  from 3(1) show ?case by (rule moved_on_same) simp_all
next
  case (4 f p r b s' now)
  obtain u where u: "icf_state f = Some (Document u)" using 4(1) unfolding moved_on_def by blast
  obtain c where c: "p = Some c" "icu_state c = u" using read_instance_state [OF u 4(2)] by blast
  have "child_of f (ipt_current u) r"
    using read_child [OF 4(3)] 4(4) c read_instance_active [OF 4(2) [unfolded c(1)]] by simp
  then show ?case
    using moved_on_step [OF 4(1) 4(2) [unfolded c(1)], of s'] 4(6) c by (simp add: next_pointer_def pointer_number_def)
next
  case (5 f c r b s' now)
  then show ?case using moved_on_step [OF 5(1,2), of s'] by (simp add: moved_pending_def)
next
  case (6 f c s' now)
  then show ?case using moved_on_step [OF 6(1,2), of s'] by (simp add: moved_pending_def)
qed

text \<open>
  C19. The active configuration of an instance moves forward only: in every run the later active revision descends from
  the earlier one, parent by parent, and the number of the state identifies it, for a different state has a
  greater number. So a caller that names the number it read can never overwrite a state that it did not see.
\<close>

theorem active_revision_descends:
  assumes "icf_state f = Some (Document s)" and "instance_run lib t i f g"
  shows "\<exists>s'. icf_state g = Some (Document s') \<and> (child_of g)\<^sup>*\<^sup>* (ipt_current s) (ipt_current s') \<and>
    (s' = s \<or> ipt_revision s < ipt_revision s')"
  using lineage.frame_run [OF assms(2), of s] assms(1) unfolding moved_on_def by blast

section \<open>Locked out\<close>

definition self_pending :: "instance_files \<Rightarrow> bool" where
  "self_pending f \<longleftrightarrow> (\<exists>s. icf_state f = Some (Document s) \<and> ipt_pending s = Some (ipt_current s))"

lemma self_pending_unreadable: "self_pending f \<Longrightarrow> read_instance lib t i f \<noteq> Inr x"
  using read_instance_stored [of f lib t i x] by (auto simp: self_pending_def)

interpretation locked_out: instance_frame lib t i self_pending for lib t i
  by unfold_locales (auto simp: self_pending_unreadable, auto simp: self_pending_def)

lemma set_pending_written:
  assumes "set_pending lib t i r n now f = (Inr s, g)" and "read_instance lib t i f = Inr (Some c)"
    and "ipt_pending (icu_state c) = None"
  shows "g = f\<lparr>icf_state := Some (Document (moved_pending (icu_state c) (Some r) now))\<rparr>"
  using assms by (auto simp: set_pending_def write_pending_def write_pointer_def moved_pending_def monad Let_def)

text \<open>
  C38. The store accepts the active revision as the pending one, and no reader accepts the result: after that call
  the configuration of the instance is unreadable, and no operation of the store, recovery included, can repair it.
\<close>

theorem active_pending_stuck:
  assumes "read_instance lib t i f = Inr (Some c)" and "ipt_pending (icu_state c) = None"
    and "set_pending lib t i (active_id c) n now f = (Inr s, g)" and "instance_run lib t i g h"
  shows "\<exists>e. read_instance lib t i h = Inl e"
proof -
  have "self_pending g"
    using set_pending_written [OF assms(3,1,2)] read_instance_active [OF assms(1)]
    by (simp add: self_pending_def moved_pending_def)
  from locked_out.frame_run [OF assms(4) this] show ?thesis
    using self_pending_unreadable by (cases "read_instance lib t i h") blast+
qed

end
