(* ===== verification/Instance_Config_Lifecycle.thy ===== *)
theory Instance_Config_Lifecycle imports Instance_Config_Properties begin

text \<open>
  The life of a configuration revision of an instance: its identifier is fresh, what is published reads back
  for ever, it can be made active, and the configuration of the instance stays readable meanwhile. Each of
  these has the size limit of the readers, which the writers do not check, as its condition.
\<close>

section \<open>Readable configurations\<close>

definition good_receipts :: "instance_library \<Rightarrow> string \<Rightarrow> string \<Rightarrow> instance_files \<Rightarrow> bool" where
  "good_receipts lib t i f \<longleftrightarrow> (\<forall>k x. map_of (icf_applications f) k = Some x \<longrightarrow>
     (\<exists>a b. x = Document a \<and> read_instance_revision lib t i f k = Inr b \<and>
        validate_receipt (inb_manifest b) a = Inr ()))"

definition sound_pointer :: "instance_library \<Rightarrow> string \<Rightarrow> string \<Rightarrow> instance_files \<Rightarrow> bool" where
  "sound_pointer lib t i f \<longleftrightarrow> (\<forall>x. icf_state f = Some x \<longrightarrow> (\<exists>s b. x = Document s \<and> good_pointer lib t i s \<and>
     read_instance_revision lib t i f (ipt_current s) = Inr b \<and>
     (imf_apply_status (inb_manifest b) = ''APPLIED'' \<or> map_of (icf_applications f) (ipt_current s) \<noteq> None) \<and>
     (\<forall>p. ipt_pending s = Some p \<longrightarrow> (\<exists>q. read_instance_revision lib t i f p = Inr q))))"

definition good_instance :: "instance_library \<Rightarrow> string \<Rightarrow> string \<Rightarrow> instance_files \<Rightarrow> bool" where
  "good_instance lib t i f \<longleftrightarrow> is_identifier t \<and> is_identifier i \<and>
     icf_legacy_runtime f = None \<and> icf_legacy_model f = None \<and>
     good_receipts lib t i f \<and> sound_pointer lib t i f"

lemma no_legacy: "good_instance lib t i f \<Longrightarrow> legacy_bundle lib t i f = Inr None"
  by (simp add: good_instance_def legacy_bundle_def)

lemma readable_directory:
  assumes "legacy_bundle lib t i f = Inr None" and "read_instance_revision lib t i f k = Inr b"
  shows "map_of (icf_revisions f) k \<noteq> None"
proof
  assume "map_of (icf_revisions f) k = None"
  then show False
    using assms by (simp add: read_instance_revision_Inr read_directory_Inr files_of_def no_revision_files_def)
qed

lemma read_kept:
  assumes "legacy_bundle lib t i f = Inr None" and "map_of (icf_revisions f) r = None"
    and "read_instance_revision lib t i f k = Inr b"
  shows "read_instance_revision lib t i (f\<lparr>icf_revisions := (r, x) # icf_revisions f\<rparr>) k = Inr b"
proof -
  have "k \<noteq> r" using readable_directory [OF assms(1,3)] assms(2) by auto
  then have "read_instance_revision lib t i (f\<lparr>icf_revisions := (r, x) # icf_revisions f\<rparr>) k =
      read_instance_revision lib t i f k"
    by (intro read_instance_revision_cong) simp_all
  then show ?thesis using assms(3) by simp
qed

text \<open>The state file, or the receipt of the active revision, is too long for a reader.\<close>

definition overlong_instance :: "instance_library \<Rightarrow> instance_files \<Rightarrow> bool" where
  "overlong_instance lib f \<longleftrightarrow> (\<exists>s. icf_state f = Some (Document s) \<and>
     (max_config_file_bytes < length (icl_pointer_bytes lib s) \<or>
      (\<exists>a. map_of (icf_applications f) (ipt_current s) = Some (Document a) \<and>
         max_config_file_bytes < length (icl_application_bytes lib a))))"

lemma good_instance_readable:
  assumes "good_instance lib t i f" and "\<not> self_pending f" and "\<not> overlong_instance lib f"
  shows "\<exists>c. read_instance lib t i f = Inr c"
proof (cases "icf_state f")
  case None
  then show ?thesis
    using assms(1) no_legacy [OF assms(1)] by (auto simp: read_instance_def good_instance_def validate_scope_def)
next
  case (Some x)
  then obtain s b where s: "x = Document s" "good_pointer lib t i s"
    "read_instance_revision lib t i f (ipt_current s) = Inr b"
    "imf_apply_status (inb_manifest b) = ''APPLIED'' \<or> map_of (icf_applications f) (ipt_current s) \<noteq> None"
    "\<forall>p. ipt_pending s = Some p \<longrightarrow> (\<exists>q. read_instance_revision lib t i f p = Inr q)"
    using assms(1) unfolding good_instance_def sound_pointer_def by blast
  have receipt: "\<exists>y. read_application lib t i f (ipt_current s) = Inr (Some y)"
    if no: "imf_apply_status (inb_manifest b) \<noteq> ''APPLIED''"
  proof -
    obtain z where z: "map_of (icf_applications f) (ipt_current s) = Some z" using s(4) no by auto
    then obtain a b' where "z = Document a" "read_instance_revision lib t i f (ipt_current s) = Inr b'"
      "validate_receipt (inb_manifest b') a = Inr ()"
      using assms(1) unfolding good_instance_def good_receipts_def by blast
    then show ?thesis
      using z Some s(1) assms(3) by (auto simp: read_application_Inr overlong_instance_def not_less)
  qed
  have short: "length (icl_pointer_bytes lib s) \<le> max_config_file_bytes"
    using Some s(1) assms(3) by (auto simp: overlong_instance_def not_less)
  have pending: "p \<noteq> ipt_current s" if "ipt_pending s = Some p" for p
    using that assms(2) Some s(1) by (auto simp: self_pending_def)
  have stored: "icf_state f \<noteq> None" using Some by simp
  show ?thesis
    unfolding read_instance_stored [OF stored]
    using Some s pending receipt short assms(1) by (cases "imf_apply_status (inb_manifest b) = ''APPLIED''")
      (auto simp: good_instance_def)
qed

text \<open>A pointer to readable revisions may be written.\<close>

lemma good_instance_pointer:
  assumes "good_instance lib t i f" and "accepted_pointer lib s" "ipt_task_id s = t" "ipt_instance_id s = i"
    and "read_instance_revision lib t i f (ipt_current s) = Inr b"
    and "imf_apply_status (inb_manifest b) = ''APPLIED'' \<or> map_of (icf_applications f) (ipt_current s) \<noteq> None"
    and "\<And>p. ipt_pending s = Some p \<Longrightarrow> \<exists>q. read_instance_revision lib t i f p = Inr q"
  shows "good_instance lib t i (f\<lparr>icf_state := Some (Document s)\<rparr>)"
proof -
  have "read_instance_revision lib t i (f\<lparr>icf_state := Some (Document s)\<rparr>) k = read_instance_revision lib t i f k" for k
    by (rule read_instance_revision_cong) simp_all
  then show ?thesis
    using assms by (simp add: good_instance_def good_receipts_def sound_pointer_def good_pointer_def accepted_pointer_def)
qed

lemma good_instance_current:
  assumes "good_instance lib t i f" and "read_instance lib t i f = Inr (Some c)"
  shows "icf_state f = Some (Document (icu_state c))"
proof (cases "icf_state f")
  case None
  then show ?thesis using assms no_legacy [OF assms(1)] by (simp add: read_instance_def monad)
next
  case (Some x)
  then have "icf_state f \<noteq> None" by simp
  from assms(2) [unfolded read_instance_stored [OF this]] show ?thesis by auto
qed

lemma good_instance_move:
  assumes good: "good_instance lib t i f" and c: "read_instance lib t i f = Inr (Some c)"
    and s: "s = moved_pending (icu_state c) p now" and "accepted_pointer lib s"
    and pending: "\<And>k. p = Some k \<Longrightarrow> \<exists>q. read_instance_revision lib t i f k = Inr q"
  shows "good_instance lib t i (f\<lparr>icf_state := Some (Document s)\<rparr>)"
proof -
  from good good_instance_current [OF good c] obtain b where "good_pointer lib t i (icu_state c)"
    "read_instance_revision lib t i f (ipt_current (icu_state c)) = Inr b"
    "imf_apply_status (inb_manifest b) = ''APPLIED'' \<or> map_of (icf_applications f) (ipt_current (icu_state c)) \<noteq> None"
    unfolding good_instance_def sound_pointer_def by blast
  then show ?thesis
    using good_instance_pointer [OF good assms(4), of b] pending by (simp add: s moved_pending_def good_pointer_def)
qed

lemma validate_application:
  assumes "validate_receipt m a = Inr ()" and "imf_revision_id m = r"
  shows "validate_receipt m (application_of t i r a) = Inr ()"
  using assms by (auto simp: validate_receipt_def application_of_def monad)

text \<open>So do more revisions and more receipts.\<close>

lemma good_instance_more:
  assumes good: "good_instance lib t i f" and "icf_state g = icf_state f"
    "icf_legacy_runtime g = icf_legacy_runtime f" "icf_legacy_model g = icf_legacy_model f"
    and kept: "\<And>k b. read_instance_revision lib t i f k = Inr b \<Longrightarrow> read_instance_revision lib t i g k = Inr b"
    and receipts: "\<And>k x. map_of (icf_applications g) k = Some x \<Longrightarrow> map_of (icf_applications f) k = Some x \<or>
      (\<exists>a b. x = Document a \<and> read_instance_revision lib t i f k = Inr b \<and> validate_receipt (inb_manifest b) a = Inr ())"
    and more: "\<And>k. map_of (icf_applications f) k \<noteq> None \<Longrightarrow> map_of (icf_applications g) k \<noteq> None"
  shows "good_instance lib t i g"
proof -
  have "good_receipts lib t i g"
    unfolding good_receipts_def
  proof (intro allI impI)
    fix k x
    assume "map_of (icf_applications g) k = Some x"
    from receipts [OF this] good show "\<exists>a b. x = Document a \<and> read_instance_revision lib t i g k = Inr b \<and>
        validate_receipt (inb_manifest b) a = Inr ()"
      unfolding good_instance_def good_receipts_def using kept by metis
  qed
  moreover have "sound_pointer lib t i g"
    unfolding sound_pointer_def
  proof (intro allI impI)
    fix x
    assume "icf_state g = Some x"
    then obtain s b where "x = Document s" "good_pointer lib t i s"
      "read_instance_revision lib t i f (ipt_current s) = Inr b"
      "imf_apply_status (inb_manifest b) = ''APPLIED'' \<or> map_of (icf_applications f) (ipt_current s) \<noteq> None"
      "\<forall>p. ipt_pending s = Some p \<longrightarrow> (\<exists>q. read_instance_revision lib t i f p = Inr q)"
      using good assms(2) unfolding good_instance_def sound_pointer_def by auto
    then show "\<exists>s b. x = Document s \<and> good_pointer lib t i s \<and>
       read_instance_revision lib t i g (ipt_current s) = Inr b \<and>
       (imf_apply_status (inb_manifest b) = ''APPLIED'' \<or> map_of (icf_applications g) (ipt_current s) \<noteq> None) \<and>
       (\<forall>p. ipt_pending s = Some p \<longrightarrow> (\<exists>q. read_instance_revision lib t i g p = Inr q))"
      using kept more by blast
  qed
  ultimately show ?thesis using good assms(3,4) by (simp add: good_instance_def)
qed

interpretation readable: instance_frame lib t i "good_instance lib t i" for lib t i
proof (unfold_locales, goal_cases)
  case (1 f ys xs made)
  have "read_instance_revision lib t i (f\<lparr>icf_root := made, icf_root_names := xs, icf_revision_names := ys\<rparr>) k =
      read_instance_revision lib t i f k" for k
    by (rule read_instance_revision_cong) simp_all
  then show ?case using 1 by (simp add: good_instance_def good_receipts_def sound_pointer_def)
next
  case (2 f runtime model m)
  show ?case
    by (rule good_instance_more [OF 2(1)]) (use read_kept [OF no_legacy [OF 2(1)] 2(4)] in simp_all)
next
  case (3 f r b a)
  have same: "read_instance_revision lib t i (f\<lparr>icf_applications := (r, x) # icf_applications f\<rparr>) k =
      read_instance_revision lib t i f k" for k x
    by (rule read_instance_revision_cong) simp_all
  have "validate_receipt (inb_manifest b) (application_of t i r a) = Inr ()"
    using validate_application [OF 3(4) read_instance_revision_id [OF 3(3)]] .
  then show ?case
    using 3(3) by (intro good_instance_more [OF 3(1)]) (auto simp: same split: if_splits)
next
  case (4 f p r b s now)
  show ?case
    by (rule good_instance_pointer [OF 4(1,7)]) (use 4(3,5) in \<open>simp_all add: 4(6) next_pointer_def\<close>)
next
  case (5 f c r b s now)
  then show ?case using good_instance_move [OF 5(1,2,4,5)] by blast
next
  case (6 f c s now)
  then show ?case using good_instance_move [OF 6(1-4)] by blast
qed

text \<open>
  C18. An instance that starts without a configuration stays readable: in every run of the store every reader
  returns. There are only two ways to lose the configuration: the active revision is made pending, or a state, or a
  receipt of the active revision, of more than the four MiB that a reader takes is written.
\<close>

theorem instance_stays_readable:
  assumes "is_identifier t" and "is_identifier i" and "icf_state f = None" and "icf_applications f = []"
    and "icf_legacy_runtime f = None" and "icf_legacy_model f = None" and "instance_run lib t i f g"
  shows "(\<exists>c. read_instance lib t i g = Inr c) \<or>
    (\<exists>s. icf_state g = Some (Document s) \<and> ipt_pending s = Some (ipt_current s)) \<or>
    overlong_instance lib g"
proof -
  have "good_instance lib t i f"
    using assms(1-6) by (simp add: good_instance_def good_receipts_def sound_pointer_def)
  from good_instance_readable [OF readable.frame_run [OF assms(7) this]] show ?thesis
    unfolding self_pending_def by blast
qed

section \<open>Reading back\<close>

text \<open>Loading what was dumped gives an equal dictionary, so its text is the same, and it is as public.\<close>

definition faithful_yaml :: "instance_library \<Rightarrow> bool" where
  "faithful_yaml lib \<longleftrightarrow> (\<forall>v. is_object v \<longrightarrow> validate_public_config_tree v = Inr () \<longrightarrow>
     (\<exists>w. icl_load_yaml lib (icl_dump_yaml lib v) = Some w \<and> is_object w \<and>
        validate_public_config_tree w = Inr () \<and> icl_dump_yaml lib w = icl_dump_yaml lib v))"

definition fits :: "instance_library \<Rightarrow> config_tree \<Rightarrow> bool" where
  "fits lib v \<longleftrightarrow> length (icl_dump_yaml lib v) \<le> max_config_file_bytes"

definition bundle_fits :: "instance_library \<Rightarrow> instance_manifest \<Rightarrow> config_tree \<Rightarrow> config_tree \<Rightarrow> bool" where
  "bundle_fits lib m runtime model \<longleftrightarrow>
     length (icl_manifest_bytes lib m) \<le> max_config_file_bytes \<and> fits lib runtime \<and> fits lib model"

lemma check_bundle_Inr:
  "check_bundle lib t i m runtime model = Inr u \<longleftrightarrow> is_identifier t \<and> is_identifier i \<and>
     icl_manifest_contract lib m = Inr () \<and> imf_task_id m = t \<and> imf_instance_id m = i \<and>
     imf_parent m \<noteq> Some (imf_revision_id m) \<and> validate_public_config_tree runtime = Inr () \<and>
     validate_public_config_tree model = Inr () \<and>
     validate_hashes lib m (icl_dump_yaml lib runtime) (icl_dump_yaml lib model) = Inr ()"
  by (auto simp: check_bundle_def monad)

lemma read_bundle_files:
  assumes "faithful_yaml lib" and "is_object runtime" "is_object model"
    and "check_bundle lib t i m runtime model = Inr ()" and "is_identifier (imf_revision_id m)"
    and "map_of (icf_revisions f) (imf_revision_id m) = Some (bundle_files lib m runtime model)"
  shows "if bundle_fits lib m runtime model
    then \<exists>b. read_instance_revision lib t i f (imf_revision_id m) = Inr b \<and> inb_manifest b = m \<and>
      icl_dump_yaml lib (inb_runtime b) = icl_dump_yaml lib runtime \<and>
      icl_dump_yaml lib (inb_model b) = icl_dump_yaml lib model
    else \<exists>e. read_instance_revision lib t i f (imf_revision_id m) = Inl e"
proof (cases "bundle_fits lib m runtime model")
  case True
  note ok = assms(4) [unfolded check_bundle_Inr]
  obtain v where v: "icl_load_yaml lib (icl_dump_yaml lib runtime) = Some v" "is_object v"
    "validate_public_config_tree v = Inr ()" "icl_dump_yaml lib v = icl_dump_yaml lib runtime"
    using assms(1,2) ok unfolding faithful_yaml_def by blast
  obtain w where w: "icl_load_yaml lib (icl_dump_yaml lib model) = Some w" "is_object w"
    "validate_public_config_tree w = Inr ()" "icl_dump_yaml lib w = icl_dump_yaml lib model"
    using assms(1,3) ok unfolding faithful_yaml_def by blast
  have "read_instance_revision lib t i f (imf_revision_id m) = Inr \<lparr>inb_manifest = m, inb_runtime = v, inb_model = w\<rparr>"
    using True ok assms(5,6) v w
    by (simp add: read_instance_revision_Inr read_directory_Inr files_of_def fits_def bundle_fits_def)
  then show ?thesis using True v(4) w(4) by simp
next
  case False
  have "read_instance_revision lib t i f (imf_revision_id m) \<noteq> Inr b" for b
    using False assms(6)
    by (auto simp: read_instance_revision_Inr read_directory_Inr files_of_def fits_def bundle_fits_def)
  then have "\<exists>e. read_instance_revision lib t i f (imf_revision_id m) = Inl e"
    by (cases "read_instance_revision lib t i f (imf_revision_id m)") auto
  then show ?thesis by (simp only: False if_False)
qed

text \<open>
  C21. What is published reads back for ever: once a new revision has been written, every later reader gets its
  manifest and configurations with the same text as the ones written, provided that its three files fit in the limit of four
  MiB. Beyond the limit, which the writer does not check, the revision is never readable.
\<close>

theorem written_bundle_reads_back:
  assumes "faithful_yaml lib" and "is_object runtime" and "is_object model"
    and "map_of (icf_revisions f) (imf_revision_id m) = None"
    and "write_revision lib hook staging t i m runtime model f = (Inr b, g)" and "instance_run lib t i g h"
  shows "if bundle_fits lib m runtime model
    then \<exists>d. read_instance_revision lib t i h (imf_revision_id m) = Inr d \<and> inb_manifest d = m \<and>
      icl_dump_yaml lib (inb_runtime d) = icl_dump_yaml lib runtime \<and>
      icl_dump_yaml lib (inb_model d) = icl_dump_yaml lib model
    else \<exists>e. read_instance_revision lib t i h (imf_revision_id m) = Inl e"
  using assms(5)
proof (cases rule: write_revision_cases)
  case published
  have "map_of (icf_revisions h) (imf_revision_id m) = Some (bundle_files lib m runtime model)"
    by (rule bundles.frame_run [OF assms(6)]) (simp add: published(4))
  from read_bundle_files [OF assms(1-3) published(2,3) this] show ?thesis .
qed (use assms(4) in simp_all)

section \<open>Fresh identifiers\<close>

text \<open>The pattern of the contract.\<close>

definition six_digit_id :: "string \<Rightarrow> bool" where
  "six_digit_id s \<longleftrightarrow> take 10 s = ''cfg-inst-r'' \<and> length s = 16 \<and> list_all is_digit (drop 10 s)"

lemma instance_revision_sequence: "0 \<le> n \<Longrightarrow> revision_sequence (instance_revision_id n) = Inr n"
  using sequence_after_r [of n "''cfg-inst-''"] by (simp add: instance_revision_id_def)

lemma six_digit_id_sequence:
  assumes "six_digit_id (instance_revision_id n)"
  shows "revision_sequence (instance_revision_id n) = Inr n"
proof (rule instance_revision_sequence, rule ccontr)
  assume "\<not> 0 \<le> n"
  then have "hd (six_digits n) = CHR ''-''" "six_digits n \<noteq> []" by (simp_all add: six_digits_def Let_def)
  then show False
    using assms by (cases "six_digits n") (auto simp: six_digit_id_def instance_revision_id_def is_digit_def)
qed

lemma fresh_identifier:
  assumes "next_revision_id lib t i f = Inr r" and "six_digit_id r"
  shows "(\<forall>p. (r, p) \<in> set (icf_revisions f) \<longrightarrow> p = Other_Entry) \<and>
    (\<forall>c. read_instance lib t i f = Inr (Some c) \<longrightarrow> active_id c \<noteq> r)"
proof -
  from assms(1) obtain ns current ms where
    ns: "mapE revision_sequence (map fst (filter numbered_directory (icf_revisions f))) = Inr ns" and
    current: "read_instance lib t i f = Inr current" and
    ms: "(case current of None \<Rightarrow> Inr ns
      | Some c \<Rightarrow> bindE (revision_sequence (active_id c)) (\<lambda>n. Inr (ns @ [n]))) = Inr ms" and
    r: "r = instance_revision_id ((if ms = [] then 0 else Max (set ms)) + 1)"
    unfolding next_revision_id_def by (auto simp only: monad)
  define n where "n = (if ms = [] then 0 else Max (set ms)) + 1"
  have seq: "revision_sequence r = Inr n"
    using six_digit_id_sequence [of n] assms(2) unfolding r n_def by simp
  have below: "k < n" if "k \<in> set ms" for k
    using that Max_ge [of "set ms" k] by (auto simp: n_def)
  have subset: "set ns \<subseteq> set ms" using ms by (auto simp: monad split: option.splits)
  have "p = Other_Entry" if entry: "(r, p) \<in> set (icf_revisions f)" for p
  proof (rule ccontr)
    assume "p \<noteq> Other_Entry"
    then have "r \<in> set (map fst (filter numbered_directory (icf_revisions f)))"
      using entry assms(2) by (force simp: numbered_directory_def six_digit_id_def)
    from mapE_found [OF ns this] seq have "n \<in> set ns" by auto
    then show False using below subset by blast
  qed
  moreover have "active_id c \<noteq> r" if "read_instance lib t i f = Inr (Some c)" for c
  proof
    assume "active_id c = r"
    then have "n \<in> set ms" using ms that current seq by auto
    then show False using below by blast
  qed
  ultimately show ?thesis by blast
qed

text \<open>
  A new identifier is fresh: while the numbers have six digits, \<open>next_revision_id\<close> never names a published
  directory, nor the active revision.
\<close>

theorem next_instance_revision_fresh:
  assumes "next_revision_id lib t i f = Inr r" and "six_digit_id r"
  shows "(\<forall>p. (r, p) \<in> set (icf_revisions f) \<longrightarrow> p = Other_Entry) \<and>
    (\<forall>c. read_instance lib t i f = Inr (Some c) \<longrightarrow> active_id c \<noteq> r)"
  by (rule fresh_identifier [OF assms])

section \<open>Making a revision active\<close>

text \<open>Publishing a revision under a fresh identifier leaves the current configuration as it is.\<close>

lemma publishing_keeps_current:
  assumes c: "read_instance lib t i f = Inr c" and new: "map_of (icf_revisions f) r = None"
    and legacy: "r = first_instance_revision \<longrightarrow> legacy_bundle lib t i f = Inr None"
    and g: "g = f\<lparr>icf_root := True, icf_revisions := (r, x) # icf_revisions f\<rparr>"
  shows "read_instance lib t i g = Inr c"
proof -
  have revision: "read_instance_revision lib t i g k = Inr b" if "read_instance_revision lib t i f k = Inr b" for k b
  proof (cases "k = r")
    case True
    then have False
      using that new legacy
      by (auto simp: read_instance_revision_Inr read_directory_Inr files_of_def no_revision_files_def split: if_splits)
    then show ?thesis ..
  next
    case False
    then have "read_instance_revision lib t i g k = read_instance_revision lib t i f k"
      by (intro read_instance_revision_cong) (simp_all add: g)
    then show ?thesis using that by simp
  qed
  have app: "read_application lib t i g k = Inr a" if "read_application lib t i f k = Inr a" for k a
    using that revision by (auto simp: read_application_Inr g split: option.splits)
  show ?thesis
  proof (cases "icf_state f = None")
    case True
    then show ?thesis using c legacy_bundle_cong [of g f lib t i] by (simp add: read_instance_def g)
  next
    case False
    then have stored: "icf_state g \<noteq> None" by (simp add: g)
    from c [unfolded read_instance_stored [OF False]] obtain s b a where
      "icf_state f = Some (Document s)" "good_pointer lib t i s"
      "length (icl_pointer_bytes lib s) \<le> max_config_file_bytes" "is_identifier t" "is_identifier i"
      "read_instance_revision lib t i f (ipt_current s) = Inr b"
      "if imf_apply_status (inb_manifest b) = ''APPLIED'' then a = None
       else \<exists>y. a = Some y \<and> read_application lib t i f (ipt_current s) = Inr a"
      "\<forall>p. ipt_pending s = Some p \<longrightarrow> p \<noteq> ipt_current s \<and> (\<exists>q. read_instance_revision lib t i f p = Inr q)"
      "c = Some \<lparr>icu_state = s, icu_bundle = b, icu_application = a, icu_legacy = False\<rparr>" by blast
    moreover from this have "icf_state g = Some (Document s)" by (simp add: g)
    ultimately show ?thesis
      unfolding read_instance_stored [OF stored] using revision app
      by (cases "imf_apply_status (inb_manifest b) = ''APPLIED''") auto
  qed
qed

lemma write_new_revision:
  assumes "check_bundle lib t i m runtime model = Inr ()" and "is_identifier (imf_revision_id m)"
    and "map_of (icf_revisions f) (imf_revision_id m) = None"
    and works: "\<And>n. icl_directory lib n = Inr ()" "\<And>n. hook n = Inr ()"
  shows "write_revision lib hook staging t i m runtime model f =
    (Inr \<lparr>inb_manifest = m, inb_runtime = runtime, inb_model = model\<rparr>,
     f\<lparr>icf_root := True, icf_revisions := (imf_revision_id m, bundle_files lib m runtime model) # icf_revisions f\<rparr>)"
proof -
  have root: "ensure_root lib f = (Inr (), f\<lparr>icf_root := True\<rparr>)" using works by (simp add: monad)
  show ?thesis
    using assms
    by (simp add: write_revision_def publish_immutable_directory_def ensure_private_def run
        bindS_run(1) [where m = "ensure_root lib", OF root] returnS_def)
qed

lemma activate_published:
  assumes c: "read_instance lib t i f = Inr c" and b: "read_instance_revision lib t i f r = Inr b"
    and applied: "imf_apply_status (inb_manifest b) = ''APPLIED''"
    and parent: "imf_parent (inb_manifest b) = map_option active_id c"
    and s: "s = next_pointer t i c r (pointer_number c) now" "accepted_pointer lib s"
      "length (icl_pointer_bytes lib s) \<le> max_config_file_bytes"
    and works: "\<And>n. icl_directory lib n = Inr ()" "\<And>n. hook n = Inr ()"
  shows "\<exists>g. set_current lib hook t i r (pointer_number c) now None f = (Inr s, g) \<and>
    icf_state g = Some (Document s) \<and> icf_revisions g = icf_revisions f \<and>
    read_instance lib t i g = Inr (Some \<lparr>icu_state = s, icu_bundle = b, icu_application = None, icu_legacy = False\<rparr>)"
proof -
  have ids: "is_identifier t" "is_identifier i" "is_identifier r"
    using b by (simp_all add: read_instance_revision_Inr)
  let ?g = "f\<lparr>icf_root := True, icf_state := Some (Document s)\<rparr>"
  have accept: "accept_receipt lib t i r (inb_manifest b) None f = (Inr (), f)"
    by (simp add: accept_receipt_def applied run returnS_def)
  have publish: "publish_pointer lib hook s f = (Inr s, ?g)"
    using s(2) works by (simp add: publish_pointer_def accepted_pointer_def monad write_pointer_def)
  have "set_current lib hook t i r (pointer_number c) now None f = (Inr s, ?g)"
    using ids publish c b parent
    by (simp add: set_current_def run validate_scope_def check_expected_def Let_def bindS_run(1) [where m = "accept_receipt lib t i r (inb_manifest b) None", OF accept] s(1))
  moreover have "read_instance_revision lib t i ?g r = Inr b"
    using b read_instance_revision_cong [of ?g r f lib t i] by simp
  moreover have "good_pointer lib t i s" "ipt_current s = r" "ipt_pending s = None"
    using s(1,2) by (simp_all add: good_pointer_def accepted_pointer_def next_pointer_def)
  ultimately show ?thesis using ids applied s(3) by (auto simp: read_instance_stored)
qed


end
