(* ===== verification/Instance_Witnesses.thy ===== *)
theory Instance_Witnesses imports Instance_Config_Lifecycle Config_Witnesses begin

text \<open>
  The properties of instance configurations at a concrete run: a first revision is published and made
  active, a second one replaces it, and the active revision is made pending. The YAML of the sample library keeps the
  keys of a dictionary.
\<close>

section \<open>A library\<close>

fun unspelled :: "string \<Rightarrow> string \<Rightarrow> string list" where
  "unspelled acc [] = []"
| "unspelled acc [c] = [acc]"
| "unspelled acc (c # d # s) = (if c = CHR ''c'' then unspelled (acc @ [d]) s else acc # unspelled [] (d # s))"

lemma unspelled_spelled: "unspelled acc (spelled k @ s) = (acc @ k) # unspelled [] s"
proof (induction k arbitrary: acc)
  case Nil
  show ?case by (cases s) auto
qed simp

definition sample_dump :: "config_tree \<Rightarrow> string" where
  "sample_dump v = (case v of C_Dict _ ms \<Rightarrow> concat (map (\<lambda>(k, x). spelled (key_text k)) ms) | _ \<Rightarrow> [])"

definition key_dict :: "string list \<Rightarrow> config_tree" where
  "key_dict ks = C_Dict (Own ''yaml'') (map (\<lambda>k. (Key k, C_Null)) ks)"

definition sample_load :: "string \<Rightarrow> config_tree option" where
  "sample_load s = Some (key_dict (unspelled [] s))"

lemma unspelled_dump: "unspelled [] (concat (map (\<lambda>(k, x). spelled (key_text k)) ms)) = map (key_text \<circ> fst) ms"
  by (induction ms) (auto simp: unspelled_spelled)

lemma sample_dump_keys: "sample_dump (key_dict ks) = concat (map spelled ks)"
  by (simp add: sample_dump_def key_dict_def comp_def key_text_def)

lemma public_keys:
  "validate_members True 1 ms seen = Inr seen' \<Longrightarrow>
     validate_members True 1 (map (\<lambda>(k, x). (Key (key_text k), C_Null)) ms) seen'' = Inr seen''"
proof (induction ms arbitrary: seen)
  case (Cons e ms)
  obtain k x where e: "e = (k, x)" by (cases e)
  from Cons.prems have "check_key True k = Inr ()"
    "\<exists>u. validate_members True 1 ms u = Inr seen'" by (auto simp: e monad)
  moreover have "validate_node True 1 k C_Null u = Inr u" for k u by (subst validate_node.simps) simp
  ultimately show ?case
    using Cons.IH by (auto simp: e check_key_def key_text_def monad split: member_key.splits)
qed simp

definition sample_instance_library :: instance_library where
  "sample_instance_library =
     \<lparr>icl_manifest_contract = (\<lambda>_. Inr ()), icl_pointer_contract = (\<lambda>_. Inr ()),
      icl_manifest_bytes = imf_revision_id, icl_pointer_bytes = ipt_current, icl_application_bytes = (\<lambda>a. spelled (concat (map (case_option [] id)
        [rcp_branch_id a, rcp_checkpoint_id a, rcp_from_checkpoint a, rcp_applied_at a]))),
      icl_dump_yaml = sample_dump, icl_load_yaml = sample_load, icl_sha256 = (\<lambda>s. ''h''),
      icl_content_digest = (\<lambda>_. ''h''), icl_legacy_digest = (\<lambda>_. ''h''), icl_str = (\<lambda>_. ''None''),
      icl_directory = (\<lambda>_. Inr ())\<rparr>"

lemma sample_yaml: "faithful_yaml sample_instance_library"
  unfolding faithful_yaml_def
proof (intro allI impI)
  fix v
  assume "is_object v" and ok: "validate_public_config_tree v = Inr ()"
  then obtain j ms where v: "v = C_Dict j ms" by (auto simp: is_object_def split: config_tree.splits)
  define w where "w = key_dict (map (key_text \<circ> fst) ms)"
  have load: "sample_load (sample_dump v) = Some w"
    by (simp add: sample_load_def sample_dump_def v unspelled_dump w_def)
  have node: "validate_node True 0 [] (C_Dict i ms') [] =
      (if 512 < length ms' then Inl (invalid_public_value []) else validate_members True 1 ms' [i])" for i ms'
    by (subst validate_node.simps) simp
  from ok obtain seen where "length ms \<le> 512" "validate_members True 1 ms [j] = Inr seen"
    by (auto simp: validate_public_config_tree_def v node monad split: if_splits)
  then have "validate_public_config_tree w = Inr ()"
    using public_keys [of ms "[j]" seen "[Own ''yaml'']"]
    by (auto simp: validate_public_config_tree_def w_def key_dict_def comp_def split_def node monad)
  moreover have "sample_dump w = sample_dump v"
    unfolding w_def sample_dump_keys by (simp add: sample_dump_def v comp_def split_def)
  ultimately show "\<exists>w. icl_load_yaml sample_instance_library (icl_dump_yaml sample_instance_library v) = Some w \<and>
      is_object w \<and> validate_public_config_tree w = Inr () \<and>
      icl_dump_yaml sample_instance_library w = icl_dump_yaml sample_instance_library v"
    using load by (intro exI [of _ w]) (simp add: sample_instance_library_def is_object_def w_def key_dict_def)
qed

section \<open>A run\<close>

definition no_instance :: instance_files where
  "no_instance = \<lparr>icf_root = False, icf_state = None, icf_revisions = [], icf_applications = [],
     icf_legacy_runtime = None, icf_legacy_model = None, icf_root_names = [], icf_revision_names = []\<rparr>"

definition sample_runtime :: config_tree where
  "sample_runtime = C_Dict (Object 0) [(Key ''watermark'', C_Bool False)]"

definition sample_model :: config_tree where
  "sample_model = C_Dict (Object 1) [(Key ''models'', C_List (Object 2) [C_Text ''m''])]"

definition sample_manifest :: "string \<Rightarrow> string option \<Rightarrow> instance_manifest" where
  "sample_manifest r parent =
     build_manifest sample_instance_library ''t'' ''i'' r parent first_revision_id (C_Dict (Object 3) [])
       (C_Dict (Object 4) []) [(''intake_clarify'', ''m'')] sample_runtime sample_model (''human'', ''h'') ''1''
       (Some ''1'') ''before_start'' ''APPLIED'' None None (Some ''initial'')"

definition sample_write :: "instance_manifest \<Rightarrow> instance_bundle iop" where
  "sample_write m = write_revision sample_instance_library no_crash ''.s.tmp'' ''t'' ''i'' m sample_runtime sample_model"

definition first_manifest :: instance_manifest where
  "first_manifest = sample_manifest ''cfg-inst-r000001'' None"

definition second_manifest :: instance_manifest where
  "second_manifest = sample_manifest ''cfg-inst-r000002'' (Some ''cfg-inst-r000001'')"

definition activate_it :: "string \<Rightarrow> int \<Rightarrow> instance_files \<Rightarrow> instance_files" where
  "activate_it r n f = snd (set_current sample_instance_library no_crash ''t'' ''i'' r n ''2'' None f)"

definition published_instance :: instance_files where
  "published_instance = snd (sample_write first_manifest no_instance)"

definition active_instance :: instance_files where
  "active_instance = activate_it ''cfg-inst-r000001'' 0 published_instance"

definition replaced_instance :: instance_files where
  "replaced_instance = activate_it ''cfg-inst-r000002'' 1 (snd (sample_write second_manifest active_instance))"

definition stuck_instance :: instance_files where
  "stuck_instance = snd (set_pending sample_instance_library ''t'' ''i'' ''cfg-inst-r000001'' 1 ''3'' active_instance)"

lemma sample_objects: "is_object sample_runtime" "is_object sample_model"
  by (simp_all add: is_object_def sample_runtime_def sample_model_def)

lemma write_run: "instance_run sample_instance_library ''t'' ''i'' f (snd (sample_write m f))"
  unfolding sample_write_def
  by (intro r_into_rtranclp instance_step.publish [OF sample_objects]) (rule surjective_pairing)

lemma activate_run: "instance_run sample_instance_library ''t'' ''i'' f (activate_it r n f)"
  unfolding activate_it_def by (intro r_into_rtranclp instance_step.activate) (rule surjective_pairing)

lemma active_run: "instance_run sample_instance_library ''t'' ''i'' no_instance active_instance"
  unfolding active_instance_def published_instance_def
  by (rule rtranclp_trans [OF write_run activate_run])

lemma replaced_run: "instance_run sample_instance_library ''t'' ''i'' active_instance replaced_instance"
  unfolding replaced_instance_def by (rule rtranclp_trans [OF write_run activate_run])

lemma recover_run:
  "instance_run sample_instance_library ''t'' ''i'' f (snd (recover_instance sample_instance_library ''t'' ''i'' f))"
  by (intro r_into_rtranclp instance_step.recover) (rule surjective_pairing)

section \<open>Evaluation\<close>

lemma bundle_evaluated:
  "check_bundle sample_instance_library ''t'' ''i'' first_manifest sample_runtime sample_model = Inr ()"
  by code_simp

lemma pointer_evaluated:
  "accepted_pointer sample_instance_library (next_pointer ''t'' ''i'' None ''cfg-inst-r000001'' 0 ''2'')"
  by code_simp

declare is_identifier.simps [simp del]

lemma manifest_evaluated:
  "imf_revision_id first_manifest = ''cfg-inst-r000001''" "imf_parent first_manifest = None"
  "imf_apply_status first_manifest = ''APPLIED''" "first_instance_revision = ''cfg-inst-r000001''"
  by (simp_all add: first_manifest_def sample_manifest_def build_manifest_def Let_def first_instance_revision_def)

lemma identifiers_evaluated:
  "is_identifier ''t''" "is_identifier ''i''" "is_identifier ''cfg-inst-r000001''" "six_digit_id ''cfg-inst-r000001''"
  by (code_simp, code_simp, code_simp, code_simp)

lemma first_manifest_identifier: "is_identifier (imf_revision_id first_manifest)"
  by (simp only: manifest_evaluated identifiers_evaluated)

lemma sizes_evaluated: "fits sample_instance_library sample_runtime" "fits sample_instance_library sample_model"
  by (simp_all add: fits_def sample_instance_library_def sample_dump_def sample_runtime_def sample_model_def
      key_text_def max_config_file_bytes_def)

lemma manifest_size: "length (icl_manifest_bytes sample_instance_library first_manifest) \<le> max_config_file_bytes"
  by (simp add: sample_instance_library_def manifest_evaluated max_config_file_bytes_def)

lemma bundle_size: "bundle_fits sample_instance_library first_manifest sample_runtime sample_model"
  by (simp add: bundle_fits_def manifest_size sizes_evaluated)

lemma pointer_size:
  "length (icl_pointer_bytes sample_instance_library (next_pointer ''t'' ''i'' None ''cfg-inst-r000001'' 0 ''2''))
     \<le> max_config_file_bytes"
  by (simp add: sample_instance_library_def next_pointer_def max_config_file_bytes_def)

lemma sample_directories: "icl_directory sample_instance_library n = Inr ()"
  by (simp add: sample_instance_library_def)

lemma no_instance_evaluated:
  "icf_revisions no_instance = []"
  "read_instance sample_instance_library ''t'' ''i'' no_instance = Inr None"
  "next_revision_id sample_instance_library ''t'' ''i'' no_instance = Inr ''cfg-inst-r000001''"
  "legacy_bundle sample_instance_library ''t'' ''i'' no_instance = Inr None"
  by (code_simp, code_simp, code_simp, code_simp)

abbreviation sample_files :: revision_entry where
  "sample_files \<equiv> bundle_files sample_instance_library first_manifest sample_runtime sample_model"

lemma sample_written:
  "sample_write first_manifest no_instance =
     (Inr \<lparr>inb_manifest = first_manifest, inb_runtime = sample_runtime, inb_model = sample_model\<rparr>, published_instance)"
  "icf_revisions published_instance = [(''cfg-inst-r000001'', sample_files)]"
  "icf_state published_instance = None" "icf_legacy_runtime published_instance = None"
  "icf_legacy_model published_instance = None"
proof -
  have "sample_write first_manifest no_instance =
      (Inr \<lparr>inb_manifest = first_manifest, inb_runtime = sample_runtime, inb_model = sample_model\<rparr>,
       no_instance\<lparr>icf_root := True, icf_revisions := [(''cfg-inst-r000001'', sample_files)]\<rparr>)"
    unfolding sample_write_def
    using write_new_revision [OF bundle_evaluated first_manifest_identifier, of no_instance no_crash "''.s.tmp''"]
    by (simp add: manifest_evaluated sample_directories no_crash_def no_instance_def)
  then show
    "sample_write first_manifest no_instance =
       (Inr \<lparr>inb_manifest = first_manifest, inb_runtime = sample_runtime, inb_model = sample_model\<rparr>, published_instance)"
    "icf_revisions published_instance = [(''cfg-inst-r000001'', sample_files)]"
    "icf_state published_instance = None" "icf_legacy_runtime published_instance = None"
    "icf_legacy_model published_instance = None"
    by (simp_all add: published_instance_def no_instance_def)
qed

definition first_pointer :: instance_pointer where
  "first_pointer = next_pointer ''t'' ''i'' None ''cfg-inst-r000001'' 0 ''2''"

lemma sample_active:
  obtains b where "inb_manifest b = first_manifest" "icf_state active_instance = Some (Document first_pointer)"
    "icf_revisions active_instance = [(''cfg-inst-r000001'', sample_files)]"
    "read_instance_revision sample_instance_library ''t'' ''i'' active_instance ''cfg-inst-r000001'' = Inr b"
    "read_instance sample_instance_library ''t'' ''i'' active_instance =
       Inr (Some \<lparr>icu_state = first_pointer, icu_bundle = b, icu_application = None, icu_legacy = False\<rparr>)"
proof -
  have "map_of (icf_revisions published_instance) (imf_revision_id first_manifest) = Some sample_files"
    by (simp add: sample_written manifest_evaluated)
  from read_bundle_files [OF sample_yaml sample_objects bundle_evaluated first_manifest_identifier this] obtain b where
    b: "read_instance_revision sample_instance_library ''t'' ''i'' published_instance ''cfg-inst-r000001'' = Inr b"
      "inb_manifest b = first_manifest"
    by (auto simp: manifest_evaluated bundle_size)
  have current: "read_instance sample_instance_library ''t'' ''i'' published_instance = Inr None"
    by (simp add: read_instance_def validate_scope_def identifiers_evaluated legacy_bundle_def sample_written)
  have "\<exists>g. set_current sample_instance_library no_crash ''t'' ''i'' ''cfg-inst-r000001'' (pointer_number None)
      ''2'' None published_instance = (Inr first_pointer, g) \<and> icf_state g = Some (Document first_pointer) \<and>
    icf_revisions g = icf_revisions published_instance \<and>
    read_instance sample_instance_library ''t'' ''i'' g =
      Inr (Some \<lparr>icu_state = first_pointer, icu_bundle = b, icu_application = None, icu_legacy = False\<rparr>)"
    by (rule activate_published [OF current b(1)])
      (use pointer_evaluated pointer_size in \<open>simp_all add: b(2) manifest_evaluated first_pointer_def pointer_number_def
        sample_directories no_crash_def\<close>)
  then have active: "icf_state active_instance = Some (Document first_pointer)"
    "icf_revisions active_instance = icf_revisions published_instance"
    "read_instance sample_instance_library ''t'' ''i'' active_instance =
      Inr (Some \<lparr>icu_state = first_pointer, icu_bundle = b, icu_application = None, icu_legacy = False\<rparr>)"
    by (auto simp: active_instance_def activate_it_def pointer_number_def)
  have "read_instance_revision sample_instance_library ''t'' ''i'' active_instance ''cfg-inst-r000001'' = Inr b"
    using active(1,3) read_instance_stored [of active_instance sample_instance_library "''t''" "''i''"]
    by (auto simp: first_pointer_def next_pointer_def)
  then show thesis using that [OF b(2) active(1)] active(2,3) sample_written(2) by simp
qed

section \<open>Witnesses\<close>

theorem published_bundle_final_witness:
  "map_of (icf_revisions published_instance) ''cfg-inst-r000001'' = Some sample_files \<and>
   map_of (icf_revisions active_instance) ''cfg-inst-r000001'' = Some sample_files"
proof -
  have "instance_run sample_instance_library ''t'' ''i'' published_instance active_instance"
    unfolding active_instance_def by (rule activate_run)
  from published_bundle_final [OF this] show ?thesis by (simp add: sample_written(2))
qed

theorem active_revision_descends_witness:
  "\<exists>s. icf_state replaced_instance = Some (Document s) \<and>
    (child_of replaced_instance)\<^sup>*\<^sup>* (ipt_current first_pointer) (ipt_current s) \<and>
    (s = first_pointer \<or> ipt_revision first_pointer < ipt_revision s)"
proof -
  obtain b where "icf_state active_instance = Some (Document first_pointer)" by (rule sample_active)
  from active_revision_descends [OF this replaced_run] show ?thesis .
qed

lemma moved_evaluated: "accepted_pointer sample_instance_library (moved_pending first_pointer (Some ''cfg-inst-r000001'') ''3'')"
  by code_simp

theorem active_pending_stuck_witness:
  "\<exists>e. read_instance sample_instance_library ''t'' ''i'' (snd (recover_instance sample_instance_library ''t'' ''i'' stuck_instance)) = Inl e"
proof (rule sample_active)
  fix b
  let ?c = "\<lparr>icu_state = first_pointer, icu_bundle = b, icu_application = None, icu_legacy = False\<rparr>"
  assume b: "inb_manifest b = first_manifest"
    "read_instance_revision sample_instance_library ''t'' ''i'' active_instance ''cfg-inst-r000001'' = Inr b"
    "read_instance sample_instance_library ''t'' ''i'' active_instance = Inr (Some ?c)"
  have first: "ipt_pending first_pointer = None" "ipt_revision first_pointer = 1"
    by (simp_all add: first_pointer_def next_pointer_def)
  have "set_pending sample_instance_library ''t'' ''i'' ''cfg-inst-r000001'' 1 ''3'' active_instance =
      (Inr (moved_pending first_pointer (Some ''cfg-inst-r000001'') ''3''), stuck_instance)"
    using moved_evaluated first
    by (simp add: stuck_instance_def set_pending_def expected_pointer_def write_pending_def write_pointer_def
        check_expected_def accepted_pointer_def moved_pending_def validate_scope_def Let_def
        run b(2,3) identifiers_evaluated returnS_def)
  then show ?thesis
    using active_pending_stuck [OF b(3) _ _ recover_run] first
    by (simp add: b(1) manifest_evaluated)
qed

lemma no_receipts: "icf_applications active_instance = []"
  by code_simp

theorem instance_stays_readable_witness:
  "\<exists>c. read_instance sample_instance_library ''t'' ''i'' active_instance = Inr c"
proof -
  obtain b where state: "icf_state active_instance = Some (Document first_pointer)" by (rule sample_active)
  then have "\<not> overlong_instance sample_instance_library active_instance"
    using pointer_size by (simp add: overlong_instance_def no_receipts first_pointer_def)
  moreover have "ipt_pending first_pointer = None" by (simp add: first_pointer_def next_pointer_def)
  ultimately show ?thesis
    using instance_stays_readable [OF _ _ _ _ _ _ active_run] state
    by (auto simp: identifiers_evaluated no_instance_def)
qed

theorem written_bundle_reads_back_witness:
  "\<exists>d. read_instance_revision sample_instance_library ''t'' ''i'' replaced_instance ''cfg-inst-r000001'' = Inr d \<and>
    inb_manifest d = first_manifest"
proof -
  have "instance_run sample_instance_library ''t'' ''i'' published_instance replaced_instance"
    using activate_run [of published_instance "''cfg-inst-r000001''" 0] replaced_run
    unfolding active_instance_def by (rule rtranclp_trans)
  from written_bundle_reads_back [OF sample_yaml sample_objects _ sample_written(1) [unfolded sample_write_def] this]
  show ?thesis by (auto simp: bundle_size manifest_evaluated no_instance_def)
qed

theorem next_instance_revision_fresh_witness:
  "(\<forall>p. (''cfg-inst-r000001'', p) \<in> set (icf_revisions no_instance) \<longrightarrow> p = Other_Entry) \<and>
   (\<forall>c. read_instance sample_instance_library ''t'' ''i'' no_instance = Inr (Some c) \<longrightarrow> active_id c \<noteq> ''cfg-inst-r000001'')"
  by (rule next_instance_revision_fresh [OF no_instance_evaluated(3) identifiers_evaluated(4)])


end
