(* ===== verification/Spec2Isabelle.thy ===== *)
theory Spec2Isabelle
  imports Service_Witnesses Store_Witnesses Master_Witnesses Component_Witnesses Config_Witnesses Instance_Witnesses Task_Paths
begin

text \<open>
  The control plane of the agentic design harness: a model of the Python package
  \<^verbatim>\<open>src/backend/harness\<close> and what makes it correct. Paths below are relative to that package.

  \<^bold>\<open>The program.\<close> A task has one plan: stages in an order, each with instances of one Agent type
  (Image or Ppt), and task cards with the instructions of the instances. Commands from humans, from the
  Master (a language model) and from the system change plans, approvals, notifications and retry budgets. Every
  object is a JSON snapshot with a revision under the directory of its task; a write first appends an event
  with the new snapshot to the journal of the task and then replaces the file, so that a crash between the two is
  repaired at the next start by replaying the journal. A command carries an idempotency key, and its result is
  remembered under it. Stage and instance files are projections of the plan and are reconciled with it.

  \<^bold>\<open>The theories\<close>, in the order they build on each other:

  \<^item> \<open>Prelude\<close>: the error monad \<open>'a res\<close> (an exception or a value), the state and error monad \<open>op\<close> of the
    stateful code (a raise keeps the effects made before it, as in Python), the loops \<open>foldE\<close>,
    \<open>mapE\<close>, \<open>forS\<close>, dictionaries built from lists, and the rule collections \<open>monad\<close>, \<open>run\<close>, \<open>keeps_rules\<close>.
  \<^item> \<open>Errors\<close>, \<open>Contracts\<close>, \<open>Store_Types\<close>: \<^verbatim>\<open>core/errors.py\<close>, the identifiers of
    \<^verbatim>\<open>storage/layout.py\<close>, the stored objects of \<^verbatim>\<open>contracts/v1/schemas\<close> as records, the
    requests and results of commands, and the registry of \<^verbatim>\<open>contracts.py\<close>.
  \<^item> \<open>State_Machine\<close>, \<open>Plan_Rules\<close>, \<open>Plan_Edit\<close>: the transition tables, guarded transitions, aggregation
    of stages and tasks (\<^verbatim>\<open>domain/state_machine.py\<close>), the checks of a plan (\<^verbatim>\<open>domain/plan.py\<close>), and the pure
    plan arithmetic of \<^verbatim>\<open>domain/service.py\<close>. \<open>well_formed\<close> is the declarative statement that
    \<open>validate_plan\<close> decides.
  \<^item> \<open>Repository\<close>, \<open>Idempotency\<close>, \<open>File_Store\<close>: \<^verbatim>\<open>storage/repository.py\<close>,
    \<^verbatim>\<open>storage/idempotency.py\<close>, \<^verbatim>\<open>storage/store.py\<close> over the state \<open>store\<close>, the tree of files under the
    control root with the decoded journals. The fault-injection hook of a write is an argument, as in the code, so that a
    theorem can stop the write at each of its checkpoints.
  \<^item> \<open>Store_Recovery\<close>, \<open>Payload_Invariants\<close>, \<open>Projections\<close>, \<open>Aggregate_Commit\<close>: the commit protocol and
    recovery, invariants of everything stored or journalled, reconciliation of the projections, and the commit
    of a whole plan.
  \<^item> \<open>Task_Commands\<close>, \<open>Instance_Commands\<close>: every command handler of \<^verbatim>\<open>domain/service.py\<close>, each
    with its checks, in the order of the code, wrapped by \<open>idempotent\<close>. \<open>Command_Invariants\<close>,
    \<open>Handler_Frames\<close>, \<open>Plan_Properties\<close>: the invariant they keep, what none of them touches, and what the
    plan edits mean.
  \<^item> \<open>Approvals\<close>, \<open>Model_Calls\<close>, \<open>Retry_Lineage\<close>, \<open>Retry_Budget\<close>: \<^verbatim>\<open>services/approvals.py\<close>, the model-call
    records of \<^verbatim>\<open>services/supervisor_lifecycle.py\<close>, \<^verbatim>\<open>services/retry_lineage.py\<close>, and
    \<^verbatim>\<open>services/retry_budget.py\<close>. \<open>Service_Frames\<close>, \<open>Approval_Properties\<close>, \<open>Budget_Ledger\<close>,
    \<open>Budget_Properties\<close>: their invariants, finality of decisions, the ledger as a function of the attempts, and
    the bounds that every allowed retry respects.
  \<^item> \<open>System\<close>: the step relation of all of these together (commands, services, recovery), its runs
    \<open>system_run\<close>, and the invariants of every run.
  \<^item> \<open>Master_Plan\<close>, \<open>Plan_Draft\<close>, \<open>Source_Citations\<close>, \<open>Master_Properties\<close>: \<^verbatim>\<open>domain/master.py\<close>,
    \<^verbatim>\<open>services/plan_drafts.py\<close> and \<^verbatim>\<open>services/plan_proposals.py\<close>. A draft of the language
    model becomes a proposal, the proposal passes its checks, and what \<open>save_plan\<close> makes of it is well formed: the three
    properties of these theories are the links of that chain.
  \<^item> \<open>Usage\<close>, \<open>Usage_Properties\<close>: \<^verbatim>\<open>services/usage.py\<close>, the accounting of tokens, over the usage
    journal and the collection file of a task.
  \<^item> \<open>Journal_Files\<close>: \<^verbatim>\<open>storage/ndjson.py\<close>, the journals at the level of bytes. \<open>torn_append_repaired\<close> justifies that
    \<open>Repository\<close> treats the append of an event as one step.
  \<^item> \<open>Pagination\<close>, \<open>Config_Kernel\<close>, \<open>Task_Paths\<close>: \<^verbatim>\<open>api/pagination.py\<close>,
    \<^verbatim>\<open>core/config_kernel.py\<close>, \<^verbatim>\<open>storage/paths.py\<close>.
  \<^item> \<open>Config_Tree\<close>: the check of \<^verbatim>\<open>storage/config_revision_io.py\<close> that a configuration holds public values only,
    over any graph of values. \<open>public_config_iff\<close> is its declarative meaning.
  \<^item> \<open>Task_Config\<close>, \<open>Task_Config_Service\<close>, \<open>Task_Config_Properties\<close>: \<^verbatim>\<open>storage/task_config_revisions.py\<close> and
    \<^verbatim>\<open>services/task_config.py\<close>, the configuration baselines that a task pins, rebases and locks. The state is
    the directory of the task's revisions and its state file; the properties speak of all runs of its operations,
    crashes between the two writes of a commit included.
  \<^item> \<open>Instance_Config\<close>, \<open>Instance_Config_Frames\<close>, \<open>Instance_Config_Properties\<close>, \<open>Instance_Config_Lifecycle\<close>:
    \<^verbatim>\<open>storage/instance_config_revisions.py\<close>, the runtime configuration of one instance, over the state
    \<open>instance_files\<close> (revision directories, the state file, receipts, legacy files). The frames theory has
    the outcomes of every operation and the step relation; the last two have the properties: what is published never
    changes and reads back, the active revision only moves to descendants, the configuration stays readable within the size limit, and a
    next revision can be made active.
  \<^item> \<open>Sample_Environment\<close>, \<open>Sample_Run\<close>, \<open>Service_Run\<close>, and the theories whose name ends in
    \<open>Witnesses\<close>: concrete runs on which the properties are applied.

  \<^bold>\<open>Interfaces.\<close> \<open>write_once\<close> (a registry whose entries never change) is interpreted on the
  idempotency registry, \<open>revisioned_store\<close> (optimistic concurrency by revisions) on the snapshot
  repository. \<open>store_frame\<close>, \<open>step_frame\<close>, \<open>notice_frame\<close>, \<open>budget_frame\<close>, \<open>blind_frame\<close>, \<open>staying\<close> and
  \<open>notice_payloads\<close>, and \<open>config_frame\<close> and \<open>instance_frame\<close> for configurations, list the primitive writes of a layer: an invariant that these keep is kept by all operations built
  from them. Their interpretations give the invariants of all runs: journals only grow, results stay
  remembered, stored plans are good, decisions stay, ledgers are computed, attempts move forward.

  \<^bold>\<open>Parameters.\<close> What the code takes from libraries and from outside is an argument. \<open>environment\<close> holds the clock,
  fresh identifiers, digests, and the JSON-Schema validators; both supplies are indexed by a counter in the
  store, and no theorem assumes anything of a digest unless it says so. Several operations take the reading of the clock
  as the argument \<open>now\<close>. \<open>json_library\<close>, \<open>cursor_codec\<close>, \<open>usage_library\<close>, \<open>config_library\<close>, \<open>instance_library\<close> and the typed schemas of \<open>load_config\<close> are records
  or functions of the same kind. The named hypotheses on them are \<open>faithful_json\<close> (a record that was dumped loads
  again and its text has no line break), \<open>faithful_codec\<close> (a cursor decodes to what was encoded),
  \<open>faithful_text\<close> (revisions with the same text agree in identifier, parent, source and time) and \<open>faithful_yaml\<close> (a
  public dictionary that was dumped loads again, with the same text);
  each has a witness that instantiates it. Limits of the code itself are no such hypotheses: that cursors keep the 2048
  characters of \<^verbatim>\<open>_decode_cursor\<close> is \<open>short_cursors\<close>, and that the files of a configuration keep the four MiB of
  \<^verbatim>\<open>read_regular_bytes\<close>, which every reader of the model checks and no writer does, is \<open>commit_fits\<close> and
  \<open>bundle_fits\<close>; \<open>overlong\<close> and \<open>overlong_instance\<close> are the states that have become unreadable by it.

  \<^bold>\<open>Termination and bounds.\<close> Integers are unbounded, as in Python. Nearly all loops run over a list. The exceptions
  are functions with a termination proof: the depth-first search over work items (\<open>visit\<close>, each call is on an item that is not
  yet on its path), the walk up a chain of retries (each step visits an attempt not seen before), the walk through the
  ancestry of a configuration revision (likewise), the check of a configuration (by the depth that the code
  bounds), and the splitting of a journal into lines (the rest is shorter). The client \<open>walk\<close> of \<open>Pagination\<close> has fuel; \<open>pages_enumerate_list\<close>
  says that one request per item, and one more, is always enough.

  \<^bold>\<open>Concurrency.\<close> A section under a file lock is one step. Two callers interleave between such steps:
  \<open>no_lost_update\<close> and the theorems on runs quantify over every order of steps. Crashes inside a step are explicit.

  \<^bold>\<open>Files.\<close> A stored document stands for the text that the program writes for it, whose length counts for the
  limit. \<open>resolve_task_path\<close> is modelled over any file system; the approvals service resolves its request files
  in a workspace without links, since nothing that is modelled makes one.

  \<^bold>\<open>Not modelled.\<close> Operating-system work: locks, no-link opens, atomic renames, processes, sandboxes
  (\<^verbatim>\<open>storage/atomic.py\<close>, \<^verbatim>\<open>storage/locks.py\<close>, \<^verbatim>\<open>storage/safe_open.py\<close>, \<^verbatim>\<open>services/process_control.py\<close>,
  \<^verbatim>\<open>write_sandbox.py\<close> and the rest of the supervisor). Remote services and their clients
  (\<^verbatim>\<open>services/model_clients.py\<close>, \<^verbatim>\<open>adapters\<close>). The HTTP routes (\<^verbatim>\<open>api\<close>, apart from pagination) and the use cases in
  \<^verbatim>\<open>services/application.py\<close> and its siblings, which call the modelled services. The conversations of the
  Master (\<^verbatim>\<open>services/master_threads.py\<close>), whose content comes from a remote model, and the assets of a task, which are
  descriptors and media files of the operating system. Of the configuration, its YAML and environment files
  (third-party parsers), the rebase of a running task (\<^verbatim>\<open>services/task_config_rebase.py\<close>), and the settings service of
  instances (\<^verbatim>\<open>services/instance_runtime_settings.py\<close>, \<^verbatim>\<open>services/agent_config_materialization.py\<close>), which
  renders the files of external Agents and applies them remotely. Within modelled files: the free text of titles, messages and contexts that
  no modelled code reads back, the response schema of drafts, and the writer lease and legacy files of the store.
\<close>

end
